(* ===== verification/Prelude.thy ===== *)
theory Prelude
  imports Main "HOL-Library.Sublist" "HOL-Library.List_Lexorder" "HOL-Library.Char_ord"
begin

text \<open>
  Shared vocabulary of the development. Strings are lists of characters, each character standing
  for a Unicode scalar value up to U+00FF; a fallible Rust function returns a sum whose left side is
  the error. The collections below gather the facts the component proofs pass to the simplifier:
  \<open>str_simps\<close> characterises the string functions of \<open>Rust_Std\<close>, \<open>refs_simps\<close> counts the parameter
  markers of SQL text, \<open>res_splits\<close> are the case splits of fallible code.
\<close>

named_theorems str_simps
named_theorems refs_simps
named_theorems builder_simps

type_synonym ('e, 'a) result = "'e + 'a"

definition is_ok :: "('e, 'a) result \<Rightarrow> bool" where
  "is_ok r = (case r of Inl _ \<Rightarrow> False | Inr _ \<Rightarrow> True)"

lemma is_ok_simps [simp]: "\<not> is_ok (Inl e)" "is_ok (Inr v)"
  by (simp_all add: is_ok_def)

lemma is_ok_iff: "is_ok r \<longleftrightarrow> (\<exists>v. r = Inr v)"
  by (cases r) auto

fun unwrap_or :: "'a option \<Rightarrow> 'a \<Rightarrow> 'a" where
  "unwrap_or None d = d"
| "unwrap_or (Some v) d = v"

fun or_else :: "'a option \<Rightarrow> 'a option \<Rightarrow> 'a option" where
  "or_else None b = b"
| "or_else (Some v) b = Some v"

fun option_all :: "('a \<Rightarrow> bool) \<Rightarrow> 'a option \<Rightarrow> bool" where
  "option_all P None = True"
| "option_all P (Some v) = P v"

definition ok_or :: "'a option \<Rightarrow> 'e \<Rightarrow> ('e, 'a) result" where
  "ok_or x e = (case x of None \<Rightarrow> Inl e | Some v \<Rightarrow> Inr v)"

lemma ok_or_simps [simp]: "ok_or None e = Inl e" "ok_or (Some v) e = Inr v"
  by (simp_all add: ok_or_def)

lemma ok_or_eq_Inr [simp]: "ok_or x e = Inr v \<longleftrightarrow> x = Some v"
  by (cases x) auto

text \<open>A hash map whose iteration order matters is the list of its entries in that order.\<close>

type_synonym ('k, 'v) entries = "('k \<times> 'v) list"

definition wf_entries :: "('k, 'v) entries \<Rightarrow> bool" where
  "wf_entries m = distinct (map fst m)"

lemma map_of_in_entries: "wf_entries m \<Longrightarrow> map_of m k = Some v \<longleftrightarrow> (k, v) \<in> set m"
  by (auto simp: wf_entries_def dest: map_of_SomeD)

lemma map_of_perm:
  assumes "wf_entries m" "wf_entries m'" "set m = set m'"
  shows "map_of m = map_of m'"
proof
  fix k
  have "map_of m k = Some v \<longleftrightarrow> map_of m' k = Some v" for v
    using assms by (simp add: map_of_in_entries)
  then show "map_of m k = map_of m' k"
    by (metis option.exhaust)
qed

lemma set_tl_subset: "set (tl xs) \<subseteq> set xs"
  by (cases xs) auto

lemma find_Some_iff_first:
  "find P xs = Some x \<Longrightarrow> x \<in> set xs \<and> P x"
  by (metis find_Some_iff nth_mem)

lemma find_None_iff_all: "find P xs = None \<longleftrightarrow> (\<forall>x \<in> set xs. \<not> P x)"
  by (induction xs) auto

lemma takeWhile_append_stop:
  "(\<And>x. x \<in> set a \<Longrightarrow> P x) \<Longrightarrow> b = [] \<or> \<not> P (hd b) \<Longrightarrow> takeWhile P (a @ b) = a"
  by (induction a) (cases b; auto)+

lemma dropWhile_append_stop:
  "(\<And>x. x \<in> set a \<Longrightarrow> P x) \<Longrightarrow> b = [] \<or> \<not> P (hd b) \<Longrightarrow> dropWhile P (a @ b) = b"
  by (induction a) (cases b; auto)+

lemma takeWhile_id: "(\<And>x. x \<in> set xs \<Longrightarrow> P x) \<Longrightarrow> takeWhile P xs = xs"
  by (induction xs) auto

lemma dropWhile_none: "(\<And>x. x \<in> set xs \<Longrightarrow> P x) \<Longrightarrow> dropWhile P xs = []"
  by (induction xs) auto

text \<open>\<open>HashMap::insert\<close>, \<open>HashMap::remove\<close> and \<open>HashMap::retain\<close> on entries: the order of the others is kept.\<close>

fun entries_insert :: "'k \<Rightarrow> 'v \<Rightarrow> ('k, 'v) entries \<Rightarrow> ('k, 'v) entries" where
  "entries_insert k v [] = [(k, v)]"
| "entries_insert k v ((k', v') # m) = (if k' = k then (k, v) # m else (k', v') # entries_insert k v m)"

definition entries_remove :: "'k \<Rightarrow> ('k, 'v) entries \<Rightarrow> ('k, 'v) entries" where
  "entries_remove k m = filter (\<lambda>(k', _). k' \<noteq> k) m"

definition entries_retain :: "('k \<Rightarrow> 'v \<Rightarrow> bool) \<Rightarrow> ('k, 'v) entries \<Rightarrow> ('k, 'v) entries" where
  "entries_retain P m = filter (\<lambda>(k, v). P k v) m"

lemma map_of_entries_insert [simp]: "map_of (entries_insert k v m) = (map_of m)(k \<mapsto> v)"
  by (induction m rule: entries_insert.induct) auto

lemma keys_entries_insert [simp]: "fst ` set (entries_insert k v m) = insert k (fst ` set m)"
  by (induction m rule: entries_insert.induct) auto

lemma wf_entries_insert [simp]: "wf_entries m \<Longrightarrow> wf_entries (entries_insert k v m)"
proof (induction k v m rule: entries_insert.induct)
  case (2 k v k' v' m)
  then show ?case by (cases "k' = k") (simp_all add: wf_entries_def)
qed (simp add: wf_entries_def)

lemma map_of_entries_remove [simp]: "map_of (entries_remove k m) = (map_of m)(k := None)"
  by (induction m) (auto simp: entries_remove_def)

lemma wf_entries_remove [simp]: "wf_entries m \<Longrightarrow> wf_entries (entries_remove k m)"
  by (simp add: wf_entries_def entries_remove_def distinct_map_filter)

lemma wf_entries_retain [simp]: "wf_entries m \<Longrightarrow> wf_entries (entries_retain P m)"
  by (simp add: wf_entries_def entries_retain_def distinct_map_filter)

lemma map_of_entries_retain:
  "wf_entries m \<Longrightarrow> map_of (entries_retain P m) k
     = (case map_of m k of None \<Rightarrow> None | Some v \<Rightarrow> if P k v then Some v else None)"
proof (induction m)
  case (Cons e m)
  obtain k' v where e: "e = (k', v)" by (cases e)
  with Cons.prems have m: "wf_entries m" "map_of m k' = None"
    by (simp_all add: wf_entries_def map_of_eq_None_iff)
  with Cons.IH show ?case
    by (cases "k = k'") (simp_all add: e entries_retain_def)
qed (simp add: entries_retain_def)

lemma length_entries_insert_le: "length (entries_insert k v m) \<le> Suc (length m)"
  by (induction m rule: entries_insert.induct) auto

lemma length_entries_remove_le [simp]: "length (entries_remove k m) \<le> length m"
  by (simp add: entries_remove_def)

lemma length_entries_retain_le [simp]: "length (entries_retain P m) \<le> length m"
  by (simp add: entries_retain_def)

lemma wf_entries_Nil [simp]: "wf_entries []"
  by (simp add: wf_entries_def)

text \<open>States reached from the initial ones by steps, and the invariant rule.\<close>

inductive reachable :: "('s \<Rightarrow> bool) \<Rightarrow> ('s \<Rightarrow> 's \<Rightarrow> bool) \<Rightarrow> 's \<Rightarrow> bool" for initial step where
  reachable_initial: "initial s \<Longrightarrow> reachable initial step s"
| reachable_step: "reachable initial step s \<Longrightarrow> step s s' \<Longrightarrow> reachable initial step s'"

lemma reachable_invariant [consumes 1, case_names initial step]:
  assumes "reachable initial step s" "\<And>s. initial s \<Longrightarrow> I s" "\<And>s s'. step s s' \<Longrightarrow> I s \<Longrightarrow> I s'"
  shows "I s"
  using assms by (induction rule: reachable.induct) auto

end
