(* ===== verification/Rust_Std.thy ===== *)
theory Rust_Std
  imports Prelude "HOL-Library.Word"
begin

text \<open>
  The part of Rust's standard library the program uses on strings: prefixes and suffixes, search,
  splitting and joining, trimming, case mapping, decimal printing and parsing. Characters are the
  scalar values up to U+00FF, on which the Unicode tables of \<open>char::is_alphanumeric\<close>,
  \<open>char::is_whitespace\<close> and \<open>str::to_lowercase\<close> are written out. None of these definitions
  models code of the repository; each is the documented behaviour of the function it is named after.
\<close>

section \<open>Characters\<close>

definition ccode :: "char \<Rightarrow> nat" where
  "ccode c = of_char c"

definition is_digit :: "char \<Rightarrow> bool" where
  "is_digit c = (48 \<le> ccode c \<and> ccode c \<le> 57)"

definition is_ascii_alpha :: "char \<Rightarrow> bool" where
  "is_ascii_alpha c = ((65 \<le> ccode c \<and> ccode c \<le> 90) \<or> (97 \<le> ccode c \<and> ccode c \<le> 122))"

definition is_latin_letter :: "char \<Rightarrow> bool" where
  "is_latin_letter c = (ccode c \<in> {170, 181, 186} \<or> (192 \<le> ccode c \<and> ccode c \<noteq> 215 \<and> ccode c \<noteq> 247))"

definition is_latin_numeric :: "char \<Rightarrow> bool" where
  "is_latin_numeric c = (ccode c \<in> {178, 179, 185, 188, 189, 190})"

text \<open>\<open>char::is_alphanumeric\<close>: the derived property Alphabetic or one of the numeric categories.\<close>

definition is_alphanumeric :: "char \<Rightarrow> bool" where
  "is_alphanumeric c = (is_ascii_alpha c \<or> is_digit c \<or> is_latin_letter c \<or> is_latin_numeric c)"

definition is_whitespace :: "char \<Rightarrow> bool" where
  "is_whitespace c = (ccode c \<in> {9, 10, 11, 12, 13, 32, 133, 160})"

definition is_ascii_control :: "char \<Rightarrow> bool" where
  "is_ascii_control c = (ccode c < 32 \<or> ccode c = 127)"

text \<open>The regex class \<open>\w\<close> with Unicode enabled, on the scalar values modelled.\<close>

definition is_word :: "char \<Rightarrow> bool" where
  "is_word c = (is_ascii_alpha c \<or> is_digit c \<or> is_latin_letter c \<or> ccode c = 95)"

definition to_lower :: "char \<Rightarrow> char" where
  "to_lower c = (if (65 \<le> ccode c \<and> ccode c \<le> 90) \<or> (192 \<le> ccode c \<and> ccode c \<le> 222 \<and> ccode c \<noteq> 215)
     then char_of (ccode c + 32) else c)"

definition lowercase :: "string \<Rightarrow> string" where
  "lowercase s = map to_lower s"

definition to_upper_ascii :: "char \<Rightarrow> char" where
  "to_upper_ascii c = (if 97 \<le> ccode c \<and> ccode c \<le> 122 then char_of (ccode c - 32) else c)"

abbreviation quote_char :: char where
  "quote_char \<equiv> CHR 0x27"

abbreviation dquote_char :: char where
  "dquote_char \<equiv> CHR 0x22"

abbreviation backtick_char :: char where
  "backtick_char \<equiv> CHR 0x60"

section \<open>Prefixes, suffixes, search\<close>

fun strip_prefix :: "string \<Rightarrow> string \<Rightarrow> string option" where
  "strip_prefix [] s = Some s"
| "strip_prefix (p # ps) [] = None"
| "strip_prefix (p # ps) (c # cs) = (if p = c then strip_prefix ps cs else None)"

lemma strip_prefix_Some [simp]: "strip_prefix p s = Some r \<longleftrightarrow> s = p @ r"
  by (induction p s rule: strip_prefix.induct) auto

lemma strip_prefix_append [simp]: "strip_prefix p (p @ r) = Some r"
  by simp

lemma strip_prefix_None: "strip_prefix p s = None \<longleftrightarrow> \<not> prefix p s"
  by (metis not_None_eq prefix_def strip_prefix_Some)

definition starts_with :: "string \<Rightarrow> string \<Rightarrow> bool" where
  "starts_with s p = (strip_prefix p s \<noteq> None)"

lemma starts_with_prefix [str_simps]: "starts_with s p \<longleftrightarrow> prefix p s"
  by (simp add: starts_with_def strip_prefix_None)

definition strip_suffix :: "string \<Rightarrow> string \<Rightarrow> string option" where
  "strip_suffix p s = map_option rev (strip_prefix (rev p) (rev s))"

lemma strip_suffix_Some [simp]: "strip_suffix p s = Some r \<longleftrightarrow> s = r @ p"
  by (auto simp: strip_suffix_def) (metis rev_append rev_rev_ident)

definition ends_with :: "string \<Rightarrow> string \<Rightarrow> bool" where
  "ends_with s p = (strip_suffix p s \<noteq> None)"

lemma ends_with_suffix [str_simps]: "ends_with s p \<longleftrightarrow> suffix p s"
  by (auto simp: ends_with_def suffix_def)

fun contains_str :: "string \<Rightarrow> string \<Rightarrow> bool" where
  "contains_str [] p = (p = [])"
| "contains_str (c # cs) p = (starts_with (c # cs) p \<or> contains_str cs p)"

lemma contains_str_sublist [str_simps]: "contains_str s p \<longleftrightarrow> sublist p s"
  by (induction s p rule: contains_str.induct) (auto simp: starts_with_prefix sublist_Cons_right)

abbreviation (input) contains_char :: "string \<Rightarrow> char \<Rightarrow> bool" where
  "contains_char s c \<equiv> c \<in> set s"

text \<open>\<open>find\<close> followed by slicing: the text before the first occurrence and the text after it.\<close>

fun split_once_str :: "string \<Rightarrow> string \<Rightarrow> (string \<times> string) option" where
  "split_once_str p [] = (if p = [] then Some ([], []) else None)"
| "split_once_str p (c # cs) =
     (case strip_prefix p (c # cs) of
        Some r \<Rightarrow> Some ([], r)
      | None \<Rightarrow> map_option (\<lambda>(a, b). (c # a, b)) (split_once_str p cs))"

lemma split_once_str_Some: "split_once_str p s = Some (a, b) \<Longrightarrow> s = a @ p @ b"
proof (induction p s arbitrary: a rule: split_once_str.induct)
  case (2 p c cs)
  show ?case
  proof (cases "strip_prefix p (c # cs)")
    case None
    with "2.prems" obtain a' where "a = c # a'" "split_once_str p cs = Some (a', b)"
      by auto
    with "2.IH" [OF None] show ?thesis by simp
  next
    case (Some r)
    with "2.prems" show ?thesis by (simp del: strip_prefix.simps)
  qed
qed (simp split: if_splits)

lemma split_once_str_None: "split_once_str p s = None \<longleftrightarrow> \<not> sublist p s"
proof (induction p s rule: split_once_str.induct)
  case (2 p c cs)
  show ?case
  proof (cases "strip_prefix p (c # cs)")
    case None
    then have "\<not> prefix p (c # cs)" by (rule strip_prefix_None [THEN iffD1])
    with 2 [OF None] None show ?thesis
      by (auto simp: sublist_Cons_right simp del: strip_prefix.simps)
  next
    case (Some r)
    then have "c # cs = p @ r" by (simp only: strip_prefix_Some)
    then have "sublist p (c # cs)" by simp
    with Some show ?thesis by (simp del: strip_prefix.simps strip_prefix_Some)
  qed
qed simp

section \<open>Splitting and joining\<close>

text \<open>\<open>str::split\<close> on one character: always at least one piece.\<close>

fun split_on :: "char \<Rightarrow> string \<Rightarrow> string list" where
  "split_on c [] = [[]]"
| "split_on c (x # xs) =
     (if x = c then [] # split_on c xs
      else (case split_on c xs of [] \<Rightarrow> [[x]] | h # t \<Rightarrow> (x # h) # t))"

fun join :: "string \<Rightarrow> string list \<Rightarrow> string" where
  "join sep [] = []"
| "join sep [x] = x"
| "join sep (x # y # ys) = x @ sep @ join sep (y # ys)"

lemma split_on_not_Nil [simp]: "split_on c s \<noteq> []"
  by (induction s) (auto split: list.splits)

lemma join_split_on: "join [c] (split_on c s) = s"
proof (induction s)
  case (Cons x xs)
  then show ?case
    by (cases "split_on c xs") (auto simp: neq_Nil_conv, (metis join.simps list.exhaust append_Cons)+)
qed simp

lemma split_on_no_sep: "p \<in> set (split_on c s) \<Longrightarrow> c \<notin> set p"
  by (induction s arbitrary: p) (auto split: if_splits list.splits)

lemma split_on_chars: "p \<in> set (split_on c s) \<Longrightarrow> set p \<subseteq> set s"
  by (induction s arbitrary: p) (fastforce split: if_splits list.splits)+

lemma split_on_single: "c \<notin> set s \<Longrightarrow> split_on c s = [s]"
  by (induction s) auto

lemma split_on_append: "c \<notin> set a \<Longrightarrow> split_on c (a @ c # b) = a # split_on c b"
  by (induction a) auto

lemma join_Cons: "xs \<noteq> [] \<Longrightarrow> join sep (x # xs) = x @ sep @ join sep xs"
  by (cases xs) auto

lemma set_join: "set (join sep xs) \<subseteq> set sep \<union> \<Union> (set ` set xs)"
  by (induction sep xs rule: join.induct) auto

definition split_once :: "char \<Rightarrow> string \<Rightarrow> (string \<times> string) option" where
  "split_once c s = (if c \<in> set s then Some (takeWhile (\<lambda>x. x \<noteq> c) s, tl (dropWhile (\<lambda>x. x \<noteq> c) s)) else None)"

lemma split_once_Some: "split_once c s = Some (a, b) \<longleftrightarrow> s = a @ c # b \<and> c \<notin> set a"
proof
  assume *: "split_once c s = Some (a, b)"
  then have c: "c \<in> set s" by (auto simp: split_once_def split: if_splits)
  then have "dropWhile (\<lambda>x. x \<noteq> c) s \<noteq> []" by (auto simp: dropWhile_eq_Nil_conv)
  moreover from this have "hd (dropWhile (\<lambda>x. x \<noteq> c) s) = c"
    using hd_dropWhile by (metis (mono_tags, lifting))
  ultimately have "dropWhile (\<lambda>x. x \<noteq> c) s = c # b" using * c
    by (metis list.collapse Pair_inject option.inject split_once_def)
  moreover have "a = takeWhile (\<lambda>x. x \<noteq> c) s" using * c by (simp add: split_once_def)
  ultimately show "s = a @ c # b \<and> c \<notin> set a"
    by (metis (mono_tags, lifting) set_takeWhileD takeWhile_dropWhile_id)
next
  assume *: "s = a @ c # b \<and> c \<notin> set a"
  then have "takeWhile (\<lambda>x. x \<noteq> c) s = a" "dropWhile (\<lambda>x. x \<noteq> c) s = c # b"
    by (auto intro!: takeWhile_append_stop dropWhile_append_stop)
  with * show "split_once c s = Some (a, b)" by (simp add: split_once_def)
qed

text \<open>The parts around the last occurrence of a character, as \<open>rfind\<close> and slicing give them.\<close>

definition rsplit_once :: "char \<Rightarrow> string \<Rightarrow> (string \<times> string) option" where
  "rsplit_once c s = map_option (\<lambda>(a, b). (rev b, rev a)) (split_once c (rev s))"

lemma rsplit_once_Some: "rsplit_once c s = Some (a, b) \<longleftrightarrow> s = a @ c # b \<and> c \<notin> set b"
proof -
  have "split_once c (rev s) = Some (rev b, rev a) \<longleftrightarrow> s = a @ c # b \<and> c \<notin> set b"
    by (simp add: split_once_Some rev_swap)
  moreover have "rsplit_once c s = Some (a, b) \<longleftrightarrow> split_once c (rev s) = Some (rev b, rev a)"
    by (auto simp: rsplit_once_def)
  ultimately show ?thesis by simp
qed

lemma split_once_None: "split_once c s = None \<longleftrightarrow> c \<notin> set s"
  by (simp add: split_once_def)

lemma rsplit_once_None: "rsplit_once c s = None \<longleftrightarrow> c \<notin> set s"
  by (simp add: rsplit_once_def split_once_None)

section \<open>Trimming and replacing\<close>

definition trim_end_char :: "char \<Rightarrow> string \<Rightarrow> string" where
  "trim_end_char c s = rev (dropWhile (\<lambda>x. x = c) (rev s))"

definition trim_start_char :: "char \<Rightarrow> string \<Rightarrow> string" where
  "trim_start_char c s = dropWhile (\<lambda>x. x = c) s"

definition trim_char :: "char \<Rightarrow> string \<Rightarrow> string" where
  "trim_char c s = trim_end_char c (trim_start_char c s)"

definition trim :: "string \<Rightarrow> string" where
  "trim s = rev (dropWhile is_whitespace (rev (dropWhile is_whitespace s)))"

text \<open>\<open>trim_end_matches\<close> on a non-empty pattern removes it as often as it is a suffix.\<close>

function trim_end_str :: "string \<Rightarrow> string \<Rightarrow> string" where
  "trim_end_str p s =
     (if p = [] then s else case strip_suffix p s of None \<Rightarrow> s | Some r \<Rightarrow> trim_end_str p r)"
  by pat_completeness auto
termination
  by (relation "measure (\<lambda>(p, s). length s)") auto

declare trim_end_str.simps [simp del]

text \<open>\<open>str::replace\<close> with a non-empty pattern: non-overlapping occurrences from the left.\<close>

function replace_str :: "string \<Rightarrow> string \<Rightarrow> string \<Rightarrow> string" where
  "replace_str p r [] = []"
| "replace_str p r (c # cs) =
     (if p = [] then c # cs
      else case strip_prefix p (c # cs) of
             Some rest \<Rightarrow> r @ replace_str p r rest
           | None \<Rightarrow> c # replace_str p r cs)"
  by pat_completeness auto
termination
proof (relation "measure (\<lambda>(p, r, s). length s)")
  fix p r c cs rest
  assume "p \<noteq> ([] :: string)" "strip_prefix p (c # cs) = Some rest"
  then have "c # cs = p @ rest" "p \<noteq> []" by (simp_all del: strip_prefix.simps)
  then have "length (c # cs) = length p + length rest" "0 < length p" by simp_all
  then show "((p, r, rest), (p, r, c # cs)) \<in> measure (\<lambda>(p, r, s). length s)" by simp
qed auto

section \<open>Decimal numbers\<close>

definition digit_char :: "nat \<Rightarrow> char" where
  "digit_char n = char_of (48 + n)"

definition digit_val :: "char \<Rightarrow> int" where
  "digit_val c = int (ccode c) - 48"

fun show_nat :: "nat \<Rightarrow> string" where
  "show_nat n = (if n < 10 then [digit_char n] else show_nat (n div 10) @ [digit_char (n mod 10)])"

declare show_nat.simps [simp del]

definition show_int :: "int \<Rightarrow> string" where
  "show_int i = (if i < 0 then ''-'' @ show_nat (nat (- i)) else show_nat (nat i))"

fun digits_val :: "int \<Rightarrow> string \<Rightarrow> int" where
  "digits_val acc [] = acc"
| "digits_val acc (c # cs) = digits_val (10 * acc + digit_val c) cs"

text \<open>\<open>str::parse\<close> at an unsigned type: an optional plus sign, then digits, within the bound.\<close>

definition parse_unsigned :: "int \<Rightarrow> string \<Rightarrow> nat option" where
  "parse_unsigned bound s =
     (let d = (case s of c # cs \<Rightarrow> if c = CHR ''+'' then cs else s | [] \<Rightarrow> [])
      in if d \<noteq> [] \<and> list_all is_digit d \<and> digits_val 0 d \<le> bound then Some (nat (digits_val 0 d)) else None)"

abbreviation u64_max :: int where
  "u64_max \<equiv> 18446744073709551615"

abbreviation i64_max :: int where
  "i64_max \<equiv> 9223372036854775807"

abbreviation i64_min :: int where
  "i64_min \<equiv> - 9223372036854775808"

abbreviation parse_u64 :: "string \<Rightarrow> nat option" where
  "parse_u64 \<equiv> parse_unsigned u64_max"

definition parse_i64 :: "string \<Rightarrow> int option" where
  "parse_i64 s =
     (let neg = (case s of c # cs \<Rightarrow> c = CHR ''-'' | [] \<Rightarrow> False);
          d = (case s of c # cs \<Rightarrow> if c = CHR ''-'' \<or> c = CHR ''+'' then cs else s | [] \<Rightarrow> []);
          v = (if neg then - digits_val 0 d else digits_val 0 d)
      in if d \<noteq> [] \<and> list_all is_digit d \<and> i64_min \<le> v \<and> v \<le> i64_max then Some v else None)"

text \<open>
  \<open>str::parse::<f64>\<close>: \<open>None\<close> when the text is not a float literal, otherwise whether the value is
  finite. A decimal literal overflows to infinity from \<open>2^1024 - 2^970\<close> on, which rounds up.
\<close>

definition decimal_finite :: "int \<Rightarrow> int \<Rightarrow> bool" where
  "decimal_finite m e =
     (if 0 \<le> e then m * 10 ^ nat e < 2 ^ 1024 - 2 ^ 970 else m < (2 ^ 1024 - 2 ^ 970) * 10 ^ nat (- e))"

definition parse_exponent :: "string \<Rightarrow> int option" where
  "parse_exponent s =
     (case s of
        [] \<Rightarrow> Some 0
      | c # cs \<Rightarrow>
          if c = CHR ''e'' \<or> c = CHR ''E'' then
            (let neg = (cs \<noteq> [] \<and> hd cs = CHR ''-'');
                 d = (if cs \<noteq> [] \<and> (hd cs = CHR ''-'' \<or> hd cs = CHR ''+'') then tl cs else cs)
             in if d \<noteq> [] \<and> list_all is_digit d
                then Some (if neg then - digits_val 0 d else digits_val 0 d) else None)
          else None)"

definition parse_f64 :: "string \<Rightarrow> bool option" where
  "parse_f64 s =
     (let u = (if s \<noteq> [] \<and> (hd s = CHR ''-'' \<or> hd s = CHR ''+'') then tl s else s) in
      if lowercase u \<in> {''inf'', ''infinity'', ''nan''} then Some False
      else
        (let ip = takeWhile is_digit u; r1 = dropWhile is_digit u;
             fp = (if r1 \<noteq> [] \<and> hd r1 = CHR ''.'' then takeWhile is_digit (tl r1) else []);
             r2 = (if r1 \<noteq> [] \<and> hd r1 = CHR ''.'' then dropWhile is_digit (tl r1) else r1)
         in if ip @ fp = [] then None
            else map_option (\<lambda>e. decimal_finite (digits_val 0 (ip @ fp)) (e - int (length fp))) (parse_exponent r2)))"

definition parse_bool :: "string \<Rightarrow> bool option" where
  "parse_bool s = (if s = ''true'' then Some True else if s = ''false'' then Some False else None)"

lemma code_digit_char: "n < 10 \<Longrightarrow> ccode (digit_char n) = 48 + n"
  by (simp add: ccode_def digit_char_def)

lemma is_digit_digit_char [simp]: "n < 10 \<Longrightarrow> is_digit (digit_char n)"
  by (simp add: is_digit_def code_digit_char)

lemma digit_val_digit_char [simp]: "n < 10 \<Longrightarrow> digit_val (digit_char n) = int n"
  by (simp add: digit_val_def code_digit_char)

lemma show_nat_not_Nil [simp]: "show_nat n \<noteq> []"
  by (simp add: show_nat.simps [of n])

lemma show_nat_digits: "c \<in> set (show_nat n) \<Longrightarrow> is_digit c"
proof (induction n rule: show_nat.induct)
  case (1 n)
  show ?case
  proof (cases "n < 10")
    case True
    with "1.prems" show ?thesis by (simp add: show_nat.simps [of n])
  next
    case False
    with "1.prems" have "c \<in> set (show_nat (n div 10)) \<or> c = digit_char (n mod 10)"
      by (auto simp: show_nat.simps [of n])
    with "1.IH" [OF False] show ?thesis by auto
  qed
qed

lemma digits_val_append: "digits_val acc (a @ b) = digits_val (digits_val acc a) b"
  by (induction a arbitrary: acc) auto

lemma digits_val_show_nat [simp]: "digits_val 0 (show_nat n) = int n"
proof (induction n rule: show_nat.induct)
  case (1 n)
  then show ?case
    by (cases "n < 10") (simp_all add: show_nat.simps [of n] digits_val_append zdiv_int zmod_int)
qed

lemma show_nat_inj [simp]: "show_nat m = show_nat n \<longleftrightarrow> m = n"
  by (metis digits_val_show_nat of_nat_eq_iff)

lemma show_nat_hd_not_plus: "show_nat n = c # cs \<Longrightarrow> c \<noteq> CHR ''+'' \<and> c \<noteq> CHR ''-''"
  using show_nat_digits [of c n] by (auto simp: is_digit_def ccode_def)

lemma parse_u64_show_nat:
  assumes "int n \<le> u64_max"
  shows "parse_u64 (show_nat n) = Some n"
proof -
  obtain c cs where d: "show_nat n = c # cs" by (cases "show_nat n") auto
  with show_nat_hd_not_plus [OF d]
  have "(case show_nat n of c # cs \<Rightarrow> if c = CHR ''+'' then cs else show_nat n | [] \<Rightarrow> []) = show_nat n"
    by simp
  moreover have "list_all is_digit (show_nat n)"
    using show_nat_digits by (auto simp: list_all_iff)
  ultimately show ?thesis
    using assms by (simp add: parse_unsigned_def)
qed

lemma digits_val_nonneg: "list_all is_digit d \<Longrightarrow> 0 \<le> acc \<Longrightarrow> 0 \<le> digits_val acc d"
  by (induction d arbitrary: acc) (auto simp: digit_val_def is_digit_def)

lemma parse_unsigned_bound: "parse_unsigned b s = Some n \<Longrightarrow> int n \<le> b"
  by (auto simp: parse_unsigned_def Let_def digits_val_nonneg split: if_splits)

end
