(* ===== verification/Json.thy ===== *)
theory Json
  imports Rust_Std
begin

text \<open>
  \<open>serde_json::Value\<close> and the accessors the program calls on it. An object is the list of its
  entries in the order of serde_json's default map (a BTreeMap: sorted keys). A number is an integer
  in the u64/i64 range or the text of a binary64 value; floating-point arithmetic is never done by
  the code that is modelled. None of these definitions models code of the repository.
\<close>

datatype json =
    JNull
  | JBool bool
  | JInt int
  | JFloat string
  | JStr string
  | JArr "json list"
  | JObj "(string \<times> json) list"

fun as_str :: "json \<Rightarrow> string option" where
  "as_str (JStr s) = Some s"
| "as_str _ = None"

fun as_bool :: "json \<Rightarrow> bool option" where
  "as_bool (JBool b) = Some b"
| "as_bool _ = None"

fun as_i64 :: "json \<Rightarrow> int option" where
  "as_i64 (JInt i) = (if i \<le> i64_max then Some i else None)"
| "as_i64 _ = None"

fun as_u64 :: "json \<Rightarrow> nat option" where
  "as_u64 (JInt i) = (if 0 \<le> i then Some (nat i) else None)"
| "as_u64 _ = None"

fun as_array :: "json \<Rightarrow> json list option" where
  "as_array (JArr xs) = Some xs"
| "as_array _ = None"

fun as_object :: "json \<Rightarrow> (string \<times> json) list option" where
  "as_object (JObj kvs) = Some kvs"
| "as_object _ = None"

text \<open>\<open>Value::get\<close> on a key.\<close>

definition json_get :: "string \<Rightarrow> json \<Rightarrow> json option" where
  "json_get k v = (case as_object v of None \<Rightarrow> None | Some kvs \<Rightarrow> map_of kvs k)"

fun is_jnull :: "json \<Rightarrow> bool" where
  "is_jnull JNull = True"
| "is_jnull _ = False"

text \<open>\<open>serde_json::to_string\<close> and \<open>Display\<close>: the compact form.\<close>

definition hex_digit :: "nat \<Rightarrow> char" where
  "hex_digit n = (if n < 10 then char_of (48 + n) else char_of (87 + n))"

definition json_escape_char :: "char \<Rightarrow> string" where
  "json_escape_char c =
     (if ccode c = 34 \<or> ccode c = 92 then [CHR 0x5C, c]
      else if ccode c = 8 then [CHR 0x5C, CHR ''b'']
      else if ccode c = 9 then [CHR 0x5C, CHR ''t'']
      else if ccode c = 10 then [CHR 0x5C, CHR ''n'']
      else if ccode c = 12 then [CHR 0x5C, CHR ''f'']
      else if ccode c = 13 then [CHR 0x5C, CHR ''r'']
      else if ccode c < 32 then [CHR 0x5C, CHR ''u'', CHR ''0'', CHR ''0'', hex_digit (ccode c div 16), hex_digit (ccode c mod 16)]
      else [c])"

definition json_quote :: "string \<Rightarrow> string" where
  "json_quote s = [dquote_char] @ concat (map json_escape_char s) @ [dquote_char]"

fun json_text :: "json \<Rightarrow> string" where
  "json_text JNull = ''null''"
| "json_text (JBool b) = (if b then ''true'' else ''false'')"
| "json_text (JInt i) = show_int i"
| "json_text (JFloat t) = t"
| "json_text (JStr s) = json_quote s"
| "json_text (JArr vs) = ''['' @ join '','' (map json_text vs) @ '']''"
| "json_text (JObj kvs) = ''{'' @ join '','' (map (\<lambda>(k, v). json_quote k @ '':'' @ json_text v) kvs) @ ''}''"

text \<open>The \<open>Debug\<close> form of a string, quoted and escaped.\<close>

definition debug_char :: "char \<Rightarrow> string" where
  "debug_char c =
     (if c = dquote_char \<or> c = CHR 0x5C then [CHR 0x5C, c]
      else if c = CHR 0x09 then [CHR 0x5C, CHR ''t'']
      else if c = CHR 0x0A then [CHR 0x5C, CHR ''n'']
      else if c = CHR 0x0D then [CHR 0x5C, CHR ''r'']
      else if c = CHR 0x00 then [CHR 0x5C, CHR ''0'']
      else if is_ascii_control c
      then [CHR 0x5C, CHR ''u'', CHR ''{''] @ (let n = of_char c in (if n < 16 then [] else [hex_digit (n div 16)]) @ [hex_digit (n mod 16)]) @ ''}''
      else [c])"

definition debug_text :: "string \<Rightarrow> string" where
  "debug_text s = [dquote_char] @ concat (map debug_char s) @ [dquote_char]"

end
