(* ===== verification/App_Error.thy ===== *)
theory App_Error
  imports Json
begin

text \<open>
  The application's error type and its HTTP response (src/error.rs), and the storage layer's error
  type with its conversion (src/storage/error.rs). A path is the text \<open>Path::display\<close> prints; the
  library errors a variant wraps are the text \<open>Display\<close> prints for them. \<open>HeaderValue::from_str\<close>
  belongs to the http crate: the responses take its acceptance test \<open>header_ok\<close> as an argument.
  Logging is not modelled.
\<close>

section \<open>HTTP methods\<close>

datatype http_method = Get | Post | Put | Patch | Delete | Options | Head

fun http_method_str :: "http_method \<Rightarrow> string" where
  "http_method_str Get = ''GET''"
| "http_method_str Post = ''POST''"
| "http_method_str Put = ''PUT''"
| "http_method_str Patch = ''PATCH''"
| "http_method_str Delete = ''DELETE''"
| "http_method_str Head = ''HEAD''"
| "http_method_str Options = ''OPTIONS''"

text \<open>A request's method is any token; a configured method matches exactly one of them.\<close>

fun http_method_matches :: "http_method \<Rightarrow> string \<Rightarrow> bool" where
  "http_method_matches Get r = (r = ''GET'')"
| "http_method_matches Post r = (r = ''POST'')"
| "http_method_matches Put r = (r = ''PUT'')"
| "http_method_matches Patch r = (r = ''PATCH'')"
| "http_method_matches Delete r = (r = ''DELETE'')"
| "http_method_matches Head r = (r = ''HEAD'')"
| "http_method_matches Options r = (r = ''OPTIONS'')"

lemma http_method_matches_str: "http_method_matches m r \<longleftrightarrow> r = http_method_str m"
  by (cases m) simp_all

lemma http_method_str_inj: "http_method_str m = http_method_str n \<Longrightarrow> m = n"
  by (cases m; cases n) simp_all

section \<open>Errors\<close>

datatype app_error =
    ConfigurationError string
  | ValidationError string
  | DatabaseError string
  | AuthError string
  | AuthChallenge string string
  | Forbidden string
  | NotFound string
  | MethodNotAllowed string "http_method list"
  | RateLimited "nat option"
  | BadRequest string
  | JsonValidationError string "string list"
  | PayloadTooLarge string
  | ServiceUnavailable string
  | FileOperation string
  | Conflict string "string list"
  | Internal string
  | IoError string
  | BodyError string
  | ParseError string
  | RequestedRangeNotSatisfiable string "string option"

text \<open>The \<open>Display\<close> form the \<open>#[error]\<close> attributes give.\<close>

fun app_error_display :: "app_error \<Rightarrow> string" where
  "app_error_display (ConfigurationError e) = ''Configuration error: '' @ e"
| "app_error_display (ValidationError e) = ''Validation error: '' @ e"
| "app_error_display (DatabaseError e) = ''Database error: '' @ e"
| "app_error_display (AuthError e) = ''Authentication error: '' @ e"
| "app_error_display (AuthChallenge e _) = ''Authentication error: '' @ e"
| "app_error_display (Forbidden e) = ''Authorization error: '' @ e"
| "app_error_display (NotFound e) = ''Not found: '' @ e"
| "app_error_display (MethodNotAllowed e _) = ''Method not allowed: '' @ e"
| "app_error_display (RateLimited _) = ''Rate limited''"
| "app_error_display (BadRequest e) = ''Bad request: '' @ e"
| "app_error_display (JsonValidationError e _) = ''JSONB validation failed: '' @ e"
| "app_error_display (PayloadTooLarge e) = ''Payload too large: '' @ e"
| "app_error_display (ServiceUnavailable e) = ''Service unavailable: '' @ e"
| "app_error_display (FileOperation e) = ''File operation error: '' @ e"
| "app_error_display (Conflict e _) = ''Conflict: '' @ e"
| "app_error_display (Internal e) = ''Internal error: '' @ e"
| "app_error_display (IoError e) = ''IO error: '' @ e"
| "app_error_display (BodyError e) = ''Body extraction error: '' @ e"
| "app_error_display (ParseError e) = ''Parse error: '' @ e"
| "app_error_display (RequestedRangeNotSatisfiable e _) = ''Requested range not satisfiable: '' @ e"

text \<open>The first match of \<open>into_response\<close>: the status and the machine-readable code.\<close>

fun error_status_code :: "app_error \<Rightarrow> nat \<times> string" where
  "error_status_code (ConfigurationError _) = (500, ''config_error'')"
| "error_status_code (ValidationError _) = (500, ''validation_error'')"
| "error_status_code (DatabaseError _) = (500, ''database_error'')"
| "error_status_code (AuthError _) = (401, ''auth_error'')"
| "error_status_code (AuthChallenge _ _) = (401, ''auth_error'')"
| "error_status_code (Forbidden _) = (403, ''forbidden'')"
| "error_status_code (NotFound _) = (404, ''not_found'')"
| "error_status_code (RateLimited _) = (429, ''rate_limited'')"
| "error_status_code (BadRequest _) = (400, ''bad_request'')"
| "error_status_code (JsonValidationError _ _) = (400, ''bad_request'')"
| "error_status_code (Internal _) = (500, ''internal_error'')"
| "error_status_code (IoError _) = (500, ''io_error'')"
| "error_status_code (Conflict _ _) = (409, ''conflict'')"
| "error_status_code (MethodNotAllowed _ _) = (405, ''method_not_allowed'')"
| "error_status_code (PayloadTooLarge _) = (413, ''payload_too_large'')"
| "error_status_code (ServiceUnavailable _) = (503, ''service_unavailable'')"
| "error_status_code (FileOperation _) = (500, ''file_operation'')"
| "error_status_code (BodyError _) = (413, ''request_body_error'')"
| "error_status_code (ParseError _) = (400, ''json_parse_error'')"
| "error_status_code (RequestedRangeNotSatisfiable _ _) = (416, ''range_not_satisfiable'')"

text \<open>The second match: the details and the message shown to the client.\<close>

fun error_message :: "app_error \<Rightarrow> string list option \<times> string" where
  "error_message (DatabaseError _) = (None, ''A database error occurred'')"
| "error_message (ConfigurationError _) = (None, ''An internal error occurred'')"
| "error_message (ValidationError _) = (None, ''An internal error occurred'')"
| "error_message (FileOperation _) = (None, ''An internal error occurred'')"
| "error_message (Internal _) = (None, ''An internal error occurred'')"
| "error_message (IoError _) = (None, ''An internal error occurred'')"
| "error_message (Conflict m ds) = (Some ds, m)"
| "error_message e = (None, app_error_display e)"

fun error_headers :: "(string \<Rightarrow> bool) \<Rightarrow> app_error \<Rightarrow> (string \<times> string) list" where
  "error_headers header_ok (AuthChallenge _ challenge) =
     (if header_ok challenge then [(''www-authenticate'', challenge)] else [])"
| "error_headers header_ok (RateLimited (Some secs)) =
     (if header_ok (show_nat secs) then [(''retry-after'', show_nat secs)] else [])"
| "error_headers header_ok (MethodNotAllowed _ allowed) =
     (if allowed \<noteq> [] \<and> header_ok (join '', '' (map http_method_str allowed))
      then [(''allow'', join '', '' (map http_method_str allowed))] else [])"
| "error_headers header_ok (RequestedRangeNotSatisfiable _ (Some cr)) =
     (if header_ok cr then [(''content-range'', cr)] else [])"
| "error_headers header_ok _ = []"

record http_response =
  resp_status :: nat
  resp_headers :: "(string \<times> string) list"
  resp_body :: json

definition error_body :: "string \<Rightarrow> string \<Rightarrow> string list option \<Rightarrow> json" where
  "error_body cd msg details =
     JObj [(''error'', JObj ([(''code'', JStr cd), (''message'', JStr msg)] @
       (case details of None \<Rightarrow> [] | Some ds \<Rightarrow> [(''details'', JArr (map JStr ds))])))]"

definition into_response :: "(string \<Rightarrow> bool) \<Rightarrow> app_error \<Rightarrow> http_response" where
  "into_response header_ok e =
     (case error_status_code e of (st, cd) \<Rightarrow>
        (case e of
           JsonValidationError m ds \<Rightarrow>
             \<lparr> resp_status = st, resp_headers = [], resp_body = error_body ''bad_request'' m (Some ds) \<rparr>
         | _ \<Rightarrow>
             (case error_message e of (ds, m) \<Rightarrow>
                \<lparr> resp_status = st, resp_headers = error_headers header_ok e, resp_body = error_body cd m ds \<rparr>)))"

section \<open>Storage errors\<close>

datatype storage_error =
    StNotFound string
  | StAlreadyExists string
  | StDirectoryNotEmpty string
  | StForbidden string
  | StInvalidFilename string
  | StIo string string
  | StInvalidBackend string
  | StInternal string
  | StServiceUnavailable string
  | StAuthentication string

fun storage_to_app :: "storage_error \<Rightarrow> app_error" where
  "storage_to_app (StNotFound p) = NotFound (''File not found: '' @ p)"
| "storage_to_app (StAlreadyExists p) = FileOperation (''File already exists: '' @ p)"
| "storage_to_app (StDirectoryNotEmpty p) = FileOperation (''Directory not empty: '' @ p)"
| "storage_to_app (StForbidden m) = Forbidden m"
| "storage_to_app (StInvalidFilename m) = BadRequest (''Invalid filename: '' @ m)"
| "storage_to_app (StIo p e) = FileOperation (''File operation failed: '' @ p @ '': '' @ e)"
| "storage_to_app (StInvalidBackend m) = ConfigurationError (''Invalid storage backend: '' @ m)"
| "storage_to_app (StInternal m) = Internal m"
| "storage_to_app (StServiceUnavailable m) = ServiceUnavailable m"
| "storage_to_app (StAuthentication m) = AuthError m"

section \<open>What a client sees\<close>

text \<open>The errors whose text must not reach the client, and the text with which they are replaced.\<close>

definition is_sensitive :: "app_error \<Rightarrow> bool" where
  "is_sensitive e = (fst (error_status_code e) = 500)"

lemma is_sensitive_cases:
  "is_sensitive e \<longleftrightarrow> (\<exists>m. e \<in> {ConfigurationError m, ValidationError m, DatabaseError m, Internal m, IoError m, FileOperation m})"
  by (cases e) (auto simp: is_sensitive_def)

text \<open>The status of a response is the status of the error, and it is always a client or server error.\<close>

lemma into_response_status: "resp_status (into_response h e) = fst (error_status_code e)"
  by (simp add: into_response_def split: app_error.split prod.split)

lemma error_status_range: "400 \<le> fst (error_status_code e) \<and> fst (error_status_code e) \<le> 503"
  by (cases e) simp_all

text \<open>An error the server classifies as internal (status 500) is answered with a body that
  carries none of the error's own text, only its class and a fixed sentence, and with no header.\<close>

theorem internal_errors_opaque:
  assumes "fst (error_status_code e) = 500"
  shows "into_response header_ok e = \<lparr> resp_status = 500, resp_headers = [],
     resp_body = error_body (snd (error_status_code e))
       (if snd (error_status_code e) = ''database_error'' then ''A database error occurred''
        else ''An internal error occurred'') None \<rparr>"
  using assms by (cases e) (simp_all add: into_response_def)

theorem internal_errors_opaque_witness:
  "resp_body (into_response (\<lambda>_. True) (DatabaseError ''postgres://u:p@h/db'')) =
     error_body ''database_error'' ''A database error occurred'' None"
  by (subst internal_errors_opaque) simp_all

end
