(* ===== verification/Yaml.thy ===== *)
theory Yaml
  imports Json
begin

text \<open>
  The YAML trees of the configuration (the \<open>Value\<close> of the crate serde_yaml). A number is its text; a mapping is
  the list of its entries in insertion order. None of these definitions models code of the repository.
\<close>

datatype yaml =
    YNull
  | YBool bool
  | YNumber string
  | YString string
  | YSeq "yaml list"
  | YMap "(yaml \<times> yaml) list"
  | YTagged string yaml

end
