(* ===== verification/Config_Types.thy ===== *)
theory Config_Types
  imports App_Error Yaml
begin

text \<open>
  The configuration the server runs on, as serde_yaml deserialises it (src/config/types/): one record
  per struct, one datatype per enum, one \<open>_default\<close> per \<open>Default\<close> implementation. Unsigned fields
  are naturals; a hash map is the list of
  its entries in the order an iteration visits them. Parsing of the YAML text is not modelled.
\<close>

section \<open>Databases and tables\<close>

datatype database_driver = Postgres | Mysql | Sqlite

record database_config =
  dbc_driver :: database_driver
  dbc_url :: string
  dbc_min_connections :: nat
  dbc_max_connections :: nat
  dbc_auto_migrate :: bool
  dbc_allow_destructive :: bool
  dbc_acquire_timeout :: nat

definition database_config_default :: database_config where
  "database_config_default =
     \<lparr> dbc_driver = Sqlite,
       dbc_url = [],
       dbc_min_connections = 1,
       dbc_max_connections = 10,
       dbc_auto_migrate = True,
       dbc_allow_destructive = False,
       dbc_acquire_timeout = 5 \<rparr>"

datatype column_type = Integer | Bigint | Smallint | Serial | Bigserial | Text | Varchar | Char | Boolean | Float | Double | Decimal | Date | Timestamp | Timestamptz | Uuid | Json | Jsonb | Blob | Bytea

fun column_type_str :: "column_type \<Rightarrow> string" where
  "column_type_str Integer = ''integer''"
| "column_type_str Bigint = ''bigint''"
| "column_type_str Smallint = ''smallint''"
| "column_type_str Serial = ''serial''"
| "column_type_str Bigserial = ''bigserial''"
| "column_type_str Text = ''text''"
| "column_type_str Varchar = ''varchar''"
| "column_type_str Char = ''char''"
| "column_type_str Boolean = ''boolean''"
| "column_type_str Float = ''float''"
| "column_type_str Double = ''double''"
| "column_type_str Decimal = ''decimal''"
| "column_type_str Date = ''date''"
| "column_type_str Timestamp = ''timestamp''"
| "column_type_str Timestamptz = ''timestamptz''"
| "column_type_str Uuid = ''uuid''"
| "column_type_str Json = ''json''"
| "column_type_str Jsonb = ''jsonb''"
| "column_type_str Blob = ''blob''"
| "column_type_str Bytea = ''bytea''"

fun is_json_type :: "column_type \<Rightarrow> bool" where
  "is_json_type Json = True"
| "is_json_type Jsonb = True"
| "is_json_type _ = False"

record column_config =
  col_name :: string
  col_type :: column_type
  col_primary_key :: bool
  col_nullable :: bool
  col_default :: "string option"
  col_unique :: bool
  col_indexed :: bool
  col_validation_schema :: "string option"
  col_validation :: "yaml option"
  col_validation_schema_ref :: "string option"

definition column_config_default :: column_config where
  "column_config_default =
     \<lparr> col_name = [],
       col_type = Text,
       col_primary_key = False,
       col_nullable = True,
       col_default = None,
       col_unique = False,
       col_indexed = False,
       col_validation_schema = None,
       col_validation = None,
       col_validation_schema_ref = None \<rparr>"

datatype fk_action = Cascade | SetNull | Restrict | NoAction

record foreign_key_config =
  fk_column :: string
  fk_references_table :: string
  fk_references_column :: string
  fk_on_delete :: fk_action
  fk_on_update :: fk_action

record table_config =
  tbl_name :: string
  tbl_database :: string
  tbl_columns :: "column_config list"
  tbl_foreign_keys :: "foreign_key_config list"

section \<open>Listing, joins and CRUD\<close>

datatype sort_order = Asc | Desc

record pagination_config =
  pgn_enabled :: bool
  pgn_default_page_size :: nat
  pgn_max_page_size :: nat

definition pagination_config_default :: pagination_config where
  "pagination_config_default =
     \<lparr> pgn_enabled = True,
       pgn_default_page_size = 20,
       pgn_max_page_size = 100 \<rparr>"

record filtering_config =
  flt_enabled :: bool
  flt_allowed_fields :: "string list"

definition filtering_config_default :: filtering_config where
  "filtering_config_default =
     \<lparr> flt_enabled = True,
       flt_allowed_fields = [''*''] \<rparr>"

record sorting_config =
  srt_enabled :: bool
  srt_default_field :: string
  srt_default_order :: sort_order
  srt_allowed_fields :: "string list"

definition sorting_config_default :: sorting_config where
  "sorting_config_default =
     \<lparr> srt_enabled = True,
       srt_default_field = [],
       srt_default_order = Asc,
       srt_allowed_fields = [''*''] \<rparr>"

datatype join_type = InnerJoin | LeftJoin | RightJoin

record join_config =
  join_table :: string
  join_on :: string
  join_join_type :: join_type
  join_fields :: "string list"

record computed_field_config =
  cmp_name :: string
  cmp_expression :: string

record crud_config =
  crud_table :: string
  crud_database :: string
  crud_fields :: "string list"
  crud_writable_fields :: "string list"
  crud_pagination :: pagination_config
  crud_filtering :: filtering_config
  crud_sorting :: sorting_config
  crud_where_clause :: "string option"
  crud_delete_where_clause :: "string option"
  crud_update_where_clause :: "string option"
  crud_joins :: "join_config list"
  crud_computed_fields :: "computed_field_config list"
  crud_insert_owner :: "string option"

definition crud_config_default :: crud_config where
  "crud_config_default =
     \<lparr> crud_table = [],
       crud_database = [],
       crud_fields = [''*''],
       crud_writable_fields = [],
       crud_pagination = pagination_config_default,
       crud_filtering = filtering_config_default,
       crud_sorting = sorting_config_default,
       crud_where_clause = None,
       crud_delete_where_clause = None,
       crud_update_where_clause = None,
       crud_joins = [],
       crud_computed_fields = [],
       crud_insert_owner = None \<rparr>"

definition max_page_size_limit :: nat where
  "max_page_size_limit = 100"

definition min_default_page_size :: nat where
  "min_default_page_size = 1"

section \<open>Files: static, SPA, media, file store\<close>

record cache_rule_config =
  crule_extensions :: "string list"
  crule_cache_control :: string

datatype mime_detection = ByExtension | ByMagic

record upload_config =
  upl_enabled :: bool
  upl_max_size :: nat
  upl_allowed_extensions :: "string list"
  upl_create_subdirectory :: "string option"
  upl_mime_detection :: mime_detection

definition upload_config_default :: upload_config where
  "upload_config_default =
     \<lparr> upl_enabled = False,
       upl_max_size = 10485760,
       upl_allowed_extensions = [],
       upl_create_subdirectory = None,
       upl_mime_detection = ByMagic \<rparr>"

datatype image_resize_fit = ScaleDown | Cover | Contain

record image_resize_config =
  irs_enabled :: bool
  irs_max_dimension :: nat
  irs_supported_formats :: "string list"
  irs_default_fit :: image_resize_fit
  irs_cache_dir :: "string option"

definition image_resize_config_default :: image_resize_config where
  "image_resize_config_default =
     \<lparr> irs_enabled = False,
       irs_max_dimension = 4096,
       irs_supported_formats = [''jpg'', ''jpeg'', ''png'', ''webp''],
       irs_default_fit = ScaleDown,
       irs_cache_dir = None \<rparr>"

record streaming_config =
  strm_enabled :: bool
  strm_buffer_size :: nat
  strm_threshold :: nat
  strm_include_content_length :: bool

definition streaming_config_default :: streaming_config where
  "streaming_config_default =
     \<lparr> strm_enabled = False,
       strm_buffer_size = 65536,
       strm_threshold = 1048576,
       strm_include_content_length = True \<rparr>"

record static_files_config =
  stat_storage :: string
  stat_index :: string
  stat_directory_listing :: bool
  stat_cache_max_age :: nat
  stat_etag :: bool
  stat_range_requests :: bool
  stat_head_support :: bool
  stat_cache_rules :: "cache_rule_config list"
  stat_upload :: "upload_config option"
  stat_image_resize :: "image_resize_config option"
  stat_streaming :: "streaming_config option"

definition static_files_config_default :: static_files_config where
  "static_files_config_default =
     \<lparr> stat_storage = [],
       stat_index = ''index.html'',
       stat_directory_listing = False,
       stat_cache_max_age = 3600,
       stat_etag = True,
       stat_range_requests = True,
       stat_head_support = True,
       stat_cache_rules = [],
       stat_upload = None,
       stat_image_resize = None,
       stat_streaming = None \<rparr>"

record spa_host_config =
  spa_storage :: string
  spa_index :: string
  spa_cache_max_age :: nat
  spa_cache_rules :: "cache_rule_config list"
  spa_etag :: bool
  spa_head_support :: bool
  spa_fallback_status :: nat

definition spa_host_config_default :: spa_host_config where
  "spa_host_config_default =
     \<lparr> spa_storage = [],
       spa_index = ''index.html'',
       spa_cache_max_age = 3600,
       spa_cache_rules = [],
       spa_etag = True,
       spa_head_support = True,
       spa_fallback_status = 200 \<rparr>"

record metadata_column =
  mcol_name :: string
  mcol_column_type :: string
  mcol_nullable :: bool
  mcol_default :: "string option"

record file_store_field_permissions =
  fsp_read :: "string list"
  fsp_write :: "string list"

definition file_store_field_permissions_default :: file_store_field_permissions where
  "file_store_field_permissions_default =
     \<lparr> fsp_read = [],
       fsp_write = [] \<rparr>"

record file_store_ownership_config =
  fso_owner_column :: string
  fso_admin_override :: bool

record file_store_trash_config =
  fst_enabled :: bool
  fst_retention_days :: nat
  fst_prefix :: string

record file_store_refs_config =
  fsr_enabled :: bool
  fsr_table :: string
  fsr_media_id_column :: string
  fsr_entity_id_column :: string
  fsr_content_type_column :: string
  fsr_order_column :: string

record file_store_config =
  fs_storage :: string
  fs_table :: string
  fs_database :: string
  fs_metadata_columns :: "metadata_column list"
  fs_field_permissions :: "(string, file_store_field_permissions) entries option"
  fs_ownership :: "file_store_ownership_config option"
  fs_trash :: "file_store_trash_config option"
  fs_content_references :: "file_store_refs_config option"
  fs_pagination :: pagination_config
  fs_sorting :: sorting_config
  fs_filtering :: filtering_config

datatype media_mime_detection = MediaByExtension | MediaByMagic
datatype media_scope_mode = ScopeUser | ScopeShared | ScopeOpen
datatype media_on_delete = OnDeleteDetach | OnDeleteCascade | OnDeleteError
datatype media_facet_type = FacetTerm | FacetDateRange | FacetNumeric

record media_facet_config =
  mfc_name :: string
  mfc_field :: string
  mfc_facet_type :: media_facet_type

record media_resize_style =
  mst_name :: string
  mst_max_width :: nat
  mst_max_height :: nat
  mst_resize_fit :: image_resize_fit
  mst_format :: string
  mst_quality :: nat

record media_preview_config =
  mpv_name :: string
  mpv_max_width :: nat
  mpv_max_height :: nat
  mpv_format :: string

record media_versioning_config =
  mvr_enabled :: bool
  mvr_max_versions :: nat

record media_preview_generation_config =
  mpg_enabled :: bool
  mpg_previews :: "media_preview_config list"

record media_upload_config =
  mup_max_size :: nat
  mup_allowed_extensions :: "string list"
  mup_allowed_mime_types :: "string list"
  mup_mime_detection :: media_mime_detection
  mup_bulk_supported :: bool
  mup_create_subdirectory :: "string option"
  mup_versioning :: "media_versioning_config option"
  mup_preview_generation :: "media_preview_generation_config option"

record media_move_config =
  mmv_enabled :: bool
  mmv_admin_override :: bool
  mmv_auto_create_destination :: bool

record media_rename_config =
  mrn_enabled :: bool
  mrn_admin_override :: bool

record media_delete_config =
  mdl_enabled :: bool
  mdl_admin_override :: bool

record media_user_scope_config =
  mus_enabled :: bool
  mus_mode :: media_scope_mode
  mus_admin_roles :: "string list"
  mus_allow_cross_user_browse :: bool

record media_refs_config =
  mrf_enabled :: bool
  mrf_table :: string
  mrf_media_id_column :: string
  mrf_entity_id_column :: string
  mrf_content_type_column :: string
  mrf_order_column :: string
  mrf_allowed_content_types :: "string list option"
  mrf_on_delete :: media_on_delete

record media_trash_config =
  mtr_enabled :: bool
  mtr_retention_days :: nat
  mtr_prefix :: string
  mtr_management_endpoints :: bool
  mtr_admin_roles :: "string list"

record media_sharing_config =
  msh_enabled :: bool
  msh_signing_secret :: string
  msh_default_ttl :: nat
  msh_max_ttl :: nat
  msh_prefix :: string
  msh_allow_any_user :: bool
  msh_required_link_role :: "string option"

record media_image_resize_config =
  mir_enabled :: bool
  mir_max_dimension :: nat
  mir_supported_formats :: "string list"
  mir_default_fit :: image_resize_fit
  mir_cache_dir :: "string option"
  mir_styles :: "media_resize_style list"
  mir_generate_on_upload :: bool

record media_config =
  media_storage :: string
  media_table :: string
  media_database :: string
  media_columns :: "string list"
  media_metadata_columns :: "metadata_column list"
  media_upload :: "media_upload_config option"
  media_move :: "media_move_config option"
  media_rename :: "media_rename_config option"
  media_delete :: "media_delete_config option"
  media_user_scope :: "media_user_scope_config option"
  media_content_references :: "media_refs_config option"
  media_trash :: "media_trash_config option"
  media_sharing :: "media_sharing_config option"
  media_pagination :: pagination_config
  media_sorting :: sorting_config
  media_filtering :: filtering_config
  media_facets :: "media_facet_config list"
  media_image_resize :: "media_image_resize_config option"

record path_rewrite_config =
  prw_strip_prefix :: string
  prw_add_prefix :: string

record proxy_timeouts =
  ptm_connect :: nat
  ptm_read :: nat
  ptm_total :: nat

definition proxy_timeouts_default :: proxy_timeouts where
  "proxy_timeouts_default =
     \<lparr> ptm_connect = 5,
       ptm_read = 30,
       ptm_total = 60 \<rparr>"

record proxy_config =
  prx_upstream :: string
  prx_path_rewrite :: "path_rewrite_config option"
  prx_headers :: "(string, string) entries"
  prx_timeouts :: proxy_timeouts
  prx_max_response_size :: nat

record custom_response_config =
  cust_status :: nat
  cust_content_type :: string
  cust_body :: string
  cust_headers :: "(string, string) entries"

definition custom_response_config_default :: custom_response_config where
  "custom_response_config_default =
     \<lparr> cust_status = 200,
       cust_content_type = ''application/json'',
       cust_body = [],
       cust_headers = [] \<rparr>"

section \<open>Rate limits and CORS\<close>

datatype rate_limit_key_strategy = KeyIp | KeyHeader | KeyToken

record rate_limit_config =
  rl_enabled :: bool
  rl_max_requests :: nat
  rl_window_seconds :: nat
  rl_key_strategy :: rate_limit_key_strategy
  rl_key_header :: string
  rl_cleanup_threshold :: nat

definition rate_limit_config_default :: rate_limit_config where
  "rate_limit_config_default =
     \<lparr> rl_enabled = False,
       rl_max_requests = 100,
       rl_window_seconds = 60,
       rl_key_strategy = KeyIp,
       rl_key_header = [],
       rl_cleanup_threshold = 10000 \<rparr>"

record cors_config =
  cors_allowed_origins :: "string list"
  cors_allowed_methods :: "string list"
  cors_allowed_headers :: "string list"
  cors_allow_credentials :: bool
  cors_max_age :: nat

definition cors_config_default :: cors_config where
  "cors_config_default =
     \<lparr> cors_allowed_origins = [],
       cors_allowed_methods = [''GET'', ''POST'', ''PUT'', ''PATCH'', ''DELETE'', ''OPTIONS'', ''HEAD''],
       cors_allowed_headers = [],
       cors_allow_credentials = False,
       cors_max_age = 86400 \<rparr>"

section \<open>Endpoints\<close>

record method_specific_roles =
  msr_get :: "string list option"
  msr_post :: "string list option"
  msr_put :: "string list option"
  msr_patch :: "string list option"
  msr_delete :: "string list option"
  msr_head :: "string list option"
  msr_options :: "string list option"

definition method_specific_roles_default :: method_specific_roles where
  "method_specific_roles_default =
     \<lparr> msr_get = None,
       msr_post = None,
       msr_put = None,
       msr_patch = None,
       msr_delete = None,
       msr_head = None,
       msr_options = None \<rparr>"

datatype roles_config = FlatRoles "string list" | MethodSpecific method_specific_roles

definition roles_config_default :: roles_config where
  "roles_config_default = FlatRoles []"

text \<open>\<open>RolesConfig::clone_for_method\<close> and \<open>RolesConfig::is_admin\<close>.\<close>

definition roles_for_method :: "roles_config \<Rightarrow> http_method \<Rightarrow> string list" where
  "roles_for_method rc m =
     (case rc of
        MethodSpecific ms \<Rightarrow>
          (case m of
             Get \<Rightarrow> unwrap_or (msr_get ms) []
           | Post \<Rightarrow> unwrap_or (msr_post ms) []
           | Put \<Rightarrow> unwrap_or (msr_put ms) []
           | Patch \<Rightarrow> unwrap_or (msr_patch ms) []
           | Delete \<Rightarrow> unwrap_or (msr_delete ms) []
           | Head \<Rightarrow> unwrap_or (msr_head ms) []
           | Options \<Rightarrow> unwrap_or (msr_options ms) [])
      | FlatRoles rs \<Rightarrow> rs)"

fun first_of :: "'a list \<Rightarrow> 'a option" where
  "first_of [] = None"
| "first_of (x # _) = Some x"

definition is_admin :: "roles_config \<Rightarrow> string option \<Rightarrow> bool" where
  "is_admin rc user_role =
     (case rc of
        FlatRoles rs \<Rightarrow> user_role = first_of rs
      | MethodSpecific ms \<Rightarrow>
          user_role =
            (case or_else (msr_get ms) (or_else (msr_post ms) (or_else (msr_patch ms) (or_else (msr_delete ms)
                    (or_else (msr_put ms) (or_else (msr_head ms) (msr_options ms)))))) of
               None \<Rightarrow> None | Some rs \<Rightarrow> first_of rs))"

datatype endpoint_action = ActCrud | ActProxy | ActStaticFiles | ActSpaHost | ActMedia | ActFileStore | ActCustomResponse

record endpoint_config =
  ep_path :: string
  ep_methods :: "http_method list"
  ep_action :: endpoint_action
  ep_crud :: "crud_config option"
  ep_proxy :: "proxy_config option"
  ep_static_files :: "static_files_config option"
  ep_spa_host :: "spa_host_config option"
  ep_media :: "media_config option"
  ep_file_store :: "file_store_config option"
  ep_custom_response :: "custom_response_config option"
  ep_auth :: string
  ep_roles :: roles_config
  ep_cors :: "cors_config option"
  ep_rate_limit :: "rate_limit_config option"

end
