(* ===== verification/Sql_Helpers.thy ===== *)
theory Sql_Helpers
  imports Config_Types
begin

text \<open>
  The query layer's helpers (src/db/query/helpers/): column lookup, parameter markers, identifier
  quoting, the lexical checks on SQL fragments and identifiers, the parsers of sort fields and filter
  keys, and the extraction of the query parameters. The regular expressions are written out as what
  they match. \<open>jsonb::jsonpath::parse_json_path\<close> is a library function: whether it accepts a text is
  the argument \<open>json_path_ok\<close>.
\<close>

section \<open>Columns, markers, identifiers\<close>

definition is_jsonb_column :: "string \<Rightarrow> column_config list \<Rightarrow> bool" where
  "is_jsonb_column name cols = (\<exists>c \<in> set cols. col_name c = name \<and> is_json_type (col_type c))"

definition column_exists :: "string \<Rightarrow> column_config list \<Rightarrow> bool" where
  "column_exists name cols = (\<exists>c \<in> set cols. col_name c = name)"

lemma jsonb_column_exists: "is_jsonb_column n cols \<Longrightarrow> column_exists n cols"
  by (auto simp: is_jsonb_column_def column_exists_def)

fun placeholder :: "database_driver \<Rightarrow> nat \<Rightarrow> string" where
  "placeholder Postgres i = ''$'' @ show_nat i"
| "placeholder Sqlite i = ''?''"
| "placeholder Mysql i = ''?''"

declare placeholder.simps [simp del]

fun now_expr :: "database_driver \<Rightarrow> string" where
  "now_expr Sqlite = ''CURRENT_TIMESTAMP''"
| "now_expr _ = ''NOW()''"

fun quote_identifier :: "string \<Rightarrow> database_driver \<Rightarrow> string" where
  "quote_identifier n Mysql = [backtick_char] @ n @ [backtick_char]"
| "quote_identifier n Sqlite = [dquote_char] @ n @ [dquote_char]"
| "quote_identifier n Postgres = [dquote_char] @ n @ [dquote_char]"

definition is_bracket_notation :: "string \<Rightarrow> bool" where
  "is_bracket_notation f = contains_char f (CHR ''['')"

definition is_dotted_path :: "string \<Rightarrow> bool" where
  "is_dotted_path f = contains_char f (CHR ''.'')"

section \<open>Sort fields\<close>

text \<open>
  The loop of \<open>parse_sort_field\<close>: \<open>cur\<close> is the segment being read, the result the segments pushed
  from here on. A bracket without its closing bracket takes the rest of the text.
\<close>

function sort_segments :: "string \<Rightarrow> string \<Rightarrow> string list" where
  "sort_segments [] cur = (if cur = [] then [] else [cur])"
| "sort_segments (c # cs) cur =
     (if c = CHR ''['' then
        (let content = takeWhile (\<lambda>x. x \<noteq> CHR '']'') cs; rest = dropWhile (\<lambda>x. x \<noteq> CHR '']'') cs
         in (if cur = [] then [] else [cur]) @ (if content = [] then [] else [content])
            @ sort_segments (tl rest) [])
      else if c = CHR ''.'' then (if cur = [] then [] else [cur]) @ sort_segments cs []
      else sort_segments cs (cur @ [c]))"
  by pat_completeness auto
termination
  by (relation "measure (\<lambda>(s, cur). length s)")
     (auto simp: less_Suc_eq_le intro: order_trans [OF diff_le_self length_dropWhile_le])

definition parse_sort_field :: "string \<Rightarrow> string \<times> string list" where
  "parse_sort_field field =
     (case sort_segments field [] of [] \<Rightarrow> (field, []) | base # path \<Rightarrow> (base, path))"

definition is_valid_sort_field :: "string \<Rightarrow> column_config list \<Rightarrow> bool" where
  "is_valid_sort_field field cols =
     (let base = fst (parse_sort_field field) in
      if is_bracket_notation field then is_jsonb_column base cols \<or> column_exists base cols
      else if is_dotted_path field then is_jsonb_column base cols
      else column_exists field cols)"

lemma sort_segments_plain:
  "CHR ''['' \<notin> set s \<Longrightarrow> CHR ''.'' \<notin> set s \<Longrightarrow> sort_segments s cur = (if cur @ s = [] then [] else [cur @ s])"
  by (induction s arbitrary: cur) auto

lemma sort_segments_seg:
  "CHR ''['' \<notin> set a \<Longrightarrow> CHR ''.'' \<notin> set a \<Longrightarrow> sort_segments (a @ b) cur = sort_segments b (cur @ a)"
  by (induction a arbitrary: cur) auto

lemma parse_sort_field_plain:
  "CHR ''['' \<notin> set s \<Longrightarrow> CHR ''.'' \<notin> set s \<Longrightarrow> parse_sort_field s = (s, [])"
  by (simp add: parse_sort_field_def sort_segments_plain)

text \<open>A dotted path of non-empty plain segments is taken apart exactly.\<close>

definition plain_segment :: "string \<Rightarrow> bool" where
  "plain_segment s = (s \<noteq> [] \<and> CHR ''['' \<notin> set s \<and> CHR ''.'' \<notin> set s)"

lemma sort_segments_join:
  "list_all plain_segment segs \<Longrightarrow> sort_segments (join ''.'' segs) [] = segs"
proof (induction "''.''" segs rule: join.induct)
  case (3 x y ys)
  then show ?case
    by (simp add: plain_segment_def sort_segments_seg)
qed (simp_all add: plain_segment_def sort_segments_plain)

text \<open>Segments are never empty, and the parser invents no character.\<close>

lemma sort_segments_nonempty: "p \<in> set (sort_segments s cur) \<Longrightarrow> p \<noteq> []"
  by (induction s cur rule: sort_segments.induct) (auto simp: Let_def split: if_splits)

lemma sort_segments_chars: "\<Union> (set ` set (sort_segments s cur)) \<subseteq> set s \<union> set cur"
proof (induction s cur rule: sort_segments.induct)
  case (2 c cs cur)
  let ?rest = "dropWhile (\<lambda>x. x \<noteq> CHR '']'') cs"
  let ?content = "takeWhile (\<lambda>x. x \<noteq> CHR '']'') cs"
  have "set ?rest \<subseteq> set cs" by (auto dest: set_dropWhileD)
  then have tl: "set (tl ?rest) \<subseteq> set cs" by (rule order_trans [OF set_tl_subset])
  have content: "set ?content \<subseteq> set cs" by (auto dest: set_takeWhileD)
  note ih = "2.IH"
  consider (bracket) "c = CHR ''[''" | (dot) "c \<noteq> CHR ''[''" "c = CHR ''.''"
    | (other) "c \<noteq> CHR ''[''" "c \<noteq> CHR ''.''" by blast
  then show ?case
  proof cases
    case bracket
    then have "\<Union> (set ` set (sort_segments (c # cs) cur)) \<subseteq>
        set cur \<union> set ?content \<union> \<Union> (set ` set (sort_segments (tl ?rest) []))"
      by (auto simp: Let_def)
    also have "\<dots> \<subseteq> set cur \<union> set ?content \<union> set (tl ?rest)"
      using ih(1) [OF bracket refl refl] by auto
    finally show ?thesis by (rule order_trans) (use tl content in auto)
  next
    case dot
    then show ?thesis using ih(2) [OF dot] by auto
  next
    case other
    then show ?thesis using ih(3) [OF other] by auto
  qed
qed auto

lemma parse_sort_field_chars:
  assumes "parse_sort_field s = (base, path)"
  shows "set base \<subseteq> set s" "p \<in> set path \<Longrightarrow> set p \<subseteq> set s"
proof -
  consider "base = s" "path = []" | "sort_segments s [] = base # path"
    using assms by (auto simp: parse_sort_field_def split: list.splits)
  then have "set base \<subseteq> set s \<and> (\<forall>p \<in> set path. set p \<subseteq> set s)"
    using sort_segments_chars [of s "[]"] by cases auto
  then show "set base \<subseteq> set s" "p \<in> set path \<Longrightarrow> set p \<subseteq> set s" by auto
qed

section \<open>Lexical checks\<close>

definition is_safe_sql_fragment :: "string \<Rightarrow> bool" where
  "is_safe_sql_fragment s =
     (s \<noteq> [] \<and> \<not> contains_char s (CHR '';'') \<and> \<not> contains_str s ''--'' \<and> \<not> contains_str s ''/*''
      \<and> \<not> contains_char s backtick_char \<and> \<not> contains_str s ''$('' \<and> \<not> contains_char s (CHR 0x0A)
      \<and> \<not> contains_char s (CHR 0x0D))"

text \<open>The maximal runs of word characters of a text, each with the text that follows it.\<close>

function word_runs :: "string \<Rightarrow> (string \<times> string) list" where
  "word_runs [] = []"
| "word_runs (c # cs) =
     (if is_word c
      then (takeWhile is_word (c # cs), dropWhile is_word (c # cs)) # word_runs (dropWhile is_word (c # cs))
      else word_runs cs)"
  by pat_completeness auto
termination
  by (relation "measure length") (auto simp: length_dropWhile_le less_Suc_eq_le)

text \<open>\<open>SQL_KEYWORDS_RE\<close>: a keyword between word boundaries is a whole run of word characters.\<close>

definition has_sql_keyword :: "string \<Rightarrow> bool" where
  "has_sql_keyword s = (\<exists>(w, _) \<in> set (word_runs s). lowercase w \<in>
     {''or'', ''and'', ''union'', ''select'', ''insert'', ''update'', ''delete'', ''drop'', ''alter'', ''create'', ''truncate'', ''exec''})"

text \<open>\<open>DANGEROUS_FN_RE\<close>: a run starting with \<open>xp_\<close> and going on, the run \<open>sleep\<close> before an opening
  parenthesis, or a run ending in \<open>_sleep\<close>.\<close>

definition has_dangerous_fn :: "string \<Rightarrow> bool" where
  "has_dangerous_fn s = (\<exists>(w, rest) \<in> set (word_runs s).
     (starts_with (lowercase w) ''xp_'' \<and> 3 < length w)
     \<or> (lowercase w = ''sleep'' \<and> starts_with (dropWhile is_whitespace rest) ''('')
     \<or> ends_with (lowercase w) ''_sleep'')"

fun bracket_scan :: "int \<Rightarrow> bool \<Rightarrow> string \<Rightarrow> int option" where
  "bracket_scan depth inside [] = Some depth"
| "bracket_scan depth inside (c # cs) =
     (if c = CHR ''['' then bracket_scan (depth + 1) True cs
      else if c = CHR '']'' then bracket_scan (depth - 1) False cs
      else if inside \<and> \<not> is_alphanumeric c \<and> c \<noteq> CHR ''_'' then None
      else bracket_scan depth inside cs)"

fun paren_scan :: "int \<Rightarrow> string \<Rightarrow> bool" where
  "paren_scan depth [] = (depth = 0)"
| "paren_scan depth (c # cs) =
     (if c = CHR ''('' then paren_scan (depth + 1) cs
      else if c = CHR '')'' then (depth - 1 \<ge> 0 \<and> paren_scan (depth - 1) cs)
      else paren_scan depth cs)"

definition expression_char :: "char \<Rightarrow> bool" where
  "expression_char c = (is_alphanumeric c \<or> contains_char (''_.,()=<>+-*/#[]'' @ [quote_char]) c)"

definition is_valid_expression :: "(string \<Rightarrow> bool) \<Rightarrow> string \<Rightarrow> bool" where
  "is_valid_expression json_path_ok s =
     (if s = [] then False
      else if contains_str s '';'' \<or> contains_str s ''--'' \<or> contains_str s ''/*'' \<or> contains_str s ''*/'' then False
      else if json_path_ok s then True
      else case (if is_bracket_notation s then bracket_scan 0 False s else Some 0) of
             None \<Rightarrow> False
           | Some depth \<Rightarrow>
               depth = 0 \<and> paren_scan 0 s \<and> even (count_list s quote_char)
               \<and> \<not> has_sql_keyword s \<and> \<not> has_dangerous_fn s \<and> list_all expression_char s)"

definition is_valid_identifier :: "string \<Rightarrow> bool" where
  "is_valid_identifier s =
     (s \<noteq> [] \<and> list_all (\<lambda>c. is_alphanumeric c \<or> c = CHR ''_'' \<or> c = CHR ''.'' \<or> c = CHR ''-'') s)"

lemma valid_identifier_chars:
  assumes "is_valid_identifier s" "c \<in> set s"
  shows "is_alphanumeric c \<or> c \<in> {CHR ''_'', CHR ''.'', CHR ''-''}"
  using assms by (auto simp: is_valid_identifier_def list_all_iff)

lemma valid_identifier_no_special:
  assumes "is_valid_identifier s"
  shows "CHR 0x22 \<notin> set s" "CHR 0x60 \<notin> set s" "CHR 0x27 \<notin> set s" "CHR ''$'' \<notin> set s"
    "CHR ''?'' \<notin> set s" "CHR '';'' \<notin> set s" "CHR '' '' \<notin> set s" "CHR ''('' \<notin> set s"
  using valid_identifier_chars [OF assms]
  by (force simp: is_alphanumeric_def is_ascii_alpha_def is_digit_def is_latin_letter_def
      is_latin_numeric_def ccode_def)+

end
