(* ===== verification/Sql_Text.thy ===== *)
theory Sql_Text
  imports Sql_Helpers
begin

text \<open>
  What a database sees in a query: the parameter markers of its text. For Postgres a marker is a
  dollar sign with the run of digits after it, for SQLite and MySQL a question mark; the n-th marker
  must be the n-th parameter. These definitions are the specification the builders are held to; the
  program has no code for them.
\<close>

section \<open>Markers\<close>

fun dollar_marks :: "string \<Rightarrow> string list" where
  "dollar_marks [] = []"
| "dollar_marks (c # cs) =
     (if c = CHR ''$'' \<and> takeWhile is_digit cs \<noteq> [] then takeWhile is_digit cs # dollar_marks cs
      else dollar_marks cs)"

definition question_marks :: "string \<Rightarrow> string list" where
  "question_marks s = map (\<lambda>_. ''?'') (filter (\<lambda>c. c = CHR ''?'') s)"

fun marks :: "database_driver \<Rightarrow> string \<Rightarrow> string list" where
  "marks Postgres s = dollar_marks s"
| "marks Sqlite s = question_marks s"
| "marks Mysql s = question_marks s"

text \<open>The marker of the i-th parameter, and of \<open>n\<close> parameters from the i-th on.\<close>

fun mark_of :: "database_driver \<Rightarrow> nat \<Rightarrow> string" where
  "mark_of Postgres i = show_nat i"
| "mark_of Sqlite i = ''?''"
| "mark_of Mysql i = ''?''"

definition marks_from :: "database_driver \<Rightarrow> nat \<Rightarrow> nat \<Rightarrow> string list" where
  "marks_from d i n = map (mark_of d) [i ..< i + n]"

text \<open>A query whose markers are exactly its parameters, in order.\<close>

definition well_numbered :: "database_driver \<Rightarrow> string \<Rightarrow> 'p list \<Rightarrow> bool" where
  "well_numbered d sql ps = (marks d sql = marks_from d 1 (length ps))"

text \<open>Text that holds no marker wherever it is put: no dollar sign and no question mark.\<close>

definition inert :: "string \<Rightarrow> bool" where
  "inert s = (CHR ''$'' \<notin> set s \<and> CHR ''?'' \<notin> set s)"

definition digit_start :: "string \<Rightarrow> bool" where
  "digit_start s = (s \<noteq> [] \<and> is_digit (hd s))"

section \<open>Counting the markers of composed text\<close>

lemma inert_append [simp]: "inert (a @ b) \<longleftrightarrow> inert a \<and> inert b"
  by (auto simp: inert_def)

lemma inert_Cons [simp]: "inert (c # s) \<longleftrightarrow> c \<noteq> CHR ''$'' \<and> c \<noteq> CHR ''?'' \<and> inert s"
  by (auto simp: inert_def)

lemma inert_Nil [simp]: "inert []"
  by (simp add: inert_def)

lemma inert_concat: "inert (concat xs) \<longleftrightarrow> (\<forall>x \<in> set xs. inert x)"
  by (induction xs) auto

lemma inert_join: "inert sep \<Longrightarrow> \<forall>x \<in> set xs. inert x \<Longrightarrow> inert (join sep xs)"
  by (induction sep xs rule: join.induct) auto

lemma inert_quote [simp]: "inert (quote_identifier n d) \<longleftrightarrow> inert n"
  by (cases d) auto

lemma inert_valid_identifier: "is_valid_identifier s \<Longrightarrow> inert s"
  using valid_identifier_no_special by (auto simp: inert_def)

lemma digit_start_simps [simp]:
  "\<not> digit_start []" "digit_start (c # s) \<longleftrightarrow> is_digit c"
  by (auto simp: digit_start_def)

lemma is_digit_chars [simp]:
  "\<not> is_digit (CHR '' '')" "\<not> is_digit (CHR '','')" "\<not> is_digit (CHR '')'')" "\<not> is_digit (CHR ''('')"
  "\<not> is_digit (CHR ''$'')" "\<not> is_digit (CHR ''?'')" "\<not> is_digit (CHR ''.'')" "\<not> is_digit (CHR 0x27)"
  by (simp_all add: is_digit_def ccode_def)

lemma takeWhile_digit_append:
  "\<not> digit_start b \<Longrightarrow> takeWhile is_digit (a @ b) = takeWhile is_digit a"
proof (induction a)
  case Nil
  then show ?case by (cases b) auto
qed simp

lemma dollar_marks_append: "\<not> digit_start b \<Longrightarrow> dollar_marks (a @ b) = dollar_marks a @ dollar_marks b"
  by (induction a) (simp_all add: takeWhile_digit_append)

lemma dollar_marks_no_dollar: "CHR ''$'' \<notin> set a \<Longrightarrow> dollar_marks (a @ b) = dollar_marks b"
  by (induction a) auto

lemma question_marks_append: "question_marks (a @ b) = question_marks a @ question_marks b"
  by (simp add: question_marks_def)

lemma marks_append [refs_simps]: "\<not> digit_start b \<Longrightarrow> marks d (a @ b) = marks d a @ marks d b"
  by (cases d) (simp_all add: dollar_marks_append question_marks_append)

lemma marks_inert_left [refs_simps]: "inert a \<Longrightarrow> marks d (a @ b) = marks d b"
  by (cases d) (auto simp: dollar_marks_no_dollar question_marks_append inert_def question_marks_def filter_empty_conv)

lemma marks_inert [refs_simps]: "inert a \<Longrightarrow> marks d a = []"
  using marks_inert_left [of a d "[]"] by (cases d) (simp_all add: question_marks_def)

lemma marks_Cons [refs_simps]: "c \<noteq> CHR ''$'' \<Longrightarrow> c \<noteq> CHR ''?'' \<Longrightarrow> marks d (c # s) = marks d s"
  using marks_inert_left [of "[c]" d s] by simp

lemma marks_Nil [simp]: "marks d [] = []"
  by (rule marks_inert) simp

lemma marks_placeholder [refs_simps]: "marks d (placeholder d i) = [mark_of d i]"
proof -
  have "dollar_marks (show_nat i) = []"
  proof -
    have "CHR ''$'' \<notin> set (show_nat i)" using show_nat_digits by (metis is_digit_chars(5))
    then show ?thesis using dollar_marks_no_dollar [of "show_nat i" "[]"] by simp
  qed
  then show ?thesis
    by (cases d) (auto simp: placeholder.simps question_marks_def takeWhile_id show_nat_digits)
qed

lemma marks_placeholder_append [refs_simps]:
  "\<not> digit_start s \<Longrightarrow> marks d (placeholder d i @ s) = mark_of d i # marks d s"
  by (simp add: marks_append marks_placeholder)

lemma digit_start_placeholder [simp]: "\<not> digit_start (placeholder d i @ s)" "\<not> digit_start (placeholder d i)"
  by (cases d; simp add: placeholder.simps)+

lemma marks_join:
  assumes "inert sep" "\<not> digit_start sep" "sep \<noteq> []"
  shows "marks d (join sep xs) = concat (map (marks d) xs)"
  using assms
proof (induction sep xs rule: join.induct)
  case (3 sep x y ys)
  then have "\<not> digit_start (sep @ join sep (y # ys))" by (cases sep) auto
  with 3 show ?case by (simp add: marks_append marks_inert_left)
qed simp_all

text \<open>Text that holds no marker of one driver: a JSON path in a MySQL or SQLite query has a dollar sign.\<close>

fun quiet :: "database_driver \<Rightarrow> string \<Rightarrow> bool" where
  "quiet Postgres s = (CHR ''$'' \<notin> set s)"
| "quiet Sqlite s = (CHR ''?'' \<notin> set s)"
| "quiet Mysql s = (CHR ''?'' \<notin> set s)"

lemma inert_quiet: "inert s \<Longrightarrow> quiet d s"
  by (cases d) (auto simp: inert_def)

lemma inert_iff_quiet: "inert s \<longleftrightarrow> (\<forall>d. quiet d s)"
proof
  assume "\<forall>d. quiet d s"
  then have "quiet Postgres s" "quiet Sqlite s" by blast+
  then show "inert s" by (simp add: inert_def)
qed (simp add: inert_quiet)

lemma quiet_append [simp]: "quiet d (a @ b) \<longleftrightarrow> quiet d a \<and> quiet d b"
  by (cases d) auto

lemma quiet_Nil [simp]: "quiet d []"
  by (cases d) auto

lemma quiet_Cons_plain [simp]: "c \<noteq> CHR ''$'' \<Longrightarrow> c \<noteq> CHR ''?'' \<Longrightarrow> quiet d (c # s) \<longleftrightarrow> quiet d s"
  by (cases d) auto

lemma quiet_dollar [simp]: "d \<noteq> Postgres \<Longrightarrow> quiet d (CHR ''$'' # s) \<longleftrightarrow> quiet d s"
  by (cases d) auto

lemma quiet_subset: "quiet d s \<Longrightarrow> set t \<subseteq> set s \<Longrightarrow> quiet d t"
  by (cases d) auto

lemma quiet_join: "quiet d sep \<Longrightarrow> (\<And>x. x \<in> set xs \<Longrightarrow> quiet d x) \<Longrightarrow> quiet d (join sep xs)"
  by (induction sep xs rule: join.induct) auto

lemma quiet_quote [simp]: "quiet d (quote_identifier n e) \<longleftrightarrow> quiet d n"
  by (cases e) auto

lemma marks_quiet_left: "quiet d a \<Longrightarrow> marks d (a @ b) = marks d b"
  by (cases d) (auto simp: dollar_marks_no_dollar question_marks_append question_marks_def filter_empty_conv)

lemma marks_quiet: "quiet d a \<Longrightarrow> marks d a = []"
  using marks_quiet_left [of d a "[]"] by simp

lemma marks_from_0 [simp]: "marks_from d i 0 = []"
  by (simp add: marks_from_def)

lemma marks_from_Suc: "marks_from d i (Suc n) = marks_from d i n @ [mark_of d (i + n)]"
  by (simp add: marks_from_def)

lemma marks_from_Suc_left: "marks_from d i (Suc n) = mark_of d i # marks_from d (Suc i) n"
  by (simp add: marks_from_def upt_conv_Cons del: upt_Suc)

lemma marks_from_add: "marks_from d i (m + n) = marks_from d i m @ marks_from d (i + m) n"
  by (simp add: marks_from_def flip: map_append) (metis add.assoc le_add1 upt_add_eq_append)

lemma marks_from_1 [simp]: "marks_from d i (Suc 0) = [mark_of d i]"
  by (simp add: marks_from_Suc)

lemma length_marks_from [simp]: "length (marks_from d i n) = n"
  by (simp add: marks_from_def)

lemma marks_from_question: "d \<noteq> Postgres \<Longrightarrow> marks_from d i n = replicate n ''?''"
  by (induction n) (cases d; auto simp: marks_from_Suc mark_of.simps replicate_append_same)+

lemma well_numbered_length: "well_numbered d sql ps \<Longrightarrow> length (marks d sql) = length ps"
  by (simp add: well_numbered_def)

text \<open>For Postgres the numbering is rigid: a marker sequence starts at 1 or is wrong.\<close>

lemma marks_from_Postgres_inj:
  "marks_from Postgres i n = marks_from Postgres j n \<longleftrightarrow> n = 0 \<or> i = j"
  by (cases n) (auto simp: marks_from_Suc_left)

text \<open>From here on markers are counted through these lemmas, never by unfolding.\<close>

declare marks.simps [simp del] quiet.simps [simp del] mark_of.simps [simp del]

lemma marks_dollar: "d \<noteq> Postgres \<Longrightarrow> marks d (CHR ''$'' # s) = marks d s"
  by (cases d) (simp_all add: marks.simps question_marks_def)

lemma marks_wrapped:
  "quiet d a \<Longrightarrow> quiet d b \<Longrightarrow> \<not> digit_start b \<Longrightarrow> marks d (a @ placeholder d i @ b) = [mark_of d i]"
  by (simp add: marks_quiet_left marks_placeholder_append marks_quiet)

end
