(* ===== verification/Filter_Behavior.thy ===== *)
theory Filter_Behavior
  imports Sql_Text
begin

text \<open>
  The dialect interface of the filter builders (src/db/query/traits.rs). A \<open>FilterBehavior\<close> trait
  object is the record of its methods; the three implementations are three such records. The locale
  \<open>filter_dialect\<close> states what the builders rely on, and it is interpreted on the implementation the
  code selects for each driver.
\<close>

record filter_behavior =
  fb_eq_op :: string
  fb_ne_op :: string
  fb_gt_op :: string
  fb_gte_op :: string
  fb_lt_op :: string
  fb_lte_op :: string
  fb_like_op :: string
  fb_ilike_op :: string
  fb_like_pattern :: "string \<Rightarrow> string"
  fb_like_pattern_start :: "string \<Rightarrow> string"
  fb_like_pattern_end :: "string \<Rightarrow> string"
  fb_json_extract_path :: "string \<Rightarrow> string \<Rightarrow> string"
  fb_uses_jsonb_ops :: bool

definition concat_start :: "string \<Rightarrow> string" where
  "concat_start p = ''CONCAT('' @ p @ '', '' @ [quote_char] @ ''%'' @ [quote_char] @ '')''"

definition concat_end :: "string \<Rightarrow> string" where
  "concat_end p = ''CONCAT('' @ [quote_char] @ ''%'' @ [quote_char] @ '', '' @ p @ '')''"

definition postgres_filter :: filter_behavior where
  "postgres_filter =
     \<lparr> fb_eq_op = ''='', fb_ne_op = ''<>'', fb_gt_op = ''>'', fb_gte_op = ''>='', fb_lt_op = ''<'', fb_lte_op = ''<='',
       fb_like_op = ''LIKE'', fb_ilike_op = ''ILIKE'',
       fb_like_pattern = (\<lambda>p. p), fb_like_pattern_start = concat_start, fb_like_pattern_end = concat_end,
       fb_json_extract_path = (\<lambda>column path. ''('' @ column @ '' #>> '' @ [quote_char] @ ''{''
          @ join '','' (split_on (CHR ''.'') path) @ ''}'' @ [quote_char] @ '')''),
       fb_uses_jsonb_ops = True \<rparr>"

definition mysql_filter :: filter_behavior where
  "mysql_filter =
     \<lparr> fb_eq_op = ''='', fb_ne_op = ''!='', fb_gt_op = ''>'', fb_gte_op = ''>='', fb_lt_op = ''<'', fb_lte_op = ''<='',
       fb_like_op = ''LIKE'', fb_ilike_op = ''LIKE'',
       fb_like_pattern = (\<lambda>p. p), fb_like_pattern_start = concat_start, fb_like_pattern_end = concat_end,
       fb_json_extract_path = (\<lambda>column path. ''JSON_UNQUOTE(JSON_EXTRACT('' @ column @ '', '' @ [quote_char] @ ''$.''
          @ path @ [quote_char] @ ''))''),
       fb_uses_jsonb_ops = False \<rparr>"

definition sqlite_filter :: filter_behavior where
  "sqlite_filter =
     \<lparr> fb_eq_op = ''='', fb_ne_op = ''!='', fb_gt_op = ''>'', fb_gte_op = ''>='', fb_lt_op = ''<'', fb_lte_op = ''<='',
       fb_like_op = ''LIKE'', fb_ilike_op = ''LIKE'',
       fb_like_pattern = (\<lambda>p. p), fb_like_pattern_start = concat_start, fb_like_pattern_end = concat_end,
       fb_json_extract_path = (\<lambda>column path. ''json_extract('' @ column @ '', '' @ [quote_char] @ ''$.''
          @ path @ [quote_char] @ '')''),
       fb_uses_jsonb_ops = False \<rparr>"

fun filter_behavior_of :: "database_driver \<Rightarrow> filter_behavior" where
  "filter_behavior_of Postgres = postgres_filter"
| "filter_behavior_of Mysql = mysql_filter"
| "filter_behavior_of Sqlite = sqlite_filter"

section \<open>What the builders rely on\<close>

text \<open>
  The operators hold no marker; a pattern expression holds exactly the markers of the parameter
  marker it wraps; the path expression holds no marker when the column and the path hold none.
\<close>

locale filter_dialect =
  fixes d :: database_driver and fb :: filter_behavior
  assumes ops_quiet: "quiet d (fb_eq_op fb)" "quiet d (fb_ne_op fb)" "quiet d (fb_gt_op fb)" "quiet d (fb_gte_op fb)"
      "quiet d (fb_lt_op fb)" "quiet d (fb_lte_op fb)" "quiet d (fb_like_op fb)" "quiet d (fb_ilike_op fb)"
    and pattern_marks: "\<And>i. marks d (fb_like_pattern fb (placeholder d i)) = [mark_of d i]"
      "\<And>i. marks d (fb_like_pattern_start fb (placeholder d i)) = [mark_of d i]"
      "\<And>i. marks d (fb_like_pattern_end fb (placeholder d i)) = [mark_of d i]"
    and path_quiet: "\<And>c p. quiet d c \<Longrightarrow> quiet d p \<Longrightarrow> quiet d (fb_json_extract_path fb c p)"
    and jsonb_only_postgres: "fb_uses_jsonb_ops fb \<longleftrightarrow> d = Postgres"
begin

lemma comparison_marks:
  assumes "quiet d lhs" "quiet d oper"
  shows "marks d (lhs @ '' '' @ oper @ '' '' @ placeholder d i) = [mark_of d i]"
  using assms by (simp add: marks_quiet_left refs_simps)

lemma like_marks:
  assumes "quiet d lhs" "quiet d oper" "marks d p = [mark_of d i]"
  shows "marks d (lhs @ '' '' @ oper @ '' '' @ p) = [mark_of d i]"
  using assms by (simp add: marks_quiet_left refs_simps)

lemma lower_like_marks:
  assumes "quiet d lhs" "quiet d oper" "marks d p = [mark_of d i]"
  shows "marks d (''LOWER('' @ lhs @ '') '' @ oper @ '' LOWER('' @ p @ '')'') = [mark_of d i]"
  using assms by (simp add: marks_quiet_left refs_simps marks_append)

end

lemma concat_pattern_marks:
  "marks d (concat_start (placeholder d i)) = [mark_of d i]"
  "marks d (concat_end (placeholder d i)) = [mark_of d i]"
  by (simp_all add: concat_start_def concat_end_def refs_simps)

lemma quiet_array_path: "quiet d p \<Longrightarrow> quiet d (join '','' (split_on (CHR ''.'') p))"
  by (rule quiet_join) (simp_all add: quiet_subset [OF _ split_on_chars])

lemma filter_behavior_of_dialect: "filter_dialect d (filter_behavior_of d)"
  by (cases d; unfold_locales)
     (simp_all add: postgres_filter_def mysql_filter_def sqlite_filter_def concat_pattern_marks marks_placeholder
        quiet_array_path)

interpretation dialect: filter_dialect d "filter_behavior_of d" for d
  by (rule filter_behavior_of_dialect)

end
