(* ===== verification/Filters.thy ===== *)
theory Filters
  imports Sql_Helpers
begin

text \<open>
  Query parameters and filter keys (src/db/query/helpers/filters.rs and sorting.rs, the parameter
  types of src/db/query/types.rs): which keys are filters, how a key splits into a path and an
  operator, which column it is about. The regular expression \<open>FILTER_KEY_RE\<close> is written out: the
  operator is the text between the last opening bracket and a closing bracket that ends the key.
\<close>

section \<open>Query parameters\<close>

record query_params =
  qp_page :: "nat option"
  qp_page_size :: "nat option"
  qp_sort :: "string option"
  qp_order :: "sort_order option"
  qp_filters :: "(string, string) entries"

definition reserved_params :: "string list" where
  "reserved_params = [''page'', ''page_size'', ''per_page'', ''sort'', ''order'']"

definition parse_order :: "string \<Rightarrow> sort_order option" where
  "parse_order v =
     (if v = ''asc'' \<or> v = ''ASC'' then Some Asc
      else if v = ''desc'' \<or> v = ''DESC'' then Some Desc else None)"

definition extract_query_params :: "(string, string) entries \<Rightarrow> query_params" where
  "extract_query_params qs =
     \<lparr> qp_page = Option.bind (map_of qs ''page'') parse_u64,
       qp_page_size = Option.bind (or_else (map_of qs ''page_size'') (map_of qs ''per_page'')) parse_u64,
       qp_sort = map_of qs ''sort'',
       qp_order = Option.bind (map_of qs ''order'') parse_order,
       qp_filters = filter (\<lambda>(k, _). k \<notin> set reserved_params) qs \<rparr>"

lemma extract_query_params_wf: "wf_entries qs \<Longrightarrow> wf_entries (qp_filters (extract_query_params qs))"
  by (auto simp: extract_query_params_def wf_entries_def distinct_map inj_on_def)

lemma extract_page_bounded:
  "qp_page (extract_query_params qs) = Some n \<Longrightarrow> int n \<le> u64_max"
  by (auto simp: extract_query_params_def Option.bind_eq_Some_conv dest: parse_unsigned_bound)

section \<open>Filter keys\<close>

datatype filter_operator =
  OpEq | OpNe | OpGt | OpGte | OpLt | OpLte | OpIn | OpNotIn | OpContains | OpExists
  | OpStartsWith | OpEndsWith | OpLike | OpILike

record filter_expression =
  fe_path :: "string list"
  fe_operator :: filter_operator

definition operator_table :: "(string \<times> filter_operator) list" where
  "operator_table =
     [(''eq'', OpEq), (''ne'', OpNe), (''gt'', OpGt), (''gte'', OpGte), (''lt'', OpLt), (''lte'', OpLte),
      (''in'', OpIn), (''not_in'', OpNotIn), (''contains'', OpContains), (''exists'', OpExists),
      (''startswith'', OpStartsWith), (''endswith'', OpEndsWith), (''like'', OpLike), (''ilike'', OpILike)]"

definition operator_char :: "char \<Rightarrow> bool" where
  "operator_char c = ((97 \<le> ccode c \<and> ccode c \<le> 122) \<or> c = CHR ''_'')"

text \<open>The two capture groups of \<open>^(.*)\[([a-z_]+)\]$\<close>.\<close>

definition filter_key_captures :: "string \<Rightarrow> (string \<times> string) option" where
  "filter_key_captures key =
     (case strip_suffix '']'' key of
        None \<Rightarrow> None
      | Some r \<Rightarrow>
          (case rsplit_once (CHR ''['') r of
             None \<Rightarrow> None
           | Some (a, b) \<Rightarrow>
               if b \<noteq> [] \<and> list_all operator_char b \<and> \<not> contains_char a (CHR 0x0A) then Some (a, b) else None))"

definition bracket_syntax_error :: "string \<Rightarrow> app_error" where
  "bracket_syntax_error key =
     BadRequest (''Invalid filter key syntax: '' @ [quote_char] @ key @ [quote_char]
       @ ''. Bracket notation must be properly closed. Use format like '' @ [quote_char] @ ''field[operator]''
       @ [quote_char] @ '' where operator is one of: eq, ne, gt, gte, lt, lte, in, not_in, contains, exists, startswith, endswith, like, ilike'')"

definition closing_bracket_error :: "string \<Rightarrow> app_error" where
  "closing_bracket_error key =
     BadRequest (''Invalid filter key syntax: '' @ [quote_char] @ key @ [quote_char]
       @ ''. Unexpected closing bracket without opening bracket.'')"

definition parse_filter_key :: "string \<Rightarrow> (app_error, filter_expression) result" where
  "parse_filter_key key =
     (case (case filter_key_captures key of
              Some po \<Rightarrow> Inr po
            | None \<Rightarrow>
                if contains_char key (CHR ''['') then Inl (bracket_syntax_error key)
                else if contains_char key (CHR '']'') then Inl (closing_bracket_error key)
                else Inr (key, ''eq'')) of
        Inl e \<Rightarrow> Inl e
      | Inr (path_str, operator_str) \<Rightarrow>
          (case map_of operator_table operator_str of
             None \<Rightarrow> Inl (BadRequest (''Unsupported operator: '' @ operator_str))
           | Some oper \<Rightarrow> Inr \<lparr> fe_path = split_on (CHR ''.'') path_str, fe_operator = oper \<rparr>))"

lemma filter_key_captures_Some:
  "filter_key_captures key = Some (a, b) \<longleftrightarrow>
     key = a @ ''['' @ b @ '']'' \<and> b \<noteq> [] \<and> list_all operator_char b \<and> CHR 0x0A \<notin> set a"
proof
  assume "filter_key_captures key = Some (a, b)"
  then show "key = a @ ''['' @ b @ '']'' \<and> b \<noteq> [] \<and> list_all operator_char b \<and> CHR 0x0A \<notin> set a"
    by (auto simp: filter_key_captures_def rsplit_once_Some split: option.splits if_splits)
next
  assume *: "key = a @ ''['' @ b @ '']'' \<and> b \<noteq> [] \<and> list_all operator_char b \<and> CHR 0x0A \<notin> set a"
  then have "CHR ''['' \<notin> set b" by (auto simp: list_all_iff operator_char_def ccode_def)
  then have sfx: "strip_suffix '']'' key = Some (a @ ''['' @ b)"
    and rs: "rsplit_once (CHR ''['') (a @ ''['' @ b) = Some (a, b)"
    using * by (auto simp: rsplit_once_Some)
  show "filter_key_captures key = Some (a, b)"
    unfolding filter_key_captures_def sfx option.case rs prod.case using * by simp
qed

lemma operator_table_eq: "map_of operator_table ''eq'' = Some OpEq"
  by (simp add: operator_table_def)

lemma operator_table_chars:
  "map_of operator_table b = Some oper \<Longrightarrow> b \<noteq> [] \<and> list_all operator_char b"
  by (auto simp: operator_table_def operator_char_def ccode_def split: if_splits)

text \<open>A parsed path always has a base column and its segments hold no dot.\<close>

lemma parse_filter_key_path:
  assumes "parse_filter_key key = Inr fe"
  shows "fe_path fe \<noteq> []" "\<forall>p \<in> set (fe_path fe). CHR ''.'' \<notin> set p"
  using assms split_on_no_sep
  by (auto simp: parse_filter_key_def split: sum.splits option.splits if_splits)

text \<open>The path is cut out of the key.\<close>

lemma parse_filter_key_source:
  assumes "parse_filter_key key = Inr fe"
  shows "\<exists>a. fe_path fe = split_on (CHR ''.'') a \<and> set a \<subseteq> set key"
proof (cases "filter_key_captures key")
  case None
  then have "fe_path fe = split_on (CHR ''.'') key"
    using assms by (auto simp: parse_filter_key_def operator_table_eq split: if_splits)
  then show ?thesis by blast
next
  case (Some ab)
  then obtain a b where k: "filter_key_captures key = Some (a, b)" by (cases ab) simp
  then have "fe_path fe = split_on (CHR ''.'') a"
    using assms by (auto simp: parse_filter_key_def split: option.splits)
  moreover have "set a \<subseteq> set key" using k by (auto simp: filter_key_captures_Some)
  ultimately show ?thesis by blast
qed

lemma parse_filter_key_Inr_iff:
  "parse_filter_key key = Inr fe \<longleftrightarrow>
     (CHR ''['' \<notin> set key \<and> CHR '']'' \<notin> set key \<and> fe = \<lparr> fe_path = split_on (CHR ''.'') key, fe_operator = OpEq \<rparr>)
     \<or> (\<exists>a b oper. key = a @ ''['' @ b @ '']'' \<and> CHR 0x0A \<notin> set a \<and> map_of operator_table b = Some oper
          \<and> fe = \<lparr> fe_path = split_on (CHR ''.'') a, fe_operator = oper \<rparr>)"
  (is "_ \<longleftrightarrow> ?bare \<or> ?op")
proof (cases "filter_key_captures key")
  case None
  have "False" if "key = a @ ''['' @ b @ '']''" "CHR 0x0A \<notin> set a" "map_of operator_table b = Some oper" for a b oper
    using that(1,2) operator_table_chars [OF that(3)] None filter_key_captures_Some [of key a b] by simp
  then have "\<not> ?op" by blast
  then show ?thesis
    using None by (auto simp: parse_filter_key_def operator_table_eq)
next
  case (Some ab)
  then obtain a b where ab: "ab = (a, b)" by (cases ab)
  with Some have k: "filter_key_captures key = Some (a, b)" by simp
  then have key: "key = a @ ''['' @ b @ '']''" and nl: "CHR 0x0A \<notin> set a"
    by (auto simp: filter_key_captures_Some)
  have uniq: "a' = a \<and> b' = b"
    if "key = a' @ ''['' @ b' @ '']''" "CHR 0x0A \<notin> set a'" "map_of operator_table b' = Some oper" for a' b' oper
    using that k operator_table_chars [OF that(3)] filter_key_captures_Some [of key a' b'] by simp
  have "\<not> ?bare" using key by simp
  moreover have "parse_filter_key key = Inr fe \<longleftrightarrow>
      (\<exists>oper. map_of operator_table b = Some oper \<and> fe = \<lparr> fe_path = split_on (CHR ''.'') a, fe_operator = oper \<rparr>)"
    by (auto simp: parse_filter_key_def k split: option.splits)
  ultimately show ?thesis using key nl uniq by (metis (no_types, lifting))
qed

text \<open>C38: a filter key is accepted exactly when it is a bare path without brackets, which means equality, or a path
  without a line break followed by a supported operator in brackets; it is parsed to the segments of that path
  between dots and to that operator, and no key has a second parse.\<close>

theorem parse_filter_key_iff:
  "parse_filter_key key = Inr fe \<longleftrightarrow>
     (CHR ''['' \<notin> set key \<and> CHR '']'' \<notin> set key \<and> fe = \<lparr> fe_path = split_on (CHR ''.'') key, fe_operator = OpEq \<rparr>)
     \<or> (\<exists>a b oper. key = a @ ''['' @ b @ '']'' \<and> CHR 0x0A \<notin> set a \<and> map_of operator_table b = Some oper
          \<and> fe = \<lparr> fe_path = split_on (CHR ''.'') a, fe_operator = oper \<rparr>)"
  by (rule parse_filter_key_Inr_iff)

section \<open>The column a filter or sort key is about\<close>

definition extract_base_column :: "string \<Rightarrow> string" where
  "extract_base_column field =
     (if starts_with field ''$'' then
        (let parts = split_on (CHR ''.'') field in
         if length parts > 1 then trim_start_char (CHR ''$'') (parts ! 1)
         else trim_start_char (CHR ''$'') field)
      else if contains_str field ''->'' \<or> contains_str field ''#>'' \<or> contains_str field ''#>>'' then
        trim_end_char (CHR ''-'') (takeWhile (\<lambda>c. c \<noteq> CHR ''>'' \<and> c \<noteq> CHR ''#'') field)
      else if is_bracket_notation field then fst (parse_sort_field field)
      else if is_dotted_path field then fst (parse_sort_field field)
      else field)"

definition extract_jsonb_path :: "string \<Rightarrow> string" where
  "extract_jsonb_path field =
     (case snd (parse_sort_field field) of [] \<Rightarrow> ''$'' | path \<Rightarrow> ''$.'' @ join ''.'' path)"

definition is_valid_filter_column :: "string \<Rightarrow> column_config list \<Rightarrow> bool" where
  "is_valid_filter_column field cols =
     (let base = extract_base_column field in is_jsonb_column base cols \<or> column_exists base cols)"

lemma is_valid_filter_column_iff:
  "is_valid_filter_column field cols \<longleftrightarrow> column_exists (extract_base_column field) cols"
  using jsonb_column_exists by (auto simp: is_valid_filter_column_def Let_def)

lemma extract_base_column_plain:
  assumes "list_all (\<lambda>c. is_alphanumeric c \<or> c = CHR ''_'') field"
  shows "extract_base_column field = field"
proof -
  have c: "c \<in> set field \<Longrightarrow> is_alphanumeric c \<or> c = CHR ''_''" for c
    using assms by (auto simp: list_all_iff)
  have no: "CHR ''$'' \<notin> set field" "CHR ''>'' \<notin> set field" "CHR ''['' \<notin> set field" "CHR ''.'' \<notin> set field"
    using c by (force simp: is_alphanumeric_def is_ascii_alpha_def is_digit_def is_latin_letter_def
        is_latin_numeric_def ccode_def)+
  then have "\<not> starts_with field ''$''" "\<not> sublist ''->'' field" "\<not> sublist ''#>'' field" "\<not> sublist ''#>>'' field"
    by (auto simp: str_simps prefix_def sublist_def)
  with no show ?thesis
    by (simp add: extract_base_column_def str_simps is_bracket_notation_def is_dotted_path_def)
qed

end
