(* ===== verification/Interpolation.thy ===== *)
theory Interpolation
  imports Sql_Text
begin

text \<open>
  The request context and the interpolation of \<open>${key}\<close> in configured text
  (src/db/query/helpers/interpolation.rs, src/middleware/auth/extractor.rs), field resolution, and
  the coercion of key and filter values to the JSON value bound as a parameter. The matches of
  \<open>VALUE_INTERPOLATION_RE\<close> are found by scanning from the left.
\<close>

section \<open>Request context\<close>

record request_context =
  rc_user_id :: "string option"
  rc_user_email :: "string option"
  rc_user_role :: "string option"
  rc_headers :: "(string, string) entries"
  rc_method :: string
  rc_path :: string
  rc_raw_query_params :: "(string, string) entries"

definition request_context_new :: request_context where
  "request_context_new =
     \<lparr> rc_user_id = None, rc_user_email = None, rc_user_role = None, rc_headers = [], rc_method = [],
       rc_path = [], rc_raw_query_params = [] \<rparr>"

definition resolve_single_key :: "string \<Rightarrow> request_context \<Rightarrow> string option" where
  "resolve_single_key key ctx =
     (if key = ''request.user.id'' then rc_user_id ctx
      else if key = ''request.user.email'' then rc_user_email ctx
      else if key = ''request.user.role'' then rc_user_role ctx
      else if key = ''request.method'' then Some (rc_method ctx)
      else if key = ''request.path'' then Some (rc_path ctx)
      else case strip_prefix ''request.headers.'' key of
             Some header_name \<Rightarrow> map_of (rc_headers ctx) header_name
           | None \<Rightarrow>
               (case strip_prefix ''request.query.'' key of
                  Some query_key \<Rightarrow> map_of (rc_raw_query_params ctx) query_key
                | None \<Rightarrow> None))"

section \<open>The matches of the interpolation pattern\<close>

text \<open>A match at the head of the text: the key and the text after the closing brace.\<close>

definition key_at :: "string \<Rightarrow> (string \<times> string) option" where
  "key_at s =
     (case strip_prefix ''${'' s of
        None \<Rightarrow> None
      | Some r \<Rightarrow>
          if takeWhile (\<lambda>c. c \<noteq> CHR ''}'') r \<noteq> [] \<and> dropWhile (\<lambda>c. c \<noteq> CHR ''}'') r \<noteq> []
          then Some (takeWhile (\<lambda>c. c \<noteq> CHR ''}'') r, tl (dropWhile (\<lambda>c. c \<noteq> CHR ''}'') r))
          else None)"

lemma key_at_Some:
  assumes "key_at s = Some (k, r)"
  shows "s = ''${'' @ k @ ''}'' @ r" "k \<noteq> []" "CHR ''}'' \<notin> set k"
proof -
  obtain t where t: "s = ''${'' @ t" "k = takeWhile (\<lambda>c. c \<noteq> CHR ''}'') t" "k \<noteq> []"
      "dropWhile (\<lambda>c. c \<noteq> CHR ''}'') t \<noteq> []" "r = tl (dropWhile (\<lambda>c. c \<noteq> CHR ''}'') t)"
    using assms by (auto simp: key_at_def split: option.splits if_splits)
  have "hd (dropWhile (\<lambda>c. c \<noteq> CHR ''}'') t) = CHR ''}''"
    using hd_dropWhile [OF t(4)] by simp
  then have "dropWhile (\<lambda>c. c \<noteq> CHR ''}'') t = CHR ''}'' # r"
    using t(4,5) by (cases "dropWhile (\<lambda>c. c \<noteq> CHR ''}'') t") auto
  then have "t = k @ CHR ''}'' # r" using t(2) takeWhile_dropWhile_id by metis
  then show "s = ''${'' @ k @ ''}'' @ r" using t(1) by simp
  show "k \<noteq> []" by (rule t(3))
  show "CHR ''}'' \<notin> set k" using t(2) by (auto dest: set_takeWhileD)
qed

text \<open>The literal text before each match with the match's key, and the text after the last match.\<close>

function interp_split :: "string \<Rightarrow> string \<Rightarrow> (string \<times> string) list \<times> string" where
  "interp_split [] lit = ([], lit)"
| "interp_split (c # cs) lit =
     (case key_at (c # cs) of
        Some (k, rest) \<Rightarrow> (case interp_split rest [] of (ps, t) \<Rightarrow> ((lit, k) # ps, t))
      | None \<Rightarrow> interp_split cs (lit @ [c]))"
  by pat_completeness auto
termination
proof (relation "measure (\<lambda>(s, lit). length s)")
  fix c cs k rest and p :: "string \<times> string" and lit :: string
  assume "key_at (c # cs) = Some p" "(k, rest) = p"
  then have "c # cs = ''${'' @ k @ ''}'' @ rest" using key_at_Some by metis
  then have "length (c # cs) = length (''${'' @ k @ ''}'' @ rest)" by (rule arg_cong)
  then show "((rest, []), (c # cs, lit)) \<in> measure (\<lambda>(s, lit). length s)" by simp
qed auto

lemma interp_split_reassemble:
  "interp_split s lit = (ps, t) \<Longrightarrow> concat (map (\<lambda>(l, k). l @ ''${'' @ k @ ''}'') ps) @ t = lit @ s"
proof (induction s lit arbitrary: ps t rule: interp_split.induct)
  case (2 c cs lit)
  show ?case
  proof (cases "key_at (c # cs)")
    case None
    with 2(1) [OF None] "2.prems" show ?thesis by simp
  next
    case (Some kr)
    then obtain k rest where kr: "key_at (c # cs) = Some (k, rest)" by (cases kr) auto
    obtain ps' t' where r: "interp_split rest [] = (ps', t')" by (cases "interp_split rest []")
    have "concat (map (\<lambda>(l, k). l @ ''${'' @ k @ ''}'') ps') @ t' = rest"
      using 2(2) [OF kr refl r] by simp
    then show ?thesis using key_at_Some(1) [OF kr] "2.prems" kr r by auto
  qed
qed auto

definition value_matches :: "string \<Rightarrow> (string \<times> string) list \<times> string" where
  "value_matches s = interp_split s []"

section \<open>Interpolation into a value\<close>

text \<open>A key with \<open>:-\<close> falls back to the text after it.\<close>

definition resolve_with_default :: "string \<Rightarrow> request_context \<Rightarrow> string option" where
  "resolve_with_default key ctx =
     (case split_once_str '':-'' key of
        None \<Rightarrow> resolve_single_key key ctx
      | Some (base, dflt) \<Rightarrow> or_else (resolve_single_key base ctx) (Some dflt))"

definition interpolate_value :: "string \<Rightarrow> request_context \<Rightarrow> (app_error, json) result" where
  "interpolate_value v ctx =
     (case value_matches v of (ps, t) \<Rightarrow>
        if ps = [] then Inr (JStr v)
        else
          (let new_string = concat (map (\<lambda>(l, k). l @
                 (case resolve_with_default k ctx of Some val \<Rightarrow> val | None \<Rightarrow> ''${'' @ k @ ''}'')) ps) @ t;
               found = (\<exists>(l, k) \<in> set ps. resolve_with_default k ctx \<noteq> None)
           in if found then Inr (JStr new_string) else Inr (JStr v)))"

lemma interpolate_value_ok: "\<exists>s. interpolate_value v ctx = Inr (JStr s)"
  by (auto simp: interpolate_value_def Let_def split: prod.splits)

section \<open>Interpolation into a WHERE clause\<close>

definition resolve_where_key :: "string \<Rightarrow> request_context \<Rightarrow> string option" where
  "resolve_where_key key ctx =
     (case resolve_single_key key ctx of
        Some v \<Rightarrow> Some v
      | None \<Rightarrow>
          (case split_once_str '':-'' key of
             None \<Rightarrow> None
           | Some (base, dflt) \<Rightarrow> or_else (resolve_single_key base ctx) (Some dflt)))"

fun where_go :: "request_context \<Rightarrow> database_driver \<Rightarrow> (string \<times> string) list \<Rightarrow> json list \<Rightarrow> string list \<Rightarrow> nat
    \<Rightarrow> (app_error, json list \<times> string list \<times> nat) result" where
  "where_go ctx d [] params parts consumed = Inr (params, parts, consumed)"
| "where_go ctx d ((lit, key) # ps) params parts consumed =
     (case resolve_where_key key ctx of
        Some v \<Rightarrow> where_go ctx d ps (params @ [JStr v]) (parts @ [lit, placeholder d (consumed + 1)]) (consumed + 1)
      | None \<Rightarrow> Inl (BadRequest (''Could not resolve interpolation key: '' @ key)))"

text \<open>The parameters and the text parts grow; the result also counts the parameters added.\<close>

definition interpolate_where_clause ::
  "string \<Rightarrow> request_context \<Rightarrow> database_driver \<Rightarrow> json list \<Rightarrow> string list
     \<Rightarrow> (app_error, json list \<times> string list \<times> nat) result" where
  "interpolate_where_clause wc ctx d params parts =
     (case value_matches wc of (ps, t) \<Rightarrow>
        (case where_go ctx d ps params parts 0 of
           Inl e \<Rightarrow> Inl e
         | Inr (params', parts', consumed) \<Rightarrow> Inr (params', parts' @ [t], consumed)))"

text \<open>The parts and the text they join to: placeholders are numbered from one, whatever is bound before.\<close>

fun where_parts :: "database_driver \<Rightarrow> nat \<Rightarrow> (string \<times> string) list \<Rightarrow> string list" where
  "where_parts d n [] = []"
| "where_parts d n ((lit, key) # ps) = lit # placeholder d (n + 1) # where_parts d (n + 1) ps"

definition where_text :: "database_driver \<Rightarrow> nat \<Rightarrow> (string \<times> string) list \<Rightarrow> string" where
  "where_text d n ps = concat (where_parts d n ps)"

lemma join_empty_sep: "join [] xs = concat xs"
  by (induction "[] :: string" xs rule: join.induct) auto

lemma where_text_simps [simp]:
  "where_text d n [] = []"
  "where_text d n ((l, k) # ps) = l @ placeholder d (n + 1) @ where_text d (n + 1) ps"
  by (simp_all add: where_text_def)

definition where_clause_sql :: "database_driver \<Rightarrow> string \<Rightarrow> string" where
  "where_clause_sql d wc = where_text d 0 (fst (value_matches wc)) @ snd (value_matches wc)"

lemma where_go_spec:
  "where_go ctx d ps params parts n =
     (case find (\<lambda>(l, k). resolve_where_key k ctx = None) ps of
        Some (l, k) \<Rightarrow> Inl (BadRequest (''Could not resolve interpolation key: '' @ k))
      | None \<Rightarrow> Inr (params @ map (\<lambda>(l, k). JStr (the (resolve_where_key k ctx))) ps,
          parts @ where_parts d n ps, n + length ps))"
proof (induction ps arbitrary: params parts n)
  case (Cons p ps)
  obtain l k where p: "p = (l, k)" by (cases p)
  show ?case
    by (cases "resolve_where_key k ctx") (simp_all add: p Cons split: option.split)
qed simp

text \<open>When it succeeds, the text is fixed by the configured clause alone, the values go to the
  parameters, and every key is resolved.\<close>

lemma interpolate_where_clause_Inr:
  assumes "interpolate_where_clause wc ctx d params parts = Inr (params', parts', consumed)"
  shows "concat parts' = concat parts @ where_clause_sql d wc"
    "params' = params @ map (\<lambda>(l, k). JStr (the (resolve_where_key k ctx))) (fst (value_matches wc))"
    "consumed = length (fst (value_matches wc))"
    "\<forall>(l, k) \<in> set (fst (value_matches wc)). resolve_where_key k ctx \<noteq> None"
proof -
  obtain ps t where v: "value_matches wc = (ps, t)" by (cases "value_matches wc")
  have f: "find (\<lambda>(l, k). resolve_where_key k ctx = None) ps = None"
    using assms by (auto simp: interpolate_where_clause_def v where_go_spec split: option.splits)
  show "concat parts' = concat parts @ where_clause_sql d wc"
    using assms f by (auto simp: interpolate_where_clause_def v where_go_spec where_clause_sql_def where_text_def)
  show "params' = params @ map (\<lambda>(l, k). JStr (the (resolve_where_key k ctx))) (fst (value_matches wc))"
    using assms f by (auto simp: interpolate_where_clause_def v where_go_spec)
  show "consumed = length (fst (value_matches wc))"
    using assms f by (auto simp: interpolate_where_clause_def v where_go_spec)
  show "\<forall>(l, k) \<in> set (fst (value_matches wc)). resolve_where_key k ctx \<noteq> None"
    using f by (auto simp: v find_None_iff_all)
qed

lemma interpolate_where_clause_total:
  assumes "\<forall>(l, k) \<in> set (fst (value_matches wc)). resolve_where_key k ctx \<noteq> None"
  shows "\<exists>r. interpolate_where_clause wc ctx d params parts = Inr r"
proof -
  obtain ps t where v: "value_matches wc = (ps, t)" by (cases "value_matches wc")
  have "find (\<lambda>(l, k). resolve_where_key k ctx = None) ps = None"
    using assms by (auto simp: v find_None_iff_all)
  then show ?thesis by (simp add: interpolate_where_clause_def v where_go_spec)
qed

text \<open>Configured clauses whose literal text holds no marker: outside the keys there is neither a dollar
  sign nor a question mark, and no literal starts with a digit.\<close>

definition clean_where :: "string \<Rightarrow> bool" where
  "clean_where wc =
     (list_all (\<lambda>(l, k). inert l) (fst (value_matches wc)) \<and> inert (snd (value_matches wc))
      \<and> list_all (\<lambda>l. \<not> digit_start l) (tl (map fst (fst (value_matches wc)) @ [snd (value_matches wc)])))"

lemma where_text_marks:
  assumes "list_all (\<lambda>(l, k). inert l) ps" "inert t"
    "list_all (\<lambda>l. \<not> digit_start l) (tl (map fst ps @ [t]))"
  shows "marks d (where_text d n ps @ t) = marks_from d (Suc n) (length ps)"
  using assms
proof (induction ps arbitrary: n)
  case (Cons p ps)
  obtain l k where p: "p = (l, k)" by (cases p)
  have nd: "\<not> digit_start (where_text d (Suc n) ps @ t)"
  proof (cases ps)
    case (Cons q qs)
    then have "\<not> digit_start (fst q)" using \<open>list_all _ (tl (map fst (p # ps) @ [t]))\<close> by simp
    then show ?thesis using Cons by (cases q; cases "fst q") auto
  qed (use Cons.prems in simp)
  have "list_all (\<lambda>l. \<not> digit_start l) (tl (map fst ps @ [t]))"
    using Cons.prems(3) by (cases ps) auto
  then have "marks d (where_text d (Suc n) ps @ t) = marks_from d (Suc (Suc n)) (length ps)"
    using Cons by simp
  with nd Cons.prems show ?case
    by (simp add: p refs_simps marks_from_Suc_left)
qed (simp add: marks_inert)

lemma where_clause_marks:
  "clean_where wc \<Longrightarrow> marks d (where_clause_sql d wc) = marks_from d 1 (length (fst (value_matches wc)))"
  using where_text_marks [of "fst (value_matches wc)" "snd (value_matches wc)" d 0]
  by (simp add: clean_where_def where_clause_sql_def)

section \<open>Fields, primary key, coercion\<close>

definition resolve_writable_fields :: "string list \<Rightarrow> table_config \<Rightarrow> string set" where
  "resolve_writable_fields writable t =
     (if ''*'' \<in> set writable then set (map col_name (tbl_columns t)) else set writable)"

definition resolve_fields :: "string list \<Rightarrow> table_config \<Rightarrow> string list" where
  "resolve_fields names t = (if names = [''*''] then map col_name (tbl_columns t) else names)"

definition find_pk :: "table_config \<Rightarrow> column_config option" where
  "find_pk t = find col_primary_key (tbl_columns t)"

definition find_pk_column :: "table_config \<Rightarrow> (app_error, string) result" where
  "find_pk_column t =
     (case find_pk t of
        Some c \<Rightarrow> Inr (col_name c)
      | None \<Rightarrow> Inl (Internal ''Table has no primary key column''))"

fun is_integer_type :: "column_type \<Rightarrow> bool" where
  "is_integer_type Integer = True"
| "is_integer_type Bigint = True"
| "is_integer_type Smallint = True"
| "is_integer_type Serial = True"
| "is_integer_type Bigserial = True"
| "is_integer_type _ = False"

fun is_float_type :: "column_type \<Rightarrow> bool" where
  "is_float_type Float = True"
| "is_float_type Double = True"
| "is_float_type Decimal = True"
| "is_float_type _ = False"

text \<open>A float literal becomes the number it denotes; \<open>json!\<close> of an infinity or NaN is null.\<close>

definition coerce_float :: "string \<Rightarrow> json" where
  "coerce_float raw =
     (case parse_f64 raw of None \<Rightarrow> JStr raw | Some True \<Rightarrow> JFloat raw | Some False \<Rightarrow> JNull)"

definition coerce_pk_value :: "table_config \<Rightarrow> string \<Rightarrow> json" where
  "coerce_pk_value t raw =
     (case map_option col_type (find_pk t) of
        Some ty \<Rightarrow>
          if is_integer_type ty then (case parse_i64 raw of None \<Rightarrow> JInt i64_min | Some n \<Rightarrow> JInt n)
          else if is_float_type ty then coerce_float raw
          else JStr raw
      | None \<Rightarrow> JStr raw)"

definition null_or_string :: "string \<Rightarrow> json" where
  "null_or_string v = (if lowercase v = ''null'' then JNull else JStr v)"

definition coerce_filter_value_by_type :: "string \<Rightarrow> column_type \<Rightarrow> database_driver \<Rightarrow> json" where
  "coerce_filter_value_by_type v ty d =
     (if is_integer_type ty then (case parse_i64 v of None \<Rightarrow> JStr v | Some n \<Rightarrow> JInt n)
      else if is_float_type ty then coerce_float v
      else if ty = Boolean then (case parse_bool v of None \<Rightarrow> JStr v | Some b \<Rightarrow> JBool b)
      else if is_json_type ty then
        (if d = Postgres \<or> d = Mysql then null_or_string v
         else if lowercase v = ''null'' then JNull
         else case parse_bool v of
                Some b \<Rightarrow> JBool b
              | None \<Rightarrow>
                  (case parse_i64 v of
                     Some n \<Rightarrow> JInt n
                   | None \<Rightarrow>
                       (case parse_f64 v of Some True \<Rightarrow> JFloat v | Some False \<Rightarrow> JStr v | None \<Rightarrow> JStr v)))
      else null_or_string v)"

definition build_filter_param :: "string \<Rightarrow> column_type \<Rightarrow> database_driver \<Rightarrow> json" where
  "build_filter_param v ty d = coerce_filter_value_by_type v ty d"

lemma find_pk_column_Inr:
  "find_pk_column t = Inr n \<Longrightarrow> \<exists>c \<in> set (tbl_columns t). col_primary_key c \<and> col_name c = n"
  by (auto simp: find_pk_column_def find_pk_def split: option.splits dest!: find_Some_iff_first)

text \<open>A parameter built from a filter value is a scalar.\<close>

fun is_scalar :: "json \<Rightarrow> bool" where
  "is_scalar (JArr _) = False"
| "is_scalar (JObj _) = False"
| "is_scalar _ = True"

lemma build_filter_param_scalar: "is_scalar (build_filter_param v ty d)"
  by (auto simp: build_filter_param_def coerce_filter_value_by_type_def coerce_float_def
      null_or_string_def split: option.split bool.split)

lemma coerce_pk_value_scalar: "is_scalar (coerce_pk_value t raw)"
  by (auto simp: coerce_pk_value_def coerce_float_def split: option.split bool.split)

text \<open>C28: two requests that both satisfy a configured WHERE clause get the same SQL text; what
  differs between them is only the bound values, one string per key of the clause.\<close>

theorem where_clause_noninterference:
  assumes "interpolate_where_clause wc ctx d params parts = Inr (params1, parts1, n1)"
    and "interpolate_where_clause wc ctx' d params parts = Inr (params2, parts2, n2)"
  shows "concat parts1 = concat parts2 \<and> n1 = n2 \<and> length params1 = length params + n1
     \<and> take (length params) params1 = params \<and> (\<forall>v \<in> set (drop (length params) params1). \<exists>s. v = JStr s)"
  using interpolate_where_clause_Inr [OF assms(1)] interpolate_where_clause_Inr [OF assms(2)]
  by auto

definition sample_context :: request_context where
  "sample_context = request_context_new \<lparr> rc_user_id := Some ''u1'' \<rparr>"

theorem where_clause_noninterference_witness:
  "\<exists>p1 s1 n1 p2 s2 n2.
     interpolate_where_clause ''author_id = ${request.user.id}'' sample_context Postgres [] [] = Inr (p1, s1, n1)
     \<and> interpolate_where_clause ''author_id = ${request.user.id}'' (sample_context \<lparr> rc_user_id := Some ''x OR 1=1'' \<rparr>)
          Postgres [] [] = Inr (p2, s2, n2)
     \<and> p1 \<noteq> p2 \<and> concat s1 = concat s2"
proof -
  let ?wc = "''author_id = ${request.user.id}''"
  have a: "interpolate_where_clause ?wc sample_context Postgres [] [] = Inr ([JStr ''u1''], [''author_id = '', ''$1'', []], 1)"
    by code_simp
  have b: "interpolate_where_clause ?wc (sample_context \<lparr> rc_user_id := Some ''x OR 1=1'' \<rparr>) Postgres [] [] =
      Inr ([JStr ''x OR 1=1''], [''author_id = '', ''$1'', []], 1)"
    by code_simp
  show ?thesis using where_clause_noninterference [OF a b] a b by fastforce
qed

end
