(* ===== verification/Select_Builder.thy ===== *)
theory Select_Builder
  imports Filter_Behavior Filters Interpolation
begin

text \<open>
  The SELECT builder (src/db/query/select.rs, builders/select_builder.rs, count.rs) and its contexts
  (src/db/query/types.rs). A builder is a record threaded through the \<open>apply_\<close> steps; a step that can
  fail returns a sum. The filters arrive in a hash map, here the list of its entries in iteration
  order. The offset of a page is computed modulo 2^64, as release builds do.
\<close>

section \<open>Contexts and results\<close>

record built_query =
  bq_sql :: string
  bq_params :: "json list"

record mutation_context =
  mc_writable_fields :: "string list"
  mc_insert_owner :: "string option"
  mc_update_where_clause :: "string option"
  mc_delete_where_clause :: "string option"

record select_context =
  sc_fields :: "string list"
  sc_joins :: "join_config list"
  sc_computed_fields :: "computed_field_config list"
  sc_where_clause :: "string option"
  sc_filtering_enabled :: bool
  sc_filtering_allowed_fields :: "string list"
  sc_sorting_enabled :: bool
  sc_sorting_default_field :: string
  sc_sorting_default_order :: sort_order
  sc_sorting_allowed_fields :: "string list"
  sc_pagination_enabled :: bool
  sc_pagination_default_page_size :: nat
  sc_pagination_max_page_size :: nat

definition select_context_permissive :: select_context where
  "select_context_permissive =
     \<lparr> sc_fields = [''*''], sc_joins = [], sc_computed_fields = [], sc_where_clause = None,
       sc_filtering_enabled = True, sc_filtering_allowed_fields = [''*''],
       sc_sorting_enabled = True, sc_sorting_default_field = [], sc_sorting_default_order = Desc,
       sc_sorting_allowed_fields = [''*''], sc_pagination_enabled = True,
       sc_pagination_default_page_size = 20, sc_pagination_max_page_size = 100 \<rparr>"

definition mutation_context_of :: "crud_config \<Rightarrow> mutation_context" where
  "mutation_context_of c =
     \<lparr> mc_writable_fields = crud_writable_fields c, mc_insert_owner = crud_insert_owner c,
       mc_update_where_clause = crud_update_where_clause c, mc_delete_where_clause = crud_delete_where_clause c \<rparr>"

definition select_context_of :: "crud_config \<Rightarrow> select_context" where
  "select_context_of c =
     \<lparr> sc_fields = crud_fields c, sc_joins = crud_joins c, sc_computed_fields = crud_computed_fields c,
       sc_where_clause = crud_where_clause c,
       sc_filtering_enabled = flt_enabled (crud_filtering c),
       sc_filtering_allowed_fields = flt_allowed_fields (crud_filtering c),
       sc_sorting_enabled = srt_enabled (crud_sorting c),
       sc_sorting_default_field = srt_default_field (crud_sorting c),
       sc_sorting_default_order = srt_default_order (crud_sorting c),
       sc_sorting_allowed_fields = srt_allowed_fields (crud_sorting c),
       sc_pagination_enabled = pgn_enabled (crud_pagination c),
       sc_pagination_default_page_size = pgn_default_page_size (crud_pagination c),
       sc_pagination_max_page_size = pgn_max_page_size (crud_pagination c) \<rparr>"

section \<open>The builder\<close>

record select_builder =
  sb_table :: string
  sb_select_fields :: "string list"
  sb_joins :: "string list"
  sb_computed :: "string list"
  sb_conditions :: "string list"
  sb_order_by :: "string option"
  sb_limit_offset :: "(string \<times> string) option"
  sb_params :: "json list"
  sb_param_idx :: nat
  sb_driver :: database_driver
  sb_filter_behavior :: filter_behavior

definition select_new :: "string \<Rightarrow> string list \<Rightarrow> database_driver \<Rightarrow> select_builder" where
  "select_new table flds d =
     \<lparr> sb_table = table, sb_select_fields = flds, sb_joins = [], sb_computed = [], sb_conditions = [],
       sb_order_by = None, sb_limit_offset = None, sb_params = [], sb_param_idx = 1, sb_driver = d,
       sb_filter_behavior = filter_behavior_of d \<rparr>"

definition qualify :: "string \<Rightarrow> string \<Rightarrow> string" where
  "qualify table f = (if contains_char f (CHR ''.'') then f else table @ ''.'' @ f)"

definition qualify_main_fields :: "select_builder \<Rightarrow> select_builder" where
  "qualify_main_fields sb = sb \<lparr> sb_select_fields := map (qualify (sb_table sb)) (sb_select_fields sb) \<rparr>"

fun join_keyword :: "join_type \<Rightarrow> string" where
  "join_keyword InnerJoin = ''INNER JOIN''"
| "join_keyword LeftJoin = ''LEFT JOIN''"
| "join_keyword RightJoin = ''RIGHT JOIN''"

definition apply_join :: "join_config \<Rightarrow> select_builder \<Rightarrow> select_builder" where
  "apply_join j sb = sb
     \<lparr> sb_joins := sb_joins sb @ [join_keyword (join_join_type j) @ '' '' @ quote_identifier (join_table j) (sb_driver sb)
         @ '' ON '' @ join_on j],
       sb_select_fields := sb_select_fields sb @ map (qualify (sb_table sb)) (join_fields j) \<rparr>"

definition apply_joins :: "select_context \<Rightarrow> select_builder \<Rightarrow> select_builder" where
  "apply_joins ctx sb = (if sc_joins ctx = [] then sb else fold apply_join (sc_joins ctx) (qualify_main_fields sb))"

definition apply_computed_fields :: "select_context \<Rightarrow> select_builder \<Rightarrow> select_builder" where
  "apply_computed_fields ctx sb =
     sb \<lparr> sb_computed := sb_computed sb @ map (\<lambda>cf. cmp_expression cf @ '' AS '' @ cmp_name cf) (sc_computed_fields ctx) \<rparr>"

definition apply_where_clause :: "select_context \<Rightarrow> request_context \<Rightarrow> select_builder \<Rightarrow> (app_error, select_builder) result" where
  "apply_where_clause ctx rc sb =
     (case sc_where_clause ctx of
        None \<Rightarrow> Inr sb
      | Some wc \<Rightarrow>
          (case interpolate_where_clause wc rc (sb_driver sb) (sb_params sb) [] of
             Inl e \<Rightarrow> Inl e
           | Inr (params, parts, consumed) \<Rightarrow>
               Inr (sb \<lparr> sb_params := params, sb_param_idx := sb_param_idx sb + consumed,
                         sb_conditions := sb_conditions sb @ [''('' @ join [] parts @ '')''] \<rparr>)))"

section \<open>Filter conditions\<close>

text \<open>The column and the nested path a dotted path names; splitting always yields a first piece.\<close>

definition path_column :: "string \<Rightarrow> string" where
  "path_column path_str = hd (split_on (CHR ''.'') path_str)"

definition nested_path :: "string \<Rightarrow> string" where
  "nested_path path_str = join ''.'' (tl (split_on (CHR ''.'') path_str))"

definition build_comparison :: "select_builder \<Rightarrow> string \<Rightarrow> bool \<Rightarrow> string \<Rightarrow> string \<Rightarrow> string \<Rightarrow> filter_behavior \<Rightarrow> string" where
  "build_comparison sb base is_jsonb param oper path_str fb =
     (if is_jsonb
      then fb_json_extract_path fb (path_column path_str) (nested_path path_str) @ '' '' @ oper @ '' '' @ param
      else (sb_table sb @ ''.'' @ base) @ '' '' @ oper @ '' '' @ param)"

definition build_in :: "select_builder \<Rightarrow> string \<Rightarrow> bool \<Rightarrow> string \<Rightarrow> string \<Rightarrow> filter_behavior \<Rightarrow> string" where
  "build_in sb base is_jsonb param_list path_str fb =
     (if is_jsonb
      then fb_json_extract_path fb (path_column path_str) (nested_path path_str) @ '' IN ('' @ param_list @ '')''
      else (sb_table sb @ ''.'' @ base) @ '' IN ('' @ param_list @ '')'')"

definition build_contains :: "select_builder \<Rightarrow> bool \<Rightarrow> string \<Rightarrow> string \<Rightarrow> string \<Rightarrow> filter_behavior \<Rightarrow> string" where
  "build_contains sb is_jsonb param path_str v fb =
     (let column = path_column path_str; nested = nested_path path_str; json_str = json_text (JStr v) in
      if is_jsonb then
        if fb_uses_jsonb_ops fb then
          (if nested = [] then column @ '' @> '' @ [quote_char] @ json_str @ [quote_char] @ ''::jsonb''
           else
             (let pg_path_expr =
                (if contains_char nested (CHR ''.'')
                 then ''('' @ column @ '' #> '' @ [quote_char] @ ''{'' @ join '','' (split_on (CHR ''.'') nested) @ ''}''
                   @ [quote_char] @ '')''
                 else ''('' @ column @ ''->'' @ [quote_char] @ nested @ [quote_char] @ '')'')
              in pg_path_expr @ '' @> '' @ [quote_char] @ json_str @ [quote_char] @ ''::jsonb''))
        else if sb_driver sb = Mysql then
          (if nested = [] then ''JSON_CONTAINS('' @ column @ '', JSON_QUOTE('' @ param @ ''))''
           else ''JSON_CONTAINS(JSON_EXTRACT('' @ column @ '', '' @ [quote_char] @ ''$.'' @ nested @ [quote_char]
             @ ''), JSON_QUOTE('' @ param @ ''))'')
        else
          (if nested = [] then ''EXISTS (SELECT 1 FROM json_each('' @ column @ '', '' @ [quote_char] @ ''$'' @ [quote_char]
             @ '') WHERE value = '' @ param @ '')''
           else ''json_extract('' @ column @ '', '' @ [quote_char] @ ''$.'' @ nested @ [quote_char] @ '') = '' @ param)
      else (sb_table sb @ ''.'' @ column) @ '' LIKE '' @ param)"

definition build_exists :: "select_builder \<Rightarrow> bool \<Rightarrow> string \<Rightarrow> string \<Rightarrow> filter_behavior \<Rightarrow> string" where
  "build_exists sb is_jsonb base path_str fb =
     (if is_jsonb
      then fb_json_extract_path fb (path_column path_str) (nested_path path_str) @ '' IS NOT NULL''
      else (sb_table sb @ ''.'' @ base) @ '' IS NOT NULL'')"

definition build_like :: "select_builder \<Rightarrow> string \<Rightarrow> bool \<Rightarrow> string \<Rightarrow> string \<Rightarrow> filter_behavior \<Rightarrow> string" where
  "build_like sb base is_jsonb pattern path_str fb =
     (if is_jsonb
      then fb_json_extract_path fb (path_column path_str) (nested_path path_str) @ '' '' @ fb_like_op fb @ '' '' @ pattern
      else (sb_table sb @ ''.'' @ base) @ '' '' @ fb_like_op fb @ '' '' @ pattern)"

definition build_ilike :: "select_builder \<Rightarrow> string \<Rightarrow> bool \<Rightarrow> string \<Rightarrow> string \<Rightarrow> filter_behavior \<Rightarrow> string" where
  "build_ilike sb base is_jsonb pattern path_str fb =
     (if is_jsonb
      then ''LOWER('' @ fb_json_extract_path fb (path_column path_str) (nested_path path_str) @ '') ''
        @ fb_ilike_op fb @ '' LOWER('' @ pattern @ '')''
      else ''LOWER('' @ (sb_table sb @ ''.'' @ base) @ '') '' @ fb_ilike_op fb @ '' LOWER('' @ pattern @ '')'')"

text \<open>The dispatch on the operator; \<open>exists\<close> takes no parameter and is handled by the caller.\<close>

definition build_filter_condition ::
  "select_builder \<Rightarrow> filter_operator \<Rightarrow> string \<Rightarrow> bool \<Rightarrow> string \<Rightarrow> nat \<Rightarrow> string \<Rightarrow> filter_behavior \<Rightarrow> string" where
  "build_filter_condition sb oper base is_jsonb path_str num_params v fb =
     (let ph = placeholder (sb_driver sb) (sb_param_idx sb);
          cmp = (\<lambda>opname. build_comparison sb base is_jsonb ph opname path_str fb);
          ins = build_in sb base is_jsonb
            (join '', '' (map (\<lambda>i. placeholder (sb_driver sb) (sb_param_idx sb + i)) [0 ..< num_params])) path_str fb
      in case oper of
           OpEq \<Rightarrow> cmp (fb_eq_op fb)
         | OpNe \<Rightarrow> cmp (fb_ne_op fb)
         | OpGt \<Rightarrow> cmp (fb_gt_op fb)
         | OpGte \<Rightarrow> cmp (fb_gte_op fb)
         | OpLt \<Rightarrow> cmp (fb_lt_op fb)
         | OpLte \<Rightarrow> cmp (fb_lte_op fb)
         | OpIn \<Rightarrow> ins
         | OpNotIn \<Rightarrow> ''NOT '' @ ins
         | OpContains \<Rightarrow> build_contains sb is_jsonb ph path_str v fb
         | OpStartsWith \<Rightarrow> build_like sb base is_jsonb (fb_like_pattern_start fb ph) path_str fb
         | OpEndsWith \<Rightarrow> build_like sb base is_jsonb (fb_like_pattern_end fb ph) path_str fb
         | OpLike \<Rightarrow> build_like sb base is_jsonb (fb_like_pattern fb ph) path_str fb
         | OpILike \<Rightarrow> build_ilike sb base is_jsonb (fb_like_pattern fb ph) path_str fb
         | OpExists \<Rightarrow> [])"

definition filter_values :: "filter_operator \<Rightarrow> bool \<Rightarrow> string \<Rightarrow> string list" where
  "filter_values oper is_jsonb v =
     (case oper of
        OpIn \<Rightarrow> map trim (split_on (CHR '','') v)
      | OpNotIn \<Rightarrow> map trim (split_on (CHR '','') v)
      | OpContains \<Rightarrow> if is_jsonb then [v] else [''%'' @ v @ ''%'']
      | _ \<Rightarrow> [v])"

definition apply_filter_expression :: "filter_expression \<Rightarrow> string \<Rightarrow> column_type \<Rightarrow> select_builder \<Rightarrow> select_builder" where
  "apply_filter_expression expr v ty sb =
     (let path_str = join ''.'' (fe_path expr);
          base = (case fe_path expr of [] \<Rightarrow> [] | b # _ \<Rightarrow> b);
          is_jsonb = (length (fe_path expr) > 1 \<or> is_json_type ty);
          fb = sb_filter_behavior sb
      in if fe_operator expr = OpExists
         then sb \<lparr> sb_conditions := sb_conditions sb @ [build_exists sb is_jsonb base path_str fb] \<rparr>
         else
           (let vals = filter_values (fe_operator expr) is_jsonb v;
                cond = build_filter_condition sb (fe_operator expr) base is_jsonb path_str (length vals) v fb
            in sb \<lparr> sb_conditions := sb_conditions sb @ [cond],
                    sb_params := sb_params sb @ map (\<lambda>x. build_filter_param x ty (sb_driver sb)) vals,
                    sb_param_idx := sb_param_idx sb + length vals \<rparr>))"

definition get_column_type_for_filter :: "string \<Rightarrow> column_config list \<Rightarrow> column_type option" where
  "get_column_type_for_filter key cols =
     map_option col_type (find (\<lambda>c. col_name c = extract_base_column key) cols)"

definition apply_filter :: "select_context \<Rightarrow> table_config \<Rightarrow> string \<Rightarrow> string \<Rightarrow> select_builder \<Rightarrow> (app_error, select_builder) result" where
  "apply_filter ctx t key v sb =
     (case parse_filter_key key of
        Inl e \<Rightarrow> Inl e
      | Inr expr \<Rightarrow>
          (case fe_path expr of
             [] \<Rightarrow> Inl (BadRequest (''Invalid filter key: '' @ key))
           | base # _ \<Rightarrow>
               if ''*'' \<notin> set (sc_filtering_allowed_fields ctx)
                  \<and> extract_base_column base \<notin> set (sc_filtering_allowed_fields ctx) then
                 Inl (BadRequest (''Filtering by '' @ [quote_char] @ key @ [quote_char] @ '' is not allowed''))
               else if \<not> is_valid_filter_column key (tbl_columns t) then
                 Inl (BadRequest (''Filter column '' @ [quote_char] @ key @ [quote_char] @ '' does not exist in table ''
                   @ [quote_char] @ sb_table sb @ [quote_char]))
               else
                 (case get_column_type_for_filter key (tbl_columns t) of
                    None \<Rightarrow> Inl (Internal ''column validated but type missing'')
                  | Some ty \<Rightarrow> Inr (apply_filter_expression expr v ty sb))))"

fun apply_filters :: "select_context \<Rightarrow> (string, string) entries \<Rightarrow> table_config \<Rightarrow> select_builder
    \<Rightarrow> (app_error, select_builder) result" where
  "apply_filters ctx [] t sb = Inr sb"
| "apply_filters ctx ((key, v) # fs) t sb =
     (case apply_filter ctx t key v sb of Inl e \<Rightarrow> Inl e | Inr sb' \<Rightarrow> apply_filters ctx fs t sb')"

section \<open>Primary key, sorting, pagination\<close>

definition apply_pk_condition :: "string \<Rightarrow> json \<Rightarrow> select_builder \<Rightarrow> select_builder" where
  "apply_pk_condition pk_col pk_value sb =
     (if as_i64 pk_value = Some i64_min
      then sb \<lparr> sb_conditions := sb_conditions sb @ [''1 = 0''] \<rparr>
      else sb \<lparr> sb_conditions := sb_conditions sb @ [pk_col @ '' = '' @ placeholder (sb_driver sb) (sb_param_idx sb)],
                sb_params := sb_params sb @ [pk_value], sb_param_idx := sb_param_idx sb + 1 \<rparr>)"

definition sort_field_of :: "select_context \<Rightarrow> table_config \<Rightarrow> query_params \<Rightarrow> string" where
  "sort_field_of ctx t qp =
     (case qp_sort qp of
        Some s \<Rightarrow> s
      | None \<Rightarrow>
          if sc_sorting_default_field ctx = [] then (case find_pk t of None \<Rightarrow> ''id'' | Some c \<Rightarrow> col_name c)
          else sc_sorting_default_field ctx)"

fun order_str :: "sort_order \<Rightarrow> string" where
  "order_str Asc = ''ASC''"
| "order_str Desc = ''DESC''"

definition sort_jsonb_expr :: "database_driver \<Rightarrow> string \<Rightarrow> string \<Rightarrow> string" where
  "sort_jsonb_expr d base path_str =
     (case d of
        Postgres \<Rightarrow> ''('' @ base @ '' #>> '' @ [quote_char] @ ''{''
          @ join '','' (split_on (CHR ''.'') (unwrap_or (strip_prefix ''$.'' path_str) path_str)) @ ''}'' @ [quote_char] @ '')''
      | Mysql \<Rightarrow> ''JSON_EXTRACT('' @ base @ '', '' @ [quote_char] @ path_str @ [quote_char] @ '')''
      | Sqlite \<Rightarrow> ''json_extract('' @ base @ '', '' @ [quote_char] @ path_str @ [quote_char] @ '')'')"

definition apply_sorting :: "(string \<Rightarrow> bool) \<Rightarrow> select_context \<Rightarrow> table_config \<Rightarrow> query_params \<Rightarrow> select_builder
    \<Rightarrow> (app_error, select_builder) result" where
  "apply_sorting json_path_ok ctx t qp sb =
     (if \<not> sc_sorting_enabled ctx then Inr sb
      else
        (let sort_field = sort_field_of ctx t qp in
         if \<not> is_valid_expression json_path_ok sort_field then
           Inl (BadRequest (''Invalid sort field: '' @ sort_field))
         else if \<not> is_valid_sort_field sort_field (tbl_columns t) then
           Inl (BadRequest (''Sort field '' @ [quote_char] @ sort_field @ [quote_char] @ '' does not exist in table ''
             @ [quote_char] @ sb_table sb @ [quote_char]))
         else if ''*'' \<notin> set (sc_sorting_allowed_fields ctx) \<and> sort_field \<notin> set (sc_sorting_allowed_fields ctx) then
           Inl (BadRequest (''Sorting by '' @ [quote_char] @ sort_field @ [quote_char] @ '' is not allowed''))
         else
           (let ord = order_str (unwrap_or (qp_order qp) (sc_sorting_default_order ctx));
                base = fst (parse_sort_field sort_field);
                qualified = (if sb_joins sb \<noteq> [] \<and> \<not> contains_char sort_field (CHR ''.'')
                             then sb_table sb @ ''.'' @ sort_field else sort_field);
                lhs = (if (is_dotted_path sort_field \<or> is_bracket_notation sort_field)
                          \<and> is_jsonb_column base (tbl_columns t)
                       then sort_jsonb_expr (sb_driver sb) base (extract_jsonb_path sort_field)
                       else qualified)
            in Inr (sb \<lparr> sb_order_by := Some (lhs @ '' '' @ ord) \<rparr>))))"

definition page_size_of :: "select_context \<Rightarrow> query_params \<Rightarrow> nat" where
  "page_size_of ctx qp = min (unwrap_or (qp_page_size qp) (sc_pagination_default_page_size ctx)) (sc_pagination_max_page_size ctx)"

definition page_of :: "query_params \<Rightarrow> nat" where
  "page_of qp = max (unwrap_or (qp_page qp) 1) 1"

definition page_offset :: "select_context \<Rightarrow> query_params \<Rightarrow> nat" where
  "page_offset ctx qp = nat ((int (page_of qp - 1) * int (page_size_of ctx qp)) mod 2 ^ 64)"

definition json_i64_saturating :: "nat \<Rightarrow> json" where
  "json_i64_saturating n = JInt (min (int n) i64_max)"

definition apply_pagination :: "select_context \<Rightarrow> query_params \<Rightarrow> select_builder \<Rightarrow> select_builder" where
  "apply_pagination ctx qp sb =
     (if \<not> sc_pagination_enabled ctx then sb
      else sb \<lparr> sb_limit_offset := Some (placeholder (sb_driver sb) (sb_param_idx sb),
                  placeholder (sb_driver sb) (sb_param_idx sb + 1)),
                sb_param_idx := sb_param_idx sb + 2,
                sb_params := sb_params sb @ [json_i64_saturating (page_size_of ctx qp),
                  json_i64_saturating (page_offset ctx qp)] \<rparr>)"

definition limit_one :: "select_builder \<Rightarrow> select_builder" where
  "limit_one sb = sb \<lparr> sb_limit_offset := Some (''1'', ''0'') \<rparr>"

section \<open>The query text\<close>

definition build_sql :: "select_builder \<Rightarrow> string" where
  "build_sql sb =
     ''SELECT '' @ join '', '' (sb_select_fields sb @ sb_computed sb) @ '' FROM '' @ sb_table sb
     @ concat (map (\<lambda>j. '' '' @ j) (sb_joins sb))
     @ (if sb_conditions sb = [] then [] else '' WHERE '' @ join '' AND '' (sb_conditions sb))
     @ (case sb_order_by sb of None \<Rightarrow> [] | Some ob \<Rightarrow> '' ORDER BY '' @ ob)
     @ (case sb_limit_offset sb of
          None \<Rightarrow> []
        | Some (l, ofs) \<Rightarrow>
            if ofs = ''0'' \<and> \<not> starts_with l ''$'' \<and> \<not> starts_with l ''?'' then '' LIMIT '' @ l
            else '' LIMIT '' @ l @ '' OFFSET '' @ ofs)"

definition build :: "select_builder \<Rightarrow> built_query" where
  "build sb = \<lparr> bq_sql = build_sql sb, bq_params = sb_params sb \<rparr>"

section \<open>The three queries\<close>

definition build_select_list :: "(string \<Rightarrow> bool) \<Rightarrow> database_driver \<Rightarrow> table_config \<Rightarrow> select_context \<Rightarrow> query_params
    \<Rightarrow> request_context \<Rightarrow> (app_error, built_query) result" where
  "build_select_list json_path_ok d t ctx qp rc =
     (let sb = apply_computed_fields ctx (apply_joins ctx (select_new (tbl_name t) (resolve_fields (sc_fields ctx) t) d)) in
      case apply_where_clause ctx rc sb of
        Inl e \<Rightarrow> Inl e
      | Inr sb1 \<Rightarrow>
          (case apply_filters ctx (qp_filters qp) t sb1 of
             Inl e \<Rightarrow> Inl e
           | Inr sb2 \<Rightarrow>
               (case apply_sorting json_path_ok ctx t qp sb2 of
                  Inl e \<Rightarrow> Inl e
                | Inr sb3 \<Rightarrow> Inr (build (apply_pagination ctx qp sb3)))))"

definition build_select_one :: "database_driver \<Rightarrow> table_config \<Rightarrow> select_context \<Rightarrow> string \<Rightarrow> request_context
    \<Rightarrow> (app_error, built_query) result" where
  "build_select_one d t ctx pk_value rc =
     (case find_pk_column t of
        Inl e \<Rightarrow> Inl e
      | Inr pk_col \<Rightarrow>
          (case apply_where_clause ctx rc (apply_pk_condition pk_col (coerce_pk_value t pk_value)
                  (select_new (tbl_name t) (resolve_fields (sc_fields ctx) t) d)) of
             Inl e \<Rightarrow> Inl e
           | Inr sb \<Rightarrow> Inr (build (limit_one sb))))"

definition build_select_list_count :: "string \<Rightarrow> database_driver \<Rightarrow> select_context \<Rightarrow> query_params \<Rightarrow> request_context
    \<Rightarrow> table_config \<Rightarrow> (app_error, built_query) result" where
  "build_select_list_count table d ctx qp rc t =
     (case apply_where_clause ctx rc (select_new table [''COUNT(*) as count''] d) of
        Inl e \<Rightarrow> Inl e
      | Inr sb1 \<Rightarrow>
          (case apply_filters ctx (qp_filters qp) t sb1 of Inl e \<Rightarrow> Inl e | Inr sb2 \<Rightarrow> Inr (build sb2)))"

end
