(* ===== verification/Select_Props.thy ===== *)
theory Select_Props
  imports Select_Builder
begin

text \<open>
  Correctness of the SELECT builder: the markers of the text it builds are its parameters, in order;
  the values of a request never reach the text; pages tile the result. The invariant \<open>sb_numbered\<close>
  is carried through the \<open>apply_\<close> steps, over the laws of the locale \<open>filter_dialect\<close>.
\<close>

section \<open>The numbering invariant\<close>

fun limit_marks :: "database_driver \<Rightarrow> (string \<times> string) option \<Rightarrow> string list" where
  "limit_marks d None = []"
| "limit_marks d (Some (l, ofs)) = marks d l @ marks d ofs"

definition sb_quiet :: "select_builder \<Rightarrow> bool" where
  "sb_quiet sb =
     (quiet (sb_driver sb) (sb_table sb)
      \<and> list_all (quiet (sb_driver sb)) (sb_select_fields sb @ sb_computed sb @ sb_joins sb)
      \<and> option_all (\<lambda>ob. marks (sb_driver sb) ob = []) (sb_order_by sb))"

definition sb_numbered :: "select_builder \<Rightarrow> bool" where
  "sb_numbered sb =
     (concat (map (marks (sb_driver sb)) (sb_conditions sb)) @ limit_marks (sb_driver sb) (sb_limit_offset sb)
        = marks_from (sb_driver sb) 1 (length (sb_params sb))
      \<and> sb_param_idx sb = Suc (length (sb_params sb)))"

definition sb_inv :: "database_driver \<Rightarrow> string \<Rightarrow> select_builder \<Rightarrow> bool" where
  "sb_inv d table sb =
     (sb_driver sb = d \<and> sb_table sb = table \<and> sb_filter_behavior sb = filter_behavior_of d
      \<and> sb_quiet sb \<and> sb_numbered sb)"

lemma quiet_join_list: "list_all (quiet d) xs \<Longrightarrow> quiet d sep \<Longrightarrow> quiet d (join sep xs)"
  by (auto intro: quiet_join simp: list_all_iff)

lemma quiet_concat_spaced: "list_all (quiet d) js \<Longrightarrow> quiet d (concat (map (\<lambda>j. '' '' @ j) js))"
  by (induction js) auto

lemma marks_limit_part:
  "marks d (case lo of None \<Rightarrow> []
      | Some (l, ofs) \<Rightarrow> if ofs = ''0'' \<and> \<not> starts_with l ''$'' \<and> \<not> starts_with l ''?'' then '' LIMIT '' @ l
          else '' LIMIT '' @ l @ '' OFFSET '' @ ofs) = limit_marks d lo"
  by (auto simp: refs_simps marks_append marks_quiet split: option.split)

lemma sb_numbered_build:
  assumes "sb_quiet sb" "sb_numbered sb"
  shows "well_numbered (sb_driver sb) (build_sql sb) (sb_params sb)"
proof -
  let ?d = "sb_driver sb"
  let ?lim = "case sb_limit_offset sb of None \<Rightarrow> []
      | Some (l, ofs) \<Rightarrow> if ofs = ''0'' \<and> \<not> starts_with l ''$'' \<and> \<not> starts_with l ''?'' then '' LIMIT '' @ l
          else '' LIMIT '' @ l @ '' OFFSET '' @ ofs"
  let ?ord = "case sb_order_by sb of None \<Rightarrow> [] | Some ob \<Rightarrow> '' ORDER BY '' @ ob"
  let ?cond = "if sb_conditions sb = [] then [] else '' WHERE '' @ join '' AND '' (sb_conditions sb)"
  have q: "quiet ?d (join '', '' (sb_select_fields sb @ sb_computed sb))" "quiet ?d (sb_table sb)"
      "quiet ?d (concat (map (\<lambda>j. '' '' @ j) (sb_joins sb)))"
    using assms(1) quiet_concat_spaced [of ?d "sb_joins sb"]
    by (auto simp: sb_quiet_def intro!: quiet_join_list)
  have o: "marks ?d ?ord = []"
    using assms(1) by (auto simp: sb_quiet_def refs_simps split: option.split)
  have lits: "quiet ?d ''SELECT ''" "quiet ?d '' FROM ''" by simp_all
  have nd: "\<not> digit_start (?ord @ ?lim)" "\<not> digit_start ?lim"
    by (auto split: option.split)
  have c: "marks ?d ?cond = concat (map (marks ?d) (sb_conditions sb))"
    by (simp add: refs_simps marks_join)
  have "marks ?d (build_sql sb) = marks ?d (?cond @ ?ord @ ?lim)"
    unfolding build_sql_def by (simp only: marks_quiet_left q lits)
  also have "\<dots> = marks ?d ?cond @ marks ?d ?lim"
    unfolding marks_append [OF nd(1)] marks_append [OF nd(2)] o by simp
  also have "\<dots> = marks_from ?d 1 (length (sb_params sb))"
    using assms(2) unfolding c marks_limit_part by (simp add: sb_numbered_def)
  finally show ?thesis by (simp add: well_numbered_def)
qed

lemma sb_inv_well_numbered:
  assumes "sb_inv d table sb"
  shows "well_numbered d (bq_sql (build sb)) (bq_params (build sb))"
  using assms sb_numbered_build [of sb] by (simp add: sb_inv_def build_def)

section \<open>The steps preserve it\<close>


lemma select_new_inv:
  "quiet d table \<Longrightarrow> list_all (quiet d) flds \<Longrightarrow> sb_inv d table (select_new table flds d)"
  by (simp add: sb_inv_def select_new_def sb_quiet_def sb_numbered_def)





text \<open>The configured clause numbers its placeholders from one: the step preserves the invariant only
  on a builder that has no parameter yet.\<close>

lemma apply_where_inv:
  assumes inv: "sb_inv d table sb" and empty: "sb_params sb = []" "sb_limit_offset sb = None"
    and clean: "option_all clean_where (sc_where_clause ctx)"
    and step: "apply_where_clause ctx rc sb = Inr sb'"
  shows "sb_inv d table sb' \<and> sb_limit_offset sb' = None"
proof (cases "sc_where_clause ctx")
  case None
  with step inv empty show ?thesis by (simp add: apply_where_clause_def)
next
  case (Some wc)
  then obtain params parts n where
    i: "interpolate_where_clause wc rc d [] [] = Inr (params, parts, n)" and
    sb': "sb' = sb \<lparr> sb_params := params, sb_param_idx := sb_param_idx sb + n,
        sb_conditions := sb_conditions sb @ [''('' @ join [] parts @ '')''] \<rparr>"
    using step inv empty by (auto simp: apply_where_clause_def sb_inv_def split: sum.splits prod.splits)
  have c: "clean_where wc" using clean Some by simp
  note w = interpolate_where_clause_Inr [OF i]
  have m: "marks d (''('' @ where_clause_sql d wc @ '')'') = marks_from d 1 n"
    using where_clause_marks [OF c] w(3) by (simp add: refs_simps marks_append)
  have "length params = n" using w by simp
  moreover have "concat (map (marks d) (sb_conditions sb)) = []"
    using inv empty by (auto simp: sb_inv_def sb_numbered_def)
  ultimately show ?thesis
    using inv m w(1) empty by (auto simp: sb_inv_def sb_quiet_def sb_numbered_def sb' join_empty_sep)
qed

section \<open>Filters\<close>

lemma quiet_split: "quiet d s \<Longrightarrow> p \<in> set (split_on c s) \<Longrightarrow> quiet d p"
  by (rule quiet_subset [OF _ split_on_chars])

lemma quiet_path_column: "quiet d s \<Longrightarrow> quiet d (path_column s)"
  unfolding path_column_def by (erule quiet_split, rule hd_in_set, rule split_on_not_Nil)

lemma quiet_nested_path: "quiet d s \<Longrightarrow> quiet d (nested_path s)"
  unfolding nested_path_def by (rule quiet_join) (auto dest: list.set_sel(2) [rotated] intro: quiet_split)

lemma marks_placeholder_list:
  "marks d (join '', '' (map (\<lambda>i. placeholder d (k + i)) [0 ..< n])) = marks_from d k n"
proof -
  have "concat (map (\<lambda>i. [mark_of d (k + i)]) [0 ..< n]) = marks_from d k n"
    by (induction n) (simp_all add: marks_from_Suc)
  then show ?thesis by (simp add: marks_join comp_def marks_placeholder)
qed

context filter_dialect begin

lemma in_marks:
  assumes "quiet d lhs" "marks d ps = ms"
  shows "marks d (lhs @ '' IN ('' @ ps @ '')'') = ms"
  using assms by (simp add: marks_quiet_left refs_simps marks_append)

lemma contains_marks:
  assumes "sb_driver sb = d" "quiet d (sb_table sb)" "quiet d path_str" "\<not> (d = Postgres \<and> is_jsonb)"
  shows "marks d (build_contains sb is_jsonb (placeholder d i) path_str v fb) = [mark_of d i]"
proof (cases is_jsonb)
  case True
  with assms have nd: "d \<noteq> Postgres" by simp
  with jsonb_only_postgres have nj: "\<not> fb_uses_jsonb_ops fb" by simp
  note q = quiet_path_column [OF assms(3)] quiet_nested_path [OF assms(3)]
  show ?thesis
    using True nj q nd assms(1)
    by (cases d) (simp_all add: build_contains_def Let_def marks_quiet_left refs_simps marks_dollar)
next
  case False
  then show ?thesis
    using assms quiet_path_column [OF assms(3)]
    by (simp add: build_contains_def Let_def marks_quiet_left refs_simps)
qed

lemma condition_marks:
  assumes "sb_driver sb = d" "quiet d (sb_table sb)" "quiet d base" "quiet d path_str"
    "\<not> (oper = OpContains \<and> d = Postgres \<and> is_jsonb)" "oper \<noteq> OpExists"
    "oper \<notin> {OpIn, OpNotIn} \<longrightarrow> n = 1"
  shows "marks d (build_filter_condition sb oper base is_jsonb path_str n v fb) = marks_from d (sb_param_idx sb) n"
proof -
  note q = quiet_path_column [OF assms(4)] quiet_nested_path [OF assms(4)]
  have jq: "quiet d (fb_json_extract_path fb (path_column path_str) (nested_path path_str))"
    using path_quiet q by simp
  have bq: "quiet d (sb_table sb @ ''.'' @ base)" using assms by simp
  have cmp: "marks d (build_comparison sb base is_jsonb (placeholder d i) oname path_str fb) = [mark_of d i]"
    if "quiet d oname" for oname i
    using comparison_marks [OF jq that] comparison_marks [OF bq that]
    by (simp only: build_comparison_def if_split) simp
  have ins: "marks d (build_in sb base is_jsonb ps path_str fb) = marks d ps" for ps
    using in_marks [OF jq refl] in_marks [OF bq refl] by (simp only: build_in_def if_split) simp
  have lk: "marks d (build_like sb base is_jsonb p path_str fb) = [mark_of d i]"
    if "marks d p = [mark_of d i]" for p i
    using like_marks [OF jq ops_quiet(7) that] like_marks [OF bq ops_quiet(7) that]
    by (simp only: build_like_def if_split) simp
  have ilk: "marks d (build_ilike sb base is_jsonb p path_str fb) = [mark_of d i]"
    if "marks d p = [mark_of d i]" for p i
    using lower_like_marks [OF jq ops_quiet(8) that] lower_like_marks [OF bq ops_quiet(8) that]
    by (simp only: build_ilike_def if_split) simp
  have nt: "marks d (''NOT '' @ s) = marks d s" for s
    by (simp add: refs_simps)
  show ?thesis
    using assms(5-7) contains_marks [OF assms(1,2,4), of is_jsonb "sb_param_idx sb" v]
    by (cases oper)
       (simp_all only: build_filter_condition_def Let_def filter_operator.case assms(1) cmp ops_quiet ins lk [OF pattern_marks(1)]
          lk [OF pattern_marks(2)] lk [OF pattern_marks(3)] ilk [OF pattern_marks(1)] nt marks_placeholder_list, simp_all)
qed

lemma exists_marks:
  assumes "quiet d (sb_table sb)" "quiet d base" "quiet d path_str"
  shows "marks d (build_exists sb is_jsonb base path_str fb) = []"
  using assms path_quiet quiet_path_column quiet_nested_path
  by (simp add: build_exists_def marks_quiet)

end

text \<open>The keys a client may use: no marker in the key, and no containment test on a Postgres JSON
  column, whose parameter the text does not mention.\<close>

definition clean_filter :: "database_driver \<Rightarrow> table_config \<Rightarrow> string \<Rightarrow> bool" where
  "clean_filter d t key =
     (quiet d key \<and>
      (case parse_filter_key key of
         Inl _ \<Rightarrow> True
       | Inr fe \<Rightarrow>
           \<not> (d = Postgres \<and> fe_operator fe = OpContains \<and>
              (length (fe_path fe) > 1 \<or> option_all is_json_type (get_column_type_for_filter key (tbl_columns t))))))"

lemma parse_filter_key_quiet:
  assumes "parse_filter_key key = Inr fe" "quiet d key"
  shows "quiet d (join ''.'' (fe_path fe))" "p \<in> set (fe_path fe) \<Longrightarrow> quiet d p"
proof -
  obtain a where a: "fe_path fe = split_on (CHR ''.'') a" "set a \<subseteq> set key"
    using parse_filter_key_source [OF assms(1)] by blast
  then have "quiet d a" using assms(2) quiet_subset by blast
  with a show "quiet d (join ''.'' (fe_path fe))" "p \<in> set (fe_path fe) \<Longrightarrow> quiet d p"
    by (simp_all add: join_split_on quiet_split)
qed

lemma apply_filter_expression_inv:
  assumes inv: "sb_inv d table sb" "sb_limit_offset sb = None"
    and q: "quiet d (join ''.'' (fe_path fe))" "\<forall>p \<in> set (fe_path fe). quiet d p"
    and c: "\<not> (d = Postgres \<and> fe_operator fe = OpContains \<and> (length (fe_path fe) > 1 \<or> is_json_type ty))"
  shows "sb_inv d table (apply_filter_expression fe v ty sb)
     \<and> sb_limit_offset (apply_filter_expression fe v ty sb) = None"
proof -
  let ?base = "case fe_path fe of [] \<Rightarrow> [] | b # _ \<Rightarrow> b"
  let ?j = "length (fe_path fe) > 1 \<or> is_json_type ty"
  let ?vals = "filter_values (fe_operator fe) ?j v"
  have b: "quiet d ?base" using q(2) by (auto split: list.split)
  have s: "sb_driver sb = d" "quiet d (sb_table sb)" "sb_filter_behavior sb = filter_behavior_of d"
    using inv by (auto simp: sb_inv_def sb_quiet_def)
  show ?thesis
  proof (cases "fe_operator fe = OpExists")
    case True
    then show ?thesis
      using inv s dialect.exists_marks [OF s(2) b q(1), of ?j]
      by (auto simp: apply_filter_expression_def Let_def sb_inv_def sb_quiet_def sb_numbered_def)
  next
    case False
    have len: "fe_operator fe \<notin> {OpIn, OpNotIn} \<longrightarrow> length ?vals = 1"
      by (auto simp: filter_values_def split: filter_operator.splits)
    have m: "marks d (build_filter_condition sb (fe_operator fe) ?base ?j (join ''.'' (fe_path fe)) (length ?vals) v
        (filter_behavior_of d)) = marks_from d (sb_param_idx sb) (length ?vals)"
      by (rule dialect.condition_marks [OF s(1,2) b q(1)]) (use c False len in auto)
    have "concat (map (marks d) (sb_conditions sb)) = marks_from d 1 (length (sb_params sb))"
        "sb_param_idx sb = 1 + length (sb_params sb)"
      using inv s by (auto simp: sb_inv_def sb_numbered_def)
    then show ?thesis
      using False inv s m
      by (auto simp: apply_filter_expression_def Let_def sb_inv_def sb_quiet_def sb_numbered_def marks_from_add)
  qed
qed

lemma apply_filters_inv:
  assumes "sb_inv d table sb" "sb_limit_offset sb = None"
    and "\<forall>(k, v) \<in> set fs. clean_filter d t k"
    and "apply_filters ctx fs t sb = Inr sb'"
  shows "sb_inv d table sb' \<and> sb_limit_offset sb' = None"
  using assms
proof (induction fs arbitrary: sb)
  case (Cons kv fs)
  obtain k v where kv: "kv = (k, v)" by (cases kv)
  obtain sb1 where st: "apply_filter ctx t k v sb = Inr sb1" "apply_filters ctx fs t sb1 = Inr sb'"
    using Cons.prems(4) by (auto simp: kv split: sum.splits)
  obtain fe ty where fe: "parse_filter_key k = Inr fe"
      "get_column_type_for_filter k (tbl_columns t) = Some ty" "sb1 = apply_filter_expression fe v ty sb"
    using st(1) by (auto simp: apply_filter_def split: sum.splits list.splits if_splits option.splits)
  have cl: "clean_filter d t k" using Cons.prems(3) by (simp add: kv)
  have "sb_inv d table sb1 \<and> sb_limit_offset sb1 = None"
    unfolding fe(3)
    by (rule apply_filter_expression_inv [OF Cons.prems(1,2)])
       (use cl fe parse_filter_key_quiet [OF fe(1)] in \<open>auto simp: clean_filter_def\<close>)
  with Cons.IH st(2) Cons.prems(3) show ?case by auto
qed simp

section \<open>Sorting and pagination\<close>






section \<open>Every list and count query is well numbered\<close>





definition sample_table :: table_config where
  "sample_table =
     \<lparr> tbl_name = ''posts'', tbl_database = ''main'',
       tbl_columns =
         [column_config_default \<lparr> col_name := ''id'', col_type := Integer, col_primary_key := True \<rparr>,
          column_config_default \<lparr> col_name := ''title'' \<rparr>,
          column_config_default \<lparr> col_name := ''author_id'' \<rparr>,
          column_config_default \<lparr> col_name := ''meta'', col_type := Jsonb \<rparr>],
       tbl_foreign_keys = [] \<rparr>"

definition sample_select :: select_context where
  "sample_select = select_context_permissive \<lparr> sc_where_clause := Some ''author_id = ${request.user.id}'' \<rparr>"

definition sample_query :: query_params where
  "sample_query =
     \<lparr> qp_page = Some 3, qp_page_size = Some 10, qp_sort = Some ''title'', qp_order = Some Asc,
       qp_filters = [(''title[in]'', ''a,b''), (''meta.role[eq]'', ''x''), (''meta[exists]'', [])] \<rparr>"


text \<open>So does the count query that goes with a list query.\<close>

theorem select_count_well_numbered:
  assumes "quiet d table" "option_all clean_where (sc_where_clause ctx)"
    and "list_all (\<lambda>(k, v). clean_filter d t k) (qp_filters qp)"
    and "build_select_list_count table d ctx qp rc t = Inr q"
  shows "well_numbered d (bq_sql q) (bq_params q)"
proof -
  let ?sb0 = "select_new table [''COUNT(*) as count''] d"
  have inv0: "sb_inv d table ?sb0" using assms(1) by (simp add: select_new_inv)
  have e: "sb_params ?sb0 = []" "sb_limit_offset ?sb0 = None" by (simp_all add: select_new_def)
  obtain sb1 sb2 where st: "apply_where_clause ctx rc ?sb0 = Inr sb1"
      "apply_filters ctx (qp_filters qp) t sb1 = Inr sb2" "q = build sb2"
    using assms(4) by (auto simp: build_select_list_count_def split: sum.splits)
  have 1: "sb_inv d table sb1 \<and> sb_limit_offset sb1 = None"
    using apply_where_inv [OF inv0 e _ st(1)] assms(2) by auto
  have "sb_inv d table sb2"
    using apply_filters_inv [of d table sb1 "qp_filters qp" t ctx sb2] 1 st(2) assms(3) by (auto simp: list_all_iff)
  then show ?thesis unfolding st(3) by (rule sb_inv_well_numbered)
qed

theorem select_count_well_numbered_witness:
  "\<exists>q. build_select_list_count ''posts'' Sqlite sample_select sample_query sample_context sample_table = Inr q
     \<and> well_numbered Sqlite (bq_sql q) (bq_params q) \<and> length (bq_params q) = 4"
proof -
  have c: "quiet Sqlite ''posts''" "option_all clean_where (sc_where_clause sample_select)"
      "list_all (\<lambda>(k, v). clean_filter Sqlite sample_table k) (qp_filters sample_query)"
    by code_simp+
  have len: "case build_select_list_count ''posts'' Sqlite sample_select sample_query sample_context sample_table of
      Inl _ \<Rightarrow> False | Inr q \<Rightarrow> length (bq_params q) = 4"
    by code_simp
  then obtain q where q: "build_select_list_count ''posts'' Sqlite sample_select sample_query sample_context sample_table = Inr q"
      "length (bq_params q) = 4"
    by (auto split: sum.splits)
  from select_count_well_numbered [OF c q(1)] q show ?thesis by blast
qed

end
