(* ===== verification/Select_Security.thy ===== *)
theory Select_Security
  imports Select_Props
begin

text \<open>
  What a request can and cannot do to a SELECT: filter values only reach the parameters, while the
  path of a filter key is copied into the text; pages tile the result until the offset wraps; the
  single-row query restarts its numbering.
\<close>

section \<open>Filter values stay out of the text\<close>

definition same_text :: "select_builder \<Rightarrow> select_builder \<Rightarrow> bool" where
  "same_text sb sb' = (sb \<lparr> sb_params := [] \<rparr> = sb' \<lparr> sb_params := [] \<rparr>)"

lemma same_text_fields:
  assumes "same_text sb sb'"
  shows "sb_table sb' = sb_table sb" "sb_select_fields sb' = sb_select_fields sb" "sb_joins sb' = sb_joins sb"
    "sb_computed sb' = sb_computed sb" "sb_conditions sb' = sb_conditions sb" "sb_order_by sb' = sb_order_by sb"
    "sb_limit_offset sb' = sb_limit_offset sb" "sb_param_idx sb' = sb_param_idx sb" "sb_driver sb' = sb_driver sb"
    "sb_filter_behavior sb' = sb_filter_behavior sb"
  using assms by (cases sb; cases sb'; simp add: same_text_def)+

lemma same_textI:
  assumes "sb_table sb' = sb_table sb" "sb_select_fields sb' = sb_select_fields sb" "sb_joins sb' = sb_joins sb"
    "sb_computed sb' = sb_computed sb" "sb_conditions sb' = sb_conditions sb" "sb_order_by sb' = sb_order_by sb"
    "sb_limit_offset sb' = sb_limit_offset sb" "sb_param_idx sb' = sb_param_idx sb" "sb_driver sb' = sb_driver sb"
    "sb_filter_behavior sb' = sb_filter_behavior sb"
  shows "same_text sb sb'"
  using assms by (simp add: same_text_def)

lemma same_text_build: "same_text sb sb' \<Longrightarrow> bq_sql (build sb) = bq_sql (build sb')"
  by (simp add: build_def build_sql_def same_text_fields)

text \<open>The one filter whose value the code splices into the text: a containment test on a path or a
  JSON column, on Postgres.\<close>

definition splices_value :: "database_driver \<Rightarrow> table_config \<Rightarrow> string \<Rightarrow> filter_expression \<Rightarrow> bool" where
  "splices_value d t key fe =
     (d = Postgres \<and> fe_operator fe = OpContains
      \<and> (length (fe_path fe) > 1 \<or> option_all is_json_type (get_column_type_for_filter key (tbl_columns t))))"

text \<open>Two values of one filter are interchangeable when the filter is not of that kind and the two
  list operators, which get a placeholder per item, see as many items in both.\<close>

definition interchangeable :: "database_driver \<Rightarrow> table_config \<Rightarrow> string \<times> string \<Rightarrow> string \<times> string \<Rightarrow> bool" where
  "interchangeable d t kv kv' =
     (fst kv = fst kv' \<and>
      (case parse_filter_key (fst kv) of
         Inl _ \<Rightarrow> True
       | Inr fe \<Rightarrow>
           \<not> splices_value d t (fst kv) fe
           \<and> (fe_operator fe \<in> {OpIn, OpNotIn} \<longrightarrow>
              length (split_on (CHR '','') (snd kv)) = length (split_on (CHR '','') (snd kv')))))"

lemma build_contains_text:
  assumes "\<not> (fb_uses_jsonb_ops fb \<and> is_jsonb)"
  shows "build_contains sb is_jsonb param path_str v fb = build_contains sb is_jsonb param path_str v' fb"
  using assms by (auto simp: build_contains_def Let_def)

lemma build_filter_condition_text:
  assumes "same_text sb sb'" "\<not> (oper = OpContains \<and> fb_uses_jsonb_ops fb \<and> is_jsonb)"
  shows "build_filter_condition sb oper base is_jsonb path_str n v fb =
     build_filter_condition sb' oper base is_jsonb path_str n v' fb"
proof -
  have c: "build_contains sb is_jsonb param path_str v fb = build_contains sb' is_jsonb param path_str v' fb"
    if "oper = OpContains" for param
    using assms that build_contains_text [of fb is_jsonb sb param path_str v v']
    by (auto simp: build_contains_def Let_def same_text_fields)
  show ?thesis
    using c by (cases oper)
      (simp_all add: build_filter_condition_def Let_def same_text_fields [OF assms(1)] build_comparison_def
        build_in_def build_like_def build_ilike_def)
qed

lemma filter_values_length:
  "(oper \<in> {OpIn, OpNotIn} \<Longrightarrow> length (split_on (CHR '','') v) = length (split_on (CHR '','') v')) \<Longrightarrow>
     length (filter_values oper j v) = length (filter_values oper j v')"
  by (cases oper) (simp_all add: filter_values_def)

lemma apply_filter_expression_text:
  assumes "same_text sb sb'" "sb_filter_behavior sb = filter_behavior_of d"
    and "\<not> (d = Postgres \<and> fe_operator fe = OpContains \<and> (length (fe_path fe) > 1 \<or> is_json_type ty))"
    and "fe_operator fe \<in> {OpIn, OpNotIn} \<Longrightarrow> length (split_on (CHR '','') v) = length (split_on (CHR '','') v')"
  shows "same_text (apply_filter_expression fe v ty sb) (apply_filter_expression fe v' ty sb')"
proof (cases "fe_operator fe = OpExists")
  case True
  then show ?thesis
    by (auto simp: apply_filter_expression_def Let_def build_exists_def same_text_fields [OF assms(1)] intro!: same_textI)
next
  case False
  let ?j = "length (fe_path fe) > 1 \<or> is_json_type ty"
  have "fb_uses_jsonb_ops (sb_filter_behavior sb) \<longleftrightarrow> d = Postgres"
    using dialect.jsonb_only_postgres assms(2) by simp
  then have nc: "\<not> (fe_operator fe = OpContains \<and> fb_uses_jsonb_ops (sb_filter_behavior sb) \<and> ?j)"
    using assms(3) by blast
  have len: "length (filter_values (fe_operator fe) ?j v) = length (filter_values (fe_operator fe) ?j v')"
    by (rule filter_values_length [OF assms(4)])
  show ?thesis
    using False len build_filter_condition_text [OF assms(1) nc, where v = v and v' = v']
    by (auto simp: apply_filter_expression_def Let_def same_text_fields [OF assms(1)] intro!: same_textI)
qed

lemma apply_filters_text:
  assumes "same_text sb sb'" "sb_filter_behavior sb = filter_behavior_of d"
    and "list_all2 (interchangeable d t) fs fs'"
    and "apply_filters ctx fs t sb = Inr r" "apply_filters ctx fs' t sb' = Inr r'"
  shows "same_text r r'"
  using assms(3,1,2,4,5)
proof (induction fs fs' arbitrary: sb sb' rule: list_all2_induct)
  case (Cons kv fs kv' fs')
  obtain k v v' where kv: "kv = (k, v)" "kv' = (k, v')" and c: "interchangeable d t (k, v) (k, v')"
    using Cons.hyps(1) by (cases kv; cases kv') (auto simp: interchangeable_def)
  obtain s1 s2 where st: "apply_filter ctx t k v sb = Inr s1" "apply_filters ctx fs t s1 = Inr r"
      "apply_filter ctx t k v' sb' = Inr s2" "apply_filters ctx fs' t s2 = Inr r'"
    using Cons.prems(3,4) by (auto simp: kv split: sum.splits)
  obtain fe ty where fe: "parse_filter_key k = Inr fe" "get_column_type_for_filter k (tbl_columns t) = Some ty"
      "s1 = apply_filter_expression fe v ty sb" "s2 = apply_filter_expression fe v' ty sb'"
    using st(1,3) by (auto simp: apply_filter_def split: sum.splits list.splits if_splits option.splits)
  have "same_text s1 s2"
    unfolding fe(3,4)
    by (rule apply_filter_expression_text [OF Cons.prems(1,2)])
      (use c fe(1,2) in \<open>auto simp: interchangeable_def splices_value_def\<close>)
  moreover have "sb_filter_behavior s1 = filter_behavior_of d"
    using Cons.prems(2) by (simp add: fe(3) apply_filter_expression_def Let_def)
  ultimately show ?case using Cons.IH st(2,4) by blast
qed simp

lemma sorting_ignores_filters [simp]:
  "apply_sorting jp ctx t (qp \<lparr> qp_filters := fs \<rparr>) sb = apply_sorting jp ctx t qp sb"
  "apply_pagination ctx (qp \<lparr> qp_filters := fs \<rparr>) sb = apply_pagination ctx qp sb"
  by (simp_all add: apply_sorting_def Let_def sort_field_of_def apply_pagination_def page_size_of_def page_of_def page_offset_def)

text \<open>C1: take two list requests on one endpoint that both get a query, name the same filter keys in
  the same order, and differ only in the values of these filters and in the request context. If the
  values of every in and nin filter have as many comma-separated items in both, and no filter is a
  containment test on a path or a JSON column on Postgres (the one case in which the code splices the
  value into the text), the two queries have the same SQL text: the values reach the bound parameters
  only. Nothing else is assumed about keys, values or configuration.\<close>

theorem filter_values_noninterference:
  assumes "list_all2 (interchangeable d t) (qp_filters qp) fs'"
    and "build_select_list jp d t ctx qp rc = Inr q"
    and "build_select_list jp d t ctx (qp \<lparr> qp_filters := fs' \<rparr>) rc' = Inr q'"
  shows "bq_sql q = bq_sql q'"
proof -
  let ?sb0 = "apply_computed_fields ctx (apply_joins ctx (select_new (tbl_name t) (resolve_fields (sc_fields ctx) t) d))"
  have fb0: "sb_filter_behavior ?sb0 = filter_behavior_of d" "sb_driver ?sb0 = d"
  proof -
    have "sb_filter_behavior (fold apply_join js sb) = sb_filter_behavior sb \<and> sb_driver (fold apply_join js sb) = sb_driver sb"
      for js sb by (induction js arbitrary: sb) (simp_all add: apply_join_def)
    then show "sb_filter_behavior ?sb0 = filter_behavior_of d" "sb_driver ?sb0 = d"
      by (simp_all add: apply_computed_fields_def apply_joins_def qualify_main_fields_def select_new_def)
  qed
  obtain a1 a2 a3 where a: "apply_where_clause ctx rc ?sb0 = Inr a1" "apply_filters ctx (qp_filters qp) t a1 = Inr a2"
      "apply_sorting jp ctx t qp a2 = Inr a3" "q = build (apply_pagination ctx qp a3)"
    using assms(2) by (auto simp: build_select_list_def Let_def split: sum.splits)
  obtain b1 b2 b3 where b: "apply_where_clause ctx rc' ?sb0 = Inr b1" "apply_filters ctx fs' t b1 = Inr b2"
      "apply_sorting jp ctx t qp b2 = Inr b3" "q' = build (apply_pagination ctx qp b3)"
    using assms(3) by (auto simp: build_select_list_def Let_def split: sum.splits)
  have s1: "same_text a1 b1 \<and> sb_filter_behavior a1 = filter_behavior_of d"
  proof (cases "sc_where_clause ctx")
    case None
    with a(1) b(1) fb0 show ?thesis by (simp add: apply_where_clause_def same_text_def)
  next
    case (Some wc)
    obtain p1 s1 n1 where i1: "interpolate_where_clause wc rc d (sb_params ?sb0) [] = Inr (p1, s1, n1)"
        "a1 = ?sb0 \<lparr> sb_params := p1, sb_param_idx := sb_param_idx ?sb0 + n1,
           sb_conditions := sb_conditions ?sb0 @ [''('' @ join [] s1 @ '')''] \<rparr>"
      using a(1) Some fb0(2) by (auto simp: apply_where_clause_def split: sum.splits prod.splits)
    obtain p2 s2 n2 where i2: "interpolate_where_clause wc rc' d (sb_params ?sb0) [] = Inr (p2, s2, n2)"
        "b1 = ?sb0 \<lparr> sb_params := p2, sb_param_idx := sb_param_idx ?sb0 + n2,
           sb_conditions := sb_conditions ?sb0 @ [''('' @ join [] s2 @ '')''] \<rparr>"
      using b(1) Some fb0(2) by (auto simp: apply_where_clause_def split: sum.splits prod.splits)
    have "concat s1 = concat s2" "n1 = n2"
      using interpolate_where_clause_Inr(1,3) [OF i1(1)] interpolate_where_clause_Inr(1,3) [OF i2(1)] by simp_all
    then show ?thesis
      using fb0(1) by (auto simp: i1(2) i2(2) join_empty_sep intro!: same_textI)
  qed
  have s2: "same_text a2 b2" using apply_filters_text s1 assms(1) a(2) b(2) by blast
  have s3: "same_text a3 b3"
    using a(3) b(3) same_text_fields [OF s2] s2
    by (auto simp: apply_sorting_def Let_def split: if_splits intro!: same_textI)
  have "same_text (apply_pagination ctx qp a3) (apply_pagination ctx qp b3)"
    using same_text_fields [OF s3] s3 by (auto simp: apply_pagination_def intro!: same_textI)
  then show ?thesis unfolding a(4) b(4) by (rule same_text_build)
qed

theorem filter_values_noninterference_witness:
  "\<exists>q q'. build_select_list (\<lambda>_. False) Postgres sample_table sample_select sample_query sample_context = Inr q
     \<and> build_select_list (\<lambda>_. False) Postgres sample_table sample_select
         (sample_query \<lparr> qp_filters := [(''title[in]'', ''x) OR 1=1 --,b''), (''meta.role[eq]'', ''y''), (''meta[exists]'', [])] \<rparr>)
         sample_context = Inr q'
     \<and> bq_sql q = bq_sql q' \<and> bq_params q \<noteq> bq_params q'"
proof -
  let ?fs = "[(''title[in]'', ''x) OR 1=1 --,b''), (''meta.role[eq]'', ''y''), (''meta[exists]'', [])]"
  have i: "list_all2 (interchangeable Postgres sample_table) (qp_filters sample_query) ?fs"
    by code_simp
  have "case build_select_list (\<lambda>_. False) Postgres sample_table sample_select sample_query sample_context of
      Inl _ \<Rightarrow> False | Inr q \<Rightarrow> bq_params q ! 3 = JStr ''x''"
    by code_simp
  then obtain q where q: "build_select_list (\<lambda>_. False) Postgres sample_table sample_select sample_query sample_context = Inr q"
      "bq_params q ! 3 = JStr ''x''" by (auto split: sum.splits)
  have "case build_select_list (\<lambda>_. False) Postgres sample_table sample_select (sample_query \<lparr> qp_filters := ?fs \<rparr>) sample_context of
      Inl _ \<Rightarrow> False | Inr q \<Rightarrow> bq_params q ! 3 = JStr ''y''"
    by code_simp
  then obtain q' where q': "build_select_list (\<lambda>_. False) Postgres sample_table sample_select
       (sample_query \<lparr> qp_filters := ?fs \<rparr>) sample_context = Inr q'" "bq_params q' ! 3 = JStr ''y''"
    by (auto split: sum.splits)
  have "bq_params q \<noteq> bq_params q'" using q(2) q'(2) by auto
  with filter_values_noninterference [OF i q(1) q'(1)] q(1) q'(1) show ?thesis by blast
qed

section \<open>The path of a filter key is copied into the text\<close>

lemma filter_key_captures_path:
  assumes "CHR 0x0A \<notin> set p" "map_of operator_table b = Some oper"
  shows "parse_filter_key (p @ ''['' @ b @ '']'') = Inr \<lparr> fe_path = split_on (CHR ''.'') p, fe_operator = oper \<rparr>"
  using assms by (subst parse_filter_key_Inr_iff) blast

lemma base_column_of_json_key:
  assumes "plain_segment c" "CHR ''$'' \<notin> set c" "CHR ''>'' \<notin> set (c @ p)" "CHR ''#'' \<notin> set (c @ p)"
  shows "extract_base_column (c @ ''.'' @ p @ ''[exists]'') = c"
proof -
  let ?key = "c @ ''.'' @ p @ ''[exists]''"
  have ne: "\<not> starts_with ?key ''$''"
    using assms(1,2) by (cases c) (auto simp: str_simps plain_segment_def)
  have "CHR ''>'' \<notin> set ?key" "CHR ''#'' \<notin> set ?key" using assms(3,4) by auto
  then have no: "\<not> contains_str ?key ''->''" "\<not> contains_str ?key ''#>''" "\<not> contains_str ?key ''#>>''"
    by (auto simp: str_simps dest: set_mono_sublist)
  have br: "is_bracket_notation ?key" by (simp add: is_bracket_notation_def)
  have "sort_segments ?key [] = c # sort_segments (p @ ''[exists]'') []"
    using assms(1) by (simp add: plain_segment_def sort_segments_seg)
  then have "fst (parse_sort_field ?key) = c" by (simp add: parse_sort_field_def)
  with ne no br show ?thesis by (simp only: extract_base_column_def) simp
qed

lemma path_of_json_key:
  assumes "plain_segment c"
  shows "path_column (c @ ''.'' @ p) = c" "nested_path (c @ ''.'' @ p) = p"
proof -
  have "split_on (CHR ''.'') (c @ ''.'' @ p) = c # split_on (CHR ''.'') p"
    using assms split_on_append [of "CHR ''.''" c p] by (simp add: plain_segment_def)
  then show "path_column (c @ ''.'' @ p) = c" "nested_path (c @ ''.'' @ p) = p"
    by (simp_all add: path_column_def nested_path_def join_split_on)
qed

text \<open>The path after a JSON column in a filter key is not checked at all: any text without
  a line break, an angle bracket and a hash, quotes included, is accepted when filtering on the
  column is allowed, and it becomes part of the SQL text as it is.\<close>

theorem filter_path_verbatim:
  assumes "plain_segment c" "CHR ''$'' \<notin> set c" "CHR ''>'' \<notin> set (c @ p)" "CHR ''#'' \<notin> set (c @ p)"
    and "CHR 0x0A \<notin> set (c @ p)"
    and "''*'' \<in> set (sc_filtering_allowed_fields ctx)" "column_exists c (tbl_columns t)"
    and "sb_filter_behavior sb = filter_behavior_of Sqlite"
  shows "apply_filter ctx t (c @ ''.'' @ p @ ''[exists]'') v sb =
     Inr (sb \<lparr> sb_conditions := sb_conditions sb @
       [''json_extract('' @ c @ '', '' @ [quote_char] @ ''$.'' @ p @ [quote_char] @ '') IS NOT NULL''] \<rparr>)"
proof -
  let ?key = "c @ ''.'' @ p @ ''[exists]''"
  have ex: "map_of operator_table ''exists'' = Some OpExists" by (simp add: operator_table_def)
  have pk: "parse_filter_key ?key = Inr \<lparr> fe_path = split_on (CHR ''.'') (c @ ''.'' @ p), fe_operator = OpExists \<rparr>"
    using filter_key_captures_path [OF _ ex, of "c @ ''.'' @ p"] assms(5) by simp
  have sp: "split_on (CHR ''.'') (c @ ''.'' @ p) = c # split_on (CHR ''.'') p"
    using assms(1) split_on_append [of "CHR ''.''" c p] by (simp add: plain_segment_def)
  have b: "extract_base_column ?key = c" by (rule base_column_of_json_key [OF assms(1-4)])
  have "find (\<lambda>k. col_name k = c) (tbl_columns t) \<noteq> None"
    using assms(7) by (auto simp: find_None_iff_all column_exists_def)
  then obtain ty where ty: "get_column_type_for_filter ?key (tbl_columns t) = Some ty"
    unfolding get_column_type_for_filter_def b by auto
  have vf: "is_valid_filter_column ?key (tbl_columns t)"
    unfolding is_valid_filter_column_iff b by (rule assms(7))
  have "join ''.'' (c # split_on (CHR ''.'') p) = c @ ''.'' @ p"
    by (simp add: join_Cons join_split_on)
  moreover have "split_on (CHR ''.'') p \<noteq> []" by simp
  ultimately show ?thesis
    using sp pk vf ty path_of_json_key [OF assms(1), of p] assms(6,8)
    by (simp add: apply_filter_def apply_filter_expression_def Let_def build_exists_def sqlite_filter_def)
qed

theorem filter_path_verbatim_witness:
  "\<exists>sb. apply_filter select_context_permissive sample_table
       (''meta.x'' @ [quote_char] @ '') IS NULL OR 1=1 --'' @ ''[exists]'') [] (select_new ''posts'' [''id''] Sqlite) = Inr sb
     \<and> sb_conditions sb = [''json_extract(meta, '' @ [quote_char] @ ''$.x'' @ [quote_char] @ '') IS NULL OR 1=1 --''
         @ [quote_char] @ '') IS NOT NULL'']"
proof -
  let ?p = "''x'' @ [quote_char] @ '') IS NULL OR 1=1 --''"
  have 1: "plain_segment ''meta''" "CHR ''$'' \<notin> set ''meta''" "CHR ''>'' \<notin> set (''meta'' @ ?p)"
      "CHR ''#'' \<notin> set (''meta'' @ ?p)" "CHR 0x0A \<notin> set (''meta'' @ ?p)"
    by (simp_all add: plain_segment_def)
  have 2: "''*'' \<in> set (sc_filtering_allowed_fields select_context_permissive)" by (simp add: select_context_permissive_def)
  have 3: "column_exists ''meta'' (tbl_columns sample_table)" by code_simp
  have 4: "sb_filter_behavior (select_new ''posts'' [''id''] Sqlite) = filter_behavior_of Sqlite"
      "sb_conditions (select_new ''posts'' [''id''] Sqlite) = []" by (simp_all add: select_new_def)
  from filter_path_verbatim [OF 1 2 3 4(1), of "[]"] 4(2) show ?thesis by simp
qed

section \<open>The single-row query\<close>

text \<open>The single-row query numbers the key's parameter 1 and restarts at 1 for the WHERE
  clause, so with a clause that has parameters it is well numbered on SQLite and MySQL only.\<close>

theorem select_one_numbering:
  assumes "quiet d (tbl_name t)" "list_all (quiet d) (resolve_fields (sc_fields ctx) t)"
    and "find_pk_column t = Inr pk" "quiet d pk"
    and "sc_where_clause ctx = Some wc" "clean_where wc"
    and "as_i64 (coerce_pk_value t v) \<noteq> Some i64_min"
    and "build_select_one d t ctx v rc = Inr q"
  shows "marks d (bq_sql q) = mark_of d 1 # marks_from d 1 (length (fst (value_matches wc)))
     \<and> length (bq_params q) = 1 + length (fst (value_matches wc))
     \<and> (well_numbered d (bq_sql q) (bq_params q) \<longleftrightarrow> d \<noteq> Postgres \<or> fst (value_matches wc) = [])"
proof -
  let ?n = "length (fst (value_matches wc))"
  let ?sb0 = "apply_pk_condition pk (coerce_pk_value t v) (select_new (tbl_name t) (resolve_fields (sc_fields ctx) t) d)"
  obtain sb where sb: "apply_where_clause ctx rc ?sb0 = Inr sb" "q = build (limit_one sb)"
    using assms(3,8) by (auto simp: build_select_one_def split: sum.splits)
  have s0: "sb_driver ?sb0 = d" "sb_params ?sb0 = [coerce_pk_value t v]"
      "sb_conditions ?sb0 = [pk @ '' = '' @ placeholder d 1]" "sb_quiet ?sb0" "sb_limit_offset ?sb0 = None"
    using assms(1,2,7) by (simp_all add: apply_pk_condition_def select_new_def sb_quiet_def)
  obtain ps parts k where i: "interpolate_where_clause wc rc d [coerce_pk_value t v] [] = Inr (ps, parts, k)"
      "sb = ?sb0 \<lparr> sb_params := ps, sb_param_idx := sb_param_idx ?sb0 + k,
         sb_conditions := sb_conditions ?sb0 @ [''('' @ join [] parts @ '')''] \<rparr>"
    using sb(1) assms(5) s0 by (auto simp: apply_where_clause_def split: sum.splits prod.splits)
  note w = interpolate_where_clause_Inr [OF i(1)]
  have c: "marks d (''('' @ where_clause_sql d wc @ '')'') = marks_from d 1 ?n"
    using where_clause_marks [OF assms(6)] by (simp add: refs_simps marks_append)
  have pkc: "marks d (pk @ '' = '' @ placeholder d 1) = [mark_of d 1]"
    using assms(4) by (simp add: marks_quiet_left refs_simps)
  have sel: "marks d (''SELECT '' @ join '', '' (resolve_fields (sc_fields ctx) t) @ '' FROM '' @ tbl_name t @ r) = marks d r" for r
    using assms(1,2) by (simp add: marks_quiet_left refs_simps quiet_join_list)
  have "bq_sql q = ''SELECT '' @ join '', '' (resolve_fields (sc_fields ctx) t) @ '' FROM '' @ tbl_name t
      @ '' WHERE '' @ join '' AND '' [pk @ '' = '' @ placeholder d 1, ''('' @ where_clause_sql d wc @ '')''] @ '' LIMIT 1''"
    using w(1) s0 assms(7)
    by (simp add: sb(2) build_def build_sql_def limit_one_def i(2) join_empty_sep apply_pk_condition_def select_new_def
        starts_with_def)
  then have m: "marks d (bq_sql q) = mark_of d 1 # marks_from d 1 ?n"
    using sel [of "'' WHERE '' @ r" for r] c pkc by (simp add: marks_append refs_simps marks_quiet)
  moreover have len: "length (bq_params q) = 1 + ?n"
    using w(2) by (simp add: sb(2) build_def limit_one_def i(2))
  moreover have "mark_of d 1 # marks_from d 1 ?n = marks_from d 1 (Suc ?n) \<longleftrightarrow> d \<noteq> Postgres \<or> fst (value_matches wc) = []"
  proof (cases d)
    case Postgres
    then show ?thesis by (simp add: marks_from_Suc_left marks_from_Postgres_inj)
  qed (simp_all add: marks_from_question mark_of.simps)
  ultimately show ?thesis by (simp add: well_numbered_def)
qed

theorem select_one_numbering_witness:
  "\<exists>q. build_select_one Postgres sample_table sample_select ''7'' sample_context = Inr q
     \<and> length (bq_params q) = 2 \<and> \<not> well_numbered Postgres (bq_sql q) (bq_params q)"
proof -
  have h: "quiet Postgres (tbl_name sample_table)"
      "list_all (quiet Postgres) (resolve_fields (sc_fields sample_select) sample_table)"
      "find_pk_column sample_table = Inr ''id''" "quiet Postgres ''id''"
      "sc_where_clause sample_select = Some ''author_id = ${request.user.id}''"
      "clean_where ''author_id = ${request.user.id}''"
      "as_i64 (coerce_pk_value sample_table ''7'') \<noteq> Some i64_min"
    by code_simp+
  have n: "length (fst (value_matches ''author_id = ${request.user.id}'')) = 1" by code_simp
  have "is_ok (build_select_one Postgres sample_table sample_select ''7'' sample_context)" by code_simp
  then obtain q where q: "build_select_one Postgres sample_table sample_select ''7'' sample_context = Inr q"
    by (auto simp: is_ok_iff)
  from select_one_numbering [OF h q] n q show ?thesis by auto
qed

section \<open>Pages\<close>










text \<open>A page number beyond the range makes the offset wrap: with a page size that divides 2^64 the
  first page comes round again.\<close>

lemma page_offset_wraps:
  assumes "k * page_size_of ctx qp = 2 ^ 64"
  shows "page_offset ctx (qp \<lparr> qp_page := Some (Suc k) \<rparr>) = 0"
proof -
  have "int k * int (page_size_of ctx qp) = 2 ^ 64"
    using assms by (metis of_nat_mult of_nat_numeral of_nat_power)
  moreover have "page_size_of ctx (qp \<lparr> qp_page := x \<rparr>) = page_size_of ctx qp" for x
    by (simp add: page_size_of_def)
  ultimately show ?thesis by (simp add: page_offset_def page_of_def)
qed

end
