(* ===== verification/Mutation_Builders.thy ===== *)
theory Mutation_Builders
  imports Select_Props
begin

text \<open>
  The INSERT, UPDATE and DELETE builders (src/db/query/builders/insert_builder.rs, update_builder.rs,
  delete_builder.rs). The request body is a JSON object, the list of its entries. The lemmas show which
  columns a client can reach, who controls the owner column, that body values stay out of the text,
  and where the numbering of the WHERE clause goes wrong.
\<close>

section \<open>INSERT\<close>

definition body_value :: "json \<Rightarrow> request_context \<Rightarrow> (app_error, json) result" where
  "body_value v rc = (case as_str v of Some s \<Rightarrow> interpolate_value s rc | None \<Rightarrow> Inr v)"

definition is_jsonb_typed :: "string \<Rightarrow> table_config \<Rightarrow> bool" where
  "is_jsonb_typed key t = (\<exists>c \<in> set (tbl_columns t). col_name c = key \<and> col_type c = Jsonb)"

definition body_placeholder :: "database_driver \<Rightarrow> table_config \<Rightarrow> string \<Rightarrow> nat \<Rightarrow> string" where
  "body_placeholder d t key i =
     (if d = Postgres then (if is_jsonb_typed key t then placeholder d i @ ''::jsonb'' else placeholder d i)
      else placeholder d i)"

fun insert_go :: "database_driver \<Rightarrow> table_config \<Rightarrow> string set \<Rightarrow> string option \<Rightarrow> request_context \<Rightarrow> (string \<times> json) list
    \<Rightarrow> string list \<Rightarrow> string list \<Rightarrow> json list \<Rightarrow> nat \<Rightarrow> (app_error, string list \<times> string list \<times> json list) result" where
  "insert_go d t writable owner rc [] cols phs params i = Inr (cols, phs, params)"
| "insert_go d t writable owner rc ((key, v) # obj) cols phs params i =
     (if owner = Some key then insert_go d t writable owner rc obj cols phs params i
      else if key \<notin> writable then insert_go d t writable owner rc obj cols phs params i
      else if \<not> is_valid_identifier key then Inl (BadRequest (''Invalid field name: '' @ key))
      else case body_value v rc of
             Inl e \<Rightarrow> Inl e
           | Inr fv \<Rightarrow> insert_go d t writable owner rc obj (cols @ [key]) (phs @ [body_placeholder d t key i])
               (params @ [fv]) (i + 1))"

definition owner_param :: "database_driver \<Rightarrow> table_config \<Rightarrow> string \<Rightarrow> string \<Rightarrow> json" where
  "owner_param d t owner uid =
     (case map_option col_type (find (\<lambda>c. col_name c = owner) (tbl_columns t)) of
        None \<Rightarrow> JStr uid
      | Some ct \<Rightarrow> coerce_filter_value_by_type uid ct d)"

definition insert_returning :: "database_driver \<Rightarrow> string \<Rightarrow> string option \<Rightarrow> string" where
  "insert_returning d pk owner =
     (case d of
        Mysql \<Rightarrow> []
      | _ \<Rightarrow>
          (case owner of
             None \<Rightarrow> '' RETURNING '' @ quote_identifier pk d
           | Some f \<Rightarrow> '' RETURNING '' @ quote_identifier pk d @ '', '' @ quote_identifier f d))"

definition build_insert :: "database_driver \<Rightarrow> table_config \<Rightarrow> mutation_context \<Rightarrow> json \<Rightarrow> request_context
    \<Rightarrow> (app_error, built_query) result" where
  "build_insert d t ctx body rc =
     (case as_object body of
        None \<Rightarrow> Inl (BadRequest ''Request body must be a JSON object'')
      | Some obj \<Rightarrow>
          (let writable = resolve_writable_fields (mc_writable_fields ctx) t;
               owner = mc_insert_owner ctx;
               start = (case owner of
                   Some f \<Rightarrow>
                     (case rc_user_id rc of
                        Some uid \<Rightarrow> ([f], [placeholder d 1], [owner_param d t f uid], 2)
                      | None \<Rightarrow> ([], [], [], 1))
                 | None \<Rightarrow> ([], [], [], 1))
           in case start of (cols0, phs0, params0, i0) \<Rightarrow>
                (case insert_go d t writable owner rc obj cols0 phs0 params0 i0 of
                   Inl e \<Rightarrow> Inl e
                 | Inr (cols, phs, params) \<Rightarrow>
                     if cols = [] then Inl (BadRequest ''No writable fields provided in request body'')
                     else
                       (case find_pk_column t of
                          Inl e \<Rightarrow> Inl e
                        | Inr pk \<Rightarrow>
                            Inr \<lparr> bq_sql = ''INSERT INTO '' @ tbl_name t @ '' ('' @ join '', '' cols @ '') VALUES (''
                                    @ join '', '' phs @ '')'' @ insert_returning d pk owner,
                                  bq_params = params \<rparr>))))"

section \<open>UPDATE\<close>

fun update_go :: "database_driver \<Rightarrow> table_config \<Rightarrow> string set \<Rightarrow> request_context \<Rightarrow> (string \<times> json) list
    \<Rightarrow> string list \<Rightarrow> json list \<Rightarrow> nat \<Rightarrow> (app_error, string list \<times> json list \<times> nat) result" where
  "update_go d t writable rc [] sets params i = Inr (sets, params, i)"
| "update_go d t writable rc ((key, v) # obj) sets params i =
     (if key \<notin> writable then update_go d t writable rc obj sets params i
      else if \<not> is_valid_identifier key then Inl (BadRequest (''Invalid field name: '' @ key))
      else case body_value v rc of
             Inl e \<Rightarrow> Inl e
           | Inr fv \<Rightarrow> update_go d t writable rc obj (sets @ [key @ '' = '' @ body_placeholder d t key i]) (params @ [fv]) (i + 1))"

definition build_update :: "database_driver \<Rightarrow> table_config \<Rightarrow> mutation_context \<Rightarrow> string \<Rightarrow> json \<Rightarrow> request_context
    \<Rightarrow> string option \<Rightarrow> (app_error, built_query) result" where
  "build_update d t ctx pk_value body rc where_clause =
     (case as_object body of
        None \<Rightarrow> Inl (BadRequest ''Request body must be a JSON object'')
      | Some obj \<Rightarrow>
          (case find_pk_column t of
             Inl e \<Rightarrow> Inl e
           | Inr pk_col \<Rightarrow>
               (case update_go d t (resolve_writable_fields (mc_writable_fields ctx) t) rc obj [] [] 1 of
                  Inl e \<Rightarrow> Inl e
                | Inr (sets, params, i) \<Rightarrow>
                    if sets = [] then Inl (BadRequest ''No writable fields provided in request body'')
                    else
                      (let pk_val = coerce_pk_value t pk_value;
                           sentinel = (as_i64 pk_val = Some i64_min);
                           sql = (if sentinel
                             then ''UPDATE '' @ quote_identifier (tbl_name t) d @ '' SET '' @ join '', '' sets @ '' WHERE 1 = 0''
                             else ''UPDATE '' @ tbl_name t @ '' SET '' @ join '', '' sets @ '' WHERE '' @ pk_col @ '' = '' @ placeholder d i);
                           params1 = (if sentinel then params else params @ [pk_val])
                       in case where_clause of
                            None \<Rightarrow> Inr \<lparr> bq_sql = sql, bq_params = params1 \<rparr>
                          | Some wc \<Rightarrow>
                              (case interpolate_where_clause wc rc d params1 [] of
                                 Inl e \<Rightarrow> Inl e
                               | Inr (params2, parts, _) \<Rightarrow>
                                   Inr \<lparr> bq_sql = sql @ '' AND '' @ join [] parts, bq_params = params2 \<rparr>)))))"

section \<open>DELETE\<close>

definition build_delete :: "string \<Rightarrow> database_driver \<Rightarrow> table_config \<Rightarrow> request_context \<Rightarrow> string option
    \<Rightarrow> (app_error, built_query) result" where
  "build_delete pk_value d t rc where_clause =
     (case find_pk_column t of
        Inl e \<Rightarrow> Inl e
      | Inr pk_col \<Rightarrow>
          (let pk_val = coerce_pk_value t pk_value in
           if as_i64 pk_val = Some i64_min then
             (case where_clause of
                Some wc \<Rightarrow>
                  (case interpolate_where_clause wc rc d [] [] of
                     Inl e \<Rightarrow> Inl e
                   | Inr (params, parts, _) \<Rightarrow>
                       Inr \<lparr> bq_sql = ''DELETE FROM '' @ quote_identifier (tbl_name t) d @ '' WHERE 1 = 0 AND '' @ join [] parts,
                             bq_params = params \<rparr>)
              | None \<Rightarrow>
                  Inr \<lparr> bq_sql = ''DELETE FROM '' @ quote_identifier (tbl_name t) d @ '' WHERE 1 = 0'', bq_params = [] \<rparr>)
           else
             (let base_sql = ''DELETE FROM '' @ tbl_name t @ '' WHERE '' @ pk_col @ '' = '' @ placeholder d 1 in
              case where_clause of
                None \<Rightarrow> Inr \<lparr> bq_sql = base_sql, bq_params = [pk_val] \<rparr>
              | Some wc \<Rightarrow>
                  (case interpolate_where_clause wc rc d [pk_val] [] of
                     Inl e \<Rightarrow> Inl e
                   | Inr (params, parts, _) \<Rightarrow>
                       Inr \<lparr> bq_sql = base_sql @ '' AND '' @ join [] parts, bq_params = params \<rparr>))))"

section \<open>What the loops collect\<close>

lemma body_value_ok: "\<exists>fv. body_value v rc = Inr fv"
  using interpolate_value_ok by (auto simp: body_value_def split: option.split)

definition value_of_body :: "json \<Rightarrow> request_context \<Rightarrow> json" where
  "value_of_body v rc = (case body_value v rc of Inr fv \<Rightarrow> fv | Inl _ \<Rightarrow> v)"

lemma body_value_eq: "body_value v rc = Inr (value_of_body v rc)"
  using body_value_ok [of v rc] by (auto simp: value_of_body_def)

text \<open>The entries of the body a client may write: writable, and not the owner column.\<close>

definition accepted :: "string set \<Rightarrow> string option \<Rightarrow> (string \<times> json) list \<Rightarrow> (string \<times> json) list" where
  "accepted writable owner obj = filter (\<lambda>(k, v). k \<in> writable \<and> owner \<noteq> Some k) obj"

lemma accepted_simps [simp]:
  "accepted w owner [] = []"
  "accepted w owner ((k, v) # obj) =
     (if k \<in> w \<and> owner \<noteq> Some k then (k, v) # accepted w owner obj else accepted w owner obj)"
  by (simp_all add: accepted_def)

lemma accepted_mem: "(k, v) \<in> set (accepted w owner obj) \<longleftrightarrow> (k, v) \<in> set obj \<and> k \<in> w \<and> owner \<noteq> Some k"
  by (auto simp: accepted_def)

fun numbered :: "database_driver \<Rightarrow> table_config \<Rightarrow> nat \<Rightarrow> string list \<Rightarrow> string list" where
  "numbered d t i [] = []"
| "numbered d t i (k # ks) = body_placeholder d t k i # numbered d t (i + 1) ks"

lemma insert_go_spec:
  "insert_go d t w owner rc obj cols phs params i =
     (case find (\<lambda>(k, v). \<not> is_valid_identifier k) (accepted w owner obj) of
        Some (k, v) \<Rightarrow> Inl (BadRequest (''Invalid field name: '' @ k))
      | None \<Rightarrow>
          Inr (cols @ map fst (accepted w owner obj), phs @ numbered d t i (map fst (accepted w owner obj)),
               params @ map (\<lambda>(k, v). value_of_body v rc) (accepted w owner obj)))"
proof (induction obj arbitrary: cols phs params i)
  case (Cons kv obj)
  obtain k v where kv: "kv = (k, v)" by (cases kv)
  show ?case
    by (cases "owner = Some k"; cases "k \<in> w"; cases "is_valid_identifier k")
       (use Cons.IH in \<open>simp_all add: kv body_value_eq split: option.split\<close>)
qed simp

lemma update_go_spec:
  "update_go d t w rc obj sets params i =
     (case find (\<lambda>(k, v). \<not> is_valid_identifier k) (accepted w None obj) of
        Some (k, v) \<Rightarrow> Inl (BadRequest (''Invalid field name: '' @ k))
      | None \<Rightarrow>
          Inr (sets @ map (\<lambda>(k, p). k @ '' = '' @ p)
                 (zip (map fst (accepted w None obj)) (numbered d t i (map fst (accepted w None obj)))),
               params @ map (\<lambda>(k, v). value_of_body v rc) (accepted w None obj), i + length (accepted w None obj)))"
proof (induction obj arbitrary: sets params i)
  case (Cons kv obj)
  obtain k v where kv: "kv = (k, v)" by (cases kv)
  show ?case
    by (cases "k \<in> w"; cases "is_valid_identifier k")
       (simp_all add: kv body_value_eq Cons split: option.split)
qed simp

section \<open>Markers\<close>

lemma body_placeholder_marks: "marks d (body_placeholder d t k i) = [mark_of d i]"
  by (simp add: body_placeholder_def refs_simps is_digit_def ccode_def marks_inert)

lemma digit_start_body_placeholder [simp]: "\<not> digit_start (body_placeholder d t k i @ s)"
  by (simp add: body_placeholder_def)

lemma numbered_marks: "concat (map (marks d) (numbered d t i ks)) = marks_from d i (length ks)"
  by (induction ks arbitrary: i) (simp_all add: body_placeholder_marks marks_from_Suc_left)

lemma set_parts_marks:
  "\<forall>k \<in> set ks. quiet d k \<Longrightarrow>
     concat (map (marks d \<circ> (\<lambda>(k, p). k @ '' = '' @ p)) (zip ks (numbered d t i ks))) = marks_from d i (length ks)"
  by (induction ks arbitrary: i) (simp_all add: marks_quiet_left refs_simps body_placeholder_marks marks_from_Suc_left)

lemma marks_join_list: "marks d (join '', '' xs) = concat (map (marks d) xs)"
  by (simp add: marks_join)

lemma valid_identifiers_quiet:
  "find (\<lambda>(k, v). \<not> is_valid_identifier k) kvs = None \<Longrightarrow> k \<in> fst ` set kvs \<Longrightarrow> quiet d k"
  by (auto simp: find_None_iff_all intro!: inert_quiet inert_valid_identifier)

section \<open>The text of an INSERT\<close>

definition owner_fields :: "mutation_context \<Rightarrow> request_context \<Rightarrow> string list" where
  "owner_fields ctx rc = (case (mc_insert_owner ctx, rc_user_id rc) of (Some f, Some _) \<Rightarrow> [f] | _ \<Rightarrow> [])"

definition owner_params :: "database_driver \<Rightarrow> table_config \<Rightarrow> mutation_context \<Rightarrow> request_context \<Rightarrow> json list" where
  "owner_params d t ctx rc =
     (case (mc_insert_owner ctx, rc_user_id rc) of (Some f, Some uid) \<Rightarrow> [owner_param d t f uid] | _ \<Rightarrow> [])"

lemma build_insert_Inr:
  assumes "build_insert d t ctx body rc = Inr q"
  obtains obj pk kvs where "body = JObj obj" "find_pk_column t = Inr pk"
    "kvs = accepted (resolve_writable_fields (mc_writable_fields ctx) t) (mc_insert_owner ctx) obj"
    "\<forall>(k, v) \<in> set kvs. is_valid_identifier k"
    "bq_sql q = ''INSERT INTO '' @ tbl_name t @ '' ('' @ join '', '' (owner_fields ctx rc @ map fst kvs) @ '') VALUES (''
       @ join '', '' (map (placeholder d) [1 ..< 1 + length (owner_fields ctx rc)]
           @ numbered d t (1 + length (owner_fields ctx rc)) (map fst kvs))
       @ '')'' @ insert_returning d pk (mc_insert_owner ctx)"
    "bq_params q = owner_params d t ctx rc @ map (\<lambda>(k, v). value_of_body v rc) kvs"
proof -
  obtain obj where obj: "body = JObj obj" using assms by (cases body) (auto simp: build_insert_def)
  let ?kvs = "accepted (resolve_writable_fields (mc_writable_fields ctx) t) (mc_insert_owner ctx) obj"
  have ok: "find (\<lambda>(k, v). \<not> is_valid_identifier k) ?kvs = None"
    using assms
    by (cases "mc_insert_owner ctx"; cases "rc_user_id rc")
       (auto simp: build_insert_def obj Let_def insert_go_spec split: option.splits)
  obtain pk where pk: "find_pk_column t = Inr pk"
    using assms ok
    by (cases "mc_insert_owner ctx"; cases "rc_user_id rc")
       (auto simp: build_insert_def obj Let_def insert_go_spec split: if_splits sum.splits)
  have q: "bq_sql q = ''INSERT INTO '' @ tbl_name t @ '' ('' @ join '', '' (owner_fields ctx rc @ map fst ?kvs) @ '') VALUES (''
       @ join '', '' (map (placeholder d) [1 ..< 1 + length (owner_fields ctx rc)]
           @ numbered d t (1 + length (owner_fields ctx rc)) (map fst ?kvs))
       @ '')'' @ insert_returning d pk (mc_insert_owner ctx) \<and>
      bq_params q = owner_params d t ctx rc @ map (\<lambda>(k, v). value_of_body v rc) ?kvs"
    using assms ok pk
    by (cases "mc_insert_owner ctx"; cases "rc_user_id rc")
       (auto simp: build_insert_def obj Let_def insert_go_spec owner_fields_def owner_params_def numeral_2_eq_2
          split: if_splits)
  have "\<forall>(k, v) \<in> set ?kvs. is_valid_identifier k" using ok by (auto simp: find_None_iff_all)
  then show thesis using that [OF obj pk refl] q by blast
qed

text \<open>With an owner column configured and an authenticated user, the inserted row's owner is
  that user whatever the body says: the column is set first, from the request context, and the body's
  own value for it is dropped (the documentation lets it take precedence); every other column is writable
  and a plain identifier.\<close>

lemma insert_owner_controlled:
  assumes "build_insert d t ctx (JObj obj) rc = Inr q" "mc_insert_owner ctx = Some f" "rc_user_id rc = Some uid"
  shows "\<exists>rest vals. bq_sql q = ''INSERT INTO '' @ tbl_name t @ '' ('' @ join '', '' (f # rest) @ '') VALUES ('' @ vals
     \<and> hd (bq_params q) = owner_param d t f uid \<and> length (bq_params q) = Suc (length rest)
     \<and> f \<notin> set rest \<and> set rest \<subseteq> resolve_writable_fields (mc_writable_fields ctx) t \<inter> fst ` set obj
     \<and> (\<forall>k \<in> set rest. is_valid_identifier k)"
proof -
  obtain pk kvs where k: "kvs = accepted (resolve_writable_fields (mc_writable_fields ctx) t) (Some f) obj"
      "\<forall>(k, v) \<in> set kvs. is_valid_identifier k"
      "bq_sql q = ''INSERT INTO '' @ tbl_name t @ '' ('' @ join '', '' (owner_fields ctx rc @ map fst kvs) @ '') VALUES (''
       @ join '', '' (map (placeholder d) [1 ..< 1 + length (owner_fields ctx rc)]
           @ numbered d t (1 + length (owner_fields ctx rc)) (map fst kvs))
       @ '')'' @ insert_returning d pk (mc_insert_owner ctx)"
      "bq_params q = owner_params d t ctx rc @ map (\<lambda>(k, v). value_of_body v rc) kvs"
    by (rule build_insert_Inr [OF assms(1)]) (use assms(2) in auto)
  have o: "owner_fields ctx rc = [f]" "owner_params d t ctx rc = [owner_param d t f uid]"
    using assms(2,3) by (simp_all add: owner_fields_def owner_params_def)
  show ?thesis
    by (rule exI [of _ "map fst kvs"])
       (use k o in \<open>auto simp: k(1) accepted_mem image_iff intro: bexI [rotated]\<close>)
qed

definition sample_mutation :: mutation_context where
  "sample_mutation =
     \<lparr> mc_writable_fields = [''title'', ''author_id'', ''meta''], mc_insert_owner = Some ''author_id'',
       mc_update_where_clause = None, mc_delete_where_clause = None \<rparr>"

definition sample_body :: "(string \<times> json) list" where
  "sample_body = [(''author_id'', JStr ''mallory''), (''id'', JInt 1), (''meta'', JObj []), (''title'', JStr ''hi'')]"

text \<open>C6: take an INSERT that is built with an owner column configured and a user in the request context,
  from a body that does not name the owner column itself. Its text inserts into the configured table the
  owner column and, in their order, exactly those fields of the body that the endpoint lets a client
  write, one placeholder for each; its parameters are the user's id, coerced to the type of the owner
  column, and the value of each of these fields, interpolated where it is a string; and every such field
  name is a plain identifier.\<close>

theorem insert_owner_filled_in:
  assumes "build_insert d t ctx (JObj obj) rc = Inr q" "mc_insert_owner ctx = Some f" "rc_user_id rc = Some uid"
    and "f \<notin> fst ` set obj"
  defines "written \<equiv> filter (\<lambda>(k, v). k \<in> resolve_writable_fields (mc_writable_fields ctx) t) obj"
  shows "\<exists>pk vals. find_pk_column t = Inr pk
     \<and> bq_sql q = ''INSERT INTO '' @ tbl_name t @ '' ('' @ join '', '' (f # map fst written) @ '') VALUES (''
         @ join '', '' (placeholder d 1 # numbered d t 2 (map fst written)) @ '')'' @ insert_returning d pk (Some f)
     \<and> bq_params q = owner_param d t f uid # vals
     \<and> list_all2 (\<lambda>(k, v) x. body_value v rc = Inr x) written vals
     \<and> (\<forall>(k, v) \<in> set written. is_valid_identifier k)"
proof -
  have w: "accepted (resolve_writable_fields (mc_writable_fields ctx) t) (Some f) obj = written"
    using assms(4) unfolding accepted_def written_def by (intro filter_cong) force+
  have o: "owner_fields ctx rc = [f]" "owner_params d t ctx rc = [owner_param d t f uid]"
    using assms(2,3) by (simp_all add: owner_fields_def owner_params_def)
  obtain pk where k: "find_pk_column t = Inr pk" "\<forall>(k, v) \<in> set written. is_valid_identifier k"
      "bq_sql q = ''INSERT INTO '' @ tbl_name t @ '' ('' @ join '', '' ([f] @ map fst written) @ '') VALUES (''
       @ join '', '' (map (placeholder d) [1 ..< 1 + length [f]] @ numbered d t (1 + length [f]) (map fst written))
       @ '')'' @ insert_returning d pk (Some f)"
      "bq_params q = [owner_param d t f uid] @ map (\<lambda>(k, v). value_of_body v rc) written"
    by (rule build_insert_Inr [OF assms(1)]) (use assms(2) w o in auto)
  have "list_all2 (\<lambda>(k, v) x. body_value v rc = Inr x) written (map (\<lambda>(k, v). value_of_body v rc) written)"
    by (auto simp: list_all2_map2 body_value_eq intro: list.rel_refl)
  with k show ?thesis by (auto simp: numeral_2_eq_2)
qed

definition sample_new_post :: "(string \<times> json) list" where
  "sample_new_post = [(''id'', JInt 1), (''meta'', JObj []), (''title'', JStr ''hi'')]"

theorem insert_owner_filled_in_witness:
  "\<exists>q vals. build_insert Sqlite sample_table sample_mutation (JObj sample_new_post) sample_context = Inr q
     \<and> bq_params q = JStr ''u1'' # vals \<and> length vals = 2"
proof -
  have "is_ok (build_insert Sqlite sample_table sample_mutation (JObj sample_new_post) sample_context)" by code_simp
  then obtain q where q: "build_insert Sqlite sample_table sample_mutation (JObj sample_new_post) sample_context = Inr q"
    by (auto simp: is_ok_iff)
  have o: "mc_insert_owner sample_mutation = Some ''author_id''" "rc_user_id sample_context = Some ''u1''"
      "''author_id'' \<notin> fst ` set sample_new_post" "owner_param Sqlite sample_table ''author_id'' ''u1'' = JStr ''u1''"
      "length (filter (\<lambda>(k, v). k \<in> resolve_writable_fields (mc_writable_fields sample_mutation) sample_table) sample_new_post) = 2"
    by code_simp+
  from insert_owner_filled_in [OF q o(1-3)] q o(4,5) show ?thesis by (fastforce dest: list_all2_lengthD)
qed

text \<open>An INSERT numbers its parameters right, on every driver, and its text is the same for
  all bodies with the same keys.\<close>

theorem insert_well_numbered:
  assumes "quiet d (tbl_name t)" "option_all (quiet d) (mc_insert_owner ctx)" "\<forall>c \<in> set (tbl_columns t). quiet d (col_name c)"
    and "build_insert d t ctx (JObj obj) rc = Inr q"
  shows "well_numbered d (bq_sql q) (bq_params q)
     \<and> (\<forall>obj' q'. map fst obj' = map fst obj \<longrightarrow> build_insert d t ctx (JObj obj') rc = Inr q' \<longrightarrow> bq_sql q' = bq_sql q)"
proof
  obtain pk kvs where k: "find_pk_column t = Inr pk"
      "kvs = accepted (resolve_writable_fields (mc_writable_fields ctx) t) (mc_insert_owner ctx) obj"
      "\<forall>(k, v) \<in> set kvs. is_valid_identifier k"
      "bq_sql q = ''INSERT INTO '' @ tbl_name t @ '' ('' @ join '', '' (owner_fields ctx rc @ map fst kvs) @ '') VALUES (''
       @ join '', '' (map (placeholder d) [1 ..< 1 + length (owner_fields ctx rc)]
           @ numbered d t (1 + length (owner_fields ctx rc)) (map fst kvs))
       @ '')'' @ insert_returning d pk (mc_insert_owner ctx)"
      "bq_params q = owner_params d t ctx rc @ map (\<lambda>(k, v). value_of_body v rc) kvs"
    by (rule build_insert_Inr [OF assms(4)]) auto
  let ?m = "length (owner_fields ctx rc)"
  have "quiet d pk" using find_pk_column_Inr [OF k(1)] assms(3) by auto
  then have ret: "quiet d ('')'' @ insert_returning d pk (mc_insert_owner ctx))"
    using assms(2) by (cases d; cases "mc_insert_owner ctx") (auto simp: insert_returning_def)
  have nd: "\<not> digit_start ('')'' @ r)" for r by simp
  have cols: "quiet d (join '', '' (owner_fields ctx rc @ map fst kvs))"
  proof (rule quiet_join)
    fix x assume "x \<in> set (owner_fields ctx rc @ map fst kvs)"
    then consider "mc_insert_owner ctx = Some x" | "is_valid_identifier x"
      using k(3) by (auto simp: owner_fields_def split: option.splits)
    then show "quiet d x"
      using assms(2) by cases (auto intro: inert_quiet inert_valid_identifier)
  qed simp
  have ph: "concat (map (marks d) (map (placeholder d) [1 ..< 1 + ?m])) = marks_from d 1 ?m"
    by (simp add: marks_from_def comp_def marks_placeholder concat_map_singleton)
  have pre: "marks d (''INSERT INTO '' @ tbl_name t @ '' ('' @ join '', '' (owner_fields ctx rc @ map fst kvs) @ '') VALUES ('' @ r) = marks d r" for r
    using assms(1) cols by (simp add: marks_quiet_left refs_simps)
  have "marks d (bq_sql q) = marks d (join '', '' (map (placeholder d) [1 ..< 1 + ?m] @ numbered d t (1 + ?m) (map fst kvs)))"
    unfolding k(4) pre marks_append [OF nd] marks_quiet [OF ret] by simp
  also have "\<dots> = marks_from d 1 (?m + length kvs)"
    using ph by (simp add: marks_join_list numbered_marks marks_from_add del: One_nat_def)
  finally show "well_numbered d (bq_sql q) (bq_params q)"
    by (auto simp: well_numbered_def k(5) owner_fields_def owner_params_def split: option.splits)
  show "\<forall>obj' q'. map fst obj' = map fst obj \<longrightarrow> build_insert d t ctx (JObj obj') rc = Inr q' \<longrightarrow> bq_sql q' = bq_sql q"
  proof (intro allI impI)
    fix obj' q' assume *: "map fst obj' = map fst obj" "build_insert d t ctx (JObj obj') rc = Inr q'"
    have e: "map fst (accepted w ow obj') = map fst (accepted w ow obj)" for w ow
      using *(1) by (induction obj' obj rule: list_induct2') (auto split: if_splits)
    show "bq_sql q' = bq_sql q"
      by (rule build_insert_Inr [OF *(2)]) (use k e in auto)
  qed
qed

theorem insert_well_numbered_witness:
  "\<exists>q. build_insert Postgres sample_table sample_mutation (JObj sample_body) sample_context = Inr q
     \<and> well_numbered Postgres (bq_sql q) (bq_params q)"
proof -
  have "is_ok (build_insert Postgres sample_table sample_mutation (JObj sample_body) sample_context)"
    by code_simp
  then obtain q where q: "build_insert Postgres sample_table sample_mutation (JObj sample_body) sample_context = Inr q"
    by (auto simp: is_ok_iff)
  have h: "quiet Postgres (tbl_name sample_table)" "option_all (quiet Postgres) (mc_insert_owner sample_mutation)"
      "\<forall>c \<in> set (tbl_columns sample_table). quiet Postgres (col_name c)"
    by code_simp+
  from insert_well_numbered [OF h q] q show ?thesis by blast
qed

section \<open>The text of an UPDATE and a DELETE\<close>

text \<open>An UPDATE sets only writable columns that are plain identifiers, on the row the key
  names; its markers are those of the set list and the key, followed by a second run that starts at 1
  again for the configured clause, so with such a clause it is well numbered on SQLite and MySQL only.\<close>

theorem update_text_and_numbering:
  assumes "quiet d (tbl_name t)" "find_pk_column t = Inr pk" "quiet d pk"
    and "as_i64 (coerce_pk_value t v) \<noteq> Some i64_min" "clean_where wc" "\<not> digit_start (where_clause_sql d wc)"
    and "build_update d t ctx v (JObj obj) rc (Some wc) = Inr q"
  shows "\<exists>ks sets. bq_sql q = ''UPDATE '' @ tbl_name t @ '' SET '' @ sets @ '' WHERE '' @ pk @ '' = ''
          @ placeholder d (Suc (length ks)) @ '' AND '' @ where_clause_sql d wc
     \<and> sets = join '', '' (map (\<lambda>(k, p). k @ '' = '' @ p) (zip ks (numbered d t 1 ks)))
     \<and> set ks \<subseteq> resolve_writable_fields (mc_writable_fields ctx) t \<inter> fst ` set obj \<and> (\<forall>k \<in> set ks. is_valid_identifier k)
     \<and> marks d (bq_sql q) = marks_from d 1 (Suc (length ks)) @ marks_from d 1 (length (fst (value_matches wc)))
     \<and> (well_numbered d (bq_sql q) (bq_params q) \<longleftrightarrow> d \<noteq> Postgres \<or> fst (value_matches wc) = [])"
proof -
  let ?kvs = "accepted (resolve_writable_fields (mc_writable_fields ctx) t) None obj"
  let ?ks = "map fst ?kvs"
  let ?n = "length (fst (value_matches wc))"
  let ?sets = "join '', '' (map (\<lambda>(k, p). k @ '' = '' @ p) (zip ?ks (numbered d t 1 ?ks)))"
  let ?params = "map (\<lambda>(k, v). value_of_body v rc) ?kvs @ [coerce_pk_value t v]"
  have ok: "find (\<lambda>(k, v). \<not> is_valid_identifier k) ?kvs = None"
    using assms(2,7) by (auto simp: build_update_def update_go_spec split: option.splits)
  obtain ps parts m where i: "interpolate_where_clause wc rc d ?params [] = Inr (ps, parts, m)"
      "q = \<lparr> bq_sql = (''UPDATE '' @ tbl_name t @ '' SET '' @ ?sets @ '' WHERE '' @ pk @ '' = '' @ placeholder d (1 + length ?kvs))
          @ '' AND '' @ join [] parts, bq_params = ps \<rparr>"
    using assms(2,4,7) ok
    by (auto simp: build_update_def update_go_spec Let_def split: if_splits sum.splits prod.splits)
  note w = interpolate_where_clause_Inr [OF i(1)]
  have sql: "bq_sql q = ''UPDATE '' @ tbl_name t @ '' SET '' @ ?sets @ '' WHERE '' @ pk @ '' = ''
      @ placeholder d (Suc (length ?ks)) @ '' AND '' @ where_clause_sql d wc"
    using w(1) by (simp add: i(2) join_empty_sep)
  have vi: "\<forall>k \<in> set ?ks. is_valid_identifier k" using ok by (auto simp: find_None_iff_all)
  then have qk: "\<forall>k \<in> set ?ks. quiet d k" by (auto intro: inert_quiet inert_valid_identifier)
  have sets: "marks d ?sets = marks_from d 1 (length ?ks)"
    using set_parts_marks [OF qk, of t 1] by (simp add: marks_join_list comp_def)
  have "marks d (bq_sql q) = marks d (?sets @ '' WHERE '' @ pk @ '' = '' @ placeholder d (Suc (length ?ks)) @ '' AND ''
      @ where_clause_sql d wc)"
    unfolding sql using assms(1) by (simp add: marks_quiet_left refs_simps)
  also have "\<dots> = marks_from d 1 (length ?ks) @ mark_of d (Suc (length ?ks)) # marks d (where_clause_sql d wc)"
  proof -
    have gen: "marks d (S @ '' WHERE '' @ pk @ '' = '' @ placeholder d k @ '' AND '' @ r) = marks d S @ mark_of d k # marks d r" for S k r
      using assms(3) by (simp add: marks_append marks_quiet marks_quiet_left refs_simps)
    show ?thesis unfolding gen sets by (rule refl)
  qed
  finally have m: "marks d (bq_sql q) = marks_from d 1 (Suc (length ?ks)) @ marks_from d 1 ?n"
    using where_clause_marks [OF assms(5)] by (simp add: marks_from_Suc)
  have len: "length (bq_params q) = Suc (length ?ks) + ?n" using w(2) by (simp add: i(2))
  have wn: "well_numbered d (bq_sql q) (bq_params q) \<longleftrightarrow> d \<noteq> Postgres \<or> fst (value_matches wc) = []"
  proof (cases "d = Postgres")
    case True
    have "well_numbered d (bq_sql q) (bq_params q) \<longleftrightarrow> marks_from d 1 ?n = marks_from d (1 + Suc (length ?ks)) ?n"
      unfolding well_numbered_def m len marks_from_add by simp
    also have "\<dots> \<longleftrightarrow> ?n = 0"
      unfolding True marks_from_Postgres_inj by simp
    finally show ?thesis using True by simp
  next
    case False
    then show ?thesis by (simp add: well_numbered_def m len marks_from_question flip: replicate_add)
  qed
  have "set ?ks \<subseteq> resolve_writable_fields (mc_writable_fields ctx) t \<inter> fst ` set obj"
    by (auto simp: accepted_mem image_iff intro: bexI [rotated])
  with sql vi m wn show ?thesis by blast
qed

theorem update_text_and_numbering_witness:
  "\<exists>q. build_update Postgres sample_table sample_mutation ''7'' (JObj sample_body) sample_context
        (Some ''author_id = ${request.user.id}'') = Inr q
     \<and> \<not> well_numbered Postgres (bq_sql q) (bq_params q)"
proof -
  let ?wc = "''author_id = ${request.user.id}''"
  have "is_ok (build_update Postgres sample_table sample_mutation ''7'' (JObj sample_body) sample_context (Some ?wc))"
    by code_simp
  then obtain q where q: "build_update Postgres sample_table sample_mutation ''7'' (JObj sample_body) sample_context (Some ?wc) = Inr q"
    by (auto simp: is_ok_iff)
  have h: "quiet Postgres (tbl_name sample_table)" "find_pk_column sample_table = Inr ''id''" "quiet Postgres ''id''"
      "as_i64 (coerce_pk_value sample_table ''7'') \<noteq> Some i64_min" "clean_where ?wc"
      "\<not> digit_start (where_clause_sql Postgres ?wc)"
    by code_simp+
  have "fst (value_matches ?wc) \<noteq> []" by code_simp
  with update_text_and_numbering [OF h q] q show ?thesis by auto
qed

text \<open>A DELETE whose key cannot be read as the key's type deletes nothing, its text tests the
  constant \<open>1 = 0\<close>; otherwise the configured clause follows the key test after \<open>AND\<close> as it is, without
  parentheses of its own.\<close>

theorem delete_text:
  assumes "find_pk_column t = Inr pk" "build_delete v d t rc wc = Inr q"
  shows "bq_sql q =
     (if as_i64 (coerce_pk_value t v) = Some i64_min
      then ''DELETE FROM '' @ quote_identifier (tbl_name t) d @ '' WHERE 1 = 0''
      else ''DELETE FROM '' @ tbl_name t @ '' WHERE '' @ pk @ '' = '' @ placeholder d 1)
     @ (case wc of None \<Rightarrow> [] | Some w \<Rightarrow> '' AND '' @ where_clause_sql d w)"
proof (cases wc)
  case None
  then show ?thesis using assms by (auto simp: build_delete_def Let_def split: if_splits)
next
  case (Some w)
  let ?ps = "if as_i64 (coerce_pk_value t v) = Some i64_min then [] else [coerce_pk_value t v]"
  obtain ps parts m where i: "interpolate_where_clause w rc d ?ps [] = Inr (ps, parts, m)"
    using assms Some by (auto simp: build_delete_def Let_def split: if_splits sum.splits prod.splits)
  show ?thesis
    using assms i interpolate_where_clause_Inr(1) [OF i]
    by (auto simp: Some build_delete_def Let_def join_empty_sep split: if_splits)
qed

theorem delete_text_witness:
  "\<exists>q. build_delete ''7'' Sqlite sample_table sample_context (Some ''author_id = ${request.user.id} OR public = 1'') = Inr q
     \<and> bq_sql q = ''DELETE FROM posts WHERE id = ? AND author_id = ? OR public = 1''"
proof -
  let ?wc = "''author_id = ${request.user.id} OR public = 1''"
  have "is_ok (build_delete ''7'' Sqlite sample_table sample_context (Some ?wc))" by code_simp
  then obtain q where q: "build_delete ''7'' Sqlite sample_table sample_context (Some ?wc) = Inr q"
    by (auto simp: is_ok_iff)
  have h: "find_pk_column sample_table = Inr ''id''" "as_i64 (coerce_pk_value sample_table ''7'') \<noteq> Some i64_min"
      "where_clause_sql Sqlite ?wc = ''author_id = ? OR public = 1''" "tbl_name sample_table = ''posts''"
      "placeholder Sqlite 1 = ''?''"
    by code_simp+
  from delete_text [OF h(1) q] q h show ?thesis by simp
qed

end
