(* ===== verification/Stmt_Builders.thy ===== *)
theory Stmt_Builders
  imports Select_Builder
begin

text \<open>
  The statements with a fixed shape (src/db/query/select_one.rs, update.rs, revocation.rs,
  builders/file_ref.rs): lookups by key, trash and restore, users, token revocation, file references.
  Many leave their parameters to the caller; each documents how many values it expects.
\<close>

section \<open>Lookups\<close>

definition build_select_by_field :: "string \<Rightarrow> string list \<Rightarrow> string \<Rightarrow> json \<Rightarrow> database_driver \<Rightarrow> (app_error, built_query) result" where
  "build_select_by_field table cols fld v d =
     (if cols = [] then Inl (BadRequest ''At least one column is required'')
      else if fld = [] then Inl (BadRequest ''Field name is required'')
      else Inr \<lparr> bq_sql = ''SELECT '' @ join '', '' (map (\<lambda>c. quote_identifier c d) cols) @ '' FROM '' @ quote_identifier table d
             @ '' WHERE '' @ quote_identifier fld d @ '' = '' @ placeholder d 1 @ '' LIMIT 1'',
           bq_params = [v] \<rparr>)"

definition build_select_file_path :: "string \<Rightarrow> database_driver \<Rightarrow> built_query" where
  "build_select_file_path table d =
     \<lparr> bq_sql = ''SELECT file_path FROM '' @ quote_identifier table d @ '' WHERE id = '' @ placeholder d 1, bq_params = [] \<rparr>"

definition build_select_trashed_item :: "string \<Rightarrow> database_driver \<Rightarrow> built_query" where
  "build_select_trashed_item table d =
     \<lparr> bq_sql = ''SELECT id, file_path FROM '' @ quote_identifier table d @ '' WHERE id = '' @ placeholder d 1
         @ '' AND trashed_at IS NOT NULL'', bq_params = [] \<rparr>"

definition build_select_trashed :: "string \<Rightarrow> database_driver \<Rightarrow> built_query" where
  "build_select_trashed table d =
     \<lparr> bq_sql = ''SELECT * FROM '' @ quote_identifier table d @ '' WHERE trashed_at IS NOT NULL'', bq_params = [] \<rparr>"

definition build_select_trashed_ids :: "string \<Rightarrow> database_driver \<Rightarrow> built_query" where
  "build_select_trashed_ids table d =
     \<lparr> bq_sql = ''SELECT id FROM '' @ quote_identifier table d @ '' WHERE trashed_at IS NOT NULL'', bq_params = [] \<rparr>"

definition build_select_user_for_login :: "string \<Rightarrow> database_driver \<Rightarrow> (app_error, built_query) result" where
  "build_select_user_for_login table d =
     (if table = [] then Inl (BadRequest ''Table name is required'')
      else Inr \<lparr> bq_sql = ''SELECT id, email, password_hash, role FROM '' @ quote_identifier table d @ '' WHERE email = ''
             @ placeholder d 1 @ '' LIMIT 1'', bq_params = [] \<rparr>)"

definition build_insert_user :: "string \<Rightarrow> string \<Rightarrow> string \<Rightarrow> string \<Rightarrow> bool \<Rightarrow> database_driver
    \<Rightarrow> (app_error, built_query) result" where
  "build_insert_user table email pw_hash role include_timestamps d =
     (if table = [] \<or> email = [] \<or> pw_hash = [] \<or> role = [] then
        Inl (BadRequest ''table_name, email, password_hash, and role are required'')
      else
        (let cols = [quote_identifier ''email'' d, quote_identifier ''password_hash'' d, quote_identifier ''role'' d]
               @ (if include_timestamps then [quote_identifier ''created_at'' d, quote_identifier ''updated_at'' d] else []);
             phs = [placeholder d 1, placeholder d 2, placeholder d 3]
               @ (if include_timestamps then [now_expr d, now_expr d] else [])
         in Inr \<lparr> bq_sql = ''INSERT INTO '' @ quote_identifier table d @ '' ('' @ join '', '' cols @ '') VALUES ('' @ join '', '' phs @ '')'',
                  bq_params = [JStr email, JStr pw_hash, JStr role] \<rparr>))"

definition build_select_by_id :: "string \<Rightarrow> string list \<Rightarrow> database_driver \<Rightarrow> (app_error, built_query) result" where
  "build_select_by_id table cols d =
     (if cols = [] then Inl (BadRequest ''At least one column is required'')
      else Inr \<lparr> bq_sql = ''SELECT '' @ join '', '' (map (\<lambda>c. quote_identifier c d) cols) @ '' FROM '' @ quote_identifier table d
             @ '' WHERE id = '' @ placeholder d 1, bq_params = [] \<rparr>)"

definition build_table_columns :: "string \<Rightarrow> database_driver \<Rightarrow> built_query" where
  "build_table_columns table d =
     (case d of
        Sqlite \<Rightarrow> \<lparr> bq_sql = ''PRAGMA table_info('' @ quote_identifier table d @ '')'', bq_params = [] \<rparr>
      | Postgres \<Rightarrow>
          \<lparr> bq_sql = ''SELECT column_name FROM information_schema.columns WHERE table_name = $1 ORDER BY ordinal_position'',
            bq_params = [JStr table] \<rparr>
      | Mysql \<Rightarrow>
          \<lparr> bq_sql = ''SELECT column_name FROM information_schema.columns WHERE table_schema = DATABASE() AND table_name = ? ORDER BY ordinal_position'',
            bq_params = [JStr table] \<rparr>)"

section \<open>Trash\<close>

definition build_set_trashed :: "string \<Rightarrow> database_driver \<Rightarrow> (app_error, built_query) result" where
  "build_set_trashed table d =
     (if table = [] then Inl (BadRequest ''Table name is required'')
      else Inr \<lparr> bq_sql = ''UPDATE '' @ quote_identifier table d @ '' SET deleted_at = '' @ now_expr d @ '', trashed_at = '' @ now_expr d
             @ '' WHERE id = '' @ placeholder d 1, bq_params = [] \<rparr>)"

definition build_set_restored :: "string \<Rightarrow> database_driver \<Rightarrow> (app_error, built_query) result" where
  "build_set_restored table d =
     (if table = [] then Inl (BadRequest ''Table name is required'')
      else Inr \<lparr> bq_sql = ''UPDATE '' @ quote_identifier table d @ '' SET trashed_at = NULL, deleted_at = NULL WHERE id = ''
             @ placeholder d 1, bq_params = [] \<rparr>)"

definition build_set_file_path :: "string \<Rightarrow> string \<Rightarrow> database_driver \<Rightarrow> (app_error, built_query) result" where
  "build_set_file_path table new_path d =
     (if table = [] \<or> new_path = [] then Inl (BadRequest ''table_name and new_path are required'')
      else Inr \<lparr> bq_sql = ''UPDATE '' @ quote_identifier table d @ '' SET file_path = '' @ placeholder d 1 @ '' WHERE id = ''
             @ placeholder d 2, bq_params = [JStr new_path] \<rparr>)"

section \<open>Token revocation\<close>

definition build_revoke_cleanup :: "string \<Rightarrow> database_driver \<Rightarrow> built_query" where
  "build_revoke_cleanup table d =
     \<lparr> bq_sql = ''DELETE FROM '' @ quote_identifier table d @ '' WHERE expires_at < '' @ now_expr d, bq_params = [] \<rparr>"

definition build_revoke_check :: "string \<Rightarrow> database_driver \<Rightarrow> json \<Rightarrow> built_query" where
  "build_revoke_check table d v =
     \<lparr> bq_sql = ''SELECT 1 FROM '' @ quote_identifier table d @ '' WHERE jti = '' @ placeholder d 1 @ '' LIMIT 1'', bq_params = [v] \<rparr>"

definition revoke_insert_tail :: "database_driver \<Rightarrow> string" where
  "revoke_insert_tail d =
     (case d of
        Sqlite \<Rightarrow> '' (jti, revoked_at, expires_at) VALUES (?, ?, ?)''
      | Postgres \<Rightarrow> '' (jti, revoked_at, expires_at) VALUES ($1, $2, $3) ON CONFLICT (jti) DO UPDATE SET expires_at = EXCLUDED.expires_at''
      | Mysql \<Rightarrow> '' (jti, revoked_at, expires_at) VALUES (?, ?, ?) ON DUPLICATE KEY UPDATE expires_at = VALUES(expires_at)'')"

definition build_revoke_insert :: "string \<Rightarrow> string \<Rightarrow> string \<Rightarrow> string \<Rightarrow> database_driver
    \<Rightarrow> (app_error, built_query) result" where
  "build_revoke_insert table jti revoked_at expires_at d =
     (if jti = [] \<or> revoked_at = [] \<or> expires_at = [] then
        Inl (BadRequest ''JTI, revoked_at, and expires_at are required'')
      else
        Inr \<lparr> bq_sql = (if d = Sqlite then ''INSERT OR REPLACE INTO '' else ''INSERT INTO '') @ quote_identifier table d
               @ revoke_insert_tail d,
             bq_params = [JStr jti, JStr revoked_at, JStr expires_at] \<rparr>)"

section \<open>File references\<close>

definition build_file_ref_max_order :: "string \<Rightarrow> string \<Rightarrow> database_driver \<Rightarrow> built_query" where
  "build_file_ref_max_order table order_col d =
     \<lparr> bq_sql = ''SELECT COALESCE(MAX('' @ quote_identifier order_col d @ ''), 0) as max_order FROM '' @ quote_identifier table d,
       bq_params = [] \<rparr>"

definition build_file_ref_select_by_file_id :: "string \<Rightarrow> string \<Rightarrow> string \<Rightarrow> string \<Rightarrow> database_driver \<Rightarrow> built_query" where
  "build_file_ref_select_by_file_id table fid eid ctc d =
     \<lparr> bq_sql = ''SELECT '' @ quote_identifier eid d @ '', '' @ quote_identifier ctc d @ '' FROM '' @ quote_identifier table d
         @ '' WHERE '' @ quote_identifier fid d @ '' = '' @ placeholder d 1, bq_params = [] \<rparr>"

definition build_file_ref_insert :: "string \<Rightarrow> string list \<Rightarrow> database_driver \<Rightarrow> built_query" where
  "build_file_ref_insert table cols d =
     \<lparr> bq_sql = ''INSERT INTO '' @ quote_identifier table d @ '' ('' @ join '', '' (map (\<lambda>c. quote_identifier c d) cols)
         @ '') VALUES ('' @ join '', '' (map (\<lambda>i. placeholder d (1 + i)) [0 ..< length cols]) @ '')'', bq_params = [] \<rparr>"

definition file_ref_match :: "string \<Rightarrow> string \<Rightarrow> string \<Rightarrow> string \<Rightarrow> database_driver \<Rightarrow> string" where
  "file_ref_match table fid eid ctc d =
     '' FROM '' @ quote_identifier table d @ '' WHERE '' @ quote_identifier fid d @ '' = '' @ placeholder d 1
     @ '' AND '' @ quote_identifier eid d @ '' = '' @ placeholder d 2 @ '' AND '' @ quote_identifier ctc d @ '' = '' @ placeholder d 3"

definition build_file_ref_select :: "string \<Rightarrow> string \<Rightarrow> string \<Rightarrow> string \<Rightarrow> database_driver \<Rightarrow> built_query" where
  "build_file_ref_select table fid eid ctc d =
     \<lparr> bq_sql = ''SELECT *'' @ file_ref_match table fid eid ctc d, bq_params = [] \<rparr>"

definition build_file_ref_delete :: "string \<Rightarrow> string \<Rightarrow> string \<Rightarrow> string \<Rightarrow> database_driver \<Rightarrow> built_query" where
  "build_file_ref_delete table fid eid ctc d =
     \<lparr> bq_sql = ''DELETE'' @ file_ref_match table fid eid ctc d, bq_params = [] \<rparr>"

section \<open>Their markers\<close>

lemma quiet_now [simp]: "quiet d (now_expr d)"
  by (cases d) simp_all

lemma quiet_quoted_list: "list_all (quiet d) cols \<Longrightarrow> quiet d (join '', '' (map (\<lambda>c. quote_identifier c d) cols))"
  by (rule quiet_join) (auto simp: list_all_iff)

lemmas stmt_simps = marks_quiet_left marks_quiet refs_simps marks_from_Suc_left quiet_quoted_list

text \<open>How many values the caller binds to each statement whose parameters it supplies itself.\<close>

lemma caller_bound_markers:
  assumes "quiet d table" "quiet d fid" "quiet d eid" "quiet d ctc" "list_all (quiet d) cols"
  shows "marks d (bq_sql (build_select_file_path table d)) = marks_from d 1 1"
    "marks d (bq_sql (build_select_trashed_item table d)) = marks_from d 1 1"
    "marks d (bq_sql (build_select_trashed table d)) = []"
    "marks d (bq_sql (build_select_trashed_ids table d)) = []"
    "marks d (bq_sql (build_revoke_cleanup table d)) = []"
    "marks d (bq_sql (build_file_ref_max_order table fid d)) = []"
    "marks d (bq_sql (build_file_ref_select_by_file_id table fid eid ctc d)) = marks_from d 1 1"
    "marks d (bq_sql (build_file_ref_select table fid eid ctc d)) = marks_from d 1 3"
    "marks d (bq_sql (build_file_ref_delete table fid eid ctc d)) = marks_from d 1 3"
    "build_set_trashed table d = Inr q \<Longrightarrow> marks d (bq_sql q) = marks_from d 1 1"
    "build_set_restored table d = Inr q \<Longrightarrow> marks d (bq_sql q) = marks_from d 1 1"
    "build_set_file_path table p d = Inr q \<Longrightarrow> marks d (bq_sql q) = marks_from d 1 2"
    "build_select_user_for_login table d = Inr q \<Longrightarrow> marks d (bq_sql q) = marks_from d 1 1"
    "build_select_by_id table cols d = Inr q \<Longrightarrow> marks d (bq_sql q) = marks_from d 1 1"
  using assms
  by (auto simp: build_select_file_path_def build_select_trashed_item_def build_select_trashed_def build_select_trashed_ids_def
      build_revoke_cleanup_def build_file_ref_max_order_def build_file_ref_select_by_file_id_def build_file_ref_select_def
      build_file_ref_delete_def file_ref_match_def build_set_trashed_def build_set_restored_def build_set_file_path_def
      build_select_user_for_login_def build_select_by_id_def stmt_simps numeral_2_eq_2 numeral_3_eq_3 split: if_splits)

text \<open>A file reference is inserted with one marker for each column.\<close>

lemma file_ref_insert_markers:
  assumes "quiet d table" "list_all (quiet d) cols"
  shows "marks d (bq_sql (build_file_ref_insert table cols d)) = marks_from d 1 (length cols)"
proof -
  have "marks d (join '', '' (map (\<lambda>i. placeholder d (1 + i)) [0 ..< length cols]) @ '')'') = marks_from d 1 (length cols)"
  proof -
    have "concat (map (\<lambda>i. [mark_of d (Suc i)]) [0 ..< n]) = marks_from d 1 n" for n
      by (induction n) (simp_all add: marks_from_Suc)
    then show ?thesis by (simp add: marks_append marks_join comp_def marks_placeholder marks_quiet)
  qed
  then show ?thesis using assms by (simp add: build_file_ref_insert_def stmt_simps)
qed

text \<open>Every statement that binds its own parameters is well numbered.\<close>

theorem fixed_statements_well_numbered:
  assumes "quiet d table" "quiet d fld" "list_all (quiet d) cols"
  shows "\<forall>q. (build_select_by_field table cols fld v d = Inr q \<or> build_insert_user table email pw role ts d = Inr q
       \<or> q = build_table_columns table d \<or> q = build_revoke_check table d v \<or> q = build_revoke_cleanup table d
       \<or> build_revoke_insert table jti since expiry d = Inr q)
     \<longrightarrow> well_numbered d (bq_sql q) (bq_params q)"
proof (intro allI impI, elim disjE)
  fix q
  show "well_numbered d (bq_sql q) (bq_params q)" if "build_select_by_field table cols fld v d = Inr q"
    using that assms by (auto simp: build_select_by_field_def well_numbered_def stmt_simps split: if_splits)
  show "well_numbered d (bq_sql q) (bq_params q)" if "q = build_revoke_check table d v"
    using that assms by (simp add: build_revoke_check_def well_numbered_def stmt_simps)
  show "well_numbered d (bq_sql q) (bq_params q)" if "q = build_revoke_cleanup table d"
    using that assms by (simp add: build_revoke_cleanup_def well_numbered_def stmt_simps)
  show "well_numbered d (bq_sql q) (bq_params q)" if "build_insert_user table email pw role ts d = Inr q"
    using that assms
    by (cases ts) (auto simp: build_insert_user_def well_numbered_def Let_def stmt_simps numeral_2_eq_2 numeral_3_eq_3
        split: if_splits)
  show "well_numbered d (bq_sql q) (bq_params q)" if "q = build_table_columns table d"
  proof -
    have c: "marks Postgres ''SELECT column_name FROM information_schema.columns WHERE table_name = $1 ORDER BY ordinal_position'' = marks_from Postgres 1 1"
      "marks Mysql ''SELECT column_name FROM information_schema.columns WHERE table_schema = DATABASE() AND table_name = ? ORDER BY ordinal_position'' = marks_from Mysql 1 1"
      by code_simp+
    show ?thesis
      using that assms(1)
      by (cases d) (simp_all only: build_table_columns_def well_numbered_def database_driver.case built_query.simps c,
          simp_all add: marks_quiet)
  qed
  show "well_numbered d (bq_sql q) (bq_params q)" if "build_revoke_insert table jti since expiry d = Inr q"
  proof -
    have "marks d (revoke_insert_tail d) = marks_from d 1 3"
      by (cases d; hypsubst; code_simp)
    then show ?thesis
      using that assms(1)
      by (auto simp: build_revoke_insert_def well_numbered_def marks_quiet_left marks_Cons numeral_3_eq_3 split: if_splits)
  qed
qed

theorem fixed_statements_well_numbered_witness:
  "well_numbered Postgres (bq_sql (build_revoke_check ''token_blacklist'' Postgres (JStr ''j''))) [JStr ''j'']"
proof -
  have "quiet Postgres ''token_blacklist''" "quiet Postgres []" "list_all (quiet Postgres) []" by code_simp+
  from fixed_statements_well_numbered [OF this, of "JStr ''j''" "[]" "[]" "[]" False "[]" "[]" "[]"]
  have "well_numbered Postgres (bq_sql (build_revoke_check ''token_blacklist'' Postgres (JStr ''j'')))
      (bq_params (build_revoke_check ''token_blacklist'' Postgres (JStr ''j'')))" by blast
  then show ?thesis by (simp add: build_revoke_check_def)
qed

end
