(* ===== verification/Auth_Types.thy ===== *)
theory Auth_Types
  imports Rust_Std
begin

text \<open>
  The authentication configuration (src/config/types/auth.rs), the role hierarchy
  (src/config/types/mod.rs), the identity a request ends up with (src/middleware/auth/extractor.rs)
  and the part of \<open>http::HeaderMap\<close> the program uses. Header names are stored in lower case, as the
  http crate does.
\<close>

section \<open>Registration and tokens\<close>

datatype password_hash_algorithm = Argon2id

record register_config =
  reg_enabled :: bool
  reg_table :: string
  reg_database :: string
  reg_default_role :: string
  reg_password_hash :: password_hash_algorithm

definition register_config_default :: register_config where
  "register_config_default = \<lparr> reg_enabled = False, reg_table = '''', reg_database = '''', reg_default_role = ''user'',
     reg_password_hash = Argon2id \<rparr>"

datatype revocation_store_type = RevInMemory | RevDatabase

record jwt_revocation_config =
  rev_store :: revocation_store_type
  rev_db_table :: "string option"
  rev_cleanup_interval_secs :: "nat option"

definition jwt_revocation_config_default :: jwt_revocation_config where
  "jwt_revocation_config_default = \<lparr> rev_store = RevInMemory, rev_db_table = Some ''token_blacklist'',
     rev_cleanup_interval_secs = Some 3600 \<rparr>"

datatype jwt_algorithm = HS256 | HS384 | HS512 | RS256 | RS384 | RS512 | ES256 | ES384

record jwt_config =
  jwt_secret :: string
  jwt_algorithm :: jwt_algorithm
  jwt_issuer :: string
  jwt_audience :: string
  jwt_expiry :: int
  jwt_role_claim :: string
  jwt_revocation :: "jwt_revocation_config option"

definition jwt_config_default :: jwt_config where
  "jwt_config_default = \<lparr> jwt_secret = '''', jwt_algorithm = HS256, jwt_issuer = ''main-serve'', jwt_audience = '''',
     jwt_expiry = 3600, jwt_role_claim = ''role'', jwt_revocation = None \<rparr>"

section \<open>API keys and Basic authentication\<close>

datatype api_key_location = KeyInHeader | KeyInQuery

record api_key_entry =
  ake_key :: string
  ake_role :: "string option"

record api_key_config =
  ak_location :: api_key_location
  ak_name :: string
  ak_keys :: "api_key_entry list"

definition api_key_config_default :: api_key_config where
  "api_key_config_default = \<lparr> ak_location = KeyInHeader, ak_name = ''X-API-Key'', ak_keys = [] \<rparr>"

record basic_auth_user =
  bau_username :: string
  bau_password_hash :: string
  bau_role :: "string option"

record basic_auth_config =
  ba_realm :: string
  ba_users :: "basic_auth_user list"

definition basic_auth_config_default :: basic_auth_config where
  "basic_auth_config_default = \<lparr> ba_realm = ''main-serve'', ba_users = [] \<rparr>"

section \<open>OAuth2\<close>

datatype role_match_mode = MatchExact | MatchContains

record role_mapping_config =
  rm_default_role :: string
  rm_role_claim :: string
  rm_role_map :: "(string, string) entries"
  rm_match_mode :: role_match_mode

definition role_mapping_config_default :: role_mapping_config where
  "role_mapping_config_default = \<lparr> rm_default_role = ''user'', rm_role_claim = ''groups'', rm_role_map = [],
     rm_match_mode = MatchExact \<rparr>"

record oauth2_config =
  oa_provider :: string
  oa_authorization_url :: string
  oa_token_url :: string
  oa_userinfo_url :: string
  oa_client_id :: string
  oa_client_secret :: string
  oa_scopes :: "string list"
  oa_redirect_url :: string
  oa_success_url :: string
  oa_cookie_name :: string
  oa_state_ttl :: int
  oa_max_pending_states :: nat
  oa_role_mapping :: "role_mapping_config option"

definition oauth2_config_default :: oauth2_config where
  "oauth2_config_default = \<lparr> oa_provider = ''generic'', oa_authorization_url = '''', oa_token_url = '''',
     oa_userinfo_url = '''', oa_client_id = '''', oa_client_secret = '''', oa_scopes = [''openid''],
     oa_redirect_url = '''', oa_success_url = ''/'', oa_cookie_name = ''main_serve_token'', oa_state_ttl = 300,
     oa_max_pending_states = 1000, oa_role_mapping = None \<rparr>"

record auth_config =
  au_jwt :: "jwt_config option"
  au_api_key :: "api_key_config option"
  au_basic :: "basic_auth_config option"
  au_oauth2 :: "oauth2_config option"
  au_register :: "register_config option"

section \<open>Roles and identities\<close>

text \<open>\<open>RoleHierarchy.roles\<close>: each role with the roles it inherits from, in iteration order.\<close>

type_synonym role_hierarchy = "(string, string list) entries"

record auth_info =
  ai_subject :: string
  ai_email :: "string option"
  ai_role :: "string option"
  ai_token :: "string option"

definition auth_info_anonymous :: auth_info where
  "auth_info_anonymous = \<lparr> ai_subject = '''', ai_email = None, ai_role = None, ai_token = None \<rparr>"

section \<open>Headers\<close>

type_synonym header_map = "(string \<times> string) list"

definition header_get :: "string \<Rightarrow> header_map \<Rightarrow> string option" where
  "header_get name hs = map_of hs (lowercase name)"

text \<open>\<open>HeaderValue::to_str\<close>: visible ASCII, space and tab only.\<close>

definition header_to_str :: "string \<Rightarrow> string option" where
  "header_to_str v = (if list_all (\<lambda>c. (32 \<le> ccode c \<and> ccode c < 127) \<or> ccode c = 9) v then Some v else None)"

definition header_str :: "string \<Rightarrow> header_map \<Rightarrow> string option" where
  "header_str name hs = (case header_get name hs of None \<Rightarrow> None | Some v \<Rightarrow> header_to_str v)"

section \<open>Instants\<close>

text \<open>Instants are nanoseconds since some origin; \<open>Instant::duration_since\<close> and \<open>Instant::elapsed\<close> saturate at zero.\<close>

definition elapsed :: "int \<Rightarrow> int \<Rightarrow> int" where
  "elapsed now start = max 0 (now - start)"

abbreviation nanos :: int where
  "nanos \<equiv> 1000000000"

end
