(* ===== verification/Roles.thy ===== *)
theory Roles
  imports Auth_Types App_Error
begin

text \<open>
  Roles: the transitive closure of the configured hierarchy (src/server/state.rs,
  \<open>compute_role_inheritance\<close>), the cycle check of the configuration
  (src/config/validation/auth.rs, \<open>validate_role_hierarchy\<close>, \<open>dfs_detect_cycle\<close>) and the test an
  authenticated request has to pass (src/middleware/auth/validate.rs, \<open>check_roles\<close>). The reference
  is the parent relation of the hierarchy and its transitive closure.
\<close>

section \<open>The parent relation\<close>

definition parents_of :: "role_hierarchy \<Rightarrow> string \<Rightarrow> string list" where
  "parents_of roles r = (case map_of roles r of Some ps \<Rightarrow> ps | None \<Rightarrow> [])"

definition parent_rel :: "role_hierarchy \<Rightarrow> (string \<times> string) set" where
  "parent_rel roles = {(r, p). p \<in> set (parents_of roles r)}"

definition all_parents :: "role_hierarchy \<Rightarrow> string set" where
  "all_parents roles = (\<Union>(r, ps) \<in> set roles. set ps)"

lemma finite_all_parents [simp]: "finite (all_parents roles)"
  by (auto simp: all_parents_def)

lemma parents_of_all: "set (parents_of roles r) \<subseteq> all_parents roles"
  by (auto simp: parents_of_def all_parents_def split: option.splits intro!: bexI [where x = "(r, the (map_of roles r))"]
      dest: map_of_SomeD [OF sym])

lemma parent_rel_iff [simp]: "(r, p) \<in> parent_rel roles \<longleftrightarrow> p \<in> set (parents_of roles r)"
  by (simp add: parent_rel_def)

section \<open>The closure\<close>

lemma card_less_when_removed:
  "finite B \<Longrightarrow> A \<subseteq> B \<Longrightarrow> x \<in> B \<Longrightarrow> x \<notin> A \<Longrightarrow> card A < card B"
  by (metis psubsetI psubset_card_mono)

text \<open>The work stack is a vector popped and pushed at its end; the head of the list is its top.\<close>

function role_bfs :: "role_hierarchy \<Rightarrow> string list \<Rightarrow> string set \<Rightarrow> string set" where
  "role_bfs roles [] inherited = inherited"
| "role_bfs roles (parent # stack) inherited =
     (if parent \<in> inherited then role_bfs roles stack inherited
      else (case map_of roles parent of
              Some pps \<Rightarrow> role_bfs roles (rev pps @ stack) (insert parent inherited)
            | None \<Rightarrow> role_bfs roles stack (insert parent inherited)))"
  by pat_completeness auto

termination
proof (relation "measures [\<lambda>(roles, stack, inherited). card ((all_parents roles \<union> set stack) - inherited), \<lambda>(roles, stack, inherited). length stack]")
  fix roles and parent :: string and stack inherited
  assume "parent \<in> inherited"
  then have "(all_parents roles \<union> set (parent # stack)) - inherited = (all_parents roles \<union> set stack) - inherited"
    by auto
  then show "((roles, stack, inherited), roles, parent # stack, inherited) \<in> measures
      [\<lambda>(roles, stack, inherited). card (all_parents roles \<union> set stack - inherited), \<lambda>(roles, stack, inherited). length stack]"
    by simp
next
  fix roles :: role_hierarchy and parent :: string and stack inherited pps
  assume p: "parent \<notin> inherited" "map_of roles parent = Some pps"
  then have "set pps \<subseteq> all_parents roles"
    using parents_of_all [of roles parent] by (simp add: parents_of_def)
  with p have "card ((all_parents roles \<union> set (rev pps @ stack)) - insert parent inherited)
      < card ((all_parents roles \<union> set (parent # stack)) - inherited)"
    by (intro card_less_when_removed [where x = parent]) auto
  then show "((roles, rev pps @ stack, insert parent inherited), roles, parent # stack, inherited) \<in> measures
      [\<lambda>(roles, stack, inherited). card (all_parents roles \<union> set stack - inherited), \<lambda>(roles, stack, inherited). length stack]"
    by simp
next
  fix roles :: role_hierarchy and parent :: string and stack inherited
  assume p: "parent \<notin> inherited"
  then have "card ((all_parents roles \<union> set stack) - insert parent inherited)
      < card ((all_parents roles \<union> set (parent # stack)) - inherited)"
    by (intro card_less_when_removed [where x = parent]) auto
  then show "((roles, stack, insert parent inherited), roles, parent # stack, inherited) \<in> measures
      [\<lambda>(roles, stack, inherited). card (all_parents roles \<union> set stack - inherited), \<lambda>(roles, stack, inherited). length stack]"
    by simp
qed simp

definition compute_role_inheritance :: "role_hierarchy option \<Rightarrow> (string, string set) entries" where
  "compute_role_inheritance role_hierarchy =
     (case role_hierarchy of
        None \<Rightarrow> []
      | Some roles \<Rightarrow> map (\<lambda>(role, _). (role, role_bfs roles (rev (parents_of roles role)) {})) roles)"

lemma role_bfs_grows: "inherited \<union> set stack \<subseteq> role_bfs roles stack inherited"
  by (induction roles stack inherited rule: role_bfs.induct) (auto split: option.splits)

lemma role_bfs_sound: "role_bfs roles stack inherited \<subseteq> inherited \<union> (parent_rel roles)\<^sup>* `` set stack"
proof (induction roles stack inherited rule: role_bfs.induct)
  case (2 roles parent stack inherited)
  show ?case
  proof (cases "parent \<in> inherited")
    case True
    with "2.IH"(1) show ?thesis by auto
  next
    case False
    have step: "(parent_rel roles)\<^sup>* `` set (parents_of roles parent) \<subseteq> (parent_rel roles)\<^sup>* `` {parent}"
      by (auto intro: converse_rtrancl_into_rtrancl)
    show ?thesis
    proof (cases "map_of roles parent")
      case None
      with "2.IH"(2) [OF False None] False None show ?thesis by (auto simp: Image_def)
    next
      case (Some pps)
      then have "parents_of roles parent = pps" by (simp add: parents_of_def)
      with "2.IH"(3) [OF False Some] step Some False show ?thesis by auto
    qed
  qed
qed simp

definition closed_upto :: "role_hierarchy \<Rightarrow> string set \<Rightarrow> string set \<Rightarrow> bool" where
  "closed_upto roles S T = (\<forall>x \<in> S. set (parents_of roles x) \<subseteq> T)"

lemma role_bfs_closed:
  assumes "closed_upto roles inherited (inherited \<union> set stack)"
  shows "closed_upto roles (role_bfs roles stack inherited) (role_bfs roles stack inherited)"
  using assms
proof (induction roles stack inherited rule: role_bfs.induct)
  case (2 roles parent stack inherited)
  show ?case
  proof (cases "parent \<in> inherited")
    case True
    with "2.prems" have "closed_upto roles inherited (inherited \<union> set stack)"
      by (simp add: closed_upto_def insert_absorb)
    with "2.IH"(1) [OF True] True show ?thesis by simp
  next
    case False
    show ?thesis
    proof (cases "map_of roles parent")
      case None
      then have "parents_of roles parent = []" by (simp add: parents_of_def)
      with "2.prems" have "closed_upto roles (insert parent inherited) (insert parent inherited \<union> set stack)"
        by (simp add: closed_upto_def)
      with "2.IH"(2) [OF False None] False None show ?thesis by simp
    next
      case (Some pps)
      then have "parents_of roles parent = pps" by (simp add: parents_of_def)
      with "2.prems" have "closed_upto roles (insert parent inherited) (insert parent inherited \<union> set (rev pps @ stack))"
        by (auto simp: closed_upto_def)
      with "2.IH"(3) [OF False Some] False Some show ?thesis by simp
    qed
  qed
qed (simp add: closed_upto_def)

lemma role_bfs_exact: "role_bfs roles stack {} = (parent_rel roles)\<^sup>* `` set stack"
proof
  show "role_bfs roles stack {} \<subseteq> (parent_rel roles)\<^sup>* `` set stack"
    using role_bfs_sound [of roles stack "{}"] by simp
  show "(parent_rel roles)\<^sup>* `` set stack \<subseteq> role_bfs roles stack {}"
  proof
    fix y assume "y \<in> (parent_rel roles)\<^sup>* `` set stack"
    then obtain s where "(s, y) \<in> (parent_rel roles)\<^sup>*" "s \<in> set stack" by auto
    then show "y \<in> role_bfs roles stack {}"
    proof (induction rule: rtrancl_induct)
      case base
      with role_bfs_grows [of "{}" stack roles] show ?case by auto
    next
      case (step u v)
      then show ?case using role_bfs_closed [of roles "{}" stack] by (auto simp: closed_upto_def)
    qed
  qed
qed

lemma inheritance_lookup:
  "map_of (compute_role_inheritance (Some roles)) r
   = (if r \<in> fst ` set roles then Some ((parent_rel roles)\<^sup>+ `` {r}) else None)"
proof -
  have "map_of (map (\<lambda>(role, _). (role, f role)) xs) r = (if r \<in> fst ` set xs then Some (f r) else None)"
    for f :: "string \<Rightarrow> string set" and xs :: role_hierarchy
    by (induction xs) auto
  moreover have "(parent_rel roles)\<^sup>* `` set (parents_of roles r) = (parent_rel roles)\<^sup>+ `` {r}"
    by (auto simp: trancl_unfold_left)
  ultimately show ?thesis
    by (simp add: compute_role_inheritance_def role_bfs_exact)
qed

section \<open>The test of a request\<close>

definition check_roles :: "auth_info \<Rightarrow> string list \<Rightarrow> (string, string set) entries \<Rightarrow> (app_error, unit) result" where
  "check_roles ai required inheritance =
     (if required = [] then Inr ()
      else case ai_role ai of
             None \<Rightarrow> Inl (Forbidden ''No role assigned, but this endpoint requires one'')
           | Some user_role \<Rightarrow>
               if user_role \<in> set required then Inr ()
               else if (case map_of inheritance user_role of
                          Some inherited \<Rightarrow> list_ex (\<lambda>r. r \<in> inherited) required
                        | None \<Rightarrow> False) then Inr ()
               else Inl (Forbidden (''Role '' @ [quote_char] @ user_role @ [quote_char]
                      @ '' is not authorized for this endpoint'')))"

lemma parents_only_defined: "r \<notin> fst ` set roles \<Longrightarrow> (parent_rel roles)\<^sup>+ `` {r} = {}"
proof -
  assume "r \<notin> fst ` set roles"
  then have "map_of roles r = None" by (simp add: map_of_eq_None_iff)
  then have "(r, y) \<notin> parent_rel roles" for y by (simp add: parents_of_def)
  then show ?thesis by (auto dest: tranclD)
qed

lemma check_roles_reach:
  "check_roles ai required (compute_role_inheritance h) = Inr () \<longleftrightarrow>
     required = [] \<or>
     (\<exists>r. ai_role ai = Some r \<and>
        (\<exists>q \<in> set required. (r, q) \<in> (case h of None \<Rightarrow> {} | Some roles \<Rightarrow> parent_rel roles)\<^sup>*))"
proof (cases h)
  case None
  then show ?thesis
    by (auto simp: check_roles_def compute_role_inheritance_def split: option.splits)
next
  case (Some roles)
  have reach: "(r, q) \<in> (parent_rel roles)\<^sup>* \<longleftrightarrow> r = q \<or> (r, q) \<in> (parent_rel roles)\<^sup>+" for r q
    by (auto simp: rtrancl_eq_or_trancl)
  have "(case map_of (compute_role_inheritance h) r of Some inherited \<Rightarrow> list_ex (\<lambda>q. q \<in> inherited) required | None \<Rightarrow> False)
      \<longleftrightarrow> (\<exists>q \<in> set required. (r, q) \<in> (parent_rel roles)\<^sup>+)" for r
    using parents_only_defined [of r roles] by (auto simp: Some inheritance_lookup list_ex_iff)
  then show ?thesis
    by (auto simp: check_roles_def reach Some split: option.splits)
qed

text \<open>C10: with the closure computed from the configured hierarchy, a request passes exactly when the
  endpoint asks for no role, or the user's role is asked for, or it inherits one that is along any
  chain of the hierarchy, however long.\<close>

theorem check_roles_iff:
  "check_roles ai required (compute_role_inheritance h) = Inr () \<longleftrightarrow>
     required = [] \<or>
     (\<exists>r. ai_role ai = Some r \<and>
        (\<exists>q \<in> set required. (r, q) \<in> (case h of None \<Rightarrow> {} | Some roles \<Rightarrow> parent_rel roles)\<^sup>*))"
  by (rule check_roles_reach)

text \<open>Without a role hierarchy only the role itself counts; every failure is a Forbidden error.\<close>

lemma check_roles_error: "check_roles ai required inh = Inl e \<Longrightarrow> \<exists>m. e = Forbidden m"
  by (auto simp: check_roles_def split: option.splits if_splits)

section \<open>Cycle detection\<close>

text \<open>
  \<open>dfs_detect_cycle\<close> and the loop over the parents of one role. The visiting states are 0, 1 and 2 as
  in the code; a role that was never recorded counts as 0. The first argument bounds the depth of the
  recursion, \<open>None\<close> means it was exhausted; \<open>dfs_fuel\<close> is enough (\<open>dfs_total\<close>).
\<close>

type_synonym visit_state = "string \<Rightarrow> nat"

function (sequential) dfs_detect_cycle :: "nat \<Rightarrow> role_hierarchy \<Rightarrow> string \<Rightarrow> visit_state \<Rightarrow> (string option \<times> visit_state) option"
  and dfs_parents :: "nat \<Rightarrow> role_hierarchy \<Rightarrow> string \<Rightarrow> string list \<Rightarrow> visit_state \<Rightarrow> (string option \<times> visit_state) option"
where
  "dfs_detect_cycle 0 roles role st = None"
| "dfs_detect_cycle (Suc n) roles role st =
     (case dfs_parents n roles role (parents_of roles role) (st(role := 1)) of
        None \<Rightarrow> None
      | Some (Some c, st') \<Rightarrow> Some (Some c, st')
      | Some (None, st') \<Rightarrow> Some (None, st'(role := 2)))"
| "dfs_parents n roles role [] st = Some (None, st)"
| "dfs_parents n roles role (parent # ps) st =
     (if st parent = 0 then
        (case dfs_detect_cycle n roles parent st of
           None \<Rightarrow> None
         | Some (Some c, st') \<Rightarrow> Some (Some (role @ '' -> '' @ parent @ '' -> '' @ c), st')
         | Some (None, st') \<Rightarrow> dfs_parents n roles role ps st')
      else if st parent = 1 then Some (Some (role @ '' -> '' @ parent), st)
      else dfs_parents n roles role ps st)"
  by pat_completeness auto
termination
  by (relation "inv_image (less_than <*lex*> less_than) (\<lambda>x. case x of Inl (n, roles, role, st) \<Rightarrow> (n, 0 :: nat)
       | Inr (n, roles, role, ps, st) \<Rightarrow> (n, Suc (length ps)))") auto

definition dfs_fuel :: "role_hierarchy \<Rightarrow> nat" where
  "dfs_fuel roles = Suc (sum_list (map (\<lambda>(r, ps). Suc (length ps)) roles))"

fun validate_cycles :: "role_hierarchy \<Rightarrow> string list \<Rightarrow> visit_state \<Rightarrow> string list \<Rightarrow> string list option" where
  "validate_cycles roles [] st errors = Some errors"
| "validate_cycles roles (role # rs) st errors =
     (if st role = 0 then
        (case dfs_detect_cycle (dfs_fuel roles) roles role st of
           None \<Rightarrow> None
         | Some (Some path, st') \<Rightarrow> validate_cycles roles rs st' (errors @ [''role_hierarchy: cycle detected: '' @ path])
         | Some (None, st') \<Rightarrow> validate_cycles roles rs st' errors)
      else validate_cycles roles rs st errors)"

definition self_loop_errors :: "role_hierarchy \<Rightarrow> string list" where
  "self_loop_errors roles =
     map (\<lambda>(role, _). ''role_hierarchy.'' @ role @ '': role cannot list itself as a parent'')
       (filter (\<lambda>(role, ps). role \<in> set ps) roles)"

definition validate_role_hierarchy :: "role_hierarchy option \<Rightarrow> string list \<Rightarrow> string list option" where
  "validate_role_hierarchy role_hierarchy errors =
     (case role_hierarchy of
        None \<Rightarrow> Some errors
      | Some roles \<Rightarrow> validate_cycles roles (map fst roles) (\<lambda>_. 0) (errors @ self_loop_errors roles))"

subsection \<open>The search always returns\<close>

definition role_nodes :: "role_hierarchy \<Rightarrow> string set" where
  "role_nodes roles = fst ` set roles \<union> all_parents roles"

definition unvisited :: "role_hierarchy \<Rightarrow> visit_state \<Rightarrow> string set" where
  "unvisited roles st = {x \<in> role_nodes roles. st x = 0}"

lemma finite_role_nodes [simp]: "finite (role_nodes roles)"
  by (simp add: role_nodes_def)

lemma finite_unvisited [simp]: "finite (unvisited roles st)"
  by (simp add: unvisited_def)

lemma parents_are_nodes: "set (parents_of roles r) \<subseteq> role_nodes roles"
  using parents_of_all by (auto simp: role_nodes_def)

lemma unvisited_visit: "st role = 0 \<Longrightarrow> role \<in> role_nodes roles \<Longrightarrow> card (unvisited roles st) < Suc n
    \<Longrightarrow> card (unvisited roles (st(role := Suc 0))) < n"
  by (rule less_le_trans [OF card_less_when_removed [where B = "unvisited roles st" and x = role]])
    (auto simp: unvisited_def)

lemma unvisited_mono: "unvisited roles st' \<subseteq> unvisited roles (st(role := Suc 0)) \<Longrightarrow> st role = 0
    \<Longrightarrow> unvisited roles (st'(role := Suc m)) \<subseteq> unvisited roles st"
  by (auto simp: unvisited_def split: if_splits)

lemma dfs_total:
  "st role = 0 \<Longrightarrow> role \<in> role_nodes roles \<Longrightarrow> card (unvisited roles st) < n \<Longrightarrow>
     \<exists>c st'. dfs_detect_cycle n roles role st = Some (c, st') \<and> unvisited roles st' \<subseteq> unvisited roles st"
  "set ps \<subseteq> role_nodes roles \<Longrightarrow> card (unvisited roles st) < n \<Longrightarrow>
     \<exists>c st'. dfs_parents n roles role ps st = Some (c, st') \<and> unvisited roles st' \<subseteq> unvisited roles st"
proof (induction n roles role st and n roles role ps st rule: dfs_detect_cycle_dfs_parents.induct)
  case (2 n roles role st)
  then obtain c st' where r: "dfs_parents n roles role (parents_of roles role) (st(role := 1)) = Some (c, st')"
    "unvisited roles st' \<subseteq> unvisited roles (st(role := Suc 0))"
    using parents_are_nodes unvisited_visit by fastforce
  then have "unvisited roles st' \<subseteq> unvisited roles st" "unvisited roles (st'(role := 2)) \<subseteq> unvisited roles st"
    using unvisited_mono [OF r(2), of 1] "2.prems"(1) by (auto simp: unvisited_def numeral_2_eq_2 split: if_splits)
  with r(1) show ?case by (cases c) auto
next
  case (4 n roles role parent ps st)
  show ?case
  proof (cases "st parent = 0")
    case True
    with 4 obtain c st' where r: "dfs_detect_cycle n roles parent st = Some (c, st')" "unvisited roles st' \<subseteq> unvisited roles st"
      by auto
    show ?thesis
    proof (cases c)
      case None
      have "card (unvisited roles st') < n"
        using card_mono [OF finite_unvisited r(2)] "4.prems" by linarith
      with "4.IH"(2) [OF True r(1)] None r "4.prems" True show ?thesis by fastforce
    next
      case (Some p)
      with r True show ?thesis by simp
    qed
  next
    case False
    with 4 show ?thesis by auto
  qed
qed auto

subsection \<open>What it finds\<close>

definition black_rel :: "role_hierarchy \<Rightarrow> visit_state \<Rightarrow> (string \<times> string) set" where
  "black_rel roles st = {(x, p). st x = 2 \<and> (x, p) \<in> parent_rel roles}"

definition search_ok :: "role_hierarchy \<Rightarrow> visit_state \<Rightarrow> bool" where
  "search_ok roles st = ((\<forall>x. st x \<le> 2) \<and> (\<forall>x p. (x, p) \<in> black_rel roles st \<longrightarrow> st p = 2) \<and> acyclic (black_rel roles st))"

definition advances :: "visit_state \<Rightarrow> visit_state \<Rightarrow> bool" where
  "advances st st' = (\<forall>x. (st x = 2 \<longrightarrow> st' x = 2) \<and> (st' x = 1 \<longleftrightarrow> st x = 1))"

lemma advances_refl [simp]: "advances st st"
  by (simp add: advances_def)

lemma advances_trans: "advances s t \<Longrightarrow> advances t u \<Longrightarrow> advances s u"
  by (simp add: advances_def)

lemma black_rel_enter: "st role \<noteq> 2 \<Longrightarrow> black_rel roles (st(role := 1)) = black_rel roles st"
  by (auto simp: black_rel_def split: if_splits)

lemma search_ok_black: "search_ok roles st \<Longrightarrow> st x \<noteq> 0 \<Longrightarrow> st x \<noteq> 1 \<Longrightarrow> st x = 2"
  by (drule search_ok_def [THEN iffD1], drule conjunct1, drule spec [of _ x]) arith

lemma search_ok_enter: "search_ok roles st \<Longrightarrow> st role = 0 \<Longrightarrow> search_ok roles (st(role := Suc 0))"
  using black_rel_enter [of st role roles] by (auto simp: search_ok_def black_rel_def)

lemma acyclic_extend:
  assumes "acyclic R" "\<And>x y. (x, y) \<in> R \<Longrightarrow> y \<noteq> a" "a \<notin> P"
  shows "acyclic (R \<union> {a} \<times> P)"
proof -
  have no: "(x, a) \<notin> (R \<union> {a} \<times> P)\<^sup>+" for x
  proof
    assume "(x, a) \<in> (R \<union> {a} \<times> P)\<^sup>+"
    then obtain y where "(y, a) \<in> R \<union> {a} \<times> P" by (blast dest: tranclD2)
    with assms(2,3) show False by auto
  qed
  have "(x, y) \<in> R\<^sup>+" if "(x, y) \<in> (R \<union> {a} \<times> P)\<^sup>+" "x \<noteq> a" for x y
    using that
  proof (induction rule: trancl_induct)
    case (step y z)
    then have "y \<noteq> a" using no by auto
    with step show ?case by (auto intro: trancl_into_trancl)
  qed auto
  with no assms(1) show ?thesis by (metis acyclic_def)
qed

lemma search_ok_leave:
  assumes "search_ok roles st" "st role = 1" "\<And>p. p \<in> set (parents_of roles role) \<Longrightarrow> st p = 2"
  shows "search_ok roles (st(role := 2))"
proof -
  have rel: "black_rel roles (st(role := 2)) = black_rel roles st \<union> {role} \<times> set (parents_of roles role)"
    using assms(2) by (auto simp: black_rel_def split: if_splits)
  have "acyclic (black_rel roles st \<union> {role} \<times> set (parents_of roles role))"
    using assms by (intro acyclic_extend) (auto simp: search_ok_def)
  with rel assms show ?thesis
    by (auto simp: search_ok_def)
qed

lemma dfs_none:
  "dfs_detect_cycle n roles role st = Some (None, st') \<Longrightarrow> search_ok roles st \<Longrightarrow> st role = 0 \<Longrightarrow>
     search_ok roles st' \<and> st' role = 2 \<and> advances st st'"
  "dfs_parents n roles role ps st = Some (None, st') \<Longrightarrow> search_ok roles st \<Longrightarrow>
     search_ok roles st' \<and> (\<forall>p \<in> set ps. st' p = 2) \<and> advances st st'"
proof (induction n roles role st and n roles role ps st arbitrary: st' and st' rule: dfs_detect_cycle_dfs_parents.induct)
  case (2 n roles role st)
  then obtain st1 where r: "dfs_parents n roles role (parents_of roles role) (st(role := 1)) = Some (None, st1)"
    and st': "st' = st1(role := 2)"
    by (auto split: option.splits)
  have e: "search_ok roles (st(role := 1))"
    using search_ok_enter "2.prems"(2,3) by simp
  from "2.IH" [OF r e]
  have a: "search_ok roles st1" "\<forall>p \<in> set (parents_of roles role). st1 p = 2" "advances (st(role := 1)) st1"
    by blast+
  from a(3) have "st1 role = 1" by (simp add: advances_def)
  with search_ok_leave a(1,2) have "search_ok roles st'" by (simp add: st')
  moreover have "advances st st'"
    using a(3) "2.prems"(3) by (auto simp: advances_def st')
  moreover have "st' role = 2" by (simp add: st')
  ultimately show ?case by blast
next
  case (4 n roles role parent ps st)
  show ?case
  proof (cases "st parent = 0")
    case True
    with "4.prems"(1) obtain st1 where r: "dfs_detect_cycle n roles parent st = Some (None, st1)"
      "dfs_parents n roles role ps st1 = Some (None, st')"
      by (auto split: option.splits)
    with "4.IH"(1) [OF True r(1)] "4.IH"(2) [OF True r(1)] "4.prems"(2) True
    show ?thesis by (auto intro: advances_trans simp: advances_def)
  next
    case False
    with "4.prems" have s: "st parent \<noteq> 1" "dfs_parents n roles role ps st = Some (None, st')"
      by (auto split: if_splits)
    moreover from search_ok_black [OF "4.prems"(2) False s(1)] have "st parent = 2" .
    ultimately show ?thesis
      using "4.IH"(3) [OF False] "4.prems"(2) by (auto simp: advances_def)
  qed
qed auto

lemma dfs_cycle:
  "dfs_detect_cycle n roles role st = Some (Some c, st') \<Longrightarrow> search_ok roles st \<Longrightarrow> st role = 0 \<Longrightarrow>
     (\<And>g. st g = 1 \<Longrightarrow> (g, role) \<in> (parent_rel roles)\<^sup>*) \<Longrightarrow> \<not> acyclic (parent_rel roles)"
  "dfs_parents n roles role ps st = Some (Some c, st') \<Longrightarrow> search_ok roles st \<Longrightarrow> set ps \<subseteq> set (parents_of roles role) \<Longrightarrow>
     (\<And>g. st g = 1 \<Longrightarrow> (g, role) \<in> (parent_rel roles)\<^sup>*) \<Longrightarrow> \<not> acyclic (parent_rel roles)"
proof (induction n roles role st and n roles role ps st arbitrary: c st' and c st' rule: dfs_detect_cycle_dfs_parents.induct)
  case (2 n roles role st)
  then obtain c' st1 where r: "dfs_parents n roles role (parents_of roles role) (st(role := 1)) = Some (Some c', st1)"
    by (auto split: option.splits)
  have "search_ok roles (st(role := 1))"
    using search_ok_enter "2.prems"(2,3) by simp
  moreover have "(g, role) \<in> (parent_rel roles)\<^sup>*" if "(st(role := 1)) g = 1" for g
    using that "2.prems"(4) by (cases "g = role") auto
  ultimately show ?case
    using "2.IH" [OF r] by blast
next
  case (4 n roles role parent ps st)
  have edge: "(role, parent) \<in> parent_rel roles" using "4.prems"(3) by simp
  show ?case
  proof (cases "st parent = 0")
    case True
    with "4.prems"(1) obtain c1 st1 where r: "dfs_detect_cycle n roles parent st = Some (c1, st1)"
      by (auto split: option.splits)
    show ?thesis
    proof (cases c1)
      case None
      with "4.prems"(1) True r have r2: "dfs_parents n roles role ps st1 = Some (Some c, st')" by simp
      from dfs_none(1) [OF r [unfolded None] "4.prems"(2) True]
      have st1: "search_ok roles st1" "advances st st1" by blast+
      then have "(g, role) \<in> (parent_rel roles)\<^sup>*" if "st1 g = 1" for g
        using that "4.prems"(4) by (simp add: advances_def)
      with "4.IH"(2) [OF True r [unfolded None] refl refl r2 st1(1)] "4.prems"(3) show ?thesis by auto
    next
      case (Some p)
      have "(g, parent) \<in> (parent_rel roles)\<^sup>*" if "st g = 1" for g
        using that "4.prems"(4) edge by (meson rtrancl.rtrancl_into_rtrancl)
      with "4.IH"(1) [OF True r [unfolded Some] "4.prems"(2) True] show ?thesis by blast
    qed
  next
    case False
    show ?thesis
    proof (cases "st parent = 1")
      case True
      then have "(parent, role) \<in> (parent_rel roles)\<^sup>*" using "4.prems"(4) by blast
      with edge have "(role, role) \<in> (parent_rel roles)\<^sup>+" by (rule rtrancl_into_trancl2)
      then show ?thesis by (auto simp: acyclic_def)
    next
      case gray: False
      with False "4.prems"(1) have "dfs_parents n roles role ps st = Some (Some c, st')" by simp
      with "4.IH"(3) [OF False gray] "4.prems" show ?thesis by auto
    qed
  qed
qed auto

subsection \<open>The verdict\<close>

lemma dfs_fuel_enough: "card (unvisited roles st) < dfs_fuel roles"
proof -
  have "card (role_nodes roles) \<le> sum_list (map (\<lambda>(r, ps). Suc (length ps)) roles)"
  proof (induction roles)
    case (Cons e roles)
    obtain r ps where e: "e = (r, ps)" by (cases e) auto
    have "role_nodes (e # roles) \<subseteq> set (r # ps) \<union> role_nodes roles"
      by (auto simp: role_nodes_def all_parents_def e)
    then have "card (role_nodes (e # roles)) \<le> card (set (r # ps)) + card (role_nodes roles)"
      by (meson card_Un_le card_mono finite_UnI finite_role_nodes finite_set le_trans)
    moreover have "card (set (r # ps)) \<le> Suc (length ps)"
      using card_length [of "r # ps"] by simp
    ultimately show ?case using Cons.IH by (simp add: e)
  qed (simp add: role_nodes_def all_parents_def)
  moreover have "card (unvisited roles st) \<le> card (role_nodes roles)"
    by (rule card_mono) (auto simp: unvisited_def)
  ultimately show ?thesis by (simp add: dfs_fuel_def)
qed

lemma dfs_returns:
  "st role = 0 \<Longrightarrow> role \<in> role_nodes roles \<Longrightarrow> \<exists>c st'. dfs_detect_cycle (dfs_fuel roles) roles role st = Some (c, st')"
  using dfs_total(1) [of st role roles "dfs_fuel roles"] dfs_fuel_enough by blast

lemma validate_cycles_total:
  "set rs \<subseteq> role_nodes roles \<Longrightarrow> \<exists>es. validate_cycles roles rs st errors = Some (errors @ es)"
proof (induction roles rs st errors rule: validate_cycles.induct)
  case (2 roles role rs st errors)
  show ?case
  proof (cases "st role = 0")
    case True
    with dfs_returns [of st role roles] "2.prems"
    obtain c st' where r: "dfs_detect_cycle (dfs_fuel roles) roles role st = Some (c, st')" by auto
    show ?thesis
    proof (cases c)
      case None
      with True r "2.IH"(1) [OF True r refl None] "2.prems" show ?thesis by simp
    next
      case (Some p)
      with True r "2.IH"(2) [OF True r refl Some] "2.prems" show ?thesis by auto
    qed
  next
    case False
    with 2 show ?thesis by simp
  qed
qed simp

lemma validate_cycles_silent:
  assumes "validate_cycles roles rs st errors = Some errors" "search_ok roles st" "\<And>x. st x \<noteq> 1" "set rs \<subseteq> role_nodes roles"
  shows "\<exists>st'. search_ok roles st' \<and> advances st st' \<and> (\<forall>r \<in> set rs. st' r = 2)"
  using assms
proof (induction roles rs st errors rule: validate_cycles.induct)
  case (2 roles role rs st errors)
  show ?case
  proof (cases "st role = 0")
    case True
    with dfs_returns [of st role roles] "2.prems"
    obtain c st1 where r: "dfs_detect_cycle (dfs_fuel roles) roles role st = Some (c, st1)" by auto
    have c: "c = None"
    proof (rule ccontr)
      assume "c \<noteq> None"
      then obtain p where "c = Some p" by auto
      with "2.prems"(1) True r have "validate_cycles roles rs st1 (errors @ [''role_hierarchy: cycle detected: '' @ p]) = Some errors"
        by simp
      with validate_cycles_total [of rs roles st1 "errors @ [''role_hierarchy: cycle detected: '' @ p]"] "2.prems"(4)
      show False by auto
    qed
    from dfs_none(1) [OF r [unfolded c] "2.prems"(2) True]
    have st1: "search_ok roles st1" "st1 role = 2" "advances st st1" by blast+
    with "2.prems" True r c have "validate_cycles roles rs st1 errors = Some errors" "st1 x \<noteq> 1" for x
      by (auto simp: advances_def)
    with "2.IH"(1) [OF True r refl c] st1(1) "2.prems"(4) obtain st' where
      "search_ok roles st'" "advances st1 st'" "\<forall>r \<in> set rs. st' r = 2" by auto
    with st1 show ?thesis by (intro exI [of _ st']) (auto intro: advances_trans simp: advances_def)
  next
    case False
    with search_ok_black "2.prems"(2,3) have "st role = 2" by blast
    moreover obtain st' where "search_ok roles st'" "advances st st'" "\<forall>r \<in> set rs. st' r = 2"
      using "2.IH"(3) [OF False] "2.prems" False by auto
    ultimately show ?thesis by (intro exI [of _ st']) (auto simp: advances_def)
  qed
qed auto

lemma validate_cycles_acyclic:
  "acyclic (parent_rel roles) \<Longrightarrow> set rs \<subseteq> role_nodes roles \<Longrightarrow> search_ok roles st \<Longrightarrow> (\<And>x. st x \<noteq> 1) \<Longrightarrow>
     validate_cycles roles rs st errors = Some errors"
proof (induction roles rs st errors rule: validate_cycles.induct)
  case (2 roles role rs st errors)
  show ?case
  proof (cases "st role = 0")
    case True
    with dfs_returns [of st role roles] "2.prems"
    obtain c st1 where r: "dfs_detect_cycle (dfs_fuel roles) roles role st = Some (c, st1)" by auto
    have c: "c = None"
      using dfs_cycle(1) [of "dfs_fuel roles" roles role st] r "2.prems" True by (cases c) auto
    from dfs_none(1) [OF r [unfolded c] "2.prems"(3) True]
    have "search_ok roles st1" "advances st st1" by blast+
    with "2.IH"(1) [OF True r refl c] "2.prems" r c True show ?thesis by (auto simp: advances_def)
  next
    case False
    with 2 show ?thesis by simp
  qed
qed simp

lemma search_ok_initial: "search_ok roles (\<lambda>_. 0)"
  by (simp add: search_ok_def black_rel_def acyclic_def)

lemma self_loop_errors_acyclic: "acyclic (parent_rel roles) \<Longrightarrow> wf_entries roles \<Longrightarrow> self_loop_errors roles = []"
proof (rule ccontr)
  assume a: "acyclic (parent_rel roles)" "wf_entries roles" "self_loop_errors roles \<noteq> []"
  then obtain r ps where "(r, ps) \<in> set roles" "r \<in> set ps"
    by (auto simp: self_loop_errors_def filter_empty_conv)
  with a(2) have "(r, r) \<in> parent_rel roles"
    by (simp add: parents_of_def map_of_in_entries [THEN iffD2])
  then have "(r, r) \<in> (parent_rel roles)\<^sup>+" by (rule r_into_trancl)
  with a(1) show False by (auto simp: acyclic_def)
qed

lemma hierarchy_checked:
  assumes "wf_entries roles"
  shows "\<exists>es. validate_role_hierarchy (Some roles) errors = Some (errors @ es) \<and> (es = [] \<longleftrightarrow> acyclic (parent_rel roles))"
proof -
  have keys: "set (map fst roles) \<subseteq> role_nodes roles" by (auto simp: role_nodes_def)
  then obtain es where es: "validate_cycles roles (map fst roles) (\<lambda>_. 0) (errors @ self_loop_errors roles)
      = Some (errors @ self_loop_errors roles @ es)"
    using validate_cycles_total [OF keys, of "\<lambda>_. 0" "errors @ self_loop_errors roles"] by auto
  have "acyclic (parent_rel roles)" if "self_loop_errors roles @ es = []"
  proof -
    from that have "validate_cycles roles (map fst roles) (\<lambda>_. 0) errors = Some errors" using es by simp
    from validate_cycles_silent [OF this search_ok_initial _ keys] obtain st'
      where st': "search_ok roles st'" "\<forall>r \<in> fst ` set roles. st' r = 2" by auto
    have "st' x = 2" if "p \<in> set (parents_of roles x)" for x p
    proof -
      from that have "map_of roles x \<noteq> None" by (cases "map_of roles x") (simp_all add: parents_of_def)
      then have "x \<in> fst ` set roles" by (simp add: map_of_eq_None_iff)
      with st'(2) show ?thesis by blast
    qed
    then have "parent_rel roles \<subseteq> black_rel roles st'"
      by (auto simp: black_rel_def)
    with st'(1) show ?thesis by (auto simp: search_ok_def intro: acyclic_subset)
  qed
  moreover have "self_loop_errors roles @ es = []" if "acyclic (parent_rel roles)"
    using validate_cycles_acyclic [OF that keys search_ok_initial, of "errors @ self_loop_errors roles"]
      self_loop_errors_acyclic [OF that assms] es by simp
  ultimately have "self_loop_errors roles @ es = [] \<longleftrightarrow> acyclic (parent_rel roles)" by blast
  moreover have "validate_role_hierarchy (Some roles) errors = Some (errors @ self_loop_errors roles @ es)"
    by (simp add: validate_role_hierarchy_def es)
  ultimately show ?thesis by blast
qed

text \<open>C34: checking a hierarchy always ends, only ever adds errors, and adds none exactly when the
  inheritance relation has no cycle.\<close>

theorem validate_role_hierarchy_iff:
  assumes "wf_entries roles"
  shows "\<exists>es. validate_role_hierarchy (Some roles) errors = Some (errors @ es) \<and> (es = [] \<longleftrightarrow> acyclic (parent_rel roles))"
  by (rule hierarchy_checked [OF assms])

definition sample_roles :: role_hierarchy where
  "sample_roles = [(''admin'', [''editor'']), (''editor'', [''author'', ''user'']), (''author'', [''user''])]"

theorem validate_role_hierarchy_iff_witness:
  "\<exists>es. validate_role_hierarchy (Some sample_roles) [] = Some ([] @ es) \<and> (es = [] \<longleftrightarrow> acyclic (parent_rel sample_roles))"
  by (rule validate_role_hierarchy_iff [where errors = "[]"]) (simp add: wf_entries_def sample_roles_def)

text \<open>On a cycle the search reports the path it followed.\<close>

lemma cycle_report:
  "validate_role_hierarchy (Some [(''a'', [''b'']), (''b'', [''a''])]) [] = Some [''role_hierarchy: cycle detected: a -> b -> b -> a'']"
  by code_simp

lemma closure_sample: "map_of (compute_role_inheritance (Some sample_roles)) ''admin'' = Some {''editor'', ''author'', ''user''}"
  by code_simp

end
