(* ===== verification/Rate_Limit.thy ===== *)
theory Rate_Limit
  imports Auth_Types Config_Types
begin

text \<open>
  The fixed-window rate limiter (src/middleware/rate_limit.rs): one table of counters behind a mutex,
  so the requests act on it one after another. Instants are counted in nanoseconds since an origin
  before the first request; \<open>Duration\<close> multiplication panics on overflow, which is the value \<open>None\<close>.
  The reference is one counter for each key that is never cleaned up.
\<close>

section \<open>The limiter\<close>

record rate_entry =
  re_count :: nat
  re_window_start :: int

type_synonym rate_table = "(string, rate_entry) entries"

definition rate_limiter_new :: rate_table where
  "rate_limiter_new = []"

text \<open>The peer address is given as the text of its IP.\<close>

definition extract_key :: "rate_limit_config \<Rightarrow> header_map \<Rightarrow> string option \<Rightarrow> string" where
  "extract_key cfg headers remote_addr =
     (case rl_key_strategy cfg of
        KeyIp \<Rightarrow> (case remote_addr of None \<Rightarrow> ''unknown'' | Some ip \<Rightarrow> ip)
      | KeyHeader \<Rightarrow> unwrap_or (header_str (rl_key_header cfg) headers) ''unknown''
      | KeyToken \<Rightarrow> unwrap_or (header_str ''authorization'' headers) ''unknown'')"

definition prune_entries :: "rate_limit_config \<Rightarrow> int \<Rightarrow> rate_table \<Rightarrow> rate_table option" where
  "prune_entries cfg now entries =
     (if rl_cleanup_threshold cfg < length entries then
        (if u64_max < 2 * int (rl_window_seconds cfg) then None
         else Some (entries_retain (\<lambda>_ e. elapsed now (re_window_start e) < int (rl_window_seconds cfg) * nanos * 2) entries))
      else Some entries)"

definition count_request :: "int \<Rightarrow> int \<Rightarrow> rate_entry option \<Rightarrow> rate_entry" where
  "count_request window now found =
     (let e = (case found of None \<Rightarrow> \<lparr> re_count = 0, re_window_start = now \<rparr> | Some e \<Rightarrow> e);
          e' = (if window \<le> elapsed now (re_window_start e) then \<lparr> re_count = 0, re_window_start = now \<rparr> else e)
      in e' \<lparr> re_count := re_count e' + 1 \<rparr>)"

definition check_rate_limit :: "rate_limit_config \<Rightarrow> header_map \<Rightarrow> string option \<Rightarrow> int \<Rightarrow> rate_table
    \<Rightarrow> ((app_error, unit) result \<times> rate_table) option" where
  "check_rate_limit cfg headers remote_addr now entries =
     (if \<not> rl_enabled cfg then Some (Inr (), entries)
      else
        (let key = extract_key cfg headers remote_addr;
             window = int (rl_window_seconds cfg) * nanos
         in case prune_entries cfg now entries of
              None \<Rightarrow> None
            | Some entries1 \<Rightarrow>
                (let e = count_request window now (map_of entries1 key);
                     entries2 = entries_insert key e entries1
                 in if rl_max_requests cfg < re_count e
                    then Some (Inl (RateLimited (Some (nat (max 0 (window - elapsed now (re_window_start e)) div nanos)))), entries2)
                    else Some (Inr (), entries2))))"

text \<open>A sequence of requests in the order they take the lock: headers, peer and time of each.\<close>

type_synonym rate_request = "header_map \<times> string option \<times> int"

fun rate_run :: "rate_limit_config \<Rightarrow> rate_request list \<Rightarrow> rate_table \<Rightarrow> (app_error, unit) result list option" where
  "rate_run cfg [] entries = Some []"
| "rate_run cfg ((headers, remote, now) # qs) entries =
     (case check_rate_limit cfg headers remote now entries of
        None \<Rightarrow> None
      | Some (r, entries') \<Rightarrow> map_option (\<lambda>rs. r # rs) (rate_run cfg qs entries'))"

section \<open>The reference: one counter for each key\<close>

definition counter_step :: "int \<Rightarrow> int \<Rightarrow> rate_entry option \<Rightarrow> rate_entry" where
  "counter_step window now st =
     (case st of
        None \<Rightarrow> \<lparr> re_count = 1, re_window_start = now \<rparr>
      | Some e \<Rightarrow> if window \<le> elapsed now (re_window_start e) then \<lparr> re_count = 1, re_window_start = now \<rparr>
                  else \<lparr> re_count = re_count e + 1, re_window_start = re_window_start e \<rparr>)"

definition counter_answer :: "nat \<Rightarrow> int \<Rightarrow> int \<Rightarrow> rate_entry \<Rightarrow> (app_error, unit) result" where
  "counter_answer limit window now e =
     (if limit < re_count e
      then Inl (RateLimited (Some (nat (max 0 (window - elapsed now (re_window_start e)) div nanos)))) else Inr ())"

fun counters_run :: "rate_limit_config \<Rightarrow> rate_request list \<Rightarrow> (string \<Rightarrow> rate_entry option) \<Rightarrow> (app_error, unit) result list" where
  "counters_run cfg [] counters = []"
| "counters_run cfg ((headers, remote, now) # qs) counters =
     (let key = extract_key cfg headers remote; window = int (rl_window_seconds cfg) * nanos;
          e = counter_step window now (counters key)
      in counter_answer (rl_max_requests cfg) window now e # counters_run cfg qs (counters(key \<mapsto> e)))"

text \<open>What cleaning may have dropped: an entry whose window is long over.\<close>

definition tracks :: "int \<Rightarrow> int \<Rightarrow> rate_table \<Rightarrow> (string \<Rightarrow> rate_entry option) \<Rightarrow> bool" where
  "tracks window now entries counters =
     (wf_entries entries \<and>
      (\<forall>k. map_of entries k = counters k \<or>
           (map_of entries k = None \<and> (\<exists>e. counters k = Some e \<and> window \<le> elapsed now (re_window_start e)))))"

lemma tracks_later: "tracks w now es cs \<Longrightarrow> now \<le> later \<Longrightarrow> tracks w later es cs"
  unfolding tracks_def elapsed_def by fastforce

lemma tracks_cleanup:
  assumes "tracks w now es cs" "0 \<le> w"
  shows "tracks w now (entries_retain (\<lambda>_ e. elapsed now (re_window_start e) < w * 2) es) cs"
proof -
  have "map_of (entries_retain (\<lambda>_ e. elapsed now (re_window_start e) < w * 2) es) k = cs k \<or>
      (map_of (entries_retain (\<lambda>_ e. elapsed now (re_window_start e) < w * 2) es) k = None \<and>
       (\<exists>e. cs k = Some e \<and> w \<le> elapsed now (re_window_start e)))" for k
    using assms
    by (cases "map_of es k") (auto simp: tracks_def map_of_entries_retain dest!: spec [of _ k])
  with assms(1) show ?thesis by (simp add: tracks_def)
qed

lemma tracks_step:
  assumes t: "tracks w now es cs"
  shows "count_request w now (map_of es k) = counter_step w now (cs k)"
proof (cases "map_of es k")
  case None
  with t consider "cs k = None" | e where "cs k = Some e" "w \<le> elapsed now (re_window_start e)"
    unfolding tracks_def by metis
  then show ?thesis
    by cases (simp_all add: None counter_step_def count_request_def)
next
  case (Some e)
  with t have "cs k = Some e" unfolding tracks_def by (metis option.distinct(1))
  with Some show ?thesis by (cases e) (simp add: counter_step_def count_request_def)
qed

lemma tracks_insert: "tracks w now es cs \<Longrightarrow> tracks w now (entries_insert k e es) (cs(k \<mapsto> e))"
  by (auto simp: tracks_def)

lemma check_rate_limit_tracks:
  assumes "rl_enabled cfg" "2 * int (rl_window_seconds cfg) \<le> u64_max" "w = int (rl_window_seconds cfg) * nanos"
    and "tracks w now es cs" "k = extract_key cfg h r" "e = counter_step w now (cs k)"
  shows "\<exists>es'. check_rate_limit cfg h r now es = Some (counter_answer (rl_max_requests cfg) w now e, es')
     \<and> tracks w now es' (cs(k \<mapsto> e))"
proof -
  obtain es1 where es1: "prune_entries cfg now es = Some es1" and t: "tracks w now es1 cs"
  proof (cases "rl_cleanup_threshold cfg < length es")
    case True
    have "prune_entries cfg now es = Some (entries_retain (\<lambda>_ e. elapsed now (re_window_start e) < w * 2) es)"
      using assms(2) True by (simp add: prune_entries_def assms(3))
    with that tracks_cleanup [OF assms(4)] show thesis by (simp add: assms(3))
  next
    case False
    with that [of es] assms(4) show thesis by (simp add: prune_entries_def)
  qed
  have "check_rate_limit cfg h r now es = Some (counter_answer (rl_max_requests cfg) w now e, entries_insert k e es1)"
    unfolding check_rate_limit_def es1 Let_def assms(3) [symmetric] assms(5) [symmetric] option.case
      tracks_step [OF t] assms(6) [symmetric]
    using assms(1) by (simp add: counter_answer_def)
  with tracks_insert [OF t] show ?thesis by blast
qed

lemma rate_run_counters:
  assumes "rl_enabled cfg" "2 * int (rl_window_seconds cfg) \<le> u64_max" "sorted (map (\<lambda>(_, _, t). t) qs)"
  shows "rate_run cfg qs rate_limiter_new = Some (counters_run cfg qs (\<lambda>_. None))"
proof -
  define w where "w = int (rl_window_seconds cfg) * nanos"
  have "rate_run cfg qs es = Some (counters_run cfg qs cs)"
    if "tracks w now es cs" "sorted (map (\<lambda>(_, _, t). t) qs)" "\<forall>q \<in> set qs. now \<le> snd (snd q)" for now es cs
    using that
  proof (induction qs arbitrary: now es cs)
    case (Cons q qs)
    obtain h r t where q: "q = (h, r, t)" by (cases q)
    have "tracks w t es cs" using tracks_later Cons.prems(1,3) by (auto simp: q)
    then obtain es' where step: "check_rate_limit cfg h r t es
        = Some (counter_answer (rl_max_requests cfg) w t (counter_step w t (cs (extract_key cfg h r))), es')"
      and t': "tracks w t es' (cs(extract_key cfg h r \<mapsto> counter_step w t (cs (extract_key cfg h r))))"
      using check_rate_limit_tracks [OF assms(1,2) w_def _ refl refl] by blast
    have "\<forall>q \<in> set qs. t \<le> snd (snd q)" "sorted (map (\<lambda>(_, _, t). t) qs)"
      using Cons.prems(2) by (auto simp: q split_def)
    note rest = Cons.IH [OF t' this(2,1)]
    show ?case
      unfolding q rate_run.simps counters_run.simps step Let_def w_def [symmetric] option.case prod.case rest
      by simp
  qed simp
  from this [of "snd (snd (hd qs))" rate_limiter_new "\<lambda>_. None"] assms(3) show ?thesis
    by (cases qs) (simp_all add: tracks_def rate_limiter_new_def split_def)
qed

section \<open>One client's answers\<close>

text \<open>The requests of one client, and the answers to them among the answers to all.\<close>

definition requests_of :: "rate_limit_config \<Rightarrow> string \<Rightarrow> rate_request list \<Rightarrow> rate_request list" where
  "requests_of cfg k qs = filter (\<lambda>(h, r, _). extract_key cfg h r = k) qs"

definition answers_of :: "rate_limit_config \<Rightarrow> string \<Rightarrow> rate_request list \<Rightarrow> (app_error, unit) result list \<Rightarrow> (app_error, unit) result list" where
  "answers_of cfg k qs answers = map snd (filter (\<lambda>((h, r, _), _). extract_key cfg h r = k) (zip qs answers))"

lemma length_counters_run [simp]: "length (counters_run cfg qs cs) = length qs"
  by (induction qs arbitrary: cs) (auto simp: Let_def)

lemma counters_run_own:
  "cs k = cs' k \<Longrightarrow> counters_run cfg (requests_of cfg k qs) cs' = answers_of cfg k qs (counters_run cfg qs cs)"
proof (induction qs arbitrary: cs cs')
  case (Cons q qs)
  obtain h r u where q: "q = (h, r, u)" by (cases q)
  show ?case
  proof (cases "extract_key cfg h r = k")
    case True
    let ?e = "counter_step (int (rl_window_seconds cfg) * nanos) u (cs' k)"
    have "counters_run cfg (requests_of cfg k qs) (cs'(k \<mapsto> ?e)) = answers_of cfg k qs (counters_run cfg qs (cs(k \<mapsto> ?e)))"
      by (rule Cons.IH) simp
    with True Cons.prems show ?thesis by (simp add: q requests_of_def answers_of_def Let_def del: fun_upd_apply)
  next
    case False
    with Cons.IH [of "cs(extract_key cfg h r \<mapsto> counter_step (int (rl_window_seconds cfg) * nanos) u (cs (extract_key cfg h r)))" cs'] Cons.prems
    show ?thesis by (simp add: q requests_of_def answers_of_def Let_def del: fun_upd_apply) (simp add: False)
  qed
qed (simp add: requests_of_def answers_of_def)

lemma counters_run_threshold [simp]:
  "counters_run (cfg \<lparr> rl_cleanup_threshold := n \<rparr>) qs cs = counters_run cfg qs cs"
proof -
  have k: "extract_key (cfg \<lparr> rl_cleanup_threshold := n \<rparr>) h r = extract_key cfg h r" for h r
    by (cases "rl_key_strategy cfg") (simp_all add: extract_key_def)
  show ?thesis by (induction qs arbitrary: cs) (auto simp: Let_def k)
qed

text \<open>C11: with one enabled configuration, a window of less than 2^63 seconds (its double, which the code
  computes, fits 64 bits) and requests that take the lock in the order of their times, the limiter answers
  every request without a panic, and the answers are independent of two things. The cleanup: with any
  other cleanup threshold they are the same. Other clients: the answers to the requests of one key are
  those the limiter gives when only the requests of this key are sent.\<close>

theorem limiter_answers_independent:
  assumes "rl_enabled cfg" "2 * int (rl_window_seconds cfg) \<le> u64_max" "sorted (map (\<lambda>(_, _, t). t) qs)"
  shows "\<exists>answers. rate_run cfg qs rate_limiter_new = Some answers \<and> length answers = length qs
    \<and> (\<forall>n. rate_run (cfg \<lparr> rl_cleanup_threshold := n \<rparr>) qs rate_limiter_new = Some answers)
    \<and> (\<forall>k. rate_run cfg (requests_of cfg k qs) rate_limiter_new = Some (answers_of cfg k qs answers))"
proof -
  have s: "sorted (map (\<lambda>(_, _, t). t) (requests_of cfg k qs))" for k
    unfolding requests_of_def using sorted_filter [OF assms(3)] by (simp add: comp_def)
  have "rate_run (cfg \<lparr> rl_cleanup_threshold := n \<rparr>) qs rate_limiter_new = Some (counters_run cfg qs (\<lambda>_. None))" for n
    using rate_run_counters [of "cfg \<lparr> rl_cleanup_threshold := n \<rparr>" qs] assms by simp
  moreover have "rate_run cfg (requests_of cfg k qs) rate_limiter_new = Some (answers_of cfg k qs (counters_run cfg qs (\<lambda>_. None)))" for k
    using rate_run_counters [OF assms(1,2) s] counters_run_own [of "\<lambda>_. None" k "\<lambda>_. None" cfg qs] by simp
  ultimately show ?thesis using rate_run_counters [OF assms] by (intro exI [of _ "counters_run cfg qs (\<lambda>_. None)"]) simp
qed

definition sample_limit :: rate_limit_config where
  "sample_limit = rate_limit_config_default \<lparr> rl_enabled := True, rl_max_requests := 2, rl_window_seconds := 1,
     rl_cleanup_threshold := 0 \<rparr>"

definition sample_requests :: "rate_request list" where
  "sample_requests = [([], Some ''10.0.0.1'', 0), ([], Some ''10.0.0.1'', 10), ([], Some ''10.0.0.2'', 20), ([], Some ''10.0.0.1'', 30),
     ([], Some ''10.0.0.1'', 1000000000), ([], Some ''10.0.0.3'', 5000000000)]"

theorem limiter_answers_independent_witness:
  "\<exists>answers. rate_run sample_limit sample_requests rate_limiter_new = Some answers
     \<and> rate_run (sample_limit \<lparr> rl_cleanup_threshold := 9 \<rparr>) sample_requests rate_limiter_new = Some answers
     \<and> rate_run sample_limit (requests_of sample_limit ''10.0.0.1'' sample_requests) rate_limiter_new
        = Some (answers_of sample_limit ''10.0.0.1'' sample_requests answers)"
proof -
  have "rl_enabled sample_limit" "2 * int (rl_window_seconds sample_limit) \<le> u64_max" "sorted (map (\<lambda>(_, _, t). t) sample_requests)"
    by (simp_all add: sample_limit_def sample_requests_def rate_limit_config_default_def)
  from limiter_answers_independent [OF this] show ?thesis by blast
qed

text \<open>The third request of the first client is refused; a second later it is served again.\<close>

lemma sample_requests_answers:
  "rate_run sample_limit sample_requests rate_limiter_new
     = Some [Inr (), Inr (), Inr (), Inl (RateLimited (Some 0)), Inr (), Inr ()]"
  by code_simp

section \<open>When a client is refused\<close>

text \<open>The requests of one client since an instant.\<close>

definition sent_since :: "rate_limit_config \<Rightarrow> string \<Rightarrow> int \<Rightarrow> rate_request list \<Rightarrow> nat" where
  "sent_since cfg k t qs = length (filter (\<lambda>(h, r, u). extract_key cfg h r = k \<and> t \<le> u) qs)"

lemma sent_since_snoc:
  "sent_since cfg k t (qs @ [(h, r, u)]) = sent_since cfg k t qs + (if extract_key cfg h r = k \<and> t \<le> u then 1 else 0)"
  by (simp add: sent_since_def)

lemma sent_since_mono: "t' \<le> t \<Longrightarrow> sent_since cfg k t qs \<le> sent_since cfg k t' qs"
  unfolding sent_since_def by (induction qs) auto

text \<open>A counter never counts more than the requests since its window started.\<close>

definition counts_sent :: "rate_limit_config \<Rightarrow> rate_request list \<Rightarrow> (string \<Rightarrow> rate_entry option) \<Rightarrow> bool" where
  "counts_sent cfg ps cs \<longleftrightarrow> (\<forall>k e. cs k = Some e \<longrightarrow> re_count e \<le> sent_since cfg k (re_window_start e) ps)"

definition started_by :: "int \<Rightarrow> (string \<Rightarrow> rate_entry option) \<Rightarrow> bool" where
  "started_by t cs \<longleftrightarrow> (\<forall>k e. cs k = Some e \<longrightarrow> re_window_start e \<le> t)"

lemma counts_sent_step:
  assumes "counts_sent cfg ps cs" "started_by u cs" "k = extract_key cfg h r"
  shows "counts_sent cfg (ps @ [(h, r, u)]) (cs(k \<mapsto> counter_step w u (cs k)))"
    "started_by u (cs(k \<mapsto> counter_step w u (cs k)))"
  using assms by (auto simp: counts_sent_def started_by_def sent_since_snoc counter_step_def split: option.splits)

lemma refused_step:
  assumes "counts_sent cfg ps cs" "counter_answer (rl_max_requests cfg) w u (counter_step w u (cs k)) = Inl e"
    and "w = int (rl_window_seconds cfg) * nanos"
  shows "rl_max_requests cfg \<le> sent_since cfg k (u - w + 1) ps"
    "\<exists>s. e = RateLimited (Some s) \<and> s \<le> rl_window_seconds cfg"
proof -
  let ?e = "counter_step w u (cs k)"
  have a: "rl_max_requests cfg < re_count ?e" "e = RateLimited (Some (nat (max 0 (w - elapsed u (re_window_start ?e)) div nanos)))"
    using assms(2) by (auto simp: counter_answer_def split: if_splits)
  show "rl_max_requests cfg \<le> sent_since cfg k (u - w + 1) ps"
  proof (cases "\<exists>o'. cs k = Some o' \<and> \<not> w \<le> elapsed u (re_window_start o')")
    case True
    then obtain o' where o': "cs k = Some o'" "elapsed u (re_window_start o') < w" by auto
    with a(1) have "rl_max_requests cfg \<le> re_count o'" by (simp add: counter_step_def)
    also have "\<dots> \<le> sent_since cfg k (re_window_start o') ps" using assms(1) o'(1) by (simp add: counts_sent_def)
    also have "\<dots> \<le> sent_since cfg k (u - w + 1) ps"
      by (rule sent_since_mono) (use o'(2) in \<open>simp add: elapsed_def\<close>)
    finally show ?thesis .
  next
    case False
    then have "re_count ?e = 1" by (auto simp: counter_step_def split: option.splits)
    with a(1) show ?thesis by simp
  qed
  have "0 \<le> elapsed u (re_window_start ?e)" by (simp add: elapsed_def)
  then have "max 0 (w - elapsed u (re_window_start ?e)) \<le> int (rl_window_seconds cfg) * nanos" by (simp add: assms(3))
  then have "max 0 (w - elapsed u (re_window_start ?e)) div nanos \<le> int (rl_window_seconds cfg) * nanos div nanos"
    by (intro zdiv_mono1) simp_all
  then show "\<exists>s. e = RateLimited (Some s) \<and> s \<le> rl_window_seconds cfg" using a(2) by simp
qed

lemma refused_counted:
  assumes "w = int (rl_window_seconds cfg) * nanos"
  shows "counts_sent cfg ps cs \<Longrightarrow> sorted (map (\<lambda>(_, _, t). t) qs) \<Longrightarrow> \<forall>q \<in> set qs. started_by (snd (snd q)) cs \<Longrightarrow>
    i < length qs \<Longrightarrow> qs ! i = (h, r, u) \<Longrightarrow> counters_run cfg qs cs ! i = Inl e \<Longrightarrow>
    rl_max_requests cfg \<le> sent_since cfg (extract_key cfg h r) (u - w + 1) (ps @ take i qs)
    \<and> (\<exists>s. e = RateLimited (Some s) \<and> s \<le> rl_window_seconds cfg)"
proof (induction qs arbitrary: ps cs i)
  case (Cons q qs)
  obtain h' r' u' where q: "q = (h', r', u')" by (cases q)
  let ?k = "extract_key cfg h' r'" and ?cs = "cs(extract_key cfg h' r' \<mapsto> counter_step w u' (cs (extract_key cfg h' r')))"
  have run: "counters_run cfg (q # qs) cs = counter_answer (rl_max_requests cfg) w u' (counter_step w u' (cs ?k)) # counters_run cfg qs ?cs"
    by (simp add: q Let_def assms)
  show ?case
  proof (cases i)
    case 0
    with Cons.prems(4-6) run have "counter_answer (rl_max_requests cfg) w u (counter_step w u (cs (extract_key cfg h r))) = Inl e"
      by (simp add: q)
    with refused_step [OF Cons.prems(1) this assms] 0 show ?thesis by simp
  next
    case (Suc j)
    have st: "started_by u' cs" using Cons.prems(3) by (simp add: q)
    note step = counts_sent_step [OF Cons.prems(1) st refl, where w = w]
    have "\<forall>q \<in> set qs. started_by (snd (snd q)) ?cs"
    proof
      fix x assume "x \<in> set qs"
      then have "u' \<le> snd (snd x)" using Cons.prems(2) by (auto simp: q split_def)
      with step(2) show "started_by (snd (snd x)) ?cs" by (fastforce simp: started_by_def simp del: fun_upd_apply)
    qed
    moreover have "counters_run cfg qs ?cs ! j = Inl e" using Cons.prems(6) unfolding run Suc nth_Cons_Suc .
    ultimately show ?thesis
      using Cons.IH [OF step(1), where i = j] Cons.prems(2,4,5) by (simp add: Suc q del: fun_upd_apply)
  qed
qed simp

text \<open>C12: with one enabled configuration, a window of less than 2^63 seconds and requests that take the lock
  in the order of their times, a request is refused only when the same client sent at least the configured
  number of requests before it and less than one window ago; the refusal is the rate-limit error with a
  number of seconds to wait that is at most the window.\<close>

theorem refused_only_over_limit:
  assumes "rl_enabled cfg" "2 * int (rl_window_seconds cfg) \<le> u64_max" "sorted (map (\<lambda>(_, _, t). t) qs)"
    and "rate_run cfg qs rate_limiter_new = Some answers" "i < length qs" "qs ! i = (h, r, u)" "answers ! i = Inl e"
  shows "rl_max_requests cfg
      \<le> length (filter (\<lambda>(h', r', u'). extract_key cfg h' r' = extract_key cfg h r \<and> u - u' < int (rl_window_seconds cfg) * nanos) (take i qs))
    \<and> (\<exists>s. e = RateLimited (Some s) \<and> s \<le> rl_window_seconds cfg)"
proof -
  have "answers = counters_run cfg qs (\<lambda>_. None)"
    using rate_run_counters [OF assms(1-3)] assms(4) by simp
  then have "counters_run cfg qs (\<lambda>_. None) ! i = Inl e" using assms(7) by simp
  moreover have "counts_sent cfg [] (\<lambda>_. None)" "\<forall>q \<in> set qs. started_by (snd (snd q)) (\<lambda>_. None)"
    by (simp_all add: counts_sent_def started_by_def)
  ultimately have "rl_max_requests cfg \<le> sent_since cfg (extract_key cfg h r) (u - int (rl_window_seconds cfg) * nanos + 1) ([] @ take i qs)
    \<and> (\<exists>s. e = RateLimited (Some s) \<and> s \<le> rl_window_seconds cfg)"
    using assms(3,5,6) by (intro refused_counted [OF refl])
  moreover have "(\<lambda>(h', r', u'). extract_key cfg h' r' = extract_key cfg h r \<and> u - int (rl_window_seconds cfg) * nanos + 1 \<le> u')
      = (\<lambda>(h', r', u'). extract_key cfg h' r' = extract_key cfg h r \<and> u - u' < int (rl_window_seconds cfg) * nanos)"
    by (auto simp: fun_eq_iff)
  ultimately show ?thesis by (simp add: sent_since_def)
qed

theorem refused_only_over_limit_witness:
  "2 \<le> length (filter (\<lambda>(h', r', u'). extract_key sample_limit h' r' = ''10.0.0.1'' \<and> 30 - u' < int (rl_window_seconds sample_limit) * nanos)
      (take 3 sample_requests))"
proof -
  have h: "rl_enabled sample_limit" "2 * int (rl_window_seconds sample_limit) \<le> u64_max" "sorted (map (\<lambda>(_, _, t). t) sample_requests)"
    "3 < length sample_requests" "sample_requests ! 3 = ([], Some ''10.0.0.1'', 30)"
    by (simp_all add: sample_limit_def sample_requests_def rate_limit_config_default_def)
  have k: "extract_key sample_limit [] (Some ''10.0.0.1'') = ''10.0.0.1''" "rl_max_requests sample_limit = 2" by code_simp+
  show ?thesis
    using refused_only_over_limit [OF h(1-3) sample_requests_answers h(4,5)] by (simp add: k)
qed

section \<open>How much one client can send\<close>

text \<open>The admitted requests of one key with a time in the half-open interval from \<open>t\<close> of one window's length.\<close>

definition admitted_within :: "rate_limit_config \<Rightarrow> string \<Rightarrow> int \<Rightarrow> rate_request list \<Rightarrow> (app_error, unit) result list \<Rightarrow> nat" where
  "admitted_within cfg k t qs answers =
     length (filter (\<lambda>((h, r, u), a). extract_key cfg h r = k \<and> t \<le> u \<and> u < t + int (rl_window_seconds cfg) * nanos \<and> is_ok a)
       (zip qs answers))"

lemma admitted_within_Cons:
  "admitted_within cfg k t ((h, r, u) # qs) (a # answers) =
     (if extract_key cfg h r = k \<and> t \<le> u \<and> u < t + int (rl_window_seconds cfg) * nanos \<and> is_ok a then 1 else 0)
     + admitted_within cfg k t qs answers"
  by (simp add: admitted_within_def)

lemma counter_answer_ok: "is_ok (counter_answer limit w now e) \<longleftrightarrow> re_count e \<le> limit"
  by (simp add: counter_answer_def)

lemma admitted_none:
  "\<forall>q \<in> set qs. t + int (rl_window_seconds cfg) * nanos \<le> snd (snd q) \<Longrightarrow> admitted_within cfg k t qs as = 0"
  by (force simp: admitted_within_def filter_empty_conv dest: set_zip_leftD)

lemma admitted_in_own_window:
  assumes "w = int (rl_window_seconds cfg) * nanos" "sorted (map (snd \<circ> snd) qs)" "\<forall>q \<in> set qs. re_window_start e \<le> snd (snd q)"
    and "cs k = Some e" "t \<le> re_window_start e"
  shows "admitted_within cfg k t qs (counters_run cfg qs cs) \<le> rl_max_requests cfg - re_count e"
  using assms(2-5)
proof (induction qs arbitrary: cs e)
  case (Cons q qs)
  obtain h r u where q: "q = (h, r, u)" by (cases q)
  show ?case
  proof (cases "extract_key cfg h r = k")
    case False
    with Cons show ?thesis
      by (simp add: q Let_def admitted_within_Cons)
  next
    case True
    show ?thesis
    proof (cases "w \<le> elapsed u (re_window_start e)")
      case True
      with Cons.prems(3,4) have "\<forall>q \<in> set (q # qs). t + w \<le> snd (snd q)"
        using Cons.prems(1,2) assms(1) by (fastforce simp: q elapsed_def)
      then show ?thesis using admitted_none [of "q # qs" t cfg k] by (simp add: assms(1))
    next
      case False
      let ?e = "\<lparr> re_count = Suc (re_count e), re_window_start = re_window_start e \<rparr>"
      have "admitted_within cfg k t qs (counters_run cfg qs (cs(k \<mapsto> ?e))) \<le> rl_max_requests cfg - Suc (re_count e)"
        using Cons.IH [of ?e "cs(k \<mapsto> ?e)"] Cons.prems by (simp add: fun_upd_def)
      moreover have "counter_step w u (cs k) = ?e"
        using False Cons.prems(3) by (simp add: counter_step_def)
      ultimately show ?thesis
        using \<open>extract_key cfg h r = k\<close>
        by (simp add: q Let_def admitted_within_Cons counter_answer_ok assms(1) [symmetric]) linarith
    qed
  qed
qed (simp add: admitted_within_def)

lemma admitted_overlapping:
  assumes "w = int (rl_window_seconds cfg) * nanos" "sorted (map (snd \<circ> snd) qs)"
    and "\<forall>q \<in> set qs. \<forall>e. cs k = Some e \<longrightarrow> re_window_start e \<le> snd (snd q)"
  shows "admitted_within cfg k t qs (counters_run cfg qs cs)
     \<le> (if \<forall>q \<in> set qs. t \<le> snd (snd q) then (case cs k of None \<Rightarrow> 0 | Some e \<Rightarrow> rl_max_requests cfg - re_count e) else rl_max_requests cfg)
       + rl_max_requests cfg"
  using assms(2,3)
proof (induction qs arbitrary: cs)
  case (Cons q qs)
  obtain h r u where q: "q = (h, r, u)" by (cases q)
  let ?e = "counter_step w u (cs k)"
  have later: "\<forall>q \<in> set qs. u \<le> snd (snd q)" "sorted (map (snd \<circ> snd) qs)"
    using Cons.prems(1) by (auto simp: q comp_def)
  show ?case
  proof (cases "extract_key cfg h r = k")
    case False
    define cs' where "cs' = cs(extract_key cfg h r \<mapsto> counter_step w u (cs (extract_key cfg h r)))"
    have "cs' k = cs k" using False by (simp add: cs'_def)
    with Cons.IH [of cs'] later Cons.prems(2)
    have "admitted_within cfg k t qs (counters_run cfg qs cs')
        \<le> (if \<forall>q \<in> set qs. t \<le> snd (snd q) then (case cs k of None \<Rightarrow> 0 | Some e \<Rightarrow> rl_max_requests cfg - re_count e) else rl_max_requests cfg)
          + rl_max_requests cfg"
      by (simp add: comp_def cong: if_cong)
    moreover have "(case cs k of None \<Rightarrow> 0 | Some e \<Rightarrow> rl_max_requests cfg - re_count e) \<le> rl_max_requests cfg"
      by (auto split: option.splits)
    ultimately have "admitted_within cfg k t qs (counters_run cfg qs cs')
        \<le> (if \<forall>q \<in> set (q # qs). t \<le> snd (snd q) then (case cs k of None \<Rightarrow> 0 | Some e \<Rightarrow> rl_max_requests cfg - re_count e) else rl_max_requests cfg)
          + rl_max_requests cfg"
      by (cases "\<forall>q \<in> set qs. t \<le> snd (snd q)"; cases "t \<le> u") (auto simp: q)
    then show ?thesis
      using False by (simp add: q Let_def admitted_within_Cons assms(1) [symmetric] cs'_def [symmetric])
  next
    case True
    define cs' where "cs' = cs(k \<mapsto> ?e)"
    have cs'k: "cs' k = Some ?e" by (simp add: cs'_def)
    have run: "counters_run cfg ((h, r, u) # qs) cs = counter_answer (rl_max_requests cfg) w u ?e # counters_run cfg qs cs'"
      using True by (simp add: q Let_def assms(1) cs'_def)
    have start: "re_window_start ?e \<le> u"
      using Cons.prems(2) by (auto simp: counter_step_def q split: option.splits)
    with later(1) have "\<forall>q \<in> set qs. re_window_start ?e \<le> snd (snd q)" by fastforce
    then have IH: "admitted_within cfg k t qs (counters_run cfg qs cs')
        \<le> (if \<forall>q \<in> set qs. t \<le> snd (snd q) then rl_max_requests cfg - re_count ?e else rl_max_requests cfg) + rl_max_requests cfg"
      using Cons.IH [of cs'] later(2) by (simp add: cs'k comp_def cong: if_cong)
    show ?thesis
    proof (cases "t \<le> u")
      case before: False
      have "(if \<forall>q \<in> set qs. t \<le> snd (snd q) then rl_max_requests cfg - re_count ?e else rl_max_requests cfg) \<le> rl_max_requests cfg"
        by simp
      with IH before show ?thesis
        by (simp add: run q admitted_within_Cons del: counters_run.simps)
    next
      case inside: True
      with later have all: "\<forall>q \<in> set qs. t \<le> snd (snd q)" by fastforce
      show ?thesis
      proof (cases "\<exists>e. cs k = Some e \<and> \<not> w \<le> elapsed u (re_window_start e)")
        case True
        then obtain e where e: "cs k = Some e" "?e = \<lparr> re_count = re_count e + 1, re_window_start = re_window_start e \<rparr>"
          by (auto simp: counter_step_def)
        with IH all inside show ?thesis
          by (auto simp: run q admitted_within_Cons counter_answer_ok simp del: counters_run.simps)
      next
        case False
        then have e: "?e = \<lparr> re_count = 1, re_window_start = u \<rparr>"
          by (auto simp: counter_step_def split: option.splits)
        have "admitted_within cfg k t qs (counters_run cfg qs cs') \<le> rl_max_requests cfg - re_count ?e"
          using admitted_in_own_window [OF assms(1) later(2), of ?e cs' k t] later(1) inside cs'k by (simp add: e)
        then show ?thesis
          by (auto simp: run q admitted_within_Cons counter_answer_ok e simp del: counters_run.simps)
      qed
    qed
  qed
qed (simp add: admitted_within_def)

text \<open>C31: in any interval as long as the window, wherever it starts, a client is admitted at most twice
  the configured number of requests (the windows are aligned to the client's own requests, so an interval
  meets at most two of them).\<close>

theorem admitted_at_most_twice:
  assumes "rl_enabled cfg" "2 * int (rl_window_seconds cfg) \<le> u64_max" "sorted (map (\<lambda>(_, _, t). t) qs)"
    and "rate_run cfg qs rate_limiter_new = Some answers"
  shows "admitted_within cfg k t qs answers \<le> 2 * rl_max_requests cfg"
proof -
  have "answers = counters_run cfg qs (\<lambda>_. None)"
    using rate_run_counters [OF assms(1-3)] assms(4) by simp
  moreover have "sorted (map (snd \<circ> snd) qs)" using assms(3) by (simp add: comp_def split_def)
  ultimately show ?thesis
    using admitted_overlapping [OF refl, of qs "\<lambda>_. None" k cfg t] by (auto split: if_splits)
qed

theorem admitted_at_most_twice_witness:
  "\<exists>answers. rate_run sample_limit sample_requests rate_limiter_new = Some answers
     \<and> admitted_within sample_limit ''10.0.0.1'' 0 sample_requests answers \<le> 2 * rl_max_requests sample_limit"
proof -
  have ok: "rl_enabled sample_limit" "2 * int (rl_window_seconds sample_limit) \<le> u64_max" "sorted (map (\<lambda>(_, _, t). t) sample_requests)"
    by (simp_all add: sample_limit_def sample_requests_def rate_limit_config_default_def)
  then have "rate_run sample_limit sample_requests rate_limiter_new = Some (counters_run sample_limit sample_requests (\<lambda>_. None))"
    by (rule rate_run_counters)
  with admitted_at_most_twice [OF ok this] show ?thesis by blast
qed

section \<open>Endpoints with limits of their own\<close>

text \<open>
  The table is one for all endpoints, and its keys do not name the endpoint: a request to an endpoint
  with a short window starts the client's counter afresh for every other endpoint. Below, an endpoint
  that allows two requests a minute admits a third one after a second, because of one request to an
  endpoint with a window of one second.
\<close>

definition minute_limit :: rate_limit_config where
  "minute_limit = sample_limit \<lparr> rl_window_seconds := 60, rl_cleanup_threshold := 9 \<rparr>"

definition second_limit :: rate_limit_config where
  "second_limit = minute_limit \<lparr> rl_window_seconds := 1 \<rparr>"

fun rate_run_mixed :: "(rate_limit_config \<times> rate_request) list \<Rightarrow> rate_table \<Rightarrow> (app_error, unit) result list option" where
  "rate_run_mixed [] entries = Some []"
| "rate_run_mixed ((cfg, headers, remote, now) # qs) entries =
     (case check_rate_limit cfg headers remote now entries of
        None \<Rightarrow> None
      | Some (r, entries') \<Rightarrow> map_option (\<lambda>rs. r # rs) (rate_run_mixed qs entries'))"

lemma shared_counter_bypass:
  "rate_run_mixed [(minute_limit, [], Some ''10.0.0.1'', 0), (minute_limit, [], Some ''10.0.0.1'', 1),
     (minute_limit, [], Some ''10.0.0.1'', 2), (second_limit, [], Some ''10.0.0.1'', 1000000000),
     (minute_limit, [], Some ''10.0.0.1'', 1000000001)] rate_limiter_new
   = Some [Inr (), Inr (), Inl (RateLimited (Some 59)), Inr (), Inr ()]"
  by code_simp

end
