(* ===== verification/Topo_Sort.thy ===== *)
theory Topo_Sort
  imports Config_Types "HOL-Library.Multiset"
begin

text \<open>
  The order in which migrations create the tables (src/db/migration.rs, \<open>sort_tables_topologically\<close>):
  Kahn's algorithm on the tables' positions, an edge for each foreign key. A hash map is the list of
  its entries; the order in which the dependency map is iterated is left open, as a function that
  permutes the entries. \<open>None\<close> is the panic of an unsigned subtraction below zero, which is shown
  never to happen.
\<close>

section \<open>The algorithm\<close>

definition table_map :: "table_config list \<Rightarrow> string \<Rightarrow> nat option" where
  "table_map tables = map_of (rev (zip (map tbl_name tables) [0 ..< length tables]))"

definition table_deps :: "table_config list \<Rightarrow> table_config \<Rightarrow> nat list" where
  "table_deps tables t = List.map_filter (\<lambda>fk. table_map tables (fk_references_table fk)) (tbl_foreign_keys t)"

fun build_deps :: "table_config list \<Rightarrow> table_config list \<Rightarrow> (nat, nat list) entries \<Rightarrow> (app_error, (nat, nat list) entries) result" where
  "build_deps tables [] deps = Inr deps"
| "build_deps tables (t # ts) deps =
     (case table_map tables (tbl_name t) of
        None \<Rightarrow> Inl (Internal (''Table '' @ [quote_char] @ tbl_name t @ [quote_char] @ '' not found in table_map''))
      | Some idx \<Rightarrow> build_deps tables ts (entries_insert idx (unwrap_or (map_of deps idx) [] @ table_deps tables t) deps))"

type_synonym degrees = "(nat, nat) entries"
type_synonym dependents = "(nat, nat list) entries"

definition or_insert :: "'k \<Rightarrow> 'v \<Rightarrow> ('k, 'v) entries \<Rightarrow> ('k, 'v) entries" where
  "or_insert k v m = (case map_of m k of None \<Rightarrow> entries_insert k v m | Some _ \<Rightarrow> m)"

fun add_edges :: "nat \<Rightarrow> nat list \<Rightarrow> degrees \<times> dependents \<Rightarrow> (app_error, degrees \<times> dependents) result" where
  "add_edges idx [] (in_degree, reverse) = Inr (in_degree, reverse)"
| "add_edges idx (dep # ds) (in_degree, reverse) =
     (let reverse1 = or_insert dep [] reverse in
      case map_of reverse1 dep of
        None \<Rightarrow> Inl (Internal ''Missing reverse mapping during topological sort'')
      | Some users \<Rightarrow>
          add_edges idx ds (entries_insert idx (unwrap_or (map_of in_degree idx) 0 + 1) in_degree,
            entries_insert dep (users @ [idx]) reverse1))"

fun build_degrees :: "(nat, nat list) entries \<Rightarrow> degrees \<times> dependents \<Rightarrow> (app_error, degrees \<times> dependents) result" where
  "build_degrees [] st = Inr st"
| "build_degrees ((idx, ds) # rest) (in_degree, reverse) =
     (case add_edges idx ds (or_insert idx 0 in_degree, reverse) of
        Inl e \<Rightarrow> Inl e
      | Inr st \<Rightarrow> build_degrees rest st)"

text \<open>\<open>partition_point\<close> and \<open>insert\<close> on the sorted part of the queue that is still ahead.\<close>

definition insert_ahead :: "nat \<Rightarrow> nat list \<Rightarrow> nat list" where
  "insert_ahead v queue = takeWhile (\<lambda>x. x < v) queue @ v # dropWhile (\<lambda>x. x < v) queue"

fun release :: "nat list \<Rightarrow> degrees \<Rightarrow> nat list \<Rightarrow> (app_error, degrees \<times> nat list) result option" where
  "release [] in_degree queue = Some (Inr (in_degree, queue))"
| "release (dependent # ds) in_degree queue =
     (case map_of in_degree dependent of
        None \<Rightarrow> Some (Inl (Internal ''Missing in_degree during topological sort''))
      | Some degree \<Rightarrow>
          if degree = 0 then None
          else release ds (entries_insert dependent (degree - 1) in_degree)
                 (if degree - 1 = 0 then insert_ahead dependent queue else queue))"

definition positives :: "degrees \<Rightarrow> nat set" where
  "positives m = {k. 0 < unwrap_or (map_of m k) 0}"

lemma finite_positives [simp]: "finite (positives m)"
proof (rule finite_subset)
  show "positives m \<subseteq> dom (map_of m)"
    by (auto simp: positives_def) (metis less_irrefl not_Some_eq unwrap_or.simps(1))
qed (simp add: finite_dom_map_of)

lemma length_insert_ahead [simp]: "length (insert_ahead v q) = Suc (length q)"
  by (simp add: insert_ahead_def) (metis length_append takeWhile_dropWhile_id)

lemma set_insert_ahead [simp]: "set (insert_ahead v q) = insert v (set q)"
  by (simp add: insert_ahead_def) (metis set_append takeWhile_dropWhile_id)

lemma distinct_insert_ahead [simp]: "distinct (insert_ahead v q) \<longleftrightarrow> v \<notin> set q \<and> distinct q"
proof -
  have "mset (insert_ahead v q) = mset (v # q)"
    by (simp add: insert_ahead_def) (metis mset_append takeWhile_dropWhile_id)
  then have "distinct (insert_ahead v q) \<longleftrightarrow> distinct (v # q)"
    by (rule mset_eq_imp_distinct_iff)
  then show ?thesis by simp
qed

lemma release_size:
  "release ds m q = Some (Inr (m', q')) \<Longrightarrow> length q' + card (positives m') \<le> length q + card (positives m)"
proof (induction ds m q rule: release.induct)
  case (2 j ds m q)
  then obtain d where d: "map_of m j = Some d" "d \<noteq> 0"
    and r: "release ds (entries_insert j (d - 1) m) (if d - 1 = 0 then insert_ahead j q else q) = Some (Inr (m', q'))"
    by (auto split: option.splits if_splits)
  have j: "j \<in> positives m" using d by (simp add: positives_def)
  have "positives (entries_insert j (d - 1) m) = (if d - 1 = 0 then positives m - {j} else positives m)"
    using d by (auto simp: positives_def split: if_splits)
  moreover have "card (positives m) = Suc (card (positives m - {j}))"
    by (rule card.remove [OF _ j]) simp
  ultimately show ?case
    using "2.IH" [OF d r] by (cases "d - 1 = 0") simp_all
qed simp

function kahn :: "dependents \<Rightarrow> nat list \<Rightarrow> degrees \<Rightarrow> nat list \<Rightarrow> (app_error, nat list) result option" where
  "kahn reverse [] in_degree processed = Some (Inr processed)"
| "kahn reverse (idx # queue) in_degree processed =
     (case release (unwrap_or (map_of reverse idx) []) in_degree queue of
        None \<Rightarrow> None
      | Some (Inl e) \<Rightarrow> Some (Inl e)
      | Some (Inr (in_degree', queue')) \<Rightarrow> kahn reverse queue' in_degree' (processed @ [idx]))"
  by pat_completeness auto
termination
  by (relation "measure (\<lambda>(reverse, queue, in_degree, processed). length queue + card (positives in_degree))")
    (simp_all add: release_size le_imp_less_Suc)

definition sort_tables_topologically :: "((nat, nat list) entries \<Rightarrow> (nat, nat list) entries) \<Rightarrow> table_config list
    \<Rightarrow> (app_error, table_config list) result option" where
  "sort_tables_topologically iteration tables =
     (case build_deps tables tables [] of
        Inl e \<Rightarrow> Some (Inl e)
      | Inr deps \<Rightarrow>
          (case build_degrees (iteration deps) ([], []) of
             Inl e \<Rightarrow> Some (Inl e)
           | Inr (in_degree, reverse) \<Rightarrow>
               (let queue = sort (map fst (filter (\<lambda>(_, deg). deg = 0) in_degree)) in
                case kahn reverse queue in_degree [] of
                  None \<Rightarrow> None
                | Some (Inl e) \<Rightarrow> Some (Inl e)
                | Some (Inr order) \<Rightarrow>
                    if length order \<noteq> length tables then
                      Some (Inl (Internal (''Circular dependency detected among tables: ['' @
                        join '', '' (map tbl_name (filter (\<lambda>t. case table_map tables (tbl_name t) of
                            Some i \<Rightarrow> i \<notin> set order | None \<Rightarrow> False) tables)) @ '']'')))
                    else Some (Inr (map (\<lambda>i. tables ! i) order)))))"

section \<open>The graph the algorithm works on\<close>

lemma or_insert_same [simp]: "map_of (or_insert k v m) k = Some (unwrap_or (map_of m k) v)"
  by (cases "map_of m k") (simp_all add: or_insert_def)

lemma or_insert_other [simp]: "k' \<noteq> k \<Longrightarrow> map_of (or_insert k v m) k' = map_of m k'"
  by (simp add: or_insert_def split: option.splits)

lemma wf_or_insert [simp]: "wf_entries m \<Longrightarrow> wf_entries (or_insert k v m)"
  by (simp add: or_insert_def split: option.splits)

lemma keys_or_insert [simp]: "fst ` set (or_insert k v m) = insert k (fst ` set m)"
  by (auto simp: or_insert_def split: option.splits) (metis domI dom_map_of_conv_image_fst)

definition users_of :: "dependents \<Rightarrow> nat \<Rightarrow> nat list" where
  "users_of m d = unwrap_or (map_of m d) []"

lemma users_of_or_insert: "users_of (or_insert k [] m) d = users_of m d"
  by (cases "d = k") (simp_all add: users_of_def)

lemma users_of_insert: "users_of (entries_insert k us m) d = (if d = k then us else users_of m d)"
  by (simp add: users_of_def)

lemma add_edges_spec:
  assumes "wf_entries m"
  shows "\<exists>m' r'. add_edges idx ds (m, r) = Inr (m', r') \<and> wf_entries m'
      \<and> (\<forall>i. i \<noteq> idx \<longrightarrow> map_of m' i = map_of m i)
      \<and> unwrap_or (map_of m' idx) 0 = unwrap_or (map_of m idx) 0 + length ds
      \<and> fst ` set m' = (if ds = [] then {} else {idx}) \<union> fst ` set m
      \<and> (\<forall>d i. count_list (users_of r' d) i = count_list (users_of r d) i + (if i = idx then count_list ds d else 0))"
  using assms
proof (induction ds arbitrary: m r)
  case (Cons d ds)
  define m1 where "m1 = entries_insert idx (unwrap_or (map_of m idx) 0 + 1) m"
  define r1 where "r1 = entries_insert d (users_of r d @ [idx]) (or_insert d [] r)"
  have m1: "wf_entries m1" "\<And>i. i \<noteq> idx \<Longrightarrow> map_of m1 i = map_of m i"
    "unwrap_or (map_of m1 idx) 0 = unwrap_or (map_of m idx) 0 + 1" "fst ` set m1 = insert idx (fst ` set m)"
    using Cons.prems by (simp_all add: m1_def)
  have r1: "users_of r1 e = (if e = d then users_of r d @ [idx] else users_of r e)" for e
    by (simp add: r1_def users_of_insert users_of_or_insert)
  have "add_edges idx (d # ds) (m, r) = add_edges idx ds (m1, r1)"
    by (simp add: m1_def r1_def users_of_def)
  moreover obtain m' r' where "add_edges idx ds (m1, r1) = Inr (m', r')" "wf_entries m'"
    "\<forall>i. i \<noteq> idx \<longrightarrow> map_of m' i = map_of m1 i" "unwrap_or (map_of m' idx) 0 = unwrap_or (map_of m1 idx) 0 + length ds"
    "fst ` set m' = (if ds = [] then {} else {idx}) \<union> fst ` set m1"
    "\<forall>d i. count_list (users_of r' d) i = count_list (users_of r1 d) i + (if i = idx then count_list ds d else 0)"
    using Cons.IH [OF m1(1), of r1] by auto
  ultimately show ?case
    using m1 by (intro exI [of _ m'] exI [of _ r']) (auto simp: r1)
qed auto

text \<open>The dependencies of a position: what the keys' lists say, and nothing for other numbers.\<close>

definition deps_at :: "(nat, nat list) entries \<Rightarrow> nat \<Rightarrow> nat list" where
  "deps_at deps i = unwrap_or (map_of deps i) []"

lemma build_degrees_spec:
  assumes "wf_entries m" "wf_entries deps" "fst ` set deps \<inter> fst ` set m = {}"
  shows "\<exists>m' r'. build_degrees deps (m, r) = Inr (m', r') \<and> wf_entries m' \<and> fst ` set m' = fst ` set deps \<union> fst ` set m
      \<and> (\<forall>i. unwrap_or (map_of m' i) 0 = unwrap_or (map_of m i) 0 + length (deps_at deps i))
      \<and> (\<forall>d i. count_list (users_of r' d) i = count_list (users_of r d) i + count_list (deps_at deps i) d)"
  using assms
proof (induction deps arbitrary: m r)
  case (Cons e deps)
  obtain idx ds where e: "e = (idx, ds)" by (cases e)
  have idx: "map_of deps idx = None" "wf_entries deps"
    using Cons.prems(2) by (simp_all add: e wf_entries_def map_of_eq_None_iff)
  obtain m1 r1 where a: "add_edges idx ds (or_insert idx 0 m, r) = Inr (m1, r1)" "wf_entries m1"
    "\<forall>i. i \<noteq> idx \<longrightarrow> map_of m1 i = map_of (or_insert idx 0 m) i"
    "unwrap_or (map_of m1 idx) 0 = unwrap_or (map_of (or_insert idx 0 m) idx) 0 + length ds"
    "fst ` set m1 = (if ds = [] then {} else {idx}) \<union> fst ` set (or_insert idx 0 m)"
    "\<forall>d i. count_list (users_of r1 d) i = count_list (users_of r d) i + (if i = idx then count_list ds d else 0)"
    using add_edges_spec [of "or_insert idx 0 m" idx ds r] Cons.prems(1) by auto
  have "fst ` set deps \<inter> fst ` set m1 = {}"
    using a(5) Cons.prems(3) idx(1) by (auto simp: e map_of_eq_None_iff split: if_splits)
  from Cons.IH [OF a(2) idx(2) this, of r1]
  obtain m' r' where b: "build_degrees deps (m1, r1) = Inr (m', r')" "wf_entries m'" "fst ` set m' = fst ` set deps \<union> fst ` set m1"
    "\<forall>i. unwrap_or (map_of m' i) 0 = unwrap_or (map_of m1 i) 0 + length (deps_at deps i)"
    "\<forall>d i. count_list (users_of r' d) i = count_list (users_of r1 d) i + count_list (deps_at deps i) d"
    by (elim exE conjE) (rule that; assumption)
  have m1: "unwrap_or (map_of m1 i) 0 = unwrap_or (map_of m i) 0 + (if i = idx then length ds else 0)" for i
    using a(3,4) by (cases "i = idx") simp_all
  have at: "deps_at (e # deps) i = (if i = idx then ds else deps_at deps i)" for i
    by (simp add: deps_at_def e)
  have zero: "deps_at deps idx = []" using idx by (simp add: deps_at_def)
  show ?case
  proof (intro exI conjI)
    show "build_degrees (e # deps) (m, r) = Inr (m', r')" using a(1) b(1) by (simp add: e)
    show "wf_entries m'" by (rule b(2))
    show "fst ` set m' = fst ` set (e # deps) \<union> fst ` set m" using a(5) b(3) by (auto simp: e)
    show "\<forall>i. unwrap_or (map_of m' i) 0 = unwrap_or (map_of m i) 0 + length (deps_at (e # deps) i)"
      using b(4) m1 by (simp add: at zero)
    show "\<forall>d i. count_list (users_of r' d) i = count_list (users_of r d) i + count_list (deps_at (e # deps) i) d"
      using a(6) b(5) by (simp add: at zero)
  qed
qed (simp add: deps_at_def)

lemma table_map_Some: "table_map tables n = Some i \<Longrightarrow> i < length tables \<and> tbl_name (tables ! i) = n"
  by (auto simp: table_map_def in_set_zip dest!: map_of_SomeD)

lemma table_map_defined: "t \<in> set tables \<Longrightarrow> \<exists>i. table_map tables (tbl_name t) = Some i"
proof -
  assume t: "t \<in> set tables"
  have "fst ` set (zip (map tbl_name tables) [0 ..< length tables]) = tbl_name ` set tables"
    by (simp only: set_map [symmetric] map_fst_zip length_map length_upt diff_zero)
  with t have "tbl_name t \<in> fst ` set (zip (map tbl_name tables) [0 ..< length tables])" by simp
  then have "table_map tables (tbl_name t) \<noteq> None"
    unfolding table_map_def map_of_eq_None_iff by simp
  then show ?thesis by simp
qed

lemma table_map_distinct: "distinct (map tbl_name tables) \<Longrightarrow> i < length tables \<Longrightarrow> table_map tables (tbl_name (tables ! i)) = Some i"
proof -
  assume d: "distinct (map tbl_name tables)" "i < length tables"
  then obtain j where j: "table_map tables (tbl_name (tables ! i)) = Some j"
    using table_map_defined [of "tables ! i" tables] by auto
  with table_map_Some [OF j] d show ?thesis
    by (simp add: distinct_conv_nth) metis
qed

lemma build_deps_spec:
  assumes "wf_entries deps" "set ts \<subseteq> set tables"
  shows "\<exists>deps'. build_deps tables ts deps = Inr deps' \<and> wf_entries deps'
      \<and> fst ` set deps' = fst ` set deps \<union> {i. \<exists>t \<in> set ts. table_map tables (tbl_name t) = Some i}
      \<and> (\<forall>i. deps_at deps' i = deps_at deps i @ concat (map (table_deps tables) (filter (\<lambda>t. table_map tables (tbl_name t) = Some i) ts)))"
  using assms
proof (induction ts arbitrary: deps)
  case (Cons t ts)
  obtain idx where idx: "table_map tables (tbl_name t) = Some idx"
    using table_map_defined [of t tables] Cons.prems(2) by auto
  define deps1 where "deps1 = entries_insert idx (deps_at deps idx @ table_deps tables t) deps"
  have d1: "wf_entries deps1" "deps_at deps1 i = (if i = idx then deps_at deps idx @ table_deps tables t else deps_at deps i)"
    "fst ` set deps1 = insert idx (fst ` set deps)" for i
    using Cons.prems(1) by (simp_all add: deps1_def deps_at_def)
  have "set ts \<subseteq> set tables" using Cons.prems(2) by simp
  from Cons.IH [OF d1(1) this]
  obtain deps' where d': "build_deps tables ts deps1 = Inr deps'" "wf_entries deps'"
    "fst ` set deps' = fst ` set deps1 \<union> {i. \<exists>t \<in> set ts. table_map tables (tbl_name t) = Some i}"
    "\<forall>i. deps_at deps' i = deps_at deps1 i @ concat (map (table_deps tables) (filter (\<lambda>t. table_map tables (tbl_name t) = Some i) ts))"
    by (elim exE conjE) (rule that; assumption)
  have "build_deps tables (t # ts) deps = Inr deps'"
    using d'(1) by (simp add: idx deps1_def deps_at_def)
  moreover have "fst ` set deps' = fst ` set deps \<union> {i. \<exists>t' \<in> set (t # ts). table_map tables (tbl_name t') = Some i}"
    using d'(3) d1(3) idx by auto
  ultimately show ?case
    using d'(2,4) idx by (intro exI [of _ deps']) (auto simp: d1(2))
qed auto

section \<open>What the queue does\<close>

definition open_deps :: "(nat \<Rightarrow> nat list) \<Rightarrow> nat list \<Rightarrow> nat \<Rightarrow> nat list" where
  "open_deps D processed i = filter (\<lambda>d. d \<notin> set processed) (D i)"

lemma release_spec:
  assumes "\<forall>i \<in> N. map_of m i = Some (f i + count_list ds i)" "set ds \<subseteq> N"
    and "\<forall>i \<in> N. i \<in> S \<or> i \<in> set q \<longleftrightarrow> f i + count_list ds i = 0" "distinct q" "set q \<inter> S = {}" "set q \<subseteq> N"
  shows "\<exists>m' q'. release ds m q = Some (Inr (m', q')) \<and> (\<forall>i \<in> N. map_of m' i = Some (f i))
     \<and> (\<forall>i \<in> N. i \<in> S \<or> i \<in> set q' \<longleftrightarrow> f i = 0) \<and> distinct q' \<and> set q' \<inter> S = {} \<and> set q' \<subseteq> N"
  using assms
proof (induction ds arbitrary: m q)
  case (Cons j ds)
  have j: "j \<in> N" using Cons.prems(2) by simp
  let ?d = "f j + count_list ds j"
  have md: "map_of m j = Some (Suc ?d)" using Cons.prems(1) j by simp
  have jfree: "j \<notin> S" "j \<notin> set q" using Cons.prems(3) j by auto
  define q1 where "q1 = (if ?d = 0 then insert_ahead j q else q)"
  have "release (j # ds) m q = release ds (entries_insert j ?d m) q1"
    by (simp add: md q1_def)
  moreover have "\<forall>i \<in> N. map_of (entries_insert j ?d m) i = Some (f i + count_list ds i)"
    using Cons.prems(1) by auto
  moreover have "\<forall>i \<in> N. i \<in> S \<or> i \<in> set q1 \<longleftrightarrow> f i + count_list ds i = 0"
    using Cons.prems(3) jfree by (auto simp: q1_def split: if_splits)
  moreover have "distinct q1" "set q1 \<inter> S = {}" "set q1 \<subseteq> N" "set ds \<subseteq> N"
    using Cons.prems(2,4-6) jfree j by (auto simp: q1_def)
  ultimately show ?case
    using Cons.IH by simp
qed auto

definition kahn_inv :: "nat set \<Rightarrow> (nat \<Rightarrow> nat list) \<Rightarrow> nat list \<Rightarrow> degrees \<Rightarrow> nat list \<Rightarrow> bool" where
  "kahn_inv N D queue m processed =
     (distinct (processed @ queue) \<and> set (processed @ queue) \<subseteq> N
      \<and> (\<forall>i \<in> N. map_of m i = Some (length (open_deps D processed i)))
      \<and> (\<forall>i \<in> N. i \<in> set (processed @ queue) \<longleftrightarrow> open_deps D processed i = [])
      \<and> (\<forall>k < length processed. set (D (processed ! k)) \<subseteq> set (take k processed)))"

lemma open_deps_step:
  "idx \<notin> set processed \<Longrightarrow> length (open_deps D processed i) = length (open_deps D (processed @ [idx]) i) + count_list (D i) idx"
proof -
  assume "idx \<notin> set processed"
  then have "length (filter (\<lambda>d. d \<notin> set processed) xs)
      = length (filter (\<lambda>d. d \<notin> set (processed @ [idx])) xs) + count_list xs idx" for xs
    by (induction xs) auto
  then show ?thesis by (simp add: open_deps_def)
qed

lemma kahn_inv_step:
  assumes inv: "kahn_inv N D (idx # queue) m processed" and users: "\<forall>i \<in> N. count_list us i = count_list (D i) idx" "set us \<subseteq> N"
  shows "\<exists>m' queue'. release us m queue = Some (Inr (m', queue')) \<and> kahn_inv N D queue' m' (processed @ [idx])"
proof -
  have idx: "idx \<in> N" "idx \<notin> set processed" "idx \<notin> set queue" "open_deps D processed idx = []"
    using inv by (auto simp: kahn_inv_def)
  let ?f = "\<lambda>i. length (open_deps D (processed @ [idx]) i)"
  let ?S = "set (processed @ [idx])"
  have deg: "length (open_deps D processed i) = ?f i + count_list us i" if "i \<in> N" for i
    using open_deps_step [OF idx(2)] users(1) that by simp
  have own: "set (D idx) \<subseteq> set processed"
    using idx(4) by (auto simp: open_deps_def filter_empty_conv)
  have "\<forall>i \<in> N. map_of m i = Some (?f i + count_list us i)"
    using inv deg by (simp add: kahn_inv_def)
  moreover have "\<forall>i \<in> N. i \<in> ?S \<or> i \<in> set queue \<longleftrightarrow> ?f i + count_list us i = 0"
  proof
    fix i assume "i \<in> N"
    then have "i \<in> set (processed @ idx # queue) \<longleftrightarrow> open_deps D processed i = []"
      using inv by (simp add: kahn_inv_def)
    with deg [OF \<open>i \<in> N\<close>] show "i \<in> ?S \<or> i \<in> set queue \<longleftrightarrow> ?f i + count_list us i = 0"
      by auto
  qed
  moreover have "distinct queue" "set queue \<inter> ?S = {}" "set queue \<subseteq> N"
    using inv by (auto simp: kahn_inv_def)
  ultimately obtain m' queue' where r: "release us m queue = Some (Inr (m', queue'))" "\<forall>i \<in> N. map_of m' i = Some (?f i)"
    "\<forall>i \<in> N. i \<in> ?S \<or> i \<in> set queue' \<longleftrightarrow> ?f i = 0" "distinct queue'" "set queue' \<inter> ?S = {}" "set queue' \<subseteq> N"
    using release_spec [of N m ?f us ?S queue] users(2) by blast
  have "kahn_inv N D queue' m' (processed @ [idx])"
    unfolding kahn_inv_def
  proof (intro conjI)
    show "\<forall>k < length (processed @ [idx]). set (D ((processed @ [idx]) ! k)) \<subseteq> set (take k (processed @ [idx]))"
      using inv own by (auto simp: kahn_inv_def nth_append less_Suc_eq)
  qed (use r inv idx in \<open>auto simp: kahn_inv_def\<close>)
  with r(1) show ?thesis by blast
qed

lemma kahn_spec:
  assumes "\<forall>d. \<forall>i \<in> N. count_list (users_of reverse d) i = count_list (D i) d" "\<forall>d. set (users_of reverse d) \<subseteq> N"
    and "kahn_inv N D queue m processed"
  shows "\<exists>order m'. kahn reverse queue m processed = Some (Inr order) \<and> kahn_inv N D [] m' order"
  using assms
proof (induction reverse queue m processed rule: kahn.induct)
  case (2 reverse idx queue m processed)
  obtain m' queue' where r: "release (users_of reverse idx) m queue = Some (Inr (m', queue'))"
    "kahn_inv N D queue' m' (processed @ [idx])"
    using kahn_inv_step [OF "2.prems"(3), of "users_of reverse idx"] "2.prems"(1,2) by blast
  with "2.IH" [of "Inr (m', queue')" "(m', queue')" m' queue'] "2.prems"(1,2) show ?case
    by (simp add: users_of_def)
qed auto

section \<open>The verdict\<close>

text \<open>The tables a table has to come after, by name: those its foreign keys reference, itself included.\<close>

definition references_rel :: "table_config list \<Rightarrow> (string \<times> string) set" where
  "references_rel tables =
     {(tbl_name t, fk_references_table fk) | t fk. t \<in> set tables \<and> fk \<in> set (tbl_foreign_keys t)
        \<and> fk_references_table fk \<in> tbl_name ` set tables}"

definition table_positions :: "table_config list \<Rightarrow> nat set" where
  "table_positions tables = {i. \<exists>t \<in> set tables. table_map tables (tbl_name t) = Some i}"

definition position_deps :: "table_config list \<Rightarrow> nat \<Rightarrow> nat list" where
  "position_deps tables i = concat (map (table_deps tables) (filter (\<lambda>t. table_map tables (tbl_name t) = Some i) tables))"

lemma table_deps_mem: "d \<in> set (table_deps tables t) \<longleftrightarrow> (\<exists>fk \<in> set (tbl_foreign_keys t). table_map tables (fk_references_table fk) = Some d)"
  by (auto simp: table_deps_def map_filter_def) (force simp: image_iff)

lemma table_map_position: "table_map tables n = Some d \<Longrightarrow> d \<in> table_positions tables"
  using table_map_Some [of tables n d] by (auto simp: table_positions_def)

lemma positions_bounded: "table_positions tables \<subseteq> {0 ..< length tables}"
  by (auto simp: table_positions_def dest: table_map_Some)

lemma set_from_count: "(\<forall>i. count_list us i = 0 \<or> i \<in> N) \<Longrightarrow> set us \<subseteq> N"
  by (auto simp: count_list_0_iff)

lemma sort_tables_kahn:
  assumes perm: "\<And>m. mset (iteration m) = mset m"
  shows "\<exists>order m. kahn_inv (table_positions tables) (position_deps tables) [] m order \<and>
     sort_tables_topologically iteration tables =
       (if length order \<noteq> length tables then
          Some (Inl (Internal (''Circular dependency detected among tables: ['' @
            join '', '' (map tbl_name (filter (\<lambda>t. case table_map tables (tbl_name t) of Some i \<Rightarrow> i \<notin> set order | None \<Rightarrow> False) tables))
            @ '']'')))
        else Some (Inr (map (\<lambda>i. tables ! i) order)))"
proof -
  let ?N = "table_positions tables" and ?D = "position_deps tables"
  obtain deps where d: "build_deps tables tables [] = Inr deps" "wf_entries deps" "fst ` set deps = ?N" "\<forall>i. deps_at deps i = ?D i"
    using build_deps_spec [of "[]" tables tables] by (auto simp: table_positions_def position_deps_def deps_at_def)
  have perm_map: "map_of (iteration deps) = map_of deps" "wf_entries (iteration deps)" "fst ` set (iteration deps) = ?N"
  proof -
    show wf: "wf_entries (iteration deps)"
      using d(2) mset_eq_imp_distinct_iff [of "map fst (iteration deps)" "map fst deps"] perm by (simp add: wf_entries_def)
    show "map_of (iteration deps) = map_of deps"
      using map_of_perm [OF wf d(2)] mset_eq_setD [OF perm] by simp
    show "fst ` set (iteration deps) = ?N"
      using d(3) mset_eq_setD [OF perm] by simp
  qed
  obtain m r where b: "build_degrees (iteration deps) ([], []) = Inr (m, r)" "wf_entries m" "fst ` set m = ?N"
    "\<forall>i. unwrap_or (map_of m i) 0 = length (?D i)" "\<forall>e i. count_list (users_of r e) i = count_list (?D i) e"
    using build_degrees_spec [of "[]" "iteration deps" "[]"] perm_map d(4) by (auto simp: deps_at_def users_of_def)
  let ?queue = "sort (map fst (filter (\<lambda>(_, deg). deg = 0) m))"
  have m: "map_of m i = Some (length (?D i))" if "i \<in> ?N" for i
    using b(3,4) that by (cases "map_of m i") (auto simp: map_of_eq_None_iff dest: spec [of _ i])
  have q: "i \<in> set ?queue \<longleftrightarrow> i \<in> ?N \<and> ?D i = []" for i
  proof -
    have "i \<in> set ?queue \<longleftrightarrow> (i, 0) \<in> set m" by force
    also have "\<dots> \<longleftrightarrow> map_of m i = Some 0" using b(2) by (simp add: map_of_in_entries)
    also have "\<dots> \<longleftrightarrow> i \<in> ?N \<and> ?D i = []"
    proof (cases "i \<in> ?N")
      case False
      with b(3) have "map_of m i = None" by (simp add: map_of_eq_None_iff)
      with False show ?thesis by simp
    qed (simp add: m)
    finally show ?thesis .
  qed
  have users: "set (users_of r e) \<subseteq> ?N" for e
  proof (rule set_from_count, rule allI)
    fix i
    have "?D i = []" if "i \<notin> ?N"
      using that by (auto simp: position_deps_def table_positions_def filter_empty_conv)
    with b(5) show "count_list (users_of r e) i = 0 \<or> i \<in> ?N" by auto
  qed
  have "kahn_inv ?N ?D ?queue m []"
    unfolding kahn_inv_def
  proof (intro conjI)
    show "distinct ([] @ ?queue)"
      using b(2) by (simp add: wf_entries_def distinct_map_filter)
  qed (use q m in \<open>auto simp: open_deps_def\<close>)
  from kahn_spec [OF _ _ this, of r] b(5) users
  obtain order m' where k: "kahn r ?queue m [] = Some (Inr order)" "kahn_inv ?N ?D [] m' order" by auto
  have "sort_tables_topologically iteration tables =
       (if length order \<noteq> length tables then
          Some (Inl (Internal (''Circular dependency detected among tables: ['' @
            join '', '' (map tbl_name (filter (\<lambda>t. case table_map tables (tbl_name t) of Some i \<Rightarrow> i \<notin> set order | None \<Rightarrow> False) tables))
            @ '']'')))
        else Some (Inr (map (\<lambda>i. tables ! i) order)))"
    by (simp only: sort_tables_topologically_def d(1) b(1) k(1) sum.case prod.case option.case Let_def)
  with k(2) show ?thesis by blast
qed

lemma filter_eq_single: "distinct xs \<Longrightarrow> x \<in> set xs \<Longrightarrow> filter (\<lambda>t. t = x) xs = [x]"
  by (induction xs) (auto simp: filter_empty_conv)

lemma positions_distinct:
  assumes "distinct (map tbl_name tables)"
  shows "table_positions tables = {0 ..< length tables}"
    and "i < length tables \<Longrightarrow> position_deps tables i = table_deps tables (tables ! i)"
proof -
  show "table_positions tables = {0 ..< length tables}"
    using positions_bounded table_map_distinct [OF assms] by (fastforce simp: table_positions_def)
  assume i: "i < length tables"
  have "filter (\<lambda>t. table_map tables (tbl_name t) = Some i) tables = [tables ! i]"
  proof -
    have "table_map tables (tbl_name t) = Some i \<longleftrightarrow> t = tables ! i" if "t \<in> set tables" for t
      using that table_map_distinct [OF assms] i by (fastforce simp: in_set_conv_nth)
    then have "filter (\<lambda>t. table_map tables (tbl_name t) = Some i) tables = filter (\<lambda>t. t = tables ! i) tables"
      by (rule filter_cong [OF refl])
    moreover have "distinct tables" using assms by (simp add: distinct_map)
    ultimately show ?thesis
      using filter_eq_single [of tables "tables ! i"] i by simp
  qed
  then show "position_deps tables i = table_deps tables (tables ! i)"
    by (simp add: position_deps_def)
qed

lemma index_in_distinct: "distinct xs \<Longrightarrow> k < length xs \<Longrightarrow> length (takeWhile (\<lambda>x. x \<noteq> xs ! k) xs) = k"
  by (subst takeWhile_eq_take_P_nth [where n = k]) (auto simp: nth_eq_iff_index_eq)

lemma references_iff_positions:
  assumes "distinct (map tbl_name tables)"
  shows "(a, b) \<in> references_rel tables \<longleftrightarrow>
    (\<exists>i < length tables. \<exists>j \<in> set (position_deps tables i). a = tbl_name (tables ! i) \<and> b = tbl_name (tables ! j))"
proof
  assume "(a, b) \<in> references_rel tables"
  then obtain t fk u where t: "t \<in> set tables" "fk \<in> set (tbl_foreign_keys t)" "u \<in> set tables"
    "tbl_name u = fk_references_table fk" "a = tbl_name t" "b = tbl_name u"
    by (auto simp: references_rel_def)
  then obtain i j where "i < length tables" "t = tables ! i" "j < length tables" "u = tables ! j"
    by (metis in_set_conv_nth)
  with t show "\<exists>i < length tables. \<exists>j \<in> set (position_deps tables i). a = tbl_name (tables ! i) \<and> b = tbl_name (tables ! j)"
    using positions_distinct [OF assms] table_map_distinct [OF assms]
    by (intro exI [of _ i] conjI bexI [of _ j]) (auto simp: table_deps_mem intro!: bexI [of _ fk] simp flip: t(4))
next
  assume "\<exists>i < length tables. \<exists>j \<in> set (position_deps tables i). a = tbl_name (tables ! i) \<and> b = tbl_name (tables ! j)"
  then obtain i j where i: "i < length tables" "j \<in> set (position_deps tables i)" "a = tbl_name (tables ! i)" "b = tbl_name (tables ! j)"
    by blast
  then obtain fk where fk: "fk \<in> set (tbl_foreign_keys (tables ! i))" "table_map tables (fk_references_table fk) = Some j"
    using positions_distinct(2) [OF assms] by (auto simp: table_deps_mem)
  from table_map_Some [OF fk(2)] have "fk_references_table fk \<in> tbl_name ` set tables" "b = fk_references_table fk"
    using i(4) by (metis image_eqI nth_mem, simp)
  with i fk(1) show "(a, b) \<in> references_rel tables"
    by (auto simp: references_rel_def intro!: exI [of _ "tables ! i"] exI [of _ fk])
qed

lemma acyclic_complete:
  assumes "distinct (map tbl_name tables)" "acyclic (references_rel tables)"
    and inv: "kahn_inv (table_positions tables) (position_deps tables) [] m order"
  shows "set order = {0 ..< length tables}"
proof (rule ccontr)
  let ?N = "{0 ..< length tables}"
  note N = positions_distinct [OF assms(1)]
  assume ne: "set order \<noteq> ?N"
  have "references_rel tables \<subseteq> tbl_name ` set tables \<times> tbl_name ` set tables"
    by (auto simp: references_rel_def)
  then have "finite (references_rel tables)" by (rule finite_subset) simp
  then have "wf ((references_rel tables)\<inverse>)" using assms(2) by (rule finite_acyclic_wf_converse)
  then have wf: "wf (inv_image ((references_rel tables)\<inverse>) (\<lambda>i. tbl_name (tables ! i)))" by (rule wf_inv_image)
  have "set order \<subseteq> ?N" using inv N(1) by (simp add: kahn_inv_def)
  with ne obtain i0 where i0: "i0 \<in> ?N - set order" by blast
  from wfE_min [OF wf i0] obtain i where i: "i \<in> ?N - set order"
    and min: "\<And>j. (j, i) \<in> inv_image ((references_rel tables)\<inverse>) (\<lambda>i. tbl_name (tables ! i)) \<Longrightarrow> j \<notin> ?N - set order"
    by blast
  from i inv N(1) have "open_deps (position_deps tables) order i \<noteq> []" by (auto simp: kahn_inv_def)
  then obtain j where j: "j \<in> set (position_deps tables i)" "j \<notin> set order"
    by (auto simp: open_deps_def filter_empty_conv)
  then have "j \<in> ?N" using i N by (auto simp: table_deps_mem dest: table_map_Some)
  moreover have "(tbl_name (tables ! i), tbl_name (tables ! j)) \<in> references_rel tables"
    using references_iff_positions [OF assms(1)] i j(1) by auto
  ultimately show False using min [of j] j(2) by simp
qed

lemma order_respects:
  assumes "distinct (map tbl_name tables)" "kahn_inv (table_positions tables) (position_deps tables) [] m order" "set order = {0 ..< length tables}"
  shows "acyclic (references_rel tables)"
    and "i < length order \<Longrightarrow> j < length order \<Longrightarrow> fk \<in> set (tbl_foreign_keys (tables ! (order ! i)))
      \<Longrightarrow> tbl_name (tables ! (order ! j)) = fk_references_table fk \<Longrightarrow> j < i"
proof -
  note N = positions_distinct [OF assms(1)]
  have dist: "distinct order" and before: "\<And>k. k < length order \<Longrightarrow> set (position_deps tables (order ! k)) \<subseteq> set (take k order)"
    using assms(2) by (auto simp: kahn_inv_def)
  have earlier: "l < k" if "k < length order" "l < length order" "order ! l \<in> set (position_deps tables (order ! k))" for k l
  proof -
    from before [OF that(1)] that(3) have "order ! l \<in> set (take k order)" by blast
    then obtain l' where "l' < k" "l' < length order" "order ! l' = order ! l" by (auto simp: in_set_conv_nth)
    with dist that(2) show ?thesis by (simp add: nth_eq_iff_index_eq)
  qed
  have own: "table_map tables (tbl_name (tables ! (order ! j))) = Some (order ! j)" if "j < length order" for j
    using table_map_distinct [OF assms(1)] assms(3) that by (metis atLeastLessThan_iff nth_mem)
  show "acyclic (references_rel tables)"
  proof (rule acyclicI_order)
    fix a b
    assume "(a, b) \<in> references_rel tables"
    then obtain p q where p: "p < length tables" "q \<in> set (position_deps tables p)" "a = tbl_name (tables ! p)" "b = tbl_name (tables ! q)"
      using references_iff_positions [OF assms(1)] by blast
    from p(1) assms(3) obtain k where k: "k < length order" "order ! k = p" by (metis atLeastLessThan_iff in_set_conv_nth zero_le)
    from p(1,2) N have "q < length tables" by (auto simp: table_deps_mem dest: table_map_Some)
    with assms(3) obtain l where l: "l < length order" "order ! l = q" by (metis atLeastLessThan_iff in_set_conv_nth zero_le)
    let ?f = "\<lambda>n. length (takeWhile (\<lambda>x. x \<noteq> the (table_map tables n)) order)"
    have "?f a = k" "?f b = l"
      using index_in_distinct [OF dist k(1)] index_in_distinct [OF dist l(1)] own [OF k(1)] own [OF l(1)]
      by (simp_all add: p(3,4) flip: k(2) l(2))
    moreover have "l < k" using earlier [OF k(1) l(1)] p(2) by (simp add: k(2) l(2))
    ultimately show "?f b < ?f a" by simp
  qed
  assume i: "i < length order" "j < length order" "fk \<in> set (tbl_foreign_keys (tables ! (order ! i)))"
    "tbl_name (tables ! (order ! j)) = fk_references_table fk"
  have "order ! i < length tables" using assms(3) i(1) by (metis atLeastLessThan_iff nth_mem)
  with i own [OF i(2)] N(2) have "order ! j \<in> set (position_deps tables (order ! i))"
    by (auto simp: table_deps_mem)
  with earlier i(1,2) show "j < i" by blast
qed

lemma sort_tables_total: "(\<And>m. mset (iteration m) = mset m) \<Longrightarrow> \<exists>r. sort_tables_topologically iteration tables = Some r"
  using sort_tables_kahn [of iteration tables] by (auto split: if_splits)

lemma sort_tables_subset:
  assumes "\<And>m. mset (iteration m) = mset m" "distinct (map tbl_name tables)" "sort_tables_topologically iteration tables = Some (Inr ts)"
  shows "set ts \<subseteq> set tables"
proof -
  obtain order m where inv: "kahn_inv (table_positions tables) (position_deps tables) [] m order"
    and res: "sort_tables_topologically iteration tables = (if length order \<noteq> length tables then
          Some (Inl (Internal (''Circular dependency detected among tables: ['' @
            join '', '' (map tbl_name (filter (\<lambda>t. case table_map tables (tbl_name t) of Some i \<Rightarrow> i \<notin> set order | None \<Rightarrow> False) tables))
            @ '']'')))
        else Some (Inr (map (\<lambda>i. tables ! i) order)))"
    using sort_tables_kahn [OF assms(1)] by blast
  have "set order \<subseteq> {0 ..< length tables}"
    using inv positions_distinct(1) [OF assms(2)] by (auto simp: kahn_inv_def)
  moreover have "ts = map (\<lambda>i. tables ! i) order" using res assms(3) by (simp split: if_splits)
  ultimately show ?thesis by auto
qed

text \<open>C29: with table names that are all different, sorting always ends without a panic; it succeeds exactly
  when no table references itself through a chain of foreign keys, and then the result lists every table
  once, each after all the tables it references. This holds for every iteration order of the hash map.\<close>

theorem sort_tables_correct:
  assumes "\<And>m. mset (iteration m) = mset m" "distinct (map tbl_name tables)"
  shows "\<exists>r. sort_tables_topologically iteration tables = Some r \<and> (is_ok r \<longleftrightarrow> acyclic (references_rel tables)) \<and>
     (\<forall>ts. r = Inr ts \<longrightarrow> mset ts = mset tables \<and>
        (\<forall>i < length ts. \<forall>fk \<in> set (tbl_foreign_keys (ts ! i)). \<forall>j < length ts.
           tbl_name (ts ! j) = fk_references_table fk \<longrightarrow> j < i))"
proof -
  obtain order m where inv: "kahn_inv (table_positions tables) (position_deps tables) [] m order"
    and res: "sort_tables_topologically iteration tables = (if length order \<noteq> length tables then
          Some (Inl (Internal (''Circular dependency detected among tables: ['' @
            join '', '' (map tbl_name (filter (\<lambda>t. case table_map tables (tbl_name t) of Some i \<Rightarrow> i \<notin> set order | None \<Rightarrow> False) tables))
            @ '']'')))
        else Some (Inr (map (\<lambda>i. tables ! i) order)))"
    using sort_tables_kahn [OF assms(1)] by blast
  have order: "distinct order" "set order \<subseteq> {0 ..< length tables}"
    using inv positions_distinct(1) [OF assms(2)] by (auto simp: kahn_inv_def)
  then have all: "length order = length tables \<longleftrightarrow> set order = {0 ..< length tables}"
    by (metis card_atLeastLessThan card_subset_eq diff_zero distinct_card finite_atLeastLessThan)
  show ?thesis
  proof (cases "length order = length tables")
    case False
    with res all acyclic_complete [OF assms(2) _ inv] show ?thesis by auto
  next
    case True
    then have set: "set order = {0 ..< length tables}" by (simp add: all)
    then have "mset order = mset [0 ..< length tables]"
      using order(1) by (intro set_eq_iff_mset_eq_distinct [THEN iffD1]) auto
    then have "mset (map (\<lambda>i. tables ! i) order) = mset (map (\<lambda>i. tables ! i) [0 ..< length tables])"
      by (simp only: mset_map)
    with True res order_respects [OF assms(2) inv set] show ?thesis
      by (simp add: map_nth)
  qed
qed

definition sample_fk :: "string \<Rightarrow> string \<Rightarrow> foreign_key_config" where
  "sample_fk col target = \<lparr> fk_column = col, fk_references_table = target, fk_references_column = ''id'', fk_on_delete = Cascade, fk_on_update = NoAction \<rparr>"

definition sample_tables :: "table_config list" where
  "sample_tables =
     [\<lparr> tbl_name = ''comments'', tbl_database = ''main'', tbl_columns = [],
        tbl_foreign_keys = [sample_fk ''post_id'' ''posts'', sample_fk ''user_id'' ''users''] \<rparr>,
      \<lparr> tbl_name = ''posts'', tbl_database = ''main'', tbl_columns = [], tbl_foreign_keys = [sample_fk ''user_id'' ''users''] \<rparr>,
      \<lparr> tbl_name = ''users'', tbl_database = ''main'', tbl_columns = [], tbl_foreign_keys = [] \<rparr>]"

theorem sort_tables_correct_witness:
  "\<exists>r. sort_tables_topologically rev sample_tables = Some r \<and> (is_ok r \<longleftrightarrow> acyclic (references_rel sample_tables)) \<and>
     (\<forall>ts. r = Inr ts \<longrightarrow> mset ts = mset sample_tables \<and>
        (\<forall>i < length ts. \<forall>fk \<in> set (tbl_foreign_keys (ts ! i)). \<forall>j < length ts.
           tbl_name (ts ! j) = fk_references_table fk \<longrightarrow> j < i))"
  by (rule sort_tables_correct) (simp_all add: sample_tables_def)

lemma sort_sample: "map_option (map_sum id (map tbl_name)) (sort_tables_topologically rev sample_tables) = Some (Inr [''users'', ''posts'', ''comments''])"
  by code_simp

text \<open>A table whose rows refer to rows of the same table is taken for a cycle.\<close>

lemma self_reference_rejected:
  "sort_tables_topologically id [\<lparr> tbl_name = ''pages'', tbl_database = ''main'', tbl_columns = [], tbl_foreign_keys = [sample_fk ''parent_id'' ''pages''] \<rparr>]
   = Some (Inl (Internal ''Circular dependency detected among tables: [pages]''))"
  by code_simp

lemma positions_of_duplicates: "\<not> distinct (map tbl_name tables) \<Longrightarrow> card (table_positions tables) < length tables"
proof -
  assume "\<not> distinct (map tbl_name tables)"
  then have "card (set (map tbl_name tables)) < length (map tbl_name tables)"
    by (metis card_distinct card_length le_neq_implies_less)
  moreover have "table_positions tables \<subseteq> (\<lambda>n. the (table_map tables n)) ` set (map tbl_name tables)"
    by (force simp: table_positions_def)
  then have "card (table_positions tables) \<le> card (set (map tbl_name tables))"
    by (rule surj_card_le [OF finite_set])
  ultimately show ?thesis by simp
qed

text \<open>Two tables of the same name, in two different databases as well, are always rejected, with the
  message for a circular dependency, whether or not any table has a foreign key.\<close>

theorem duplicate_names_rejected:
  assumes "\<And>m. mset (iteration m) = mset m" "\<not> distinct (map tbl_name tables)"
  shows "\<exists>names. sort_tables_topologically iteration tables
     = Some (Inl (Internal (''Circular dependency detected among tables: ['' @ join '', '' names @ '']'')))"
proof -
  obtain order m where inv: "kahn_inv (table_positions tables) (position_deps tables) [] m order"
    and res: "sort_tables_topologically iteration tables = (if length order \<noteq> length tables then
          Some (Inl (Internal (''Circular dependency detected among tables: ['' @
            join '', '' (map tbl_name (filter (\<lambda>t. case table_map tables (tbl_name t) of Some i \<Rightarrow> i \<notin> set order | None \<Rightarrow> False) tables))
            @ '']'')))
        else Some (Inr (map (\<lambda>i. tables ! i) order)))"
    using sort_tables_kahn [OF assms(1)] by blast
  have "length order = card (set order)" "set order \<subseteq> table_positions tables"
    using inv by (auto simp: kahn_inv_def distinct_card)
  then have "length order \<le> card (table_positions tables)"
    using card_mono [OF finite_subset [OF positions_bounded]] by auto
  with positions_of_duplicates [OF assms(2)] res show ?thesis by auto
qed

theorem duplicate_names_rejected_witness:
  "\<exists>names. sort_tables_topologically id
      [\<lparr> tbl_name = ''users'', tbl_database = ''main'', tbl_columns = [], tbl_foreign_keys = [] \<rparr>,
       \<lparr> tbl_name = ''users'', tbl_database = ''archive'', tbl_columns = [], tbl_foreign_keys = [] \<rparr>]
     = Some (Inl (Internal (''Circular dependency detected among tables: ['' @ join '', '' names @ '']'')))"
  by (rule duplicate_names_rejected) simp_all

end
