(* ===== verification/Routing.thy ===== *)
theory Routing
  imports Config_Types "HOL-Library.Multiset"
begin

text \<open>
  Which endpoint configuration a request is judged by: the table of configurations
  (src/server/router.rs, \<open>build_router\<close>), the prefix and wildcard lookups
  (src/server/prefix_match.rs) and the two lookups of the application state (src/server/state.rs).
  The table is a hash map: the list of its entries in the order an iteration visits them. The axum
  router itself, which selects the handler, is not part of the repository.
\<close>

section \<open>Registration\<close>

definition replace_char :: "char \<Rightarrow> string \<Rightarrow> string \<Rightarrow> string" where
  "replace_char c r s = concat (map (\<lambda>x. if x = c then r else [x]) s)"

abbreviation rest_pattern :: string where
  "rest_pattern \<equiv> ''{*rest}''"

definition route_path :: "endpoint_config \<Rightarrow> string" where
  "route_path e =
     (let path = replace_char (CHR ''*'') rest_pattern (ep_path e) in
      if ep_action e = ActStaticFiles \<and> \<not> contains_str path rest_pattern
      then trim_end_char (CHR ''/'') path @ ''/'' @ rest_pattern else path)"

definition method_key :: "string \<Rightarrow> string \<Rightarrow> string" where
  "method_key path method = path @ ''#'' @ method"

type_synonym endpoint_table = "(string, endpoint_config) entries"

definition register_endpoint :: "endpoint_config \<Rightarrow> endpoint_table \<Rightarrow> endpoint_table" where
  "register_endpoint e configs =
     (let path = route_path e;
          configs1 = fold (\<lambda>m. entries_insert (method_key path (http_method_str m)) e) (ep_methods e) configs
      in if ep_action e = ActStaticFiles then
           (let bare = trim_end_char (CHR ''/'') (trim_end_str rest_pattern path) in
            if bare = [] then entries_insert ''/'' e configs1
            else entries_insert (bare @ ''/'') e (entries_insert bare e configs1))
         else configs1)"

definition register_endpoints :: "endpoint_config list \<Rightarrow> endpoint_table" where
  "register_endpoints endpoints = fold register_endpoint endpoints []"

section \<open>Lookup\<close>

function find_prefix_match :: "endpoint_table \<Rightarrow> string \<Rightarrow> (endpoint_config \<Rightarrow> bool) \<Rightarrow> endpoint_config option" where
  "find_prefix_match configs current check =
     (if current = [] then None
      else case (case map_of configs current of Some e \<Rightarrow> if check e then Some e else None | None \<Rightarrow> None) of
             Some e \<Rightarrow> Some e
           | None \<Rightarrow>
               (case rsplit_once (CHR ''/'') current of
                  Some (parent, _) \<Rightarrow> find_prefix_match configs parent check
                | None \<Rightarrow> None))"
  by pat_completeness auto
termination
  by (relation "measure (\<lambda>(configs, current, check). length current)") (auto simp: rsplit_once_Some)

declare find_prefix_match.simps [simp del]

definition wildcard_matches :: "string \<Rightarrow> string \<Rightarrow> bool" where
  "wildcard_matches stored path =
     (case split_once (CHR ''{'') stored of
        Some (base, _) \<Rightarrow>
          (let pattern_base = trim_end_char (CHR ''/'') base in path = pattern_base \<or> starts_with path (pattern_base @ ''/''))
      | None \<Rightarrow> False)"

fun find_wildcard_match :: "endpoint_table \<Rightarrow> string \<Rightarrow> (endpoint_config \<Rightarrow> bool) \<Rightarrow> endpoint_config option" where
  "find_wildcard_match [] path check = None"
| "find_wildcard_match ((stored, e) # configs) path check =
     (if wildcard_matches stored path \<and> check e then Some e else find_wildcard_match configs path check)"

definition get_endpoint_config :: "endpoint_table \<Rightarrow> string \<Rightarrow> endpoint_config option" where
  "get_endpoint_config configs path =
     (case map_of configs path of
        Some e \<Rightarrow> Some e
      | None \<Rightarrow>
          (case find_prefix_match configs path (\<lambda>_. True) of
             Some e \<Rightarrow> Some e
           | None \<Rightarrow> find_wildcard_match configs path (\<lambda>_. True)))"

definition serves_method :: "string \<Rightarrow> endpoint_config \<Rightarrow> bool" where
  "serves_method method e = list_ex (\<lambda>m. http_method_matches m method) (ep_methods e)"

definition get_endpoint_config_for_method :: "endpoint_table \<Rightarrow> string \<Rightarrow> string \<Rightarrow> endpoint_config option" where
  "get_endpoint_config_for_method configs path method =
     (case map_of configs (method_key path (map to_upper_ascii method)) of
        Some e \<Rightarrow> Some e
      | None \<Rightarrow>
          (case (case map_of configs path of Some e \<Rightarrow> if serves_method method e then Some e else None | None \<Rightarrow> None) of
             Some e \<Rightarrow> Some e
           | None \<Rightarrow>
               (case find_prefix_match configs path (serves_method method) of
                  Some e \<Rightarrow> Some e
                | None \<Rightarrow> find_wildcard_match configs path (serves_method method))))"

section \<open>The table of a configuration\<close>

lemma method_key_inj:
  assumes "CHR ''#'' \<notin> set p" "CHR ''#'' \<notin> set q"
  shows "method_key p m = method_key q n \<longleftrightarrow> p = q \<and> m = n"
proof
  assume "method_key p m = method_key q n"
  then have "split_once (CHR ''#'') (method_key p m) = Some (q, n)"
    using assms(2) by (simp add: method_key_def split_once_Some)
  moreover have "split_once (CHR ''#'') (method_key p m) = Some (p, m)"
    using assms(1) by (simp add: method_key_def split_once_Some)
  ultimately show "p = q \<and> m = n" by simp
qed simp

lemma hash_in_method_key [simp]: "CHR ''#'' \<in> set (method_key p m)"
  by (simp add: method_key_def)

lemma set_trim_end_char: "set (trim_end_char c s) \<subseteq> set s"
  by (auto simp: trim_end_char_def dest: set_dropWhileD)

lemma set_trim_end_str: "set (trim_end_str p s) \<subseteq> set s"
proof (induction p s rule: trim_end_str.induct)
  case (1 p s)
  show ?case
  proof (cases "p = [] \<or> strip_suffix p s = None")
    case True
    then show ?thesis by (auto simp: trim_end_str.simps [of p s])
  next
    case False
    then obtain r where r: "strip_suffix p s = Some r" by auto
    then have "set r \<subseteq> set s" by auto
    moreover have "trim_end_str p s = trim_end_str p r"
      using False r by (subst trim_end_str.simps) (simp del: strip_suffix_Some)
    ultimately show ?thesis using 1 [OF _ r] False by auto
  qed
qed

lemma set_replace_char: "set (replace_char c r s) \<subseteq> set r \<union> set s"
  by (auto simp: replace_char_def split: if_splits)

lemma route_path_no_hash: "CHR ''#'' \<notin> set (ep_path e) \<Longrightarrow> CHR ''#'' \<notin> set (route_path e)"
  using set_replace_char [of "CHR ''*''" rest_pattern "ep_path e"]
    set_trim_end_char [of "CHR ''/''" "replace_char (CHR ''*'') rest_pattern (ep_path e)"]
  by (auto simp: route_path_def Let_def split: if_splits)

lemma http_method_str_upper [simp]: "map to_upper_ascii (http_method_str m) = http_method_str m"
  by (cases m) (simp_all add: to_upper_ascii_def ccode_def)

lemma fold_insert_lookup:
  "map_of (fold (\<lambda>m. entries_insert (key m) e) ms configs) k
   = (if k \<in> key ` set ms then Some e else map_of configs k)"
  by (induction ms arbitrary: configs) auto

lemma register_endpoint_method_key:
  assumes "CHR ''#'' \<notin> set (ep_path e)" "CHR ''#'' \<notin> set p"
  shows "map_of (register_endpoint e configs) (method_key p s)
     = (if p = route_path e \<and> s \<in> http_method_str ` set (ep_methods e) then Some e else map_of configs (method_key p s))"
proof -
  let ?bare = "trim_end_char (CHR ''/'') (trim_end_str rest_pattern (route_path e))"
  have "CHR ''#'' \<notin> set ?bare"
    using set_trim_end_char set_trim_end_str route_path_no_hash [OF assms(1)] by blast
  then have bare: "method_key p s \<noteq> ?bare" "method_key p s \<noteq> ?bare @ ''/''" "method_key p s \<noteq> ''/''"
    using hash_in_method_key [of p s] by (auto simp del: hash_in_method_key)
  have "map_of (register_endpoint e configs) (method_key p s)
      = map_of (fold (\<lambda>m. entries_insert (method_key (route_path e) (http_method_str m)) e) (ep_methods e) configs) (method_key p s)"
    using bare by (simp add: register_endpoint_def Let_def)
  also have "\<dots> = (if p = route_path e \<and> s \<in> http_method_str ` set (ep_methods e) then Some e else map_of configs (method_key p s))"
    using method_key_inj [OF assms(2) route_path_no_hash [OF assms(1)]] by (auto simp: fold_insert_lookup)
  finally show ?thesis .
qed

lemma register_endpoints_method_key:
  assumes "\<forall>e \<in> set endpoints. CHR ''#'' \<notin> set (ep_path e)" "CHR ''#'' \<notin> set p"
    and "\<forall>e' \<in> set endpoints. p = route_path e' \<and> s \<in> http_method_str ` set (ep_methods e') \<longrightarrow> e' = e"
  shows "map_of (fold register_endpoint endpoints configs) (method_key p s)
     = (if \<exists>e' \<in> set endpoints. p = route_path e' \<and> s \<in> http_method_str ` set (ep_methods e')
        then Some e else map_of configs (method_key p s))"
  using assms by (induction endpoints arbitrary: configs) (auto simp: register_endpoint_method_key)

text \<open>A handler that looks its endpoint up by the route it was registered under and the request's
  method finds exactly that endpoint, when no other endpoint claims the same route and method.\<close>

theorem handler_finds_own_endpoint:
  assumes "\<forall>e' \<in> set endpoints. CHR ''#'' \<notin> set (ep_path e')" "e \<in> set endpoints" "m \<in> set (ep_methods e)"
    and "\<forall>e' \<in> set endpoints. route_path e' = route_path e \<and> m \<in> set (ep_methods e') \<longrightarrow> e' = e"
  shows "get_endpoint_config_for_method (register_endpoints endpoints) (route_path e) (http_method_str m) = Some e"
proof -
  have "\<forall>e' \<in> set endpoints. route_path e = route_path e' \<and> http_method_str m \<in> http_method_str ` set (ep_methods e') \<longrightarrow> e' = e"
    using assms(4) by (auto dest: http_method_str_inj)
  then have "map_of (register_endpoints endpoints) (method_key (route_path e) (http_method_str m)) = Some e"
    using register_endpoints_method_key [OF assms(1) route_path_no_hash, of e "http_method_str m" e "[]"] assms(1-3)
    by (auto simp: register_endpoints_def)
  then show ?thesis
    by (simp add: get_endpoint_config_for_method_def)
qed

section \<open>Overlapping patterns\<close>

lemma wildcard_candidates:
  "find_wildcard_match configs path check = Some e \<Longrightarrow> \<exists>stored. (stored, e) \<in> set configs \<and> wildcard_matches stored path \<and> check e"
  by (induction configs) (auto split: if_splits)

lemma find_prefix_match_perm: "map_of configs = map_of configs' \<Longrightarrow> find_prefix_match configs path check = find_prefix_match configs' path check"
proof (induction path rule: length_induct)
  case (1 path)
  show ?case
  proof (cases "rsplit_once (CHR ''/'') path")
    case (Some p)
    obtain a b where p: "p = (a, b)" by (cases p)
    with Some have "length a < length path" by (auto simp: rsplit_once_Some)
    with 1 have "find_prefix_match configs a check = find_prefix_match configs' a check" by blast
    then show ?thesis
      using 1(2) Some p
      by (simp add: find_prefix_match.simps [of configs path] find_prefix_match.simps [of configs' path] split: option.splits)
  qed (use 1(2) in \<open>simp add: find_prefix_match.simps [of configs path] find_prefix_match.simps [of configs' path] split: option.splits\<close>)
qed

text \<open>When neither the exact nor the prefix lookup finds anything, every endpoint whose pattern covers the
  path and that serves the method may be the answer: some iteration order of the hash map returns it, and
  nothing else is ever returned. Which authentication guards a path under two overlapping patterns is
  therefore left to chance.\<close>

theorem overlapping_patterns_unordered:
  assumes "wf_entries configs" "map_of configs (method_key path (map to_upper_ascii method)) = None"
    and "\<forall>e. map_of configs path = Some e \<longrightarrow> \<not> serves_method method e" "find_prefix_match configs path (serves_method method) = None"
  shows "{e. \<exists>configs'. mset configs' = mset configs \<and> get_endpoint_config_for_method configs' path method = Some e}
     = {e. \<exists>stored. (stored, e) \<in> set configs \<and> wildcard_matches stored path \<and> serves_method method e}"
proof -
  have lookup: "get_endpoint_config_for_method configs' path method = find_wildcard_match configs' path (serves_method method)"
    if "mset configs' = mset configs" for configs'
  proof -
    have "mset (map fst configs') = mset (map fst configs)" using that by simp
    then have "distinct (map fst configs')"
      using assms(1) mset_eq_imp_distinct_iff unfolding wf_entries_def by blast
    then have "map_of configs' = map_of configs"
      using assms(1) mset_eq_setD [OF that] by (intro map_of_perm) (simp_all add: wf_entries_def)
    with find_prefix_match_perm [OF this] assms(2-4) show ?thesis
      by (cases "map_of configs path") (simp_all add: get_endpoint_config_for_method_def)
  qed
  show ?thesis
  proof (intro set_eqI iffI; clarify)
    fix e configs' assume "mset configs' = mset configs" "get_endpoint_config_for_method configs' path method = Some e"
    with lookup have "find_wildcard_match configs' path (serves_method method) = Some e" by simp
    from wildcard_candidates [OF this] \<open>mset configs' = mset configs\<close>
    show "\<exists>stored. (stored, e) \<in> set configs \<and> wildcard_matches stored path \<and> serves_method method e"
      by (metis mset_eq_setD)
  next
    fix e stored assume e: "(stored, e) \<in> set configs" "wildcard_matches stored path" "serves_method method e"
    let ?configs' = "(stored, e) # remove1 (stored, e) configs"
    have "mset ?configs' = mset configs" using e(1) by simp
    with lookup [OF this] e(2,3) show "\<exists>configs'. mset configs' = mset configs \<and> get_endpoint_config_for_method configs' path method = Some e"
      by (intro exI [of _ ?configs']) simp
  qed
qed

section \<open>Lookups without a method\<close>

lemma plain_endpoint_keys:
  assumes "ep_action e \<noteq> ActStaticFiles"
  shows "fst ` set (register_endpoint e configs) = (\<lambda>m. method_key (route_path e) (http_method_str m)) ` set (ep_methods e) \<union> fst ` set configs"
proof -
  have "fst ` set (fold (\<lambda>m. entries_insert (key m) e) ms configs) = key ` set ms \<union> fst ` set configs"
    for key :: "http_method \<Rightarrow> string" and ms
    by (induction ms arbitrary: configs) auto
  with assms show ?thesis by (simp add: register_endpoint_def Let_def)
qed

lemma plain_table_keys:
  "\<forall>e \<in> set endpoints. ep_action e \<noteq> ActStaticFiles \<Longrightarrow>
     fst ` set (fold register_endpoint endpoints configs)
     = {method_key (route_path e) (http_method_str m) | e m. e \<in> set endpoints \<and> m \<in> set (ep_methods e)} \<union> fst ` set configs"
proof (induction endpoints arbitrary: configs)
  case (Cons e endpoints)
  then show ?case by (simp add: plain_endpoint_keys) blast
qed simp

lemma find_prefix_match_Some_key: "find_prefix_match configs path check = Some e \<Longrightarrow> \<exists>p \<in> fst ` set configs. set p \<subseteq> set path"
proof (induction path rule: length_induct)
  case (1 path)
  show ?case
  proof (cases "map_of configs path")
    case (Some e')
    then have "path \<in> fst ` set configs" by (force dest: map_of_SomeD)
    then show ?thesis by blast
  next
    case None
    with "1.prems" obtain a b where a: "rsplit_once (CHR ''/'') path = Some (a, b)" "find_prefix_match configs a check = Some e"
      by (subst (asm) find_prefix_match.simps) (auto split: if_splits option.splits)
    then have p: "path = a @ CHR ''/'' # b" by (simp add: rsplit_once_Some)
    then have "length a < length path" by simp
    with "1.IH" a(2) obtain q where "q \<in> fst ` set configs" "set q \<subseteq> set a" by blast
    with p show ?thesis by auto
  qed
qed

lemma no_pattern_in_plain_route:
  "CHR ''*'' \<notin> set (ep_path e) \<Longrightarrow> CHR ''{'' \<notin> set (ep_path e) \<Longrightarrow> ep_action e \<noteq> ActStaticFiles \<Longrightarrow> route_path e = ep_path e"
proof -
  have "c \<notin> set s \<Longrightarrow> replace_char c r s = s" for c r s
    by (induction s) (auto simp: replace_char_def)
  then show "CHR ''*'' \<notin> set (ep_path e) \<Longrightarrow> CHR ''{'' \<notin> set (ep_path e) \<Longrightarrow> ep_action e \<noteq> ActStaticFiles \<Longrightarrow> route_path e = ep_path e"
    by (simp add: route_path_def Let_def)
qed

lemma find_wildcard_match_None:
  "\<forall>k \<in> fst ` set configs. CHR ''{'' \<notin> set k \<Longrightarrow> find_wildcard_match configs path check = None"
  by (induction configs) (auto simp: wildcard_matches_def split_once_None [THEN iffD2])

text \<open>The lookup by path alone, the one the rate limiter makes, finds nothing on any request path when the
  configured endpoints are plain ones (no pattern in the path, no static files): the table holds such
  endpoints under keys with a method. A rate limit configured on a plain endpoint is never applied.\<close>

theorem plain_endpoints_invisible_by_path:
  assumes "\<forall>e \<in> set endpoints. ep_action e \<noteq> ActStaticFiles \<and> CHR ''*'' \<notin> set (ep_path e) \<and> CHR ''{'' \<notin> set (ep_path e)"
    and "CHR ''#'' \<notin> set path"
  shows "get_endpoint_config (register_endpoints endpoints) path = None"
proof -
  have keys: "fst ` set (register_endpoints endpoints)
      = {method_key (ep_path e) (http_method_str m) | e m. e \<in> set endpoints \<and> m \<in> set (ep_methods e)}"
    using plain_table_keys [of endpoints "[]"] assms(1) no_pattern_in_plain_route
    by (auto simp: register_endpoints_def) metis+
  have hash: "CHR ''#'' \<in> set k" if "k \<in> fst ` set (register_endpoints endpoints)" for k
    using that by (auto simp: keys)
  have "CHR ''{'' \<notin> set k" if "k \<in> fst ` set (register_endpoints endpoints)" for k
  proof -
    have "CHR ''{'' \<notin> set (http_method_str m)" for m by (cases m) simp_all
    with that assms(1) show ?thesis by (auto simp: keys method_key_def)
  qed
  then have wild: "find_wildcard_match (register_endpoints endpoints) path (\<lambda>_. True) = None"
    by (intro find_wildcard_match_None) blast
  have "find_prefix_match (register_endpoints endpoints) path (\<lambda>_. True) = None"
    using find_prefix_match_Some_key hash assms(2) by (metis not_Some_eq subsetD)
  moreover have "map_of (register_endpoints endpoints) path = None"
    using hash assms(2) by (auto simp: map_of_eq_None_iff)
  ultimately show ?thesis
    using wild by (simp add: get_endpoint_config_def)
qed

section \<open>The prefix lookup against a reference\<close>

text \<open>A path and the paths above it, the longest first, the empty one left out.\<close>

definition ancestors :: "string \<Rightarrow> string list" where
  "ancestors path =
     (let segs = split_on (CHR ''/'') path in
      filter (\<lambda>p. p \<noteq> []) (map (\<lambda>k. join ''/'' (take k segs)) (rev [1 ..< Suc (length segs)])))"

lemma split_on_last: "c \<notin> set b \<Longrightarrow> split_on c (a @ c # b) = split_on c a @ [b]"
proof (induction a)
  case (Cons x a)
  then show ?case by (cases "split_on c a") auto
qed (simp add: split_on_single)

lemma ancestors_step:
  assumes "CHR ''/'' \<notin> set b"
  shows "ancestors (a @ CHR ''/'' # b) = (a @ CHR ''/'' # b) # ancestors a"
proof -
  let ?segs = "split_on (CHR ''/'') a"
  have m: "map (\<lambda>k. join ''/'' (take k (?segs @ [b]))) (rev [1 ..< Suc (length (?segs @ [b]))])
      = join ''/'' (?segs @ [b]) # map (\<lambda>k. join ''/'' (take k ?segs)) (rev [1 ..< Suc (length ?segs)])"
    by simp (auto simp: diff_is_0_eq [THEN iffD2])
  have j: "join ''/'' (?segs @ [b]) = a @ CHR ''/'' # b"
    using join_split_on [of "CHR ''/''" "a @ CHR ''/'' # b"] by (simp add: split_on_last [OF assms])
  show ?thesis
    unfolding ancestors_def Let_def split_on_last [OF assms] m j by (simp del: upt_Suc)
qed

lemma ancestors_top: "CHR ''/'' \<notin> set p \<Longrightarrow> p \<noteq> [] \<Longrightarrow> ancestors p = [p]"
  by (simp add: ancestors_def Let_def split_on_single)

lemma ancestors_Nil: "ancestors [] = []"
  by (simp add: ancestors_def)

text \<open>The prefix lookup returns the accepted configuration stored under the longest of the path's
  ancestors, the path itself included.\<close>

theorem prefix_match_longest_ancestor:
  "find_prefix_match configs path check =
     (case find (\<lambda>p. \<exists>e. map_of configs p = Some e \<and> check e) (ancestors path) of
        Some p \<Rightarrow> map_of configs p | None \<Rightarrow> None)"
proof (induction path rule: length_induct)
  case (1 path)
  show ?case
  proof (cases "rsplit_once (CHR ''/'') path")
    case None
    then have "CHR ''/'' \<notin> set path" by (simp add: rsplit_once_None)
    then show ?thesis
      using None
      by (cases "path = []") (auto simp: find_prefix_match.simps [of configs path] find_prefix_match.simps [of configs "[]"]
          ancestors_top ancestors_Nil split: option.splits)
  next
    case (Some p)
    obtain a b where p: "p = (a, b)" by (cases p)
    with Some have path: "path = a @ CHR ''/'' # b" "CHR ''/'' \<notin> set b" by (auto simp: rsplit_once_Some)
    then have IH: "find_prefix_match configs a check = (case find (\<lambda>p. \<exists>e. map_of configs p = Some e \<and> check e) (ancestors a) of
        Some p \<Rightarrow> map_of configs p | None \<Rightarrow> None)"
      using 1 by simp
    have "ancestors path = path # ancestors a" using ancestors_step [OF path(2)] path(1) by simp
    moreover have "path \<noteq> []" by (simp add: path)
    ultimately show ?thesis
      using Some p by (auto simp: find_prefix_match.simps [of configs path] IH split: option.splits)
  qed
qed

section \<open>Samples\<close>

definition sample_endpoint :: "string \<Rightarrow> http_method list \<Rightarrow> string \<Rightarrow> endpoint_config" where
  "sample_endpoint path ms auth =
     \<lparr> ep_path = path, ep_methods = ms, ep_action = ActCustomResponse, ep_crud = None, ep_proxy = None, ep_static_files = None,
       ep_spa_host = None, ep_media = None, ep_file_store = None, ep_custom_response = None, ep_auth = auth,
       ep_roles = FlatRoles [], ep_cors = None, ep_rate_limit = None \<rparr>"

definition sample_endpoints :: "endpoint_config list" where
  "sample_endpoints = [sample_endpoint ''/api/*'' [Get] ''none'', sample_endpoint ''/api/users/{id}'' [Get] ''jwt'',
     sample_endpoint ''/login'' [Get, Post] ''none'']"

theorem handler_finds_own_endpoint_witness:
  "get_endpoint_config_for_method (register_endpoints sample_endpoints) (route_path (sample_endpoint ''/api/users/{id}'' [Get] ''jwt''))
     (http_method_str Get) = Some (sample_endpoint ''/api/users/{id}'' [Get] ''jwt'')"
  by (rule handler_finds_own_endpoint)
    (simp_all add: sample_endpoints_def sample_endpoint_def route_path_def replace_char_def)

theorem plain_endpoints_invisible_by_path_witness:
  "get_endpoint_config (register_endpoints [sample_endpoint ''/login'' [Get, Post] ''none'']) ''/login'' = None"
  by (rule plain_endpoints_invisible_by_path) (simp_all add: sample_endpoint_def)

text \<open>A path under a public pattern and under a protected one: either may answer.\<close>

theorem overlapping_patterns_unordered_witness:
  "{e. \<exists>configs'. mset configs' = mset (register_endpoints sample_endpoints) \<and> get_endpoint_config_for_method configs' ''/api/users/5'' ''GET'' = Some e}
     = {e. \<exists>stored. (stored, e) \<in> set (register_endpoints sample_endpoints) \<and> wildcard_matches stored ''/api/users/5'' \<and> serves_method ''GET'' e}
   \<and> get_endpoint_config_for_method (register_endpoints sample_endpoints) ''/api/users/5'' ''GET'' = Some (sample_endpoint ''/api/*'' [Get] ''none'')
   \<and> get_endpoint_config_for_method (rev (register_endpoints sample_endpoints)) ''/api/users/5'' ''GET'' = Some (sample_endpoint ''/api/users/{id}'' [Get] ''jwt'')"
proof (intro conjI)
  show "{e. \<exists>configs'. mset configs' = mset (register_endpoints sample_endpoints) \<and> get_endpoint_config_for_method configs' ''/api/users/5'' ''GET'' = Some e}
     = {e. \<exists>stored. (stored, e) \<in> set (register_endpoints sample_endpoints) \<and> wildcard_matches stored ''/api/users/5'' \<and> serves_method ''GET'' e}"
  proof (rule overlapping_patterns_unordered)
    show "wf_entries (register_endpoints sample_endpoints)" by code_simp
    show "map_of (register_endpoints sample_endpoints) (method_key ''/api/users/5'' (map to_upper_ascii ''GET'')) = None" by code_simp
    have "map_of (register_endpoints sample_endpoints) ''/api/users/5'' = None" by code_simp
    then show "\<forall>e. map_of (register_endpoints sample_endpoints) ''/api/users/5'' = Some e \<longrightarrow> \<not> serves_method ''GET'' e" by simp
    show "find_prefix_match (register_endpoints sample_endpoints) ''/api/users/5'' (serves_method ''GET'') = None" by code_simp
  qed
  show "get_endpoint_config_for_method (register_endpoints sample_endpoints) ''/api/users/5'' ''GET'' = Some (sample_endpoint ''/api/*'' [Get] ''none'')"
    by code_simp
  show "get_endpoint_config_for_method (rev (register_endpoints sample_endpoints)) ''/api/users/5'' ''GET'' = Some (sample_endpoint ''/api/users/{id}'' [Get] ''jwt'')"
    by code_simp
qed

end
