(* ===== verification/Tokens.thy ===== *)
theory Tokens
  imports Auth_Types App_Error
begin

text \<open>
  The credential validators: JSON web tokens (src/middleware/auth/validators/jwt.rs), API keys
  (api_key.rs) and HTTP Basic (basic.rs), with the in-memory revocation store of the application state
  (src/server/state.rs) behind an interface. Signature checking, base64 and Argon2 belong to other
  crates: \<open>decode\<close>, \<open>encode\<close>, \<open>b64_decode\<close> and \<open>verify\<close> are arguments.
\<close>

section \<open>Token revocation\<close>

text \<open>What the token check relies on: a revoked identifier is revoked, and only that one.\<close>

locale revocation_store =
  fixes is_revoked :: "'s \<Rightarrow> string \<Rightarrow> bool"
    and revoke :: "string \<Rightarrow> int \<Rightarrow> 's \<Rightarrow> 's"
  assumes is_revoked_revoke: "is_revoked (revoke jti expires_at s) k \<longleftrightarrow> k = jti \<or> is_revoked s k"
begin

definition revoke_all :: "(string \<times> int) list \<Rightarrow> 's \<Rightarrow> 's" where
  "revoke_all rs s = fold (\<lambda>(jti, t). revoke jti t) rs s"

lemma is_revoked_revoke_all: "is_revoked (revoke_all rs s) k \<longleftrightarrow> k \<in> fst ` set rs \<or> is_revoked s k"
  by (induction rs arbitrary: s) (auto simp: revoke_all_def is_revoked_revoke)

lemma revocation_permanent: "is_revoked s k \<Longrightarrow> is_revoked (revoke_all rs s) k"
  by (simp add: is_revoked_revoke_all)

end

type_synonym memory_revocations = "(string, int) entries"

definition mem_is_revoked :: "memory_revocations \<Rightarrow> string \<Rightarrow> bool" where
  "mem_is_revoked revoked jti = (map_of revoked jti \<noteq> None)"

definition mem_revoke :: "string \<Rightarrow> int \<Rightarrow> memory_revocations \<Rightarrow> memory_revocations" where
  "mem_revoke jti expires_at revoked = entries_insert jti expires_at revoked"

definition mem_cleanup :: "int \<Rightarrow> memory_revocations \<Rightarrow> memory_revocations" where
  "mem_cleanup now revoked = entries_retain (\<lambda>_ expiry. now < expiry) revoked"

interpretation memory_store: revocation_store mem_is_revoked mem_revoke
  by unfold_locales (simp add: mem_is_revoked_def mem_revoke_def)

text \<open>Cleaning keeps every identifier whose revocation has not expired.\<close>

lemma mem_cleanup_keeps:
  "wf_entries revoked \<Longrightarrow> mem_is_revoked (mem_cleanup now revoked) jti \<longleftrightarrow> (\<exists>t. map_of revoked jti = Some t \<and> now < t)"
  by (auto simp: mem_is_revoked_def mem_cleanup_def map_of_entries_retain split: option.splits if_splits)

section \<open>JSON web tokens\<close>

text \<open>\<open>Value::index_mut\<close> on a key: the object's map is a sorted map.\<close>

fun obj_insert :: "string \<Rightarrow> json \<Rightarrow> (string \<times> json) list \<Rightarrow> (string \<times> json) list" where
  "obj_insert k v [] = [(k, v)]"
| "obj_insert k v ((k', v') # kvs) =
     (if k = k' then (k, v) # kvs else if k < k' then (k, v) # (k', v') # kvs else (k', v') # obj_insert k v kvs)"

lemma map_of_obj_insert [simp]: "map_of (obj_insert k v kvs) = (map_of kvs)(k \<mapsto> v)"
  by (induction kvs rule: obj_insert.induct) auto

text \<open>\<open>jsonwebtoken::Validation\<close>: the fields the program sets.\<close>

record jwt_validation =
  jv_algorithm :: jwt_algorithm
  jv_issuers :: "string list"
  jv_audiences :: "string list"
  jv_validate_exp :: bool
  jv_validate_nbf :: bool

type_synonym jwt_decoder = "string \<Rightarrow> string \<Rightarrow> jwt_validation \<Rightarrow> (string, json) result"
type_synonym jwt_encoder = "jwt_algorithm \<Rightarrow> json \<Rightarrow> string \<Rightarrow> (string, string) result"

record claims =
  cl_sub :: string
  cl_exp :: nat
  cl_iat :: nat
  cl_iss :: string
  cl_aud :: string
  cl_role :: "string option"
  cl_jti :: "string option"
  cl_email :: "string option"

text \<open>The algorithms of the configuration and of the library have the same names.\<close>

definition map_algorithm :: "jwt_algorithm \<Rightarrow> jwt_algorithm" where
  "map_algorithm alg =
     (case alg of HS256 \<Rightarrow> HS256 | HS384 \<Rightarrow> HS384 | HS512 \<Rightarrow> HS512 | RS256 \<Rightarrow> RS256 | RS384 \<Rightarrow> RS384 | RS512 \<Rightarrow> RS512
        | ES256 \<Rightarrow> ES256 | ES384 \<Rightarrow> ES384)"

definition token_validation :: "jwt_config \<Rightarrow> jwt_validation" where
  "token_validation cfg =
     \<lparr> jv_algorithm = map_algorithm (jwt_algorithm cfg),
       jv_issuers = (if jwt_issuer cfg = [] then [] else [jwt_issuer cfg]),
       jv_audiences = (if jwt_audience cfg = [] then [] else [jwt_audience cfg]),
       jv_validate_exp = True, jv_validate_nbf = False \<rparr>"

definition claim_str :: "string \<Rightarrow> json \<Rightarrow> string option" where
  "claim_str k v = (case json_get k v of Some x \<Rightarrow> as_str x | None \<Rightarrow> None)"

definition claim_usize :: "string \<Rightarrow> json \<Rightarrow> nat" where
  "claim_usize k v = unwrap_or (case json_get k v of Some x \<Rightarrow> as_u64 x | None \<Rightarrow> None) 0"

definition validate_token :: "jwt_decoder \<Rightarrow> string \<Rightarrow> jwt_config \<Rightarrow> (string \<Rightarrow> bool) option \<Rightarrow> (app_error, claims) result" where
  "validate_token decode token cfg revoked =
     (case decode token (jwt_secret cfg) (token_validation cfg) of
        Inl e \<Rightarrow> Inl (AuthError (''Invalid JWT: '' @ e))
      | Inr v \<Rightarrow>
          (case claim_str ''sub'' v of
             None \<Rightarrow> Inl (AuthError (''JWT '' @ [quote_char] @ ''sub'' @ [quote_char] @ '' claim is missing''))
           | Some sub \<Rightarrow>
               if trim sub = [] then Inl (AuthError (''JWT '' @ [quote_char] @ ''sub'' @ [quote_char] @ '' claim is empty''))
               else
                 (let jti = claim_str ''jti'' v in
                  if (case revoked of Some is_rev \<Rightarrow> (case jti of Some j \<Rightarrow> is_rev j | None \<Rightarrow> False) | None \<Rightarrow> False)
                  then Inl (AuthError ''Token has been revoked'')
                  else Inr \<lparr> cl_sub = sub, cl_exp = claim_usize ''exp'' v, cl_iat = claim_usize ''iat'' v,
                             cl_iss = unwrap_or (claim_str ''iss'' v) [], cl_aud = unwrap_or (claim_str ''aud'' v) [],
                             cl_role = claim_str (jwt_role_claim cfg) v, cl_jti = jti, cl_email = claim_str ''email'' v \<rparr>)))"

definition put_claim :: "string \<Rightarrow> string option \<Rightarrow> (string \<times> json) list \<Rightarrow> (string \<times> json) list" where
  "put_claim k x m = (case x of Some s \<Rightarrow> obj_insert k (JStr s) m | None \<Rightarrow> m)"

lemma map_of_put_claim: "map_of (put_claim k x m) j = (if j = k \<and> x \<noteq> None then Some (JStr (the x)) else map_of m j)"
  by (simp add: put_claim_def split: option.splits)

lemma map_of_put_unless: "map_of (if b then m else obj_insert k v m) j = (if j = k \<and> \<not> b then Some v else map_of m j)"
  by simp

lemma map_of_put: "map_of (obj_insert k v m) j = (if j = k then Some v else map_of m j)"
  by simp

definition token_claims :: "jwt_config \<Rightarrow> int \<Rightarrow> string \<Rightarrow> string option \<Rightarrow> string option \<Rightarrow> string option \<Rightarrow> (string \<times> json) list" where
  "token_claims cfg now sub role jti email =
     (let exp = min (now + jwt_expiry cfg) u64_max;
          m0 = obj_insert ''exp'' (JInt exp) (obj_insert ''iat'' (JInt now) (obj_insert ''sub'' (JStr sub) []));
          m1 = (if jwt_issuer cfg = [] then m0 else obj_insert ''iss'' (JStr (jwt_issuer cfg)) m0);
          m2 = (if jwt_audience cfg = [] then m1 else obj_insert ''aud'' (JStr (jwt_audience cfg)) m1)
      in put_claim ''email'' email (put_claim ''jti'' jti (put_claim (jwt_role_claim cfg) role m2)))"

text \<open>The clock is given in seconds since the epoch; on 64-bit targets the expiry always converts.\<close>

definition create_token :: "jwt_encoder \<Rightarrow> int \<Rightarrow> string \<Rightarrow> string option \<Rightarrow> jwt_config \<Rightarrow> string option \<Rightarrow> string option
    \<Rightarrow> (app_error, string) result" where
  "create_token encode now sub role cfg jti email =
     (if now < 0 then Inl (Internal ''System clock before epoch'')
      else case encode (map_algorithm (jwt_algorithm cfg)) (JObj (token_claims cfg now sub role jti email)) (jwt_secret cfg) of
             Inl e \<Rightarrow> Inl (Internal (''JWT encode error: '' @ e))
           | Inr t \<Rightarrow> Inr t)"

definition extract_bearer_token :: "string \<Rightarrow> string option" where
  "extract_bearer_token auth_header = strip_prefix ''Bearer '' auth_header"

section \<open>API keys\<close>

definition validate_api_key :: "header_map \<Rightarrow> (string, string) entries \<Rightarrow> api_key_config \<Rightarrow> (app_error, string option) result" where
  "validate_api_key headers query_params cfg =
     (case (case ak_location cfg of KeyInHeader \<Rightarrow> header_str (ak_name cfg) headers | KeyInQuery \<Rightarrow> map_of query_params (ak_name cfg)) of
        None \<Rightarrow> Inl (AuthError ''API key missing'')
      | Some key \<Rightarrow>
          (case find (\<lambda>e. ake_key e = key) (ak_keys cfg) of
             None \<Rightarrow> Inl (AuthError ''Invalid API key'')
           | Some e \<Rightarrow> Inr (ake_role e)))"

section \<open>Basic authentication\<close>

text \<open>The outcomes of parsing an Argon2 hash and verifying a password against it.\<close>

datatype verification = HashInvalid | PasswordInvalid | VerifyFailed string | PasswordOk

definition validate_basic_auth :: "(string \<Rightarrow> string option) \<Rightarrow> (string \<Rightarrow> string option) \<Rightarrow> (string \<Rightarrow> string \<Rightarrow> verification)
    \<Rightarrow> string \<Rightarrow> basic_auth_config \<Rightarrow> (app_error, string option) result" where
  "validate_basic_auth b64_decode from_utf8 verify auth_header cfg =
     (case strip_prefix ''Basic '' auth_header of
        None \<Rightarrow> Inl (AuthError ''Invalid Basic auth header'')
      | Some encoded \<Rightarrow>
          (case b64_decode encoded of
             None \<Rightarrow> Inl (AuthError ''Invalid Base64 in Basic auth'')
           | Some bytes \<Rightarrow>
               (case from_utf8 bytes of
                  None \<Rightarrow> Inl (AuthError ''Invalid UTF-8 in Basic auth credentials'')
                | Some decoded \<Rightarrow>
                    (case split_once (CHR '':'') decoded of
                       None \<Rightarrow> Inl (AuthError ''Malformed Basic auth credentials'')
                     | Some (username, password) \<Rightarrow>
                         (case find (\<lambda>u. bau_username u = username) (ba_users cfg) of
                            None \<Rightarrow> Inl (AuthError ''Invalid credentials'')
                          | Some user \<Rightarrow>
                              (case verify password (bau_password_hash user) of
                                 HashInvalid \<Rightarrow> Inl (Internal ''Invalid password hash in config'')
                               | PasswordOk \<Rightarrow> Inr (bau_role user)
                               | _ \<Rightarrow> Inl (AuthError ''Invalid credentials'')))))))"

definition extract_basic_auth :: "string \<Rightarrow> string option" where
  "extract_basic_auth auth_header = (if starts_with auth_header ''Basic '' then Some auth_header else None)"

section \<open>What the validators guarantee\<close>

lemma validate_token_Inr:
  "validate_token decode token cfg revoked = Inr c \<Longrightarrow>
     \<exists>v. decode token (jwt_secret cfg) (token_validation cfg) = Inr v \<and> claim_str ''sub'' v = Some (cl_sub c) \<and> trim (cl_sub c) \<noteq> []
       \<and> cl_role c = claim_str (jwt_role_claim cfg) v \<and> cl_jti c = claim_str ''jti'' v
       \<and> (\<forall>r j. revoked = Some r \<longrightarrow> cl_jti c = Some j \<longrightarrow> \<not> r j)"
  by (auto simp: validate_token_def Let_def split: sum.splits option.splits if_splits)

lemma minted_token_valid:
  assumes "decode token (jwt_secret cfg) (token_validation cfg) = Inr (JObj (token_claims cfg now sub role jti email))" "0 \<le> now"
    and "jwt_role_claim cfg \<notin> {''sub'', ''iat'', ''exp'', ''iss'', ''aud'', ''jti'', ''email''}"
    and "trim sub \<noteq> []" "\<And>r j. revoked = Some r \<Longrightarrow> jti = Some j \<Longrightarrow> \<not> r j"
    and "0 \<le> jwt_expiry cfg"
  shows "validate_token decode token cfg revoked =
    Inr \<lparr> cl_sub = sub, cl_exp = nat (min (now + jwt_expiry cfg) u64_max), cl_iat = nat now, cl_iss = jwt_issuer cfg,
          cl_aud = jwt_audience cfg, cl_role = role, cl_jti = jti, cl_email = email \<rparr>"
proof -
  let ?v = "JObj (token_claims cfg now sub role jti email)"
  note d = assms(1) and now = assms(2)
  have get: "json_get k ?v = map_of (token_claims cfg now sub role jti email) k" for k
    by (simp add: json_get_def)
  have other: "jwt_role_claim cfg \<noteq> ''sub''" "jwt_role_claim cfg \<noteq> ''iat''" "jwt_role_claim cfg \<noteq> ''exp''" "jwt_role_claim cfg \<noteq> ''iss''"
    "jwt_role_claim cfg \<noteq> ''aud''" "jwt_role_claim cfg \<noteq> ''jti''" "jwt_role_claim cfg \<noteq> ''email''"
    using assms(3) by simp_all
  have lookup: "map_of (token_claims cfg now sub role jti email) k =
      (if k = ''email'' \<and> email \<noteq> None then Some (JStr (the email))
       else if k = ''jti'' \<and> jti \<noteq> None then Some (JStr (the jti))
       else if k = jwt_role_claim cfg \<and> role \<noteq> None then Some (JStr (the role))
       else if k = ''aud'' \<and> jwt_audience cfg \<noteq> [] then Some (JStr (jwt_audience cfg))
       else if k = ''iss'' \<and> jwt_issuer cfg \<noteq> [] then Some (JStr (jwt_issuer cfg))
       else if k = ''exp'' then Some (JInt (min (now + jwt_expiry cfg) u64_max))
       else if k = ''iat'' then Some (JInt now) else if k = ''sub'' then Some (JStr sub) else map_of [] k)" for k
    unfolding token_claims_def Let_def map_of_put_claim map_of_put_unless map_of_put by (rule refl)
  have str: "claim_str k ?v = (case map_of (token_claims cfg now sub role jti email) k of Some x \<Rightarrow> as_str x | None \<Rightarrow> None)" for k
    by (simp add: claim_str_def get)
  have "claim_str ''sub'' ?v = Some sub" unfolding str lookup using other(1) by simp
  moreover have j: "claim_str ''jti'' ?v = jti" unfolding str lookup using other(6) by (cases jti) simp_all
  moreover have "claim_str ''email'' ?v = email" unfolding str lookup using other(7) by (cases email) simp_all
  moreover have "claim_str (jwt_role_claim cfg) ?v = role" unfolding str lookup using other by (cases role) simp_all
  moreover have "unwrap_or (claim_str ''iss'' ?v) [] = jwt_issuer cfg" unfolding str lookup using other(4) by simp
  moreover have "unwrap_or (claim_str ''aud'' ?v) [] = jwt_audience cfg" unfolding str lookup using other(5) by simp
  moreover have "claim_usize ''exp'' ?v = nat (min (now + jwt_expiry cfg) u64_max)"
    unfolding claim_usize_def get lookup using other(3) assms(6) now by simp
  moreover have "claim_usize ''iat'' ?v = nat now" unfolding claim_usize_def get lookup using other(2) now by simp
  moreover have "\<not> (case revoked of Some is_rev \<Rightarrow> (case claim_str ''jti'' ?v of Some j \<Rightarrow> is_rev j | None \<Rightarrow> False) | None \<Rightarrow> False)"
    unfolding j using assms(5) by (auto split: option.splits)
  ultimately show ?thesis
    using assms(4) unfolding validate_token_def Let_def d sum.case option.case by simp
qed

text \<open>C36: a token made by \<open>create_token\<close> validates to the subject, role, identifier, e-mail, issuer and audience it
  was made with, the instant of its making and its expiry. Hypotheses: the library decodes a token it made to the
  claims it was given; the role claim has none of the reserved claim names; the subject is not blank; the
  identifier is not revoked; and the configured lifetime is not negative.\<close>

theorem token_roundtrip:
  assumes "create_token encode now sub role cfg jti email = Inr token"
    and "\<And>c. encode (map_algorithm (jwt_algorithm cfg)) c (jwt_secret cfg) = Inr token \<Longrightarrow> decode token (jwt_secret cfg) (token_validation cfg) = Inr c"
    and "jwt_role_claim cfg \<notin> {''sub'', ''iat'', ''exp'', ''iss'', ''aud'', ''jti'', ''email''}"
    and "trim sub \<noteq> []" "\<And>r j. revoked = Some r \<Longrightarrow> jti = Some j \<Longrightarrow> \<not> r j"
    and "0 \<le> jwt_expiry cfg"
  shows "validate_token decode token cfg revoked =
    Inr \<lparr> cl_sub = sub, cl_exp = nat (min (now + jwt_expiry cfg) u64_max), cl_iat = nat now, cl_iss = jwt_issuer cfg,
          cl_aud = jwt_audience cfg, cl_role = role, cl_jti = jti, cl_email = email \<rparr>"
proof (rule minted_token_valid)
  show "decode token (jwt_secret cfg) (token_validation cfg) = Inr (JObj (token_claims cfg now sub role jti email))" "0 \<le> now"
    using assms(1,2) by (auto simp: create_token_def split: if_splits sum.splits)
qed (use assms in auto)

definition sample_jwt :: jwt_config where
  "sample_jwt = jwt_config_default \<lparr> jwt_secret := ''secret'' \<rparr>"

text \<open>A signer that knows one token.\<close>

definition sample_encode :: jwt_encoder where
  "sample_encode alg c secret =
     (if c = JObj (token_claims sample_jwt 1000 ''42'' (Some ''admin'') (Some ''jti-1'') None) then Inr ''token-1'' else Inl ''unsupported'')"

definition sample_decode :: jwt_decoder where
  "sample_decode token secret v =
     (if token = ''token-1'' then Inr (JObj (token_claims sample_jwt 1000 ''42'' (Some ''admin'') (Some ''jti-1'') None)) else Inl ''InvalidToken'')"

theorem token_roundtrip_witness:
  "validate_token sample_decode ''token-1'' sample_jwt (Some (mem_is_revoked [(''jti-0'', 5)])) =
    Inr \<lparr> cl_sub = ''42'', cl_exp = nat (min (1000 + jwt_expiry sample_jwt) u64_max), cl_iat = nat 1000, cl_iss = jwt_issuer sample_jwt,
          cl_aud = jwt_audience sample_jwt, cl_role = Some ''admin'', cl_jti = Some ''jti-1'', cl_email = None \<rparr>"
  by (rule token_roundtrip [where encode = sample_encode])
    (auto simp: create_token_def sample_encode_def sample_decode_def sample_jwt_def jwt_config_default_def
      mem_is_revoked_def trim_def is_whitespace_def ccode_def split: if_splits)

end
