(* ===== verification/OAuth2.thy ===== *)
theory OAuth2
  imports Tokens
begin

text \<open>
  OAuth2: the userinfo lookup with its role mapping, the cookie parser and the pending authorizations
  (src/middleware/auth/validators/oauth2.rs), and the authorization-code flow built on them
  (src/middleware/auth/handler.rs). HTTP calls to the provider, URL building and random values are
  arguments; the table of pending states sits behind a mutex, so its operations are steps.
\<close>

section \<open>Userinfo and role mapping\<close>

text \<open>The outcomes of a request to the provider: not sent, a non-success status, a body that is not JSON, JSON.\<close>

datatype http_outcome = SendFailed string | BadStatus string | BadBody string | JsonBody json

fun find_map :: "('a \<Rightarrow> 'b option) \<Rightarrow> 'a list \<Rightarrow> 'b option" where
  "find_map f [] = None"
| "find_map f (x # xs) = (case f x of Some y \<Rightarrow> Some y | None \<Rightarrow> find_map f xs)"

fun extract_role_values :: "json \<Rightarrow> string list" where
  "extract_role_values (JArr xs) = List.map_filter as_str xs"
| "extract_role_values (JStr s) = [s]"
| "extract_role_values _ = []"

definition map_idp_role :: "role_mapping_config \<Rightarrow> string \<Rightarrow> string option" where
  "map_idp_role mapping idp_role =
     or_else (map_of (rm_role_map mapping) idp_role)
       (if rm_match_mode mapping = MatchContains
        then map_option snd (find (\<lambda>(k, _). contains_str idp_role k) (rm_role_map mapping)) else None)"

definition userinfo_role :: "role_mapping_config option \<Rightarrow> json \<Rightarrow> string option" where
  "userinfo_role role_mapping userinfo =
     (case role_mapping of
        None \<Rightarrow> claim_str ''role'' userinfo
      | Some mapping \<Rightarrow>
          (let idp_roles = (case json_get (rm_role_claim mapping) userinfo of None \<Rightarrow> [[]] | Some v \<Rightarrow> extract_role_values v)
           in or_else (find_map (map_idp_role mapping) idp_roles) (Some (rm_default_role mapping))))"

definition fetch_userinfo :: "(string \<Rightarrow> string \<Rightarrow> http_outcome) \<Rightarrow> string \<Rightarrow> string \<Rightarrow> role_mapping_config option
    \<Rightarrow> (app_error, string \<times> string option) result" where
  "fetch_userinfo http_get url access_token role_mapping =
     (case http_get url access_token of
        SendFailed e \<Rightarrow> Inl (AuthError (''OAuth2 userinfo request failed: '' @ e))
      | BadStatus st \<Rightarrow> Inl (AuthError (''OAuth2 userinfo returned status '' @ st))
      | BadBody e \<Rightarrow> Inl (AuthError (''OAuth2 userinfo parse error: '' @ e))
      | JsonBody userinfo \<Rightarrow>
          (case claim_str ''sub'' userinfo of
             None \<Rightarrow> Inl (AuthError (''OAuth2 userinfo response missing '' @ [quote_char] @ ''sub'' @ [quote_char] @ '' claim''))
           | Some sub \<Rightarrow> Inr (sub, userinfo_role role_mapping userinfo)))"

definition validate_oauth2_token :: "(string \<Rightarrow> string \<Rightarrow> http_outcome) \<Rightarrow> string \<Rightarrow> oauth2_config \<Rightarrow> role_mapping_config option
    \<Rightarrow> (app_error, string \<times> string option) result" where
  "validate_oauth2_token http_get token cfg role_mapping =
     (if oa_userinfo_url cfg = [] then Inl (ConfigurationError ''OAuth2 userinfo_url is not configured'')
      else fetch_userinfo http_get (oa_userinfo_url cfg) token role_mapping)"

lemma find_map_append: "find_map f (xs @ ys) = (case find_map f xs of Some y \<Rightarrow> Some y | None \<Rightarrow> find_map f ys)"
  by (induction xs) (auto split: option.splits)

lemma find_map_Some: "find_map f xs = Some y \<Longrightarrow> \<exists>x \<in> set xs. f x = Some y"
  by (induction xs) (auto split: option.splits)

lemma map_idp_role_range: "map_idp_role mapping r = Some role \<Longrightarrow> role \<in> snd ` set (rm_role_map mapping)"
  by (cases "map_of (rm_role_map mapping) r")
    (auto simp: map_idp_role_def split: if_splits dest!: map_of_SomeD find_Some_iff_first intro: rev_image_eqI)

text \<open>With a role mapping the provider cannot choose a role the configuration does not name.\<close>

lemma mapped_role_configured:
  "\<exists>role. userinfo_role (Some mapping) userinfo = Some role \<and> (role = rm_default_role mapping \<or> role \<in> snd ` set (rm_role_map mapping))"
proof -
  let ?rs = "case json_get (rm_role_claim mapping) userinfo of None \<Rightarrow> [[]] | Some v \<Rightarrow> extract_role_values v"
  show ?thesis
  proof (cases "find_map (map_idp_role mapping) ?rs")
    case None
    then show ?thesis by (simp add: userinfo_role_def Let_def)
  next
    case (Some role)
    from find_map_Some [OF this] map_idp_role_range have "role \<in> snd ` set (rm_role_map mapping)" by blast
    with Some show ?thesis by (simp add: userinfo_role_def Let_def)
  qed
qed

section \<open>Cookies\<close>

definition unquote_cookie :: "string \<Rightarrow> string" where
  "unquote_cookie v =
     (if starts_with v [dquote_char] \<and> ends_with v [dquote_char] \<and> 2 \<le> length v then butlast (tl v) else v)"

definition extract_cookie :: "header_map \<Rightarrow> string \<Rightarrow> string option" where
  "extract_cookie headers name =
     (case header_str ''cookie'' headers of
        None \<Rightarrow> None
      | Some cookie \<Rightarrow>
          map_option unquote_cookie (find_map (\<lambda>part. strip_prefix (name @ ''='') (trim part)) (split_on (CHR '';'') cookie)))"

section \<open>Pending authorizations\<close>

record pending_oauth2 =
  po_code_verifier :: string
  po_created_at :: int

type_synonym pending_table = "(string, pending_oauth2) entries"

definition cleanup_expired :: "pending_table \<Rightarrow> int \<Rightarrow> int \<Rightarrow> pending_table" where
  "cleanup_expired pending ttl now = entries_retain (\<lambda>_ p. elapsed now (po_created_at p) < ttl) pending"

text \<open>The second clock reading is the one after the lock is released.\<close>

definition validate_state :: "string \<Rightarrow> int \<Rightarrow> int \<Rightarrow> int \<Rightarrow> pending_table \<Rightarrow> (app_error, pending_oauth2) result \<times> pending_table" where
  "validate_state state_param state_ttl now later pending =
     (let cleaned = cleanup_expired pending state_ttl now in
      (case map_of cleaned state_param of
         None \<Rightarrow> Inl (AuthError ''Invalid or expired OAuth2 state'')
       | Some p \<Rightarrow> if state_ttl \<le> elapsed later (po_created_at p) then Inl (AuthError ''OAuth2 state has expired'') else Inr p,
       entries_remove state_param cleaned))"

definition store_pending :: "oauth2_config \<Rightarrow> string \<Rightarrow> string \<Rightarrow> int \<Rightarrow> pending_table \<Rightarrow> (app_error, unit) result \<times> pending_table" where
  "store_pending cfg state_value code_verifier now pending =
     (let cleaned = cleanup_expired pending (oa_state_ttl cfg * nanos) now in
      if oa_max_pending_states cfg \<le> length cleaned then (Inl (Internal ''Too many pending OAuth2 authorization flows''), cleaned)
      else (Inr (), entries_insert state_value \<lparr> po_code_verifier = code_verifier, po_created_at = now \<rparr> cleaned))"

text \<open>A response without a body: its status and headers, when every header value is acceptable to the http crate.\<close>

type_synonym redirect = "nat \<times> (string \<times> string) list"

definition build_redirect :: "(string \<Rightarrow> bool) \<Rightarrow> (string \<times> string) list \<Rightarrow> (app_error, redirect) result" where
  "build_redirect header_ok hs =
     (if list_all (\<lambda>(_, v). header_ok v) hs then Inr (302, hs)
      else Inl (Internal ''Failed to build redirect response: failed to parse header value''))"

text \<open>\<open>handle_oauth2_authorize\<close>: \<open>make_url\<close> parses the endpoint and appends the query pairs; the PKCE pair and the
  state value are drawn by the caller.\<close>

definition handle_oauth2_authorize :: "(string \<Rightarrow> (string \<times> string) list \<Rightarrow> (string, string) result) \<Rightarrow> (string \<Rightarrow> bool) \<Rightarrow> auth_config
    \<Rightarrow> string \<Rightarrow> string \<Rightarrow> string \<Rightarrow> int \<Rightarrow> pending_table \<Rightarrow> (app_error, redirect) result \<times> pending_table" where
  "handle_oauth2_authorize make_url header_ok auth state_value code_verifier code_challenge now pending =
     (case au_oauth2 auth of
        None \<Rightarrow> (Inl (ConfigurationError ''OAuth2 is not configured''), pending)
      | Some cfg \<Rightarrow>
          if oa_authorization_url cfg = [] then (Inl (ConfigurationError ''OAuth2 authorization_url is not configured''), pending)
          else if oa_client_id cfg = [] then (Inl (ConfigurationError ''OAuth2 client_id is not configured''), pending)
          else if oa_redirect_url cfg = [] then (Inl (ConfigurationError ''OAuth2 redirect_url is not configured''), pending)
          else
            (case make_url (oa_authorization_url cfg)
                [(''response_type'', ''code''), (''client_id'', oa_client_id cfg), (''redirect_uri'', oa_redirect_url cfg),
                 (''scope'', join '' '' (oa_scopes cfg)), (''state'', state_value), (''code_challenge'', code_challenge),
                 (''code_challenge_method'', ''S256'')] of
               Inl e \<Rightarrow> (Inl (ConfigurationError (''Invalid authorization_url: '' @ e)), pending)
             | Inr url \<Rightarrow>
                 (case store_pending cfg state_value code_verifier now pending of
                    (Inl e, pending') \<Rightarrow> (Inl e, pending')
                  | (Inr _, pending') \<Rightarrow> (build_redirect header_ok [(''location'', url)], pending'))))"

section \<open>The callback\<close>

text \<open>PKCE: the verifier is the hex of three random UUIDs, the challenge its URL-safe hash.\<close>

definition generate_pkce_pair :: "(string \<Rightarrow> string) \<Rightarrow> string \<Rightarrow> string \<Rightarrow> string \<Rightarrow> string \<times> string" where
  "generate_pkce_pair sha256_base64url u1 u2 u3 = (let verifier = u1 @ u2 @ u3 in (verifier, sha256_base64url verifier))"

text \<open>The rest of the world as the callback uses it: the requests to the provider, the token encoder, the
  values the http crate accepts in a header.\<close>

record oauth2_world =
  ow_get :: "string \<Rightarrow> string \<Rightarrow> http_outcome"
  ow_post :: "string \<Rightarrow> (string \<times> string) list \<Rightarrow> http_outcome"
  ow_encode :: jwt_encoder
  ow_header_ok :: "string \<Rightarrow> bool"

definition exchange_code :: "oauth2_world \<Rightarrow> oauth2_config \<Rightarrow> string \<Rightarrow> string \<Rightarrow> (app_error, json) result" where
  "exchange_code w cfg auth_code code_verifier =
     (if oa_token_url cfg = [] then Inl (ConfigurationError ''OAuth2 token_url is not configured'')
      else
        (case ow_post w (oa_token_url cfg)
            [(''grant_type'', ''authorization_code''), (''code'', auth_code), (''redirect_uri'', oa_redirect_url cfg),
             (''client_id'', oa_client_id cfg), (''client_secret'', oa_client_secret cfg), (''code_verifier'', code_verifier)] of
           SendFailed e \<Rightarrow> Inl (AuthError (''OAuth2 token exchange failed: '' @ e))
         | BadStatus _ \<Rightarrow> Inl (AuthError ''OAuth2 token exchange failed'')
         | BadBody e \<Rightarrow> Inl (AuthError (''OAuth2 token response parse error: '' @ e))
         | JsonBody v \<Rightarrow> Inr v))"

definition exchange_token :: "oauth2_world \<Rightarrow> oauth2_config \<Rightarrow> string \<Rightarrow> string \<Rightarrow> (app_error, string) result" where
  "exchange_token w cfg auth_code code_verifier =
     (case exchange_code w cfg auth_code code_verifier of
        Inl e \<Rightarrow> Inl e
      | Inr token_response \<Rightarrow> ok_or (claim_str ''access_token'' token_response) (AuthError ''Token response missing access_token''))"

definition get_userinfo :: "oauth2_world \<Rightarrow> oauth2_config \<Rightarrow> string \<Rightarrow> (app_error, string \<times> string option) result" where
  "get_userinfo w cfg access_token =
     (if oa_userinfo_url cfg = [] then Inl (ConfigurationError ''OAuth2 userinfo_url is required for the code flow'')
      else fetch_userinfo (ow_get w) (oa_userinfo_url cfg) access_token (oa_role_mapping cfg))"

definition get_oauth2_config :: "auth_config \<Rightarrow> (app_error, oauth2_config \<times> jwt_config) result" where
  "get_oauth2_config auth =
     (case au_oauth2 auth of
        None \<Rightarrow> Inl (ConfigurationError ''OAuth2 is not configured'')
      | Some cfg \<Rightarrow>
          (case au_jwt auth of
             None \<Rightarrow> Inl (ConfigurationError ''JWT config is required for OAuth2 code flow (used to mint tokens after login)'')
           | Some jwt \<Rightarrow> Inr (cfg, jwt)))"

text \<open>\<open>mint_jwt\<close>: the identifier is a random UUID.\<close>

definition mint_jwt :: "jwt_encoder \<Rightarrow> int \<Rightarrow> string \<Rightarrow> string \<Rightarrow> string option \<Rightarrow> jwt_config \<Rightarrow> (app_error, string) result" where
  "mint_jwt encode clock jti sub role cfg = create_token encode clock sub role cfg (Some jti) None"

definition session_cookie :: "string \<Rightarrow> string \<Rightarrow> bool \<Rightarrow> int \<Rightarrow> string" where
  "session_cookie cookie_name jwt has_tls max_age =
     cookie_name @ ''='' @ jwt @ ''; HttpOnly; SameSite=Lax; Path=/; Max-Age='' @ show_int max_age @ (if has_tls then ''; Secure'' else [])"

definition build_redirect_response :: "(string \<Rightarrow> bool) \<Rightarrow> string \<Rightarrow> string \<Rightarrow> string \<Rightarrow> bool \<Rightarrow> int \<Rightarrow> (app_error, redirect) result" where
  "build_redirect_response header_ok success_url cookie_name jwt has_tls max_age =
     (if CHR 0x0D \<in> set success_url \<or> CHR 0x0A \<in> set success_url
      then Inl (ConfigurationError ''OAuth2 success_url contains invalid characters'')
      else build_redirect header_ok [(''location'', success_url), (''set-cookie'', session_cookie cookie_name jwt has_tls max_age)])"

text \<open>Everything after the state was accepted; the handler reads the configuration anew at each step, the
  model reads it once.\<close>

definition finish_login :: "oauth2_world \<Rightarrow> auth_config \<Rightarrow> bool \<Rightarrow> int \<Rightarrow> string \<Rightarrow> string \<Rightarrow> string \<Rightarrow> (app_error, redirect) result" where
  "finish_login w auth has_tls clock jti auth_code code_verifier =
     (case get_oauth2_config auth of
        Inl e \<Rightarrow> Inl e
      | Inr (cfg, jwt_cfg) \<Rightarrow>
          (case exchange_token w cfg auth_code code_verifier of
             Inl e \<Rightarrow> Inl e
           | Inr access_token \<Rightarrow>
               (case get_userinfo w cfg access_token of
                  Inl e \<Rightarrow> Inl e
                | Inr (sub, role) \<Rightarrow>
                    (case mint_jwt (ow_encode w) clock jti sub role jwt_cfg of
                       Inl e \<Rightarrow> Inl e
                     | Inr jwt \<Rightarrow>
                         build_redirect_response (ow_header_ok w)
                           (if oa_success_url cfg = [] then ''/'' else oa_success_url cfg)
                           (if oa_cookie_name cfg = [] then ''main_serve_token'' else oa_cookie_name cfg)
                           jwt has_tls (jwt_expiry jwt_cfg)))))"

definition pending_ttl :: "auth_config \<Rightarrow> int" where
  "pending_ttl auth = (case au_oauth2 auth of None \<Rightarrow> 300 * nanos | Some cfg \<Rightarrow> oa_state_ttl cfg * nanos)"

definition handle_oauth2_callback :: "oauth2_world \<Rightarrow> auth_config \<Rightarrow> bool \<Rightarrow> (string, string) entries \<Rightarrow> int \<Rightarrow> int \<Rightarrow> int \<Rightarrow> string
    \<Rightarrow> pending_table \<Rightarrow> (app_error, redirect) result \<times> pending_table" where
  "handle_oauth2_callback w auth has_tls params now later clock jti pending =
     (if map_of params ''error'' \<noteq> None then (Inl (AuthError ''OAuth2 authorization failed''), pending)
      else
        (case map_of params ''code'' of
           None \<Rightarrow> (Inl (BadRequest (''Missing '' @ [quote_char] @ ''code'' @ [quote_char] @ '' parameter'')), pending)
         | Some auth_code \<Rightarrow>
             (case map_of params ''state'' of
                None \<Rightarrow> (Inl (BadRequest (''Missing '' @ [quote_char] @ ''state'' @ [quote_char] @ '' parameter'')), pending)
              | Some state_param \<Rightarrow>
                  (case validate_state state_param (pending_ttl auth) now later pending of
                     (Inl e, pending') \<Rightarrow> (Inl e, pending')
                   | (Inr p, pending') \<Rightarrow> (finish_login w auth has_tls clock jti auth_code (po_code_verifier p), pending')))))"

section \<open>Every accepted state was issued, is fresh and is used once\<close>

datatype oauth2_event = Issued string string int | Accepted string string int

text \<open>The issue of a state that is not yet used up, in a log with the latest event first.\<close>

fun outstanding :: "string \<Rightarrow> oauth2_event list \<Rightarrow> (string \<times> int) option" where
  "outstanding s [] = None"
| "outstanding s (Issued s' v t # log) = (if s' = s then Some (v, t) else outstanding s log)"
| "outstanding s (Accepted s' v t # log) = (if s' = s then None else outstanding s log)"

text \<open>The critical sections of the two handlers, one after another as the mutex orders them.\<close>

inductive oauth2_step :: "oauth2_config \<Rightarrow> pending_table \<times> oauth2_event list \<Rightarrow> pending_table \<times> oauth2_event list \<Rightarrow> bool" for cfg where
  issue: "store_pending cfg s v now pending = (Inr (), pending') \<Longrightarrow> oauth2_step cfg (pending, log) (pending', Issued s v now # log)"
| refuse: "store_pending cfg s v now pending = (Inl e, pending') \<Longrightarrow> oauth2_step cfg (pending, log) (pending', log)"
| accept: "validate_state s (oa_state_ttl cfg * nanos) now later pending = (Inr p, pending') \<Longrightarrow>
    oauth2_step cfg (pending, log) (pending', Accepted s (po_code_verifier p) later # log)"
| reject: "validate_state s (oa_state_ttl cfg * nanos) now later pending = (Inl e, pending') \<Longrightarrow> oauth2_step cfg (pending, log) (pending', log)"

inductive_cases oauth2_stepE: "oauth2_step cfg \<sigma> \<sigma>'"

abbreviation oauth2_reachable :: "oauth2_config \<Rightarrow> pending_table \<times> oauth2_event list \<Rightarrow> bool" where
  "oauth2_reachable cfg \<equiv> reachable (\<lambda>\<sigma>. \<sigma> = ([], [])) (oauth2_step cfg)"

fun log_ok :: "int \<Rightarrow> oauth2_event list \<Rightarrow> bool" where
  "log_ok ttl [] = True"
| "log_ok ttl (Issued s v t # log) = log_ok ttl log"
| "log_ok ttl (Accepted s v t # log) = ((\<exists>t0. outstanding s log = Some (v, t0) \<and> elapsed t t0 < ttl) \<and> log_ok ttl log)"

definition pending_ok :: "pending_table \<Rightarrow> oauth2_event list \<Rightarrow> bool" where
  "pending_ok pending log \<longleftrightarrow> wf_entries pending \<and>
     (\<forall>s p. map_of pending s = Some p \<longrightarrow> outstanding s log = Some (po_code_verifier p, po_created_at p))"

lemma pending_ok_wf: "pending_ok pending log \<Longrightarrow> wf_entries pending"
  by (simp add: pending_ok_def)

lemma pending_ok_cleanup: "pending_ok pending log \<Longrightarrow> pending_ok (cleanup_expired pending ttl now) log"
  by (auto simp: pending_ok_def cleanup_expired_def map_of_entries_retain split: option.splits if_splits)

lemma pending_ok_remove: "pending_ok pending log \<Longrightarrow> pending_ok (entries_remove s pending) (Accepted s v t # log)"
  "pending_ok pending log \<Longrightarrow> pending_ok (entries_remove s pending) log"
  by (auto simp: pending_ok_def)

lemma pending_ok_insert:
  "pending_ok pending log \<Longrightarrow>
     pending_ok (entries_insert s \<lparr> po_code_verifier = v, po_created_at = t \<rparr> pending) (Issued s v t # log)"
  by (auto simp: pending_ok_def)

lemma validate_state_Inr:
  "validate_state s ttl now later pending = (Inr p, pending') \<Longrightarrow>
     map_of (cleanup_expired pending ttl now) s = Some p \<and> elapsed later (po_created_at p) < ttl
       \<and> pending' = entries_remove s (cleanup_expired pending ttl now)"
  by (auto simp: validate_state_def Let_def split: option.splits if_splits)

lemma validate_state_Inl:
  "validate_state s ttl now later pending = (Inl e, pending') \<Longrightarrow> pending' = entries_remove s (cleanup_expired pending ttl now)"
  by (auto simp: validate_state_def Let_def)

lemma length_cleanup_expired: "length (cleanup_expired pending ttl now) \<le> length pending"
  by (simp add: cleanup_expired_def)

lemma length_validate_state: "length (snd (validate_state s ttl now later pending)) \<le> length pending"
  by (simp add: validate_state_def Let_def) (rule order_trans [OF length_entries_remove_le length_cleanup_expired])

definition oauth2_inv :: "oauth2_config \<Rightarrow> pending_table \<times> oauth2_event list \<Rightarrow> bool" where
  "oauth2_inv cfg \<sigma> \<longleftrightarrow> pending_ok (fst \<sigma>) (snd \<sigma>) \<and> length (fst \<sigma>) \<le> oa_max_pending_states cfg
     \<and> log_ok (oa_state_ttl cfg * nanos) (snd \<sigma>)"

lemma oauth2_inv_step:
  assumes "oauth2_step cfg \<sigma> \<sigma>'" "oauth2_inv cfg \<sigma>"
  shows "oauth2_inv cfg \<sigma>'"
  using assms
proof (cases rule: oauth2_step.cases)
  case (issue s v now pending pending' log)
  let ?c = "cleanup_expired pending (oa_state_ttl cfg * nanos) now"
  from issue(3) have "length ?c < oa_max_pending_states cfg"
    and p': "pending' = entries_insert s \<lparr> po_code_verifier = v, po_created_at = now \<rparr> ?c"
    by (auto simp: store_pending_def Let_def split: if_splits)
  then have "length pending' \<le> oa_max_pending_states cfg"
    using length_entries_insert_le [of s "\<lparr> po_code_verifier = v, po_created_at = now \<rparr>" ?c] by simp
  with assms(2) issue p' show ?thesis
    by (simp add: oauth2_inv_def pending_ok_insert pending_ok_cleanup)
next
  case (refuse s v now pending e pending' log)
  then have "pending' = cleanup_expired pending (oa_state_ttl cfg * nanos) now"
    by (auto simp: store_pending_def Let_def split: if_splits)
  with assms(2) refuse show ?thesis
    using length_cleanup_expired [of pending "oa_state_ttl cfg * nanos" now] by (auto simp: oauth2_inv_def pending_ok_cleanup)
next
  case (accept s now later pending p pending' log)
  let ?c = "cleanup_expired pending (oa_state_ttl cfg * nanos) now"
  from validate_state_Inr [OF accept(3)] have p: "map_of ?c s = Some p" "elapsed later (po_created_at p) < oa_state_ttl cfg * nanos"
    "pending' = entries_remove s ?c" by blast+
  have ok: "pending_ok ?c log" using assms(2) accept by (simp add: oauth2_inv_def pending_ok_cleanup)
  moreover from ok p(1) have "outstanding s log = Some (po_code_verifier p, po_created_at p)" by (simp add: pending_ok_def)
  moreover have "length pending' \<le> oa_max_pending_states cfg"
    using assms(2) accept length_validate_state [of s "oa_state_ttl cfg * nanos" now later pending] by (simp add: oauth2_inv_def)
  ultimately show ?thesis
    using assms(2) accept p(2) by (simp add: oauth2_inv_def p(3) pending_ok_remove)
next
  case (reject s now later pending e pending' log)
  have "length pending' \<le> oa_max_pending_states cfg"
    using assms(2) reject length_validate_state [of s "oa_state_ttl cfg * nanos" now later pending] by (simp add: oauth2_inv_def)
  with assms(2) reject validate_state_Inl [OF reject(3)] show ?thesis
    by (simp add: oauth2_inv_def pending_ok_cleanup pending_ok_remove)
qed

lemma oauth2_reachable_inv: "oauth2_reachable cfg \<sigma> \<Longrightarrow> oauth2_inv cfg \<sigma>"
proof (induction rule: reachable_invariant)
  case (step \<sigma> \<sigma>')
  then show ?case by (rule oauth2_inv_step)
qed (simp add: oauth2_inv_def pending_ok_def)

lemma log_ok_accepted:
  "log_ok ttl (recent @ Accepted s v t # log) \<Longrightarrow> \<exists>t0. outstanding s log = Some (v, t0) \<and> elapsed t t0 < ttl"
  by (induction ttl recent rule: log_ok.induct) auto

text \<open>An outstanding state was issued and not accepted since.\<close>

lemma outstanding_Some:
  "outstanding s log = Some (v, t) \<Longrightarrow> \<exists>recent older. log = recent @ Issued s v t # older \<and> (\<forall>v t. Accepted s v t \<notin> set recent)"
proof (induction s log rule: outstanding.induct)
  case (2 s s' v' t' log)
  show ?case
  proof (cases "s' = s")
    case True
    with "2.prems" show ?thesis by (intro exI [of _ "[]"] exI [of _ log]) simp
  next
    case False
    with 2 obtain recent older where "log = recent @ Issued s v t # older" "\<forall>v t. Accepted s v t \<notin> set recent" by auto
    then show ?thesis by (intro exI [of _ "Issued s' v' t' # recent"] exI [of _ older]) simp
  qed
next
  case (3 s s' v' t' log)
  then have "s' \<noteq> s" by auto
  with 3 obtain recent older where "log = recent @ Issued s v t # older" "\<forall>v t. Accepted s v t \<notin> set recent" by auto
  with \<open>s' \<noteq> s\<close> show ?case by (intro exI [of _ "Accepted s' v' t' # recent"] exI [of _ older]) simp
qed simp

text \<open>C9: however the two handlers interleave, the table of pending logins stays within its bound, and a state
  is accepted only if it was issued less than its lifetime ago, with the same verifier, and not accepted since.\<close>

theorem oauth2_states_single_use:
  assumes "oauth2_reachable cfg (pending, log)"
  shows "length pending \<le> oa_max_pending_states cfg \<and>
    (\<forall>recent s v t older. log = recent @ Accepted s v t # older \<longrightarrow>
      (\<exists>t0 between before. older = between @ Issued s v t0 # before \<and> (\<forall>v' t'. Accepted s v' t' \<notin> set between)
        \<and> elapsed t t0 < oa_state_ttl cfg * nanos))"
proof (intro conjI allI impI)
  note inv = oauth2_reachable_inv [OF assms]
  then show "length pending \<le> oa_max_pending_states cfg" by (simp add: oauth2_inv_def)
  fix recent s v t older
  assume "log = recent @ Accepted s v t # older"
  with inv have "log_ok (oa_state_ttl cfg * nanos) (recent @ Accepted s v t # older)" by (simp add: oauth2_inv_def)
  from log_ok_accepted [OF this] obtain t0 where t0: "outstanding s older = Some (v, t0)" "elapsed t t0 < oa_state_ttl cfg * nanos"
    by blast
  from outstanding_Some [OF t0(1)] t0(2)
  show "\<exists>t0 between before. older = between @ Issued s v t0 # before \<and> (\<forall>v' t'. Accepted s v' t' \<notin> set between)
      \<and> elapsed t t0 < oa_state_ttl cfg * nanos"
    by blast
qed

lemma sample_login_reachable:
  "oauth2_reachable oauth2_config_default ([], [Accepted ''s'' ''v'' 7, Issued ''s'' ''v'' 0])"
proof -
  have "oauth2_step oauth2_config_default ([], []) ([(''s'', \<lparr> po_code_verifier = ''v'', po_created_at = 0 \<rparr>)], [Issued ''s'' ''v'' 0])"
    by (rule oauth2_step.issue) code_simp
  moreover have "oauth2_step oauth2_config_default ([(''s'', \<lparr> po_code_verifier = ''v'', po_created_at = 0 \<rparr>)], [Issued ''s'' ''v'' 0])
      ([], [Accepted (''s'' :: string) (po_code_verifier \<lparr> po_code_verifier = ''v'', po_created_at = 0 \<rparr>) 7, Issued ''s'' ''v'' 0])"
    by (rule oauth2_step.accept [where now = 6]) code_simp
  ultimately show ?thesis
    by (auto intro: reachable_step [OF reachable_step [OF reachable_initial]])
qed

theorem oauth2_states_single_use_witness:
  "length ([] :: pending_table) \<le> oa_max_pending_states oauth2_config_default \<and>
    (\<exists>t0 between before. [Issued ''s'' ''v'' 0] = between @ Issued ''s'' ''v'' t0 # before \<and> (\<forall>v' t'. Accepted ''s'' v' t' \<notin> set between)
        \<and> elapsed 7 t0 < oa_state_ttl oauth2_config_default * nanos)"
  using oauth2_states_single_use [OF sample_login_reachable] by (metis append_Nil)

section \<open>Cookies round trip\<close>

text \<open>A cookie name and value as browsers send them back: no separators, no white space, no quotes.\<close>

definition cookie_char :: "char \<Rightarrow> bool" where
  "cookie_char c \<longleftrightarrow> 32 < ccode c \<and> ccode c < 127 \<and> c \<noteq> CHR '';'' \<and> c \<noteq> dquote_char"

definition plain_cookie :: "string \<times> string \<Rightarrow> bool" where
  "plain_cookie nv \<longleftrightarrow> fst nv \<noteq> [] \<and> list_all (\<lambda>c. cookie_char c \<and> c \<noteq> CHR ''='') (fst nv) \<and> list_all cookie_char (snd nv)"

definition cookie_header :: "(string \<times> string) list \<Rightarrow> string" where
  "cookie_header cookies = join ''; '' (map (\<lambda>(n, v). n @ ''='' @ v) cookies)"

lemma cookie_char_not_space: "cookie_char c \<Longrightarrow> \<not> is_whitespace c"
  by (auto simp: cookie_char_def is_whitespace_def)

lemma trim_solid: "list_all (\<lambda>c. \<not> is_whitespace c) s \<Longrightarrow> trim s = s \<and> trim (CHR '' '' # s) = s"
proof -
  assume s: "list_all (\<lambda>c. \<not> is_whitespace c) s"
  then have no: "\<not> is_whitespace c" if "c \<in> set s" for c
    using that by (simp add: list_all_iff)
  have "dropWhile is_whitespace s = s" using no by (simp add: dropWhile_eq_self_iff)
  moreover have "dropWhile is_whitespace (rev s) = rev s" using no by (cases "s = []") (simp_all add: dropWhile_eq_self_iff hd_rev)
  moreover have "is_whitespace (CHR '' '')" by code_simp
  ultimately show ?thesis by (simp add: trim_def)
qed

lemma split_join_cookies:
  "(\<And>x. x \<in> set (c # cs) \<Longrightarrow> CHR '';'' \<notin> set (f x)) \<Longrightarrow>
     split_on (CHR '';'') (join ''; '' (map f (c # cs))) = f c # map (\<lambda>x. CHR '' '' # f x) cs"
proof (induction cs arbitrary: c)
  case (Cons d ds)
  then have IH: "split_on (CHR '';'') (join ''; '' (map f (d # ds))) = f d # map (\<lambda>x. CHR '' '' # f x) ds" by simp
  have "split_on (CHR '';'') (join ''; '' (map f (c # d # ds)))
      = split_on (CHR '';'') (f c @ CHR '';'' # (CHR '' '' # join ''; '' (map f (d # ds))))"
    by simp
  also have "\<dots> = f c # split_on (CHR '';'') (CHR '' '' # join ''; '' (map f (d # ds)))"
    using Cons.prems by (intro split_on_append) simp
  also have "\<dots> = f c # map (\<lambda>x. CHR '' '' # f x) (d # ds)"
    using IH by simp
  finally show ?case .
qed (simp add: split_on_single)

lemma plain_cookie_text:
  assumes "plain_cookie (n, v)"
  shows "trim (n @ ''='' @ v) = n @ ''='' @ v" "trim (CHR '' '' # n @ ''='' @ v) = n @ ''='' @ v" "CHR '';'' \<notin> set (n @ ''='' @ v)"
    "unquote_cookie v = v"
proof -
  have chars: "list_all cookie_char (n @ ''='' @ v)"
    using assms by (auto simp: plain_cookie_def list_all_iff cookie_char_def ccode_def)
  then have "list_all (\<lambda>c. \<not> is_whitespace c) (n @ ''='' @ v)"
    by (auto simp: list_all_iff dest: cookie_char_not_space)
  from trim_solid [OF this] show "trim (n @ ''='' @ v) = n @ ''='' @ v" "trim (CHR '' '' # n @ ''='' @ v) = n @ ''='' @ v"
    by simp_all
  from chars show "CHR '';'' \<notin> set (n @ ''='' @ v)" by (auto simp: list_all_iff cookie_char_def)
  have "dquote_char \<notin> set v" using assms by (auto simp: plain_cookie_def list_all_iff cookie_char_def)
  then have "\<not> starts_with v [dquote_char]" by (auto simp: starts_with_prefix prefix_def)
  then show "unquote_cookie v = v" by (simp add: unquote_cookie_def)
qed

lemma strip_cookie_name:
  assumes "CHR ''='' \<notin> set n" "CHR ''='' \<notin> set name"
  shows "strip_prefix (name @ ''='') (n @ ''='' @ v) = (if n = name then Some v else None)"
proof (cases "strip_prefix (name @ ''='') (n @ ''='' @ v)")
  case None
  then have "n \<noteq> name" by (auto simp: strip_prefix_None)
  with None show ?thesis by simp
next
  case (Some r)
  then have "split_once (CHR ''='') (n @ CHR ''='' # v) = Some (name, r)"
    using assms(2) by (simp add: split_once_Some)
  with split_once_Some [of "CHR ''=''" "n @ CHR ''='' # v" n v] assms(1) Some show ?thesis by simp
qed

lemma header_to_str_cookies:
  assumes "list_all plain_cookie cookies"
  shows "header_to_str (cookie_header cookies) = Some (cookie_header cookies)"
proof -
  have ok: "32 \<le> ccode c \<and> ccode c < 127" if "(n, v) \<in> set cookies" "c \<in> set (n @ ''='' @ v)" for n v c
  proof -
    from that(2) consider "c \<in> set n" | "c = CHR ''=''" | "c \<in> set v" by auto
    then show ?thesis
    proof cases
      case 2
      then show ?thesis by (simp add: ccode_def)
    qed (use assms that(1) in \<open>fastforce simp: list_all_iff plain_cookie_def cookie_char_def\<close>)+
  qed
  have "32 \<le> ccode c \<and> ccode c < 127" if "c \<in> set (cookie_header cookies)" for c
  proof -
    from that set_join [of "''; ''" "map (\<lambda>(n, v). n @ ''='' @ v) cookies"]
    have "c \<in> set ''; '' \<or> (\<exists>(n, v) \<in> set cookies. c \<in> set (n @ ''='' @ v))"
      unfolding cookie_header_def by fastforce
    with ok show ?thesis by (auto simp: ccode_def)
  qed
  then show ?thesis by (auto simp: header_to_str_def list_all_iff)
qed

lemma find_map_cookies:
  assumes "list_all plain_cookie cookies" "CHR ''='' \<notin> set name" "\<And>n v. (n, v) \<in> set cookies \<Longrightarrow> trim (g (n @ ''='' @ v)) = n @ ''='' @ v"
  shows "find_map (\<lambda>part. strip_prefix (name @ ''='') (trim part)) (map (\<lambda>(n, v). g (n @ ''='' @ v)) cookies) = map_of cookies name"
  using assms
proof (induction cookies)
  case (Cons e cs)
  obtain n v where e: "e = (n, v)" by (cases e)
  have n: "CHR ''='' \<notin> set n" using Cons.prems(1) by (auto simp: e plain_cookie_def list_all_iff)
  have "trim (g (n @ ''='' @ v)) = n @ ''='' @ v" using Cons.prems(3) by (simp add: e)
  with strip_cookie_name [OF n Cons.prems(2), of v] Cons show ?case by (simp add: e)
qed simp

lemma extract_cookie_roundtrip:
  assumes "list_all plain_cookie cookies" "CHR ''='' \<notin> set name"
  shows "extract_cookie [(''cookie'', cookie_header cookies)] name = map_of cookies name"
proof (cases cookies)
  case Nil
  have "strip_prefix (name @ ''='') [] = None" by (cases name) simp_all
  then show ?thesis
    by (simp add: extract_cookie_def header_str_def header_get_def Nil cookie_header_def header_to_str_def lowercase_def to_lower_def
        is_ascii_alpha_def trim_def)
next
  case (Cons c cs)
  have parts: "trim (n @ ''='' @ v) = n @ ''='' @ v" "trim (CHR '' '' # n @ ''='' @ v) = n @ ''='' @ v" "CHR '';'' \<notin> set (n @ ''='' @ v)"
    "unquote_cookie v = v" if "(n, v) \<in> set cookies" for n v
    using plain_cookie_text [of n v] assms(1) that by (auto simp: list_all_iff)
  let ?f = "\<lambda>(n, v). n @ ''='' @ v" and ?P = "\<lambda>part. strip_prefix (name @ ''='') (trim part)"
  have "split_on (CHR '';'') (cookie_header cookies) = ?f c # map (\<lambda>x. CHR '' '' # ?f x) cs"
    unfolding cookie_header_def Cons by (rule split_join_cookies) (use parts(3) Cons in auto)
  moreover have "find_map ?P (map (\<lambda>(n, v). id (n @ ''='' @ v)) [c]) = map_of [c] name"
    using parts(1) assms Cons by (intro find_map_cookies) (auto simp: list_all_iff)
  moreover have "find_map ?P (map (\<lambda>(n, v). CHR '' '' # (n @ ''='' @ v)) cs) = map_of cs name"
    using parts(2) assms Cons by (intro find_map_cookies) (auto simp: list_all_iff)
  moreover have "?f c # map (\<lambda>x. CHR '' '' # ?f x) cs = map (\<lambda>(n, v). id (n @ ''='' @ v)) [c] @ map (\<lambda>(n, v). CHR '' '' # (n @ ''='' @ v)) cs"
    by (auto simp: case_prod_unfold)
  ultimately have "find_map ?P (split_on (CHR '';'') (cookie_header cookies))
      = (case map_of [c] name of Some y \<Rightarrow> Some y | None \<Rightarrow> map_of cs name)"
    by (simp only: find_map_append)
  then have "find_map ?P (split_on (CHR '';'') (cookie_header cookies)) = map_of cookies name"
    by (cases c) (simp add: Cons)
  moreover have "map_option unquote_cookie (map_of cookies name) = map_of cookies name"
    using parts(4) by (cases "map_of cookies name") (auto dest: map_of_SomeD)
  moreover have "lowercase ''cookie'' = ''cookie''" by code_simp
  ultimately show ?thesis
    by (simp add: extract_cookie_def header_str_def header_get_def header_to_str_cookies [OF assms(1)])
qed

text \<open>The cookies of a browser, joined into one header, are read back by name; a name that was not sent is
  absent.\<close>

theorem cookies_read_back:
  assumes "list_all plain_cookie cookies" "CHR ''='' \<notin> set name"
  shows "extract_cookie [(''cookie'', cookie_header cookies)] name = map_of cookies name"
  using assms by (rule extract_cookie_roundtrip)

theorem cookies_read_back_witness:
  "extract_cookie [(''cookie'', cookie_header [(''a'', ''1''), (''main_serve_token'', ''x.y=z'')])] ''main_serve_token''
     = map_of [(''a'', ''1''), (''main_serve_token'', ''x.y=z'')] ''main_serve_token''"
  by (rule cookies_read_back) code_simp+

end
