(* ===== verification/Authenticate.thy ===== *)
theory Authenticate
  imports OAuth2 Roles Routing
begin

text \<open>
  Authentication of a request: the dispatch on the endpoint's authentication type
  (src/middleware/auth/validate.rs, \<open>authenticate\<close>) and the middleware in front of every handler
  (src/middleware/auth/mod.rs). What belongs to other crates (token decoding, base64, Argon2, the
  HTTP client) comes as one record of functions.
\<close>

section \<open>Dispatch on the authentication type\<close>

record auth_world =
  aw_decode :: jwt_decoder
  aw_b64_decode :: "string \<Rightarrow> string option"
  aw_from_utf8 :: "string \<Rightarrow> string option"
  aw_verify :: "string \<Rightarrow> string \<Rightarrow> verification"
  aw_get :: "string \<Rightarrow> string \<Rightarrow> http_outcome"

text \<open>The token of a request: the bearer token, else the cookie when a cookie name is configured.\<close>

definition request_token :: "auth_config \<Rightarrow> header_map \<Rightarrow> (app_error, string) result" where
  "request_token auth headers =
     (case (case header_str ''authorization'' headers of None \<Rightarrow> None | Some h \<Rightarrow> extract_bearer_token h) of
        Some t \<Rightarrow> Inr t
      | None \<Rightarrow>
          (case (case au_oauth2 auth of None \<Rightarrow> None | Some o2 \<Rightarrow> if oa_cookie_name o2 = [] then None else Some (oa_cookie_name o2)) of
             Some name \<Rightarrow> ok_or (extract_cookie headers name) (AuthError ''Missing Authorization header or auth cookie'')
           | None \<Rightarrow> Inl (AuthError ''Missing Authorization header'')))"

definition authenticate_jwt :: "auth_world \<Rightarrow> auth_config \<Rightarrow> header_map \<Rightarrow> (string \<Rightarrow> bool) option \<Rightarrow> (app_error, auth_info) result" where
  "authenticate_jwt w auth headers revoked =
     (case au_jwt auth of
        None \<Rightarrow> Inl (ConfigurationError ''JWT auth configured but no jwt config provided'')
      | Some cfg \<Rightarrow>
          (case request_token auth headers of
             Inl e \<Rightarrow> Inl e
           | Inr token \<Rightarrow>
               (case validate_token (aw_decode w) token cfg revoked of
                  Inl e \<Rightarrow> Inl e
                | Inr c \<Rightarrow> Inr \<lparr> ai_subject = cl_sub c, ai_email = cl_email c, ai_role = cl_role c, ai_token = Some token \<rparr>)))"

definition authenticate_api_key :: "auth_config \<Rightarrow> header_map \<Rightarrow> (string, string) entries \<Rightarrow> (app_error, auth_info) result" where
  "authenticate_api_key auth headers query_params =
     (case au_api_key auth of
        None \<Rightarrow> Inl (ConfigurationError ''API key auth configured but no api_key config provided'')
      | Some cfg \<Rightarrow>
          (case validate_api_key headers query_params cfg of
             Inl e \<Rightarrow> Inl e
           | Inr role \<Rightarrow> Inr \<lparr> ai_subject = ''api_key_user'', ai_email = None, ai_role = role, ai_token = None \<rparr>))"

definition authenticate_basic :: "auth_world \<Rightarrow> auth_config \<Rightarrow> header_map \<Rightarrow> (app_error, auth_info) result" where
  "authenticate_basic w auth headers =
     (case au_basic auth of
        None \<Rightarrow> Inl (ConfigurationError ''Basic auth configured but no basic config provided'')
      | Some cfg \<Rightarrow>
          (let challenge = ''Basic realm='' @ [dquote_char] @ ba_realm cfg @ [dquote_char] in
           case header_str ''authorization'' headers of
             None \<Rightarrow> Inl (AuthChallenge ''Missing Authorization header'' challenge)
           | Some h \<Rightarrow>
               (case extract_basic_auth h of
                  None \<Rightarrow> Inl (AuthChallenge ''Expected Basic credentials'' challenge)
                | Some _ \<Rightarrow>
                    (case validate_basic_auth (aw_b64_decode w) (aw_from_utf8 w) (aw_verify w) h cfg of
                       Inl (AuthError msg) \<Rightarrow> Inl (AuthChallenge msg challenge)
                     | Inl e \<Rightarrow> Inl e
                     | Inr role \<Rightarrow> Inr \<lparr> ai_subject = ''basic_user'', ai_email = None, ai_role = role, ai_token = None \<rparr>))))"

definition authenticate_oauth2 :: "auth_world \<Rightarrow> auth_config \<Rightarrow> header_map \<Rightarrow> (app_error, auth_info) result" where
  "authenticate_oauth2 w auth headers =
     (case au_oauth2 auth of
        None \<Rightarrow> Inl (ConfigurationError ''OAuth2 auth configured but no oauth2 config provided'')
      | Some cfg \<Rightarrow>
          (case header_str ''authorization'' headers of
             None \<Rightarrow> Inl (AuthError ''Missing Authorization header'')
           | Some h \<Rightarrow>
               (case extract_bearer_token h of
                  None \<Rightarrow> Inl (AuthError ''Expected Bearer token'')
                | Some token \<Rightarrow>
                    (case validate_oauth2_token (aw_get w) token cfg (oa_role_mapping cfg) of
                       Inl e \<Rightarrow> Inl e
                     | Inr (sub, role) \<Rightarrow> Inr \<lparr> ai_subject = sub, ai_email = None, ai_role = role, ai_token = None \<rparr>))))"

definition authenticate :: "auth_world \<Rightarrow> string \<Rightarrow> auth_config \<Rightarrow> header_map \<Rightarrow> (string, string) entries \<Rightarrow> (string \<Rightarrow> bool) option
    \<Rightarrow> (app_error, auth_info) result" where
  "authenticate w auth_type auth headers query_params revoked =
     (if auth_type = ''none'' then Inr auth_info_anonymous
      else if auth_type = ''jwt'' then authenticate_jwt w auth headers revoked
      else if auth_type = ''api_key'' then authenticate_api_key auth headers query_params
      else if auth_type = ''basic'' then authenticate_basic w auth headers
      else if auth_type = ''oauth2'' then authenticate_oauth2 w auth headers
      else Inl (ConfigurationError (''Unknown auth type: '' @ [quote_char] @ auth_type @ [quote_char])))"

section \<open>The middleware\<close>

definition skip_routes :: "string list" where
  "skip_routes = [''/_main-serve/health'', ''/_main-serve/reload'', ''/_main-serve/oauth2/authorize'', ''/_main-serve/oauth2/callback'']"

text \<open>The query is split without percent-decoding; a later pair replaces an earlier one of the same name.\<close>

definition raw_query_params :: "string option \<Rightarrow> (string, string) entries" where
  "raw_query_params query =
     (case query of
        None \<Rightarrow> []
      | Some q \<Rightarrow> fold (\<lambda>(k, v). entries_insert k v) (List.map_filter (split_once (CHR ''='')) (split_on (CHR ''&'') q)) [])"

definition required_roles :: "endpoint_config option \<Rightarrow> string \<Rightarrow> string list" where
  "required_roles endpoint method =
     (case endpoint of
        None \<Rightarrow> []
      | Some e \<Rightarrow>
          (case find (\<lambda>m. http_method_matches m method) (ep_methods e) of
             None \<Rightarrow> []
           | Some m \<Rightarrow> roles_for_method (ep_roles e) m))"

record http_request =
  rq_method :: string
  rq_path :: string
  rq_query :: "string option"
  rq_headers :: header_map

text \<open>What the middleware reads of the application state.\<close>

record auth_state =
  as_endpoints :: endpoint_table
  as_auth :: auth_config
  as_revoked :: "(string \<Rightarrow> bool) option"
  as_inheritance :: "(string, string set) entries"

text \<open>\<open>auth_middleware\<close>: \<open>Inr x\<close> hands the request to the next service, with the identity \<open>x\<close> in its extensions.\<close>

definition auth_middleware :: "auth_world \<Rightarrow> auth_state \<Rightarrow> http_request \<Rightarrow> (app_error, auth_info option) result" where
  "auth_middleware w st req =
     (if list_ex (starts_with (rq_path req)) skip_routes then Inr None
      else
        (let endpoint = get_endpoint_config_for_method (as_endpoints st) (rq_path req) (rq_method req);
             auth_type = (case endpoint of None \<Rightarrow> ''none'' | Some e \<Rightarrow> ep_auth e)
         in if auth_type = ''none'' then Inr None
            else
              (case authenticate w auth_type (as_auth st) (rq_headers req) (raw_query_params (rq_query req)) (as_revoked st) of
                 Inl e \<Rightarrow> Inl e
               | Inr info \<Rightarrow>
                   (case check_roles info (required_roles endpoint (rq_method req)) (as_inheritance st) of
                      Inl e \<Rightarrow> Inl e
                    | Inr _ \<Rightarrow> Inr (Some info)))))"

section \<open>What an authenticated request has shown\<close>

text \<open>Where a request carries its token: after \<open>Bearer\<close> in the Authorization header or, without one, in the
  configured session cookie.\<close>

definition bearer_shown :: "header_map \<Rightarrow> string \<Rightarrow> bool" where
  "bearer_shown headers token = (header_str ''authorization'' headers = Some (''Bearer '' @ token))"

definition token_shown :: "auth_config \<Rightarrow> header_map \<Rightarrow> string \<Rightarrow> bool" where
  "token_shown auth headers token \<longleftrightarrow> bearer_shown headers token
     \<or> (\<exists>o2. au_oauth2 auth = Some o2 \<and> oa_cookie_name o2 \<noteq> [] \<and> extract_cookie headers (oa_cookie_name o2) = Some token)"

text \<open>The user name and password of a request, as Basic authentication encodes them.\<close>

definition basic_shown :: "auth_world \<Rightarrow> header_map \<Rightarrow> string \<Rightarrow> string \<Rightarrow> bool" where
  "basic_shown w headers username password \<longleftrightarrow>
     (\<exists>enc bytes. header_str ''authorization'' headers = Some (''Basic '' @ enc) \<and> aw_b64_decode w enc = Some bytes
       \<and> aw_from_utf8 w bytes = Some (username @ '':'' @ password) \<and> CHR '':'' \<notin> set username)"

text \<open>The credential of the configured kind that the headers and the query of this request carry, and
  the identity it stands for.\<close>

definition credential_shown :: "auth_world \<Rightarrow> string \<Rightarrow> auth_config \<Rightarrow> header_map \<Rightarrow> (string, string) entries \<Rightarrow> (string \<Rightarrow> bool) option
    \<Rightarrow> auth_info \<Rightarrow> bool" where
  "credential_shown w auth_type auth headers query_params revoked info \<longleftrightarrow>
     auth_type = ''jwt'' \<and> (\<exists>cfg token v. au_jwt auth = Some cfg \<and> token_shown auth headers token \<and> ai_token info = Some token
       \<and> aw_decode w token (jwt_secret cfg) (token_validation cfg) = Inr v \<and> claim_str ''sub'' v = Some (ai_subject info)
       \<and> trim (ai_subject info) \<noteq> [] \<and> ai_role info = claim_str (jwt_role_claim cfg) v
       \<and> (\<forall>r j. revoked = Some r \<longrightarrow> claim_str ''jti'' v = Some j \<longrightarrow> \<not> r j))
   \<or> auth_type = ''api_key'' \<and> (\<exists>cfg e. au_api_key auth = Some cfg \<and> e \<in> set (ak_keys cfg) \<and> ai_role info = ake_role e
       \<and> (case ak_location cfg of KeyInHeader \<Rightarrow> header_str (ak_name cfg) headers | KeyInQuery \<Rightarrow> map_of query_params (ak_name cfg)) = Some (ake_key e))
   \<or> auth_type = ''basic'' \<and> (\<exists>cfg u password. au_basic auth = Some cfg \<and> u \<in> set (ba_users cfg) \<and> ai_role info = bau_role u
       \<and> basic_shown w headers (bau_username u) password \<and> aw_verify w password (bau_password_hash u) = PasswordOk)
   \<or> auth_type = ''oauth2'' \<and> (\<exists>cfg token userinfo. au_oauth2 auth = Some cfg \<and> bearer_shown headers token
       \<and> aw_get w (oa_userinfo_url cfg) token = JsonBody userinfo
       \<and> claim_str ''sub'' userinfo = Some (ai_subject info) \<and> ai_role info = userinfo_role (oa_role_mapping cfg) userinfo)"

lemma request_token_shown:
  "request_token auth headers = Inr token \<Longrightarrow> token_shown auth headers token"
  by (auto simp: request_token_def token_shown_def bearer_shown_def extract_bearer_token_def ok_or_def
      split: option.splits if_splits)

lemma authenticate_jwt_shown:
  "authenticate_jwt w auth headers revoked = Inr info \<Longrightarrow> credential_shown w ''jwt'' auth headers query_params revoked info"
  by (auto simp: authenticate_jwt_def credential_shown_def split: option.splits sum.splits
      dest!: validate_token_Inr request_token_shown)

lemma find_SomeD: "find P xs = Some x \<Longrightarrow> x \<in> set xs \<and> P x"
  by (auto simp: find_Some_iff)

lemma authenticate_api_key_shown:
  "authenticate_api_key auth headers query_params = Inr info \<Longrightarrow> credential_shown w ''api_key'' auth headers query_params revoked info"
  by (auto simp: authenticate_api_key_def validate_api_key_def credential_shown_def split: option.splits sum.splits dest!: find_SomeD)

lemma validate_basic_auth_Inr:
  "validate_basic_auth (aw_b64_decode w) (aw_from_utf8 w) (aw_verify w) h cfg = Inr role \<Longrightarrow>
     header_str ''authorization'' headers = Some h \<Longrightarrow>
     \<exists>u password. u \<in> set (ba_users cfg) \<and> role = bau_role u \<and> basic_shown w headers (bau_username u) password
       \<and> aw_verify w password (bau_password_hash u) = PasswordOk"
  by (auto simp: validate_basic_auth_def basic_shown_def split: option.splits verification.splits
      dest!: find_SomeD split_once_Some [THEN iffD1]) blast

lemma authenticate_basic_shown:
  "authenticate_basic w auth headers = Inr info \<Longrightarrow> credential_shown w ''basic'' auth headers query_params revoked info"
  by (auto simp: authenticate_basic_def credential_shown_def Let_def split: option.splits sum.splits app_error.splits
      dest!: validate_basic_auth_Inr [where headers = headers])

lemma fetch_userinfo_Inr:
  "fetch_userinfo http_get url token mapping = Inr (sub, role) \<Longrightarrow>
     \<exists>userinfo. http_get url token = JsonBody userinfo \<and> claim_str ''sub'' userinfo = Some sub \<and> role = userinfo_role mapping userinfo"
  by (auto simp: fetch_userinfo_def split: http_outcome.splits option.splits)

lemma authenticate_oauth2_shown:
  "authenticate_oauth2 w auth headers = Inr info \<Longrightarrow> credential_shown w ''oauth2'' auth headers query_params revoked info"
  by (auto simp: authenticate_oauth2_def validate_oauth2_token_def credential_shown_def bearer_shown_def extract_bearer_token_def
      split: option.splits sum.splits if_splits dest!: fetch_userinfo_Inr)

lemma authenticate_shown:
  "authenticate w auth_type auth headers query_params revoked = Inr info \<Longrightarrow> auth_type \<noteq> ''none'' \<Longrightarrow>
     credential_shown w auth_type auth headers query_params revoked info"
  by (auto simp: authenticate_def authenticate_jwt_shown authenticate_api_key_shown authenticate_basic_shown authenticate_oauth2_shown
      split: if_splits)

text \<open>C2: take a request whose path does not start with one of the four paths the middleware always lets
  through (health, reload, OAuth2 authorize and callback) and whose path and method the endpoint table
  resolves to an endpoint that asks for authentication. The middleware hands it on only when its own
  headers or query carry a credential of the configured kind: a token (Authorization header or session
  cookie) that the library accepts, with a subject and not revoked; one of the configured API keys at
  the configured place; the name of a configured user with a password that verifies against that user's
  hash; a bearer token for which the provider returns the identity. Where the endpoint asks for roles,
  the role of that credential is one of them or inherits one along the configured hierarchy. The handler
  sees exactly the identity of that credential.\<close>

theorem protected_endpoint_guarded:
  assumes "auth_middleware w st req = Inr x"
    and "\<not> list_ex (starts_with (rq_path req)) skip_routes"
    and "get_endpoint_config_for_method (as_endpoints st) (rq_path req) (rq_method req) = Some e" "ep_auth e \<noteq> ''none''"
    and "as_inheritance st = compute_role_inheritance h"
  shows "\<exists>info. x = Some info
    \<and> credential_shown w (ep_auth e) (as_auth st) (rq_headers req) (raw_query_params (rq_query req)) (as_revoked st) info
    \<and> (required_roles (Some e) (rq_method req) = [] \<or>
       (\<exists>r. ai_role info = Some r \<and>
          (\<exists>q \<in> set (required_roles (Some e) (rq_method req)). (r, q) \<in> (case h of None \<Rightarrow> {} | Some roles \<Rightarrow> parent_rel roles)\<^sup>*)))"
proof -
  from assms(1-4) obtain info where x: "x = Some info"
    and a: "authenticate w (ep_auth e) (as_auth st) (rq_headers req) (raw_query_params (rq_query req)) (as_revoked st) = Inr info"
    and r: "check_roles info (required_roles (Some e) (rq_method req)) (as_inheritance st) = Inr ()"
    by (auto simp: auth_middleware_def Let_def split: sum.splits)
  from authenticate_shown [OF a assms(4)] r [unfolded assms(5) check_roles_reach] x show ?thesis by blast
qed

definition sample_auth_state :: auth_state where
  "sample_auth_state =
     \<lparr> as_endpoints = register_endpoints
         [(sample_endpoint ''/api/items'' [Get] ''api_key'') \<lparr> ep_roles := FlatRoles [''user''] \<rparr>],
       as_auth = \<lparr> au_jwt = None, au_api_key = Some (api_key_config_default \<lparr> ak_keys := [\<lparr> ake_key = ''k'', ake_role = Some ''admin'' \<rparr>] \<rparr>),
         au_basic = None, au_oauth2 = None, au_register = None \<rparr>,
       as_revoked = None, as_inheritance = compute_role_inheritance (Some sample_roles) \<rparr>"

definition sample_world :: auth_world where
  "sample_world = \<lparr> aw_decode = sample_decode, aw_b64_decode = Some, aw_from_utf8 = Some, aw_verify = (\<lambda>_ _. PasswordInvalid),
     aw_get = (\<lambda>_ _. SendFailed ''offline'') \<rparr>"

definition sample_request :: http_request where
  "sample_request = \<lparr> rq_method = ''GET'', rq_path = ''/api/items'', rq_query = None, rq_headers = [(''x-api-key'', ''k'')] \<rparr>"

theorem protected_endpoint_guarded_witness:
  "\<exists>info. Some \<lparr> ai_subject = ''api_key_user'', ai_email = None, ai_role = Some ''admin'', ai_token = None \<rparr> = Some info
    \<and> credential_shown sample_world ''api_key'' (as_auth sample_auth_state) [(''x-api-key'', ''k'')] (raw_query_params None) None info
    \<and> ([''user''] = [] \<or>
       (\<exists>r. ai_role info = Some r \<and> (\<exists>q \<in> set [''user'']. (r, q) \<in> (parent_rel sample_roles)\<^sup>*)))"
proof -
  let ?e = "(sample_endpoint ''/api/items'' [Get] ''api_key'') \<lparr> ep_roles := FlatRoles [''user''] \<rparr>"
  have "auth_middleware sample_world sample_auth_state sample_request
      = Inr (Some \<lparr> ai_subject = ''api_key_user'', ai_email = None, ai_role = Some ''admin'', ai_token = None \<rparr>)"
    by code_simp
  moreover have "\<not> list_ex (starts_with (rq_path sample_request)) skip_routes" by code_simp
  moreover have "get_endpoint_config_for_method (as_endpoints sample_auth_state) (rq_path sample_request) (rq_method sample_request) = Some ?e"
    by code_simp
  moreover have "ep_auth ?e \<noteq> ''none''" by code_simp
  moreover have "as_inheritance sample_auth_state = compute_role_inheritance (Some sample_roles)" by (simp add: sample_auth_state_def)
  ultimately have "\<exists>info. Some \<lparr> ai_subject = ''api_key_user'', ai_email = None, ai_role = Some ''admin'', ai_token = None \<rparr> = Some info
    \<and> credential_shown sample_world (ep_auth ?e) (as_auth sample_auth_state) (rq_headers sample_request) (raw_query_params (rq_query sample_request))
        (as_revoked sample_auth_state) info
    \<and> (required_roles (Some ?e) (rq_method sample_request) = [] \<or>
       (\<exists>r. ai_role info = Some r \<and>
          (\<exists>q \<in> set (required_roles (Some ?e) (rq_method sample_request)).
            (r, q) \<in> (case Some sample_roles of None \<Rightarrow> {} | Some roles \<Rightarrow> parent_rel roles)\<^sup>*)))"
    by (rule protected_endpoint_guarded)
  moreover have "required_roles (Some ?e) (rq_method sample_request) = [''user'']" by code_simp
  ultimately show ?thesis by (simp add: sample_request_def sample_auth_state_def sample_endpoint_def)
qed

section \<open>From the callback to an authenticated request\<close>

lemma callback_Inr:
  "handle_oauth2_callback w auth has_tls params now later clock jti pending = (Inr r, pending') \<Longrightarrow>
     \<exists>auth_code s p. map_of params ''code'' = Some auth_code \<and> map_of params ''state'' = Some s \<and> validate_state s (pending_ttl auth) now later pending = (Inr p, pending')
       \<and> finish_login w auth has_tls clock jti auth_code (po_code_verifier p) = Inr r"
  by (auto simp: handle_oauth2_callback_def split: if_splits option.splits prod.splits sum.splits)

text \<open>The form of the code exchange: the code of the request and the verifier kept since the login began.\<close>

definition token_form :: "oauth2_config \<Rightarrow> string \<Rightarrow> string \<Rightarrow> (string \<times> string) list" where
  "token_form cfg auth_code verifier =
     [(''grant_type'', ''authorization_code''), (''code'', auth_code), (''redirect_uri'', oa_redirect_url cfg),
      (''client_id'', oa_client_id cfg), (''client_secret'', oa_client_secret cfg), (''code_verifier'', verifier)]"

lemma finish_login_Inr:
  "finish_login w auth has_tls clock jti auth_code verifier = Inr r \<Longrightarrow> au_oauth2 auth = Some cfg \<Longrightarrow> au_jwt auth = Some jcfg \<Longrightarrow>
     \<exists>tokens access sub role jwt. ow_post w (oa_token_url cfg) (token_form cfg auth_code verifier) = JsonBody tokens
       \<and> claim_str ''access_token'' tokens = Some access \<and> get_userinfo w cfg access = Inr (sub, role)
       \<and> mint_jwt (ow_encode w) clock jti sub role jcfg = Inr jwt
       \<and> build_redirect_response (ow_header_ok w) (if oa_success_url cfg = [] then ''/'' else oa_success_url cfg)
            (if oa_cookie_name cfg = [] then ''main_serve_token'' else oa_cookie_name cfg) jwt has_tls (jwt_expiry jcfg) = Inr r"
  by (auto simp: finish_login_def get_oauth2_config_def exchange_token_def exchange_code_def token_form_def ok_or_def
      split: sum.splits prod.splits if_splits http_outcome.splits option.splits)

lemma build_redirect_response_Inr:
  "build_redirect_response header_ok url name jwt has_tls max_age = Inr r \<Longrightarrow>
     r = (302, [(''location'', url), (''set-cookie'', session_cookie name jwt has_tls max_age)]) \<and> CHR 0x0D \<notin> set url \<and> CHR 0x0A \<notin> set url"
  by (auto simp: build_redirect_response_def build_redirect_def split: if_splits)

lemma get_userinfo_Inr:
  "get_userinfo w cfg access = Inr (sub, role) \<Longrightarrow>
     \<exists>userinfo. ow_get w (oa_userinfo_url cfg) access = JsonBody userinfo \<and> claim_str ''sub'' userinfo = Some sub
       \<and> role = userinfo_role (oa_role_mapping cfg) userinfo"
  by (auto simp: get_userinfo_def split: if_splits dest: fetch_userinfo_Inr)

lemma request_token_cookie:
  assumes "au_oauth2 auth = Some cfg" "oa_cookie_name cfg \<noteq> []" "plain_cookie (oa_cookie_name cfg, jwt)" "list_all plain_cookie others"
    "oa_cookie_name cfg \<notin> fst ` set others"
  shows "request_token auth [(''cookie'', cookie_header (others @ [(oa_cookie_name cfg, jwt)]))] = Inr jwt"
proof -
  have "CHR ''='' \<notin> set (oa_cookie_name cfg)" using assms(3) by (auto simp: plain_cookie_def list_all_iff)
  with extract_cookie_roundtrip [of "others @ [(oa_cookie_name cfg, jwt)]" "oa_cookie_name cfg"] assms(3-5)
  have "extract_cookie [(''cookie'', cookie_header (others @ [(oa_cookie_name cfg, jwt)]))] (oa_cookie_name cfg) = Some jwt"
    by (simp add: map_add_def map_of_eq_None_iff [THEN iffD2])
  moreover have "lowercase ''authorization'' = ''authorization''" by code_simp
  ultimately show ?thesis
    using assms(1,2) by (simp add: request_token_def header_str_def header_get_def)
qed

text \<open>C32: an OAuth2 callback that answers with a redirect used up the pending login of its state and set a
  session cookie for the subject that the provider's userinfo named, asked with the access token it got
  for the code of this request and the code verifier of that pending login. A browser that sends the
  cookie back, among any others of other names, is authenticated on a JWT endpoint as this subject, with
  the role the mapping gives. Hypotheses: the pending table has distinct states; JWT and OAuth2 are
  configured, with a cookie name that is not empty and made of cookie characters (an empty one sets a
  cookie that is never read); the role claim has none of the reserved claim names and the expiry is not
  negative; the library accepts the token it signed, which is made of cookie characters; the token's
  identifier is not revoked; the subject is not blank.\<close>

theorem login_session_authenticates:
  assumes "handle_oauth2_callback w auth has_tls params now later clock jti pending = (Inr r, pending')" "wf_entries pending"
    and "au_oauth2 auth = Some cfg" "au_jwt auth = Some jcfg" "oa_cookie_name cfg \<noteq> []"
    and "list_all (\<lambda>c. cookie_char c \<and> c \<noteq> CHR ''='') (oa_cookie_name cfg)"
    and "\<And>sub role t. ow_encode w (map_algorithm (jwt_algorithm jcfg)) (JObj (token_claims jcfg clock sub role (Some jti) None)) (jwt_secret jcfg) = Inr t \<Longrightarrow>
       list_all cookie_char t \<and> aw_decode aw t (jwt_secret jcfg) (token_validation jcfg) = Inr (JObj (token_claims jcfg clock sub role (Some jti) None))"
    and "jwt_role_claim jcfg \<notin> {''sub'', ''iat'', ''exp'', ''iss'', ''aud'', ''jti'', ''email''}" "0 \<le> jwt_expiry jcfg"
    and "\<And>is_rev. revoked = Some is_rev \<Longrightarrow> \<not> is_rev jti"
  shows "\<exists>auth_code s p url jwt tokens access userinfo sub. map_of params ''code'' = Some auth_code
    \<and> map_of params ''state'' = Some s \<and> map_of pending s = Some p \<and> map_of pending' s = None
    \<and> ow_post w (oa_token_url cfg) (token_form cfg auth_code (po_code_verifier p)) = JsonBody tokens
    \<and> claim_str ''access_token'' tokens = Some access
    \<and> r = (302, [(''location'', url), (''set-cookie'', session_cookie (oa_cookie_name cfg) jwt has_tls (jwt_expiry jcfg))])
    \<and> ow_get w (oa_userinfo_url cfg) access = JsonBody userinfo \<and> claim_str ''sub'' userinfo = Some sub
    \<and> (\<forall>others. trim sub \<noteq> [] \<longrightarrow> list_all plain_cookie others \<longrightarrow> oa_cookie_name cfg \<notin> fst ` set others \<longrightarrow>
         authenticate aw ''jwt'' auth [(''cookie'', cookie_header (others @ [(oa_cookie_name cfg, jwt)]))] [] revoked
           = Inr \<lparr> ai_subject = sub, ai_email = None, ai_role = userinfo_role (oa_role_mapping cfg) userinfo, ai_token = Some jwt \<rparr>)"
proof -
  from callback_Inr [OF assms(1)] obtain auth_code s p where c: "map_of params ''code'' = Some auth_code"
    and s: "map_of params ''state'' = Some s"
    "validate_state s (pending_ttl auth) now later pending = (Inr p, pending')"
    "finish_login w auth has_tls clock jti auth_code (po_code_verifier p) = Inr r" by blast
  from validate_state_Inr [OF s(2)] assms(2) have p: "map_of pending s = Some p" "map_of pending' s = None"
    by (auto simp: cleanup_expired_def map_of_entries_retain split: option.splits if_splits)
  from finish_login_Inr [OF s(3) assms(3,4)] assms(5) obtain tokens access sub role jwt where
    t: "ow_post w (oa_token_url cfg) (token_form cfg auth_code (po_code_verifier p)) = JsonBody tokens"
      "claim_str ''access_token'' tokens = Some access" and l:
    "get_userinfo w cfg access = Inr (sub, role)" "mint_jwt (ow_encode w) clock jti sub role jcfg = Inr jwt"
    "build_redirect_response (ow_header_ok w) (if oa_success_url cfg = [] then ''/'' else oa_success_url cfg) (oa_cookie_name cfg) jwt
        has_tls (jwt_expiry jcfg) = Inr r" by auto
  from get_userinfo_Inr [OF l(1)] obtain userinfo where u: "ow_get w (oa_userinfo_url cfg) access = JsonBody userinfo"
    "claim_str ''sub'' userinfo = Some sub" "role = userinfo_role (oa_role_mapping cfg) userinfo" by blast
  from l(2) have m: "0 \<le> clock"
    "ow_encode w (map_algorithm (jwt_algorithm jcfg)) (JObj (token_claims jcfg clock sub role (Some jti) None)) (jwt_secret jcfg) = Inr jwt"
    by (auto simp: mint_jwt_def create_token_def split: if_splits sum.splits)
  note jwt = assms(7) [OF m(2)]
  have "authenticate aw ''jwt'' auth [(''cookie'', cookie_header (others @ [(oa_cookie_name cfg, jwt)]))] [] revoked
      = Inr \<lparr> ai_subject = sub, ai_email = None, ai_role = role, ai_token = Some jwt \<rparr>"
    if o: "trim sub \<noteq> []" "list_all plain_cookie others" "oa_cookie_name cfg \<notin> fst ` set others" for others
  proof -
    have "plain_cookie (oa_cookie_name cfg, jwt)" using assms(5,6) jwt by (simp add: plain_cookie_def)
    have valid: "validate_token (aw_decode aw) jwt jcfg revoked =
        Inr \<lparr> cl_sub = sub, cl_exp = nat (min (clock + jwt_expiry jcfg) u64_max), cl_iat = nat clock, cl_iss = jwt_issuer jcfg,
              cl_aud = jwt_audience jcfg, cl_role = role, cl_jti = Some jti, cl_email = None \<rparr>"
      using jwt m(1) assms(8-10) o(1) by (intro minted_token_valid) auto
    from request_token_cookie [OF assms(3,5) \<open>plain_cookie (oa_cookie_name cfg, jwt)\<close> o(2,3)] assms(4) valid
    show ?thesis by (simp add: authenticate_def authenticate_jwt_def)
  qed
  with c t s(1) p u build_redirect_response_Inr [OF l(3)] show ?thesis by blast
qed

definition sample_oauth2 :: oauth2_config where
  "sample_oauth2 = oauth2_config_default \<lparr> oa_token_url := ''https://idp/token'', oa_userinfo_url := ''https://idp/me'' \<rparr>"

definition sample_login_auth :: auth_config where
  "sample_login_auth = \<lparr> au_jwt = Some sample_jwt, au_api_key = None, au_basic = None, au_oauth2 = Some sample_oauth2, au_register = None \<rparr>"

definition sample_provider :: oauth2_world where
  "sample_provider = \<lparr> ow_get = (\<lambda>_ _. JsonBody (JObj [(''role'', JStr ''admin''), (''sub'', JStr ''42'')])),
     ow_post = (\<lambda>_ _. JsonBody (JObj [(''access_token'', JStr ''t'')])), ow_encode = sample_encode, ow_header_ok = (\<lambda>_. True) \<rparr>"

definition sample_pending :: pending_table where
  "sample_pending = [(''s'', \<lparr> po_code_verifier = ''v'', po_created_at = 0 \<rparr>)]"

theorem login_session_authenticates_witness:
  "\<exists>auth_code s p url jwt tokens access userinfo sub. map_of [(''code'', ''c''), (''state'', ''s'')] ''code'' = Some auth_code
    \<and> map_of [(''code'', ''c''), (''state'', ''s'')] ''state'' = Some s \<and> map_of sample_pending s = Some p
    \<and> map_of ([] :: pending_table) s = None
    \<and> ow_post sample_provider (oa_token_url sample_oauth2) (token_form sample_oauth2 auth_code (po_code_verifier p)) = JsonBody tokens
    \<and> claim_str ''access_token'' tokens = Some access
    \<and> (302 :: nat, [(''location'', ''/''), (''set-cookie'', session_cookie ''main_serve_token'' ''token-1'' True 3600)])
        = (302, [(''location'', url), (''set-cookie'', session_cookie (oa_cookie_name sample_oauth2) jwt True (jwt_expiry sample_jwt))])
    \<and> ow_get sample_provider (oa_userinfo_url sample_oauth2) access = JsonBody userinfo \<and> claim_str ''sub'' userinfo = Some sub
    \<and> (\<forall>others. trim sub \<noteq> [] \<longrightarrow> list_all plain_cookie others \<longrightarrow> oa_cookie_name sample_oauth2 \<notin> fst ` set others \<longrightarrow>
         authenticate sample_world ''jwt'' sample_login_auth [(''cookie'', cookie_header (others @ [(oa_cookie_name sample_oauth2, jwt)]))] [] None
           = Inr \<lparr> ai_subject = sub, ai_email = None, ai_role = userinfo_role (oa_role_mapping sample_oauth2) userinfo, ai_token = Some jwt \<rparr>)"
proof (rule login_session_authenticates)
  show "handle_oauth2_callback sample_provider sample_login_auth True [(''code'', ''c''), (''state'', ''s'')] 6 7 1000 ''jti-1'' sample_pending
      = (Inr (302, [(''location'', ''/''), (''set-cookie'', session_cookie ''main_serve_token'' ''token-1'' True 3600)]), [])"
    by (simp add: handle_oauth2_callback_def validate_state_def cleanup_expired_def entries_retain_def entries_remove_def pending_ttl_def
        elapsed_def finish_login_def get_oauth2_config_def exchange_token_def exchange_code_def get_userinfo_def fetch_userinfo_def
        userinfo_role_def claim_str_def json_get_def mint_jwt_def create_token_def sample_encode_def build_redirect_response_def
        build_redirect_def sample_pending_def sample_login_auth_def sample_oauth2_def oauth2_config_default_def sample_jwt_def
        jwt_config_default_def sample_provider_def)
  show "list_all (\<lambda>c. cookie_char c \<and> c \<noteq> CHR ''='') (oa_cookie_name sample_oauth2)" by code_simp
  fix sub role t
  assume "ow_encode sample_provider (map_algorithm (jwt_algorithm sample_jwt)) (JObj (token_claims sample_jwt 1000 sub role (Some ''jti-1'') None))
      (jwt_secret sample_jwt) = Inr t"
  then have "t = ''token-1''" and c: "token_claims sample_jwt 1000 sub role (Some ''jti-1'') None
      = token_claims sample_jwt 1000 ''42'' (Some ''admin'') (Some ''jti-1'') None"
    by (auto simp: sample_provider_def sample_encode_def split: if_splits)
  moreover have "list_all cookie_char ''token-1''" by code_simp
  ultimately show "list_all cookie_char t \<and> aw_decode sample_world t (jwt_secret sample_jwt) (token_validation sample_jwt)
      = Inr (JObj (token_claims sample_jwt 1000 sub role (Some ''jti-1'') None))"
    by (simp add: sample_world_def sample_decode_def c)
qed (simp_all add: sample_pending_def sample_login_auth_def sample_oauth2_def oauth2_config_default_def sample_jwt_def jwt_config_default_def
    wf_entries_def)

end
