(* ===== verification/Database.thy ===== *)
theory Database
  imports Json App_Error Config_Types
begin

text \<open>
  The connection pools (src/db/pool.rs): how JSON parameters are bound, and the four ways a statement
  is run. A pool is its driver with the two operations sqlx offers on a database state \<open>'db\<close>: a query
  that returns rows, already turned into JSON objects, and a statement that returns the number of rows
  it affected and the last identifier it inserted. Both may change the state. Connecting and pooling
  belong to sqlx; how a row becomes an object is in Row_Json.
\<close>

datatype bind = BindNull | BindBool bool | BindInt int | BindFloat string | BindText string

text \<open>An integer beyond the i64 range is bound as the nearest floating-point number.\<close>

fun bind_value :: "json \<Rightarrow> bind" where
  "bind_value JNull = BindNull"
| "bind_value (JBool b) = BindBool b"
| "bind_value (JInt i) = (if i \<le> i64_max then BindInt i else BindFloat (show_int i))"
| "bind_value (JFloat f) = BindFloat f"
| "bind_value (JStr s) = BindText s"
| "bind_value v = BindText (json_text v)"

record 'db pool =
  pl_driver :: database_driver
  pl_query :: "string \<Rightarrow> bind list \<Rightarrow> 'db \<Rightarrow> (string, json list) result \<times> 'db"
  pl_execute :: "string \<Rightarrow> bind list \<Rightarrow> 'db \<Rightarrow> (string, nat \<times> int) result \<times> 'db"

definition fetch_all_json :: "'db pool \<Rightarrow> string \<Rightarrow> json list \<Rightarrow> 'db \<Rightarrow> (app_error, json list) result \<times> 'db" where
  "fetch_all_json p sql params db =
     (case pl_query p sql (map bind_value params) db of
        (Inl e, db') \<Rightarrow> (Inl (DatabaseError e), db')
      | (Inr rows, db') \<Rightarrow> (Inr rows, db'))"

definition fetch_optional_json :: "'db pool \<Rightarrow> string \<Rightarrow> json list \<Rightarrow> 'db \<Rightarrow> (app_error, json option) result \<times> 'db" where
  "fetch_optional_json p sql params db =
     (case pl_query p sql (map bind_value params) db of
        (Inl e, db') \<Rightarrow> (Inl (DatabaseError e), db')
      | (Inr rows, db') \<Rightarrow> (Inr (first_of rows), db'))"

definition execute_with_params :: "'db pool \<Rightarrow> string \<Rightarrow> json list \<Rightarrow> 'db \<Rightarrow> (app_error, nat) result \<times> 'db" where
  "execute_with_params p sql params db =
     (case pl_execute p sql (map bind_value params) db of
        (Inl e, db') \<Rightarrow> (Inl (DatabaseError e), db')
      | (Inr (affected, _), db') \<Rightarrow> (Inr affected, db'))"

definition execute_raw :: "'db pool \<Rightarrow> string \<Rightarrow> 'db \<Rightarrow> (app_error, nat) result \<times> 'db" where
  "execute_raw p sql db =
     (case pl_execute p sql [] db of
        (Inl e, db') \<Rightarrow> (Inl (DatabaseError e), db')
      | (Inr (affected, _), db') \<Rightarrow> (Inr affected, db'))"

text \<open>Postgres never runs the statement here: its inserts return the row. SQLite's row identifier is an i64 read as u64.\<close>

definition execute_with_last_id :: "'db pool \<Rightarrow> string \<Rightarrow> json list \<Rightarrow> 'db \<Rightarrow> (app_error, int) result \<times> 'db" where
  "execute_with_last_id p sql params db =
     (if pl_driver p = Postgres then (Inr 0, db)
      else
        (case pl_execute p sql (map bind_value params) db of
           (Inl e, db') \<Rightarrow> (Inl (DatabaseError e), db')
         | (Inr (_, last_id), db') \<Rightarrow> (Inr (last_id mod (u64_max + 1)), db')))"

section \<open>Recording the statements\<close>

text \<open>A pool that also keeps the statements it was given, the latest first.\<close>

type_synonym statement = "string \<times> bind list"

definition logged :: "'db pool \<Rightarrow> ('db \<times> statement list) pool" where
  "logged p = \<lparr> pl_driver = pl_driver p,
     pl_query = (\<lambda>sql ps (db, log). let (r, db') = pl_query p sql ps db in (r, (db', (sql, ps) # log))),
     pl_execute = (\<lambda>sql ps (db, log). let (r, db') = pl_execute p sql ps db in (r, (db', (sql, ps) # log))) \<rparr>"

lemma pl_driver_logged [simp]: "pl_driver (logged p) = pl_driver p"
  by (simp add: logged_def)

lemma logged_log:
  "snd (snd (fetch_all_json (logged p) sql params (db, log))) = (sql, map bind_value params) # log"
  "snd (snd (fetch_optional_json (logged p) sql params (db, log))) = (sql, map bind_value params) # log"
  "snd (snd (execute_with_params (logged p) sql params (db, log))) = (sql, map bind_value params) # log"
  by (simp_all add: fetch_all_json_def fetch_optional_json_def execute_with_params_def logged_def case_prod_unfold Let_def
      split: prod.splits sum.splits)

lemma logged_cases:
  "fetch_all_json (logged p) sql params (db, log) = (r, \<sigma>) \<Longrightarrow> snd \<sigma> = (sql, map bind_value params) # log"
  "fetch_optional_json (logged p) sql params (db, log) = (ro, \<sigma>) \<Longrightarrow> snd \<sigma> = (sql, map bind_value params) # log"
  "execute_with_params (logged p) sql params (db, log) = (rn, \<sigma>) \<Longrightarrow> snd \<sigma> = (sql, map bind_value params) # log"
  "execute_with_last_id (logged p) sql params (db, log) = (ri, \<sigma>) \<Longrightarrow> pl_driver p \<noteq> Postgres \<Longrightarrow> snd \<sigma> = (sql, map bind_value params) # log"
  by (auto simp: fetch_all_json_def fetch_optional_json_def execute_with_params_def execute_with_last_id_def logged_def case_prod_unfold Let_def
      split: prod.splits sum.splits if_splits)

end
