(* ===== verification/Crud_Handlers.thy ===== *)
theory Crud_Handlers
  imports Database Mutation_Builders Routing
begin

text \<open>
  The CRUD handlers (src/handlers/crud.rs): dispatch on the method and the identifier, and for each
  operation the statements of the query builders run on a pool. Also the lookup of pool and table
  (src/server/state.rs) and the validation of JSON columns (src/db/query/helpers/json_validation.rs);
  the compiled JSON schemas belong to the jsonschema crate and are functions from a value to its
  errors. Logging is not modelled.
\<close>

section \<open>Pool and table\<close>

definition db_pool :: "(string, 'db pool) entries \<Rightarrow> string \<Rightarrow> (app_error, 'db pool) result" where
  "db_pool pools db = ok_or (map_of pools db) (Internal (''Database '' @ [quote_char] @ db @ [quote_char] @ '' has no pool''))"

definition get_db_context :: "(string, 'db pool) entries \<Rightarrow> table_config list \<Rightarrow> string \<Rightarrow> string \<Rightarrow> (app_error, 'db pool \<times> table_config) result" where
  "get_db_context pools tables db table =
     (case db_pool pools db of
        Inl e \<Rightarrow> Inl e
      | Inr p \<Rightarrow>
          (case find (\<lambda>t. tbl_name t = table \<and> tbl_database t = db) tables of
             None \<Rightarrow> Inl (Internal (''Table '' @ [quote_char] @ table @ [quote_char] @ '' in database '' @ [quote_char] @ db @ [quote_char]
                       @ '' not found in config''))
           | Some t \<Rightarrow> Inr (p, t)))"

section \<open>JSON columns\<close>

text \<open>The schemas of a table: for each column where its schema comes from and its compiled validator.\<close>

type_synonym table_schemas = "(string, string \<times> (json \<Rightarrow> string list)) entries"

definition jsonb_errors :: "json \<Rightarrow> table_schemas \<Rightarrow> string list" where
  "jsonb_errors body schemas =
     concat (map (\<lambda>(col, source, validate).
       (case json_get col body of None \<Rightarrow> [] | Some v \<Rightarrow> map (\<lambda>e. col @ '' ('' @ source @ ''): '' @ e) (validate v))) schemas)"

definition validate_jsonb_body :: "json \<Rightarrow> table_schemas option \<Rightarrow> (app_error, unit) result" where
  "validate_jsonb_body body schemas =
     (case schemas of
        None \<Rightarrow> Inr ()
      | Some s \<Rightarrow>
          (case jsonb_errors body s of
             [] \<Rightarrow> Inr ()
           | e # es \<Rightarrow> Inl (JsonValidationError (''JSONB validation failed: '' @ e) es)))"

section \<open>The operations\<close>

text \<open>A JSON response; objects list their keys in sorted order, as serde_json prints them.\<close>

definition json_response :: "nat \<Rightarrow> json \<Rightarrow> http_response" where
  "json_response status v = \<lparr> resp_status = status, resp_headers = [(''content-type'', ''application/json'')], resp_body = v \<rparr>"

definition row_json :: "json option \<Rightarrow> json" where
  "row_json row = unwrap_or row JNull"

definition not_found_error :: "crud_config \<Rightarrow> string \<Rightarrow> app_error" where
  "not_found_error crud pk = NotFound (crud_table crud @ '' with id '' @ [quote_char] @ pk @ [quote_char] @ '' not found'')"

definition count_rows :: "'db pool \<Rightarrow> table_config \<Rightarrow> select_context \<Rightarrow> query_params \<Rightarrow> request_context \<Rightarrow> 'db \<Rightarrow> nat \<times> 'db" where
  "count_rows p t ctx qp rc db =
     (case build_select_list_count (tbl_name t) (pl_driver p) ctx qp rc t of
        Inl _ \<Rightarrow> (0, db)
      | Inr q \<Rightarrow>
          (case fetch_optional_json p (bq_sql q) (bq_params q) db of
             (Inr (Some row), db') \<Rightarrow> (unwrap_or (case json_get ''count'' row of Some v \<Rightarrow> as_u64 v | None \<Rightarrow> None) 0, db')
           | (_, db') \<Rightarrow> (0, db')))"

definition effective_page_size :: "pagination_config \<Rightarrow> query_params \<Rightarrow> nat" where
  "effective_page_size pg qp = max (min (unwrap_or (qp_page_size qp) (pgn_default_page_size pg)) (pgn_max_page_size pg)) 1"

definition list_response :: "pagination_config \<Rightarrow> query_params \<Rightarrow> json list \<Rightarrow> nat \<Rightarrow> json" where
  "list_response pg qp rows row_count =
     (if pgn_enabled pg then
        (let size = effective_page_size pg qp in
         JObj [(''data'', JArr rows), (''page'', JInt (int (unwrap_or (qp_page qp) 1))), (''page_size'', JInt (int size)),
               (''total'', JInt (int row_count)), (''total_pages'', JInt (int ((row_count + size - 1) div size)))])
      else JObj [(''data'', JArr rows)])"

definition handle_list :: "(string \<Rightarrow> bool) \<Rightarrow> 'db pool \<Rightarrow> table_config \<Rightarrow> crud_config \<Rightarrow> (string, string) entries \<Rightarrow> request_context \<Rightarrow> 'db
    \<Rightarrow> (app_error, http_response) result \<times> 'db" where
  "handle_list json_path_ok p t crud query_string rc db =
     (let qp = extract_query_params query_string; ctx = select_context_of crud in
      case build_select_list json_path_ok (pl_driver p) t ctx qp rc of
        Inl e \<Rightarrow> (Inl e, db)
      | Inr q \<Rightarrow>
          (case fetch_all_json p (bq_sql q) (bq_params q) db of
             (Inl e, db1) \<Rightarrow> (Inl e, db1)
           | (Inr rows, db1) \<Rightarrow>
               (case count_rows p t ctx qp rc db1 of
                  (row_count, db2) \<Rightarrow> (Inr (json_response 200 (list_response (crud_pagination crud) qp rows row_count)), db2))))"

definition handle_get_one :: "'db pool \<Rightarrow> table_config \<Rightarrow> crud_config \<Rightarrow> string option \<Rightarrow> request_context \<Rightarrow> 'db
    \<Rightarrow> (app_error, http_response) result \<times> 'db" where
  "handle_get_one p t crud pk_value rc db =
     (case pk_value of
        None \<Rightarrow> (Inl (BadRequest ''ID parameter required''), db)
      | Some pk \<Rightarrow>
          (case build_select_one (pl_driver p) t (select_context_of crud) pk rc of
             Inl e \<Rightarrow> (Inl e, db)
           | Inr q \<Rightarrow>
               (case fetch_optional_json p (bq_sql q) (bq_params q) db of
                  (Inl e, db') \<Rightarrow> (Inl e, db')
                | (Inr None, db') \<Rightarrow> (Inl (not_found_error crud pk), db')
                | (Inr (Some row), db') \<Rightarrow> (Inr (json_response 200 row), db'))))"

definition handle_create :: "'db pool \<Rightarrow> table_config \<Rightarrow> crud_config \<Rightarrow> json option \<Rightarrow> request_context \<Rightarrow> table_schemas option \<Rightarrow> 'db
    \<Rightarrow> (app_error, http_response) result \<times> 'db" where
  "handle_create p t crud body rc schemas db =
     (case body of
        None \<Rightarrow> (Inl (BadRequest ''Request body required''), db)
      | Some b \<Rightarrow>
          (case validate_jsonb_body b schemas of
             Inl e \<Rightarrow> (Inl e, db)
           | Inr _ \<Rightarrow>
               (case build_insert (pl_driver p) t (mutation_context_of crud) b rc of
                  Inl e \<Rightarrow> (Inl e, db)
                | Inr q \<Rightarrow>
                    if contains_str (bq_sql q) ''RETURNING'' then
                      (case fetch_optional_json p (bq_sql q) (bq_params q) db of
                         (Inl e, db') \<Rightarrow> (Inl e, db')
                       | (Inr row, db') \<Rightarrow> (Inr (json_response 201 (JObj [(''data'', row_json row)])), db'))
                    else
                      (case execute_with_last_id p (bq_sql q) (bq_params q) db of
                         (Inl e, db') \<Rightarrow> (Inl e, db')
                       | (Inr last_id, db') \<Rightarrow>
                           (case find_pk_column t of
                              Inl e \<Rightarrow> (Inl e, db')
                            | Inr pk_col \<Rightarrow>
                                (case fetch_optional_json p
                                    (''SELECT * FROM '' @ quote_identifier (tbl_name t) (pl_driver p) @ '' WHERE ''
                                      @ quote_identifier pk_col (pl_driver p) @ '' = '' @ placeholder (pl_driver p) 1)
                                    [JInt last_id] db' of
                                   (Inl e, db2) \<Rightarrow> (Inl e, db2)
                                 | (Inr row, db2) \<Rightarrow> (Inr (json_response 201 (JObj [(''data'', row_json row)])), db2)))))))"

definition affected_response :: "crud_config \<Rightarrow> string \<Rightarrow> (app_error, nat) result \<times> 'db \<Rightarrow> (app_error, http_response) result \<times> 'db" where
  "affected_response crud pk r =
     (case r of
        (Inl e, db') \<Rightarrow> (Inl e, db')
      | (Inr n, db') \<Rightarrow>
          if n = 0 then (Inl (not_found_error crud pk), db')
          else (Inr (json_response 200 (JObj [(''rows_affected'', JInt (int n))])), db'))"

definition handle_update :: "'db pool \<Rightarrow> table_config \<Rightarrow> crud_config \<Rightarrow> string option \<Rightarrow> json option \<Rightarrow> request_context \<Rightarrow> table_schemas option
    \<Rightarrow> 'db \<Rightarrow> (app_error, http_response) result \<times> 'db" where
  "handle_update p t crud pk_value body rc schemas db =
     (case pk_value of
        None \<Rightarrow> (Inl (BadRequest ''ID parameter required''), db)
      | Some pk \<Rightarrow>
          (case body of
             None \<Rightarrow> (Inl (BadRequest ''Request body required''), db)
           | Some b \<Rightarrow>
               (case validate_jsonb_body b schemas of
                  Inl e \<Rightarrow> (Inl e, db)
                | Inr _ \<Rightarrow>
                    (case build_update (pl_driver p) t (mutation_context_of crud) pk b rc (crud_update_where_clause crud) of
                       Inl e \<Rightarrow> (Inl e, db)
                     | Inr q \<Rightarrow> affected_response crud pk (execute_with_params p (bq_sql q) (bq_params q) db)))))"

definition handle_delete :: "'db pool \<Rightarrow> table_config \<Rightarrow> crud_config \<Rightarrow> string option \<Rightarrow> request_context \<Rightarrow> 'db
    \<Rightarrow> (app_error, http_response) result \<times> 'db" where
  "handle_delete p t crud pk_value rc db =
     (case pk_value of
        None \<Rightarrow> (Inl (BadRequest ''ID parameter required''), db)
      | Some pk \<Rightarrow>
          (case build_delete pk (pl_driver p) t rc (crud_delete_where_clause crud) of
             Inl e \<Rightarrow> (Inl e, db)
           | Inr q \<Rightarrow> affected_response crud pk (execute_with_params p (bq_sql q) (bq_params q) db)))"

text \<open>\<open>handle_crud\<close>; the schema registry gives the schemas of a table.\<close>

definition handle_crud :: "(string \<Rightarrow> bool) \<Rightarrow> (string, 'db pool) entries \<Rightarrow> table_config list \<Rightarrow> (string \<Rightarrow> table_schemas option) \<Rightarrow> string
    \<Rightarrow> (string, string) entries option \<Rightarrow> (string, string) entries \<Rightarrow> json option \<Rightarrow> endpoint_config \<Rightarrow> request_context \<Rightarrow> 'db
    \<Rightarrow> (app_error, http_response) result \<times> 'db" where
  "handle_crud json_path_ok pools tables registry meth path_params query_string body endpoint rc db =
     (case ep_crud endpoint of
        None \<Rightarrow> (Inl (Internal ''CRUD config missing on crud endpoint''), db)
      | Some crud \<Rightarrow>
          (case get_db_context pools tables (crud_database crud) (crud_table crud) of
             Inl e \<Rightarrow> (Inl e, db)
           | Inr (p, t) \<Rightarrow>
               (let pk = (case path_params of None \<Rightarrow> None | Some ps \<Rightarrow> map_of ps ''id'') in
                if meth = ''GET'' then
                  (if pk = None then handle_list json_path_ok p t crud query_string rc db else handle_get_one p t crud pk rc db)
                else if meth = ''POST'' then handle_create p t crud body rc (registry (tbl_name t)) db
                else if meth \<in> {''PUT'', ''PATCH''} \<and> pk \<noteq> None then handle_update p t crud pk body rc (registry (tbl_name t)) db
                else if meth = ''DELETE'' \<and> pk \<noteq> None then handle_delete p t crud pk rc db
                else (Inl (MethodNotAllowed ''Unsupported method for CRUD endpoint'' (ep_methods endpoint)), db))))"

section \<open>The statements a request runs\<close>

definition stmt :: "built_query \<Rightarrow> statement" where
  "stmt q = (bq_sql q, map bind_value (bq_params q))"

definition read_back :: "database_driver \<Rightarrow> table_config \<Rightarrow> string \<Rightarrow> int \<Rightarrow> statement" where
  "read_back d t pk_col last_id =
     (''SELECT * FROM '' @ quote_identifier (tbl_name t) d @ '' WHERE '' @ quote_identifier pk_col d @ '' = '' @ placeholder d 1,
      map bind_value [JInt last_id])"

lemma contains_str_infix: "contains_str (a @ n @ b) n"
proof (induction a)
  case Nil
  have "starts_with (n @ b) n" by (simp add: starts_with_prefix)
  then show ?case by (cases "n @ b") auto
next
  case (Cons c cs)
  then show ?case by simp
qed

lemma build_insert_suffix:
  assumes "build_insert d t ctx body rc = Inr q"
  shows "\<exists>pk owner. suffix (insert_returning d pk owner) (bq_sql q)"
proof -
  from assms obtain cols phs pk owner where
    "bq_sql q = ''INSERT INTO '' @ tbl_name t @ '' ('' @ join '', '' cols @ '') VALUES ('' @ join '', '' phs @ '')'' @ insert_returning d pk owner"
    unfolding build_insert_def Let_def by (fastforce split: option.splits sum.splits prod.splits if_splits)
  then show ?thesis by (metis append_assoc suffixI)
qed

lemma build_insert_returning:
  assumes "build_insert d t ctx body rc = Inr q" "d \<noteq> Mysql"
  shows "contains_str (bq_sql q) ''RETURNING''"
proof -
  from build_insert_suffix [OF assms(1)] obtain pre pk owner where q: "bq_sql q = pre @ insert_returning d pk owner"
    by (auto simp: suffix_def)
  have "\<exists>post. insert_returning d pk owner = '' '' @ ''RETURNING'' @ post"
    using assms(2) by (cases d; cases owner) (auto simp: insert_returning_def)
  then obtain post where "bq_sql q = (pre @ '' '') @ ''RETURNING'' @ post" using q by auto
  then show ?thesis by (simp only: contains_str_infix)
qed

lemma handle_list_log:
  assumes "handle_list ok (logged p) t crud qs rc (db, log) = (r, \<sigma>)"
  shows "(\<exists>e. r = Inl e) \<and> snd \<sigma> = log
    \<or> (\<exists>q. build_select_list ok (pl_driver p) t (select_context_of crud) (extract_query_params qs) rc = Inr q \<and>
        (snd \<sigma> = stmt q # log
         \<or> (\<exists>c. build_select_list_count (tbl_name t) (pl_driver p) (select_context_of crud) (extract_query_params qs) rc t = Inr c
              \<and> snd \<sigma> = stmt c # stmt q # log)))"
proof (cases "build_select_list ok (pl_driver p) t (select_context_of crud) (extract_query_params qs) rc")
  case (Inr q)
  obtain f db1 log1 where f: "fetch_all_json (logged p) (bq_sql q) (bq_params q) (db, log) = (f, (db1, log1))"
    by (metis prod.exhaust)
  from logged_cases(1) [OF f] have l1: "log1 = stmt q # log" by (simp add: stmt_def)
  show ?thesis
  proof (cases "build_select_list_count (tbl_name t) (pl_driver p) (select_context_of crud) (extract_query_params qs) rc t")
    case (Inr c)
    obtain g \<sigma>2 where g: "fetch_optional_json (logged p) (bq_sql c) (bq_params c) (db1, log1) = (g, \<sigma>2)"
      by (metis prod.exhaust)
    from logged_cases(2) [OF g] have "snd \<sigma>2 = stmt c # stmt q # log" by (simp add: stmt_def l1)
    with assms \<open>build_select_list ok _ _ _ _ _ = Inr q\<close> Inr f g l1 show ?thesis
      by (auto simp: handle_list_def Let_def count_rows_def split: sum.splits option.splits)
  qed (use assms Inr f l1 in \<open>auto simp: handle_list_def Let_def count_rows_def split: sum.splits\<close>)
qed (use assms in \<open>auto simp: handle_list_def Let_def\<close>)

lemma handle_get_one_log:
  assumes "handle_get_one (logged p) t crud pk rc (db, log) = (r, \<sigma>)"
  shows "(\<exists>e. r = Inl e) \<and> snd \<sigma> = log
    \<or> (\<exists>i q. pk = Some i \<and> build_select_one (pl_driver p) t (select_context_of crud) i rc = Inr q \<and> snd \<sigma> = stmt q # log)"
  using assms
  by (auto simp: handle_get_one_def stmt_def split: option.splits sum.splits prod.splits dest!: logged_cases)

lemma handle_create_log:
  assumes "handle_create (logged p) t crud body rc schemas (db, log) = (r, \<sigma>)"
  shows "(\<exists>e. r = Inl e) \<and> snd \<sigma> = log
    \<or> (\<exists>b q. body = Some b \<and> validate_jsonb_body b schemas = Inr () \<and> build_insert (pl_driver p) t (mutation_context_of crud) b rc = Inr q \<and>
        (snd \<sigma> = stmt q # log
         \<or> pl_driver p = Mysql \<and> (\<exists>pk_col last_id. find_pk_column t = Inr pk_col \<and> snd \<sigma> = read_back Mysql t pk_col last_id # stmt q # log)))"
proof (cases "\<exists>b q. body = Some b \<and> validate_jsonb_body b schemas = Inr () \<and> build_insert (pl_driver p) t (mutation_context_of crud) b rc = Inr q")
  case True
  then obtain b q where bq: "body = Some b" "validate_jsonb_body b schemas = Inr ()"
    "build_insert (pl_driver p) t (mutation_context_of crud) b rc = Inr q" by blast
  show ?thesis
  proof (cases "contains_str (bq_sql q) ''RETURNING''")
    case True
    obtain f \<sigma>1 where f: "fetch_optional_json (logged p) (bq_sql q) (bq_params q) (db, log) = (f, \<sigma>1)" by (metis prod.exhaust)
    from logged_cases(2) [OF f] have "snd \<sigma>1 = stmt q # log" by (simp add: stmt_def)
    with assms bq True f show ?thesis by (auto simp: handle_create_def split: sum.splits)
  next
    case False
    with build_insert_returning [OF bq(3)] have m: "pl_driver p = Mysql" by blast
    obtain f db1 log1 where f: "execute_with_last_id (logged p) (bq_sql q) (bq_params q) (db, log) = (f, (db1, log1))"
      by (metis prod.exhaust)
    from logged_cases(4) [OF f] m have l1: "log1 = stmt q # log" by (simp add: stmt_def)
    show ?thesis
    proof (cases "\<exists>last_id pk_col. f = Inr last_id \<and> find_pk_column t = Inr pk_col")
      case True
      then obtain last_id pk_col where lp: "f = Inr last_id" "find_pk_column t = Inr pk_col" by blast
      let ?sql = "fst (read_back Mysql t pk_col last_id)"
      obtain g \<sigma>2 where g: "fetch_optional_json (logged p) ?sql [JInt last_id] (db1, log1) = (g, \<sigma>2)" by (metis prod.exhaust)
      from logged_cases(2) [OF g] have "snd \<sigma>2 = read_back Mysql t pk_col last_id # stmt q # log" by (simp add: read_back_def l1)
      with assms bq False f g lp m show ?thesis by (auto simp: handle_create_def read_back_def split: sum.splits)
    next
      case no: False
      with assms bq False f l1 show ?thesis by (auto simp: handle_create_def split: sum.splits)
    qed
  qed
qed (use assms in \<open>auto simp: handle_create_def split: option.splits sum.splits\<close>)

lemma affected_response_log:
  assumes "affected_response crud pk (execute_with_params (logged p) (bq_sql q) (bq_params q) (db, log)) = (r, \<sigma>)"
  shows "snd \<sigma> = stmt q # log"
  using assms by (auto simp: affected_response_def stmt_def split: prod.splits sum.splits if_splits dest!: logged_cases)

lemma handle_update_log:
  assumes "handle_update (logged p) t crud pk body rc schemas (db, log) = (r, \<sigma>)"
  shows "(\<exists>e. r = Inl e) \<and> snd \<sigma> = log
    \<or> (\<exists>i b q. pk = Some i \<and> body = Some b \<and> validate_jsonb_body b schemas = Inr ()
        \<and> build_update (pl_driver p) t (mutation_context_of crud) i b rc (crud_update_where_clause crud) = Inr q \<and> snd \<sigma> = stmt q # log)"
  using assms
  by (auto simp: handle_update_def split: option.splits sum.splits dest!: affected_response_log)

lemma handle_delete_log:
  assumes "handle_delete (logged p) t crud pk rc (db, log) = (r, \<sigma>)"
  shows "(\<exists>e. r = Inl e) \<and> snd \<sigma> = log
    \<or> (\<exists>i q. pk = Some i \<and> build_delete i (pl_driver p) t rc (crud_delete_where_clause crud) = Inr q \<and> snd \<sigma> = stmt q # log)"
  using assms
  by (auto simp: handle_delete_def split: option.splits sum.splits dest!: affected_response_log)

definition crud_statement :: "(string \<Rightarrow> bool) \<Rightarrow> database_driver \<Rightarrow> table_config \<Rightarrow> crud_config \<Rightarrow> table_schemas option \<Rightarrow> string \<Rightarrow> string option
    \<Rightarrow> (string, string) entries \<Rightarrow> json option \<Rightarrow> request_context \<Rightarrow> built_query \<Rightarrow> bool" where
  "crud_statement ok d t crud schemas meth pk qs body rc q \<longleftrightarrow>
     (meth = ''GET'' \<and> pk = None \<and> build_select_list ok d t (select_context_of crud) (extract_query_params qs) rc = Inr q)
   \<or> (\<exists>i. meth = ''GET'' \<and> pk = Some i \<and> build_select_one d t (select_context_of crud) i rc = Inr q)
   \<or> (\<exists>b. meth = ''POST'' \<and> body = Some b \<and> validate_jsonb_body b schemas = Inr () \<and> build_insert d t (mutation_context_of crud) b rc = Inr q)
   \<or> (\<exists>i b. meth \<in> {''PUT'', ''PATCH''} \<and> pk = Some i \<and> body = Some b \<and> validate_jsonb_body b schemas = Inr ()
        \<and> build_update d t (mutation_context_of crud) i b rc (crud_update_where_clause crud) = Inr q)
   \<or> (\<exists>i. meth = ''DELETE'' \<and> pk = Some i \<and> build_delete i d t rc (crud_delete_where_clause crud) = Inr q)"

definition crud_followup :: "database_driver \<Rightarrow> table_config \<Rightarrow> crud_config \<Rightarrow> string \<Rightarrow> string option \<Rightarrow> (string, string) entries
    \<Rightarrow> request_context \<Rightarrow> statement list \<Rightarrow> bool" where
  "crud_followup d t crud meth pk qs rc stmts \<longleftrightarrow>
     stmts = []
   \<or> (\<exists>c. meth = ''GET'' \<and> pk = None \<and> stmts = [stmt c]
        \<and> build_select_list_count (tbl_name t) d (select_context_of crud) (extract_query_params qs) rc t = Inr c)
   \<or> (\<exists>pk_col last_id. meth = ''POST'' \<and> d = Mysql \<and> find_pk_column t = Inr pk_col \<and> stmts = [read_back Mysql t pk_col last_id])"

text \<open>C4: a CRUD request runs no statement and fails, or runs exactly the one the builder for its method makes from
  this request, followed at most by the count of the same list or by reading an inserted row back on MySQL.
  A request without the identifier, body or valid JSON columns it needs never reaches the database.\<close>

theorem crud_runs_its_statement:
  assumes "ep_crud endpoint = Some crud" "get_db_context pools tables (crud_database crud) (crud_table crud) = Inr (logged p, t)"
    and "handle_crud ok pools tables registry meth path_params qs body endpoint rc (db, []) = (r, (db', log))"
    and "pk = (case path_params of None \<Rightarrow> None | Some ps \<Rightarrow> map_of ps ''id'')"
  shows "(\<exists>e. r = Inl e) \<and> log = []
    \<or> (\<exists>q more. crud_statement ok (pl_driver p) t crud (registry (tbl_name t)) meth pk qs body rc q
          \<and> log = more @ [stmt q] \<and> crud_followup (pl_driver p) t crud meth pk qs rc more)"
proof -
  consider "meth = ''GET''" "pk = None" "handle_list ok (logged p) t crud qs rc (db, []) = (r, (db', log))"
    | "meth = ''GET''" "pk \<noteq> None" "handle_get_one (logged p) t crud pk rc (db, []) = (r, (db', log))"
    | "meth = ''POST''" "handle_create (logged p) t crud body rc (registry (tbl_name t)) (db, []) = (r, (db', log))"
    | "meth \<in> {''PUT'', ''PATCH''}" "pk \<noteq> None" "handle_update (logged p) t crud pk body rc (registry (tbl_name t)) (db, []) = (r, (db', log))"
    | "meth = ''DELETE''" "pk \<noteq> None" "handle_delete (logged p) t crud pk rc (db, []) = (r, (db', log))"
    | "(\<exists>e. r = Inl e) \<and> log = []"
    using assms unfolding handle_crud_def by (auto simp: Let_def split: if_splits option.splits)
  then show ?thesis
  proof cases
    case 1
    from handle_list_log [OF 1(3)] 1(1,2) show ?thesis by (fastforce simp: crud_statement_def crud_followup_def)
  next
    case 2
    from handle_get_one_log [OF 2(3)] 2(1,2) show ?thesis by (fastforce simp: crud_statement_def crud_followup_def)
  next
    case 3
    from handle_create_log [OF 3(2)] 3(1) show ?thesis by (fastforce simp: crud_statement_def crud_followup_def)
  next
    case 4
    from handle_update_log [OF 4(3)] 4(1,2) show ?thesis by (fastforce simp: crud_statement_def crud_followup_def)
  next
    case 5
    from handle_delete_log [OF 5(3)] 5(1,2) show ?thesis by (fastforce simp: crud_statement_def crud_followup_def)
  qed blast
qed

text \<open>A database that counts the statements it is given and returns one row.\<close>

definition sample_pool :: "nat pool" where
  "sample_pool = \<lparr> pl_driver = Sqlite, pl_query = (\<lambda>_ _ n. (Inr [JObj [(''id'', JInt 1)]], Suc n)),
     pl_execute = (\<lambda>_ _ n. (Inr (1, 1), Suc n)) \<rparr>"

definition sample_crud :: crud_config where
  "sample_crud = crud_config_default \<lparr> crud_table := ''posts'', crud_database := ''main'', crud_insert_owner := Some ''author_id'',
     crud_writable_fields := [''title'', ''author_id'', ''meta''] \<rparr>"

definition sample_crud_endpoint :: endpoint_config where
  "sample_crud_endpoint = (sample_endpoint ''/posts'' [Get, Post] ''none'') \<lparr> ep_action := ActCrud, ep_crud := Some sample_crud \<rparr>"

lemma sample_create_runs:
  "\<exists>r log. handle_crud (\<lambda>_. False) [(''main'', logged sample_pool)] [sample_table] (\<lambda>_. None) ''POST'' None [] (Some (JObj sample_body))
      sample_crud_endpoint sample_context (0, []) = (r, (1, log)) \<and> (\<forall>e. r \<noteq> Inl e) \<and> length log = 1"
proof -
  have "(case handle_crud (\<lambda>_. False) [(''main'', logged sample_pool)] [sample_table] (\<lambda>_. None) ''POST'' None [] (Some (JObj sample_body))
      sample_crud_endpoint sample_context (0, []) of (r, (n, log)) \<Rightarrow> n = 1 \<and> (case r of Inl _ \<Rightarrow> False | Inr _ \<Rightarrow> True) \<and> length log = 1)"
    by code_simp
  then show ?thesis by (auto split: prod.splits sum.splits)
qed

theorem crud_runs_its_statement_witness:
  "\<exists>q more. crud_statement (\<lambda>_. False) Sqlite sample_table sample_crud None ''POST'' None [] (Some (JObj sample_body)) sample_context q
     \<and> length (more @ [stmt q]) = 1 \<and> crud_followup Sqlite sample_table sample_crud ''POST'' None [] sample_context more"
proof -
  from sample_create_runs obtain r log where
    r: "handle_crud (\<lambda>_. False) [(''main'', logged sample_pool)] [sample_table] (\<lambda>_. None) ''POST'' None [] (Some (JObj sample_body))
      sample_crud_endpoint sample_context (0, []) = (r, (1, log))" "\<And>e. r \<noteq> Inl e" "length log = 1" by blast
  have c: "ep_crud sample_crud_endpoint = Some sample_crud" by (simp add: sample_crud_endpoint_def)
  have d: "get_db_context [(''main'', logged sample_pool)] [sample_table] (crud_database sample_crud) (crud_table sample_crud)
      = Inr (logged sample_pool, sample_table)"
    by (simp add: get_db_context_def db_pool_def sample_crud_def crud_config_default_def sample_table_def)
  have pk: "None = (case None of None \<Rightarrow> None | Some ps \<Rightarrow> map_of ps ''id'')" by simp
  from crud_runs_its_statement [OF c d r(1) pk] r(2,3) show ?thesis by (auto simp: sample_pool_def)
qed

end
