(* ===== verification/Auth_Handlers.thy ===== *)
theory Auth_Handlers
  imports Authenticate Crud_Handlers Stmt_Builders
begin

text \<open>
  Revocation, registration and login (src/handlers/auth.rs), the database-backed revocation store
  (src/server/state.rs) and the identity handlers extract again for themselves
  (src/handlers/common/utils.rs). Argon2 is the pair of functions \<open>hash\<close> and \<open>verify\<close>; random
  identifiers and clock readings are arguments.
\<close>

section \<open>The database-backed revocation store\<close>

definition is_revoked_db :: "'db pool \<Rightarrow> string \<Rightarrow> string \<Rightarrow> 'db \<Rightarrow> bool \<times> 'db" where
  "is_revoked_db p table jti db =
     (let q = build_revoke_check table (pl_driver p) (JStr jti) in
      case fetch_optional_json p (bq_sql q) (bq_params q) db of
        (Inr (Some _), db') \<Rightarrow> (True, db')
      | (_, db') \<Rightarrow> (False, db'))"

text \<open>The two times are given as the RFC 3339 texts the clock reading yields.\<close>

definition revoke_db :: "'db pool \<Rightarrow> string \<Rightarrow> string \<Rightarrow> string \<Rightarrow> string \<Rightarrow> 'db \<Rightarrow> (app_error, unit) result \<times> 'db" where
  "revoke_db p table jti revoked_at expires_at db =
     (case build_revoke_insert table jti revoked_at expires_at (pl_driver p) of
        Inl e \<Rightarrow> (Inl e, db)
      | Inr q \<Rightarrow>
          (case execute_with_params p (bq_sql q) (bq_params q) db of
             (Inl e, db') \<Rightarrow> (Inl e, db')
           | (Inr _, db') \<Rightarrow> (Inr (), db')))"

definition cleanup_expired_db :: "'db pool \<Rightarrow> string \<Rightarrow> 'db \<Rightarrow> (app_error, unit) result \<times> 'db" where
  "cleanup_expired_db p table db =
     (case execute_raw p (bq_sql (build_revoke_cleanup table (pl_driver p))) db of
        (Inl e, db') \<Rightarrow> (Inl e, db')
      | (Inr _, db') \<Rightarrow> (Inr (), db'))"

text \<open>A failing database makes every token count as not revoked.\<close>

lemma revocation_check_fails_open:
  "pl_query p (bq_sql (build_revoke_check table (pl_driver p) (JStr jti))) (map bind_value (bq_params (build_revoke_check table (pl_driver p) (JStr jti)))) db
     = (Inl e, db') \<Longrightarrow> is_revoked_db p table jti db = (False, db')"
  by (simp add: is_revoked_db_def fetch_optional_json_def Let_def)

section \<open>Revocation\<close>

definition revoke_validation :: "jwt_config \<Rightarrow> jwt_validation" where
  "revoke_validation cfg = (token_validation cfg) \<lparr> jv_validate_exp := False \<rparr>"

text \<open>The instant the entry expires: the \<open>exp\<close> claim is added to the current instant; one hour when that overflows.\<close>

definition revocation_expiry :: "int \<Rightarrow> nat \<Rightarrow> int" where
  "revocation_expiry now exp = (if i64_max < now div nanos + int exp then now + 3600 * nanos else now + int exp * nanos)"

text \<open>\<open>handle_revoke\<close>: the store comes with its \<open>revoke\<close>; \<open>None\<close> is a server without one.\<close>

definition handle_revoke :: "jwt_decoder \<Rightarrow> (string \<Rightarrow> int \<Rightarrow> 's \<Rightarrow> 's) \<Rightarrow> int \<Rightarrow> auth_config \<Rightarrow> header_map \<Rightarrow> 's option
    \<Rightarrow> (app_error, http_response) result \<times> 's option" where
  "handle_revoke decode revoke now auth headers store =
     (case (case header_str ''authorization'' headers of None \<Rightarrow> None | Some h \<Rightarrow> strip_prefix ''Bearer '' h) of
        None \<Rightarrow> (Inl (AuthError ''No token provided''), store)
      | Some token \<Rightarrow>
          (case au_jwt auth of
             None \<Rightarrow> (Inl (ConfigurationError ''JWT is not configured''), store)
           | Some cfg \<Rightarrow>
               (case decode token (jwt_secret cfg) (revoke_validation cfg) of
                  Inl e \<Rightarrow> (Inl (AuthError (''Failed to decode token for revocation: '' @ e)), store)
                | Inr v \<Rightarrow>
                    (case claim_str ''jti'' v of
                       None \<Rightarrow> (Inl (BadRequest ''Token has no jti claim''), store)
                     | Some jti \<Rightarrow>
                         (Inr (json_response 200 (JObj [(''message'', JStr ''Token revoked'')])),
                          map_option (revoke jti (revocation_expiry now (claim_usize ''exp'' v))) store)))))"

context revocation_store
begin

lemma revoked_token_invalid:
  assumes "handle_revoke decode revoke now auth headers (Some s) = (Inr resp, s')"
    and "au_jwt auth = Some cfg" "header_str ''authorization'' headers = Some (''Bearer '' @ token)"
    and "\<And>v. decode token (jwt_secret cfg) (token_validation cfg) = Inr v \<Longrightarrow> decode token (jwt_secret cfg) (revoke_validation cfg) = Inr v"
  shows "\<exists>s1. s' = Some s1 \<and> (\<forall>rs. \<exists>e. validate_token decode token cfg (Some (is_revoked (revoke_all rs s1))) = Inl (AuthError e))"
proof -
  from assms(1-3) obtain v jti where v: "decode token (jwt_secret cfg) (revoke_validation cfg) = Inr v" "claim_str ''jti'' v = Some jti"
    and s': "s' = Some (revoke jti (revocation_expiry now (claim_usize ''exp'' v)) s)"
    by (auto simp: handle_revoke_def simp del: strip_prefix.simps split: option.splits sum.splits)
  let ?s1 = "revoke jti (revocation_expiry now (claim_usize ''exp'' v)) s"
  have "\<exists>e. validate_token decode token cfg (Some (is_revoked (revoke_all rs ?s1))) = Inl (AuthError e)" for rs
  proof (cases "decode token (jwt_secret cfg) (token_validation cfg)")
    case (Inr w)
    with assms(4) v(1) have "w = v" by fastforce
    moreover have "is_revoked (revoke_all rs ?s1) jti"
      by (rule revocation_permanent) (simp add: is_revoked_revoke)
    ultimately show ?thesis
      using Inr v(2) by (simp add: validate_token_def Let_def split: option.splits)
  qed (simp add: validate_token_def)
  with s' show ?thesis by blast
qed

end

text \<open>C8: with the in-memory revocation store (the database store accepts every token while its query
  fails), once the revocation endpoint has answered with success for the bearer token of a request, the
  validation of that token fails with an authentication error, whatever the store held before and however
  many other tokens are revoked later. Hypothesis on the token library: a token that decodes with the
  expiry check decodes to the same claims without it.\<close>

theorem revoked_token_rejected:
  assumes "handle_revoke decode mem_revoke now auth headers (Some s) = (Inr resp, s')"
    and "au_jwt auth = Some cfg" "header_str ''authorization'' headers = Some (''Bearer '' @ token)"
    and "\<And>v. decode token (jwt_secret cfg) (token_validation cfg) = Inr v \<Longrightarrow> decode token (jwt_secret cfg) (revoke_validation cfg) = Inr v"
  shows "\<exists>s1. s' = Some s1 \<and>
    (\<forall>rs. \<exists>e. validate_token decode token cfg (Some (mem_is_revoked (fold (\<lambda>(jti, t). mem_revoke jti t) rs s1))) = Inl (AuthError e))"
  using memory_store.revoked_token_invalid [OF assms] by (simp add: memory_store.revoke_all_def)

theorem revoked_token_rejected_witness:
  "\<exists>s1. handle_revoke sample_decode mem_revoke 5 sample_login_auth [(''authorization'', ''Bearer token-1'')] (Some []) =
      (Inr (json_response 200 (JObj [(''message'', JStr ''Token revoked'')])), Some s1) \<and>
    (\<exists>e. validate_token sample_decode ''token-1'' sample_jwt (Some (mem_is_revoked (fold (\<lambda>(jti, t). mem_revoke jti t) [(''x'', 1)] s1))) = Inl (AuthError e))"
proof -
  have h: "handle_revoke sample_decode mem_revoke 5 sample_login_auth [(''authorization'', ''Bearer token-1'')] (Some []) =
      (Inr (json_response 200 (JObj [(''message'', JStr ''Token revoked'')])), Some [(''jti-1'', revocation_expiry 5 4600)])"
    by (simp add: handle_revoke_def header_str_def header_get_def header_to_str_def lowercase_def to_lower_def ccode_def sample_login_auth_def
        sample_decode_def claim_str_def claim_usize_def json_get_def token_claims_def put_claim_def sample_jwt_def jwt_config_default_def
        mem_revoke_def Let_def)
  have "\<exists>s1. Some [(''jti-1'', revocation_expiry 5 4600)] = Some s1 \<and>
    (\<forall>rs. \<exists>e. validate_token sample_decode ''token-1'' sample_jwt (Some (mem_is_revoked (fold (\<lambda>(jti, t). mem_revoke jti t) rs s1))) = Inl (AuthError e))"
    by (rule revoked_token_rejected [OF h])
      (simp_all add: sample_login_auth_def sample_decode_def header_str_def header_get_def header_to_str_def lowercase_def to_lower_def ccode_def)
  with h show ?thesis by blast
qed

section \<open>Registration\<close>

definition registration_pool :: "(string, 'db pool) entries \<Rightarrow> auth_config \<Rightarrow> (app_error, 'db pool \<times> register_config) result" where
  "registration_pool pools auth =
     (case au_register auth of
        None \<Rightarrow> Inl (ConfigurationError ''User registration is not enabled'')
      | Some rcfg \<Rightarrow> (case db_pool pools (reg_database rcfg) of Inl e \<Rightarrow> Inl e | Inr p \<Rightarrow> Inr (p, rcfg)))"

definition get_jwt_config :: "auth_config \<Rightarrow> (app_error, jwt_config) result" where
  "get_jwt_config auth = ok_or (au_jwt auth) (ConfigurationError ''JWT is not configured'')"

definition create_jwt_token :: "jwt_encoder \<Rightarrow> int \<Rightarrow> string \<Rightarrow> string option \<Rightarrow> jwt_config \<Rightarrow> string \<Rightarrow> string \<Rightarrow> (app_error, string) result" where
  "create_jwt_token encode clock user_id role cfg jti email = create_token encode clock user_id role cfg (Some jti) (Some email)"

text \<open>\<open>String::len\<close> counts UTF-8 bytes; the characters modelled take one or two.\<close>

definition utf8_length :: "string \<Rightarrow> nat" where
  "utf8_length s = sum_list (map (\<lambda>c. if ccode c < 128 then 1 else 2) s)"

definition hash_password :: "(string \<Rightarrow> (string, string) result) \<Rightarrow> string \<Rightarrow> (app_error, string) result" where
  "hash_password argon2 password =
     (case argon2 password of Inl e \<Rightarrow> Inl (Internal (''Password hashing error: '' @ e)) | Inr h \<Rightarrow> Inr h)"

definition verify_password :: "(string \<Rightarrow> string \<Rightarrow> verification) \<Rightarrow> string \<Rightarrow> string \<Rightarrow> (app_error, bool) result" where
  "verify_password verify password hash =
     (case verify password hash of
        HashInvalid \<Rightarrow> Inl (Internal ''Invalid password hash'')
      | PasswordOk \<Rightarrow> Inr True
      | PasswordInvalid \<Rightarrow> Inr False
      | VerifyFailed e \<Rightarrow> Inl (Internal (''Password verification error: '' @ e)))"

definition query_error :: "app_error \<Rightarrow> app_error" where
  "query_error e = Internal (''Database query error: '' @ app_error_display e)"

definition build_error :: "app_error \<Rightarrow> app_error" where
  "build_error e = Internal (''Failed to build query: '' @ app_error_display e)"

definition column_row_name :: "json \<Rightarrow> string option" where
  "column_row_name row =
     (case or_else (json_get ''name'' row) (or_else (json_get ''column_name'' row) (json_get ''COLUMN_NAME'' row)) of
        None \<Rightarrow> None | Some v \<Rightarrow> as_str v)"

definition fetch_by_email :: "'db pool \<Rightarrow> string \<Rightarrow> string list \<Rightarrow> string \<Rightarrow> 'db \<Rightarrow> (app_error, json option) result \<times> 'db" where
  "fetch_by_email p table cols email db =
     (case build_select_by_field table cols ''email'' (JStr email) (pl_driver p) of
        Inl e \<Rightarrow> (Inl (build_error e), db)
      | Inr q \<Rightarrow>
          (case fetch_optional_json p (bq_sql q) (bq_params q) db of
             (Inl e, db') \<Rightarrow> (Inl (query_error e), db')
           | (Inr row, db') \<Rightarrow> (Inr row, db')))"

definition insert_user :: "'db pool \<Rightarrow> string \<Rightarrow> string \<Rightarrow> string \<Rightarrow> string \<Rightarrow> bool \<Rightarrow> 'db \<Rightarrow> (app_error, unit) result \<times> 'db" where
  "insert_user p table email pw_hash role timestamps db =
     (case build_insert_user table email pw_hash role timestamps (pl_driver p) of
        Inl e \<Rightarrow> (Inl (Internal (''Failed to build insert query: '' @ app_error_display e)), db)
      | Inr q \<Rightarrow>
          (case execute_with_params p (bq_sql q) (bq_params q) db of
             (Inl e, db') \<Rightarrow> (Inl (Internal (''Database insert error: '' @ app_error_display e)), db')
           | (Inr _, db') \<Rightarrow> (Inr (), db')))"

text \<open>The identifier and e-mail of the new row, each falling back on the e-mail of the request.\<close>

definition row_user_id :: "json \<Rightarrow> string \<Rightarrow> string" where
  "row_user_id row fallback = (case (case json_get ''id'' row of None \<Rightarrow> None | Some v \<Rightarrow> as_i64 v) of None \<Rightarrow> fallback | Some i \<Rightarrow> show_int i)"

text \<open>The rest of the handler once the user is stored.\<close>

definition finish_register :: "jwt_encoder \<Rightarrow> int \<Rightarrow> string \<Rightarrow> auth_config \<Rightarrow> register_config \<Rightarrow> string \<Rightarrow> json \<Rightarrow> (app_error, http_response) result" where
  "finish_register encode clock jti auth rcfg email row =
     (case get_jwt_config auth of
        Inl e \<Rightarrow> Inl e
      | Inr cfg \<Rightarrow>
          (case create_jwt_token encode clock (row_user_id row email) (Some (reg_default_role rcfg)) cfg jti (unwrap_or (claim_str ''email'' row) email) of
             Inl e \<Rightarrow> Inl e
           | Inr token \<Rightarrow> Inr (json_response 201 (JObj [(''token'', JStr token)]))))"

record register_request =
  rr_email :: string
  rr_password :: string
  rr_role :: "string option"

definition register_with :: "jwt_encoder \<Rightarrow> int \<Rightarrow> string \<Rightarrow> auth_config \<Rightarrow> 'db pool \<Rightarrow> register_config \<Rightarrow> register_request \<Rightarrow> string \<Rightarrow> 'db
    \<Rightarrow> (app_error, http_response) result \<times> 'db" where
  "register_with encode clock jti auth p rcfg req pw_hash db =
     (let cq = build_table_columns (reg_table rcfg) (pl_driver p) in
      case fetch_all_json p (bq_sql cq) (bq_params cq) db of
        (Inl e, db1) \<Rightarrow> (Inl (query_error e), db1)
      | (Inr column_rows, db1) \<Rightarrow>
          (let cols = List.map_filter column_row_name column_rows;
               timestamps = (''created_at'' \<in> set cols \<and> ''updated_at'' \<in> set cols)
           in case fetch_by_email p (reg_table rcfg) [''email''] (rr_email req) db1 of
                (Inl e, db2) \<Rightarrow> (Inl e, db2)
              | (Inr (Some _), db2) \<Rightarrow> (Inl (BadRequest ''Email already registered''), db2)
              | (Inr None, db2) \<Rightarrow>
                  (case insert_user p (reg_table rcfg) (rr_email req) pw_hash (unwrap_or (rr_role req) (reg_default_role rcfg)) timestamps db2 of
                     (Inl e, db3) \<Rightarrow> (Inl e, db3)
                   | (Inr _, db3) \<Rightarrow>
                       (case fetch_by_email p (reg_table rcfg) [''id'', ''email'', ''role''] (rr_email req) db3 of
                          (Inl e, db4) \<Rightarrow> (Inl e, db4)
                        | (Inr None, db4) \<Rightarrow> (Inl (Internal ''Failed to retrieve newly created user''), db4)
                        | (Inr (Some row), db4) \<Rightarrow> (finish_register encode clock jti auth rcfg (rr_email req) row, db4)))))"

definition handle_register :: "(string \<Rightarrow> (string, string) result) \<Rightarrow> jwt_encoder \<Rightarrow> int \<Rightarrow> string \<Rightarrow> (string, 'db pool) entries \<Rightarrow> auth_config
    \<Rightarrow> register_request \<Rightarrow> 'db \<Rightarrow> (app_error, http_response) result \<times> 'db" where
  "handle_register argon2 encode clock jti pools auth req db =
     (case registration_pool pools auth of
        Inl e \<Rightarrow> (Inl e, db)
      | Inr (p, rcfg) \<Rightarrow>
          if \<not> reg_enabled rcfg then (Inl (ConfigurationError ''User registration is not enabled''), db)
          else if utf8_length (rr_password req) < 6 then (Inl (BadRequest ''Password must be at least 6 characters''), db)
          else
            (case hash_password argon2 (rr_password req) of
               Inl e \<Rightarrow> (Inl e, db)
             | Inr pw_hash \<Rightarrow> register_with encode clock jti auth p rcfg req pw_hash db))"

section \<open>Login\<close>

text \<open>The stored user: e-mail, password hash, role and identifier.\<close>

definition user_of_row :: "json \<Rightarrow> (app_error, string \<times> string \<times> string option \<times> string) result" where
  "user_of_row row =
     (case claim_str ''email'' row of
        None \<Rightarrow> Inl (AuthError ''Invalid user record'')
      | Some email \<Rightarrow>
          (case claim_str ''password_hash'' row of
             None \<Rightarrow> Inl (AuthError ''Invalid user record'')
           | Some h \<Rightarrow> Inr (email, h, claim_str ''role'' row, row_user_id row email)))"

definition handle_login :: "(string \<Rightarrow> string \<Rightarrow> verification) \<Rightarrow> jwt_encoder \<Rightarrow> int \<Rightarrow> string \<Rightarrow> (string, 'db pool) entries \<Rightarrow> auth_config
    \<Rightarrow> string \<Rightarrow> string \<Rightarrow> 'db \<Rightarrow> (app_error, http_response) result \<times> 'db" where
  "handle_login verify encode clock jti pools auth email password db =
     (case registration_pool pools auth of
        Inl e \<Rightarrow> (Inl e, db)
      | Inr (p, _) \<Rightarrow>
          (case build_select_user_for_login ''users'' (pl_driver p) of
             Inl e \<Rightarrow> (Inl (build_error e), db)
           | Inr q \<Rightarrow>
               (case fetch_optional_json p (bq_sql q) [JStr email] db of
                  (Inl e, db') \<Rightarrow> (Inl (query_error e), db')
                | (Inr None, db') \<Rightarrow> (Inl (AuthError ''Invalid email or password''), db')
                | (Inr (Some row), db') \<Rightarrow>
                    (case user_of_row row of
                       Inl e \<Rightarrow> (Inl e, db')
                     | Inr (stored_email, pw_hash, role, uid) \<Rightarrow>
                         (case verify_password verify password pw_hash of
                            Inl e \<Rightarrow> (Inl e, db')
                          | Inr False \<Rightarrow> (Inl (AuthError ''Invalid email or password''), db')
                          | Inr True \<Rightarrow>
                              (case get_jwt_config auth of
                                 Inl e \<Rightarrow> (Inl e, db')
                               | Inr cfg \<Rightarrow>
                                   (case create_jwt_token encode clock uid role cfg jti stored_email of
                                      Inl e \<Rightarrow> (Inl e, db')
                                    | Inr token \<Rightarrow> (Inr (json_response 200 (JObj [(''token'', JStr token)])), db'))))))))"

section \<open>The identity a handler extracts\<close>

text \<open>\<open>HandlerContext::extract_auth_info\<close> authenticates again, without the revocation store.\<close>

definition extract_auth_info :: "auth_world \<Rightarrow> auth_config \<Rightarrow> endpoint_config \<Rightarrow> header_map \<Rightarrow> (string, string) entries \<Rightarrow> (app_error, auth_info) result" where
  "extract_auth_info w auth endpoint headers query_params =
     (if ep_auth endpoint = ''none'' then Inr auth_info_anonymous
      else authenticate w (ep_auth endpoint) auth headers query_params None)"

definition extract_user_id :: "auth_world \<Rightarrow> auth_config \<Rightarrow> endpoint_config \<Rightarrow> header_map \<Rightarrow> (string, string) entries \<Rightarrow> (app_error, string) result" where
  "extract_user_id w auth endpoint headers query_params =
     (case extract_auth_info w auth endpoint headers query_params of Inl e \<Rightarrow> Inl e | Inr info \<Rightarrow> Inr (ai_subject info))"

section \<open>What login and registration guarantee\<close>

lemma create_token_Inr:
  "create_token encode clock sub role cfg jti email = Inr token \<Longrightarrow>
     encode (map_algorithm (jwt_algorithm cfg)) (JObj (token_claims cfg clock sub role jti email)) (jwt_secret cfg) = Inr token"
  by (auto simp: create_token_def split: if_splits sum.splits)

lemma verify_password_True: "verify_password verify password h = Inr True \<Longrightarrow> verify password h = PasswordOk"
  by (simp add: verify_password_def split: verification.splits)

text \<open>C7: a login answers with a token only when the login statement found a user under the e-mail of the request
  and the password verifies against the hash stored for that user; the token carries the role stored there.\<close>

theorem login_needs_password:
  assumes "handle_login verify encode clock jti pools auth email password db = (Inr resp, db')"
  shows "\<exists>p rcfg q row h stored uid cfg token. registration_pool pools auth = Inr (p, rcfg)
    \<and> build_select_user_for_login ''users'' (pl_driver p) = Inr q \<and> fetch_optional_json p (bq_sql q) [JStr email] db = (Inr (Some row), db')
    \<and> claim_str ''password_hash'' row = Some h \<and> verify password h = PasswordOk \<and> au_jwt auth = Some cfg
    \<and> encode (map_algorithm (jwt_algorithm cfg)) (JObj (token_claims cfg clock uid (claim_str ''role'' row) (Some jti) (Some stored))) (jwt_secret cfg) = Inr token
    \<and> resp = json_response 200 (JObj [(''token'', JStr token)])"
  using assms
  by (auto simp: handle_login_def user_of_row_def get_jwt_config_def create_jwt_token_def ok_or_def
      split: sum.splits prod.splits option.splits bool.splits dest!: verify_password_True create_token_Inr)

definition sample_verify :: "string \<Rightarrow> string \<Rightarrow> verification" where
  "sample_verify pw h = (if pw = ''secret'' then PasswordOk else PasswordInvalid)"

definition sample_argon2 :: "string \<Rightarrow> (string, string) result" where
  "sample_argon2 pw = Inr (''argon2:'' @ pw)"

definition sample_signer :: jwt_encoder where
  "sample_signer alg c k = Inr ''t''"

definition sample_user :: json where
  "sample_user = JObj [(''email'', JStr ''a@b.c''), (''id'', JInt 42), (''password_hash'', JStr ''h''), (''role'', JStr ''admin'')]"

definition sample_users :: "nat pool" where
  "sample_users = sample_pool \<lparr> pl_query := (\<lambda>_ _ n. (Inr [sample_user], Suc n)) \<rparr>"

definition sample_register_auth :: auth_config where
  "sample_register_auth = \<lparr> au_jwt = Some sample_jwt, au_api_key = None, au_basic = None, au_oauth2 = None,
     au_register = Some (register_config_default \<lparr> reg_enabled := True, reg_table := ''users'', reg_database := ''main'' \<rparr>) \<rparr>"

theorem login_needs_password_witness:
  "\<exists>p rcfg q row h stored uid cfg token. registration_pool [(''main'', sample_users)] sample_register_auth = Inr (p, rcfg)
    \<and> build_select_user_for_login ''users'' (pl_driver p) = Inr q \<and> fetch_optional_json p (bq_sql q) [JStr ''a@b.c''] 0 = (Inr (Some row), 1)
    \<and> claim_str ''password_hash'' row = Some h \<and> sample_verify ''secret'' h = PasswordOk
    \<and> au_jwt sample_register_auth = Some cfg
    \<and> sample_signer (map_algorithm (jwt_algorithm cfg))
        (JObj (token_claims cfg 1000 uid (claim_str ''role'' row) (Some ''jti-1'') (Some stored))) (jwt_secret cfg) = Inr token
    \<and> json_response 200 (JObj [(''token'', JStr ''t'')]) = json_response 200 (JObj [(''token'', JStr token)])"
proof (rule login_needs_password)
  show "handle_login sample_verify sample_signer 1000 ''jti-1''
      [(''main'', sample_users)] sample_register_auth ''a@b.c'' ''secret'' 0 = (Inr (json_response 200 (JObj [(''token'', JStr ''t'')])), 1)"
    by (simp add: handle_login_def registration_pool_def db_pool_def sample_register_auth_def register_config_default_def
        build_select_user_for_login_def fetch_optional_json_def sample_users_def sample_pool_def user_of_row_def sample_user_def claim_str_def
        json_get_def verify_password_def sample_verify_def sample_signer_def get_jwt_config_def create_jwt_token_def create_token_def)
qed

lemma fetch_by_email_log:
  "fetch_by_email (logged p) table cols email (db, log) = (Inr row, \<sigma>) \<Longrightarrow>
     \<exists>q. build_select_by_field table cols ''email'' (JStr email) (pl_driver p) = Inr q \<and> snd \<sigma> = stmt q # log"
  by (auto simp: fetch_by_email_def stmt_def split: sum.splits prod.splits dest!: logged_cases)

lemma insert_user_log:
  "insert_user (logged p) table email pw_hash role ts (db, log) = (Inr u, \<sigma>) \<Longrightarrow>
     \<exists>q. build_insert_user table email pw_hash role ts (pl_driver p) = Inr q \<and> snd \<sigma> = stmt q # log"
  by (auto simp: insert_user_def stmt_def split: sum.splits prod.splits dest!: logged_cases)

lemma finish_register_Inr:
  "finish_register encode clock jti auth rcfg email row = Inr resp \<Longrightarrow>
     \<exists>cfg uid stored token. au_jwt auth = Some cfg \<and> resp = json_response 201 (JObj [(''token'', JStr token)])
       \<and> encode (map_algorithm (jwt_algorithm cfg)) (JObj (token_claims cfg clock uid (Some (reg_default_role rcfg)) (Some jti) (Some stored)))
           (jwt_secret cfg) = Inr token"
  by (auto simp: finish_register_def get_jwt_config_def create_jwt_token_def ok_or_def split: sum.splits option.splits dest!: create_token_Inr)

lemma register_with_Inr:
  assumes "register_with encode clock jti auth (logged p) rcfg req pw_hash (db, []) = (Inr resp, \<sigma>)"
  shows "\<exists>taken found ins ts row. build_insert_user (reg_table rcfg) (rr_email req) pw_hash (unwrap_or (rr_role req) (reg_default_role rcfg)) ts
        (pl_driver p) = Inr ins
    \<and> snd \<sigma> = [found, stmt ins, taken, stmt (build_table_columns (reg_table rcfg) (pl_driver p))]
    \<and> finish_register encode clock jti auth rcfg (rr_email req) row = Inr resp"
proof -
  let ?cq = "build_table_columns (reg_table rcfg) (pl_driver p)"
  obtain cr db1 log1 where c: "fetch_all_json (logged p) (bq_sql ?cq) (bq_params ?cq) (db, []) = (cr, (db1, log1))" by (metis prod.exhaust)
  from logged_cases(1) [OF c] have l1: "log1 = [stmt ?cq]" by (simp add: stmt_def)
  from assms c obtain rows where rows: "cr = Inr rows" by (cases cr) (auto simp: register_with_def Let_def)
  obtain er db2 log2 where e: "fetch_by_email (logged p) (reg_table rcfg) [''email''] (rr_email req) (db1, log1) = (er, (db2, log2))"
    by (metis prod.exhaust)
  from assms c rows e have er: "er = Inr None" by (cases er) (auto simp: register_with_def Let_def split: option.splits)
  from fetch_by_email_log [OF e [unfolded er]] l1 obtain taken where l2: "log2 = [taken, stmt ?cq]" by (metis snd_conv)
  define ts where "ts = (''created_at'' \<in> set (List.map_filter column_row_name rows) \<and> ''updated_at'' \<in> set (List.map_filter column_row_name rows))"
  obtain ir db3 log3 where i: "insert_user (logged p) (reg_table rcfg) (rr_email req) pw_hash (unwrap_or (rr_role req) (reg_default_role rcfg)) ts
      (db2, log2) = (ir, (db3, log3))" by (metis prod.exhaust)
  from assms c rows e er i obtain u where ir: "ir = Inr u" by (cases ir) (auto simp: register_with_def Let_def ts_def)
  from insert_user_log [OF i [unfolded ir]] l2 obtain ins where ins: "log3 = [stmt ins, taken, stmt ?cq]"
    "build_insert_user (reg_table rcfg) (rr_email req) pw_hash (unwrap_or (rr_role req) (reg_default_role rcfg)) ts (pl_driver p) = Inr ins"
    by (metis snd_conv)
  obtain fr \<sigma>4 where f: "fetch_by_email (logged p) (reg_table rcfg) [''id'', ''email'', ''role''] (rr_email req) (db3, log3) = (fr, \<sigma>4)"
    by (metis prod.exhaust)
  from assms c rows e er i ir f obtain row where fr: "fr = Inr (Some row)"
    by (cases fr) (auto simp: register_with_def Let_def ts_def split: option.splits)
  from fetch_by_email_log [OF f [unfolded fr]] ins(1) obtain found where "snd \<sigma>4 = [found, stmt ins, taken, stmt ?cq]" by metis
  moreover from assms c rows e er i ir f fr have "\<sigma> = \<sigma>4" "finish_register encode clock jti auth rcfg (rr_email req) row = Inr resp"
    by (auto simp: register_with_def Let_def ts_def)
  ultimately show ?thesis using ins(2) by blast
qed

text \<open>A registration that succeeds ran four statements, one of them the insert, with the hash of the password
  in place of the password and with the role the request asked for, whatever it is; only without one does
  the user get the configured default role. The token it returns claims the default role all the same.\<close>

theorem registration_stores_requested_role:
  assumes "registration_pool pools auth = Inr (logged p, rcfg)"
    and "handle_register argon2 encode clock jti pools auth req (db, []) = (Inr resp, (db', log))"
  shows "\<exists>pw_hash found ins taken cols cfg uid stored token. log = [found, ins, taken, cols] \<and> argon2 (rr_password req) = Inr pw_hash
    \<and> snd ins = [BindText (rr_email req), BindText pw_hash, BindText (unwrap_or (rr_role req) (reg_default_role rcfg))]
    \<and> au_jwt auth = Some cfg \<and> resp = json_response 201 (JObj [(''token'', JStr token)])
    \<and> encode (map_algorithm (jwt_algorithm cfg)) (JObj (token_claims cfg clock uid (Some (reg_default_role rcfg)) (Some jti) (Some stored)))
           (jwt_secret cfg) = Inr token"
proof -
  from assms obtain pw_hash where h: "argon2 (rr_password req) = Inr pw_hash"
    "register_with encode clock jti auth (logged p) rcfg req pw_hash (db, []) = (Inr resp, (db', log))"
    by (auto simp: handle_register_def hash_password_def split: if_splits sum.splits)
  from register_with_Inr [OF h(2)] obtain taken found ins ts row where i:
    "build_insert_user (reg_table rcfg) (rr_email req) pw_hash (unwrap_or (rr_role req) (reg_default_role rcfg)) ts (pl_driver p) = Inr ins"
    "log = [found, stmt ins, taken, stmt (build_table_columns (reg_table rcfg) (pl_driver p))]"
    "finish_register encode clock jti auth rcfg (rr_email req) row = Inr resp" by auto
  have "snd (stmt ins) = [BindText (rr_email req), BindText pw_hash, BindText (unwrap_or (rr_role req) (reg_default_role rcfg))]"
    using i(1) by (auto simp: build_insert_user_def stmt_def Let_def split: if_splits)
  with h(1) i(2) finish_register_Inr [OF i(3)] show ?thesis by blast
qed

text \<open>A database without users: only the query for the new user returns a row.\<close>

definition sample_new_user :: "nat pool" where
  "sample_new_user = sample_pool \<lparr> pl_query := (\<lambda>_ _ n. (Inr (if n = 3 then [sample_user] else []), Suc n)) \<rparr>"

theorem registration_stores_requested_role_witness:
  "\<exists>pw_hash found ins taken cols cfg uid stored token log. log = [found, ins, taken, cols] \<and> sample_argon2 ''secret'' = Inr pw_hash
    \<and> snd ins = [BindText ''a@b.c'', BindText pw_hash, BindText ''admin'']
    \<and> au_jwt sample_register_auth = Some cfg \<and> json_response 201 (JObj [(''token'', JStr ''t'')]) = json_response 201 (JObj [(''token'', JStr token)])
    \<and> sample_signer (map_algorithm (jwt_algorithm cfg))
        (JObj (token_claims cfg 1000 uid (Some ''user'') (Some ''jti-1'') (Some stored))) (jwt_secret cfg) = Inr token"
proof -
  let ?rcfg = "register_config_default \<lparr> reg_enabled := True, reg_table := ''users'', reg_database := ''main'' \<rparr>"
  let ?req = "\<lparr> rr_email = ''a@b.c'', rr_password = ''secret'', rr_role = Some ''admin'' \<rparr>"
  have pool: "registration_pool [(''main'', logged sample_new_user)] sample_register_auth = Inr (logged sample_new_user, ?rcfg)"
    by (simp add: registration_pool_def db_pool_def sample_register_auth_def register_config_default_def)
  have "case handle_register sample_argon2 sample_signer 1000 ''jti-1'' [(''main'', logged sample_new_user)]
      sample_register_auth ?req (0, []) of (Inr resp, _) \<Rightarrow> resp = json_response 201 (JObj [(''token'', JStr ''t'')]) | _ \<Rightarrow> False"
    by code_simp
  then obtain \<sigma> where "handle_register sample_argon2 sample_signer 1000 ''jti-1'' [(''main'', logged sample_new_user)]
      sample_register_auth ?req (0, []) = (Inr (json_response 201 (JObj [(''token'', JStr ''t'')])), (fst \<sigma>, snd \<sigma>))"
    by (auto split: prod.splits sum.splits)
  from registration_stores_requested_role [OF pool this] show ?thesis by (auto simp: register_config_default_def)
qed

end
