(* ===== verification/Paths.thy ===== *)
theory Paths
  imports Rust_Std
begin

text \<open>
  \<open>std::path\<close> on Unix: a path is the sequence of its components, which is what \<open>Path\<close> compares, hashes
  and takes prefixes of. Repeated and trailing separators and inner \<open>.\<close> segments leave no component.
  Where the program prints a path the text of its components is meant. None of these definitions
  models code of the repository.
\<close>

datatype component = RootDir | CurDir | ParentDir | Normal string

type_synonym path = "component list"

definition segment_component :: "string \<Rightarrow> component" where
  "segment_component seg = (if seg = ''..'' then ParentDir else Normal seg)"

definition path_segments :: "string \<Rightarrow> string list" where
  "path_segments s = filter (\<lambda>seg. seg \<noteq> [] \<and> seg \<noteq> ''.'') (split_on (CHR ''/'') s)"

text \<open>\<open>Path::components\<close>: a leading \<open>.\<close> of a relative path is kept.\<close>

definition components :: "string \<Rightarrow> path" where
  "components s =
     (if starts_with s ''/'' then RootDir # map segment_component (path_segments s)
      else if hd (split_on (CHR ''/'') s) = ''.'' then CurDir # map segment_component (path_segments s)
      else map segment_component (path_segments s))"

text \<open>\<open>Path::join\<close>: an absolute path replaces the base.\<close>

definition path_join :: "path \<Rightarrow> path \<Rightarrow> path" where
  "path_join a b =
     (case b of
        RootDir # _ \<Rightarrow> b
      | _ \<Rightarrow> if a = [] then b else a @ filter (\<lambda>c. c \<noteq> CurDir) b)"

definition path_parent :: "path \<Rightarrow> path option" where
  "path_parent p = (if p = [] \<or> p = [RootDir] then None else Some (butlast p))"

definition file_name :: "path \<Rightarrow> string option" where
  "file_name p = (if p = [] then None else case last p of Normal n \<Rightarrow> Some n | _ \<Rightarrow> None)"

text \<open>\<open>Path::extension\<close>: after the last dot of the file name, unless that dot is its first character.\<close>

definition name_extension :: "string \<Rightarrow> string option" where
  "name_extension n =
     (case rsplit_once (CHR ''.'') n of
        None \<Rightarrow> None
      | Some (stem, ext) \<Rightarrow> if stem = [] then None else Some ext)"

definition extension :: "path \<Rightarrow> string option" where
  "extension p = (case file_name p of None \<Rightarrow> None | Some n \<Rightarrow> name_extension n)"

text \<open>\<open>Path::starts_with\<close> and \<open>Path::strip_prefix\<close> work on whole components.\<close>

fun path_strip_prefix :: "path \<Rightarrow> path \<Rightarrow> path option" where
  "path_strip_prefix [] p = Some p"
| "path_strip_prefix (b # bs) [] = None"
| "path_strip_prefix (b # bs) (c # cs) = (if b = c then path_strip_prefix bs cs else None)"

definition path_starts_with :: "path \<Rightarrow> path \<Rightarrow> bool" where
  "path_starts_with p base = (path_strip_prefix base p \<noteq> None)"

fun component_text :: "component \<Rightarrow> string" where
  "component_text RootDir = []"
| "component_text CurDir = ''.''"
| "component_text ParentDir = ''..''"
| "component_text (Normal s) = s"

definition path_text :: "path \<Rightarrow> string" where
  "path_text p = (if p = [RootDir] then ''/'' else join ''/'' (map component_text p))"

lemma path_strip_prefix_Some [simp]: "path_strip_prefix base p = Some r \<longleftrightarrow> p = base @ r"
  by (induction base p rule: path_strip_prefix.induct) auto

lemma path_starts_with_prefix [simp]: "path_starts_with p base \<longleftrightarrow> prefix base p"
  by (auto simp: path_starts_with_def prefix_def)

lemma segment_component_Normal: "segment_component seg = Normal seg \<longleftrightarrow> seg \<noteq> ''..''"
  by (simp add: segment_component_def)

lemma path_segments_single: "CHR ''/'' \<notin> set s \<Longrightarrow> path_segments s = (if s = [] \<or> s = ''.'' then [] else [s])"
  by (simp add: path_segments_def split_on_single)

lemma components_name:
  assumes "CHR ''/'' \<notin> set s" "s \<noteq> []" "s \<noteq> ''.''" "s \<noteq> ''..''"
  shows "components s = [Normal s]"
proof -
  have "\<not> starts_with s ''/''" using assms(1) by (auto simp: starts_with_prefix prefix_def)
  then show ?thesis
    using assms by (simp add: components_def path_segments_single split_on_single segment_component_def)
qed

lemma components_relative: "\<not> starts_with s ''/'' \<Longrightarrow> RootDir \<notin> set (components s)"
  by (auto simp: components_def segment_component_def)

lemma parent_dir_in_components: "ParentDir \<in> set (components s) \<longleftrightarrow> ''..'' \<in> set (split_on (CHR ''/'') s)"
  by (auto simp: components_def segment_component_def path_segments_def split: if_splits)

lemma path_join_relative: "RootDir \<notin> set b \<Longrightarrow> prefix a (path_join a b)"
  by (cases b) (auto simp: path_join_def split: component.splits)

lemma path_join_absolute: "path_join a (RootDir # b) = RootDir # b"
  by (simp add: path_join_def)

lemma path_join_name: "a \<noteq> [] \<Longrightarrow> path_join a [Normal n] = a @ [Normal n]"
  by (simp add: path_join_def)

lemma set_path_join: "set (path_join a b) \<subseteq> set a \<union> set b"
  by (auto simp: path_join_def split: list.splits component.splits if_splits)

lemma path_parent_snoc: "p \<noteq> [] \<Longrightarrow> path_parent (p @ [Normal n]) = Some p"
  by (simp add: path_parent_def)

lemma file_name_snoc [simp]: "file_name (p @ [Normal n]) = Some n"
  by (simp add: file_name_def)

end
