(* ===== verification/Storage.thy ===== *)
theory Storage
  imports Paths App_Error
begin

text \<open>
  The storage abstraction (src/storage/mod.rs, metadata.rs): what the handlers rely on as a locale, and
  the in-memory backend (src/storage/backend/memory.rs) as its model. The maps sit behind locks and an
  operation is one step. File contents are lists of bytes; a path in an error is the text of its
  components. The native backend calls the operating system, the others their services.
\<close>

section \<open>Metadata\<close>

record file_metadata =
  fm_name :: string
  fm_is_file :: bool
  fm_size :: nat
  fm_created :: "int option"
  fm_modified :: "int option"

definition file_metadata_new :: "string \<Rightarrow> bool \<Rightarrow> nat \<Rightarrow> file_metadata" where
  "file_metadata_new name is_file n = \<lparr> fm_name = name, fm_is_file = is_file, fm_size = n, fm_created = None, fm_modified = None \<rparr>"

record dir_entry =
  de_name :: string
  de_is_dir :: bool
  de_size :: nat
  de_path :: path
  de_mode :: nat
  de_uid :: nat
  de_gid :: nat
  de_modified :: "int option"

definition dir_entry_new :: "string \<Rightarrow> bool \<Rightarrow> nat \<Rightarrow> dir_entry" where
  "dir_entry_new name is_dir n =
     \<lparr> de_name = name, de_is_dir = is_dir, de_size = n, de_path = [], de_mode = 0, de_uid = 0, de_gid = 0, de_modified = None \<rparr>"

section \<open>The in-memory backend\<close>

record mem_store =
  ms_data :: "(path, string) entries"
  ms_dirs :: "path list"

definition mem_new :: mem_store where
  "mem_new = \<lparr> ms_data = [], ms_dirs = [] \<rparr>"

definition not_found_path :: "path \<Rightarrow> storage_error" where
  "not_found_path p = StNotFound (path_text p)"

text \<open>The \<open>Display\<close> form; a path is printed by \<open>Debug\<close>.\<close>

fun storage_error_display :: "storage_error \<Rightarrow> string" where
  "storage_error_display (StNotFound p) = ''Not found: '' @ debug_text p"
| "storage_error_display (StAlreadyExists p) = ''Already exists: '' @ debug_text p"
| "storage_error_display (StDirectoryNotEmpty p) = ''Directory not empty: '' @ debug_text p"
| "storage_error_display (StForbidden m) = ''Permission denied: '' @ m"
| "storage_error_display (StInvalidFilename m) = ''Invalid filename: '' @ m"
| "storage_error_display (StIo p e) = ''IO error for '' @ debug_text p @ '': '' @ e"
| "storage_error_display (StInvalidBackend m) = ''Invalid storage backend: '' @ m"
| "storage_error_display (StInternal m) = ''Internal error: '' @ m"
| "storage_error_display (StServiceUnavailable m) = ''Service unavailable: '' @ m"
| "storage_error_display (StAuthentication m) = ''Authentication failed: '' @ m"

definition mem_exists :: "mem_store \<Rightarrow> path \<Rightarrow> bool" where
  "mem_exists s p \<longleftrightarrow> map_of (ms_data s) p \<noteq> None \<or> p \<in> set (ms_dirs s)
     \<or> list_ex (\<lambda>(k, _). path_starts_with k p \<and> k \<noteq> p) (ms_data s)"

definition mem_is_file :: "mem_store \<Rightarrow> path \<Rightarrow> bool" where
  "mem_is_file s p = (map_of (ms_data s) p \<noteq> None)"

definition mem_is_dir :: "mem_store \<Rightarrow> path \<Rightarrow> bool" where
  "mem_is_dir s p = (p \<in> set (ms_dirs s))"

definition mem_read :: "mem_store \<Rightarrow> path \<Rightarrow> (storage_error, string) result" where
  "mem_read s p = ok_or (map_of (ms_data s) p) (not_found_path p)"

definition mem_seek_read :: "mem_store \<Rightarrow> path \<Rightarrow> nat \<Rightarrow> (storage_error, string) result" where
  "mem_seek_read s p offset =
     (case mem_read s p of
        Inl e \<Rightarrow> Inl e
      | Inr c \<Rightarrow> if length c \<le> offset then Inr [] else Inr (drop offset c))"

definition mem_write :: "path \<Rightarrow> string \<Rightarrow> mem_store \<Rightarrow> (storage_error, unit) result \<times> mem_store" where
  "mem_write p c s = (Inr (), s \<lparr> ms_data := entries_insert p c (ms_data s) \<rparr>)"

definition mem_append :: "path \<Rightarrow> string \<Rightarrow> mem_store \<Rightarrow> (storage_error, unit) result \<times> mem_store" where
  "mem_append p c s = (Inr (), s \<lparr> ms_data := entries_insert p (unwrap_or (map_of (ms_data s) p) [] @ c) (ms_data s) \<rparr>)"

text \<open>Pushing the empty segment onto a path adds no component, so the prefix is the path itself.\<close>

definition mem_delete :: "path \<Rightarrow> mem_store \<Rightarrow> (storage_error, unit) result \<times> mem_store" where
  "mem_delete p s =
     (if map_of (ms_data s) p \<noteq> None then (Inr (), s \<lparr> ms_data := entries_remove p (ms_data s) \<rparr>)
      else if p \<in> set (ms_dirs s) then
        (Inr (), \<lparr> ms_data = entries_retain (\<lambda>k _. \<not> path_starts_with k p) (ms_data s),
                  ms_dirs = filter (\<lambda>k. \<not> path_starts_with k p) (removeAll p (ms_dirs s)) \<rparr>)
      else (Inl (not_found_path p), s))"

definition mem_metadata :: "mem_store \<Rightarrow> path \<Rightarrow> (storage_error, file_metadata) result" where
  "mem_metadata s p =
     (case map_of (ms_data s) p of
        Some c \<Rightarrow> Inr (file_metadata_new (unwrap_or (file_name p) []) True (length c))
      | None \<Rightarrow>
          if p \<in> set (ms_dirs s) then Inr (file_metadata_new (unwrap_or (file_name p) []) False 0) else Inl (not_found_path p))"

definition mem_list :: "mem_store \<Rightarrow> path \<Rightarrow> (storage_error, dir_entry list) result" where
  "mem_list s dir =
     (let ds = map (\<lambda>p. (dir_entry_new (unwrap_or (file_name p) []) True 0) \<lparr> de_mode := 16877 \<rparr>)
                 (filter (\<lambda>p. path_parent p = Some dir) (ms_dirs s));
          fs = map (\<lambda>(p, c). (dir_entry_new (unwrap_or (file_name p) []) False (length c)) \<lparr> de_mode := 33188 \<rparr>)
                 (filter (\<lambda>(p, _). path_parent p = Some dir) (ms_data s))
      in Inr (sort_key de_name (ds @ fs)))"

definition insert_dir :: "path \<Rightarrow> path list \<Rightarrow> path list" where
  "insert_dir p ds = (if p \<in> set ds then ds else ds @ [p])"

definition mem_create_dir :: "path \<Rightarrow> mem_store \<Rightarrow> (storage_error, unit) result \<times> mem_store" where
  "mem_create_dir p s =
     (if p \<in> set (ms_dirs s) then (Inl (StAlreadyExists (path_text p)), s)
      else
        (case path_parent p of
           Some parent \<Rightarrow>
             if parent \<noteq> [RootDir] \<and>
                \<not> (parent \<in> set (ms_dirs s) \<or> list_ex (\<lambda>(k, _). path_starts_with k parent \<and> k \<noteq> parent) (ms_data s))
             then (Inl (not_found_path parent), s)
             else (Inr (), s \<lparr> ms_dirs := insert_dir p (ms_dirs s) \<rparr>)
         | None \<Rightarrow> (Inr (), s \<lparr> ms_dirs := insert_dir p (ms_dirs s) \<rparr>)))"

definition mem_create_dir_all :: "path \<Rightarrow> mem_store \<Rightarrow> (storage_error, unit) result \<times> mem_store" where
  "mem_create_dir_all p s = (Inr (), s \<lparr> ms_dirs := fold (\<lambda>n. insert_dir (take (Suc n) p)) [0..<length p] (ms_dirs s) \<rparr>)"

definition mem_remove_dir :: "path \<Rightarrow> mem_store \<Rightarrow> (storage_error, unit) result \<times> mem_store" where
  "mem_remove_dir p s =
     (if p \<notin> set (ms_dirs s) then (Inl (not_found_path p), s)
      else if list_ex (\<lambda>(k, _). path_starts_with k p) (ms_data s) \<or> list_ex (\<lambda>k. path_starts_with k p \<and> k \<noteq> p) (ms_dirs s)
      then (Inl (StDirectoryNotEmpty (path_text p)), s)
      else (Inr (), s \<lparr> ms_dirs := removeAll p (ms_dirs s) \<rparr>))"

definition mem_remove_dir_all :: "path \<Rightarrow> mem_store \<Rightarrow> (storage_error, unit) result \<times> mem_store" where
  "mem_remove_dir_all p s =
     (Inr (), \<lparr> ms_data = entries_retain (\<lambda>k _. \<not> path_starts_with k p) (ms_data s),
               ms_dirs = removeAll p (filter (\<lambda>k. \<not> path_starts_with k p \<and> k \<noteq> p) (ms_dirs s)) \<rparr>)"

definition mem_rename :: "path \<Rightarrow> path \<Rightarrow> mem_store \<Rightarrow> (storage_error, unit) result \<times> mem_store" where
  "mem_rename p q s =
     (case map_of (ms_data s) p of
        Some c \<Rightarrow> (Inr (), s \<lparr> ms_data := entries_insert q c (entries_remove p (ms_data s)) \<rparr>)
      | None \<Rightarrow>
          if p \<in> set (ms_dirs s) then (Inr (), s \<lparr> ms_dirs := insert_dir q (removeAll p (ms_dirs s)) \<rparr>)
          else (Inl (not_found_path p), s))"

definition mem_copy :: "path \<Rightarrow> path \<Rightarrow> mem_store \<Rightarrow> (storage_error, unit) result \<times> mem_store" where
  "mem_copy p q s =
     (case map_of (ms_data s) p of
        None \<Rightarrow> (Inl (not_found_path p), s)
      | Some c \<Rightarrow> (Inr (), s \<lparr> ms_data := entries_insert q c (ms_data s) \<rparr>))"

definition mem_canonicalize :: "mem_store \<Rightarrow> path \<Rightarrow> (storage_error, path) result" where
  "mem_canonicalize s p = Inr p"

definition mem_size :: "mem_store \<Rightarrow> path \<Rightarrow> (storage_error, nat) result" where
  "mem_size s p = ok_or (map_option length (map_of (ms_data s) p)) (not_found_path p)"

section \<open>The trait\<close>

text \<open>\<open>dyn Storage\<close>: the operations on a state \<open>'s\<close>. \<open>open\<close> is \<open>seek_read\<close> at 0.\<close>

record 's storage =
  st_exists :: "'s \<Rightarrow> path \<Rightarrow> bool"
  st_is_file :: "'s \<Rightarrow> path \<Rightarrow> bool"
  st_is_dir :: "'s \<Rightarrow> path \<Rightarrow> bool"
  st_read :: "'s \<Rightarrow> path \<Rightarrow> (storage_error, string) result"
  st_seek_read :: "'s \<Rightarrow> path \<Rightarrow> nat \<Rightarrow> (storage_error, string) result"
  st_metadata :: "'s \<Rightarrow> path \<Rightarrow> (storage_error, file_metadata) result"
  st_list :: "'s \<Rightarrow> path \<Rightarrow> (storage_error, dir_entry list) result"
  st_size :: "'s \<Rightarrow> path \<Rightarrow> (storage_error, nat) result"
  st_canonicalize :: "'s \<Rightarrow> path \<Rightarrow> (storage_error, path) result"
  st_write :: "path \<Rightarrow> string \<Rightarrow> 's \<Rightarrow> (storage_error, unit) result \<times> 's"
  st_append :: "path \<Rightarrow> string \<Rightarrow> 's \<Rightarrow> (storage_error, unit) result \<times> 's"
  st_delete :: "path \<Rightarrow> 's \<Rightarrow> (storage_error, unit) result \<times> 's"
  st_create_dir :: "path \<Rightarrow> 's \<Rightarrow> (storage_error, unit) result \<times> 's"
  st_create_dir_all :: "path \<Rightarrow> 's \<Rightarrow> (storage_error, unit) result \<times> 's"
  st_remove_dir :: "path \<Rightarrow> 's \<Rightarrow> (storage_error, unit) result \<times> 's"
  st_remove_dir_all :: "path \<Rightarrow> 's \<Rightarrow> (storage_error, unit) result \<times> 's"
  st_rename :: "path \<Rightarrow> path \<Rightarrow> 's \<Rightarrow> (storage_error, unit) result \<times> 's"
  st_copy :: "path \<Rightarrow> path \<Rightarrow> 's \<Rightarrow> (storage_error, unit) result \<times> 's"
  st_root_path :: "path option"

definition memory_storage :: "mem_store storage" where
  "memory_storage = \<lparr> st_exists = mem_exists, st_is_file = mem_is_file, st_is_dir = mem_is_dir, st_read = mem_read,
     st_seek_read = mem_seek_read, st_metadata = mem_metadata, st_list = mem_list, st_size = mem_size,
     st_canonicalize = mem_canonicalize, st_write = mem_write, st_append = mem_append, st_delete = mem_delete,
     st_create_dir = mem_create_dir, st_create_dir_all = mem_create_dir_all, st_remove_dir = mem_remove_dir,
     st_remove_dir_all = mem_remove_dir_all, st_rename = mem_rename, st_copy = mem_copy, st_root_path = None \<rparr>"

section \<open>What a handler relies on\<close>

text \<open>The files of a store are a partial map from paths to contents; reading looks it up, the operations on files update
  it, and creating directories leaves it alone.\<close>

locale file_store =
  fixes st :: "'s storage" and file_at :: "'s \<Rightarrow> path \<Rightarrow> string option"
  assumes read_file: "st_read st s p = (case file_at s p of Some c \<Rightarrow> Inr c | None \<Rightarrow> Inl (not_found_path p))"
    and seek_read_file: "st_seek_read st s p n = (case file_at s p of Some c \<Rightarrow> Inr (drop n c) | None \<Rightarrow> Inl (not_found_path p))"
    and metadata_file: "file_at s p = Some c \<Longrightarrow> \<exists>m. st_metadata st s p = Inr m \<and> fm_is_file m \<and> fm_size m = length c"
    and metadata_no_file: "file_at s p = None \<Longrightarrow> st_metadata st s p = Inr m \<Longrightarrow> \<not> fm_is_file m"
    and exists_file: "file_at s p \<noteq> None \<Longrightarrow> st_exists st s p"
    and write_file: "st_write st p c s = (Inr (), s') \<Longrightarrow> file_at s' = (file_at s)(p \<mapsto> c)"
    and delete_file: "file_at s p \<noteq> None \<Longrightarrow> st_delete st p s = (Inr (), s') \<Longrightarrow> file_at s' = (file_at s)(p := None)"
    and rename_file: "file_at s p = Some c \<Longrightarrow> st_rename st p q s = (Inr (), s') \<Longrightarrow> file_at s' = ((file_at s)(p := None))(q \<mapsto> c)"
    and copy_file: "st_copy st p q s = (Inr (), s') \<Longrightarrow> \<exists>c. file_at s p = Some c \<and> file_at s' = (file_at s)(q \<mapsto> c)"
    and create_dirs_files: "st_create_dir_all st p s = (r, s') \<Longrightarrow> file_at s' = file_at s"
begin

lemma read_own_write: "st_write st p c s = (Inr (), s') \<Longrightarrow> st_read st s' q = (if q = p then Inr c else st_read st s q)"
  by (simp add: read_file write_file)

text \<open>Reading a file in consecutive pieces gives the file.\<close>

fun read_pieces :: "'s \<Rightarrow> path \<Rightarrow> nat \<Rightarrow> nat list \<Rightarrow> string" where
  "read_pieces s p n [] = []"
| "read_pieces s p n (k # ks) = (case st_seek_read st s p n of Inr c \<Rightarrow> take k c | Inl _ \<Rightarrow> []) @ read_pieces s p (n + k) ks"

lemma read_pieces_file: "file_at s p = Some c \<Longrightarrow> read_pieces s p n ks = take (sum_list ks) (drop n c)"
  by (induction s p n ks rule: read_pieces.induct) (simp_all add: seek_read_file take_add add.commute)

end

definition mem_file_at :: "mem_store \<Rightarrow> path \<Rightarrow> string option" where
  "mem_file_at s p = map_of (ms_data s) p"

interpretation memory: file_store memory_storage mem_file_at
proof unfold_locales
  fix s :: mem_store and p q :: path and n :: nat and c :: string and s' r m
  show "st_read memory_storage s p = (case mem_file_at s p of Some c \<Rightarrow> Inr c | None \<Rightarrow> Inl (not_found_path p))"
    by (simp add: memory_storage_def mem_read_def mem_file_at_def ok_or_def split: option.splits)
  show "st_seek_read memory_storage s p n = (case mem_file_at s p of Some c \<Rightarrow> Inr (drop n c) | None \<Rightarrow> Inl (not_found_path p))"
    by (simp add: memory_storage_def mem_seek_read_def mem_read_def mem_file_at_def ok_or_def split: option.splits)
  show "mem_file_at s p = Some c \<Longrightarrow> \<exists>m. st_metadata memory_storage s p = Inr m \<and> fm_is_file m \<and> fm_size m = length c"
    by (simp add: memory_storage_def mem_metadata_def mem_file_at_def file_metadata_new_def)
  show "mem_file_at s p = None \<Longrightarrow> st_metadata memory_storage s p = Inr m \<Longrightarrow> \<not> fm_is_file m"
    by (auto simp: memory_storage_def mem_metadata_def mem_file_at_def file_metadata_new_def split: if_splits)
  show "mem_file_at s p \<noteq> None \<Longrightarrow> st_exists memory_storage s p"
    by (simp add: memory_storage_def mem_exists_def mem_file_at_def)
  show "st_write memory_storage p c s = (Inr (), s') \<Longrightarrow> mem_file_at s' = (mem_file_at s)(p \<mapsto> c)"
    by (auto simp: memory_storage_def mem_write_def mem_file_at_def)
  show "mem_file_at s p \<noteq> None \<Longrightarrow> st_delete memory_storage p s = (Inr (), s') \<Longrightarrow> mem_file_at s' = (mem_file_at s)(p := None)"
    by (auto simp: memory_storage_def mem_delete_def mem_file_at_def)
  show "mem_file_at s p = Some c \<Longrightarrow> st_rename memory_storage p q s = (Inr (), s') \<Longrightarrow> mem_file_at s' = ((mem_file_at s)(p := None))(q \<mapsto> c)"
    by (auto simp: memory_storage_def mem_rename_def mem_file_at_def)
  show "st_copy memory_storage p q s = (Inr (), s') \<Longrightarrow> \<exists>c. mem_file_at s p = Some c \<and> mem_file_at s' = (mem_file_at s)(q \<mapsto> c)"
    by (auto simp: memory_storage_def mem_copy_def mem_file_at_def split: option.splits)
  show "st_create_dir_all memory_storage p s = (r, s') \<Longrightarrow> mem_file_at s' = mem_file_at s"
    by (auto simp: memory_storage_def mem_create_dir_all_def mem_file_at_def)
qed

section \<open>The abstract file system\<close>

text \<open>The operations that change a store, on a partial map of files and a set of directories.\<close>

datatype store_op =
    OpWrite path string | OpAppend path string | OpDelete path | OpRename path path | OpCopy path path
  | OpCreateDir path | OpCreateDirAll path | OpRemoveDir path | OpRemoveDirAll path

type_synonym file_system = "(path \<Rightarrow> string option) \<times> path set"

definition outside :: "path \<Rightarrow> path set" where
  "outside p = {k. \<not> prefix p k}"

fun fs_op :: "store_op \<Rightarrow> file_system \<Rightarrow> (storage_error, unit) result \<times> file_system" where
  "fs_op (OpWrite p c) (f, d) = (Inr (), (f(p \<mapsto> c), d))"
| "fs_op (OpAppend p c) (f, d) = (Inr (), (f(p \<mapsto> unwrap_or (f p) [] @ c), d))"
| "fs_op (OpDelete p) (f, d) =
     (if f p \<noteq> None then (Inr (), (f(p := None), d))
      else if p \<in> d then (Inr (), (f |` outside p, d \<inter> outside p)) else (Inl (not_found_path p), (f, d)))"
| "fs_op (OpRename p q) (f, d) =
     (case f p of
        Some c \<Rightarrow> (Inr (), (f(p := None, q \<mapsto> c), d))
      | None \<Rightarrow> if p \<in> d then (Inr (), (f, insert q (d - {p}))) else (Inl (not_found_path p), (f, d)))"
| "fs_op (OpCopy p q) (f, d) =
     (case f p of Some c \<Rightarrow> (Inr (), (f(q \<mapsto> c), d)) | None \<Rightarrow> (Inl (not_found_path p), (f, d)))"
| "fs_op (OpCreateDir p) (f, d) =
     (if p \<in> d then (Inl (StAlreadyExists (path_text p)), (f, d))
      else (case path_parent p of
              Some par \<Rightarrow> if par = [RootDir] \<or> par \<in> d \<or> (\<exists>k \<in> dom f. strict_prefix par k) then (Inr (), (f, insert p d))
                          else (Inl (not_found_path par), (f, d))
            | None \<Rightarrow> (Inr (), (f, insert p d))))"
| "fs_op (OpCreateDirAll p) (f, d) = (Inr (), (f, d \<union> {k. k \<noteq> [] \<and> prefix k p}))"
| "fs_op (OpRemoveDir p) (f, d) =
     (if p \<notin> d then (Inl (not_found_path p), (f, d))
      else if (\<exists>k \<in> dom f. prefix p k) \<or> (\<exists>k \<in> d. strict_prefix p k) then (Inl (StDirectoryNotEmpty (path_text p)), (f, d))
      else (Inr (), (f, d - {p})))"
| "fs_op (OpRemoveDirAll p) (f, d) = (Inr (), (f |` outside p, d \<inter> outside p))"

fun mem_op :: "store_op \<Rightarrow> mem_store \<Rightarrow> (storage_error, unit) result \<times> mem_store" where
  "mem_op (OpWrite p c) s = mem_write p c s"
| "mem_op (OpAppend p c) s = mem_append p c s"
| "mem_op (OpDelete p) s = mem_delete p s"
| "mem_op (OpRename p q) s = mem_rename p q s"
| "mem_op (OpCopy p q) s = mem_copy p q s"
| "mem_op (OpCreateDir p) s = mem_create_dir p s"
| "mem_op (OpCreateDirAll p) s = mem_create_dir_all p s"
| "mem_op (OpRemoveDir p) s = mem_remove_dir p s"
| "mem_op (OpRemoveDirAll p) s = mem_remove_dir_all p s"

fun run_ops :: "('o \<Rightarrow> 's \<Rightarrow> 'r \<times> 's) \<Rightarrow> 'o list \<Rightarrow> 's \<Rightarrow> 'r list \<times> 's" where
  "run_ops step [] s = ([], s)"
| "run_ops step (x # xs) s = (case step x s of (r, s1) \<Rightarrow> case run_ops step xs s1 of (rs, s2) \<Rightarrow> (r # rs, s2))"

definition abs_store :: "mem_store \<Rightarrow> file_system" where
  "abs_store s = (map_of (ms_data s), set (ms_dirs s))"

definition store_wf :: "mem_store \<Rightarrow> bool" where
  "store_wf s \<longleftrightarrow> wf_entries (ms_data s) \<and> distinct (ms_dirs s)"

lemma map_of_retain_outside: "wf_entries m \<Longrightarrow> map_of (entries_retain (\<lambda>k _. \<not> prefix p k) m) = map_of m |` outside p"
  by (rule ext) (simp add: map_of_entries_retain outside_def restrict_map_def split: option.splits)

lemma ex_key_dom: "wf_entries m \<Longrightarrow> list_ex (\<lambda>(k, _). P k) m \<longleftrightarrow> (\<exists>k \<in> dom (map_of m). P k)"
  by (force simp: list_ex_iff dom_map_of_conv_image_fst)

lemma set_fold_insert_dir: "set (fold (\<lambda>n. insert_dir (g n)) ns ds) = set ds \<union> g ` set ns"
  by (induction ns arbitrary: ds) (auto simp: insert_dir_def)

lemma distinct_fold_insert_dir: "distinct ds \<Longrightarrow> distinct (fold (\<lambda>n. insert_dir (g n)) ns ds)"
  by (induction ns arbitrary: ds) (auto simp: insert_dir_def)

lemma set_insert_dir: "set (insert_dir p ds) = insert p (set ds)"
  by (auto simp: insert_dir_def)

lemma distinct_insert_dir: "distinct ds \<Longrightarrow> distinct (insert_dir p ds)"
  by (simp add: insert_dir_def)

lemma prefixes_as_takes: "(\<lambda>n. take (Suc n) p) ` {0..<length p} = {k. k \<noteq> [] \<and> prefix k p}"
proof (intro set_eqI iffI)
  fix k assume "k \<in> {k. k \<noteq> [] \<and> prefix k p}"
  then obtain r where "p = k @ r" "k \<noteq> []" by (auto simp: prefix_def)
  then have "k = take (Suc (length k - 1)) p" "length k - 1 < length p" by (cases k; simp)+
  then show "k \<in> (\<lambda>n. take (Suc n) p) ` {0..<length p}" by (intro image_eqI [where x = "length k - 1"]) auto
qed (auto simp: take_is_prefix)

lemma store_wf_op: "store_wf s \<Longrightarrow> store_wf (snd (mem_op x s))"
  by (cases x) (auto simp: store_wf_def mem_write_def mem_append_def mem_delete_def mem_rename_def mem_copy_def mem_create_dir_def
      mem_create_dir_all_def mem_remove_dir_def mem_remove_dir_all_def distinct_insert_dir distinct_fold_insert_dir distinct_removeAll
      split: option.splits)

lemma mem_op_refines:
  assumes "store_wf s"
  shows "fs_op x (abs_store s) = (fst (mem_op x s), abs_store (snd (mem_op x s)))"
proof -
  note wf = assms [unfolded store_wf_def, THEN conjunct1]
  note simps = abs_store_def map_of_retain_outside [OF wf] ex_key_dom [OF wf] set_insert_dir
  show ?thesis
  proof (cases x)
    case (OpDelete p)
    then show ?thesis by (auto simp: simps mem_delete_def outside_def)
  next
    case (OpCreateDir p)
    then show ?thesis by (auto simp: simps mem_create_dir_def strict_prefix_def split: option.splits)
  next
    case (OpCreateDirAll p)
    then show ?thesis
      using prefixes_as_takes [of p] by (simp add: abs_store_def mem_create_dir_all_def set_fold_insert_dir)
  next
    case (OpRemoveDir p)
    have "list_ex (\<lambda>k. prefix p k \<and> k \<noteq> p) (ms_dirs s) \<longleftrightarrow> (\<exists>k \<in> set (ms_dirs s). strict_prefix p k)"
      by (auto simp: list_ex_iff strict_prefix_def)
    with OpRemoveDir show ?thesis by (simp add: simps mem_remove_dir_def)
  next
    case (OpRemoveDirAll p)
    then show ?thesis by (auto simp: simps mem_remove_dir_all_def outside_def)
  qed (auto simp: simps mem_write_def mem_append_def mem_rename_def mem_copy_def split: option.splits)
qed

text \<open>The in-memory store behaves as the abstract file system: any sequence of changes returns the same results and
  leaves the files and directories the abstract one has.\<close>

lemma memory_refines_file_system:
  assumes "store_wf s"
  shows "run_ops fs_op xs (abs_store s) = (fst (run_ops mem_op xs s), abs_store (snd (run_ops mem_op xs s)))"
  using assms
proof (induction xs arbitrary: s)
  case (Cons x xs)
  from mem_op_refines [OF Cons.prems] Cons.IH [OF store_wf_op [OF Cons.prems]] show ?case
    by (simp add: case_prod_unfold)
qed simp

section \<open>Listing a directory\<close>

lemma run_ops_wf: "store_wf s \<Longrightarrow> store_wf (snd (run_ops mem_op xs s))"
  by (induction xs arbitrary: s) (simp_all add: case_prod_unfold store_wf_op)

lemma store_wf_new: "store_wf mem_new"
  by (simp add: store_wf_def mem_new_def)

definition children :: "path \<Rightarrow> path set \<Rightarrow> path set" where
  "children dir ps = {p \<in> ps. path_parent p = Some dir}"

lemma length_filter_children: "distinct ps \<Longrightarrow> length (filter (\<lambda>p. path_parent p = Some dir) ps) = card (children dir (set ps))"
  by (simp add: children_def distinct_length_filter Int_def conj_commute)

lemma length_filter_children_files:
  assumes "wf_entries m"
  shows "length (filter (\<lambda>(p, _). path_parent p = Some dir) m) = card (children dir (dom (map_of m)))"
proof -
  have "length (filter (\<lambda>(p, _). path_parent p = Some dir) m) = length (filter (\<lambda>p. path_parent p = Some dir) (map fst m))"
    by (simp add: filter_map comp_def split_def)
  also have "\<dots> = card (children dir (set (map fst m)))"
    by (rule length_filter_children) (use assms in \<open>simp add: wf_entries_def\<close>)
  finally show ?thesis by (simp add: dom_map_of_conv_image_fst)
qed

text \<open>C37: after any sequence of changes to an in-memory store that was empty at first, listing a path succeeds and
  returns exactly the entries directly below it, ordered by name: one for each directory and one for each file
  with that parent and for nothing else, where the entry of a directory carries its name and the entry of a file
  its name and the length of the content that reading the file returns.\<close>

theorem memory_lists_children:
  assumes "s = snd (run_ops mem_op xs mem_new)"
  shows "\<exists>es. mem_list s dir = Inr es \<and> sorted (map de_name es)
    \<and> length es = card (children dir {p. mem_is_dir s p}) + card (children dir {p. mem_is_file s p})
    \<and> (\<forall>name. (\<exists>e \<in> set es. de_is_dir e \<and> de_name e = name) \<longleftrightarrow>
         (\<exists>p \<in> children dir {p. mem_is_dir s p}. name = unwrap_or (file_name p) []))
    \<and> (\<forall>name n. (\<exists>e \<in> set es. \<not> de_is_dir e \<and> de_name e = name \<and> de_size e = n) \<longleftrightarrow>
         (\<exists>p \<in> children dir {p. mem_is_file s p}. \<exists>c. mem_read s p = Inr c \<and> name = unwrap_or (file_name p) [] \<and> n = length c))"
proof -
  let ?ds = "filter (\<lambda>p. path_parent p = Some dir) (ms_dirs s)" and ?fs = "filter (\<lambda>(p, _). path_parent p = Some dir) (ms_data s)"
  let ?d = "\<lambda>p. (dir_entry_new (unwrap_or (file_name p) []) True 0) \<lparr> de_mode := 16877 \<rparr>"
  let ?f = "\<lambda>(p, c). (dir_entry_new (unwrap_or (file_name p) []) False (length c)) \<lparr> de_mode := 33188 \<rparr>"
  let ?es = "sort_key de_name (map ?d ?ds @ map ?f ?fs)"
  have wf: "wf_entries (ms_data s)" "distinct (ms_dirs s)"
    using run_ops_wf [OF store_wf_new, of xs] by (simp_all add: assms store_wf_def)
  have sets: "{p. mem_is_dir s p} = set (ms_dirs s)" "{p. mem_is_file s p} = dom (map_of (ms_data s))"
    by (auto simp: mem_is_dir_def mem_is_file_def)
  have rd: "mem_read s p = Inr c \<longleftrightarrow> map_of (ms_data s) p = Some c" for p c
    by (simp add: mem_read_def ok_or_def split: option.split)
  have files: "(p, c) \<in> set (ms_data s) \<longleftrightarrow> map_of (ms_data s) p = Some c" for p c
    using wf(1) by (simp add: wf_entries_def)
  have "mem_list s dir = Inr ?es" by (simp add: mem_list_def)
  moreover have "sorted (map de_name ?es)" by simp
  moreover have "length ?es = card (children dir {p. mem_is_dir s p}) + card (children dir {p. mem_is_file s p})"
    using length_filter_children [OF wf(2)] length_filter_children_files [OF wf(1)] by (simp add: sets)
  moreover have "(\<exists>e \<in> set ?es. de_is_dir e \<and> de_name e = name) \<longleftrightarrow>
      (\<exists>p \<in> children dir {p. mem_is_dir s p}. name = unwrap_or (file_name p) [])" for name
    by (auto simp: sets children_def dir_entry_new_def bex_Un)
  moreover have "(\<exists>e \<in> set ?es. \<not> de_is_dir e \<and> de_name e = name \<and> de_size e = n) \<longleftrightarrow>
      (\<exists>p \<in> children dir {p. mem_is_file s p}. \<exists>c. mem_read s p = Inr c \<and> name = unwrap_or (file_name p) [] \<and> n = length c)" for name n
    by (auto simp: sets children_def dir_entry_new_def rd files bex_Un)
  ultimately show ?thesis by blast
qed

theorem memory_lists_children_witness:
  "\<exists>es. mem_list \<lparr> ms_data = [(components ''a/b/c'', ''x''), (components ''a/f'', ''xyz'')], ms_dirs = [components ''a'', components ''a/b''] \<rparr> (components ''a'') = Inr es
     \<and> (\<exists>e \<in> set es. \<not> de_is_dir e \<and> de_name e = ''f'' \<and> de_size e = 3)"
proof -
  let ?s = "\<lparr> ms_data = [(components ''a/b/c'', ''x''), (components ''a/f'', ''xyz'')], ms_dirs = [components ''a'', components ''a/b''] \<rparr>"
  have s: "?s = snd (run_ops mem_op [OpCreateDirAll (components ''a/b''), OpWrite (components ''a/b/c'') ''x'', OpWrite (components ''a/f'') ''xyz'',
      OpRemoveDir (components ''a'')] mem_new)"
    by code_simp
  have p: "mem_read ?s (components ''a/f'') = Inr ''xyz''" "mem_is_file ?s (components ''a/f'')"
    "path_parent (components ''a/f'') = Some (components ''a'')" "unwrap_or (file_name (components ''a/f'')) [] = ''f''"
    by code_simp+
  then have "components ''a/f'' \<in> children (components ''a'') {p. mem_is_file ?s p}" by (simp add: children_def)
  with p have "\<exists>p \<in> children (components ''a'') {p. mem_is_file ?s p}. \<exists>c. mem_read ?s p = Inr c \<and> ''f'' = unwrap_or (file_name p) [] \<and> 3 = length c"
    by (intro bexI [of _ "components ''a/f''"] exI [of _ "''xyz''"]) simp_all
  with memory_lists_children [OF s, of "components ''a''"] show ?thesis by blast
qed

text \<open>Renaming a directory moves its entry only: the files below stay under the old name.\<close>

lemma rename_leaves_files:
  "p \<noteq> q \<Longrightarrow> map_of (ms_data s) p = None \<Longrightarrow> p \<in> set (ms_dirs s) \<Longrightarrow>
     (case mem_rename p q s of (r, s') \<Rightarrow> r = Inr () \<and> mem_is_dir s' q \<and> \<not> mem_is_dir s' p \<and> mem_file_at s' = mem_file_at s)"
  by (auto simp: mem_rename_def mem_is_dir_def mem_file_at_def set_insert_dir)

end
