(* ===== verification/Path_Helpers.thy ===== *)
theory Path_Helpers
  imports Paths App_Error Config_Types
begin

text \<open>
  File names and paths from requests (src/handlers/common/path.rs) and the small helpers of the file
  handlers (src/handlers/common/helpers.rs, src/config/types/endpoints/common.rs). Random UUIDs and the
  date are arguments, percent-decoding belongs to its crate.
\<close>

section \<open>File names\<close>

definition generate_upload_filename :: "string \<Rightarrow> string \<Rightarrow> string list \<Rightarrow> (app_error, string) result" where
  "generate_upload_filename uuid original_filename allowed_extensions =
     (let ext = lowercase (unwrap_or (extension (components original_filename)) []) in
      if ext \<noteq> [] \<and> allowed_extensions \<noteq> [] \<and> ext \<notin> set allowed_extensions
      then Inl (BadRequest (''File extension .'' @ ext @ '' is not allowed. Allowed: '' @ join '', '' allowed_extensions))
      else Inr (if ext = [] then uuid else uuid @ ''.'' @ ext))"

definition sanitize_filename :: "string \<Rightarrow> string \<Rightarrow> bool \<Rightarrow> (app_error, string) result" where
  "sanitize_filename uuid name is_upload =
     (if CHR ''/'' \<in> set name \<or> CHR 0x5C \<in> set name \<or> contains_str name ''..'' then Inl (BadRequest ''Invalid filename'')
      else
        (let sanitized = filter (\<lambda>c. \<not> is_ascii_control c \<and> c \<noteq> CHR 0x00) name in
         if sanitized = [] then Inl (BadRequest ''Filename cannot be empty'')
         else if is_upload then Inr (lowercase (uuid @ ''.'' @ sanitized)) else Inr (lowercase sanitized)))"

section \<open>Storage paths\<close>

text \<open>The values substituted into a subdirectory pattern.\<close>

record path_values =
  pv_year :: string
  pv_month :: string
  pv_day :: string
  pv_uuid :: string

definition expand_pattern :: "path_values \<Rightarrow> string \<Rightarrow> string \<Rightarrow> string" where
  "expand_pattern pv user_id pat =
     replace_str ''{uuid}'' (pv_uuid pv) (replace_str ''{day}'' (pv_day pv) (replace_str ''{month}'' (pv_month pv)
       (replace_str ''{year}'' (pv_year pv) (replace_str ''{user_id}'' user_id pat))))"

definition build_storage_path :: "path_values \<Rightarrow> path \<Rightarrow> string \<Rightarrow> string \<Rightarrow> string option \<Rightarrow> (app_error, path) result" where
  "build_storage_path pv root filename user_id subdirectory_pattern =
     (case (case subdirectory_pattern of
              Some pat \<Rightarrow>
                (let expanded = expand_pattern pv user_id pat in
                 if ''..'' \<in> set (split_on (CHR ''/'') expanded) then Inl (Forbidden ''Invalid subdirectory pattern'')
                 else Inr (path_join (path_join root (components expanded)) (components filename)))
            | None \<Rightarrow> Inr (path_join root (components filename))) of
        Inl e \<Rightarrow> Inl e
      | Inr p \<Rightarrow> if ParentDir \<in> set p then Inl (Forbidden ''Invalid path'') else Inr p)"

definition validate_path_within :: "path \<Rightarrow> path \<Rightarrow> (app_error, unit) result" where
  "validate_path_within p root =
     (if ParentDir \<in> set p \<or> path_strip_prefix root p = None then Inl (Forbidden ''Path traversal denied'') else Inr ())"

text \<open>\<open>decode\<close>: percent-decoding, \<open>None\<close> when the result is not UTF-8.\<close>

definition extract_relative_path :: "(string \<Rightarrow> string option) \<Rightarrow> string \<Rightarrow> string \<Rightarrow> (app_error, string) result" where
  "extract_relative_path decode request_path endpoint_path =
     (let ep_path = trim_end_str ''{*rest}'' (trim_end_str ''/*'' endpoint_path);
          stripped = trim_start_char (CHR ''/'') (unwrap_or (strip_prefix ep_path request_path) request_path)
      in if stripped = [] then Inr []
         else
           (case decode stripped of
              None \<Rightarrow> Inl (BadRequest ''Invalid UTF-8 in path'')
            | Some decoded \<Rightarrow>
                if list_ex (\<lambda>seg. seg = ''..'' \<or> seg = ''.'') (split_on (CHR ''/'') decoded)
                then Inl (Forbidden ''Path traversal denied'') else Inr stripped))"

section \<open>Helpers\<close>

definition extract_id :: "string \<Rightarrow> string option" where
  "extract_id p = Some (last (split_on (CHR ''/'') (trim_char (CHR ''/'') p)))"

definition is_image_extension :: "string \<Rightarrow> bool" where
  "is_image_extension ext \<longleftrightarrow> lowercase ext \<in> {''jpg'', ''jpeg'', ''png'', ''gif'', ''webp'', ''bmp'', ''svg'', ''ico''}"

text \<open>The contents are bytes, given as characters of the same code.\<close>

definition image_magic :: "string \<Rightarrow> bool" where
  "image_magic bytes \<longleftrightarrow>
     starts_with bytes [CHR 0x89, CHR ''P'', CHR ''N'', CHR ''G'', CHR 0x0D, CHR 0x0A, CHR 0x1A, CHR 0x0A]
   \<or> starts_with bytes [CHR 0xFF, CHR 0xD8, CHR 0xFF]
   \<or> starts_with bytes ''GIF87a'' \<or> starts_with bytes ''GIF89a'' \<or> starts_with bytes ''BM''
   \<or> (12 \<le> length bytes \<and> take 4 bytes = ''RIFF'' \<and> take 4 (drop 8 bytes) = ''WEBP'')
   \<or> (4 \<le> length bytes \<and> take 2 bytes = ''<?'')"

definition validate_image_magic_bytes :: "string \<Rightarrow> (app_error, unit) result" where
  "validate_image_magic_bytes bytes =
     (if image_magic bytes then Inr () else Inl (BadRequest ''File does not appear to be a valid image based on magic bytes''))"

definition mime_table :: "(string list \<times> string) list" where
  "mime_table =
     [([''html'', ''htm''], ''text/html; charset=utf-8''), ([''css''], ''text/css; charset=utf-8''),
      ([''js'', ''mjs''], ''application/javascript; charset=utf-8''), ([''json''], ''application/json; charset=utf-8''),
      ([''png''], ''image/png''), ([''jpg'', ''jpeg''], ''image/jpeg''), ([''gif''], ''image/gif''), ([''svg''], ''image/svg+xml''),
      ([''ico''], ''image/x-icon''), ([''woff''], ''font/woff''), ([''woff2''], ''font/woff2''), ([''ttf''], ''font/ttf''),
      ([''otf''], ''font/otf''), ([''pdf''], ''application/pdf''), ([''xml''], ''application/xml; charset=utf-8''),
      ([''txt'', ''text'', ''md''], ''text/plain; charset=utf-8''), ([''wasm''], ''application/wasm''), ([''webp''], ''image/webp''),
      ([''mp4''], ''video/mp4''), ([''webm''], ''video/webm''), ([''mp3''], ''audio/mpeg''), ([''ogg''], ''audio/ogg'')]"

definition mime_from_path :: "path \<Rightarrow> string" where
  "mime_from_path p =
     (case find (\<lambda>(exts, _). unwrap_or (extension p) [] \<in> set exts) mime_table of
        Some (_, mime) \<Rightarrow> mime | None \<Rightarrow> ''application/octet-stream'')"

definition html_escape :: "string \<Rightarrow> string" where
  "html_escape s = replace_str [dquote_char] ''&quot;'' (replace_str ''>'' ''&gt;'' (replace_str ''<'' ''&lt;'' (replace_str ''&'' ''&amp;'' s)))"

text \<open>A multipart form: its fields in order, or where parsing fails; a field's content comes in chunks.\<close>

record form_field =
  ff_name :: "string option"
  ff_file_name :: "string option"
  ff_chunks :: "(string, string list) result"

fun parse_fields :: "(string, form_field) result list \<Rightarrow> nat \<Rightarrow> bool \<Rightarrow> bool \<Rightarrow> string \<Rightarrow> string
    \<Rightarrow> (app_error, string \<times> string) result" where
  "parse_fields [] max_size validate_magic found content original =
     (if found then Inr (content, original) else Inl (BadRequest ''No file provided in multipart form''))"
| "parse_fields (Inl e # flds) max_size validate_magic found content original =
     Inl (BadRequest (''Failed to parse multipart form: '' @ e))"
| "parse_fields (Inr fld # flds) max_size validate_magic found content original =
     (if ff_name fld = None then Inl (BadRequest ''Form field missing name'')
      else
        (case ff_file_name fld of
           None \<Rightarrow> parse_fields flds max_size validate_magic found content original
         | Some filename \<Rightarrow>
             (case ff_chunks fld of
                Inl e \<Rightarrow> Inl (BadRequest (''Failed to read file content: '' @ e))
              | Inr chunks \<Rightarrow>
                  (let bytes = concat chunks in
                   if max_size < length bytes
                   then Inl (PayloadTooLarge (''File size '' @ show_nat (length bytes) @ '' exceeds maximum allowed size '' @ show_nat max_size))
                   else if validate_magic \<and> is_image_extension (unwrap_or (extension (components filename)) []) \<and> \<not> image_magic bytes
                   then Inl (BadRequest ''File does not appear to be a valid image based on magic bytes'')
                   else parse_fields flds max_size validate_magic True bytes filename))))"

definition parse_multipart_file :: "(string, form_field) result list \<Rightarrow> nat \<Rightarrow> bool \<Rightarrow> (app_error, string \<times> string) result" where
  "parse_multipart_file flds max_size validate_magic = parse_fields flds max_size validate_magic False [] []"

definition extract_file_path :: "json option \<Rightarrow> string \<Rightarrow> (app_error, string) result" where
  "extract_file_path row i =
     ok_or (case row of None \<Rightarrow> None | Some r \<Rightarrow> (case json_get ''file_path'' r of None \<Rightarrow> None | Some v \<Rightarrow> as_str v))
       (NotFound (''Item with id '' @ [quote_char] @ i @ [quote_char] @ '' not found''))"

section \<open>Where files land\<close>

lemma build_storage_path_Inr:
  "build_storage_path pv root filename user_id pat = Inr p \<Longrightarrow>
     ParentDir \<notin> set p \<and>
     p = path_join (case pat of None \<Rightarrow> root | Some sub \<Rightarrow> path_join root (components (expand_pattern pv user_id sub))) (components filename)"
  by (auto simp: build_storage_path_def Let_def split: option.splits if_splits)

text \<open>An accepted storage path has no parent component and, for a relative file name, lies below the root whenever
  the subdirectory pattern does not expand to an absolute path; when it does (a pattern starting with the
  user identifier, and an identifier starting with a slash), the root is replaced altogether.\<close>

theorem storage_path_confined:
  assumes "build_storage_path pv root filename user_id pat = Inr p" "\<not> starts_with filename ''/''"
  shows "ParentDir \<notin> set p \<and>
    prefix (case pat of
              None \<Rightarrow> root
            | Some sub \<Rightarrow> (let x = expand_pattern pv user_id sub in if starts_with x ''/'' then components x else root)) p"
proof -
  note p = build_storage_path_Inr [OF assms(1)]
  have below: "prefix a (path_join a (components filename))" for a
    using assms(2) by (intro path_join_relative components_relative)
  show ?thesis
  proof (cases pat)
    case None
    with p below show ?thesis by auto
  next
    case (Some sub)
    let ?x = "expand_pattern pv user_id sub"
    have "prefix (if starts_with ?x ''/'' then components ?x else root) (path_join root (components ?x))"
    proof (cases "starts_with ?x ''/''")
      case True
      then show ?thesis by (simp add: components_def path_join_absolute)
    next
      case False
      then show ?thesis by (simp add: path_join_relative components_relative)
    qed
    with p below Some show ?thesis by (auto simp: Let_def intro: prefix_order.trans split: if_splits)
  qed
qed

definition sample_values :: path_values where
  "sample_values = \<lparr> pv_year = ''2026'', pv_month = ''01'', pv_day = ''02'', pv_uuid = ''u'' \<rparr>"

theorem storage_path_confined_witness:
  "ParentDir \<notin> set [RootDir, Normal ''etc'', Normal ''a.txt''] \<and>
    prefix (let x = expand_pattern sample_values ''/etc'' ''{user_id}'' in if starts_with x ''/'' then components x else components ''/srv/files'')
      [RootDir, Normal ''etc'', Normal ''a.txt'']"
proof -
  have "build_storage_path sample_values (components ''/srv/files'') ''a.txt'' ''/etc'' (Some ''{user_id}'') = Inr [RootDir, Normal ''etc'', Normal ''a.txt'']"
    by code_simp
  from storage_path_confined [OF this] show ?thesis by (simp add: starts_with_def)
qed

text \<open>The test for two dots comes before the control characters are removed.\<close>

lemma sanitize_filename_parent: "sanitize_filename uuid [CHR ''.'', CHR 0x09, CHR ''.''] False = Inr ''..''"
  by code_simp

text \<open>An accepted relative path is returned as it came, still percent-encoded.\<close>

lemma relative_path_encoded:
  "extract_relative_path decode request_path endpoint_path = Inr r \<Longrightarrow>
     r = trim_start_char (CHR ''/'') (unwrap_or (strip_prefix (trim_end_str ''{*rest}'' (trim_end_str ''/*'' endpoint_path)) request_path) request_path)"
  by (auto simp: extract_relative_path_def Let_def split: option.splits if_splits)

text \<open>A generated name has the random identifier in front and no separator unless one is in the extension of the original.\<close>

lemma generated_name_prefix: "generate_upload_filename uuid original allowed = Inr n \<Longrightarrow> prefix uuid n"
  by (auto simp: generate_upload_filename_def Let_def split: if_splits)

end
