(* ===== verification/Static_Serving.thy ===== *)
theory Static_Serving
  imports Storage Path_Helpers Auth_Types "HOL-Library.Product_Lexorder"
begin

text \<open>
  Serving files from a store (src/handlers/static_files/serving.rs, directory.rs, routing.rs), with the
  response headers (src/handlers/common/utils.rs) and image resizing (src/handlers/common/resize.rs).
  A body is the list of bytes sent. \<open>checked\<close> says whether the binary checks arithmetic overflow (a
  debug build) or wraps (a release build); a panic is the value \<open>None\<close>.
\<close>

section \<open>Response headers\<close>

record file_response =
  fr_status :: nat
  fr_headers :: "(string, string) entries"
  fr_body :: string

abbreviation ok_bytes :: "nat \<Rightarrow> string \<Rightarrow> file_response" where
  "ok_bytes status bytes \<equiv> \<lparr> fr_status = status, fr_headers = [], fr_body = bytes \<rparr>"

text \<open>\<open>StatusCode::from_u16\<close>.\<close>

definition status_code :: "nat \<Rightarrow> nat option" where
  "status_code n = (if 100 \<le> n \<and> n < 1000 then Some n else None)"

definition set_header :: "string \<Rightarrow> string \<Rightarrow> file_response \<Rightarrow> file_response" where
  "set_header name v r = r \<lparr> fr_headers := entries_insert name v (fr_headers r) \<rparr>"

definition apply_content_type :: "(string \<Rightarrow> bool) \<Rightarrow> string \<Rightarrow> file_response \<Rightarrow> file_response" where
  "apply_content_type header_ok v = set_header ''content-type'' (if header_ok v then v else ''application/octet-stream'')"

definition apply_content_range :: "(string \<Rightarrow> bool) \<Rightarrow> string \<Rightarrow> file_response \<Rightarrow> file_response" where
  "apply_content_range header_ok v = set_header ''content-range'' (if header_ok v then v else ''bytes */0'')"

definition apply_content_length :: "(string \<Rightarrow> bool) \<Rightarrow> string \<Rightarrow> file_response \<Rightarrow> file_response" where
  "apply_content_length header_ok v = set_header ''content-length'' (if header_ok v then v else ''0'')"

definition public_max_age :: "nat \<Rightarrow> string" where
  "public_max_age n = ''public, max-age='' @ show_nat n"

fun get_cache_control :: "path \<Rightarrow> nat \<Rightarrow> cache_rule_config list \<Rightarrow> string" where
  "get_cache_control p default_max_age [] = public_max_age default_max_age"
| "get_cache_control p default_max_age (rule # rules) =
     (if list_ex (\<lambda>e. trim_start_char (CHR ''.'') e = unwrap_or (extension p) []) (crule_extensions rule)
      then crule_cache_control rule else get_cache_control p default_max_age rules)"

text \<open>\<open>DEFAULT_CACHE_MAX_AGE\<close> is 3600.\<close>

definition apply_cache_control :: "(string \<Rightarrow> bool) \<Rightarrow> nat \<Rightarrow> path option \<Rightarrow> cache_rule_config list \<Rightarrow> file_response \<Rightarrow> file_response" where
  "apply_cache_control header_ok cache_max_age p rules =
     (let v = (case p of
                 Some p \<Rightarrow> if rules = [] then public_max_age cache_max_age else get_cache_control p cache_max_age rules
               | None \<Rightarrow> public_max_age cache_max_age)
      in set_header ''cache-control''
           (if header_ok v then v else if header_ok (public_max_age 3600) then public_max_age 3600 else ''public''))"

section \<open>Ranges\<close>

definition u64_modulus :: nat where
  "u64_modulus = 18446744073709551616"

definition sub_u64 :: "bool \<Rightarrow> nat \<Rightarrow> nat \<Rightarrow> nat option" where
  "sub_u64 checked a b = (if b \<le> a then Some (a - b) else if checked then None else Some (a + u64_modulus - b))"

definition add_u64 :: "bool \<Rightarrow> nat \<Rightarrow> nat \<Rightarrow> nat option" where
  "add_u64 checked a b = (if a + b < u64_modulus then Some (a + b) else if checked then None else Some (a + b - u64_modulus))"

text \<open>Slicing a vector panics unless the bounds are in order and within it.\<close>

definition slice_bytes :: "nat \<Rightarrow> nat \<Rightarrow> string \<Rightarrow> string option" where
  "slice_bytes a b xs = (if a \<le> b \<and> b \<le> length xs then Some (take (b - a) (drop a xs)) else None)"

definition range_error :: "nat \<Rightarrow> nat \<Rightarrow> nat \<Rightarrow> app_error" where
  "range_error start end_pos file_size =
     RequestedRangeNotSatisfiable
       (''Range bytes='' @ show_nat start @ ''-'' @ show_nat end_pos @ '' is not satisfiable for file size '' @ show_nat file_size)
       (Some (''bytes */'' @ show_nat file_size))"

definition content_range :: "nat \<Rightarrow> nat \<Rightarrow> nat \<Rightarrow> string" where
  "content_range start end_pos file_size = ''bytes '' @ show_nat start @ ''-'' @ show_nat end_pos @ ''/'' @ show_nat file_size"

text \<open>The two numbers of the header; the outer option is the panic of \<open>file_size - 1\<close> on an empty file.\<close>

definition small_range_bounds :: "bool \<Rightarrow> nat \<Rightarrow> string \<Rightarrow> (app_error, nat \<times> nat) result option" where
  "small_range_bounds checked file_size range_str =
     (case strip_prefix ''bytes='' range_str of
        None \<Rightarrow> Some (Inl (BadRequest ''Invalid Range header format''))
      | Some bytes_range \<Rightarrow>
          (case split_once (CHR ''-'') bytes_range of
             None \<Rightarrow> Some (Inl (BadRequest ''Invalid Range header format''))
           | Some (s, e) \<Rightarrow>
               (case parse_u64 s of
                  None \<Rightarrow> Some (Inl (BadRequest ''Invalid Range header: invalid start''))
                | Some start \<Rightarrow>
                    if e = [] then map_option (\<lambda>last_pos. Inr (start, last_pos)) (sub_u64 checked file_size 1)
                    else (case parse_u64 e of
                            None \<Rightarrow> Some (Inl (BadRequest ''Invalid Range header: invalid end''))
                          | Some end_pos \<Rightarrow> Some (Inr (start, end_pos))))))"

definition small_range_response :: "bool \<Rightarrow> (string \<Rightarrow> bool) \<Rightarrow> string \<Rightarrow> nat \<Rightarrow> nat \<Rightarrow> nat \<Rightarrow> string \<Rightarrow> nat \<Rightarrow> path \<Rightarrow> cache_rule_config list
    \<Rightarrow> (app_error, file_response) result option" where
  "small_range_response checked header_ok bytes file_size start end_pos content_type cache_max_age p rules =
     (if file_size \<le> start then Some (Inl (range_error start end_pos file_size))
      else
        (let actual_end = min end_pos (file_size - 1) in
         case (case sub_u64 checked actual_end start of None \<Rightarrow> None | Some d \<Rightarrow> add_u64 checked d 1) of
           None \<Rightarrow> None
         | Some range_size \<Rightarrow>
             (case slice_bytes start (actual_end + 1) bytes of
                None \<Rightarrow> None
              | Some body \<Rightarrow>
                  Some (Inr (apply_cache_control header_ok cache_max_age (Some p) rules
                    (apply_content_range header_ok (content_range start actual_end file_size)
                      (apply_content_length header_ok (show_nat range_size)
                        (apply_content_type header_ok content_type (ok_bytes 206 body)))))))))"

definition handle_range_small_file :: "bool \<Rightarrow> (string \<Rightarrow> bool) \<Rightarrow> string \<Rightarrow> nat \<Rightarrow> string \<Rightarrow> string \<Rightarrow> nat \<Rightarrow> path \<Rightarrow> cache_rule_config list
    \<Rightarrow> (app_error, file_response) result option" where
  "handle_range_small_file checked header_ok bytes file_size range_str content_type cache_max_age p rules =
     (case small_range_bounds checked file_size range_str of
        None \<Rightarrow> None
      | Some (Inl e) \<Rightarrow> Some (Inl e)
      | Some (Inr (start, end_pos)) \<Rightarrow>
          small_range_response checked header_ok bytes file_size start end_pos content_type cache_max_age p rules)"

definition stream_range_bounds :: "nat \<Rightarrow> string \<Rightarrow> (app_error, nat \<times> nat) result" where
  "stream_range_bounds file_size range_str =
     (case strip_prefix ''bytes='' range_str of
        None \<Rightarrow> Inl (BadRequest ''Invalid Range header'')
      | Some range_value \<Rightarrow>
          (case split_once (CHR ''-'') range_value of
             None \<Rightarrow> Inl (BadRequest ''Invalid Range format'')
           | Some (s, e) \<Rightarrow>
               (case parse_u64 s of
                  None \<Rightarrow> Inl (BadRequest ''Invalid Range start'')
                | Some start \<Rightarrow>
                    Inr (start, min (unwrap_or (if e = [] then Some (file_size - 1) else parse_u64 e) (file_size - 1)) (file_size - 1)))))"

definition handle_range_streaming :: "(string \<Rightarrow> bool) \<Rightarrow> 's storage \<Rightarrow> 's \<Rightarrow> path \<Rightarrow> string \<Rightarrow> nat \<Rightarrow> string \<Rightarrow> static_files_config
    \<Rightarrow> (app_error, file_response) result" where
  "handle_range_streaming header_ok st s p range_str file_size content_type config =
     (case stream_range_bounds file_size range_str of
        Inl e \<Rightarrow> Inl e
      | Inr (start, end_pos) \<Rightarrow>
          if file_size \<le> start \<or> end_pos < start then Inl (range_error start end_pos file_size)
          else
            (let content_length = end_pos + 1 - start in
             case st_seek_read st s p start of
               Inl _ \<Rightarrow> Inl (NotFound (''File not found: '' @ path_text p))
             | Inr bytes \<Rightarrow>
                 Inr (apply_cache_control header_ok (stat_cache_max_age config) (Some p) (stat_cache_rules config)
                   (set_header ''accept-ranges'' ''bytes''
                     (apply_content_length header_ok (show_nat content_length)
                       (apply_content_range header_ok (content_range start end_pos file_size)
                         (apply_content_type header_ok content_type (ok_bytes 206 (take content_length bytes)))))))))"

definition handle_streaming :: "(string \<Rightarrow> bool) \<Rightarrow> 's storage \<Rightarrow> 's \<Rightarrow> path \<Rightarrow> string \<Rightarrow> nat \<Rightarrow> nat \<Rightarrow> cache_rule_config list
    \<Rightarrow> (app_error, file_response) result" where
  "handle_streaming header_ok st s p content_type cache_max_age file_size rules =
     (case st_seek_read st s p 0 of
        Inl _ \<Rightarrow> Inl (NotFound (''File not found: '' @ path_text p))
      | Inr bytes \<Rightarrow>
          Inr (apply_cache_control header_ok cache_max_age (Some p) rules
            (apply_content_type header_ok content_type (apply_content_length header_ok (show_nat file_size) (ok_bytes 200 bytes)))))"

section \<open>The two range handlers\<close>

lemma headers_set [simp]:
  "map_of (fr_headers (set_header name v r)) = (map_of (fr_headers r))(name \<mapsto> v)"
  "fr_status (set_header name v r) = fr_status r" "fr_body (set_header name v r) = fr_body r"
  by (simp_all add: set_header_def)

lemmas header_ops = apply_content_type_def apply_content_range_def apply_content_length_def apply_cache_control_def Let_def

lemma status_body_ops [simp]:
  "fr_status (apply_content_type ok v r) = fr_status r" "fr_body (apply_content_type ok v r) = fr_body r"
  "fr_status (apply_content_range ok v r) = fr_status r" "fr_body (apply_content_range ok v r) = fr_body r"
  "fr_status (apply_content_length ok v r) = fr_status r" "fr_body (apply_content_length ok v r) = fr_body r"
  "fr_status (apply_cache_control ok age q rules r) = fr_status r" "fr_body (apply_cache_control ok age q rules r) = fr_body r"
  by (simp_all add: header_ops)

lemma set_headers_commute:
  "n1 \<noteq> n2 \<Longrightarrow> h \<noteq> a \<Longrightarrow>
     map_of (fr_headers (set_header n3 v3 (set_header a v (set_header n1 v1 (set_header n2 v2 r))))) h
       = map_of (fr_headers (set_header n3 v3 (set_header n2 v2 (set_header n1 v1 r)))) h"
  by auto

lemma range_headers_agree:
  "h \<noteq> ''accept-ranges'' \<Longrightarrow>
     map_of (fr_headers (apply_cache_control ok age q rules (set_header ''accept-ranges'' v (apply_content_length ok l (apply_content_range ok c r))))) h
       = map_of (fr_headers (apply_cache_control ok age q rules (apply_content_range ok c (apply_content_length ok l r)))) h"
  unfolding header_ops by (rule set_headers_commute) simp_all

lemma split_range:
  assumes "CHR ''-'' \<notin> set t"
  shows "strip_prefix ''bytes='' (''bytes='' @ t @ ''-'' @ e) = Some (t @ ''-'' @ e)" "split_once (CHR ''-'') (t @ ''-'' @ e) = Some (t, e)"
  using assms by (simp_all add: split_once_Some del: strip_prefix.simps)

lemma small_bounds:
  assumes "CHR ''-'' \<notin> set t" "parse_u64 t = Some a" "e = [] \<and> 0 < n \<and> b = n - 1 \<or> e \<noteq> [] \<and> parse_u64 e = Some b"
  shows "small_range_bounds checked n (''bytes='' @ t @ ''-'' @ e) = Some (Inr (a, b))"
  using assms(2,3) unfolding small_range_bounds_def split_range [OF assms(1)] option.case prod.case
  by (auto simp: sub_u64_def)

lemma stream_bounds:
  assumes "CHR ''-'' \<notin> set t" "parse_u64 t = Some a" "e = [] \<and> 0 < n \<and> b = n - 1 \<or> e \<noteq> [] \<and> parse_u64 e = Some b"
  shows "stream_range_bounds n (''bytes='' @ t @ ''-'' @ e) = Inr (a, min b (n - 1))"
  using assms(2,3) unfolding stream_range_bounds_def split_range [OF assms(1)] option.case prod.case
  by auto

lemma small_response_ok:
  assumes "a < length bytes" "a \<le> b" "length bytes < u64_modulus"
  shows "\<exists>r. small_range_response checked header_ok bytes (length bytes) a b ct age p rules = Some (Inr r)
    \<and> r = apply_cache_control header_ok age (Some p) rules
        (apply_content_range header_ok (content_range a (min b (length bytes - 1)) (length bytes))
          (apply_content_length header_ok (show_nat (min b (length bytes - 1) + 1 - a))
            (apply_content_type header_ok ct (ok_bytes 206 (take (min b (length bytes - 1) + 1 - a) (drop a bytes))))))"
proof -
  let ?e = "min b (length bytes - 1)"
  have e: "a \<le> ?e" "?e < length bytes" using assms(1,2) by auto
  then have "sub_u64 checked ?e a = Some (?e - a)" "add_u64 checked (?e - a) 1 = Some (?e + 1 - a)"
    "slice_bytes a (?e + 1) bytes = Some (take (?e + 1 - a) (drop a bytes))"
    using assms(3) by (auto simp: sub_u64_def add_u64_def slice_bytes_def Suc_diff_le)
  with assms(1) show ?thesis by (simp add: small_range_response_def Let_def)
qed

context file_store
begin

lemma stream_response_ok:
  assumes "file_at s p = Some bytes" "a < length bytes" "a \<le> b" "stream_range_bounds (length bytes) rs = Inr (a, min b (length bytes - 1))"
  shows "handle_range_streaming header_ok st s p rs (length bytes) ct config =
    Inr (apply_cache_control header_ok (stat_cache_max_age config) (Some p) (stat_cache_rules config)
      (set_header ''accept-ranges'' ''bytes''
        (apply_content_length header_ok (show_nat (min b (length bytes - 1) + 1 - a))
          (apply_content_range header_ok (content_range a (min b (length bytes - 1)) (length bytes))
            (apply_content_type header_ok ct (ok_bytes 206 (take (min b (length bytes - 1) + 1 - a) (drop a bytes))))))))"
proof -
  have "\<not> (length bytes \<le> a \<or> min b (length bytes - 1) < a)" using assms(2,3) by auto
  with assms(1,4) show ?thesis by (simp add: handle_range_streaming_def seek_read_file Let_def)
qed

end

text \<open>C40: for a range that starts in the file and is not backwards, the handler for small files and the streaming one send
  the same response: status 206 and exactly the bytes asked for, cut at the end of the file; only the
  streaming one adds \<open>Accept-Ranges\<close>.\<close>

theorem range_handlers_agree:
  assumes "mem_file_at s p = Some bytes" "a < length bytes" "a \<le> b" "length bytes < u64_modulus"
    and "CHR ''-'' \<notin> set t" "parse_u64 t = Some a" "e = [] \<and> b = length bytes - 1 \<or> e \<noteq> [] \<and> parse_u64 e = Some b"
  shows "\<exists>r r'. handle_range_small_file checked header_ok bytes (length bytes) (''bytes='' @ t @ ''-'' @ e) ct
        (stat_cache_max_age config) p (stat_cache_rules config) = Some (Inr r)
    \<and> handle_range_streaming header_ok memory_storage s p (''bytes='' @ t @ ''-'' @ e) (length bytes) ct config = Inr r'
    \<and> fr_status r = 206 \<and> fr_status r' = 206
    \<and> fr_body r = take (min b (length bytes - 1) + 1 - a) (drop a bytes) \<and> fr_body r' = fr_body r
    \<and> (\<forall>h. h \<noteq> ''accept-ranges'' \<longrightarrow> map_of (fr_headers r') h = map_of (fr_headers r) h)"
proof -
  have n: "e = [] \<and> 0 < length bytes \<and> b = length bytes - 1 \<or> e \<noteq> [] \<and> parse_u64 e = Some b" using assms(2,7) by auto
  let ?a = "stat_cache_max_age config" and ?rules = "stat_cache_rules config" and ?e = "min b (length bytes - 1)"
  let ?typed = "apply_content_type header_ok ct (ok_bytes 206 (take (?e + 1 - a) (drop a bytes)))"
  let ?r = "apply_cache_control header_ok ?a (Some p) ?rules (apply_content_range header_ok (content_range a ?e (length bytes))
      (apply_content_length header_ok (show_nat (?e + 1 - a)) ?typed))"
  let ?r' = "apply_cache_control header_ok ?a (Some p) ?rules (set_header ''accept-ranges'' ''bytes''
      (apply_content_length header_ok (show_nat (?e + 1 - a)) (apply_content_range header_ok (content_range a ?e (length bytes)) ?typed)))"
  have "handle_range_small_file checked header_ok bytes (length bytes) (''bytes='' @ t @ ''-'' @ e) ct ?a p ?rules = Some (Inr ?r)"
    using small_response_ok [OF assms(2-4), of checked header_ok ct ?a p ?rules]
    by (simp only: handle_range_small_file_def small_bounds [OF assms(5,6) n] option.case sum.case prod.case ex_simps simp_thms) blast
  moreover have "handle_range_streaming header_ok memory_storage s p (''bytes='' @ t @ ''-'' @ e) (length bytes) ct config = Inr ?r'"
    by (rule memory.stream_response_ok [OF assms(1-3) stream_bounds [OF assms(5,6) n]])
  moreover have "fr_status ?r = 206" "fr_status ?r' = 206" "fr_body ?r = take (?e + 1 - a) (drop a bytes)" "fr_body ?r' = fr_body ?r"
    by (simp_all only: status_body_ops headers_set(2,3) file_response.select_convs)
  moreover have "\<forall>h. h \<noteq> ''accept-ranges'' \<longrightarrow> map_of (fr_headers ?r') h = map_of (fr_headers ?r) h"
    by (intro allI impI) (rule range_headers_agree)
  ultimately show ?thesis by blast
qed

theorem range_handlers_agree_witness:
  "\<exists>r r'. handle_range_small_file True (\<lambda>_. True) ''hello'' (length ''hello'') (''bytes='' @ ''1'' @ ''-'' @ ''3'') ''text/plain''
        (stat_cache_max_age static_files_config_default) (components ''s/a.txt'') (stat_cache_rules static_files_config_default) = Some (Inr r)
    \<and> handle_range_streaming (\<lambda>_. True) memory_storage \<lparr> ms_data = [(components ''s/a.txt'', ''hello'')], ms_dirs = [] \<rparr> (components ''s/a.txt'')
        (''bytes='' @ ''1'' @ ''-'' @ ''3'') (length ''hello'') ''text/plain'' static_files_config_default = Inr r'
    \<and> fr_status r = 206 \<and> fr_status r' = 206
    \<and> fr_body r = take (min 3 (length ''hello'' - 1) + 1 - 1) (drop 1 ''hello'') \<and> fr_body r' = fr_body r
    \<and> (\<forall>h. h \<noteq> ''accept-ranges'' \<longrightarrow> map_of (fr_headers r') h = map_of (fr_headers r) h)"
proof (rule range_handlers_agree)
  show "parse_u64 ''1'' = Some 1" by code_simp
  have "parse_u64 ''3'' = Some 3" by code_simp
  then show "''3'' = [] \<and> 3 = length ''hello'' - 1 \<or> ''3'' \<noteq> [] \<and> parse_u64 ''3'' = Some 3" by simp
qed (simp_all add: mem_file_at_def u64_modulus_def)

text \<open>A backwards range on a small file panics instead of being refused, except that a release build answers with no
  bytes when the end is one before the start; the streaming handler refuses every such range with 416.\<close>

theorem backwards_range_panics:
  assumes "a < length bytes" "length bytes < u64_modulus" "CHR ''-'' \<notin> set t" "parse_u64 t = Some a" "e \<noteq> []" "parse_u64 e = Some b"
  shows "(handle_range_small_file checked header_ok bytes (length bytes) (''bytes='' @ t @ ''-'' @ e) ct age p rules = None
      \<longleftrightarrow> b < a \<and> (checked \<or> b + 1 < a))
    \<and> (b < a \<longrightarrow> (\<exists>m cr. handle_range_streaming header_ok st s p (''bytes='' @ t @ ''-'' @ e) (length bytes) ct config
          = Inl (RequestedRangeNotSatisfiable m cr)))"
proof
  have n: "e = [] \<and> 0 < length bytes \<and> b = length bytes - 1 \<or> e \<noteq> [] \<and> parse_u64 e = Some b" using assms(5,6) by simp
  have small: "handle_range_small_file checked header_ok bytes (length bytes) (''bytes='' @ t @ ''-'' @ e) ct age p rules
      = small_range_response checked header_ok bytes (length bytes) a b ct age p rules"
    by (simp only: handle_range_small_file_def small_bounds [OF assms(3,4) n] option.case sum.case prod.case)
  show "handle_range_small_file checked header_ok bytes (length bytes) (''bytes='' @ t @ ''-'' @ e) ct age p rules = None
      \<longleftrightarrow> b < a \<and> (checked \<or> b + 1 < a)"
  proof (cases "a \<le> b")
    case True
    from small_response_ok [OF assms(1) True assms(2)] small True show ?thesis by fastforce
  next
    case False
    then have "min b (length bytes - 1) = b" using assms(1) by simp
    moreover have "b + u64_modulus - a + 1 - u64_modulus = 0 \<or> b + 1 < a" using False assms(1,2) by (auto simp: u64_modulus_def)
    ultimately show ?thesis
      using False assms(1,2) small
      by (auto simp: small_range_response_def Let_def sub_u64_def add_u64_def slice_bytes_def u64_modulus_def split: option.splits)
  qed
  show "b < a \<longrightarrow> (\<exists>m cr. handle_range_streaming header_ok st s p (''bytes='' @ t @ ''-'' @ e) (length bytes) ct config
          = Inl (RequestedRangeNotSatisfiable m cr))"
    using stream_bounds [OF assms(3,4) n] by (auto simp: handle_range_streaming_def range_error_def)
qed

theorem backwards_range_panics_witness:
  "handle_range_small_file False (\<lambda>_. True) ''hello'' (length ''hello'') (''bytes='' @ ''4'' @ ''-'' @ ''2'') ''text/plain'' 60 [] [] = None
    \<and> (\<exists>m cr. handle_range_streaming (\<lambda>_. True) memory_storage mem_new [] (''bytes='' @ ''4'' @ ''-'' @ ''2'') (length ''hello'')
          ''text/plain'' static_files_config_default = Inl (RequestedRangeNotSatisfiable m cr))"
proof -
  have n: "parse_u64 ''4'' = Some 4" "parse_u64 ''2'' = Some 2" by code_simp+
  have len: "4 < length ''hello''" "length ''hello'' < u64_modulus" "CHR ''-'' \<notin> set ''4''" "''2'' \<noteq> []" by (simp_all add: u64_modulus_def)
  show ?thesis
    using backwards_range_panics [OF len(1-3) n(1) len(4) n(2), where checked = False and header_ok = "\<lambda>_. True" and ct = "''text/plain''"
        and age = 60 and p = "[]" and rules = "[]" and st = memory_storage and s = mem_new and config = static_files_config_default] by simp
qed

end
