(* ===== verification/Static_Files.thy ===== *)
theory Static_Files
  imports Static_Serving Auth_Handlers "HOL-Library.Char_ord" "HOL-Library.List_Lexorder"
begin

text \<open>
  The static file handlers (src/handlers/static_files/): serving a file, directory listings, deletion,
  uploads and the dispatch on the method. Image decoding and resizing (src/handlers/common/resize.rs,
  the image crate and binary64 arithmetic) is the argument \<open>image_lib\<close>; the names of users and groups,
  the formatting of times and sizes and percent-decoding are arguments too. All the stores of the
  program share one state \<open>'s\<close>.
\<close>

section \<open>Image resizing\<close>

record resize_params =
  rp_width :: "nat option"
  rp_height :: "nat option"
  rp_fit :: "string option"
  rp_format :: "string option"

record image_lib =
  im_from_extension :: "string \<Rightarrow> string option"
  im_guess_format :: "string \<Rightarrow> string option"
  im_resize :: "string \<Rightarrow> resize_params \<Rightarrow> string \<Rightarrow> nat \<Rightarrow> (app_error, string \<times> string) result"

definition parse_u32 :: "string \<Rightarrow> nat option" where
  "parse_u32 = parse_unsigned 4294967295"

definition parse_resize_params :: "image_lib \<Rightarrow> (string, string) entries \<Rightarrow> resize_params" where
  "parse_resize_params im query =
     \<lparr> rp_width = (case map_of query ''w'' of None \<Rightarrow> None | Some w \<Rightarrow> parse_u32 w),
       rp_height = (case map_of query ''h'' of None \<Rightarrow> None | Some h \<Rightarrow> parse_u32 h),
       rp_fit = map_of query ''fit'',
       rp_format = (case map_of query ''format'' of None \<Rightarrow> None | Some f \<Rightarrow> im_from_extension im f) \<rparr>"

definition no_resize_params :: resize_params where
  "no_resize_params = \<lparr> rp_width = None, rp_height = None, rp_fit = None, rp_format = None \<rparr>"

definition build_resize_response :: "(string \<Rightarrow> bool) \<Rightarrow> string \<Rightarrow> string \<Rightarrow> nat option \<Rightarrow> file_response" where
  "build_resize_response header_ok bytes content_type cache_max_age =
     (let r = apply_content_type header_ok content_type (ok_bytes 200 bytes)
      in case cache_max_age of None \<Rightarrow> r | Some age \<Rightarrow> apply_cache_control header_ok age None [] r)"

definition handle_image_resize :: "image_lib \<Rightarrow> (string \<Rightarrow> bool) \<Rightarrow> 's storage \<Rightarrow> 's \<Rightarrow> path \<Rightarrow> (string, string) entries option \<Rightarrow> image_resize_config
    \<Rightarrow> (app_error, file_response option) result" where
  "handle_image_resize im header_ok st s p query cfg =
     (let ps = (case query of None \<Rightarrow> no_resize_params | Some q \<Rightarrow> parse_resize_params im q) in
      if rp_width ps = None \<and> rp_height ps = None \<and> rp_format ps = None then Inr None
      else
        (case st_read st s p of
           Inl _ \<Rightarrow> Inl (NotFound (''File not found: '' @ path_text p))
         | Inr bytes \<Rightarrow>
             (case im_guess_format im bytes of
                None \<Rightarrow> Inl (BadRequest ''Invalid image format'')
              | Some format \<Rightarrow>
                  (case im_resize im bytes ps format (min (irs_max_dimension cfg) 4294967295) of
                     Inl e \<Rightarrow> Inl e
                   | Inr (resized, content_type) \<Rightarrow> Inr (Some (build_resize_response header_ok resized content_type None))))))"

section \<open>Serving a file\<close>

definition serve_resized :: "image_lib \<Rightarrow> (string \<Rightarrow> bool) \<Rightarrow> 's storage \<Rightarrow> 's \<Rightarrow> path \<Rightarrow> static_files_config \<Rightarrow> (string, string) entries option
    \<Rightarrow> (app_error, file_response option) result" where
  "serve_resized im header_ok st s p config query =
     (case stat_image_resize config of
        Some cfg \<Rightarrow>
          if irs_enabled cfg \<and> is_image_extension (unwrap_or (extension p) []) then handle_image_resize im header_ok st s p query cfg
          else Inr None
      | None \<Rightarrow> Inr None)"

definition serve_range_read :: "bool \<Rightarrow> (string \<Rightarrow> bool) \<Rightarrow> 's storage \<Rightarrow> 's \<Rightarrow> path \<Rightarrow> static_files_config \<Rightarrow> nat \<Rightarrow> string
    \<Rightarrow> (app_error, file_response) result option" where
  "serve_range_read checked header_ok st s p config file_size range_str =
     (case st_read st s p of
        Inl _ \<Rightarrow> Some (Inl (NotFound (''File not found: '' @ path_text p)))
      | Inr bytes \<Rightarrow>
          handle_range_small_file checked header_ok bytes file_size range_str (mime_from_path p) (stat_cache_max_age config) p (stat_cache_rules config))"

definition serve_range :: "bool \<Rightarrow> (string \<Rightarrow> bool) \<Rightarrow> 's storage \<Rightarrow> 's \<Rightarrow> path \<Rightarrow> static_files_config \<Rightarrow> nat \<Rightarrow> string
    \<Rightarrow> (app_error, file_response) result option" where
  "serve_range checked header_ok st s p config file_size range_str =
     (case stat_streaming config of
        Some c \<Rightarrow>
          if (if strm_enabled c then strm_threshold c else u64_modulus - 1) < file_size
          then Some (handle_range_streaming header_ok st s p range_str file_size (mime_from_path p) config)
          else serve_range_read checked header_ok st s p config file_size range_str
      | None \<Rightarrow> serve_range_read checked header_ok st s p config file_size range_str)"

definition serve_read :: "(string \<Rightarrow> bool) \<Rightarrow> 's storage \<Rightarrow> 's \<Rightarrow> path \<Rightarrow> static_files_config \<Rightarrow> (app_error, file_response) result" where
  "serve_read header_ok st s p config =
     (case st_read st s p of
        Inl _ \<Rightarrow> Inl (NotFound (''File not found: '' @ path_text p))
      | Inr bytes \<Rightarrow>
          Inr (apply_content_length header_ok (show_nat (length bytes))
            (apply_cache_control header_ok (stat_cache_max_age config) (Some p) (stat_cache_rules config)
              (apply_content_type header_ok (mime_from_path p) (ok_bytes 200 bytes)))))"

definition serve_whole :: "(string \<Rightarrow> bool) \<Rightarrow> 's storage \<Rightarrow> 's \<Rightarrow> path \<Rightarrow> static_files_config \<Rightarrow> nat \<Rightarrow> (app_error, file_response) result" where
  "serve_whole header_ok st s p config file_size =
     (case stat_streaming config of
        Some c \<Rightarrow>
          if strm_enabled c \<and> strm_threshold c < file_size
          then handle_streaming header_ok st s p (mime_from_path p) (stat_cache_max_age config) file_size (stat_cache_rules config)
          else serve_read header_ok st s p config
      | None \<Rightarrow> serve_read header_ok st s p config)"

definition serve_file :: "bool \<Rightarrow> image_lib \<Rightarrow> (string \<Rightarrow> bool) \<Rightarrow> 's storage \<Rightarrow> 's \<Rightarrow> path \<Rightarrow> static_files_config
    \<Rightarrow> (string, string) entries option \<Rightarrow> header_map \<Rightarrow> (app_error, file_response) result option" where
  "serve_file checked im header_ok st s p config query headers =
     (case st_metadata st s p of
        Inl _ \<Rightarrow> Some (Inl (NotFound (''File not found: '' @ path_text p)))
      | Inr meta \<Rightarrow>
          (case serve_resized im header_ok st s p config query of
             Inl e \<Rightarrow> Some (Inl e)
           | Inr (Some r) \<Rightarrow> Some (Inr r)
           | Inr None \<Rightarrow>
               (case (if stat_range_requests config then header_str ''range'' headers else None) of
                  Some range_str \<Rightarrow> serve_range checked header_ok st s p config (fm_size meta) range_str
                | None \<Rightarrow> Some (serve_whole header_ok st s p config (fm_size meta)))))"

section \<open>Directory listings\<close>

record listing_env =
  le_username :: "nat \<Rightarrow> string"
  le_group :: "nat \<Rightarrow> string"
  le_modified :: "int \<Rightarrow> string"
  le_size :: "nat \<Rightarrow> string"
  le_decode :: "string \<Rightarrow> string option"

definition permission_bits :: "nat \<Rightarrow> string" where
  "permission_bits bits =
     [if odd (bits div 4) then CHR ''r'' else CHR ''-'', if odd (bits div 2) then CHR ''w'' else CHR ''-'', if odd bits then CHR ''x'' else CHR ''-'']"

definition format_permissions :: "nat \<Rightarrow> bool \<Rightarrow> string" where
  "format_permissions mode is_dir =
     (if is_dir then CHR ''d'' else CHR ''-'')
       # permission_bits (mode div 64) @ permission_bits (mode div 8) @ permission_bits mode"

definition listing_order :: "dir_entry list \<Rightarrow> dir_entry list" where
  "listing_order = sort_key (\<lambda>e. (\<not> de_is_dir e, de_name e))"

abbreviation quoted :: "string \<Rightarrow> string" where
  "quoted s \<equiv> [dquote_char] @ s @ [dquote_char]"

definition listing_link :: "string \<Rightarrow> dir_entry \<Rightarrow> string" where
  "listing_link base e =
     (let n = html_escape (de_name e) in
      if de_is_dir e
      then ''<a class='' @ quoted ''dir'' @ '' href='' @ quoted (base @ n @ ''/'') @ ''>'' @ n @ ''/</a>''
      else ''<a href='' @ quoted (base @ n) @ ''>'' @ n @ ''</a>'')"

definition listing_row :: "listing_env \<Rightarrow> string \<Rightarrow> dir_entry \<Rightarrow> string" where
  "listing_row env base e =
     ''<tr><td class='' @ quoted ''perms'' @ ''>'' @ format_permissions (de_mode e) (de_is_dir e)
       @ ''</td><td>'' @ le_username env (de_uid e) @ ''</td><td>'' @ le_group env (de_gid e)
       @ ''</td><td class='' @ quoted ''size'' @ ''>'' @ (if de_is_dir e then ''-'' else le_size env (de_size e))
       @ ''</td><td>'' @ (case de_modified e of None \<Rightarrow> ''-'' | Some t \<Rightarrow> le_modified env t)
       @ ''</td><td>'' @ listing_link base e @ ''</td></tr>'' @ [CHR 0x0A]"

definition listing_style :: string where
  "listing_style =
     ''<style>body{font-family:sans-serif;padding:1em}a{text-decoration:none}a:hover{text-decoration:underline}''
       @ ''.dir{font-weight:bold}table{border-collapse:collapse;width:100%}''
       @ ''th,td{text-align:left;padding:0.3em 1em;border-bottom:1px solid #ddd}th{border-bottom:2px solid #999}''
       @ ''td.size,th.size{text-align:right}tr:hover{background:#f5f5f5}.perms{font-family:monospace}</style>''"

definition listing_html :: "listing_env \<Rightarrow> string \<Rightarrow> string \<Rightarrow> dir_entry list \<Rightarrow> string" where
  "listing_html env request_path path_display items =
     ''<!DOCTYPE html>'' @ [CHR 0x0A] @ ''<html><head><meta charset='' @ quoted ''utf-8'' @ ''><title>Index of '' @ path_display @ ''</title>''
       @ listing_style @ ''</head>'' @ [CHR 0x0A] @ ''<body>'' @ [CHR 0x0A] @ ''<h1>Index of '' @ path_display @ ''</h1>'' @ [CHR 0x0A]
       @ ''<table>'' @ [CHR 0x0A] @ ''<tr><th>Permissions</th><th>Owner</th><th>Group</th>''
       @ ''<th class='' @ quoted ''size'' @ ''>Size</th><th>Modified</th><th>Name</th></tr>'' @ [CHR 0x0A]
       @ (if request_path \<noteq> ''/''
          then ''<tr><td></td><td></td><td></td><td></td><td></td><td><a href='' @ quoted ''../'' @ ''>..</a></td></tr>'' @ [CHR 0x0A] else [])
       @ concat (map (listing_row env (if ends_with request_path ''/'' then request_path else request_path @ ''/'')) items)
       @ ''</table>'' @ [CHR 0x0A] @ ''</body></html>'' @ [CHR 0x0A]"

definition generate_directory_listing :: "listing_env \<Rightarrow> (string \<Rightarrow> bool) \<Rightarrow> 's storage \<Rightarrow> 's \<Rightarrow> path \<Rightarrow> string \<Rightarrow> (app_error, file_response) result" where
  "generate_directory_listing env header_ok st s dir request_path =
     (case st_list st s dir of
        Inl e \<Rightarrow> Inl (Internal (''Failed to read directory: '' @ storage_error_display e))
      | Inr es \<Rightarrow>
          (case le_decode env request_path of
             None \<Rightarrow> Inl (BadRequest ''Invalid UTF-8 in path'')
           | Some decoded \<Rightarrow>
               Inr (apply_content_type header_ok ''text/html; charset=utf-8''
                 (ok_bytes 200 (listing_html env request_path (html_escape decoded) (listing_order es))))))"

section \<open>GET, DELETE and the dispatch on the method\<close>

definition escapes_root :: "'s storage \<Rightarrow> 's \<Rightarrow> path \<Rightarrow> path \<Rightarrow> bool" where
  "escapes_root st s root p =
     (case (st_canonicalize st s p, st_canonicalize st s root) of
        (Inr c, Inr r) \<Rightarrow> \<not> path_starts_with c r
      | _ \<Rightarrow> False)"

definition handle_static_get :: "bool \<Rightarrow> image_lib \<Rightarrow> listing_env \<Rightarrow> (string \<Rightarrow> bool) \<Rightarrow> 's storage \<Rightarrow> 's \<Rightarrow> static_files_config
    \<Rightarrow> string \<Rightarrow> path \<Rightarrow> string \<Rightarrow> (string, string) entries option \<Rightarrow> header_map \<Rightarrow> (app_error, file_response) result option" where
  "handle_static_get checked im env header_ok st s config relative root request_path query headers =
     (let resolved = (if relative = [] then root else path_join root (components relative)) in
      if relative \<noteq> [] \<and> escapes_root st s root resolved then Some (Inl (Forbidden ''Path traversal denied''))
      else
        (let meta = (case st_metadata st s resolved of Inl _ \<Rightarrow> None | Inr m \<Rightarrow> Some m);
             is_dir = (case meta of None \<Rightarrow> False | Some m \<Rightarrow> \<not> fm_is_file m);
             is_file = (case meta of None \<Rightarrow> False | Some m \<Rightarrow> fm_is_file m);
             index_path = path_join resolved (components (stat_index config));
             index_exists = (case st_metadata st s index_path of Inl _ \<Rightarrow> False | Inr m \<Rightarrow> fm_is_file m) in
         if is_dir \<and> index_exists then serve_file checked im header_ok st s index_path config None headers
         else if is_dir \<and> stat_directory_listing config
         then Some (generate_directory_listing env header_ok st s resolved request_path)
         else if \<not> is_file then Some (Inl (NotFound (''File not found: '' @ request_path)))
         else serve_file checked im header_ok st s resolved config query headers))"

definition uploads_enabled :: "endpoint_config \<Rightarrow> static_files_config \<Rightarrow> (app_error, upload_config) result" where
  "uploads_enabled endpoint config =
     (case stat_upload config of
        None \<Rightarrow> Inl (MethodNotAllowed ''File management is not enabled'' (ep_methods endpoint))
      | Some up \<Rightarrow> if upl_enabled up then Inr up else Inl (MethodNotAllowed ''File management is not enabled'' (ep_methods endpoint)))"

definition handle_file_delete :: "'s storage \<Rightarrow> endpoint_config \<Rightarrow> static_files_config \<Rightarrow> string \<Rightarrow> path \<Rightarrow> 's
    \<Rightarrow> (app_error, http_response) result \<times> 's" where
  "handle_file_delete st endpoint config relative root s =
     (case uploads_enabled endpoint config of
        Inl e \<Rightarrow> (Inl e, s)
      | Inr _ \<Rightarrow>
          (case sanitize_filename [] relative False of
             Inl e \<Rightarrow> (Inl e, s)
           | Inr name \<Rightarrow>
               (let p = path_join root (components name) in
                if \<not> st_exists st s p then (Inl (NotFound ''File not found''), s)
                else
                  (case st_delete st p s of
                     (Inl e, s') \<Rightarrow> (Inl (FileOperation (''Failed to delete file: '' @ storage_error_display e)), s')
                   | (Inr _, s') \<Rightarrow>
                       (Inr (json_response 204 (JObj [(''message'', JStr ''File deleted successfully''), (''success'', JBool True)])), s')))))"

text \<open>\<open>resolve_store\<close>: the store of that name and its root, by default the name itself as a path.\<close>

definition resolve_store :: "(string, 's storage) entries \<Rightarrow> string \<Rightarrow> (app_error, 's storage \<times> path) result" where
  "resolve_store stores name =
     (case map_of stores name of
        None \<Rightarrow> Inl (Internal (''Store '' @ [quote_char] @ name @ [quote_char] @ '' not found''))
      | Some st \<Rightarrow> Inr (st, unwrap_or (st_root_path st) (components name)))"

datatype static_reply = FileReply file_response | JsonReply http_response

definition file_reply :: "(app_error, file_response) result \<Rightarrow> (app_error, static_reply) result" where
  "file_reply r = (case r of Inl e \<Rightarrow> Inl e | Inr f \<Rightarrow> Inr (FileReply f))"

definition strip_body :: "(app_error, file_response) result \<Rightarrow> (app_error, static_reply) result" where
  "strip_body r = (case r of Inl e \<Rightarrow> Inl e | Inr f \<Rightarrow> Inr (FileReply (f \<lparr> fr_body := [] \<rparr>)))"

definition handle_static_files :: "bool \<Rightarrow> image_lib \<Rightarrow> listing_env \<Rightarrow> (string \<Rightarrow> bool) \<Rightarrow> (string, 's storage) entries \<Rightarrow> string \<Rightarrow> string
    \<Rightarrow> endpoint_config \<Rightarrow> header_map \<Rightarrow> (string, string) entries option \<Rightarrow> 's \<Rightarrow> (app_error, static_reply) result option \<times> 's" where
  "handle_static_files checked im env header_ok stores request_method request_path endpoint headers query s =
     (case ep_static_files endpoint of
        None \<Rightarrow> (Some (Inl (Internal ''Static file configuration missing'')), s)
      | Some config \<Rightarrow>
          (case resolve_store stores (stat_storage config) of
             Inl e \<Rightarrow> (Some (Inl e), s)
           | Inr (st, root) \<Rightarrow>
               if \<not> st_exists st s root
               then (Some (Inl (Internal (''Static file storage '' @ [quote_char] @ stat_storage config @ [quote_char] @ '' does not exist''))), s)
               else
                 (case extract_relative_path (le_decode env) request_path (ep_path endpoint) of
                    Inl e \<Rightarrow> (Some (Inl e), s)
                  | Inr relative \<Rightarrow>
                      (let get = handle_static_get checked im env header_ok st s config relative root request_path query headers in
                       if request_method = ''HEAD'' then (map_option strip_body get, s)
                       else if request_method = ''GET'' then (map_option file_reply get, s)
                       else if request_method = ''DELETE''
                       then (case handle_file_delete st endpoint config relative root s of
                               (Inl e, s') \<Rightarrow> (Some (Inl e), s') | (Inr r, s') \<Rightarrow> (Some (Inr (JsonReply r)), s'))
                       else if request_method = ''OPTIONS'' then (Some (Inr (FileReply (ok_bytes 200 []))), s)
                       else (Some (Inl (MethodNotAllowed (''Method '' @ request_method @ '' not allowed for this endpoint'') (ep_methods endpoint))), s)))))"

end
