(* ===== verification/Uploads.thy ===== *)
theory Uploads
  imports Static_Files
begin

text \<open>
  Uploads to a static store (src/handlers/static_files/upload.rs, routing.rs, src/handlers/common/path.rs),
  and what an upload and a deletion do to the files of the store. The random identifiers, the date, the
  clock and the RFC 3339 format of an instant are arguments.
\<close>

section \<open>The handlers\<close>

record upload_env =
  ue_uuid :: string
  ue_values :: path_values
  ue_now :: int
  ue_rfc3339 :: "int \<Rightarrow> string"

definition build_upload_response :: "upload_env \<Rightarrow> 's storage \<Rightarrow> 's \<Rightarrow> path \<Rightarrow> path \<Rightarrow> string \<Rightarrow> string \<Rightarrow> (app_error, http_response) result" where
  "build_upload_response ue st s storage_path root content filename =
     (case st_metadata st s storage_path of
        Inl e \<Rightarrow> Inl (FileOperation (''Failed to read file metadata: '' @ storage_error_display e))
      | Inr meta \<Rightarrow>
          (let created = ue_rfc3339 ue (unwrap_or (fm_created meta) (ue_now ue));
               modified = (case fm_modified meta of None \<Rightarrow> created | Some t \<Rightarrow> ue_rfc3339 ue t);
               relative_path = ''/'' @ (case path_strip_prefix root storage_path of None \<Rightarrow> filename | Some p \<Rightarrow> path_text p)
           in Inr (json_response 201
                (JObj [(''created'', JStr created), (''message'', JStr ''File uploaded successfully''), (''modified'', JStr modified),
                       (''name'', JStr filename), (''path'', JStr relative_path), (''size'', JInt (int (length content))),
                       (''success'', JBool True), (''type'', JStr (mime_from_path storage_path))]))))"

text \<open>The upload handler gives authentication the allowed filter fields as query parameters.\<close>

definition upload_query_params :: "endpoint_config \<Rightarrow> (string, string) entries" where
  "upload_query_params endpoint =
     (case ep_crud endpoint of
        None \<Rightarrow> []
      | Some crud \<Rightarrow> fold (\<lambda>f. entries_insert f f) (flt_allowed_fields (crud_filtering crud)) [])"

definition content_length_exceeds :: "header_map \<Rightarrow> nat \<Rightarrow> nat option" where
  "content_length_exceeds headers max_size =
     (case header_str ''content-length'' headers of
        None \<Rightarrow> None
      | Some v \<Rightarrow> (case parse_u64 v of None \<Rightarrow> None | Some n \<Rightarrow> if max_size < n then Some n else None))"

definition validate_input :: "auth_world \<Rightarrow> auth_config \<Rightarrow> (string, form_field) result list \<Rightarrow> endpoint_config \<Rightarrow> static_files_config \<Rightarrow> header_map
    \<Rightarrow> (app_error, (string \<times> string \<times> string) \<times> upload_config) result" where
  "validate_input w auth form endpoint config headers =
     (case uploads_enabled endpoint config of
        Inl e \<Rightarrow> Inl e
      | Inr up \<Rightarrow>
          (case extract_auth_info w auth endpoint headers (upload_query_params endpoint) of
             Inl e \<Rightarrow> Inl e
           | Inr info \<Rightarrow>
               (case content_length_exceeds headers (upl_max_size up) of
                  Some n \<Rightarrow> Inl (PayloadTooLarge (''File size '' @ show_nat n @ '' exceeds maximum allowed size '' @ show_nat (upl_max_size up)))
                | None \<Rightarrow>
                    (case parse_multipart_file form (upl_max_size up) True of
                       Inl e \<Rightarrow> Inl e
                     | Inr (content, original) \<Rightarrow> Inr ((ai_subject info, content, original), up)))))"

definition store_file :: "'s storage \<Rightarrow> path \<Rightarrow> string \<Rightarrow> 's \<Rightarrow> (app_error, file_metadata) result \<times> 's" where
  "store_file st p content s =
     (let (made, s1) = (case path_parent p of None \<Rightarrow> (Inr (), s) | Some parent \<Rightarrow> st_create_dir_all st parent s) in
      case made of
        Inl e \<Rightarrow> (Inl (FileOperation (''Failed to create directory: '' @ storage_error_display e)), s1)
      | Inr _ \<Rightarrow>
          (case st_write st p content s1 of
             (Inl e, s2) \<Rightarrow> (Inl (FileOperation (''Failed to write file: '' @ storage_error_display e)), s2)
           | (Inr _, s2) \<Rightarrow>
               (case st_metadata st s2 p of
                  Inl e \<Rightarrow> (Inl (FileOperation (''Failed to read file metadata: '' @ storage_error_display e)), s2)
                | Inr meta \<Rightarrow> (Inr meta, s2))))"

definition handle_file_upload :: "auth_world \<Rightarrow> auth_config \<Rightarrow> upload_env \<Rightarrow> 's storage \<Rightarrow> (string, form_field) result list \<Rightarrow> endpoint_config
    \<Rightarrow> static_files_config \<Rightarrow> path \<Rightarrow> header_map \<Rightarrow> 's \<Rightarrow> (app_error, http_response) result \<times> 's" where
  "handle_file_upload w auth ue st form endpoint config root headers s =
     (case validate_input w auth form endpoint config headers of
        Inl e \<Rightarrow> (Inl e, s)
      | Inr ((user_id, content, original), up) \<Rightarrow>
          (case generate_upload_filename (ue_uuid ue) original (upl_allowed_extensions up) of
             Inl e \<Rightarrow> (Inl e, s)
           | Inr filename \<Rightarrow>
               (case build_storage_path (ue_values ue) root filename user_id (upl_create_subdirectory up) of
                  Inl e \<Rightarrow> (Inl e, s)
                | Inr p \<Rightarrow>
                    if st_exists st s p
                    then (Inl (FileOperation (''A file already exists at the destination path: '' @ path_text p)), s)
                    else
                      (case store_file st p content s of
                         (Inl e, s') \<Rightarrow> (Inl e, s')
                       | (Inr _, s') \<Rightarrow> (build_upload_response ue st s' p root content filename, s')))))"

definition handle_file_upload_route :: "auth_world \<Rightarrow> auth_config \<Rightarrow> upload_env \<Rightarrow> (string, 's storage) entries \<Rightarrow> (string, form_field) result list
    \<Rightarrow> string \<Rightarrow> endpoint_config \<Rightarrow> header_map \<Rightarrow> 's \<Rightarrow> (app_error, http_response) result \<times> 's" where
  "handle_file_upload_route w auth ue stores form request_method endpoint headers s =
     (if request_method \<notin> {''POST'', ''PUT'', ''PATCH''}
      then (Inl (MethodNotAllowed (''Method '' @ request_method @ '' not allowed for this endpoint'') (ep_methods endpoint)), s)
      else
        (case ep_static_files endpoint of
           None \<Rightarrow> (Inl (Internal ''Static file configuration missing''), s)
         | Some config \<Rightarrow>
             (case resolve_store stores (stat_storage config) of
                Inl e \<Rightarrow> (Inl e, s)
              | Inr (st, root) \<Rightarrow>
                  if \<not> st_exists st s root
                  then (Inl (Internal (''Static file storage '' @ [quote_char] @ stat_storage config @ [quote_char] @ '' does not exist'')), s)
                  else handle_file_upload w auth ue st form endpoint config root headers s)))"

section \<open>What an upload does\<close>

lemma parse_fields_size:
  "parse_fields flds max_size v found content original = Inr (content', original') \<Longrightarrow> (found \<longrightarrow> length content \<le> max_size) \<Longrightarrow>
     length content' \<le> max_size"
  by (induction flds max_size v found content original rule: parse_fields.induct)
    (auto simp: Let_def split: if_splits option.splits sum.splits)

lemma parse_multipart_size: "parse_multipart_file form max_size v = Inr (content, original) \<Longrightarrow> length content \<le> max_size"
  unfolding parse_multipart_file_def by (drule parse_fields_size) auto

context file_store
begin

lemma stored_file:
  assumes "store_file st p content s = (Inr m, s')"
  shows "file_at s' = (file_at s)(p \<mapsto> content)"
  using assms by (auto simp: store_file_def Let_def split: option.splits sum.splits prod.splits dest!: write_file create_dirs_files)

lemma served_bytes:
  assumes "file_at s p = Some c" "stat_image_resize config = None" "\<not> stat_range_requests config \<or> header_str ''range'' headers = None"
  shows "\<exists>r. serve_file checked im header_ok st s p config query headers = Some (Inr r) \<and> fr_status r = 200 \<and> fr_body r = c"
proof -
  from metadata_file [OF assms(1)] obtain m where m: "st_metadata st s p = Inr m" "fm_size m = length c" by blast
  have "serve_file checked im header_ok st s p config query headers = Some (serve_whole header_ok st s p config (length c))"
    using assms(2,3) m by (auto simp: serve_file_def serve_resized_def)
  moreover have "\<exists>r. serve_whole header_ok st s p config (length c) = Inr r \<and> fr_status r = 200 \<and> fr_body r = c"
    by (simp add: serve_whole_def serve_read_def handle_streaming_def read_file seek_read_file assms(1) split: option.split)
  ultimately show ?thesis by auto
qed

lemma upload_stores:
  assumes "handle_file_upload w auth ue st form endpoint config root headers s = (Inr resp, s')"
  shows "\<exists>up user_id content original filename p.
      stat_upload config = Some up \<and> upl_enabled up
    \<and> validate_input w auth form endpoint config headers = Inr ((user_id, content, original), up)
    \<and> generate_upload_filename (ue_uuid ue) original (upl_allowed_extensions up) = Inr filename
    \<and> build_storage_path (ue_values ue) root filename user_id (upl_create_subdirectory up) = Inr p
    \<and> file_at s p = None \<and> file_at s' = (file_at s)(p \<mapsto> content)"
proof -
  from assms obtain up user_id content original filename p m where *:
    "validate_input w auth form endpoint config headers = Inr ((user_id, content, original), up)"
    "generate_upload_filename (ue_uuid ue) original (upl_allowed_extensions up) = Inr filename"
    "build_storage_path (ue_values ue) root filename user_id (upl_create_subdirectory up) = Inr p"
    "\<not> st_exists st s p" "store_file st p content s = (Inr m, s')"
    unfolding handle_file_upload_def by (auto split: sum.splits prod.splits if_splits)
  have "stat_upload config = Some up \<and> upl_enabled up"
    using *(1) by (auto simp: validate_input_def uploads_enabled_def split: sum.splits option.splits if_splits)
  moreover have "file_at s p = None" using *(4) exists_file by blast
  ultimately show ?thesis using *(1-3) stored_file [OF *(5)] by blast
qed

end

text \<open>C30: in any store that keeps the contract of files (locale file_store: what is written at a path is read back
  there; the in-memory store does, the GCS backend does not below a directory), a successful upload
  adds exactly one file, at a path that held none and has no parent component, and leaves every other file as it
  was; its content is that of the last file field of the form and within the configured maximum; and serving that
  path from the same endpoint, with no image resizing configured and without a range (none asked for or ranges
  disabled), answers 200 with exactly these bytes, streamed or not.\<close>

theorem upload_served_back:
  assumes "file_store st file_at" "handle_file_upload w auth ue st form endpoint config root headers s = (Inr resp, s')"
    and "stat_image_resize config = None" "\<not> stat_range_requests config \<or> header_str ''range'' headers' = None"
  shows "\<exists>p content original r. parse_multipart_file form (upl_max_size (the (stat_upload config))) True = Inr (content, original)
    \<and> length content \<le> upl_max_size (the (stat_upload config))
    \<and> file_at s p = None \<and> file_at s' = (file_at s)(p \<mapsto> content) \<and> ParentDir \<notin> set p
    \<and> serve_file checked im header_ok st s' p config query headers' = Some (Inr r) \<and> fr_status r = 200 \<and> fr_body r = content"
proof -
  from file_store.upload_stores [OF assms(1,2)] obtain up user_id content original filename p where *:
    "stat_upload config = Some up" "validate_input w auth form endpoint config headers = Inr ((user_id, content, original), up)"
    "build_storage_path (ue_values ue) root filename user_id (upl_create_subdirectory up) = Inr p"
    "file_at s p = None" "file_at s' = (file_at s)(p \<mapsto> content)" by blast
  have "parse_multipart_file form (upl_max_size up) True = Inr (content, original)"
    using *(2) by (auto simp: validate_input_def split: sum.splits option.splits)
  moreover from this have "length content \<le> upl_max_size up" by (rule parse_multipart_size)
  moreover have "\<exists>r. serve_file checked im header_ok st s' p config query headers' = Some (Inr r) \<and> fr_status r = 200 \<and> fr_body r = content"
    by (rule file_store.served_bytes [OF assms(1)]) (use *(5) assms(3,4) in simp_all)
  ultimately show ?thesis using *(1,4,5) build_storage_path_Inr [OF *(3)] by auto
qed


definition sample_upload_config :: static_files_config where
  "sample_upload_config = static_files_config_default \<lparr> stat_storage := ''s'', stat_range_requests := False,
     stat_upload := Some (upload_config_default \<lparr> upl_enabled := True \<rparr>) \<rparr>"

definition sample_upload_endpoint :: endpoint_config where
  "sample_upload_endpoint = \<lparr> ep_path = ''/f'', ep_methods = [Post], ep_action = ActStaticFiles, ep_crud = None, ep_proxy = None,
     ep_static_files = Some sample_upload_config, ep_spa_host = None, ep_media = None, ep_file_store = None,
     ep_custom_response = None, ep_auth = ''none'', ep_roles = roles_config_default, ep_cors = None, ep_rate_limit = None \<rparr>"

definition sample_form :: "(string, form_field) result list" where
  "sample_form = [Inr \<lparr> ff_name = Some ''file'', ff_file_name = Some ''a.txt'', ff_chunks = Inr [''hel'', ''lo''] \<rparr>]"

definition sample_upload_env :: upload_env where
  "sample_upload_env = \<lparr> ue_uuid = ''u1'', ue_values = sample_values, ue_now = 0, ue_rfc3339 = (\<lambda>_. ''1970'') \<rparr>"

definition sample_stored :: mem_store where
  "sample_stored = \<lparr> ms_data = [([Normal ''s'', Normal ''u1.txt''], ''hello'')], ms_dirs = [[Normal ''s'']] \<rparr>"

lemma sample_upload_ok:
  "\<exists>resp. handle_file_upload w auth sample_upload_env memory_storage sample_form sample_upload_endpoint sample_upload_config
     (components ''s'') [] mem_new = (Inr resp, sample_stored)"
proof -
  have "uploads_enabled sample_upload_endpoint sample_upload_config = Inr (upload_config_default \<lparr> upl_enabled := True \<rparr>)"
    by (simp add: uploads_enabled_def sample_upload_config_def)
  moreover have "extract_auth_info w auth sample_upload_endpoint [] (upload_query_params sample_upload_endpoint) = Inr auth_info_anonymous"
    by (simp add: extract_auth_info_def sample_upload_endpoint_def)
  moreover have "parse_multipart_file sample_form 10485760 True = Inr (''hello'', ''a.txt'')"
  proof -
    have "\<not> is_image_extension (unwrap_or (extension (components ''a.txt'')) [])" by code_simp
    then show ?thesis by (simp add: parse_multipart_file_def sample_form_def)
  qed
  ultimately have "validate_input w auth sample_form sample_upload_endpoint sample_upload_config []
      = Inr (([], ''hello'', ''a.txt''), upload_config_default \<lparr> upl_enabled := True \<rparr>)"
    by (simp add: validate_input_def content_length_exceeds_def header_str_def header_get_def upload_config_default_def auth_info_anonymous_def)
  moreover have "generate_upload_filename ''u1'' ''a.txt'' [] = Inr ''u1.txt''" by code_simp
  moreover have "build_storage_path sample_values (components ''s'') ''u1.txt'' [] None = Inr [Normal ''s'', Normal ''u1.txt'']" by code_simp
  moreover have "mem_exists mem_new [Normal ''s'', Normal ''u1.txt''] = False" by code_simp
  moreover have "fst (store_file memory_storage [Normal ''s'', Normal ''u1.txt''] ''hello'' mem_new) = Inr (file_metadata_new ''u1.txt'' True 5)" by code_simp
  moreover have "snd (store_file memory_storage [Normal ''s'', Normal ''u1.txt''] ''hello'' mem_new) = sample_stored" by code_simp
  ultimately show ?thesis
    by (auto simp: handle_file_upload_def sample_upload_env_def upload_config_default_def build_upload_response_def memory_storage_def
      mem_metadata_def sample_stored_def Let_def split: prod.split)
qed

definition no_images :: image_lib where
  "no_images = \<lparr> im_from_extension = (\<lambda>_. None), im_guess_format = (\<lambda>_. None), im_resize = (\<lambda>_ _ _ _. Inl (BadRequest ''Invalid image data'')) \<rparr>"

theorem upload_served_back_witness:
  "\<exists>p content original r. parse_multipart_file sample_form (upl_max_size (the (stat_upload sample_upload_config))) True = Inr (content, original)
    \<and> length content \<le> upl_max_size (the (stat_upload sample_upload_config))
    \<and> mem_file_at mem_new p = None \<and> mem_file_at sample_stored = (mem_file_at mem_new)(p \<mapsto> content) \<and> ParentDir \<notin> set p
    \<and> serve_file True no_images (\<lambda>_. True) memory_storage sample_stored p sample_upload_config None [] = Some (Inr r)
    \<and> fr_status r = 200 \<and> fr_body r = content"
proof -
  from sample_upload_ok [of sample_world "as_auth sample_auth_state"] obtain resp where
    "handle_file_upload sample_world (as_auth sample_auth_state) sample_upload_env memory_storage sample_form sample_upload_endpoint sample_upload_config
       (components ''s'') [] mem_new = (Inr resp, sample_stored)" by blast
  from upload_served_back [OF memory.file_store_axioms this] show ?thesis by (simp add: sample_upload_config_def static_files_config_default_def)
qed

section \<open>What a deletion does\<close>

definition sample_two_files :: mem_store where
  "sample_two_files = \<lparr> ms_data = [([Normal ''s'', Normal ''B.TXT''], ''kept''), ([Normal ''s'', Normal ''b.txt''], ''gone'')], ms_dirs = [[Normal ''s'']] \<rparr>"

lemma map_of_retain_keys: "map_of (entries_retain (\<lambda>k _. P k) m) q = (if P q then map_of m q else None)"
  by (induction m) (auto simp: entries_retain_def)

lemma to_lower_idem: "to_lower (to_lower c) = to_lower c"
  by (simp add: to_lower_def ccode_def)

lemma to_lower_slash: "to_lower c = CHR ''/'' \<longleftrightarrow> c = CHR ''/''"
proof -
  have "of_char (CHR ''/'') = (47::nat)" by simp
  then show ?thesis by (auto simp: to_lower_def ccode_def dest: arg_cong [where f = "of_char :: char \<Rightarrow> nat"])
qed

lemma sanitize_filename_Inr:
  assumes "sanitize_filename uuid n False = Inr m"
  shows "lowercase m = m \<and> CHR ''/'' \<notin> set m \<and> m \<noteq> []"
  using assms
  by (auto simp: sanitize_filename_def Let_def lowercase_def to_lower_idem image_iff to_lower_slash [THEN eq_commute [THEN trans]] split: if_splits)

text \<open>A deletion removes only the file, or the directory with its files, whose name is the lower case of the name asked for;
  every other file stays as it was. So a file with an upper-case letter in its name cannot be deleted.\<close>

theorem delete_confined:
  assumes "handle_file_delete memory_storage endpoint config relative root s = (Inr resp, s')"
  shows "\<exists>name. sanitize_filename [] relative False = Inr name \<and> lowercase name = name \<and> CHR ''/'' \<notin> set name
    \<and> mem_exists s (path_join root (components name)) \<and> mem_file_at s' (path_join root (components name)) = None
    \<and> (\<forall>q. \<not> prefix (path_join root (components name)) q \<longrightarrow> mem_file_at s' q = mem_file_at s q)
    \<and> resp_status resp = 204"
proof -
  from assms obtain name where *: "sanitize_filename [] relative False = Inr name" "mem_exists s (path_join root (components name))"
    "mem_delete (path_join root (components name)) s = (Inr (), s')" "resp_status resp = 204"
    by (auto simp: handle_file_delete_def Let_def memory_storage_def json_response_def split: sum.splits prod.splits if_splits)
  have "mem_file_at s' (path_join root (components name)) = None
      \<and> (\<forall>q. \<not> prefix (path_join root (components name)) q \<longrightarrow> mem_file_at s' q = mem_file_at s q)"
    using *(3) by (auto simp: mem_delete_def mem_file_at_def map_of_retain_keys split: if_splits)
  with * sanitize_filename_Inr [OF *(1)] show ?thesis by blast
qed

theorem delete_confined_witness:
  "\<exists>name. sanitize_filename [] ''B.TXT'' False = Inr name \<and> lowercase name = name \<and> CHR ''/'' \<notin> set name
    \<and> mem_exists sample_two_files (path_join (components ''s'') (components name))
    \<and> mem_file_at (snd (mem_delete [Normal ''s'', Normal ''b.txt''] sample_two_files)) (path_join (components ''s'') (components name)) = None
    \<and> (\<forall>q. \<not> prefix (path_join (components ''s'') (components name)) q \<longrightarrow>
          mem_file_at (snd (mem_delete [Normal ''s'', Normal ''b.txt''] sample_two_files)) q = mem_file_at sample_two_files q)
    \<and> resp_status (json_response 204 (JObj [(''message'', JStr ''File deleted successfully''), (''success'', JBool True)])) = 204"
proof (rule delete_confined)
  have "sanitize_filename [] ''B.TXT'' False = Inr ''b.txt''" "path_join (components ''s'') (components ''b.txt'') = [Normal ''s'', Normal ''b.txt'']"
    by code_simp+
  then show "handle_file_delete memory_storage sample_upload_endpoint sample_upload_config ''B.TXT'' (components ''s'') sample_two_files
      = (Inr (json_response 204 (JObj [(''message'', JStr ''File deleted successfully''), (''success'', JBool True)])),
         snd (mem_delete [Normal ''s'', Normal ''b.txt''] sample_two_files))"
    by (simp add: handle_file_delete_def uploads_enabled_def sample_upload_config_def memory_storage_def sample_two_files_def mem_exists_def
      mem_delete_def Let_def split: prod.split)
qed

section \<open>Escaping\<close>

lemma replace_str_char: "replace_str [c] r s = concat (map (\<lambda>x. if x = c then r else [x]) s)"
  by (induction s) simp_all

definition html_escape_char :: "char \<Rightarrow> string" where
  "html_escape_char c =
     (if c = CHR ''&'' then ''&amp;'' else if c = CHR ''<'' then ''&lt;'' else if c = CHR ''>'' then ''&gt;''
      else if c = dquote_char then ''&quot;'' else [c])"

lemma html_escape_chars: "html_escape s = concat (map html_escape_char s)"
  by (induction s) (simp_all add: html_escape_def replace_str_char html_escape_char_def)

lemma html_escape_char_cases:
  obtains "c \<notin> {CHR ''&'', CHR ''<'', CHR ''>'', dquote_char}" "html_escape_char c = [c]"
    | "c = CHR ''&''" "html_escape_char c = ''&amp;''" | "c = CHR ''<''" "html_escape_char c = ''&lt;''"
    | "c = CHR ''>''" "html_escape_char c = ''&gt;''" | "c = dquote_char" "html_escape_char c = ''&quot;''"
  by (auto simp: html_escape_char_def)

lemma html_escape_char_prefix_free:
  "html_escape_char c @ u = html_escape_char d @ v \<Longrightarrow> c = d \<and> u = v"
  by (cases c rule: html_escape_char_cases; cases d rule: html_escape_char_cases) auto

lemma html_escape_char_nonempty: "html_escape_char c \<noteq> []"
  by (cases c rule: html_escape_char_cases) auto

lemma concat_escape_inj: "concat (map html_escape_char s) = concat (map html_escape_char t) \<Longrightarrow> s = t"
proof (induction s arbitrary: t)
  case Nil
  then show ?case by (cases t) (simp_all add: html_escape_char_nonempty)
next
  case (Cons c s)
  then show ?case
  proof (cases t)
    case Nil
    with Cons.prems show ?thesis by (simp add: html_escape_char_nonempty)
  next
    case (Cons d t')
    from Cons.prems [unfolded Cons] show ?thesis
      unfolding Cons by simp (metis html_escape_char_prefix_free Cons.IH)
  qed
qed

text \<open>The four replacements made one after the other escape each character by itself: the result has no angle bracket and
  no double quote, so it can neither open a tag nor leave a quoted attribute, and distinct names stay distinct.\<close>

theorem html_escape_safe:
  "html_escape s = concat (map html_escape_char s) \<and> set (html_escape s) \<inter> {CHR ''<'', CHR ''>'', dquote_char} = {} \<and> inj html_escape"
proof -
  have "set (html_escape_char c) \<inter> {CHR ''<'', CHR ''>'', dquote_char} = {}" for c by (cases c rule: html_escape_char_cases) auto
  then have "set (html_escape s) \<inter> {CHR ''<'', CHR ''>'', dquote_char} = {}" by (auto simp: html_escape_chars)
  moreover have "inj html_escape" by (rule injI) (simp add: html_escape_chars concat_escape_inj)
  ultimately show ?thesis by (simp add: html_escape_chars)
qed

end
