(* ===== verification/Migration.thy ===== *)
theory Migration
  imports Topo_Sort Sql_Helpers Database
begin

text \<open>
  Automatic migrations (src/db/migration.rs): the text of every DDL statement, the introspection of a
  table, altering an existing table, the migration of all tables in dependency order, the table of revoked
  tokens and the column media tables need. A hash map of pools is iterated in the order of its entries.
\<close>

section \<open>DDL text\<close>

definition column_type_to_sql :: "column_type \<Rightarrow> database_driver \<Rightarrow> string" where
  "column_type_to_sql ct d =
     (case ct of
        Integer \<Rightarrow> ''INTEGER''
      | Bigint \<Rightarrow> ''BIGINT''
      | Smallint \<Rightarrow> ''SMALLINT''
      | Serial \<Rightarrow> (case d of Sqlite \<Rightarrow> ''INTEGER'' | Postgres \<Rightarrow> ''SERIAL'' | Mysql \<Rightarrow> ''INTEGER AUTO_INCREMENT'')
      | Bigserial \<Rightarrow> (case d of Sqlite \<Rightarrow> ''INTEGER PRIMARY KEY AUTOINCREMENT'' | Postgres \<Rightarrow> ''BIGSERIAL'' | Mysql \<Rightarrow> ''BIGINT AUTO_INCREMENT'')
      | Text \<Rightarrow> ''TEXT''
      | Varchar \<Rightarrow> if d = Sqlite then ''TEXT'' else ''VARCHAR(255)''
      | Char \<Rightarrow> if d = Sqlite then ''TEXT'' else ''CHAR(255)''
      | Boolean \<Rightarrow> if d = Sqlite then ''INTEGER'' else ''BOOLEAN''
      | Float \<Rightarrow> ''REAL''
      | Double \<Rightarrow> if d = Sqlite then ''REAL'' else ''DOUBLE PRECISION''
      | Decimal \<Rightarrow> if d = Sqlite then ''REAL'' else ''DECIMAL(10,2)''
      | Date \<Rightarrow> if d = Sqlite then ''TEXT'' else ''DATETIME''
      | Timestamp \<Rightarrow> (case d of Sqlite \<Rightarrow> ''TEXT'' | Postgres \<Rightarrow> ''TIMESTAMP'' | Mysql \<Rightarrow> ''DATETIME'')
      | Timestamptz \<Rightarrow> (case d of Sqlite \<Rightarrow> ''TEXT'' | Postgres \<Rightarrow> ''TIMESTAMPTZ'' | Mysql \<Rightarrow> ''DATETIME'')
      | Uuid \<Rightarrow> (case d of Sqlite \<Rightarrow> ''TEXT'' | Postgres \<Rightarrow> ''UUID'' | Mysql \<Rightarrow> ''CHAR(36)'')
      | Json \<Rightarrow> ''JSON''
      | Jsonb \<Rightarrow> if d = Mysql then ''JSON'' else ''JSONB''
      | Blob \<Rightarrow> if d = Postgres then ''BYTEA'' else ''BLOB''
      | Bytea \<Rightarrow> if d = Postgres then ''BYTEA'' else ''BLOB'')"

fun fk_action_to_sql :: "fk_action \<Rightarrow> string" where
  "fk_action_to_sql Cascade = ''CASCADE''"
| "fk_action_to_sql SetNull = ''SET NULL''"
| "fk_action_to_sql Restrict = ''RESTRICT''"
| "fk_action_to_sql NoAction = ''NO ACTION''"

definition default_clause :: "column_config \<Rightarrow> string" where
  "default_clause col = (case col_default col of None \<Rightarrow> [] | Some v \<Rightarrow> '' DEFAULT '' @ v)"

definition generate_add_column :: "string \<Rightarrow> column_config \<Rightarrow> database_driver \<Rightarrow> string" where
  "generate_add_column table col d =
     ''ALTER TABLE '' @ quote_identifier table d @ '' ADD COLUMN '' @ quote_identifier (col_name col) d @ '' '' @ column_type_to_sql (col_type col) d
       @ (if col_nullable col then [] else '' NOT NULL'') @ (if col_unique col \<and> d \<noteq> Sqlite then '' UNIQUE'' else []) @ default_clause col"

definition generate_drop_column :: "string \<Rightarrow> string \<Rightarrow> database_driver \<Rightarrow> string" where
  "generate_drop_column table column d = ''ALTER TABLE '' @ quote_identifier table d @ '' DROP COLUMN '' @ quote_identifier column d"

text \<open>The two tests for a clause already there look at the whole definition, the column's name included.\<close>

definition generate_column_def :: "column_config \<Rightarrow> database_driver \<Rightarrow> string" where
  "generate_column_def col d =
     (let base = ''  '' @ quote_identifier (col_name col) d @ '' '' @ column_type_to_sql (col_type col) d;
          keyed = (if col_primary_key col \<and> d = Sqlite
                   then (let k = (if contains_str base ''PRIMARY KEY'' then base else base @ '' PRIMARY KEY'')
                         in if contains_str k ''AUTOINCREMENT'' then k else k @ '' AUTOINCREMENT'')
                   else base)
      in keyed @ (if \<not> col_nullable col \<or> col_primary_key col then '' NOT NULL'' else []) @ (if col_unique col then '' UNIQUE'' else [])
           @ default_clause col)"

definition pk_constraint :: "column_config list \<Rightarrow> database_driver \<Rightarrow> string list" where
  "pk_constraint columns d =
     (let pks = map (\<lambda>c. quote_identifier (col_name c) d) (filter col_primary_key columns) in
      if pks = [] \<or> (d = Sqlite \<and> length pks = 1) then [] else [''  PRIMARY KEY ('' @ join '', '' pks @ '')''])"

definition foreign_key_clause :: "database_driver \<Rightarrow> foreign_key_config \<Rightarrow> string" where
  "foreign_key_clause d fk =
     ''  FOREIGN KEY ('' @ quote_identifier (fk_column fk) d @ '') REFERENCES '' @ quote_identifier (fk_references_table fk) d
       @ '' ('' @ quote_identifier (fk_references_column fk) d @ '') ON DELETE '' @ fk_action_to_sql (fk_on_delete fk)
       @ '' ON UPDATE '' @ fk_action_to_sql (fk_on_update fk)"

definition generate_create_table :: "table_config \<Rightarrow> database_driver \<Rightarrow> string" where
  "generate_create_table t d =
     ''CREATE TABLE IF NOT EXISTS '' @ quote_identifier (tbl_name t) d @ '' ('' @ [CHR 0x0A]
       @ join ('','' @ [CHR 0x0A])
           (map (\<lambda>c. generate_column_def c d) (tbl_columns t) @ pk_constraint (tbl_columns t) d
             @ map (foreign_key_clause d) (tbl_foreign_keys t))
       @ [CHR 0x0A] @ '')''"

definition index_name :: "string \<Rightarrow> string \<Rightarrow> string" where
  "index_name table column = ''idx_'' @ table @ ''_'' @ column"

definition generate_create_index :: "string \<Rightarrow> string \<Rightarrow> database_driver \<Rightarrow> string" where
  "generate_create_index table column d =
     (if d = Mysql then ''CREATE INDEX '' else ''CREATE INDEX IF NOT EXISTS '')
       @ quote_identifier (index_name table column) d @ '' ON '' @ quote_identifier table d @ '' ('' @ quote_identifier column d @ '')''"

section \<open>Introspection\<close>

definition introspect_columns :: "database_driver \<Rightarrow> string \<Rightarrow> string \<times> json list" where
  "introspect_columns d table =
     (case d of
        Sqlite \<Rightarrow> (''PRAGMA table_info('' @ quote_identifier table d @ '')'', [])
      | Postgres \<Rightarrow> (''SELECT column_name FROM information_schema.columns WHERE table_name = $1 ORDER BY ordinal_position'', [JStr table])
      | Mysql \<Rightarrow> (''SELECT column_name FROM information_schema.columns WHERE table_schema = DATABASE() AND table_name = ? ''
                    @ ''ORDER BY ordinal_position'', [JStr table]))"

definition introspect_indexes :: "database_driver \<Rightarrow> string \<Rightarrow> string \<times> json list" where
  "introspect_indexes d table =
     (case d of
        Sqlite \<Rightarrow> (''PRAGMA index_list('' @ quote_identifier table d @ '')'', [])
      | Postgres \<Rightarrow> (''SELECT indexname FROM pg_indexes WHERE tablename = $1'', [JStr table])
      | Mysql \<Rightarrow> (''SELECT index_name FROM information_schema.statistics WHERE table_schema = DATABASE() AND table_name = ? ''
                    @ ''GROUP BY index_name'', [JStr table]))"

text \<open>The first of the keys that is present must hold a string, or the row is skipped.\<close>

fun row_name :: "string list \<Rightarrow> json \<Rightarrow> string option" where
  "row_name [] row = None"
| "row_name (k # ks) row = (case json_get k row of Some v \<Rightarrow> as_str v | None \<Rightarrow> row_name ks row)"

definition get_existing_columns :: "'db pool \<Rightarrow> string \<Rightarrow> 'db \<Rightarrow> (app_error, string list) result \<times> 'db" where
  "get_existing_columns p table db =
     (case introspect_columns (pl_driver p) table of
        (sql, params) \<Rightarrow>
          (case fetch_all_json p sql params db of
             (Inl e, db') \<Rightarrow> (Inl e, db')
           | (Inr rows, db') \<Rightarrow> (Inr (List.map_filter (row_name [''name'', ''column_name'', ''COLUMN_NAME'']) rows), db')))"

definition get_existing_indexes :: "'db pool \<Rightarrow> string \<Rightarrow> 'db \<Rightarrow> (app_error, string set) result \<times> 'db" where
  "get_existing_indexes p table db =
     (case introspect_indexes (pl_driver p) table of
        (sql, params) \<Rightarrow>
          (case fetch_all_json p sql params db of
             (Inl e, db') \<Rightarrow> (Inl e, db')
           | (Inr rows, db') \<Rightarrow>
               (Inr (set (List.map_filter (row_name [''name'', ''indexname'', ''index_name'', ''INDEX_NAME'']) rows)), db')))"

section \<open>Altering a table\<close>

abbreviation in_quotes :: "string \<Rightarrow> string" where
  "in_quotes s \<equiv> [quote_char] @ s @ [quote_char]"

text \<open>A DDL statement, with what an error becomes.\<close>

definition run_ddl :: "'db pool \<Rightarrow> string \<Rightarrow> string \<Rightarrow> 'db \<Rightarrow> (app_error, unit) result \<times> 'db" where
  "run_ddl p what sql db =
     (case execute_raw p sql db of
        (Inl e, db') \<Rightarrow> (Inl (ConfigurationError (what @ '': '' @ app_error_display e)), db')
      | (Inr _, db') \<Rightarrow> (Inr (), db'))"

fun add_columns :: "'db pool \<Rightarrow> string \<Rightarrow> string list \<Rightarrow> column_config list \<Rightarrow> 'db \<Rightarrow> (app_error, unit) result \<times> 'db" where
  "add_columns p table existing [] db = (Inr (), db)"
| "add_columns p table existing (col # cols) db =
     (if col_name col \<in> set existing then add_columns p table existing cols db
      else if col_primary_key col then add_columns p table existing cols db
      else if \<not> col_nullable col \<and> col_default col = None then add_columns p table existing cols db
      else
        (case run_ddl p (''Failed to add column '' @ in_quotes (col_name col) @ '' to table '' @ in_quotes table)
                (generate_add_column table col (pl_driver p)) db of
           (Inl e, db') \<Rightarrow> (Inl e, db')
         | (Inr _, db') \<Rightarrow> add_columns p table existing cols db'))"

fun drop_columns :: "'db pool \<Rightarrow> string \<Rightarrow> string set \<Rightarrow> bool \<Rightarrow> string list \<Rightarrow> 'db \<Rightarrow> (app_error, unit) result \<times> 'db" where
  "drop_columns p table yaml_names allow_destructive [] db = (Inr (), db)"
| "drop_columns p table yaml_names allow_destructive (name # names) db =
     (if name \<in> yaml_names then drop_columns p table yaml_names allow_destructive names db
      else if allow_destructive then
        (case run_ddl p (''Failed to drop column '' @ in_quotes name @ '' from table '' @ in_quotes table)
                (generate_drop_column table name (pl_driver p)) db of
           (Inl e, db') \<Rightarrow> (Inl e, db')
         | (Inr _, db') \<Rightarrow> drop_columns p table yaml_names allow_destructive names db')
      else drop_columns p table yaml_names allow_destructive names db)"

definition alter_existing_table :: "'db pool \<Rightarrow> table_config \<Rightarrow> string list \<Rightarrow> bool \<Rightarrow> 'db \<Rightarrow> (app_error, unit) result \<times> 'db" where
  "alter_existing_table p t existing allow_destructive db =
     (case add_columns p (tbl_name t) existing (tbl_columns t) db of
        (Inl e, db') \<Rightarrow> (Inl e, db')
      | (Inr _, db') \<Rightarrow> drop_columns p (tbl_name t) (col_name ` set (tbl_columns t)) allow_destructive existing db')"

section \<open>All tables\<close>

fun create_indexes :: "'db pool \<Rightarrow> string \<Rightarrow> string set \<Rightarrow> column_config list \<Rightarrow> 'db \<Rightarrow> (app_error, unit) result \<times> 'db" where
  "create_indexes p table existing [] db = (Inr (), db)"
| "create_indexes p table existing (col # cols) db =
     (if col_indexed col \<and> \<not> col_primary_key col \<and> \<not> (pl_driver p = Mysql \<and> index_name table (col_name col) \<in> existing) then
        (case run_ddl p (''Failed to create index on '' @ in_quotes (table @ ''.'' @ col_name col))
                (generate_create_index table (col_name col) (pl_driver p)) db of
           (Inl e, db') \<Rightarrow> (Inl e, db')
         | (Inr _, db') \<Rightarrow> create_indexes p table existing cols db')
      else create_indexes p table existing cols db)"

definition create_or_alter :: "'db pool \<Rightarrow> table_config \<Rightarrow> bool \<Rightarrow> string list \<Rightarrow> 'db \<Rightarrow> (app_error, unit) result \<times> 'db" where
  "create_or_alter p t allow_destructive existing db =
     (if existing = [] then run_ddl p (''Migration failed for table '' @ in_quotes (tbl_name t)) (generate_create_table t (pl_driver p)) db
      else alter_existing_table p t existing allow_destructive db)"

definition index_table :: "'db pool \<Rightarrow> table_config \<Rightarrow> 'db \<Rightarrow> (app_error, unit) result \<times> 'db" where
  "index_table p t db =
     (case (if pl_driver p = Mysql then get_existing_indexes p (tbl_name t) db else (Inr {}, db)) of
        (Inl e, db') \<Rightarrow> (Inl e, db')
      | (Inr existing, db') \<Rightarrow> create_indexes p (tbl_name t) existing (tbl_columns t) db')"

definition migrate_table :: "(string, 'db pool) entries \<Rightarrow> (string, database_config) entries \<Rightarrow> table_config \<Rightarrow> 'db
    \<Rightarrow> (app_error, unit) result \<times> 'db" where
  "migrate_table pools databases t db =
     (let cfg = map_of databases (tbl_database t) in
      if (case cfg of None \<Rightarrow> False | Some c \<Rightarrow> \<not> dbc_auto_migrate c) then (Inr (), db)
      else
        (case map_of pools (tbl_database t) of
           None \<Rightarrow> (Inl (ConfigurationError (''Table '' @ in_quotes (tbl_name t) @ '' references database '' @ in_quotes (tbl_database t) @ '' which has no pool'')), db)
         | Some p \<Rightarrow>
             (case get_existing_columns p (tbl_name t) db of
                (Inl e, db1) \<Rightarrow> (Inl e, db1)
              | (Inr existing, db1) \<Rightarrow>
                  (case create_or_alter p t (case cfg of None \<Rightarrow> False | Some c \<Rightarrow> dbc_allow_destructive c) existing db1 of
                     (Inl e, db2) \<Rightarrow> (Inl e, db2)
                   | (Inr _, db2) \<Rightarrow> index_table p t db2))))"

fun migrate_tables :: "(string, 'db pool) entries \<Rightarrow> (string, database_config) entries \<Rightarrow> table_config list \<Rightarrow> 'db
    \<Rightarrow> (app_error, unit) result \<times> 'db" where
  "migrate_tables pools databases [] db = (Inr (), db)"
| "migrate_tables pools databases (t # ts) db =
     (case migrate_table pools databases t db of
        (Inl e, db') \<Rightarrow> (Inl e, db')
      | (Inr _, db') \<Rightarrow> migrate_tables pools databases ts db')"

definition run_migrations :: "((nat, nat list) entries \<Rightarrow> (nat, nat list) entries) \<Rightarrow> table_config list \<Rightarrow> (string, 'db pool) entries
    \<Rightarrow> (string, database_config) entries \<Rightarrow> 'db \<Rightarrow> ((app_error, unit) result \<times> 'db) option" where
  "run_migrations iteration tables pools databases db =
     (case sort_tables_topologically iteration tables of
        None \<Rightarrow> None
      | Some (Inl e) \<Rightarrow> Some (Inl e, db)
      | Some (Inr ts) \<Rightarrow> Some (migrate_tables pools databases ts db))"

section \<open>The revocation table and media columns\<close>

definition revocation_ddl :: "database_driver \<Rightarrow> string" where
  "revocation_ddl d =
     (let q = (\<lambda>n. quote_identifier n d);
          key = (if d = Sqlite then ''TEXT'' else ''VARCHAR(255)'');
          stamp = (case d of Sqlite \<Rightarrow> ''TEXT'' | Postgres \<Rightarrow> ''TIMESTAMPTZ'' | Mysql \<Rightarrow> ''DATETIME'')
      in ''CREATE TABLE IF NOT EXISTS '' @ q ''token_blacklist'' @ '' ('' @ q ''jti'' @ '' '' @ key @ '' PRIMARY KEY NOT NULL, ''
           @ q ''revoked_at'' @ '' '' @ stamp @ '' NOT NULL, '' @ q ''expires_at'' @ '' '' @ stamp @ '' NOT NULL)'')"

fun create_in_pools :: "string \<Rightarrow> (string, 'db pool) entries \<Rightarrow> 'db \<Rightarrow> (app_error, unit) result \<times> 'db" where
  "create_in_pools sql [] db = (Inr (), db)"
| "create_in_pools sql ((name, p) # pools) db =
     (case run_ddl p (''Failed to create revocation table in database '' @ in_quotes name) sql db of
        (Inl e, db') \<Rightarrow> (Inl e, db')
      | (Inr _, db') \<Rightarrow> create_in_pools sql pools db')"

definition create_revocation_tables :: "(string, 'db pool) entries \<Rightarrow> 'db \<Rightarrow> (app_error, unit) result \<times> 'db" where
  "create_revocation_tables pools db =
     (case pools of [] \<Rightarrow> (Inr (), db) | (_, p) # _ \<Rightarrow> create_in_pools (revocation_ddl (pl_driver p)) pools db)"

fun media_tables :: "endpoint_config list \<Rightarrow> (string \<times> string) list \<Rightarrow> (string \<times> string) list" where
  "media_tables [] seen = seen"
| "media_tables (e # es) seen =
     (case ep_media e of
        None \<Rightarrow> media_tables es seen
      | Some m \<Rightarrow>
          (let key = (media_database m, media_table m) in media_tables es (if key \<in> set seen then seen else seen @ [key])))"

definition file_path_probe :: "database_driver \<Rightarrow> string \<Rightarrow> string \<times> json list" where
  "file_path_probe d table =
     (case d of
        Sqlite \<Rightarrow> (''SELECT COUNT(*) as cnt FROM pragma_table_info('' @ quote_identifier table d @ '') WHERE name = '' @ in_quotes ''file_path'', [])
      | Postgres \<Rightarrow> (''SELECT COUNT(*) as cnt FROM information_schema.columns WHERE table_name = $1 AND column_name = '' @ in_quotes ''file_path'', [JStr table])
      | Mysql \<Rightarrow> (''SELECT COUNT(*) as cnt FROM information_schema.columns WHERE table_name = ? AND column_name = '' @ in_quotes ''file_path'', [JStr table]))"

definition add_file_path :: "string \<Rightarrow> database_driver \<Rightarrow> string" where
  "add_file_path table d = ''ALTER TABLE '' @ quote_identifier table d @ '' ADD COLUMN '' @ [dquote_char] @ ''file_path'' @ [dquote_char] @ '' TEXT''"

fun ensure_columns :: "(string \<times> string) list \<Rightarrow> (string, 'db pool) entries \<Rightarrow> 'db \<Rightarrow> (app_error, unit) result \<times> 'db" where
  "ensure_columns [] pools db = (Inr (), db)"
| "ensure_columns ((database, table) # ts) pools db =
     (case map_of pools database of
        None \<Rightarrow> (Inl (ConfigurationError (''Database '' @ in_quotes database @ '' not found'')), db)
      | Some p \<Rightarrow>
          (case file_path_probe (pl_driver p) table of
             (sql, params) \<Rightarrow>
               (case fetch_optional_json p sql params db of
                  (Inl e, db') \<Rightarrow> (Inl e, db')
                | (Inr row, db') \<Rightarrow>
                    if (case row of None \<Rightarrow> False | Some r \<Rightarrow> (case json_get ''cnt'' r of None \<Rightarrow> False | Some v \<Rightarrow> (case as_i64 v of None \<Rightarrow> False | Some n \<Rightarrow> 0 < n)))
                    then ensure_columns ts pools db'
                    else
                      (case run_ddl p (''Failed to add file_path column to '' @ in_quotes table) (add_file_path table (pl_driver p)) db' of
                         (Inl e, db'') \<Rightarrow> (Inl e, db'')
                       | (Inr _, db'') \<Rightarrow> ensure_columns ts pools db''))))"

definition ensure_media_columns :: "endpoint_config list \<Rightarrow> (string, 'db pool) entries \<Rightarrow> 'db \<Rightarrow> (app_error, unit) result \<times> 'db" where
  "ensure_media_columns endpoints pools db = ensure_columns (media_tables endpoints []) pools db"

end
