(* ===== verification/Migration_Props.thy ===== *)
theory Migration_Props
  imports Migration
begin

text \<open>
  What migrations do to the tables: altering a table runs a prefix of a plan of added and dropped columns,
  whose effect on the set of columns is given abstractly, and a whole migration runs no statement that is
  not an introspection or planned from the configuration.
\<close>

section \<open>The plan of an alteration\<close>

datatype column_change = AddColumn column_config | DropColumn string

fun change_text :: "string \<Rightarrow> database_driver \<Rightarrow> column_change \<Rightarrow> string" where
  "change_text table d (AddColumn c) = generate_add_column table c d"
| "change_text table d (DropColumn n) = generate_drop_column table n d"

fun apply_change :: "column_change \<Rightarrow> string set \<Rightarrow> string set" where
  "apply_change (AddColumn c) ns = insert (col_name c) ns"
| "apply_change (DropColumn n) ns = ns - {n}"

definition addable :: "column_config \<Rightarrow> bool" where
  "addable c \<longleftrightarrow> \<not> col_primary_key c \<and> (col_nullable c \<or> col_default c \<noteq> None)"

definition additions :: "table_config \<Rightarrow> string list \<Rightarrow> column_change list" where
  "additions t existing = map AddColumn (filter (\<lambda>c. col_name c \<notin> set existing \<and> addable c) (tbl_columns t))"

definition removals :: "table_config \<Rightarrow> bool \<Rightarrow> string list \<Rightarrow> column_change list" where
  "removals t allow existing = (if allow then map DropColumn (filter (\<lambda>n. n \<notin> col_name ` set (tbl_columns t)) existing) else [])"

definition alter_plan :: "table_config \<Rightarrow> bool \<Rightarrow> string list \<Rightarrow> column_change list" where
  "alter_plan t allow existing = additions t existing @ removals t allow existing"

abbreviation changes_log :: "string \<Rightarrow> database_driver \<Rightarrow> column_change list \<Rightarrow> statement list" where
  "changes_log table d cs \<equiv> rev (map (\<lambda>c. (change_text table d c, [])) cs)"

lemma run_ddl_logged: "run_ddl (logged p) what sql (db, log) = (r, (db', log')) \<Longrightarrow> log' = (sql, []) # log"
  by (auto simp: run_ddl_def execute_raw_def logged_def Let_def split: prod.splits sum.splits)

text \<open>A step that runs a prefix of a plan, the whole plan when it succeeds.\<close>

definition ran_plan :: "string \<Rightarrow> database_driver \<Rightarrow> column_change list \<Rightarrow> (app_error, unit) result \<Rightarrow> statement list \<Rightarrow> statement list \<Rightarrow> bool" where
  "ran_plan table d plan r log log' \<longleftrightarrow>
     (\<exists>cs. prefix cs plan \<and> log' = changes_log table d cs @ log \<and> (is_ok r \<longrightarrow> cs = plan))"

lemma ran_plan_Nil: "ran_plan table d [] r log log"
  by (simp add: ran_plan_def)

lemma ran_plan_stop: "log1 = (change_text table d c, []) # log \<Longrightarrow> ran_plan table d (c # plan) (Inl e) log log1"
  unfolding ran_plan_def by (rule exI [of _ "[c]"]) simp

lemma ran_plan_Cons:
  assumes "ran_plan table d plan r ((change_text table d c, []) # log) log'"
  shows "ran_plan table d (c # plan) r log log'"
proof -
  from assms obtain cs where "prefix cs plan" "log' = changes_log table d cs @ (change_text table d c, []) # log" "is_ok r \<longrightarrow> cs = plan"
    unfolding ran_plan_def by blast
  then show ?thesis unfolding ran_plan_def by (intro exI [of _ "c # cs"]) simp
qed

lemma ran_plan_append_stop: "ran_plan table d plan (Inl e) log log' \<Longrightarrow> ran_plan table d (plan @ plan') (Inl e) log log'"
  unfolding ran_plan_def by (auto intro: prefix_prefix)

lemma ran_plan_append:
  assumes "ran_plan table d plan (Inr ()) log log1" "ran_plan table d plan' r log1 log'"
  shows "ran_plan table d (plan @ plan') r log log'"
proof -
  from assms obtain cs where "prefix cs plan'" "log' = changes_log table d (plan @ cs) @ log" "is_ok r \<longrightarrow> cs = plan'"
    unfolding ran_plan_def by auto
  then show ?thesis unfolding ran_plan_def by (intro exI [of _ "plan @ cs"]) simp
qed

lemma add_columns_plan:
  "add_columns (logged p) (tbl_name t) existing cols (db, log) = (r, (db', log')) \<Longrightarrow>
     ran_plan (tbl_name t) (pl_driver p) (map AddColumn (filter (\<lambda>c. col_name c \<notin> set existing \<and> addable c) cols)) r log log'"
proof (induction cols arbitrary: db log)
  case Nil
  then show ?case by (simp add: ran_plan_Nil)
next
  case (Cons c cols)
  show ?case
  proof (cases "col_name c \<notin> set existing \<and> addable c")
    case False
    with Cons show ?thesis by (auto simp: addable_def split: if_splits)
  next
    case True
    let ?sql = "generate_add_column (tbl_name t) c (pl_driver p)"
    obtain x db1 log1 where run: "run_ddl (logged p) (''Failed to add column '' @ in_quotes (col_name c) @ '' to table '' @ in_quotes (tbl_name t))
        ?sql (db, log) = (x, (db1, log1))" by (metis prod.exhaust)
    have log1: "log1 = (change_text (tbl_name t) (pl_driver p) (AddColumn c), []) # log" using run_ddl_logged [OF run] by simp
    have step: "add_columns (logged p) (tbl_name t) existing (c # cols) (db, log)
        = (case x of Inl e \<Rightarrow> (Inl e, (db1, log1)) | Inr _ \<Rightarrow> add_columns (logged p) (tbl_name t) existing cols (db1, log1))"
      using True run by (simp add: addable_def del: append.simps split: sum.split) auto
    show ?thesis
    proof (cases x)
      case (Inl e)
      from Cons.prems [unfolded step] Inl have "r = Inl e" "log' = log1" by simp_all
      then show ?thesis using True ran_plan_stop [OF log1] by simp
    next
      case (Inr u)
      from Cons.prems [unfolded step] Inr have "add_columns (logged p) (tbl_name t) existing cols (db1, log1) = (r, (db', log'))" by simp
      from Cons.IH [OF this] log1 True show ?thesis by (simp add: ran_plan_Cons)
    qed
  qed
qed

lemma drop_columns_plan:
  "drop_columns (logged p) table yaml allow names (db, log) = (r, (db', log')) \<Longrightarrow>
     ran_plan table (pl_driver p) (if allow then map DropColumn (filter (\<lambda>n. n \<notin> yaml) names) else []) r log log'"
proof (induction names arbitrary: db log)
  case Nil
  then show ?case by (simp add: ran_plan_Nil)
next
  case (Cons n names)
  show ?case
  proof (cases "n \<notin> yaml \<and> allow")
    case False
    with Cons show ?thesis by (cases "n \<in> yaml") auto
  next
    case True
    obtain x db1 log1 where run: "run_ddl (logged p) (''Failed to drop column '' @ in_quotes n @ '' from table '' @ in_quotes table)
        (generate_drop_column table n (pl_driver p)) (db, log) = (x, (db1, log1))" by (metis prod.exhaust)
    have log1: "log1 = (change_text table (pl_driver p) (DropColumn n), []) # log" using run_ddl_logged [OF run] by simp
    have step: "drop_columns (logged p) table yaml allow (n # names) (db, log)
        = (case x of Inl e \<Rightarrow> (Inl e, (db1, log1)) | Inr _ \<Rightarrow> drop_columns (logged p) table yaml allow names (db1, log1))"
      using True run by (simp del: append.simps split: sum.split)
    show ?thesis
    proof (cases x)
      case (Inl e)
      from Cons.prems [unfolded step] Inl have "r = Inl e" "log' = log1" by simp_all
      then show ?thesis using True ran_plan_stop [OF log1] by simp
    next
      case (Inr u)
      from Cons.prems [unfolded step] Inr have "drop_columns (logged p) table yaml allow names (db1, log1) = (r, (db', log'))" by simp
      from Cons.IH [OF this] log1 True show ?thesis by (simp add: ran_plan_Cons)
    qed
  qed
qed

lemma alter_ran_plan:
  assumes "alter_existing_table (logged p) t existing allow (db, log) = (r, (db', log'))"
  shows "ran_plan (tbl_name t) (pl_driver p) (alter_plan t allow existing) r log log'"
proof -
  obtain x db1 log1 where add: "add_columns (logged p) (tbl_name t) existing (tbl_columns t) (db, log) = (x, (db1, log1))"
    by (metis prod.exhaust)
  note added = add_columns_plan [OF add, folded additions_def]
  show ?thesis
  proof (cases x)
    case (Inl e)
    with assms add have "r = Inl e" "log' = log1" by (simp_all add: alter_existing_table_def)
    with added Inl show ?thesis by (simp add: alter_plan_def ran_plan_append_stop)
  next
    case (Inr u)
    with assms add have "drop_columns (logged p) (tbl_name t) (col_name ` set (tbl_columns t)) allow existing (db1, log1) = (r, (db', log'))"
      by (simp add: alter_existing_table_def)
    from drop_columns_plan [OF this, folded removals_def] added Inr show ?thesis
      by (simp add: alter_plan_def ran_plan_append)
  qed
qed

section \<open>The columns after an alteration\<close>

lemma fold_additions: "fold apply_change (map AddColumn cs) ns = col_name ` set cs \<union> ns"
  by (induction cs arbitrary: ns) auto

lemma fold_removals: "fold apply_change (map DropColumn xs) ns = ns - set xs"
  by (induction xs arbitrary: ns) auto

lemma fold_alter_plan:
  "fold apply_change (alter_plan t allow existing) (set existing)
     = (if allow then set existing \<inter> col_name ` set (tbl_columns t) else set existing) \<union> col_name ` {c \<in> set (tbl_columns t). addable c \<and> col_name c \<notin> set existing}"
  by (auto simp: alter_plan_def additions_def removals_def fold_additions fold_removals)

lemma fold_prefix_keeps:
  "prefix cs (alter_plan t allow existing) \<Longrightarrow> n \<in> set existing \<Longrightarrow> \<not> allow \<or> n \<in> col_name ` set (tbl_columns t) \<Longrightarrow>
     n \<in> fold apply_change cs (set existing)"
proof -
  assume *: "prefix cs (alter_plan t allow existing)" "n \<in> set existing" "\<not> allow \<or> n \<in> col_name ` set (tbl_columns t)"
  have "DropColumn n \<notin> set (alter_plan t allow existing)" using *(3) by (auto simp: alter_plan_def additions_def removals_def)
  then have "DropColumn n \<notin> set cs" using set_mono_prefix [OF *(1)] by blast
  then show ?thesis using *(2)
  proof (induction cs arbitrary: rule: rev_induct)
    case (snoc c cs)
    then show ?case by (cases c) auto
  qed simp
qed

text \<open>C39: altering an existing table runs, in order, the statements of a prefix of a plan made from the configuration and the
  columns the table has, the whole plan if it succeeds: first an ADD COLUMN for each configured column that the
  table lacks and that can be added (no key column, nullable or with a default), in the order of the configuration;
  then, only where destructive changes are allowed, a DROP COLUMN for each column of the table that is not configured.
  So no column the table has is added again, no configured column is dropped, and at every point, also of an
  alteration that fails half way, the table still has its configured columns and, unless destructive changes are allowed,
  all its columns. When it succeeds the table has, besides those it kept, all configured columns that can be added.\<close>

theorem alter_keeps_columns:
  assumes "alter_existing_table (logged p) t existing allow (db, log) = (r, (db', log'))"
  shows "\<exists>cs. prefix cs (alter_plan t allow existing) \<and> (is_ok r \<longrightarrow> cs = alter_plan t allow existing)
    \<and> log' = rev (map (\<lambda>c. (change_text (tbl_name t) (pl_driver p) c, [])) cs) @ log
    \<and> (\<forall>c. AddColumn c \<in> set cs \<longrightarrow> c \<in> set (tbl_columns t) \<and> col_name c \<notin> set existing)
    \<and> (\<forall>n. DropColumn n \<in> set cs \<longrightarrow> allow \<and> n \<in> set existing \<and> n \<notin> col_name ` set (tbl_columns t))
    \<and> (\<forall>n. set existing \<inter> (if allow then col_name ` set (tbl_columns t) else UNIV) \<subseteq> fold apply_change (take n cs) (set existing))
    \<and> (is_ok r \<longrightarrow> fold apply_change cs (set existing)
        = (if allow then set existing \<inter> col_name ` set (tbl_columns t) else set existing)
          \<union> col_name ` {c \<in> set (tbl_columns t). addable c \<and> col_name c \<notin> set existing})"
proof -
  from alter_ran_plan [OF assms] obtain cs where cs: "prefix cs (alter_plan t allow existing)"
    "log' = changes_log (tbl_name t) (pl_driver p) cs @ log" "is_ok r \<longrightarrow> cs = alter_plan t allow existing"
    unfolding ran_plan_def by blast
  have *: "prefix (take n cs) (alter_plan t allow existing)" for n
    using cs(1) take_is_prefix prefix_order.trans by blast
  then have keep: "set existing \<inter> (if allow then col_name ` set (tbl_columns t) else UNIV) \<subseteq> fold apply_change (take n cs) (set existing)" for n
    using fold_prefix_keeps [OF *] by (auto split: if_splits)
  have "set cs \<subseteq> set (alter_plan t allow existing)" using cs(1) by (rule set_mono_prefix)
  then have "AddColumn c \<in> set cs \<longrightarrow> c \<in> set (tbl_columns t) \<and> col_name c \<notin> set existing"
    "DropColumn n \<in> set cs \<longrightarrow> allow \<and> n \<in> set existing \<and> n \<notin> col_name ` set (tbl_columns t)" for c n
    by (auto simp: alter_plan_def additions_def removals_def split: if_splits)
  with cs keep fold_alter_plan show ?thesis by (intro exI [of _ cs]) auto
qed

definition sample_ddl_pool :: "unit pool" where
  "sample_ddl_pool = \<lparr> pl_driver = Sqlite, pl_query = (\<lambda>_ _ db. (Inr [], db)), pl_execute = (\<lambda>_ _ db. (Inr (0, 0), db)) \<rparr>"

definition sample_posts :: table_config where
  "sample_posts = \<lparr> tbl_name = ''posts'', tbl_database = ''main'',
     tbl_columns = [column_config_default \<lparr> col_name := ''id'', col_primary_key := True \<rparr>, column_config_default \<lparr> col_name := ''title'', col_nullable := True \<rparr>],
     tbl_foreign_keys = [] \<rparr>"

lemma sample_alter:
  "alter_existing_table (logged sample_ddl_pool) sample_posts [''id'', ''draft''] True ((), [])
   = (Inr (), ((), [(generate_drop_column ''posts'' ''draft'' Sqlite, []),
        (generate_add_column ''posts'' (column_config_default \<lparr> col_name := ''title'', col_nullable := True \<rparr>) Sqlite, [])]))"
  by (simp add: alter_existing_table_def sample_posts_def column_config_default_def run_ddl_def execute_raw_def logged_def sample_ddl_pool_def)

theorem alter_keeps_columns_witness:
  "\<exists>cs. cs = [AddColumn (column_config_default \<lparr> col_name := ''title'', col_nullable := True \<rparr>), DropColumn ''draft'']
    \<and> [(generate_drop_column ''posts'' ''draft'' Sqlite, [] :: bind list),
        (generate_add_column ''posts'' (column_config_default \<lparr> col_name := ''title'', col_nullable := True \<rparr>) Sqlite, [])]
      = rev (map (\<lambda>c. (change_text (tbl_name sample_posts) (pl_driver sample_ddl_pool) c, [])) cs) @ []"
proof -
  have p: "alter_plan sample_posts True [''id'', ''draft'']
      = [AddColumn (column_config_default \<lparr> col_name := ''title'', col_nullable := True \<rparr>), DropColumn ''draft'']"
    by (simp add: alter_plan_def additions_def removals_def addable_def sample_posts_def column_config_default_def)
  from alter_keeps_columns [OF sample_alter] obtain cs where
    cs: "is_ok (Inr () :: (app_error, unit) result) \<longrightarrow> cs = alter_plan sample_posts True [''id'', ''draft'']"
    and log: "[(generate_drop_column ''posts'' ''draft'' Sqlite, [] :: bind list),
        (generate_add_column ''posts'' (column_config_default \<lparr> col_name := ''title'', col_nullable := True \<rparr>) Sqlite, [])]
      = rev (map (\<lambda>c. (change_text (tbl_name sample_posts) (pl_driver sample_ddl_pool) c, [])) cs) @ []"
    by (elim exE conjE)
  from cs have "cs = alter_plan sample_posts True [''id'', ''draft'']" by (simp only: is_ok_simps simp_thms)
  with log show ?thesis unfolding p by (intro exI [of _ cs] conjI) (simp only:)+
qed

section \<open>The statements of a migration\<close>

definition may_migrate :: "(string, database_config) entries \<Rightarrow> table_config \<Rightarrow> bool" where
  "may_migrate databases t \<longleftrightarrow> (case map_of databases (tbl_database t) of None \<Rightarrow> True | Some c \<Rightarrow> dbc_auto_migrate c)"

definition may_destroy :: "(string, database_config) entries \<Rightarrow> table_config \<Rightarrow> bool" where
  "may_destroy databases t \<longleftrightarrow> (case map_of databases (tbl_database t) of None \<Rightarrow> False | Some c \<Rightarrow> dbc_allow_destructive c)"

definition introspection :: "database_driver \<Rightarrow> table_config \<Rightarrow> statement set" where
  "introspection d t = map_prod id (map bind_value) ` {introspect_columns d (tbl_name t), introspect_indexes d (tbl_name t)}"

definition planned :: "database_driver \<Rightarrow> bool \<Rightarrow> table_config \<Rightarrow> statement set" where
  "planned d allow t =
     {(generate_create_table t d, [])}
   \<union> {(generate_create_index (tbl_name t) (col_name c) d, []) | c. c \<in> set (tbl_columns t) \<and> col_indexed c}
   \<union> {(generate_add_column (tbl_name t) c d, []) | c. c \<in> set (tbl_columns t) \<and> addable c}
   \<union> {(generate_drop_column (tbl_name t) n d, []) | n. allow \<and> n \<notin> col_name ` set (tbl_columns t)}"

definition logged_pools :: "(string, 'db pool) entries \<Rightarrow> (string, ('db \<times> statement list) pool) entries" where
  "logged_pools pools = map (map_prod id logged) pools"

lemma map_of_logged_pools: "map_of (logged_pools pools) n = map_option logged (map_of pools n)"
  unfolding logged_pools_def by (induction pools) auto

lemma alter_planned:
  assumes "alter_existing_table (logged p) t existing allow (db, log) = (r, (db', log'))"
  shows "set log' \<subseteq> set log \<union> planned (pl_driver p) allow t"
proof -
  from alter_ran_plan [OF assms] obtain cs where cs: "prefix cs (alter_plan t allow existing)" "log' = changes_log (tbl_name t) (pl_driver p) cs @ log"
    unfolding ran_plan_def by blast
  have "c \<in> set (alter_plan t allow existing) \<Longrightarrow> (change_text (tbl_name t) (pl_driver p) c, []) \<in> planned (pl_driver p) allow t" for c
    by (cases c) (auto simp: alter_plan_def additions_def removals_def planned_def split: if_splits)
  with cs set_mono_prefix [OF cs(1)] show ?thesis by auto
qed

lemma create_or_alter_planned:
  assumes "create_or_alter (logged p) t allow existing (db, log) = (r, (db', log'))"
  shows "set log' \<subseteq> set log \<union> planned (pl_driver p) allow t"
proof (cases "existing = []")
  case True
  with assms have "run_ddl (logged p) (''Migration failed for table '' @ in_quotes (tbl_name t)) (generate_create_table t (pl_driver p)) (db, log) = (r, (db', log'))"
    by (simp add: create_or_alter_def)
  from run_ddl_logged [OF this] show ?thesis by (auto simp: planned_def)
next
  case False
  with assms have "alter_existing_table (logged p) t existing allow (db, log) = (r, (db', log'))" by (simp add: create_or_alter_def)
  then show ?thesis by (rule alter_planned)
qed

lemma create_indexes_planned:
  "create_indexes (logged p) (tbl_name t) existing cols (db, log) = (r, (db', log')) \<Longrightarrow> set cols \<subseteq> set (tbl_columns t) \<Longrightarrow>
     set log' \<subseteq> set log \<union> planned (pl_driver p) allow t"
proof (induction cols arbitrary: db log)
  case Nil
  then show ?case by auto
next
  case (Cons c cols)
  let ?create = "col_indexed c \<and> \<not> col_primary_key c \<and> \<not> (pl_driver p = Mysql \<and> index_name (tbl_name t) (col_name c) \<in> existing)"
  show ?case
  proof (cases ?create)
    case False
    then have "create_indexes (logged p) (tbl_name t) existing cols (db, log) = (r, (db', log'))" using Cons.prems(1) by (auto split: if_splits)
    with Cons show ?thesis by auto
  next
    case True
    obtain x db1 log1 where run: "run_ddl (logged p) (''Failed to create index on '' @ in_quotes (tbl_name t @ ''.'' @ col_name c))
        (generate_create_index (tbl_name t) (col_name c) (pl_driver p)) (db, log) = (x, (db1, log1))" by (metis prod.exhaust)
    have log1: "set log1 \<subseteq> set log \<union> planned (pl_driver p) allow t"
      using run_ddl_logged [OF run] True Cons.prems(2) by (auto simp: planned_def)
    have step: "create_indexes (logged p) (tbl_name t) existing (c # cols) (db, log)
        = (case x of Inl e \<Rightarrow> (Inl e, (db1, log1)) | Inr _ \<Rightarrow> create_indexes (logged p) (tbl_name t) existing cols (db1, log1))"
      using True run by (simp del: append.simps split: sum.split)
    show ?thesis
    proof (cases x)
      case (Inl e)
      from Cons.prems(1) [unfolded step] Inl log1 show ?thesis by simp
    next
      case (Inr u)
      from Cons.prems(1) [unfolded step] Inr have "create_indexes (logged p) (tbl_name t) existing cols (db1, log1) = (r, (db', log'))" by simp
      from Cons.IH [OF this] Cons.prems(2) log1 show ?thesis by auto
    qed
  qed
qed

lemma get_existing_columns_logged:
  "get_existing_columns (logged p) (tbl_name t) (db, log) = (r, (db', log')) \<Longrightarrow> set log' \<subseteq> set log \<union> introspection (pl_driver p) t"
  by (auto simp: get_existing_columns_def introspection_def split: prod.splits sum.splits dest!: logged_cases)

lemma get_existing_indexes_logged:
  "get_existing_indexes (logged p) (tbl_name t) (db, log) = (r, (db', log')) \<Longrightarrow> set log' \<subseteq> set log \<union> introspection (pl_driver p) t"
  by (auto simp: get_existing_indexes_def introspection_def split: prod.splits sum.splits dest!: logged_cases)

lemma index_table_planned:
  assumes "index_table (logged p) t (db, log) = (r, (db', log'))"
  shows "set log' \<subseteq> set log \<union> (introspection (pl_driver p) t \<union> planned (pl_driver p) allow t)"
proof -
  obtain x db1 log1 where idx: "(if pl_driver p = Mysql then get_existing_indexes (logged p) (tbl_name t) (db, log) else (Inr {}, (db, log)))
      = (x, (db1, log1))" by (metis prod.exhaust)
  then have log1: "set log1 \<subseteq> set log \<union> introspection (pl_driver p) t"
    by (auto split: if_splits dest!: get_existing_indexes_logged)
  show ?thesis
  proof (cases x)
    case (Inl e)
    with assms idx log1 show ?thesis by (auto simp: index_table_def)
  next
    case (Inr existing)
    with assms idx have "create_indexes (logged p) (tbl_name t) existing (tbl_columns t) (db1, log1) = (r, (db', log'))"
      by (simp add: index_table_def)
    from create_indexes_planned [OF this] log1 show ?thesis by blast
  qed
qed

definition allowed_statements :: "(string, 'db pool) entries \<Rightarrow> (string, database_config) entries \<Rightarrow> table_config \<Rightarrow> statement set" where
  "allowed_statements pools databases t =
     (if may_migrate databases t
      then (case map_of pools (tbl_database t) of
              None \<Rightarrow> {}
            | Some p \<Rightarrow> introspection (pl_driver p) t \<union> planned (pl_driver p) (may_destroy databases t) t)
      else {})"

lemma migrate_table_allowed:
  assumes "migrate_table (logged_pools pools) databases t (db, log) = (r, (db', log'))"
  shows "set log' \<subseteq> set log \<union> allowed_statements pools databases t"
proof (cases "may_migrate databases t")
  case False
  with assms show ?thesis by (auto simp: migrate_table_def may_migrate_def Let_def split: option.splits)
next
  case True
  then have go: "\<not> (case map_of databases (tbl_database t) of None \<Rightarrow> False | Some c \<Rightarrow> \<not> dbc_auto_migrate c)"
    by (auto simp: may_migrate_def split: option.splits)
  show ?thesis
  proof (cases "map_of pools (tbl_database t)")
    case None
    with assms go show ?thesis by (simp add: migrate_table_def map_of_logged_pools Let_def)
  next
    case (Some p)
    let ?ok = "introspection (pl_driver p) t \<union> planned (pl_driver p) (may_destroy databases t) t"
    have ok: "allowed_statements pools databases t = ?ok" using True Some by (simp add: allowed_statements_def)
    obtain x db1 log1 where get: "get_existing_columns (logged p) (tbl_name t) (db, log) = (x, (db1, log1))" by (metis prod.exhaust)
    note l1 = get_existing_columns_logged [OF get]
    have run: "migrate_table (logged_pools pools) databases t (db, log) = (case x of Inl e \<Rightarrow> (Inl e, (db1, log1))
        | Inr existing \<Rightarrow> (case create_or_alter (logged p) t (may_destroy databases t) existing (db1, log1) of
            (Inl e, db2) \<Rightarrow> (Inl e, db2) | (Inr _, db2) \<Rightarrow> index_table (logged p) t db2))"
      using go Some get by (simp add: migrate_table_def map_of_logged_pools may_destroy_def Let_def split: sum.split)
    show ?thesis
    proof (cases x)
      case (Inl e)
      with assms run l1 ok show ?thesis by auto
    next
      case (Inr existing)
      obtain y db2 log2 where alter: "create_or_alter (logged p) t (may_destroy databases t) existing (db1, log1) = (y, (db2, log2))"
        by (metis prod.exhaust)
      note l2 = create_or_alter_planned [OF alter]
      show ?thesis
      proof (cases y)
        case (Inl e)
        with assms run Inr alter l1 l2 ok show ?thesis by auto
      next
        case (Inr u)
        with assms run \<open>x = Inr existing\<close> alter have "index_table (logged p) t (db2, log2) = (r, (db', log'))" by simp
        from index_table_planned [OF this] l1 l2 ok show ?thesis by blast
      qed
    qed
  qed
qed

lemma migrate_tables_allowed:
  "migrate_tables (logged_pools pools) databases ts (db, log) = (r, (db', log')) \<Longrightarrow>
     set log' \<subseteq> set log \<union> (\<Union>t \<in> set ts. allowed_statements pools databases t)"
proof (induction ts arbitrary: db log)
  case Nil
  then show ?case by simp
next
  case (Cons t ts)
  obtain x db1 log1 where step: "migrate_table (logged_pools pools) databases t (db, log) = (x, (db1, log1))" by (metis prod.exhaust)
  note l1 = migrate_table_allowed [OF step]
  show ?case
  proof (cases x)
    case (Inl e)
    with Cons.prems step l1 show ?thesis by auto
  next
    case (Inr u)
    with Cons.prems step have "migrate_tables (logged_pools pools) databases ts (db1, log1) = (r, (db', log'))" by simp
    from Cons.IH [OF this] l1 show ?thesis by auto
  qed
qed

text \<open>C13: a migration never panics, and every statement it runs, even when it fails on the way, is an introspection or
  comes from the configuration of one table whose database may be migrated: the creation of the table or of an index on one of its columns, the
  addition of a configured column that is nullable or has a default, or, only where destructive changes are allowed,
  the removal of a column that is not configured.\<close>

theorem migration_runs_planned_statements:
  assumes "\<And>m. mset (iteration m) = mset m" "distinct (map tbl_name tables)"
  shows "\<exists>r db' log. run_migrations iteration tables (logged_pools pools) databases (db, []) = Some (r, (db', log))
    \<and> (\<forall>s \<in> set log. \<exists>t \<in> set tables. \<exists>p. may_migrate databases t \<and> map_of pools (tbl_database t) = Some p
        \<and> s \<in> introspection (pl_driver p) t \<union> planned (pl_driver p) (may_destroy databases t) t)"
proof -
  obtain x where sorted: "sort_tables_topologically iteration tables = Some x"
    using sort_tables_total [OF assms(1)] by blast
  show ?thesis
  proof (cases x)
    case (Inl e)
    with sorted show ?thesis by (simp add: run_migrations_def)
  next
    case (Inr ts)
    with sort_tables_subset [OF assms] sorted have ts: "set ts \<subseteq> set tables" by simp
    obtain r db' log where run: "migrate_tables (logged_pools pools) databases ts (db, []) = (r, (db', log))" by (metis prod.exhaust)
    from migrate_tables_allowed [OF run] ts
    have "\<forall>s \<in> set log. \<exists>t \<in> set tables. s \<in> allowed_statements pools databases t" by auto
    then have "\<forall>s \<in> set log. \<exists>t \<in> set tables. \<exists>p. may_migrate databases t \<and> map_of pools (tbl_database t) = Some p
        \<and> s \<in> introspection (pl_driver p) t \<union> planned (pl_driver p) (may_destroy databases t) t"
      by (fastforce simp: allowed_statements_def split: if_splits option.splits)
    with sorted Inr run show ?thesis by (simp add: run_migrations_def)
  qed
qed

theorem migration_runs_planned_statements_witness:
  "\<exists>r db' log. run_migrations rev sample_tables (logged_pools [(''main'', sample_ddl_pool)]) [] ((), []) = Some (r, (db', log))
    \<and> (\<forall>s \<in> set log. \<exists>t \<in> set sample_tables. \<exists>p. may_migrate [] t \<and> map_of [(''main'', sample_ddl_pool)] (tbl_database t) = Some p
        \<and> s \<in> introspection (pl_driver p) t \<union> planned (pl_driver p) (may_destroy [] t) t)"
  by (rule migration_runs_planned_statements) (simp_all add: sample_tables_def)

section \<open>DDL the databases refuse\<close>

text \<open>On SQLite every primary key column is given \<open>AUTOINCREMENT\<close>, which SQLite allows on \<open>INTEGER PRIMARY KEY\<close> only, and each column of a
  composite key a \<open>PRIMARY KEY\<close> of its own; a date column is a \<open>DATETIME\<close> on Postgres, which has no such type.\<close>

lemma sqlite_text_key:
  "generate_column_def (column_config_default \<lparr> col_name := ''id'', col_type := Uuid, col_primary_key := True \<rparr>) Sqlite
   = ''  '' @ [dquote_char] @ ''id'' @ [dquote_char] @ '' TEXT PRIMARY KEY AUTOINCREMENT NOT NULL''"
  by code_simp

lemma postgres_date: "column_type_to_sql Date Postgres = ''DATETIME''"
  by (simp add: column_type_to_sql_def)

lemma mysql_file_path: "add_file_path ''media'' Mysql = ''ALTER TABLE `media` ADD COLUMN '' @ [dquote_char] @ ''file_path'' @ [dquote_char] @ '' TEXT''"
  by (simp add: add_file_path_def)

end
