(* ===== verification/App_Config.thy ===== *)
theory App_Config
  imports Config_Types Auth_Types
begin

text \<open>
  The root of the configuration (src/config/types/mod.rs) with the server, logging and store sections
  (server.rs, logging.rs, store.rs). A hash map is the list of its entries in iteration order.
\<close>

record tls_config =
  tls_cert :: string
  tls_key :: string

record server_config =
  srv_host :: string
  srv_port :: nat
  srv_workers :: nat
  srv_max_body_size :: nat
  srv_keep_alive :: nat
  srv_shutdown_timeout :: nat
  srv_tls :: "tls_config option"

definition server_config_default :: server_config where
  "server_config_default = \<lparr> srv_host = ''127.0.0.1'', srv_port = 8080, srv_workers = 0, srv_max_body_size = 10485760,
     srv_keep_alive = 75, srv_shutdown_timeout = 30, srv_tls = None \<rparr>"

datatype log_level = LogTrace | LogDebug | LogInfo | LogWarn | LogError
datatype log_format = LogJson | LogPretty

record logging_config =
  lg_level :: log_level
  lg_format :: log_format
  lg_log_request_body :: bool
  lg_log_response_body :: bool
  lg_max_body_log_size :: nat

definition logging_config_default :: logging_config where
  "logging_config_default = \<lparr> lg_level = LogInfo, lg_format = LogPretty, lg_log_request_body = False,
     lg_log_response_body = False, lg_max_body_log_size = 16384 \<rparr>"

datatype store_backend = StoreNative | StoreS3 | StoreAzure | StoreGcs | StoreMemory

record s3_store_config =
  s3_region :: string
  s3_bucket :: string
  s3_access_key :: string
  s3_secret_key :: string
  s3_endpoint :: "string option"
  s3_force_path_style :: bool

record azure_store_config =
  az_account_name :: string
  az_account_key :: string
  az_container :: string

record gcs_store_config =
  gcs_project_id :: string
  gcs_credentials :: string
  gcs_bucket :: string

record store_config =
  sto_backend :: store_backend
  sto_root :: "string option"
  sto_s3 :: "s3_store_config option"
  sto_azure :: "azure_store_config option"
  sto_gcs :: "gcs_store_config option"

definition store_config_default :: store_config where
  "store_config_default = \<lparr> sto_backend = StoreNative, sto_root = None, sto_s3 = None, sto_azure = None, sto_gcs = None \<rparr>"

record app_config =
  ac_server :: server_config
  ac_logging :: logging_config
  ac_cors :: cors_config
  ac_rate_limit :: rate_limit_config
  ac_databases :: "(string, database_config) entries"
  ac_tables :: "table_config list"
  ac_auth :: auth_config
  ac_endpoints :: "endpoint_config list"
  ac_stores :: "(string, store_config) entries"
  ac_role_hierarchy :: "role_hierarchy option"
  ac_global_schemas :: "(string, yaml) entries option"

definition auth_config_default :: auth_config where
  "auth_config_default = \<lparr> au_jwt = None, au_api_key = None, au_basic = None, au_oauth2 = None, au_register = None \<rparr>"

definition app_config_default :: app_config where
  "app_config_default = \<lparr> ac_server = server_config_default, ac_logging = logging_config_default, ac_cors = cors_config_default,
     ac_rate_limit = rate_limit_config_default, ac_databases = [], ac_tables = [], ac_auth = auth_config_default, ac_endpoints = [],
     ac_stores = [], ac_role_hierarchy = None, ac_global_schemas = None \<rparr>"

end
