(* ===== verification/Validation.thy ===== *)
theory Validation
  imports App_Config Roles Sql_Helpers
begin

text \<open>
  Validation of a configuration (src/config/validation/). A validator returns the messages it appends;
  the search for cycles in the role hierarchy, a loop, is the one of the theory Roles.
\<close>

definition complain :: "bool \<Rightarrow> string \<Rightarrow> string list" where
  "complain bad message = (if bad then [message] else [])"

lemma complain_Nil [simp]: "complain bad message = [] \<longleftrightarrow> \<not> bad"
  by (simp add: complain_def)

abbreviation apos :: "string \<Rightarrow> string" where
  "apos s \<equiv> [quote_char] @ s @ [quote_char]"

text \<open>\<open>{:?}\<close> on a list of strings.\<close>

definition debug_list :: "string list \<Rightarrow> string" where
  "debug_list xs = ''['' @ join '', '' (map debug_text xs) @ '']''"

text \<open>A dash in a message, in UTF-8.\<close>

abbreviation em_dash :: string where
  "em_dash \<equiv> [CHR 0xE2, CHR 0x80, CHR 0x94]"

section \<open>Server, databases and CORS\<close>

definition validate_server :: "server_config \<Rightarrow> string list" where
  "validate_server s =
     complain (srv_host s = []) ''server.host must not be empty''
   @ (case srv_tls s of
        None \<Rightarrow> []
      | Some tls \<Rightarrow>
          complain (tls_cert tls = []) ''server.tls.cert must not be empty when TLS is configured''
        @ complain (tls_key tls = []) ''server.tls.key must not be empty when TLS is configured'')
   @ complain (srv_keep_alive s \<noteq> 0 \<and> srv_keep_alive s < 1) ''server.keep_alive must be 0 (disabled) or >= 1''
   @ complain (srv_shutdown_timeout s < 1) ''server.shutdown_timeout must be >= 1''"

definition validate_database :: "string \<times> database_config \<Rightarrow> string list" where
  "validate_database = (\<lambda>(name, db).
     complain (dbc_url db = []) (''databases.'' @ name @ ''.url must not be empty'')
   @ complain (dbc_max_connections db = 0) (''databases.'' @ name @ ''.max_connections must be > 0'')
   @ complain (dbc_max_connections db < dbc_min_connections db)
       (''databases.'' @ name @ ''.min_connections ('' @ show_nat (dbc_min_connections db) @ '') must be <= max_connections (''
          @ show_nat (dbc_max_connections db) @ '')''))"

definition validate_databases :: "app_config \<Rightarrow> string list" where
  "validate_databases config = concat (map validate_database (ac_databases config))"

definition validate_cors :: "cors_config \<Rightarrow> string \<Rightarrow> string list" where
  "validate_cors cors label =
     complain (''*'' \<in> set (cors_allowed_origins cors) \<and> cors_allow_credentials cors)
       (label @ '': allowed_origins contains '' @ [dquote_char] @ ''*'' @ [dquote_char]
          @ '' but allow_credentials is true '' @ em_dash @ '' these are mutually exclusive (RFC 6454)'')"

section \<open>Stores\<close>

definition store_sections :: "store_config \<Rightarrow> string list" where
  "store_sections s =
     (if sto_root s \<noteq> None then [''root''] else []) @ (if sto_s3 s \<noteq> None then [''s3''] else [])
   @ (if sto_azure s \<noteq> None then [''azure''] else []) @ (if sto_gcs s \<noteq> None then [''gcs''] else [])"

definition validate_store :: "string \<times> store_config \<Rightarrow> string list" where
  "validate_store = (\<lambda>(name, s).
     let label = ''stores.'' @ name in
     complain (1 < length (store_sections s))
       (label @ '': conflicting backend config sections: '' @ debug_list (store_sections s) @ '' (at most one allowed)'')
   @ (case sto_backend s of
        StoreNative \<Rightarrow> complain (unwrap_or (sto_root s) [] = []) (label @ '': root directory must not be empty for native backend'')
      | StoreMemory \<Rightarrow> complain (unwrap_or (sto_root s) [] \<noteq> []) (label @ '': root must not be set for memory backend'')
      | StoreS3 \<Rightarrow>
          (case sto_s3 s of
             None \<Rightarrow> [label @ '': s3 config section must be present for s3 backend'']
           | Some c \<Rightarrow> complain (s3_region c = []) (label @ '': s3.region must not be empty'')
               @ complain (s3_bucket c = []) (label @ '': s3.bucket must not be empty'')
               @ complain (s3_access_key c = []) (label @ '': s3.access_key must not be empty'')
               @ complain (s3_secret_key c = []) (label @ '': s3.secret_key must not be empty''))
      | StoreAzure \<Rightarrow>
          (case sto_azure s of
             None \<Rightarrow> [label @ '': azure config section must be present for azure backend'']
           | Some c \<Rightarrow> complain (az_account_name c = []) (label @ '': azure.account_name must not be empty'')
               @ complain (az_account_key c = []) (label @ '': azure.account_key must not be empty'')
               @ complain (az_container c = []) (label @ '': azure.container must not be empty''))
      | StoreGcs \<Rightarrow>
          (case sto_gcs s of
             None \<Rightarrow> [label @ '': gcs config section must be present for gcs backend'']
           | Some c \<Rightarrow> complain (gcs_project_id c = []) (label @ '': gcs.project_id must not be empty'')
               @ complain (gcs_credentials c = []) (label @ '': gcs.credentials must not be empty'')
               @ complain (gcs_bucket c = []) (label @ '': gcs.bucket must not be empty''))))"

definition validate_stores :: "(string, store_config) entries \<Rightarrow> string list" where
  "validate_stores stores = concat (map validate_store stores)"

section \<open>Tables\<close>

definition table_key :: "table_config \<Rightarrow> string" where
  "table_key t = tbl_name t @ ''.'' @ tbl_database t"

fun duplicate_tables :: "table_config list \<Rightarrow> string set \<Rightarrow> string list" where
  "duplicate_tables [] seen = []"
| "duplicate_tables (t # ts) seen =
     complain (table_key t \<in> seen) (''Duplicate table definition for '' @ apos (table_key t)) @ duplicate_tables ts (insert (table_key t) seen)"

definition validation_fields :: "column_config \<Rightarrow> string list" where
  "validation_fields c =
     (if col_validation_schema c \<noteq> None then [''validation_schema''] else []) @ (if col_validation c \<noteq> None then [''validation''] else [])
   @ (if col_validation_schema_ref c \<noteq> None then [''validation_schema_ref''] else [])"

fun validate_columns :: "string \<Rightarrow> column_config list \<Rightarrow> string set \<Rightarrow> string list" where
  "validate_columns label [] seen = []"
| "validate_columns label (c # cs) seen =
     complain (col_name c = []) (label @ '': has a column with an empty name'')
   @ complain (col_name c \<in> seen) (label @ '': has duplicate column name '' @ apos (col_name c))
   @ complain (validation_fields c \<noteq> [] \<and> \<not> is_json_type (col_type c))
       (label @ '': column '' @ apos (col_name c) @ '' has schema validation but type '' @ apos (column_type_str (col_type c)) @ '' is not jsonb or json'')
   @ complain (1 < length (validation_fields c))
       (label @ '': column '' @ apos (col_name c) @ '' has multiple schema validation fields set ('' @ join '', '' (validation_fields c)
          @ ''); at most one is allowed'')
   @ validate_columns label cs (insert (col_name c) seen)"

definition validate_foreign_key :: "string \<Rightarrow> table_config list \<Rightarrow> table_config \<Rightarrow> foreign_key_config \<Rightarrow> string list" where
  "validate_foreign_key label tables t fk =
     complain (fk_column fk \<notin> col_name ` set (tbl_columns t))
       (label @ '': foreign_keys references column '' @ apos (fk_column fk) @ '' which does not exist'')
   @ complain (\<not> list_ex (\<lambda>u. tbl_name u = fk_references_table fk \<and> tbl_database u = tbl_database t) tables)
       (label @ '': foreign_keys references table '' @ apos (fk_references_table fk) @ '' which is not defined'')"

definition validate_table :: "app_config \<Rightarrow> nat \<times> table_config \<Rightarrow> string list" where
  "validate_table config = (\<lambda>(i, t).
     let label = ''tables['' @ show_nat i @ ''] ('' @ tbl_name t @ '')'' in
     complain (map_of (ac_databases config) (tbl_database t) = None)
       (label @ '': references database '' @ apos (tbl_database t) @ '' which is not defined in databases'')
   @ complain (tbl_columns t = []) (label @ '': must have at least one column'')
   @ validate_columns label (tbl_columns t) {}
   @ complain (\<not> list_ex col_primary_key (tbl_columns t)) (label @ '': must have at least one primary key column'')
   @ concat (map (validate_foreign_key label (ac_tables config) t) (tbl_foreign_keys t)))"

definition validate_tables :: "app_config \<Rightarrow> string list" where
  "validate_tables config =
     duplicate_tables (ac_tables config) {} @ concat (map (validate_table config) (enumerate 0 (ac_tables config)))"

section \<open>Endpoints\<close>

definition endpoint_label :: "nat \<Rightarrow> endpoint_config \<Rightarrow> string" where
  "endpoint_label i ep = ''endpoints['' @ show_nat i @ ''] ('' @ ep_path ep @ '')''"

definition check_store :: "string \<Rightarrow> string \<Rightarrow> app_config \<Rightarrow> string \<Rightarrow> string list" where
  "check_store label section config store =
     (if store = [] then [label @ '': '' @ section @ ''.storage must not be empty'']
      else complain (map_of (ac_stores config) store = None)
        (label @ '': '' @ section @ ''.storage references store '' @ apos store @ '' which is not defined in stores''))"

definition check_table :: "string \<Rightarrow> string \<Rightarrow> app_config \<Rightarrow> string \<Rightarrow> string list" where
  "check_table label section config table =
     (if table = [] then [label @ '': '' @ section @ ''.table must not be empty'']
      else complain (\<not> list_ex (\<lambda>t. tbl_name t = table) (ac_tables config))
        (label @ '': '' @ section @ ''.table '' @ apos table @ '' is not defined in tables''))"

text \<open>The wording for an undefined database differs between the sections.\<close>

definition check_database :: "string \<Rightarrow> string \<Rightarrow> app_config \<Rightarrow> string \<Rightarrow> string \<Rightarrow> string list" where
  "check_database label section config database undefined_message =
     (if database = [] then [label @ '': '' @ section @ ''.database must not be empty'']
      else complain (map_of (ac_databases config) database = None) (label @ '': '' @ section @ ''.database '' @ undefined_message))"

definition check_fragment :: "string \<Rightarrow> string \<Rightarrow> string list" where
  "check_fragment fragment message = complain (\<not> is_safe_sql_fragment fragment) message"

definition validate_crud_endpoint :: "nat \<Rightarrow> endpoint_config \<Rightarrow> app_config \<Rightarrow> string list" where
  "validate_crud_endpoint i ep config =
     (let label = endpoint_label i ep in
      case ep_crud ep of
        None \<Rightarrow> [label @ '': action is '' @ apos ''crud'' @ '' but no crud config provided'']
      | Some crud \<Rightarrow>
          check_table label ''crud'' config (crud_table crud)
        @ check_database label ''crud'' config (crud_database crud) (apos (crud_database crud) @ '' is not defined in databases'')
        @ complain (pgn_default_page_size (crud_pagination crud) < 1) (label @ '': crud.pagination.default_page_size must be >= 1'')
        @ complain (pgn_max_page_size (crud_pagination crud) < pgn_default_page_size (crud_pagination crud))
            (label @ '': crud.pagination.default_page_size must be <= max_page_size ('' @ show_nat (pgn_max_page_size (crud_pagination crud)) @ '')'')
        @ complain (100 < pgn_max_page_size (crud_pagination crud))
            (label @ '': crud.pagination.max_page_size must be <= 100 (spec section 13.1)'')
        @ (case crud_where_clause crud of
             None \<Rightarrow> []
           | Some wc \<Rightarrow> check_fragment wc (label @ '': crud.where_clause contains unsafe SQL characters (;, --, /*)''))
        @ concat (map (\<lambda>(ji, j).
              check_fragment (join_on j) (label @ '': crud.joins['' @ show_nat ji @ ''].on contains unsafe SQL characters'')
            @ check_fragment (join_table j) (label @ '': crud.joins['' @ show_nat ji @ ''].table contains unsafe SQL characters''))
              (enumerate 0 (crud_joins crud)))
        @ concat (map (\<lambda>(ci, cf).
              check_fragment (cmp_expression cf) (label @ '': crud.computed_fields['' @ show_nat ci @ ''].expression contains unsafe SQL characters'')
            @ check_fragment (cmp_name cf) (label @ '': crud.computed_fields['' @ show_nat ci @ ''].name contains unsafe SQL characters''))
              (enumerate 0 (crud_computed_fields crud))))"

definition validate_proxy_endpoint :: "nat \<Rightarrow> endpoint_config \<Rightarrow> string list" where
  "validate_proxy_endpoint i ep =
     (let label = endpoint_label i ep in
      case ep_proxy ep of
        None \<Rightarrow> [label @ '': action is '' @ apos ''proxy'' @ '' but no proxy config provided'']
      | Some proxy \<Rightarrow> complain (prx_upstream proxy = []) (label @ '': proxy.upstream must not be empty''))"

definition validate_static_files_endpoint :: "nat \<Rightarrow> endpoint_config \<Rightarrow> app_config \<Rightarrow> string list" where
  "validate_static_files_endpoint i ep config =
     (let label = endpoint_label i ep in
      case ep_static_files ep of
        None \<Rightarrow> [label @ '': action is '' @ apos ''static_files'' @ '' but no static_files config provided'']
      | Some sf \<Rightarrow> check_store label ''static_files'' config (stat_storage sf))"

definition validate_spa_host_endpoint :: "nat \<Rightarrow> endpoint_config \<Rightarrow> app_config \<Rightarrow> string list" where
  "validate_spa_host_endpoint i ep config =
     (let label = endpoint_label i ep in
      case ep_spa_host ep of
        None \<Rightarrow> [label @ '': action is '' @ apos ''spa_host'' @ '' but no spa_host config provided'']
      | Some spa \<Rightarrow> check_store label ''spa_host'' config (spa_storage spa))"

definition validate_media_endpoint :: "nat \<Rightarrow> endpoint_config \<Rightarrow> app_config \<Rightarrow> string list" where
  "validate_media_endpoint i ep config =
     (let label = endpoint_label i ep in
      case ep_media ep of
        None \<Rightarrow> [label @ '': action is '' @ apos ''media'' @ '' but no media config provided'']
      | Some m \<Rightarrow>
          check_store label ''media'' config (media_storage m) @ check_table label ''media'' config (media_table m)
        @ check_database label ''media'' config (media_database m) (''references database '' @ apos (media_database m) @ '' which is not defined in databases''))"

definition validate_file_store_endpoint :: "nat \<Rightarrow> endpoint_config \<Rightarrow> app_config \<Rightarrow> string list" where
  "validate_file_store_endpoint i ep config =
     (let label = endpoint_label i ep in
      case ep_file_store ep of
        None \<Rightarrow> [label @ '': action is '' @ apos ''file_store'' @ '' but no file_store config provided'']
      | Some fs \<Rightarrow>
          check_store label ''file_store'' config (fs_storage fs) @ check_table label ''file_store'' config (fs_table fs)
        @ check_database label ''file_store'' config (fs_database fs) (''references database '' @ apos (fs_database fs) @ '' which is not defined in databases''))"

definition validate_custom_response_endpoint :: "nat \<Rightarrow> endpoint_config \<Rightarrow> string list" where
  "validate_custom_response_endpoint i ep =
     (let label = endpoint_label i ep in
      case ep_custom_response ep of
        None \<Rightarrow> [label @ '': action is '' @ apos ''custom_response'' @ '' but no custom_response config provided'']
      | Some cr \<Rightarrow>
          complain (cust_status cr < 100 \<or> 599 < cust_status cr) (label @ '': custom_response.status must be a valid HTTP status code (100-599)''))"

definition validate_endpoint :: "app_config \<Rightarrow> nat \<times> endpoint_config \<Rightarrow> string list" where
  "validate_endpoint config = (\<lambda>(i, ep).
     complain (ep_path ep = []) (endpoint_label i ep @ '': path must not be empty'')
   @ complain (ep_methods ep = []) (endpoint_label i ep @ '': must have at least one HTTP method'')
   @ (case ep_action ep of
        ActCrud \<Rightarrow> validate_crud_endpoint i ep config
      | ActProxy \<Rightarrow> validate_proxy_endpoint i ep
      | ActStaticFiles \<Rightarrow> validate_static_files_endpoint i ep config
      | ActSpaHost \<Rightarrow> validate_spa_host_endpoint i ep config
      | ActMedia \<Rightarrow> validate_media_endpoint i ep config
      | ActFileStore \<Rightarrow> validate_file_store_endpoint i ep config
      | ActCustomResponse \<Rightarrow> validate_custom_response_endpoint i ep))"

definition validate_endpoints :: "app_config \<Rightarrow> string list" where
  "validate_endpoints config = concat (map (validate_endpoint config) (enumerate 0 (ac_endpoints config)))"

section \<open>Authentication\<close>

definition valid_providers :: "auth_config \<Rightarrow> string list" where
  "valid_providers auth =
     [''none''] @ (if au_jwt auth \<noteq> None then [''jwt''] else []) @ (if au_api_key auth \<noteq> None then [''api_key''] else [])
   @ (if au_basic auth \<noteq> None then [''basic''] else []) @ (if au_oauth2 auth \<noteq> None then [''oauth2''] else [])"

definition validate_provider :: "auth_config \<Rightarrow> nat \<times> endpoint_config \<Rightarrow> string list" where
  "validate_provider auth = (\<lambda>(i, ep).
     complain (ep_auth ep \<notin> set (valid_providers auth))
       (endpoint_label i ep @ '': auth '' @ apos (ep_auth ep) @ '' is not a configured auth provider (available: ''
          @ debug_list (valid_providers auth) @ '')''))"

definition validate_jwt :: "jwt_config \<Rightarrow> string list" where
  "validate_jwt jwt =
     complain (jwt_secret jwt = []) ''auth.jwt.secret must not be empty''
   @ (case jwt_revocation jwt of
        None \<Rightarrow> []
      | Some r \<Rightarrow>
          (case rev_store r of
             RevInMemory \<Rightarrow> []
           | RevDatabase \<Rightarrow>
               complain (unwrap_or (rev_db_table r) [] = []) ''auth.jwt.revocation.db_table must not be empty when store is database''
             @ complain (rev_cleanup_interval_secs r = Some 0) ''auth.jwt.revocation.cleanup_interval_secs must be > 0''))"

definition validate_oauth2 :: "auth_config \<Rightarrow> oauth2_config \<Rightarrow> string list" where
  "validate_oauth2 auth oauth2 =
     (if oa_authorization_url oauth2 = [] then []
      else
        complain (au_jwt auth = None)
          (''auth.jwt must be configured when OAuth2 code flow is enabled (authorization_url is set) ''
             @ ''because a JWT is minted after login'')
      @ complain (oa_token_url oauth2 = []) ''auth.oauth2.token_url must not be empty when authorization_url is set''
      @ complain (oa_client_id oauth2 = []) ''auth.oauth2.client_id must not be empty when authorization_url is set''
      @ complain (oa_redirect_url oauth2 = []) ''auth.oauth2.redirect_url must not be empty when authorization_url is set''
      @ (case oa_role_mapping oauth2 of
           None \<Rightarrow> []
         | Some m \<Rightarrow>
             complain (rm_role_map m = []) ''auth.oauth2.role_mapping.role_map must not be empty when role_mapping is configured''
           @ complain (rm_default_role m = []) ''auth.oauth2.role_mapping.default_role must not be empty''))"

definition validate_register :: "register_config \<Rightarrow> string list" where
  "validate_register r =
     (if reg_enabled r then
        complain (reg_table r = []) ''auth.register.table must not be empty when registration is enabled''
      @ complain (reg_database r = []) ''auth.register.database must not be empty when registration is enabled''
      @ complain (reg_default_role r = []) ''auth.register.default_role must not be empty''
      else [])"

definition validate_auth :: "app_config \<Rightarrow> string list" where
  "validate_auth config =
     (let auth = ac_auth config in
      concat (map (validate_provider auth) (enumerate 0 (ac_endpoints config)))
    @ (case au_jwt auth of None \<Rightarrow> [] | Some jwt \<Rightarrow> validate_jwt jwt)
    @ (case au_api_key auth of None \<Rightarrow> [] | Some k \<Rightarrow> complain (ak_keys k = []) ''auth.api_key.keys must contain at least one key'')
    @ (case au_oauth2 auth of None \<Rightarrow> [] | Some oauth2 \<Rightarrow> validate_oauth2 auth oauth2)
    @ (case au_register auth of None \<Rightarrow> [] | Some r \<Rightarrow> validate_register r))"

section \<open>The whole configuration\<close>

definition validate_endpoint_cors :: "nat \<times> endpoint_config \<Rightarrow> string list" where
  "validate_endpoint_cors = (\<lambda>(i, ep). case ep_cors ep of None \<Rightarrow> [] | Some cors \<Rightarrow> validate_cors cors (endpoint_label i ep))"

text \<open>\<open>None\<close>: the search for cycles would not return (it always does).\<close>

definition validate_config :: "app_config \<Rightarrow> (app_error, unit) result option" where
  "validate_config config =
     (case validate_role_hierarchy (ac_role_hierarchy config)
             (validate_server (ac_server config) @ validate_databases config @ validate_stores (ac_stores config)
              @ validate_tables config @ validate_endpoints config @ validate_auth config) of
        None \<Rightarrow> None
      | Some before \<Rightarrow>
          (let errors = before @ validate_cors (ac_cors config) ''cors''
                 @ concat (map validate_endpoint_cors (enumerate 0 (ac_endpoints config)))
           in Some (if errors = [] then Inr ()
                    else Inl (ValidationError (''Configuration validation failed:'' @ [CHR 0x0A] @ ''  - '' @ join ([CHR 0x0A] @ ''  - '') errors)))))"

end
