(* ===== verification/Validation_Props.thy ===== *)
theory Validation_Props
  imports Validation Authenticate Crud_Handlers
begin

text \<open>
  What validation guarantees at run time: the section every endpoint's handler needs is there and refers to
  stores, tables and databases that exist, authentication finds the provider it needs, tables have the keys
  their statements need and foreign keys have their targets, and the fragments of SQL that reach the text
  of a query are checked.
\<close>

section \<open>A valid configuration passes every check\<close>

lemma validate_cycles_extends: "validate_cycles roles rs st errors = Some es \<Longrightarrow> errors \<noteq> [] \<Longrightarrow> es \<noteq> []"
  by (induction roles rs st errors rule: validate_cycles.induct) (auto split: option.splits if_splits prod.splits)

lemma hierarchy_extends: "validate_role_hierarchy h errors = Some [] \<Longrightarrow> errors = []"
proof (cases h)
  case (Some roles)
  assume "validate_role_hierarchy h errors = Some []"
  then have "validate_cycles roles (map fst roles) (\<lambda>_. 0) (errors @ self_loop_errors roles) = Some []"
    by (simp add: validate_role_hierarchy_def Some)
  with validate_cycles_extends show "errors = []" by blast
qed (simp add: validate_role_hierarchy_def)

lemma validated_parts:
  assumes "validate_config c = Some (Inr ())"
  shows "validate_server (ac_server c) = []" "validate_databases c = []" "validate_stores (ac_stores c) = []" "validate_tables c = []"
    "validate_endpoints c = []" "validate_auth c = []" "validate_role_hierarchy (ac_role_hierarchy c) [] = Some []"
    "validate_cors (ac_cors c) ''cors'' = []"
proof -
  let ?es = "validate_server (ac_server c) @ validate_databases c @ validate_stores (ac_stores c) @ validate_tables c
    @ validate_endpoints c @ validate_auth c"
  from assms obtain before where before: "validate_role_hierarchy (ac_role_hierarchy c) ?es = Some before"
    "before @ validate_cors (ac_cors c) ''cors'' @ concat (map validate_endpoint_cors (enumerate 0 (ac_endpoints c))) = []"
    by (auto simp: validate_config_def Let_def split: option.splits if_splits)
  then have "before = []" and cors: "validate_cors (ac_cors c) ''cors'' = []" by simp_all
  with before(1) have h: "validate_role_hierarchy (ac_role_hierarchy c) ?es = Some []" by simp
  from hierarchy_extends [OF h] have "?es = []" .
  with h cors show "validate_server (ac_server c) = []" "validate_databases c = []" "validate_stores (ac_stores c) = []" "validate_tables c = []"
    "validate_endpoints c = []" "validate_auth c = []" "validate_role_hierarchy (ac_role_hierarchy c) [] = Some []"
    "validate_cors (ac_cors c) ''cors'' = []" by simp_all
qed

lemma in_enumerate: "x \<in> set xs \<Longrightarrow> \<exists>i. (i, x) \<in> set (enumerate 0 xs)"
proof -
  assume "x \<in> set xs"
  then obtain i where "i < length xs" "xs ! i = x" by (auto simp: in_set_conv_nth)
  then have "(i, x) \<in> set (enumerate 0 xs)" by (simp add: in_set_enumerate_eq)
  then show ?thesis ..
qed

lemma validated_endpoint:
  assumes "validate_config c = Some (Inr ())" "e \<in> set (ac_endpoints c)"
  shows "\<exists>i. validate_endpoint c (i, e) = [] \<and> validate_provider (ac_auth c) (i, e) = []"
proof -
  from in_enumerate [OF assms(2)] obtain i where i: "(i, e) \<in> set (enumerate 0 (ac_endpoints c))" by blast
  have "concat (map (validate_endpoint c) (enumerate 0 (ac_endpoints c))) = []"
    "concat (map (validate_provider (ac_auth c)) (enumerate 0 (ac_endpoints c))) = []"
    using validated_parts(5,6) [OF assms(1)] by (simp_all only: validate_endpoints_def validate_auth_def Let_def append_is_Nil_conv)
  with i show ?thesis by (force simp: concat_eq_Nil_conv)
qed

section \<open>Endpoints\<close>

definition known_table :: "app_config \<Rightarrow> string \<Rightarrow> bool" where
  "known_table c n \<longleftrightarrow> (\<exists>t \<in> set (ac_tables c). tbl_name t = n)"

definition section_resolves :: "app_config \<Rightarrow> endpoint_config \<Rightarrow> bool" where
  "section_resolves c e \<longleftrightarrow>
     (case ep_action e of
        ActCrud \<Rightarrow> (\<exists>x. ep_crud e = Some x \<and> known_table c (crud_table x) \<and> crud_database x \<in> dom (map_of (ac_databases c)))
      | ActProxy \<Rightarrow> (\<exists>x. ep_proxy e = Some x \<and> prx_upstream x \<noteq> [])
      | ActStaticFiles \<Rightarrow> (\<exists>x. ep_static_files e = Some x \<and> stat_storage x \<in> dom (map_of (ac_stores c)))
      | ActSpaHost \<Rightarrow> (\<exists>x. ep_spa_host e = Some x \<and> spa_storage x \<in> dom (map_of (ac_stores c)))
      | ActMedia \<Rightarrow> (\<exists>x. ep_media e = Some x \<and> media_storage x \<in> dom (map_of (ac_stores c)) \<and> known_table c (media_table x)
          \<and> media_database x \<in> dom (map_of (ac_databases c)))
      | ActFileStore \<Rightarrow> (\<exists>x. ep_file_store e = Some x \<and> fs_storage x \<in> dom (map_of (ac_stores c)) \<and> known_table c (fs_table x)
          \<and> fs_database x \<in> dom (map_of (ac_databases c)))
      | ActCustomResponse \<Rightarrow> (\<exists>x. ep_custom_response e = Some x \<and> 100 \<le> cust_status x \<and> cust_status x \<le> 599))"

lemma check_Nil:
  "check_store label sec c s = [] \<Longrightarrow> s \<in> dom (map_of (ac_stores c))"
  "check_table label sec c n = [] \<Longrightarrow> known_table c n"
  "check_database label sec c d m = [] \<Longrightarrow> d \<in> dom (map_of (ac_databases c))"
  by (auto simp: check_store_def check_table_def check_database_def known_table_def list_ex_iff split: if_splits)

lemma validated_section:
  "validate_endpoint c (i, e) = [] \<Longrightarrow> section_resolves c e"
  by (cases "ep_action e")
    (auto simp: section_resolves_def validate_endpoint_def validate_crud_endpoint_def validate_proxy_endpoint_def
      validate_static_files_endpoint_def validate_spa_host_endpoint_def validate_media_endpoint_def validate_file_store_endpoint_def
      validate_custom_response_endpoint_def Let_def dest!: check_Nil split: option.splits)

lemma validated_provider:
  assumes "validate_provider (ac_auth c) (i, e) = []" "authenticate w (ep_auth e) (ac_auth c) headers qp revoked = Inl (ConfigurationError m)"
  shows "ep_auth e = ''oauth2'' \<and> (\<exists>cfg. au_oauth2 (ac_auth c) = Some cfg \<and> oa_userinfo_url cfg = [])"
proof -
  have "ep_auth e \<in> set (valid_providers (ac_auth c))" using assms(1) by (simp add: validate_provider_def)
  then consider "ep_auth e = ''none''" | cfg where "ep_auth e = ''jwt''" "au_jwt (ac_auth c) = Some cfg"
    | cfg where "ep_auth e = ''api_key''" "au_api_key (ac_auth c) = Some cfg" | cfg where "ep_auth e = ''basic''" "au_basic (ac_auth c) = Some cfg"
    | cfg where "ep_auth e = ''oauth2''" "au_oauth2 (ac_auth c) = Some cfg"
    by (auto simp: valid_providers_def split: if_splits)
  then show ?thesis
  proof cases
    case 1
    with assms(2) show ?thesis by (simp add: authenticate_def)
  next
    case 2
    with assms(2) show ?thesis
      by (auto simp: authenticate_def authenticate_jwt_def request_token_def validate_token_def ok_or_def Let_def split: option.splits sum.splits if_splits)
  next
    case 3
    with assms(2) show ?thesis
      by (auto simp: authenticate_def authenticate_api_key_def validate_api_key_def Let_def split: option.splits sum.splits if_splits)
  next
    case 4
    with assms(2) show ?thesis
      by (auto simp: authenticate_def authenticate_basic_def validate_basic_auth_def ok_or_def Let_def split: option.splits sum.splits if_splits prod.splits app_error.splits verification.splits)
  next
    case 5
    with assms(2) show ?thesis
      by (auto simp: authenticate_def authenticate_oauth2_def validate_oauth2_token_def fetch_userinfo_def ok_or_def Let_def split: option.splits sum.splits if_splits prod.splits http_outcome.splits)
  qed
qed

lemma get_db_context_ok:
  "map_of pools db = Some p \<Longrightarrow> is_ok (get_db_context pools tables db table) \<longleftrightarrow> (\<exists>t \<in> set tables. tbl_name t = table \<and> tbl_database t = db)"
proof (cases "find (\<lambda>t. tbl_name t = table \<and> tbl_database t = db) tables")
  case None
  moreover assume "map_of pools db = Some p"
  ultimately show ?thesis by (auto simp: get_db_context_def db_pool_def) (auto simp: find_None_iff)
next
  case (Some t)
  moreover assume "map_of pools db = Some p"
  ultimately show ?thesis using find_Some_iff_first [OF Some] by (auto simp: get_db_context_def db_pool_def)
qed

text \<open>Where the pool of its database is open, a CRUD request finds its table exactly when that is defined in
  the database of the endpoint; validation looks for the table in any database.\<close>

lemma crud_table_found:
  assumes "validate_config c = Some (Inr ())" "e \<in> set (ac_endpoints c)" "dom (map_of pools) = dom (map_of (ac_databases c))"
    and "ep_crud e = Some crud" "ep_action e = ActCrud"
  shows "is_ok (get_db_context pools (ac_tables c) (crud_database crud) (crud_table crud)) \<longleftrightarrow>
     (\<exists>t \<in> set (ac_tables c). tbl_name t = crud_table crud \<and> tbl_database t = crud_database crud)"
proof -
  from validated_endpoint [OF assms(1,2)] obtain i where "validate_endpoint c (i, e) = []" by blast
  from validated_section [OF this] assms(4,5) have "crud_database crud \<in> dom (map_of pools)" by (simp add: section_resolves_def assms(3))
  then obtain p where "map_of pools (crud_database crud) = Some p" by blast
  then show ?thesis by (rule get_db_context_ok)
qed

text \<open>C14: in a configuration that passes validation every endpoint has the section its action needs; every
  store and every database that this section names is configured, and a table of the name it gives is
  defined, though possibly in another database than the endpoint's (validation does not compare them); a
  proxy names an upstream and a custom response a status from 100 to 599. Authenticating a request to the
  endpoint never fails with a configuration error, except where the endpoint uses OAuth2 and its provider
  has no userinfo_url, which validation does not ask for.\<close>

theorem validated_endpoints_resolve:
  assumes "validate_config c = Some (Inr ())" "e \<in> set (ac_endpoints c)"
  shows "section_resolves c e
    \<and> (\<forall>w headers qp revoked m. authenticate w (ep_auth e) (ac_auth c) headers qp revoked = Inl (ConfigurationError m) \<longrightarrow>
         ep_auth e = ''oauth2'' \<and> (\<exists>cfg. au_oauth2 (ac_auth c) = Some cfg \<and> oa_userinfo_url cfg = []))"
proof -
  from validated_endpoint [OF assms(1,2)] obtain i where i: "validate_endpoint c (i, e) = []" "validate_provider (ac_auth c) (i, e) = []" by blast
  with validated_section [OF i(1)] validated_provider [OF i(2)] show ?thesis by blast
qed

section \<open>Tables, roles and fragments\<close>

lemma validate_columns_distinct:
  "validate_columns label cs seen = [] \<Longrightarrow> distinct (map col_name cs) \<and> [] \<notin> col_name ` set cs \<and> col_name ` set cs \<inter> seen = {}"
  by (induction label cs seen rule: validate_columns.induct) auto

lemma validated_table:
  assumes "validate_table c (i, t) = []"
  shows "is_ok (find_pk_column t)" "distinct (map col_name (tbl_columns t))" "tbl_database t \<in> dom (map_of (ac_databases c))"
    "\<forall>fk \<in> set (tbl_foreign_keys t). fk_column fk \<in> col_name ` set (tbl_columns t)
      \<and> (\<exists>u \<in> set (ac_tables c). tbl_name u = fk_references_table fk \<and> tbl_database u = tbl_database t)"
proof -
  let ?label = "''tables['' @ show_nat i @ ''] ('' @ tbl_name t @ '')''"
  from assms have parts: "map_of (ac_databases c) (tbl_database t) \<noteq> None" "validate_columns ?label (tbl_columns t) {} = []"
    "list_ex col_primary_key (tbl_columns t)" "\<forall>fk \<in> set (tbl_foreign_keys t). validate_foreign_key ?label (ac_tables c) t fk = []"
    by (simp_all add: validate_table_def Let_def)
  show "is_ok (find_pk_column t)" using parts(3)
    by (auto simp: find_pk_column_def find_pk_def list_ex_iff find_None_iff split: option.splits)
  show "distinct (map col_name (tbl_columns t))" using validate_columns_distinct [OF parts(2)] by simp
  show "tbl_database t \<in> dom (map_of (ac_databases c))" using parts(1) by blast
  show "\<forall>fk \<in> set (tbl_foreign_keys t). fk_column fk \<in> col_name ` set (tbl_columns t)
      \<and> (\<exists>u \<in> set (ac_tables c). tbl_name u = fk_references_table fk \<and> tbl_database u = tbl_database t)"
    using parts(4) by (auto simp: validate_foreign_key_def list_ex_iff)
qed

lemma duplicate_tables_distinct:
  "duplicate_tables ts seen = [] \<Longrightarrow> distinct (map table_key ts) \<and> table_key ` set ts \<inter> seen = {}"
  by (induction ts seen rule: duplicate_tables.induct) auto

text \<open>C27: in a configuration that passes validation no two tables share name and database, and every table
  has a primary key, columns of different names and a configured database; every foreign key starts at a
  column of its table and names a table of the same database (the column it references there is not
  checked). If a role hierarchy is configured, with its roles named once as in any map, no role inherits
  from itself, directly or through others.\<close>

theorem validated_tables_well_formed:
  assumes "validate_config c = Some (Inr ())"
  shows "distinct (map (\<lambda>t. (tbl_name t, tbl_database t)) (ac_tables c))
    \<and> (\<forall>t \<in> set (ac_tables c). is_ok (find_pk_column t) \<and> distinct (map col_name (tbl_columns t))
        \<and> tbl_database t \<in> dom (map_of (ac_databases c))
        \<and> (\<forall>fk \<in> set (tbl_foreign_keys t). fk_column fk \<in> col_name ` set (tbl_columns t)
            \<and> (\<exists>u \<in> set (ac_tables c). tbl_name u = fk_references_table fk \<and> tbl_database u = tbl_database t)))
    \<and> (\<forall>roles. ac_role_hierarchy c = Some roles \<and> wf_entries roles \<longrightarrow> acyclic (parent_rel roles))"
proof (intro conjI ballI allI impI)
  note tables = validated_parts(4) [OF assms, unfolded validate_tables_def append_is_Nil_conv]
  have "distinct (map table_key (ac_tables c))" using duplicate_tables_distinct tables by blast
  then have "distinct (map (\<lambda>(n, d). n @ ''.'' @ d) (map (\<lambda>t. (tbl_name t, tbl_database t)) (ac_tables c)))"
    by (simp add: comp_def table_key_def [abs_def])
  then show "distinct (map (\<lambda>t. (tbl_name t, tbl_database t)) (ac_tables c))" by (rule distinct_map [THEN iffD1, THEN conjunct1])
  fix t assume "t \<in> set (ac_tables c)"
  from in_enumerate [OF this] obtain i where "(i, t) \<in> set (enumerate 0 (ac_tables c))" by blast
  with tables have "validate_table c (i, t) = []" by (force simp: concat_eq_Nil_conv)
  note t = validated_table [OF this]
  show "is_ok (find_pk_column t)" "distinct (map col_name (tbl_columns t))" "tbl_database t \<in> dom (map_of (ac_databases c))" by (rule t)+
  fix fk assume "fk \<in> set (tbl_foreign_keys t)"
  with t(4) show "fk_column fk \<in> col_name ` set (tbl_columns t)"
    "\<exists>u \<in> set (ac_tables c). tbl_name u = fk_references_table fk \<and> tbl_database u = tbl_database t" by blast+
next
  fix roles assume "ac_role_hierarchy c = Some roles \<and> wf_entries roles"
  then show "acyclic (parent_rel roles)"
    using hierarchy_checked [of roles "[]"] validated_parts(7) [OF assms] by auto
qed

section \<open>A valid configuration\<close>

text \<open>The table of the endpoint is defined, but in another database.\<close>

definition sample_config :: app_config where
  "sample_config = app_config_default \<lparr>
     ac_databases := [(''main'', database_config_default \<lparr> dbc_url := ''sqlite::memory:'' \<rparr>), (''other'', database_config_default \<lparr> dbc_url := ''sqlite::memory:'' \<rparr>)],
     ac_tables := [\<lparr> tbl_name = ''items'', tbl_database = ''other'',
        tbl_columns = [column_config_default \<lparr> col_name := ''id'', col_primary_key := True \<rparr>], tbl_foreign_keys = [] \<rparr>],
     ac_endpoints := [(sample_endpoint ''/items'' [Get] ''none'') \<lparr> ep_action := ActCrud,
        ep_crud := Some (crud_config_default \<lparr> crud_table := ''items'', crud_database := ''main'' \<rparr>) \<rparr>],
     ac_role_hierarchy := Some [(''admin'', [''user''])] \<rparr>"

lemma sample_config_valid: "validate_config sample_config = Some (Inr ())"
proof -
  have "validate_server (ac_server sample_config) = []"
    by (simp add: sample_config_def app_config_default_def server_config_default_def validate_server_def)
  moreover have "validate_databases sample_config = []" "validate_stores (ac_stores sample_config) = []"
    by (simp_all add: sample_config_def app_config_default_def database_config_default_def validate_databases_def validate_database_def validate_stores_def)
  moreover have "validate_tables sample_config = []"
    by (simp add: sample_config_def app_config_default_def validate_tables_def validate_table_def validation_fields_def
      column_config_default_def enumerate_eq_zip)
  moreover have "validate_endpoints sample_config = []" "validate_auth sample_config = []"
    "concat (map validate_endpoint_cors (enumerate 0 (ac_endpoints sample_config))) = []"
    by (simp_all add: sample_config_def app_config_default_def sample_endpoint_def validate_endpoints_def validate_endpoint_def validate_crud_endpoint_def
      check_table_def check_database_def crud_config_default_def pagination_config_default_def validate_auth_def validate_provider_def
      valid_providers_def auth_config_default_def validate_endpoint_cors_def Let_def)
  moreover have "validate_cors (ac_cors sample_config) ''cors'' = []"
    by (simp add: sample_config_def app_config_default_def cors_config_default_def validate_cors_def)
  moreover have "validate_role_hierarchy (ac_role_hierarchy sample_config) [] = Some []"
  proof -
    have "validate_role_hierarchy (Some [(''admin'', [''user''])]) [] = Some []" by code_simp
    then show ?thesis by (simp add: sample_config_def)
  qed
  ultimately show ?thesis by (simp add: validate_config_def)
qed

lemma sample_config_dangling:
  "\<not> is_ok (get_db_context [(''main'', p), (''other'', q)] (ac_tables sample_config) ''main'' ''items'')"
  by (simp add: get_db_context_def db_pool_def sample_config_def)

theorem validated_endpoints_resolve_witness:
  "\<exists>e \<in> set (ac_endpoints sample_config). ep_action e = ActCrud \<and> section_resolves sample_config e"
proof
  show e: "hd (ac_endpoints sample_config) \<in> set (ac_endpoints sample_config)" by (simp add: sample_config_def)
  show "ep_action (hd (ac_endpoints sample_config)) = ActCrud \<and> section_resolves sample_config (hd (ac_endpoints sample_config))"
    using validated_endpoints_resolve [OF sample_config_valid e] by (simp add: sample_config_def)
qed

theorem validated_tables_well_formed_witness:
  "is_ok (find_pk_column (hd (ac_tables sample_config))) \<and> acyclic (parent_rel [(''admin'', [''user''])])"
  using validated_tables_well_formed [OF sample_config_valid] by (simp add: sample_config_def wf_entries_def)

text \<open>The WHERE clauses of updates and deletes are not looked at.\<close>

lemma mutation_clauses_unchecked:
  "ep_crud ep = Some crud \<Longrightarrow>
   validate_crud_endpoint i (ep \<lparr> ep_crud := Some (crud \<lparr> crud_update_where_clause := u, crud_delete_where_clause := d \<rparr>) \<rparr>) c
     = validate_crud_endpoint i ep c"
  by (simp add: validate_crud_endpoint_def endpoint_label_def)

end
