(* ===== verification/Loader.thy ===== *)
theory Loader
  imports Validation Paths "HOL-Library.Char_ord" "HOL-Library.List_Lexorder"
begin

text \<open>
  Loading a configuration (src/config/loader.rs): environment variables, YAML files with includes, and the
  final validation. YAML parsing, globbing, the file system and the decoding of the tree into the configuration type are
  arguments. Loading a file takes one unit of fuel; \<open>None\<close> is running out of it, which is shown not to
  happen with more fuel than there are files.
\<close>

section \<open>Environment variables\<close>

text \<open>The regular expression \<open>\${([A-Za-z_][A-Za-z0-9_]*)(?::-((?:[^}])*))?}\<close>: at a dollar sign it gives the name, the default and
  the rest of the text. The match ends at the first closing brace.\<close>

definition name_start :: "char \<Rightarrow> bool" where
  "name_start c \<longleftrightarrow> is_ascii_alpha c \<or> c = CHR ''_''"

definition name_char :: "char \<Rightarrow> bool" where
  "name_char c \<longleftrightarrow> name_start c \<or> is_digit c"

definition env_default :: "string \<Rightarrow> (string option \<times> string) option" where
  "env_default s =
     (case s of
        [] \<Rightarrow> None
      | c # cs \<Rightarrow>
          if c = CHR ''}'' then Some (None, cs)
          else
            (case strip_prefix '':-'' s of
               None \<Rightarrow> None
             | Some tail \<Rightarrow>
                 (case dropWhile (\<lambda>c. c \<noteq> CHR ''}'') tail of
                    [] \<Rightarrow> None
                  | _ # after \<Rightarrow> Some (Some (takeWhile (\<lambda>c. c \<noteq> CHR ''}'') tail), after))))"

definition env_reference :: "string \<Rightarrow> (string \<times> string option \<times> string) option" where
  "env_reference s =
     (case strip_prefix ''${'' s of
        None \<Rightarrow> None
      | Some body \<Rightarrow>
          (let name = takeWhile name_char body in
           if name = [] \<or> \<not> name_start (hd name) then None
           else
             (case env_default (dropWhile name_char body) of
                None \<Rightarrow> None
              | Some (dflt, after) \<Rightarrow> Some (name, dflt, after))))"

lemma env_default_shorter: "env_default s = Some (d, rest) \<Longrightarrow> length rest < length s"
proof -
  have "length (dropWhile P xs) \<le> length xs" for P :: "char \<Rightarrow> bool" and xs by (rule length_dropWhile_le)
  then have "dropWhile P xs = c # after \<Longrightarrow> length after < length xs" for P :: "char \<Rightarrow> bool" and xs c after
    by (metis Suc_le_eq length_Cons)
  then show "env_default s = Some (d, rest) \<Longrightarrow> length rest < length s"
    by (fastforce simp: env_default_def split: list.splits if_splits option.splits)
qed

lemma env_reference_shorter: "env_reference s = Some (n, d, rest) \<Longrightarrow> length rest < length s"
proof -
  assume "env_reference s = Some (n, d, rest)"
  then obtain body where body: "s = ''${'' @ body" "env_default (dropWhile name_char body) = Some (d, rest)"
    by (auto simp: env_reference_def Let_def split: option.splits if_splits)
  from env_default_shorter [OF body(2)] length_dropWhile_le [of name_char body] show "length rest < length s" by (simp add: body(1))
qed

text \<open>The replacement text and the errors, in order.\<close>

function replace_references :: "(string \<Rightarrow> string option) \<Rightarrow> string \<Rightarrow> string \<times> string list" where
  "replace_references env s =
     (case s of
        [] \<Rightarrow> ([], [])
      | c # cs \<Rightarrow>
          (case env_reference s of
             None \<Rightarrow> (let (text, errors) = replace_references env cs in (c # text, errors))
           | Some (name, dflt, after) \<Rightarrow>
               (let (text, errors) = replace_references env after in
                case or_else (env name) dflt of
                  Some v \<Rightarrow> (v @ text, errors)
                | None \<Rightarrow> (''${UNSET_'' @ name @ ''}'' @ text,
                           (''Environment variable '' @ apos name @ '' is not set and has no default'') # errors))))"
  by pat_completeness auto
termination by (relation "measure (\<lambda>(env, s). length s)") (auto dest: env_reference_shorter)

declare replace_references.simps [simp del]

definition interpolate_env_vars :: "(string \<Rightarrow> string option) \<Rightarrow> string \<Rightarrow> (app_error, string) result" where
  "interpolate_env_vars env input =
     (case replace_references env input of
        (text, errors) \<Rightarrow>
          if errors \<noteq> [] then Inl (ConfigurationError (''Environment variable interpolation failed:'' @ [CHR 0x0A] @ ''  - ''
            @ join ([CHR 0x0A] @ ''  - '') errors))
          else Inr text)"

section \<open>YAML trees\<close>

fun yaml_kind :: "yaml \<Rightarrow> string" where
  "yaml_kind YNull = ''null''"
| "yaml_kind (YBool _) = ''boolean''"
| "yaml_kind (YNumber _) = ''number''"
| "yaml_kind (YSeq _) = ''sequence''"
| "yaml_kind (YMap _) = ''mapping''"
| "yaml_kind (YString _) = ''string''"
| "yaml_kind (YTagged _ _) = ''tagged''"

abbreviation include_key :: yaml where
  "include_key \<equiv> YString ''$include''"

text \<open>The order of paths: component by component.\<close>

fun component_rank :: "component \<Rightarrow> nat" where
  "component_rank RootDir = 0"
| "component_rank CurDir = 1"
| "component_rank ParentDir = 2"
| "component_rank (Normal _) = 3"

instantiation component :: linorder
begin

definition less_eq_component :: "component \<Rightarrow> component \<Rightarrow> bool" where
  "less_eq_component a b \<longleftrightarrow>
     component_rank a < component_rank b \<or> component_rank a = component_rank b \<and> component_text a \<le> component_text b"

definition less_component :: "component \<Rightarrow> component \<Rightarrow> bool" where
  "less_component a b \<longleftrightarrow> a \<le> b \<and> \<not> b \<le> (a :: component)"

instance
proof
  fix x y z :: component
  show "x < y \<longleftrightarrow> x \<le> y \<and> \<not> y \<le> x" by (simp add: less_component_def)
  show "x \<le> x" by (simp add: less_eq_component_def)
  show "x \<le> y \<Longrightarrow> y \<le> z \<Longrightarrow> x \<le> z" by (auto simp: less_eq_component_def)
  show "x \<le> y \<Longrightarrow> y \<le> x \<Longrightarrow> x = y" by (cases x; cases y) (auto simp: less_eq_component_def)
  show "x \<le> y \<or> y \<le> x" by (auto simp: less_eq_component_def)
qed

end

section \<open>Loading as a state with errors\<close>

text \<open>The state is the set of the files visited, which only grows.\<close>

type_synonym 'a loading = "path set \<Rightarrow> (app_error, 'a \<times> path set) result option"

definition loaded :: "'a \<Rightarrow> 'a loading" where
  "loaded a = (\<lambda>visited. Some (Inr (a, visited)))"

definition load_fails :: "string \<Rightarrow> 'a loading" where
  "load_fails message = (\<lambda>visited. Some (Inl (ConfigurationError message)))"

definition load_result :: "(app_error, 'a) result \<Rightarrow> 'a loading" where
  "load_result r = (\<lambda>visited. Some (case r of Inl e \<Rightarrow> Inl e | Inr a \<Rightarrow> Inr (a, visited)))"

definition load_bind :: "'a loading \<Rightarrow> ('a \<Rightarrow> 'b loading) \<Rightarrow> 'b loading" where
  "load_bind m f = (\<lambda>visited.
     case m visited of
       None \<Rightarrow> None
     | Some (Inl e) \<Rightarrow> Some (Inl e)
     | Some (Inr (a, visited')) \<Rightarrow> f a visited')"

section \<open>Includes\<close>

record loader_env =
  le_env_var :: "string \<Rightarrow> string option"
  le_canonicalize :: "path \<Rightarrow> (string, path) result"
  le_read :: "path \<Rightarrow> (string, string) result"
  le_yaml :: "string \<Rightarrow> (string, yaml) result"
  le_glob :: "path \<Rightarrow> (string, (string, path) result list) result"
  le_decode :: "yaml \<Rightarrow> (string, app_config) result"

text \<open>\<open>collect\<close> into a \<open>Result\<close>: the first error wins.\<close>

fun collect_results :: "('e, 'a) result list \<Rightarrow> ('e, 'a list) result" where
  "collect_results [] = Inr []"
| "collect_results (r # rs) =
     (case r of
        Inl e \<Rightarrow> Inl e
      | Inr a \<Rightarrow> (case collect_results rs of Inl e \<Rightarrow> Inl e | Inr as \<Rightarrow> Inr (a # as)))"

definition canonical_include :: "loader_env \<Rightarrow> path \<Rightarrow> (app_error, path) result" where
  "canonical_include env p =
     (case le_canonicalize env p of
        Inl e \<Rightarrow> Inl (ConfigurationError (''Failed to resolve include path '' @ path_text p @ '': '' @ e))
      | Inr q \<Rightarrow> Inr q)"

definition resolve_glob :: "loader_env \<Rightarrow> string \<Rightarrow> path \<Rightarrow> (app_error, path list) result" where
  "resolve_glob env pattern base_dir =
     (case le_glob env (path_join base_dir (components pattern)) of
        Inl e \<Rightarrow> Inl (ConfigurationError (''Invalid $include glob pattern '' @ apos pattern @ '': '' @ e))
      | Inr found \<Rightarrow>
          (case collect_results found of
             Inl e \<Rightarrow> Inl (ConfigurationError (''Error reading $include glob '' @ apos pattern @ '': '' @ e))
           | Inr paths \<Rightarrow> collect_results (map (canonical_include env) (sort paths))))"

text \<open>The files an include names: its value must be a string, it must be alone in its mapping, and something must match.\<close>

definition include_files :: "loader_env \<Rightarrow> string \<Rightarrow> path \<Rightarrow> (yaml \<times> yaml) list \<Rightarrow> yaml \<Rightarrow> (app_error, path list) result" where
  "include_files env place base_dir m include_val =
     (case include_val of
        YString pattern \<Rightarrow>
          if 1 < length m then Inl (ConfigurationError (''$include in a '' @ place @ '' must be the only key''))
          else
            (case resolve_glob env pattern base_dir of
               Inl e \<Rightarrow> Inl e
             | Inr files \<Rightarrow>
                 if files = [] then
                   Inl (ConfigurationError (''$include pattern '' @ apos pattern @ '' matched no files (resolved from ''
                     @ path_text base_dir @ '')''))
                 else Inr files)
      | _ \<Rightarrow> Inl (ConfigurationError (''$include value must be a string, got '' @ yaml_kind include_val)))"

fun load_all :: "(path \<Rightarrow> yaml loading) \<Rightarrow> path list \<Rightarrow> yaml list loading" where
  "load_all load [] = loaded []"
| "load_all load (p # ps) = load_bind (load p) (\<lambda>v. load_bind (load_all load ps) (\<lambda>vs. loaded (v # vs)))"

fun merge_all :: "(path \<Rightarrow> yaml loading) \<Rightarrow> path list \<Rightarrow> (yaml, yaml) entries \<Rightarrow> yaml loading" where
  "merge_all load [] merged = loaded (YMap merged)"
| "merge_all load (p # ps) merged =
     load_bind (load p) (\<lambda>v.
       case v of
         YMap m \<Rightarrow> merge_all load ps (fold (\<lambda>(k, v). entries_insert k v) m merged)
       | _ \<Rightarrow> load_fails (''$include in a mapping context requires YAML files that produce mappings, but ''
                @ path_text p @ '' produced a non-mapping value''))"

definition load_mapping_include :: "(path \<Rightarrow> yaml loading) \<Rightarrow> path list \<Rightarrow> yaml loading" where
  "load_mapping_include load files = (if length files = 1 then load (hd files) else merge_all load files [])"

definition include_of :: "yaml \<Rightarrow> ((yaml \<times> yaml) list \<times> yaml) option" where
  "include_of item =
     (case item of YMap m \<Rightarrow> (case map_of m include_key of None \<Rightarrow> None | Some v \<Rightarrow> Some (m, v)) | _ \<Rightarrow> None)"

fun resolve_includes :: "loader_env \<Rightarrow> (path \<Rightarrow> yaml loading) \<Rightarrow> path \<Rightarrow> yaml \<Rightarrow> yaml loading"
  and resolve_sequence_includes :: "loader_env \<Rightarrow> (path \<Rightarrow> yaml loading) \<Rightarrow> path \<Rightarrow> yaml list \<Rightarrow> yaml list loading"
  and resolve_mapping_values :: "loader_env \<Rightarrow> (path \<Rightarrow> yaml loading) \<Rightarrow> path \<Rightarrow> (yaml \<times> yaml) list \<Rightarrow> (yaml \<times> yaml) list loading" where
  "resolve_includes env load base_dir (YMap m) =
     (case map_of m include_key of
        Some include_val \<Rightarrow>
          load_bind (load_result (include_files env ''mapping'' base_dir m include_val)) (load_mapping_include load)
      | None \<Rightarrow> load_bind (resolve_mapping_values env load base_dir m) (\<lambda>m'. loaded (YMap m')))"
| "resolve_includes env load base_dir (YSeq items) =
     load_bind (resolve_sequence_includes env load base_dir items) (\<lambda>vs. loaded (YSeq vs))"
| "resolve_includes env load base_dir v = loaded v"
| "resolve_sequence_includes env load base_dir [] = loaded []"
| "resolve_sequence_includes env load base_dir (item # items) =
     load_bind
       (case include_of item of
          Some (m, include_val) \<Rightarrow>
            load_bind (load_result (include_files env ''sequence item'' base_dir m include_val)) (load_all load)
        | None \<Rightarrow> load_bind (resolve_includes env load base_dir item) (\<lambda>v. loaded [v]))
       (\<lambda>vs. load_bind (resolve_sequence_includes env load base_dir items) (\<lambda>ws. loaded (vs @ ws)))"
| "resolve_mapping_values env load base_dir [] = loaded []"
| "resolve_mapping_values env load base_dir ((k, v) # m) =
     load_bind (resolve_includes env load base_dir v) (\<lambda>v'.
       load_bind (resolve_mapping_values env load base_dir m) (\<lambda>m'. loaded ((k, v') # m')))"

section \<open>Files\<close>

definition parse_file :: "loader_env \<Rightarrow> path \<Rightarrow> (app_error, yaml) result" where
  "parse_file env p =
     (case le_read env p of
        Inl e \<Rightarrow> Inl (ConfigurationError (''Failed to read config file '' @ path_text p @ '': '' @ e))
      | Inr raw \<Rightarrow>
          (case interpolate_env_vars (le_env_var env) raw of
             Inl e \<Rightarrow> Inl e
           | Inr text \<Rightarrow>
               (case le_yaml env text of
                  Inl e \<Rightarrow> Inl (ConfigurationError (''Failed to parse YAML in '' @ path_text p @ '': '' @ e))
                | Inr v \<Rightarrow> Inr v)))"

fun load_yaml_with_includes :: "nat \<Rightarrow> loader_env \<Rightarrow> path \<Rightarrow> yaml loading" where
  "load_yaml_with_includes 0 env p visited = None"
| "load_yaml_with_includes (Suc fuel) env p visited =
     (if p \<in> visited then
        Some (Inl (ConfigurationError (''Circular $include detected: '' @ path_text p @ '' was already included'')))
      else
        load_bind (load_result (parse_file env p))
          (resolve_includes env (load_yaml_with_includes fuel env) (unwrap_or (path_parent p) [CurDir]))
          (insert p visited))"

text \<open>\<open>None\<close> is running out of fuel.\<close>

definition load_config :: "nat \<Rightarrow> loader_env \<Rightarrow> path \<Rightarrow> (app_error, app_config) result option" where
  "load_config fuel env p =
     (case le_canonicalize env p of
        Inl e \<Rightarrow> Some (Inl (ConfigurationError (''Failed to resolve config path '' @ path_text p @ '': '' @ e)))
      | Inr canonical \<Rightarrow>
          (case load_yaml_with_includes fuel env canonical {} of
             None \<Rightarrow> None
           | Some (Inl e) \<Rightarrow> Some (Inl e)
           | Some (Inr (value, _)) \<Rightarrow>
               (case le_decode env value of
                  Inl e \<Rightarrow> Some (Inl (ConfigurationError (''Failed to parse YAML config: '' @ e)))
                | Inr config \<Rightarrow>
                    (case validate_config config of
                       None \<Rightarrow> None
                     | Some (Inl e) \<Rightarrow> Some (Inl e)
                     | Some (Inr _) \<Rightarrow> Some (Inr config)))))"

end
