(* ===== verification/Loader_Props.thy ===== *)
theory Loader_Props
  imports Loader Validation_Props
begin

text \<open>
  What loading a configuration gives. Three readings of a loading step carry the proofs, each closed under the
  sequencing of steps: that it ends within its fuel and only adds files of a given set, that more fuel does
  not change its outcome, and that its value has a property.
\<close>

section \<open>Ending within the fuel\<close>

definition ends :: "path set \<Rightarrow> nat \<Rightarrow> 'a loading \<Rightarrow> bool" where
  "ends F n m \<longleftrightarrow> (\<forall>visited \<subseteq> F. card (F - visited) < n \<longrightarrow>
     (\<exists>r. m visited = Some r \<and> (\<forall>a visited'. r = Inr (a, visited') \<longrightarrow> visited \<subseteq> visited' \<and> visited' \<subseteq> F)))"

lemma ends_simps [intro, simp]: "ends F n (loaded a)" "ends F n (load_fails msg)" "ends F n (load_result r)"
  by (auto simp: ends_def loaded_def load_fails_def load_result_def split: sum.splits)

lemma ends_bind [intro]:
  assumes "finite F" "ends F n m" "\<And>a. ends F n (f a)"
  shows "ends F n (load_bind m f)"
  unfolding ends_def
proof (intro allI impI)
  fix visited assume visited: "visited \<subseteq> F" "card (F - visited) < n"
  with assms(2) [unfolded ends_def, rule_format, OF visited] obtain r where
    r: "m visited = Some r" "\<forall>a visited'. r = Inr (a, visited') \<longrightarrow> visited \<subseteq> visited' \<and> visited' \<subseteq> F" by blast
  show "\<exists>r. load_bind m f visited = Some r \<and> (\<forall>a visited'. r = Inr (a, visited') \<longrightarrow> visited \<subseteq> visited' \<and> visited' \<subseteq> F)"
  proof (cases r)
    case (Inl e)
    then show ?thesis by (simp add: load_bind_def r(1))
  next
    case (Inr p)
    obtain a visited' where p: "p = (a, visited')" by (cases p)
    with r(2) Inr have grown: "visited \<subseteq> visited'" "visited' \<subseteq> F" by auto
    have "card (F - visited') \<le> card (F - visited)" using grown(1) assms(1) by (intro card_mono) auto
    with visited(2) grown(2) obtain r' where
      "f a visited' = Some r'" "\<forall>a visited''. r' = Inr (a, visited'') \<longrightarrow> visited' \<subseteq> visited'' \<and> visited'' \<subseteq> F"
      using assms(3) [of a] unfolding ends_def by (metis le_less_trans)
    with grown(1) show ?thesis by (auto simp: load_bind_def r(1) Inr p)
  qed
qed

lemma include_files_subset:
  assumes "include_files env place b m v = Inr ps" "\<forall>p q. le_canonicalize env p = Inr q \<longrightarrow> q \<in> F"
  shows "set ps \<subseteq> F"
proof -
  have "collect_results rs = Inr as \<Longrightarrow> \<forall>a \<in> set as. Inr a \<in> set rs" for rs :: "(app_error, path) result list" and as
    by (induction rs arbitrary: as) (auto split: sum.splits)
  moreover from assms(1) obtain pattern where "resolve_glob env pattern b = Inr ps"
    by (auto simp: include_files_def split: yaml.splits if_splits sum.splits)
  then obtain qs where "collect_results (map (canonical_include env) qs) = Inr ps"
    by (auto simp: resolve_glob_def split: sum.splits)
  ultimately show ?thesis using assms(2) by (force simp: canonical_include_def split: sum.splits)
qed

lemma ends_load_all: "finite F \<Longrightarrow> (\<And>p. p \<in> F \<Longrightarrow> ends F n (load p)) \<Longrightarrow> set ps \<subseteq> F \<Longrightarrow> ends F n (load_all load ps)"
  by (induction ps) (auto intro!: ends_bind)

lemma ends_merge_all:
  "finite F \<Longrightarrow> (\<And>p. p \<in> F \<Longrightarrow> ends F n (load p)) \<Longrightarrow> set ps \<subseteq> F \<Longrightarrow> ends F n (merge_all load ps merged)"
  by (induction ps arbitrary: merged) (auto intro!: ends_bind split: yaml.split)

lemma ends_mapping_include:
  "finite F \<Longrightarrow> (\<And>p. p \<in> F \<Longrightarrow> ends F n (load p)) \<Longrightarrow> set ps \<subseteq> F \<Longrightarrow> ends F n (load_mapping_include load ps)"
  using ends_merge_all by (auto simp: load_mapping_include_def length_Suc_conv)

lemma ends_bind_result: "(\<And>a. r = Inr a \<Longrightarrow> ends F n (f a)) \<Longrightarrow> ends F n (load_bind (load_result r) f)"
  by (cases r) (auto simp: ends_def load_bind_def load_result_def)

lemma ends_resolve:
  "finite F \<Longrightarrow> \<forall>p \<in> F. ends F n (load p) \<Longrightarrow> \<forall>p q. le_canonicalize env p = Inr q \<longrightarrow> q \<in> F \<Longrightarrow>
     ends F n (resolve_includes env load b v)"
  "finite F \<Longrightarrow> \<forall>p \<in> F. ends F n (load p) \<Longrightarrow> \<forall>p q. le_canonicalize env p = Inr q \<longrightarrow> q \<in> F \<Longrightarrow>
     ends F n (resolve_sequence_includes env load b vs)"
  "finite F \<Longrightarrow> \<forall>p \<in> F. ends F n (load p) \<Longrightarrow> \<forall>p q. le_canonicalize env p = Inr q \<longrightarrow> q \<in> F \<Longrightarrow>
     ends F n (resolve_mapping_values env load b m)"
  by (induction env load b v and env load b vs and env load b m
      rule: resolve_includes_resolve_sequence_includes_resolve_mapping_values.induct)
    (auto intro!: ends_bind ends_bind_result ends_mapping_include ends_load_all dest: include_files_subset [THEN subsetD] split: option.split)

lemma ends_load_yaml:
  assumes "finite F" "\<forall>p q. le_canonicalize env p = Inr q \<longrightarrow> q \<in> F"
  shows "p \<in> F \<Longrightarrow> ends F n (load_yaml_with_includes n env p)"
proof (induction n arbitrary: p)
  case 0
  then show ?case by (simp add: ends_def)
next
  case (Suc n)
  let ?m = "load_bind (load_result (parse_file env p)) (resolve_includes env (load_yaml_with_includes n env) (unwrap_or (path_parent p) [CurDir]))"
  have inner: "ends F n ?m" using assms Suc.IH by (intro ends_bind ends_resolve ends_simps) auto
  show ?case unfolding ends_def
  proof (intro allI impI)
    fix visited assume visited: "visited \<subseteq> F" "card (F - visited) < Suc n"
    show "\<exists>r. load_yaml_with_includes (Suc n) env p visited = Some r
      \<and> (\<forall>a visited'. r = Inr (a, visited') \<longrightarrow> visited \<subseteq> visited' \<and> visited' \<subseteq> F)"
    proof (cases "p \<in> visited")
      case False
      then have "F - insert p visited \<subset> F - visited" using Suc.prems by blast
      then have "card (F - insert p visited) < n" using visited(2) psubset_card_mono [of "F - visited"] assms(1) by fastforce
      moreover have "insert p visited \<subseteq> F" using visited(1) Suc.prems by blast
      ultimately have "\<exists>r. ?m (insert p visited) = Some r
        \<and> (\<forall>a visited'. r = Inr (a, visited') \<longrightarrow> insert p visited \<subseteq> visited' \<and> visited' \<subseteq> F)"
        using inner unfolding ends_def by blast
      then show ?thesis unfolding load_yaml_with_includes.simps using False by auto
    qed simp
  qed
qed

section \<open>More fuel\<close>

definition extends :: "'a loading \<Rightarrow> 'a loading \<Rightarrow> bool" where
  "extends m m' \<longleftrightarrow> (\<forall>visited r. m visited = Some r \<longrightarrow> m' visited = Some r)"

lemma extends_refl [intro, simp]: "extends m m"
  by (simp add: extends_def)

lemma extends_bind [intro]: "extends m m' \<Longrightarrow> (\<And>a. extends (f a) (f' a)) \<Longrightarrow> extends (load_bind m f) (load_bind m' f')"
  unfolding extends_def load_bind_def by (fastforce split: option.splits sum.splits)

lemma extends_load_all: "(\<And>p. extends (load p) (load' p)) \<Longrightarrow> extends (load_all load ps) (load_all load' ps)"
  by (induction ps) (auto intro!: extends_bind)

lemma extends_mapping_include:
  assumes "\<And>p. extends (load p) (load' p)"
  shows "extends (load_mapping_include load ps) (load_mapping_include load' ps)"
proof -
  have "extends (merge_all load ps merged) (merge_all load' ps merged)" for merged
    using assms by (induction ps arbitrary: merged) (auto intro!: extends_bind split: yaml.split)
  then show ?thesis using assms by (simp add: load_mapping_include_def)
qed

lemma extends_resolve:
  "\<forall>p. extends (load p) (load' p) \<Longrightarrow> extends (resolve_includes env load b v) (resolve_includes env load' b v)"
  "\<forall>p. extends (load p) (load' p) \<Longrightarrow> extends (resolve_sequence_includes env load b vs) (resolve_sequence_includes env load' b vs)"
  "\<forall>p. extends (load p) (load' p) \<Longrightarrow> extends (resolve_mapping_values env load b m) (resolve_mapping_values env load' b m)"
  by (induction env load b v and env load b vs and env load b m
      rule: resolve_includes_resolve_sequence_includes_resolve_mapping_values.induct)
    (auto intro!: extends_bind extends_mapping_include extends_load_all split: option.split)

lemma extends_load_yaml: "extends (load_yaml_with_includes n env p) (load_yaml_with_includes (Suc n) env p)"
proof (induction n arbitrary: p)
  case (Suc n)
  have "extends (load_bind (load_result r) (resolve_includes env (load_yaml_with_includes n env) b))
      (load_bind (load_result r) (resolve_includes env (load_yaml_with_includes (Suc n) env) b))" for r b
    by (intro extends_bind extends_refl extends_resolve allI Suc.IH)
  then show ?case unfolding extends_def by (simp only: load_yaml_with_includes.simps split: if_split) blast
qed (simp add: extends_def)

lemma load_yaml_mono: "n \<le> n' \<Longrightarrow> load_yaml_with_includes n env p visited = Some r \<Longrightarrow> load_yaml_with_includes n' env p visited = Some r"
  by (induction n' rule: dec_induct) (use extends_load_yaml in \<open>auto simp: extends_def simp del: load_yaml_with_includes.simps\<close>)

lemma load_config_mono: "n \<le> n' \<Longrightarrow> load_config n env p = Some r \<Longrightarrow> load_config n' env p = Some r"
  by (auto simp: load_config_def load_yaml_mono split: sum.splits option.splits)

section \<open>Includes are gone\<close>

text \<open>Under a tag nothing is resolved.\<close>

fun include_free :: "yaml \<Rightarrow> bool" where
  "include_free (YSeq vs) \<longleftrightarrow> (\<forall>v \<in> set vs. include_free v)"
| "include_free (YMap m) \<longleftrightarrow> map_of m include_key = None \<and> (\<forall>kv \<in> set m. include_free (snd kv))"
| "include_free _ \<longleftrightarrow> True"

definition yields :: "('a \<Rightarrow> bool) \<Rightarrow> 'a loading \<Rightarrow> bool" where
  "yields P m \<longleftrightarrow> (\<forall>visited a visited'. m visited = Some (Inr (a, visited')) \<longrightarrow> P a)"

lemma yields_simps [simp]: "yields P (loaded a) \<longleftrightarrow> P a" "yields P (load_fails msg)"
  by (auto simp: yields_def loaded_def load_fails_def)

lemma yields_bind: "yields P m \<Longrightarrow> (\<And>a. P a \<Longrightarrow> yields Q (f a)) \<Longrightarrow> yields Q (load_bind m f)"
  unfolding yields_def load_bind_def by (auto split: option.splits sum.splits) blast

lemma yields_any: "yields (\<lambda>_. True) m"
  by (simp add: yields_def)

lemma fold_entries_insert_keys: "fst ` set (fold (\<lambda>(k, v). entries_insert k v) m merged) = fst ` set m \<union> fst ` set merged"
proof (induction m arbitrary: merged)
  case (Cons kv m)
  then show ?case by (cases kv) (simp only: fold_simps o_apply prod.case keys_entries_insert list.set(2) image_insert fst_conv, blast)
qed simp

lemma set_entries_insert: "set (entries_insert k v m) \<subseteq> insert (k, v) (set m)"
  by (induction m) (auto split: if_splits)

lemma fold_entries_insert_set: "set (fold (\<lambda>(k, v). entries_insert k v) m merged) \<subseteq> set m \<union> set merged"
proof (induction m arbitrary: merged)
  case (Cons kv m)
  then show ?case using set_entries_insert by (cases kv) fastforce
qed simp

lemma include_free_merge:
  "include_free (YMap m) \<Longrightarrow> include_free (YMap merged) \<Longrightarrow> include_free (YMap (fold (\<lambda>(k, v). entries_insert k v) m merged))"
  using fold_entries_insert_keys [of m merged] fold_entries_insert_set [of m merged]
  by (fastforce simp: map_of_eq_None_iff)

lemma yields_merge_all:
  assumes "\<And>p. yields include_free (load p)"
  shows "include_free (YMap merged) \<Longrightarrow> yields include_free (merge_all load ps merged)"
proof (induction ps arbitrary: merged)
  case (Cons p ps)
  show ?case unfolding merge_all.simps
    by (rule yields_bind [OF assms]) (use Cons.IH [OF include_free_merge] Cons.prems in \<open>auto split: yaml.split\<close>)
qed simp

lemma yields_load_all:
  assumes "\<And>p. yields include_free (load p)"
  shows "yields (\<lambda>vs. \<forall>v \<in> set vs. include_free v) (load_all load ps)"
  by (induction ps) (auto intro!: yields_bind [OF assms] elim!: yields_bind)

lemma yields_mapping_include: "(\<And>p. yields include_free (load p)) \<Longrightarrow> yields include_free (load_mapping_include load ps)"
  by (simp add: load_mapping_include_def yields_merge_all)

lemma yields_resolve:
  "\<forall>p. yields include_free (load p) \<Longrightarrow> yields include_free (resolve_includes env load b v)"
  "\<forall>p. yields include_free (load p) \<Longrightarrow> yields (\<lambda>vs. \<forall>v \<in> set vs. include_free v) (resolve_sequence_includes env load b vs)"
  "\<forall>p. yields include_free (load p) \<Longrightarrow>
     yields (\<lambda>m'. map fst m' = map fst m \<and> (\<forall>kv \<in> set m'. include_free (snd kv))) (resolve_mapping_values env load b m)"
proof (induction env load b v and env load b vs and env load b m
    rule: resolve_includes_resolve_sequence_includes_resolve_mapping_values.induct)
  case (1 env load b m)
  show ?case
  proof (cases "map_of m include_key")
    case None
    with 1 have "yields (\<lambda>m'. map fst m' = map fst m \<and> (\<forall>kv \<in> set m'. include_free (snd kv))) (resolve_mapping_values env load b m)" by simp
    then have "yields include_free (load_bind (resolve_mapping_values env load b m) (\<lambda>m'. loaded (YMap m')))"
      by (rule yields_bind) (use None in \<open>simp add: map_of_eq_None_iff flip: set_map\<close>)
    then show ?thesis by (simp add: None)
  qed (use 1 in \<open>auto intro!: yields_bind [OF yields_any] yields_mapping_include\<close>)
next
  case (5 env load b item items)
  let ?P = "\<lambda>vs. \<forall>v \<in> set vs. include_free v"
  have "yields ?P (case include_of item of
      Some (m, include_val) \<Rightarrow>
        load_bind (load_result (include_files env ''sequence item'' b m include_val)) (load_all load)
    | None \<Rightarrow> load_bind (resolve_includes env load b item) (\<lambda>v. loaded [v]))"
    using 5 by (auto intro!: yields_bind [OF yields_any yields_load_all] elim!: yields_bind split: option.split)
  then show ?case unfolding resolve_sequence_includes.simps
    by (rule yields_bind) (use 5 in \<open>auto elim!: yields_bind\<close>)
qed (auto elim!: yields_bind)

lemma yields_load_yaml: "yields include_free (load_yaml_with_includes n env p)"
proof (induction n arbitrary: p)
  case (Suc n)
  have "yields include_free (load_bind (load_result r) (resolve_includes env (load_yaml_with_includes n env) b))" for r b
    using Suc.IH by (intro yields_bind [OF yields_any] yields_resolve) simp
  then show ?case unfolding yields_def load_yaml_with_includes.simps by (auto split: if_splits)
qed (simp add: yields_def)

section \<open>Loading a configuration\<close>

lemma validate_config_total: "validate_config c \<noteq> None"
proof -
  have "validate_role_hierarchy h errors \<noteq> None" for h errors
  proof (cases h)
    case (Some roles)
    have "set (map fst roles) \<subseteq> role_nodes roles" by (auto simp: role_nodes_def)
    from validate_cycles_total [OF this, of "\<lambda>_. 0" "errors @ self_loop_errors roles"] show ?thesis
      by (auto simp: validate_role_hierarchy_def Some)
  qed (simp add: validate_role_hierarchy_def)
  then show ?thesis by (simp add: validate_config_def Let_def split: option.split)
qed

text \<open>C16: when the paths the file system resolves to are among finitely many, loading returns: with more fuel than there are such
  paths the outcome is always the same, whatever includes the files hold.\<close>

theorem loading_terminates:
  assumes "finite F" "\<And>p q. le_canonicalize env p = Inr q \<Longrightarrow> q \<in> F"
  shows "\<exists>r. \<forall>n > card F. load_config n env p = Some r"
proof -
  have "\<exists>r. load_config (Suc (card F)) env p = Some r"
  proof (cases "le_canonicalize env p")
    case (Inr q)
    have "ends F (Suc (card F)) (load_yaml_with_includes (Suc (card F)) env q)"
      by (rule ends_load_yaml) (use assms Inr in auto)
    then obtain r where "load_yaml_with_includes (Suc (card F)) env q {} = Some r" by (auto simp: ends_def simp del: load_yaml_with_includes.simps)
    then show ?thesis using not_None_eq [THEN iffD1, OF validate_config_total]
      by (cases r) (auto simp: load_config_def Inr validate_config_total simp del: load_yaml_with_includes.simps split: sum.split option.split)
  qed (simp add: load_config_def)
  then show ?thesis using load_config_mono [OF Suc_leI] by blast
qed

text \<open>C15: a configuration that loads was decoded from a tree in which no mapping holds an include (outside tagged values), and
  is valid.\<close>

theorem loaded_config_resolved:
  assumes "load_config n env p = Some (Inr c)"
  shows "\<exists>v. include_free v \<and> le_decode env v = Inr c \<and> validate_config c = Some (Inr ())"
proof -
  from assms obtain q v visited where "load_yaml_with_includes n env q {} = Some (Inr (v, visited))"
    "le_decode env v = Inr c" "validate_config c = Some (Inr ())"
    by (auto simp: load_config_def split: sum.splits option.splits)
  with yields_load_yaml [of n env q] show ?thesis unfolding yields_def by blast
qed

section \<open>Environment variables\<close>

text \<open>A template is written as literal text without dollar signs and references.\<close>

datatype segment = Literal string | Reference string "string option"

fun segment_text :: "segment \<Rightarrow> string" where
  "segment_text (Literal s) = s"
| "segment_text (Reference n None) = ''${'' @ n @ ''}''"
| "segment_text (Reference n (Some d)) = ''${'' @ n @ '':-'' @ d @ ''}''"

fun segment_ok :: "segment \<Rightarrow> bool" where
  "segment_ok (Literal s) \<longleftrightarrow> CHR ''$'' \<notin> set s"
| "segment_ok (Reference n d) \<longleftrightarrow>
     n \<noteq> [] \<and> name_start (hd n) \<and> list_all name_char n \<and> option_all (\<lambda>d. CHR ''}'' \<notin> set d) d"

fun segment_value :: "(string \<Rightarrow> string option) \<Rightarrow> segment \<Rightarrow> string option" where
  "segment_value env (Literal s) = Some s"
| "segment_value env (Reference n d) = or_else (env n) d"

fun segment_errors :: "(string \<Rightarrow> string option) \<Rightarrow> segment \<Rightarrow> string list" where
  "segment_errors env (Literal s) = []"
| "segment_errors env (Reference n d) =
     (if or_else (env n) d = None then [''Environment variable '' @ apos n @ '' is not set and has no default''] else [])"

lemma name_stops: "\<not> name_char (CHR ''}'')" "\<not> name_char (CHR '':'')"
  by (simp_all add: name_char_def name_start_def is_ascii_alpha_def is_digit_def ccode_def)

lemma env_reference_segment:
  assumes "segment_ok (Reference n d)"
  shows "env_reference (segment_text (Reference n d) @ rest) = Some (n, d, rest)"
proof -
  have n: "takeWhile name_char (n @ c # xs) = n" "dropWhile name_char (n @ c # xs) = c # xs" if "\<not> name_char c" for c xs
    using assms that by (auto simp: list_all_iff takeWhile_append_stop dropWhile_append_stop)
  show ?thesis
  proof (cases d)
    case None
    then show ?thesis using assms n [OF name_stops(1), of rest] by (simp add: env_reference_def env_default_def)
  next
    case (Some v)
    then have "CHR ''}'' \<notin> set v" using assms by simp
    then have v: "takeWhile (\<lambda>c. c \<noteq> CHR ''}'') (v @ CHR ''}'' # rest) = v"
      "dropWhile (\<lambda>c. c \<noteq> CHR ''}'') (v @ CHR ''}'' # rest) = CHR ''}'' # rest"
      by (induction v) auto
    show ?thesis using assms n [OF name_stops(2), of "CHR ''-'' # v @ CHR ''}'' # rest"] v
      by (simp add: Some env_reference_def env_default_def)
  qed
qed

lemma replace_literal:
  "CHR ''$'' \<notin> set s \<Longrightarrow> replace_references env (s @ rest) = map_prod ((@) s) id (replace_references env rest)"
proof (induction s)
  case (Cons c s)
  then have "env_reference (c # s @ rest) = None" by (simp add: env_reference_def)
  with Cons show ?case by (subst replace_references.simps) (simp add: case_prod_beta prod_eq_iff)
qed (simp add: map_prod_def case_prod_beta)

lemma replace_segment:
  assumes "segment_ok g"
  shows "\<exists>t. (segment_value env g = Some v \<longrightarrow> t = v)
    \<and> replace_references env (segment_text g @ rest) = map_prod ((@) t) ((@) (segment_errors env g)) (replace_references env rest)"
proof (cases g)
  case (Literal s)
  with assms replace_literal show ?thesis by (intro exI [of _ s]) (simp add: id_def append_Nil [abs_def])
next
  case (Reference n d)
  then obtain c cs where shape: "segment_text g @ rest = c # cs" by (cases d) auto
  have "env_reference (c # cs) = Some (n, d, rest)" using env_reference_segment [OF assms [unfolded Reference], of rest] shape Reference by simp
  then show ?thesis unfolding shape
    by (intro exI [of _ "unwrap_or (or_else (env n) d) (''${UNSET_'' @ n @ ''}'')"], subst (1) replace_references.simps)
      (auto simp: Reference case_prod_beta prod_eq_iff split: option.split)
qed

lemma replace_segments:
  assumes "list_all segment_ok gs"
  shows "snd (replace_references env (concat (map segment_text gs))) = concat (map (segment_errors env) gs)
    \<and> (concat (map (segment_errors env) gs) = [] \<longrightarrow>
         fst (replace_references env (concat (map segment_text gs))) = concat (map (\<lambda>g. the (segment_value env g)) gs))"
  using assms
proof (induction gs)
  case Nil
  then show ?case by (simp add: replace_references.simps)
next
  case (Cons g gs)
  then obtain t where shape: "segment_value env g = Some (the (segment_value env g)) \<longrightarrow> t = the (segment_value env g)"
    "replace_references env (segment_text g @ concat (map segment_text gs))
       = map_prod ((@) t) ((@) (segment_errors env g)) (replace_references env (concat (map segment_text gs)))"
    using replace_segment [of g env "the (segment_value env g)"] by auto
  have "segment_errors env g = [] \<Longrightarrow> segment_value env g \<noteq> None" by (cases g) (auto split: if_splits)
  with Cons shape show ?case by (auto simp: fst_map_prod snd_map_prod)
qed

text \<open>Interpolation replaces every reference of a template by the value of its variable or else by its default, keeps the rest, and
  fails, naming them all in order, when variables are not set and have no default.\<close>

theorem interpolation_replaces_references:
  assumes "list_all segment_ok gs"
  shows "interpolate_env_vars env (concat (map segment_text gs)) =
    (let errors = concat (map (segment_errors env) gs) in
     if errors = [] then Inr (concat (map (\<lambda>g. the (segment_value env g)) gs))
     else Inl (ConfigurationError (''Environment variable interpolation failed:'' @ [CHR 0x0A] @ ''  - '' @ join ([CHR 0x0A] @ ''  - '') errors)))"
  using replace_segments [OF assms, of env] by (auto simp: interpolate_env_vars_def Let_def split: prod.split)

section \<open>A file system\<close>

text \<open>Three files, one including both of the others by a pattern, and a file that is included on two ways.\<close>

definition sample_files :: loader_env where
  "sample_files = \<lparr>
     le_env_var = (\<lambda>n. if n = ''HOST'' then Some ''example.org'' else None),
     le_canonicalize = (\<lambda>p. if p \<in> {components ''/a.yaml'', components ''/b.yaml'', components ''/c.yaml''} then Inr p else Inl ''No such file''),
     le_read = (\<lambda>p. if p = components ''/a.yaml'' then Inr ''a'' else if p = components ''/b.yaml'' then Inr ''b'' else Inr ''c''),
     le_yaml = (\<lambda>t. if t = ''a'' then Inr (YMap [(YString ''first'', YMap [(include_key, YString ''b.yaml'')]),
                                               (YString ''second'', YMap [(include_key, YString ''c.yaml'')])])
                   else if t = ''b'' then Inr (YMap [(include_key, YString ''c.yaml'')])
                   else Inr (YBool True)),
     le_glob = (\<lambda>p. Inr [Inr p]),
     le_decode = (\<lambda>v. Inl ''invalid type'') \<rparr>"

text \<open>The two ways lead to a third file without any cycle: it is reported as one, since the files visited are never forgotten.\<close>

lemma shared_file_rejected:
  "load_config 5 sample_files (components ''/a.yaml'')
     = Some (Inl (ConfigurationError ''Circular $include detected: /c.yaml was already included''))"
  by code_simp

text \<open>Nothing is resolved below a tag.\<close>

lemma tagged_include_kept: "resolve_includes env load b (YTagged t (YMap [(include_key, v)])) = loaded (YTagged t (YMap [(include_key, v)]))"
  by simp

theorem loading_terminates_witness:
  "\<exists>r. \<forall>n > card {components ''/a.yaml'', components ''/b.yaml'', components ''/c.yaml''}.
     load_config n sample_files (components ''/a.yaml'') = Some r"
  by (rule loading_terminates) (simp_all add: sample_files_def split: if_splits)

theorem interpolation_replaces_references_witness:
  "interpolate_env_vars (le_env_var sample_files) ''http://${HOST}:${PORT:-80}/''
     = Inr ''http://example.org:80/''"
  using interpolation_replaces_references [of "[Literal ''http://'', Reference ''HOST'' None, Literal '':'', Reference ''PORT'' (Some ''80''), Literal ''/'']"
    "le_env_var sample_files"]
  by (simp add: sample_files_def name_start_def name_char_def is_ascii_alpha_def is_digit_def ccode_def)

lemma sample_loads:
  assumes "validate_config c = Some (Inr ())"
  shows "load_config 5 (sample_files \<lparr> le_decode := \<lambda>_. Inr c \<rparr>) (components ''/c.yaml'') = Some (Inr c)"
proof -
  have "le_canonicalize sample_files (components ''/c.yaml'') = Inr (components ''/c.yaml'')" by (simp add: sample_files_def)
  moreover have "load_yaml_with_includes 5 (sample_files \<lparr> le_decode := \<lambda>_. Inr c \<rparr>) (components ''/c.yaml'') {}
      = Some (Inr (YBool True, {components ''/c.yaml''}))"
    by (simp add: load_bind_def load_result_def loaded_def parse_file_def interpolate_env_vars_def replace_references.simps env_reference_def
      sample_files_def components_def path_segments_def segment_component_def starts_with_prefix numeral_eq_Suc)
  ultimately show ?thesis by (simp add: load_config_def assms)
qed

theorem loaded_config_resolved_witness:
  "\<exists>v. include_free v \<and> le_decode (sample_files \<lparr> le_decode := \<lambda>_. Inr sample_config \<rparr>) v = Inr sample_config
     \<and> validate_config sample_config = Some (Inr ())"
  by (rule loaded_config_resolved [OF sample_loads [OF sample_config_valid]])

end
