(* ===== verification/Schema_Registry.thy ===== *)
theory Schema_Registry
  imports Validation Crud_Handlers Paths
begin

text \<open>
  The JSON schemas of the JSON columns (src/config/schema_registry.rs, src/config/types/schema.rs): compiled once from
  the configuration, and consulted before every insert and update. The crate jsonschema, the conversion of YAML to JSON,
  the parsing of schema files and the file system are arguments; \<open>'v\<close> is the type of compiled schemas.
\<close>

section \<open>Schemas\<close>

datatype schema_source = ExternalFile path | InlineSchema | GlobalRef string

definition schema_source_text :: "schema_source \<Rightarrow> string" where
  "schema_source_text s =
     (case s of
        ExternalFile p \<Rightarrow> ''external file: '' @ path_text p
      | InlineSchema \<Rightarrow> ''inline''
      | GlobalRef n \<Rightarrow> ''global schema: '' @ n)"

record 'v json_schema =
  js_compiled :: 'v
  js_source :: schema_source

record 'v global_schema =
  gsc_name :: string
  gsc_schema :: "'v json_schema"

text \<open>The outside: compiling a schema, the errors of a value with the path of each in the value, conversions and files.\<close>

record 'v schema_env =
  se_compile :: "json \<Rightarrow> (string, 'v) result"
  se_iter_errors :: "'v \<Rightarrow> json \<Rightarrow> (string \<times> string) list"
  se_to_json :: "yaml \<Rightarrow> (string, json) result"
  se_canonicalize :: "path \<Rightarrow> (string, path) result"
  se_read :: "path \<Rightarrow> (string, string) result"
  se_parse :: "string \<Rightarrow> (string, json) result"

definition validate_json_with_schema :: "'v schema_env \<Rightarrow> json \<Rightarrow> 'v json_schema \<Rightarrow> string list" where
  "validate_json_with_schema env value schema =
     map (\<lambda>(path, message). if path = [] then message else path @ '': '' @ message) (se_iter_errors env (js_compiled schema) value)"

section \<open>Building the registry\<close>

definition config_error :: "string \<Rightarrow> (string, 'a) result \<Rightarrow> (app_error, 'a) result" where
  "config_error message r = (case r of Inl e \<Rightarrow> Inl (ConfigurationError (message @ '': '' @ e)) | Inr a \<Rightarrow> Inr a)"

definition load_schema_file :: "'v schema_env \<Rightarrow> path \<Rightarrow> (app_error, json) result" where
  "load_schema_file env p =
     (case config_error (''Failed to read schema file '' @ apos (path_text p)) (se_read env p) of
        Inl e \<Rightarrow> Inl e
      | Inr content \<Rightarrow> config_error (''Failed to parse schema file '' @ apos (path_text p)) (se_parse env content))"

definition yaml_to_json :: "'v schema_env \<Rightarrow> yaml \<Rightarrow> (app_error, json) result" where
  "yaml_to_json env v = config_error ''Failed to convert schema value to JSON'' (se_to_json env v)"

fun compile_globals :: "'v schema_env \<Rightarrow> (string, yaml) entries \<Rightarrow> (string, 'v global_schema) entries
    \<Rightarrow> (app_error, (string, 'v global_schema) entries) result" where
  "compile_globals env [] globals = Inr globals"
| "compile_globals env ((name, raw) # schemas) globals =
     (case yaml_to_json env raw of
        Inl e \<Rightarrow> Inl e
      | Inr v \<Rightarrow>
          (case config_error (''Invalid global schema '' @ apos name) (se_compile env v) of
             Inl e \<Rightarrow> Inl e
           | Inr compiled \<Rightarrow>
               compile_globals env schemas (entries_insert name
                 \<lparr> gsc_name = name, gsc_schema = \<lparr> js_compiled = compiled, js_source = GlobalRef name \<rparr> \<rparr> globals)))"

definition external_schema :: "'v schema_env \<Rightarrow> path \<Rightarrow> column_config \<Rightarrow> string \<Rightarrow> (app_error, 'v json_schema) result" where
  "external_schema env config_path col path_str =
     (case config_error (''Failed to resolve external schema file '' @ apos path_str)
             (se_canonicalize env (path_join (unwrap_or (path_parent config_path) [CurDir]) (components path_str))) of
        Inl e \<Rightarrow> Inl e
      | Inr resolved \<Rightarrow>
          (case load_schema_file env resolved of
             Inl e \<Rightarrow> Inl e
           | Inr v \<Rightarrow>
               (case config_error (''Invalid schema in external file '' @ apos (path_text resolved) @ '' (column '' @ apos (col_name col) @ '')'')
                       (se_compile env v) of
                  Inl e \<Rightarrow> Inl e
                | Inr compiled \<Rightarrow> Inr \<lparr> js_compiled = compiled, js_source = ExternalFile resolved \<rparr>)))"

definition inline_schema :: "'v schema_env \<Rightarrow> column_config \<Rightarrow> yaml \<Rightarrow> (app_error, 'v json_schema) result" where
  "inline_schema env col inline =
     (case yaml_to_json env inline of
        Inl e \<Rightarrow> Inl e
      | Inr v \<Rightarrow>
          (case config_error (''Invalid inline schema for column '' @ apos (col_name col)) (se_compile env v) of
             Inl e \<Rightarrow> Inl e
           | Inr compiled \<Rightarrow> Inr \<lparr> js_compiled = compiled, js_source = InlineSchema \<rparr>))"

definition referenced_schema :: "(string, 'v global_schema) entries \<Rightarrow> column_config \<Rightarrow> string \<Rightarrow> (app_error, 'v json_schema) result" where
  "referenced_schema globals col ref_str =
     (let name = unwrap_or (strip_prefix ''global_schemas.'' ref_str) ref_str in
      case map_of globals name of
        None \<Rightarrow> Inl (ConfigurationError (''Global schema '' @ apos name @ '' not found (referenced by column '' @ apos (col_name col) @ '')''))
      | Some g \<Rightarrow> Inr (gsc_schema g))"

definition resolve_column_schema :: "'v schema_env \<Rightarrow> (string, 'v global_schema) entries \<Rightarrow> path \<Rightarrow> column_config
    \<Rightarrow> (app_error, 'v json_schema option) result" where
  "resolve_column_schema env globals config_path col =
     (case col_validation_schema col of
        Some path_str \<Rightarrow> map_sum id Some (external_schema env config_path col path_str)
      | None \<Rightarrow>
          (case col_validation col of
             Some inline \<Rightarrow> map_sum id Some (inline_schema env col inline)
           | None \<Rightarrow>
               (case col_validation_schema_ref col of
                  Some ref_str \<Rightarrow> map_sum id Some (referenced_schema globals col ref_str)
                | None \<Rightarrow> Inr None)))"

type_synonym 'v registry = "(string \<times> string, 'v json_schema) entries"

fun register_columns :: "'v schema_env \<Rightarrow> (string, 'v global_schema) entries \<Rightarrow> path \<Rightarrow> (string \<times> column_config) list \<Rightarrow> 'v registry
    \<Rightarrow> (app_error, 'v registry) result" where
  "register_columns env globals config_path [] reg = Inr reg"
| "register_columns env globals config_path ((t, col) # cols) reg =
     (if \<not> is_json_type (col_type col) then register_columns env globals config_path cols reg
      else
        (case resolve_column_schema env globals config_path col of
           Inl e \<Rightarrow> Inl e
         | Inr None \<Rightarrow> register_columns env globals config_path cols reg
         | Inr (Some schema) \<Rightarrow> register_columns env globals config_path cols (entries_insert (t, col_name col) schema reg)))"

definition table_columns :: "table_config list \<Rightarrow> (string \<times> column_config) list" where
  "table_columns tables = concat (map (\<lambda>t. map (Pair (tbl_name t)) (tbl_columns t)) tables)"

definition schema_registry_new :: "'v schema_env \<Rightarrow> app_config \<Rightarrow> path \<Rightarrow> (app_error, 'v registry) result" where
  "schema_registry_new env config config_path =
     (case compile_globals env (unwrap_or (ac_global_schemas config) []) [] of
        Inl e \<Rightarrow> Inl e
      | Inr globals \<Rightarrow> register_columns env globals config_path (table_columns (ac_tables config)) [])"

section \<open>Consulting the registry\<close>

definition get_table_schema :: "'v registry \<Rightarrow> string \<Rightarrow> (string, 'v json_schema) entries option" where
  "get_table_schema reg table =
     (let found = map (\<lambda>((t, c), s). (c, s)) (filter (\<lambda>((t, c), s). t = table) reg) in
      if found = [] then None else Some found)"

text \<open>What the handlers get of it.\<close>

definition table_validators :: "'v schema_env \<Rightarrow> 'v registry \<Rightarrow> string \<Rightarrow> table_schemas option" where
  "table_validators env reg table =
     map_option (map (\<lambda>(c, s). (c, (schema_source_text (js_source s), \<lambda>v. validate_json_with_schema env v s))))
       (get_table_schema reg table)"

section \<open>What is enforced\<close>

lemma register_columns_other:
  "register_columns env globals p cols reg = Inr reg' \<Longrightarrow> k \<notin> (\<lambda>(t, c). (t, col_name c)) ` set cols \<Longrightarrow> map_of reg' k = map_of reg k"
  by (induction env globals p cols reg rule: register_columns.induct) (auto split: if_splits sum.splits option.splits)

lemma register_columns_wf: "register_columns env globals p cols reg = Inr reg' \<Longrightarrow> wf_entries reg \<Longrightarrow> wf_entries reg'"
  by (induction env globals p cols reg rule: register_columns.induct) (auto split: if_splits sum.splits option.splits)

lemma register_columns_lookup:
  assumes "register_columns env globals p cols reg = Inr reg'" "distinct (map (\<lambda>(t, c). (t, col_name c)) cols)"
    "(t, col) \<in> set cols" "is_json_type (col_type col)"
  shows "\<exists>schema. resolve_column_schema env globals p col = Inr schema
    \<and> (\<forall>s. schema = Some s \<longrightarrow> map_of reg' (t, col_name col) = Some s)"
  using assms
proof (induction env globals p cols reg rule: register_columns.induct)
  case (2 env globals p u d cols reg)
  show ?case
  proof (cases "(t, col) = (u, d)")
    case True
    with 2 have json: "is_json_type (col_type d)" and fresh: "(u, col_name d) \<notin> (\<lambda>(t, c). (t, col_name c)) ` set cols" by auto
    from 2(4) json show ?thesis unfolding True [unfolded prod.inject, THEN conjunct1] True [unfolded prod.inject, THEN conjunct2]
      by (auto dest!: register_columns_other [OF _ fresh] split: sum.splits option.splits)
  next
    case False
    with 2 show ?thesis by (auto split: if_splits sum.splits option.splits)
  qed
qed simp

lemma resolve_column_some:
  "resolve_column_schema env globals p col = Inr schema \<Longrightarrow> validation_fields col \<noteq> [] \<Longrightarrow> \<exists>s. schema = Some s"
  by (auto simp: resolve_column_schema_def validation_fields_def map_sum_def split: option.splits sum.splits)

lemma table_columns_distinct:
  assumes "distinct (map tbl_name tables)" "\<forall>t \<in> set tables. distinct (map col_name (tbl_columns t))"
  shows "distinct (map (\<lambda>(t, c). (t, col_name c)) (table_columns tables))"
  using assms
proof (induction tables)
  case (Cons t tables)
  have "distinct (map (Pair (tbl_name t)) (map col_name (tbl_columns t)))" using Cons.prems by (simp add: distinct_map inj_on_def)
  with Cons show ?case by (auto simp: table_columns_def comp_def)
qed (simp add: table_columns_def)

lemma table_validators_in:
  assumes "wf_entries reg" "map_of reg (t, c) = Some s"
  shows "\<exists>schemas. table_validators env reg t = Some schemas
    \<and> (c, (schema_source_text (js_source s), \<lambda>v. validate_json_with_schema env v s)) \<in> set schemas"
proof -
  have "((t, c), s) \<in> set reg" using assms by (simp add: map_of_SomeD)
  then have found: "(c, s) \<in> set (map (\<lambda>((t, c), s). (c, s)) (filter (\<lambda>((u, c), s). u = t) reg))" (is "_ \<in> set ?found") by force
  then have "?found \<noteq> []" by (metis list.set(1) empty_iff)
  then have "get_table_schema reg t = Some ?found" unfolding get_table_schema_def Let_def by simp
  with found show ?thesis by (force simp: table_validators_def)
qed

lemma violated_schema_rejected:
  assumes "(c, (source, check)) \<in> set schemas" "json_get c b = Some v" "check v \<noteq> []"
  shows "\<exists>e. validate_jsonb_body b (Some schemas) = Inl e"
proof -
  have "jsonb_errors b schemas \<noteq> []" using assms by (force simp: jsonb_errors_def concat_eq_Nil_conv)
  then show ?thesis by (auto simp: validate_jsonb_body_def split: list.split)
qed

text \<open>C19: when tables have different names and their columns too, every JSON column that is configured with a schema has it in
  the registry, and a create or update request whose value for the column violates the schema is an error that
  leaves the database alone.\<close>

theorem column_schemas_enforced:
  assumes "schema_registry_new env c path = Inr reg" "distinct (map tbl_name (ac_tables c))"
    "\<forall>t \<in> set (ac_tables c). distinct (map col_name (tbl_columns t))"
    "t \<in> set (ac_tables c)" "col \<in> set (tbl_columns t)" "is_json_type (col_type col)" "validation_fields col \<noteq> []"
  shows "\<exists>globals schema. resolve_column_schema env globals path col = Inr (Some schema)
    \<and> (\<forall>endpoint crud body v ok pools meth pp qs rc db.
         ep_crud endpoint = Some crud \<and> crud_table crud = tbl_name t \<and> meth \<in> {''POST'', ''PUT'', ''PATCH''}
         \<and> json_get (col_name col) body = Some v \<and> validate_json_with_schema env v schema \<noteq> [] \<longrightarrow>
         (\<exists>e. handle_crud ok pools (ac_tables c) (table_validators env reg) meth pp qs (Some body) endpoint rc db = (Inl e, db)))"
proof -
  from assms(1) obtain globals where reg: "register_columns env globals path (table_columns (ac_tables c)) [] = Inr reg"
    by (auto simp: schema_registry_new_def split: sum.splits)
  have "(tbl_name t, col) \<in> set (table_columns (ac_tables c))" using assms(4,5) by (force simp: table_columns_def)
  from register_columns_lookup [OF reg table_columns_distinct [OF assms(2,3)] this assms(6)] resolve_column_some assms(7)
  obtain s where s: "resolve_column_schema env globals path col = Inr (Some s)" "map_of reg (tbl_name t, col_name col) = Some s" by blast
  have wf: "wf_entries reg" using register_columns_wf [OF reg] by simp
  have "\<exists>e. handle_crud ok pools (ac_tables c) (table_validators env reg) meth pp qs (Some body) endpoint rc db = (Inl e, db)"
    if req: "ep_crud endpoint = Some crud" "crud_table crud = tbl_name t" "meth \<in> {''POST'', ''PUT'', ''PATCH''}"
      "json_get (col_name col) body = Some v" "validate_json_with_schema env v s \<noteq> []"
    for endpoint crud body v ok pools meth pp qs rc db
  proof (cases "get_db_context pools (ac_tables c) (crud_database crud) (crud_table crud)")
    case (Inr pt)
    then obtain p u where u: "pt = (p, u)" "tbl_name u = tbl_name t"
      using req(2) by (auto simp: get_db_context_def dest!: find_Some_iff [THEN iffD1] split: sum.splits option.splits)
    from table_validators_in [OF wf s(2), of env] obtain schemas where schemas: "table_validators env reg (tbl_name t) = Some schemas"
      "(col_name col, (schema_source_text (js_source s), \<lambda>v. validate_json_with_schema env v s)) \<in> set schemas" by blast
    from violated_schema_rejected [OF schemas(2) req(4,5)] schemas(1)
    obtain e where "validate_jsonb_body body (table_validators env reg (tbl_name t)) = Inl e" by auto
    then have "handle_create p u crud (Some body) rc (table_validators env reg (tbl_name t)) db = (Inl e, db)"
      "handle_update p u crud (Some pk) (Some body) rc (table_validators env reg (tbl_name t)) db = (Inl e, db)" for pk
      by (simp_all add: handle_create_def handle_update_def)
    note runs = this
    from req(3) show ?thesis
      by (elim insertE emptyE) (auto simp: handle_crud_def req(1) Inr u runs Let_def split: option.split)
  qed (simp add: handle_crud_def req(1))
  note rejected = this
  show ?thesis by (intro exI [of _ globals] exI [of _ s] conjI allI impI, rule s(1), elim conjE, rule rejected)
qed

section \<open>Two databases\<close>

text \<open>Validators are kept by table and column name alone: of two tables of one name in different databases the second gives the schemas of
  both. A toy schema is the list of the values it admits.\<close>

definition sample_schemas :: "json list schema_env" where
  "sample_schemas = \<lparr>
     se_compile = (\<lambda>v. case v of JArr vs \<Rightarrow> Inr vs | _ \<Rightarrow> Inl ''not a schema''),
     se_iter_errors = (\<lambda>vs v. if v \<in> set vs then [] else [([], ''not admitted'')]),
     se_to_json = (\<lambda>y. case y of YNull \<Rightarrow> Inr (JArr [JNull]) | YBool b \<Rightarrow> Inr (JArr [JBool b]) | _ \<Rightarrow> Inl ''unsupported''),
     se_canonicalize = (\<lambda>p. Inr p), se_read = (\<lambda>p. Inl ''No such file''), se_parse = (\<lambda>t. Inl ''no value'') \<rparr>"

definition sample_schema_column :: "yaml \<Rightarrow> column_config" where
  "sample_schema_column v = column_config_default \<lparr> col_name := ''data'', col_type := Jsonb, col_validation := Some v \<rparr>"

definition sample_schema_tables :: "table_config list" where
  "sample_schema_tables =
     [\<lparr> tbl_name = ''items'', tbl_database = ''one'', tbl_columns = [sample_schema_column YNull], tbl_foreign_keys = [] \<rparr>,
      \<lparr> tbl_name = ''items'', tbl_database = ''two'', tbl_columns = [sample_schema_column (YBool True)], tbl_foreign_keys = [] \<rparr>]"

lemma same_name_collides:
  "schema_registry_new sample_schemas (app_config_default \<lparr> ac_tables := sample_schema_tables \<rparr>) [Normal ''config.yaml'']
     = Inr [((''items'', ''data''), \<lparr> js_compiled = [JBool True], js_source = InlineSchema \<rparr>)]"
  by (simp add: schema_registry_new_def app_config_default_def sample_schema_tables_def table_columns_def sample_schema_column_def
    resolve_column_schema_def inline_schema_def yaml_to_json_def config_error_def sample_schemas_def column_config_default_def)

theorem column_schemas_enforced_witness:
  "\<exists>e. handle_crud (\<lambda>_. True) [(''one'', sample_pool)] (take 1 sample_schema_tables)
      (table_validators sample_schemas [((''items'', ''data''), \<lparr> js_compiled = [JNull], js_source = InlineSchema \<rparr>)]) ''POST'' None []
      (Some (JObj [(''data'', JBool False)]))
      ((sample_endpoint ''/items'' [Post] ''none'') \<lparr> ep_action := ActCrud,
         ep_crud := Some (crud_config_default \<lparr> crud_table := ''items'', crud_database := ''one'' \<rparr>) \<rparr>) sample_context 0 = (Inl e, 0)"
proof -
  let ?c = "app_config_default \<lparr> ac_tables := take 1 sample_schema_tables \<rparr>"
  let ?t = "hd sample_schema_tables"
  have reg: "schema_registry_new sample_schemas ?c [Normal ''config.yaml'']
      = Inr [((''items'', ''data''), \<lparr> js_compiled = [JNull], js_source = InlineSchema \<rparr>)]"
    by (simp add: schema_registry_new_def app_config_default_def sample_schema_tables_def table_columns_def sample_schema_column_def
      resolve_column_schema_def inline_schema_def yaml_to_json_def config_error_def sample_schemas_def column_config_default_def)
  have names: "distinct (map tbl_name (ac_tables ?c))" "\<forall>t \<in> set (ac_tables ?c). distinct (map col_name (tbl_columns t))" "?t \<in> set (ac_tables ?c)"
    by (simp_all add: sample_schema_tables_def)
  have col: "sample_schema_column YNull \<in> set (tbl_columns ?t)" "is_json_type (col_type (sample_schema_column YNull))"
    "validation_fields (sample_schema_column YNull) \<noteq> []" "tbl_name ?t = ''items''" "col_name (sample_schema_column YNull) = ''data''"
    by (simp_all add: sample_schema_tables_def sample_schema_column_def validation_fields_def)
  from column_schemas_enforced [OF reg names col(1-3), unfolded col(4,5)] obtain globals schema where
    schema: "resolve_column_schema sample_schemas globals [Normal ''config.yaml''] (sample_schema_column YNull) = Inr (Some schema)"
    and enforced: "\<forall>endpoint crud body v ok pools meth pp qs rc (db :: nat).
      ep_crud endpoint = Some crud \<and> crud_table crud = ''items'' \<and> meth \<in> {''POST'', ''PUT'', ''PATCH''} \<and> json_get ''data'' body = Some v
        \<and> validate_json_with_schema sample_schemas v schema \<noteq> [] \<longrightarrow>
      (\<exists>e. handle_crud ok pools (ac_tables ?c) (table_validators sample_schemas
        [((''items'', ''data''), \<lparr> js_compiled = [JNull], js_source = InlineSchema \<rparr>)]) meth pp qs (Some body) endpoint rc db = (Inl e, db))"
    by (elim exE conjE)
  from schema have "validate_json_with_schema sample_schemas (JBool False) schema \<noteq> []"
    by (auto simp: resolve_column_schema_def sample_schema_column_def inline_schema_def yaml_to_json_def config_error_def sample_schemas_def
      validate_json_with_schema_def column_config_default_def)
  then have "\<exists>e. handle_crud (\<lambda>_. True) [(''one'', sample_pool)] (ac_tables ?c) (table_validators sample_schemas
      [((''items'', ''data''), \<lparr> js_compiled = [JNull], js_source = InlineSchema \<rparr>)]) ''POST'' None [] (Some (JObj [(''data'', JBool False)]))
      ((sample_endpoint ''/items'' [Post] ''none'') \<lparr> ep_action := ActCrud,
         ep_crud := Some (crud_config_default \<lparr> crud_table := ''items'', crud_database := ''one'' \<rparr>) \<rparr>) sample_context 0 = (Inl e, 0)"
    by (intro enforced [rule_format, where v = "JBool False" and crud = "crud_config_default \<lparr> crud_table := ''items'', crud_database := ''one'' \<rparr>"]) (simp add: json_get_def)
  then show ?thesis by simp
qed

end
