(* ===== verification/App_State.thy ===== *)
theory App_State
  imports Schema_Registry Migration Roles Loader Storage
begin

text \<open>
  The state the requests share (src/server/state.rs), the storage backends the configuration names
  (\<open>create_store\<close> of src/storage/mod.rs) and the database pools (\<open>connect\<close>, \<open>create_pools\<close> and \<open>close_pools\<close>
  of src/db/pool.rs). The state is what the locks protect; the rate limiter, the pending logins and the revocation
  store are in the theories Rate_Limit, OAuth2 and Tokens. The backends and the drivers of sqlx are arguments.
\<close>

section \<open>Storage backends\<close>

text \<open>\<open>None\<close>: support is not compiled in.\<close>

record 's backends =
  be_memory :: 's
  be_native :: "path \<Rightarrow> 's"
  be_s3 :: "(store_config \<Rightarrow> (storage_error, 's) result) option"
  be_azure :: "(store_config \<Rightarrow> (storage_error, 's) result) option"
  be_gcs :: "(store_config \<Rightarrow> (storage_error, 's) result) option"

definition cloud_store :: "string \<Rightarrow> string \<Rightarrow> (store_config \<Rightarrow> (storage_error, 's) result) option \<Rightarrow> store_config
    \<Rightarrow> (storage_error, 's) result" where
  "cloud_store name feature new config =
     (case new of
        Some n \<Rightarrow> n config
      | None \<Rightarrow> Inl (StInternal (name @ '' support is not compiled in - enable the '' @ apos feature @ '' feature flag'')))"

definition create_store :: "'s backends \<Rightarrow> store_config \<Rightarrow> (storage_error, 's) result" where
  "create_store be config =
     (case sto_backend config of
        StoreMemory \<Rightarrow> Inr (be_memory be)
      | StoreNative \<Rightarrow>
          (case sto_root config of
             None \<Rightarrow> Inl (StInvalidBackend (''native backend requires '' @ apos ''root'' @ '' field''))
           | Some root \<Rightarrow> Inr (be_native be (components root)))
      | StoreS3 \<Rightarrow> cloud_store ''S3'' ''s3'' (be_s3 be) config
      | StoreAzure \<Rightarrow> cloud_store ''Azure'' ''azure'' (be_azure be) config
      | StoreGcs \<Rightarrow> cloud_store ''GCS'' ''gcs'' (be_gcs be) config)"

definition this_should_not_happen :: string where
  "this_should_not_happen = ''. This should not happen - validation runs before AppState construction''"

fun create_stores :: "'s backends \<Rightarrow> (string, store_config) entries \<Rightarrow> (string, 's) entries \<Rightarrow> (app_error, (string, 's) entries) result" where
  "create_stores be [] stores = Inr stores"
| "create_stores be ((name, config) # configs) stores =
     (case create_store be config of
        Inl e \<Rightarrow> Inl (ConfigurationError (''Failed to create storage store '' @ apos name @ '': '' @ storage_error_display e @ this_should_not_happen))
      | Inr s \<Rightarrow> create_stores be configs (entries_insert name s stores))"

definition build_stores_from_config :: "'s backends \<Rightarrow> app_config \<Rightarrow> (app_error, (string, 's) entries) result" where
  "build_stores_from_config be config =
     (if ac_stores config = [] then
        (case create_store be (store_config_default \<lparr> sto_root := Some ''./'' \<rparr>) of
           Inl e \<Rightarrow> Inl (ConfigurationError (''Failed to create default native store: '' @ storage_error_display e @ this_should_not_happen))
         | Inr s \<Rightarrow> Inr [(''default'', s)])
      else create_stores be (ac_stores config) [])"

text \<open>\<open>store_config_eq\<close>: of a cloud section only the bucket or container is compared.\<close>

definition section_eq :: "('c \<Rightarrow> string) \<Rightarrow> 'c option \<Rightarrow> 'c option \<Rightarrow> bool" where
  "section_eq name a b = (case (a, b) of (Some x, Some y) \<Rightarrow> name x = name y | _ \<Rightarrow> a = None \<and> b = None)"

definition store_config_eq :: "store_config \<Rightarrow> store_config \<Rightarrow> bool" where
  "store_config_eq a b =
     (if sto_backend a \<noteq> sto_backend b then False
      else if sto_root a \<noteq> sto_root b then False
      else
        (case sto_backend a of
           StoreNative \<Rightarrow> True
         | StoreMemory \<Rightarrow> True
         | StoreS3 \<Rightarrow> section_eq s3_bucket (sto_s3 a) (sto_s3 b)
         | StoreAzure \<Rightarrow> section_eq az_container (sto_azure a) (sto_azure b)
         | StoreGcs \<Rightarrow> section_eq gcs_bucket (sto_gcs a) (sto_gcs b)))"

lemma changed_credentials_unnoticed:
  "store_config_eq (c \<lparr> sto_backend := StoreS3, sto_s3 := Some s \<rparr>)
     (c \<lparr> sto_backend := StoreS3, sto_s3 := Some (s \<lparr> s3_access_key := a, s3_secret_key := k, s3_region := r, s3_endpoint := e \<rparr>) \<rparr>)"
  by (simp add: store_config_eq_def section_eq_def)

text \<open>The names of the unchanged stores, and those of changed, removed and new ones, sorted.\<close>

definition compute_store_changes :: "(string, store_config) entries \<Rightarrow> (string, store_config) entries \<Rightarrow> string list \<times> string list" where
  "compute_store_changes old new =
     (let same = (\<lambda>(name, cfg). case map_of new name of None \<Rightarrow> False | Some c \<Rightarrow> store_config_eq cfg c);
          unchanged = map fst (filter same old);
          changed = map fst (filter (\<lambda>e. \<not> same e) old) @ filter (\<lambda>name. map_of old name = None) (map fst new)
      in (unchanged, remdups (sort changed)))"

section \<open>Database pools\<close>

text \<open>What sqlx does: parsing a SQLite address, connecting, and closing.\<close>

record 'db connector =
  cn_parse_sqlite :: "string \<Rightarrow> string option"
  cn_connect :: "database_config \<Rightarrow> 'db \<Rightarrow> (string, 'db pool) result \<times> 'db"
  cn_close :: "'db pool \<Rightarrow> 'db \<Rightarrow> 'db"

definition driver_name :: "database_driver \<Rightarrow> string" where
  "driver_name d = (case d of Sqlite \<Rightarrow> ''SQLite'' | Postgres \<Rightarrow> ''Postgres'' | Mysql \<Rightarrow> ''MySQL'')"

definition pool_connect :: "'db connector \<Rightarrow> database_config \<Rightarrow> 'db \<Rightarrow> (app_error, 'db pool) result \<times> 'db" where
  "pool_connect cn config db =
     (case (if dbc_driver config = Sqlite then cn_parse_sqlite cn (dbc_url config) else None) of
        Some e \<Rightarrow> (Inl (ConfigurationError (''Invalid SQLite URL: '' @ e)), db)
      | None \<Rightarrow>
          (case cn_connect cn config db of
             (Inl e, db') \<Rightarrow> (Inl (ConfigurationError (''Failed to connect to '' @ driver_name (dbc_driver config) @ '': '' @ e)), db')
           | (Inr p, db') \<Rightarrow> (Inr (p \<lparr> pl_driver := dbc_driver config \<rparr>), db')))"

fun create_pools :: "'db connector \<Rightarrow> (string, database_config) entries \<Rightarrow> (string, 'db pool) entries \<Rightarrow> 'db
    \<Rightarrow> (app_error, (string, 'db pool) entries) result \<times> 'db" where
  "create_pools cn [] pools db = (Inr pools, db)"
| "create_pools cn ((name, config) # databases) pools db =
     (case pool_connect cn config db of
        (Inl e, db') \<Rightarrow> (Inl e, db')
      | (Inr p, db') \<Rightarrow> create_pools cn databases (entries_insert name p pools) db')"

fun close_pools :: "'db connector \<Rightarrow> (string, 'db pool) entries \<Rightarrow> 'db \<Rightarrow> 'db" where
  "close_pools cn [] db = db"
| "close_pools cn ((name, p) # pools) db = close_pools cn pools (cn_close cn p db)"

section \<open>The state\<close>

record ('db, 's, 'v) app_state =
  st_config :: app_config
  st_config_path :: path
  st_admin_token :: string
  st_pools :: "(string, 'db pool) entries"
  st_endpoint_configs :: "(string, endpoint_config) entries"
  st_stores :: "(string, 's) entries"
  st_store_configs :: "(string, store_config) entries"
  st_role_inheritance :: "(string, string set) entries"
  st_schema_registry :: "'v registry"

definition app_state_new :: "'s backends \<Rightarrow> 'v schema_env \<Rightarrow> app_config \<Rightarrow> path \<Rightarrow> string \<Rightarrow> (app_error, ('db, 's, 'v) app_state) result" where
  "app_state_new be se config config_path admin_token =
     (case build_stores_from_config be config of
        Inl e \<Rightarrow> Inl e
      | Inr stores \<Rightarrow>
          (case schema_registry_new se config config_path of
             Inl e \<Rightarrow> Inl e
           | Inr reg \<Rightarrow>
               Inr \<lparr> st_config = config, st_config_path = config_path, st_admin_token = admin_token, st_pools = [],
                     st_endpoint_configs = [], st_stores = stores, st_store_configs = ac_stores config,
                     st_role_inheritance = compute_role_inheritance (ac_role_hierarchy config), st_schema_registry = reg \<rparr>))"

definition get_store :: "('db, 's, 'v) app_state \<Rightarrow> string \<Rightarrow> 's option" where
  "get_store st name = map_of (st_stores st) name"

end
