(* ===== verification/Reload.thy ===== *)
theory Reload
  imports App_State Authenticate
begin

text \<open>
  The system endpoints (src/server/reload.rs): the health check and the reload of the configuration, with every step that can
  fail, in the order of the code. Loading, migrations, pools, stores and the schema registry are the models of
  the other theories. The handler is taken to run alone.
\<close>

section \<open>Health\<close>

definition handle_health :: "('db, 's, 'v) app_state \<Rightarrow> http_response" where
  "handle_health st =
     json_response 200 (JObj
       [(''databases_configured'', JInt (int (length (ac_databases (st_config st))))),
        (''databases_connected'', JInt (int (length (st_pools st)))),
        (''endpoints_configured'', JInt (int (length (ac_endpoints (st_config st))))),
        (''status'', JStr ''healthy''),
        (''stores_configured'', JInt (int (length (ac_stores (st_config st)))))])"

section \<open>Reload\<close>

record ('db, 's, 'v) reload_world =
  rw_loader :: loader_env
  rw_connector :: "'db connector"
  rw_backends :: "'s backends"
  rw_schemas :: "'v schema_env"
  rw_iteration :: "(nat, nat list) entries \<Rightarrow> (nat, nat list) entries"

definition system_error :: "nat \<Rightarrow> string \<Rightarrow> string \<Rightarrow> http_response" where
  "system_error status errcode message =
     json_response status (JObj [(''error'', JObj [(''code'', JStr errcode), (''message'', JStr message)])])"

definition admin_authorized :: "header_map \<Rightarrow> string \<Rightarrow> bool" where
  "admin_authorized headers admin_token \<longleftrightarrow>
     (case (case header_str ''authorization'' headers of None \<Rightarrow> None | Some v \<Rightarrow> strip_prefix ''Bearer '' v) of
        Some t \<Rightarrow> t = admin_token
      | None \<Rightarrow> False)"

fun recreate_stores :: "'s backends \<Rightarrow> string list \<Rightarrow> (string, store_config) entries \<Rightarrow> (string, 's) entries
    \<Rightarrow> (storage_error, (string, 's) entries) result" where
  "recreate_stores be unchanged [] stores = Inr stores"
| "recreate_stores be unchanged ((name, config) # configs) stores =
     (if name \<in> set unchanged then recreate_stores be unchanged configs stores
      else
        (case create_store be config of
           Inl e \<Rightarrow> Inl e
         | Inr s \<Rightarrow> recreate_stores be unchanged configs (entries_insert name s stores)))"

definition new_stores :: "'s backends \<Rightarrow> (string, store_config) entries \<Rightarrow> (string, store_config) entries \<Rightarrow> (string, 's) entries
    \<Rightarrow> (storage_error, (string, 's) entries) result" where
  "new_stores be old_configs new_configs stores =
     (case compute_store_changes old_configs new_configs of
        (unchanged, changed) \<Rightarrow>
          if changed = [] then Inr stores
          else recreate_stores be unchanged new_configs (fold entries_remove changed stores))"

text \<open>What the locks protect is swapped. The new stores go into the copy of the state the handler was given, which ends with it: the
  copies the router gives to later requests still hold the old ones.\<close>

definition swap_state :: "app_config \<Rightarrow> (string, 'db pool) entries \<Rightarrow> ('db, 's, 'v) app_state \<Rightarrow> ('db, 's, 'v) app_state" where
  "swap_state config pools st = st \<lparr> st_config := config, st_pools := pools, st_store_configs := ac_stores config \<rparr>"

definition reload_summary :: "app_config \<Rightarrow> http_response" where
  "reload_summary config =
     json_response 200 (JObj
       [(''status'', JStr ''reloaded''),
        (''summary'', JObj [(''databases'', JInt (int (length (ac_databases config)))),
                           (''endpoints'', JInt (int (length (ac_endpoints config)))),
                           (''tables'', JInt (int (length (ac_tables config))))])])"

type_synonym ('db, 's, 'v) reload_outcome = "((http_response, http_response) result \<times> ('db, 's, 'v) app_state \<times> 'db) option"

text \<open>From the new stores on; the pools of the old configuration are closed last.\<close>

definition reload_commit :: "('db, 's, 'v) reload_world \<Rightarrow> app_config \<Rightarrow> (string, 'db pool) entries \<Rightarrow> ('db, 's, 'v) app_state \<Rightarrow> 'db
    \<Rightarrow> (http_response, http_response) result \<times> ('db, 's, 'v) app_state \<times> 'db" where
  "reload_commit w config pools st db =
     (case new_stores (rw_backends w) (st_store_configs st) (ac_stores config) (st_stores st) of
        Inl e \<Rightarrow> (Inl (system_error 500 ''reload_failed'' (''Store creation failed: '' @ storage_error_display e)), st, db)
      | Inr _ \<Rightarrow>
          (case schema_registry_new (rw_schemas w) config (st_config_path st) of
             Inl e \<Rightarrow> (Inl (system_error 500 ''reload_failed'' (''Schema registry rebuild failed: '' @ app_error_display e)),
                       swap_state config pools st, db)
           | Inr reg \<Rightarrow> (Inr (reload_summary config), swap_state config pools st \<lparr> st_schema_registry := reg \<rparr>,
                         close_pools (rw_connector w) (st_pools st) db)))"

definition reload_databases :: "('db, 's, 'v) reload_world \<Rightarrow> app_config \<Rightarrow> ('db, 's, 'v) app_state \<Rightarrow> 'db \<Rightarrow> ('db, 's, 'v) reload_outcome" where
  "reload_databases w config st db =
     (case create_pools (rw_connector w) (ac_databases config) [] db of
        (Inl e, db1) \<Rightarrow> Some (Inl (system_error 500 ''reload_failed'' (''Database pool creation failed: '' @ app_error_display e)), st, db1)
      | (Inr pools, db1) \<Rightarrow>
          (case run_migrations (rw_iteration w) (ac_tables config) pools (ac_databases config) db1 of
             None \<Rightarrow> None
           | Some (Inl e, db2) \<Rightarrow>
               Some (Inl (system_error 500 ''reload_failed'' (''Migration failed: '' @ app_error_display e)), st, close_pools (rw_connector w) pools db2)
           | Some (Inr _, db2) \<Rightarrow>
               (case ensure_media_columns (ac_endpoints config) pools db2 of
                  (Inl e, db3) \<Rightarrow>
                    Some (Inl (system_error 500 ''reload_failed'' (''Failed to ensure media columns: '' @ app_error_display e)), st,
                          close_pools (rw_connector w) pools db3)
                | (Inr _, db3) \<Rightarrow> Some (reload_commit w config pools st db3))))"

text \<open>\<open>None\<close>: loading ran out of fuel, or the migration panics.\<close>

definition handle_reload :: "nat \<Rightarrow> ('db, 's, 'v) reload_world \<Rightarrow> header_map \<Rightarrow> ('db, 's, 'v) app_state \<Rightarrow> 'db \<Rightarrow> ('db, 's, 'v) reload_outcome" where
  "handle_reload fuel w headers st db =
     (if \<not> admin_authorized headers (st_admin_token st) then
        Some (Inl (system_error 401 ''unauthorized'' ''Invalid or missing admin token''), st, db)
      else
        (case load_config fuel (rw_loader w) (st_config_path st) of
           None \<Rightarrow> None
         | Some (Inl e) \<Rightarrow> Some (Inl (system_error 400 ''reload_failed'' (''Config reload failed: '' @ app_error_display e)), st, db)
         | Some (Inr config) \<Rightarrow> reload_databases w config st db))"

end
