(* ===== verification/Startup.thy ===== *)
theory Startup
  imports Reload
begin

text \<open>
  The start of the server (src/main.rs) up to the listening socket: the path of the configuration, loading, the shared state,
  the pools with migrations and the revocation store, and the table of endpoints (\<open>build_router\<close>). The options, TLS and the
  shutdown are in Server_Main; sockets, signals and the cleanup task are not modelled. Of a failed start the message it logs is given, before the process
  exits with status 1.
\<close>

section \<open>The configuration path\<close>

definition home_config :: "string \<Rightarrow> string" where
  "home_config home = home @ ''/.config/main-serve/config.yaml''"

definition resolve_config_path :: "string option \<Rightarrow> string option \<Rightarrow> (string \<Rightarrow> bool) \<Rightarrow> string" where
  "resolve_config_path cli_path home exists =
     (case cli_path of
        Some explicit \<Rightarrow> explicit
      | None \<Rightarrow>
          if (case home of None \<Rightarrow> False | Some h \<Rightarrow> exists (home_config h)) then home_config (the home)
          else if exists ''/etc/main-serve/config.yaml'' then ''/etc/main-serve/config.yaml''
          else (case home of Some h \<Rightarrow> home_config h | None \<Rightarrow> ''$HOME/.config/main-serve/config.yaml''))"

definition log_filter :: "log_level \<Rightarrow> string" where
  "log_filter l =
     (case l of LogTrace \<Rightarrow> ''trace'' | LogDebug \<Rightarrow> ''debug'' | LogInfo \<Rightarrow> ''info'' | LogWarn \<Rightarrow> ''warn'' | LogError \<Rightarrow> ''error'')"

section \<open>The state before the first request\<close>

datatype 'db revocation_impl = RevokeInMemory | RevokeInDatabase "'db pool" string

text \<open>The revocation store: with a database, the table is created in all pools and the first pool holds it.\<close>

definition make_revocation :: "jwt_revocation_config option \<Rightarrow> (string, 'db pool) entries \<Rightarrow> 'db
    \<Rightarrow> (app_error, 'db revocation_impl option) result \<times> 'db" where
  "make_revocation settings pools db =
     (case settings of
        None \<Rightarrow> (Inr None, db)
      | Some r \<Rightarrow>
          (case rev_store r of
             RevInMemory \<Rightarrow> (Inr (Some RevokeInMemory), db)
           | RevDatabase \<Rightarrow>
               (case create_revocation_tables pools db of
                  (Inl e, db') \<Rightarrow> (Inl e, db')
                | (Inr _, db') \<Rightarrow>
                    (Inr (case pools of
                            [] \<Rightarrow> None
                          | (_, p) # _ \<Rightarrow> Some (RevokeInDatabase p (unwrap_or (rev_db_table r) ''token_blacklist''))), db'))))"

text \<open>The part that runs only with databases. \<open>None\<close>: the migration panics.\<close>

definition start_databases :: "('db, 's, 'v) reload_world \<Rightarrow> app_config \<Rightarrow> 'db
    \<Rightarrow> ((string, (string, 'db pool) entries \<times> 'db revocation_impl option) result \<times> 'db) option" where
  "start_databases w config db =
     (case create_pools (rw_connector w) (ac_databases config) [] db of
        (Inl e, db1) \<Rightarrow> Some (Inl (''Failed to create database pools: '' @ app_error_display e), db1)
      | (Inr pools, db1) \<Rightarrow>
          (case make_revocation (case au_jwt (ac_auth config) of None \<Rightarrow> None | Some j \<Rightarrow> jwt_revocation j) pools db1 of
             (Inl e, db2) \<Rightarrow> Some (Inl (''Failed to create revocation table: '' @ app_error_display e), close_pools (rw_connector w) pools db2)
           | (Inr store, db2) \<Rightarrow>
               (case run_migrations (rw_iteration w) (ac_tables config) pools (ac_databases config) db2 of
                  None \<Rightarrow> None
                | Some (Inl e, db3) \<Rightarrow> Some (Inl (''Migration failed: '' @ app_error_display e), close_pools (rw_connector w) pools db3)
                | Some (Inr _, db3) \<Rightarrow>
                    (case ensure_media_columns (ac_endpoints config) pools db3 of
                       (Inl e, db4) \<Rightarrow> Some (Inl (''Failed to ensure media columns: '' @ app_error_display e), close_pools (rw_connector w) pools db4)
                     | (Inr _, db4) \<Rightarrow> Some (Inr (pools, store), db4)))))"

definition startup :: "nat \<Rightarrow> ('db, 's, 'v) reload_world \<Rightarrow> path \<Rightarrow> string \<Rightarrow> 'db
    \<Rightarrow> ((string, ('db, 's, 'v) app_state \<times> 'db revocation_impl option) result \<times> 'db) option" where
  "startup fuel w config_path admin_token db =
     (case load_config fuel (rw_loader w) config_path of
        None \<Rightarrow> None
      | Some (Inl e) \<Rightarrow> Some (Inl (''Failed to load config: '' @ app_error_display e), db)
      | Some (Inr config) \<Rightarrow>
          (case app_state_new (rw_backends w) (rw_schemas w) config config_path admin_token of
             Inl e \<Rightarrow> Some (Inl (''Failed to initialize application state: '' @ app_error_display e), db)
           | Inr st \<Rightarrow>
               (case (if ac_databases config = [] then Some (Inr ([], None), db) else start_databases w config db) of
                  None \<Rightarrow> None
                | Some (Inl m, db1) \<Rightarrow> Some (Inl m, db1)
                | Some (Inr (pools, store), db1) \<Rightarrow>
                    Some (Inr (st \<lparr> st_pools := pools, st_endpoint_configs := register_endpoints (ac_endpoints config) \<rparr>, store), db1))))"

end
