(* ===== verification/Serving_Props.thy ===== *)
theory Serving_Props
  imports Startup Loader_Props Validation_Props
begin

text \<open>
  What holds of the shared state from the start on, through any sequence of reloads: the configuration is valid and the
  pools are those of its databases, while the endpoint table, the stores and the inherited roles stay those of the start.
\<close>

section \<open>One reload\<close>

lemma create_pools_dom:
  "create_pools cn databases pools db = (Inr pools', db') \<Longrightarrow> dom (map_of pools') = dom (map_of databases) \<union> dom (map_of pools)"
  by (induction cn databases pools db rule: create_pools.induct) (auto split: prod.splits sum.splits)

lemma loaded_valid: "load_config n env p = Some (Inr c) \<Longrightarrow> validate_config c = Some (Inr ())"
  by (auto simp: load_config_def split: sum.splits option.splits)

text \<open>What a reload that got to the swap has done before.\<close>

definition swapped :: "nat \<Rightarrow> ('db, 's, 'v) reload_world \<Rightarrow> ('db, 's, 'v) app_state \<Rightarrow> app_config \<Rightarrow> (string, 'db pool) entries \<Rightarrow> bool" where
  "swapped fuel w st config pools \<longleftrightarrow>
     load_config fuel (rw_loader w) (st_config_path st) = Some (Inr config) \<and> dom (map_of pools) = dom (map_of (ac_databases config))"

lemma reload_commit_cases:
  assumes "reload_commit w config pools st db = (r, st', db')"
  shows "(\<exists>e. r = Inl e) \<and> st' = st
    \<or> (\<exists>e. r = Inl e) \<and> (\<exists>e. schema_registry_new (rw_schemas w) config (st_config_path st) = Inl e) \<and> st' = swap_state config pools st
    \<or> (\<exists>reg. schema_registry_new (rw_schemas w) config (st_config_path st) = Inr reg \<and> r = Inr (reload_summary config)
         \<and> st' = swap_state config pools st \<lparr> st_schema_registry := reg \<rparr>)"
  using assms by (auto simp: reload_commit_def split: sum.splits)

lemma reload_cases:
  assumes "handle_reload fuel w headers st db = Some (r, st', db')"
  obtains (kept) e where "r = Inl e" "st' = st"
  | (partial) config pools e m where "admin_authorized headers (st_admin_token st)" "swapped fuel w st config pools" "r = Inl e"
      "schema_registry_new (rw_schemas w) config (st_config_path st) = Inl m" "st' = swap_state config pools st"
  | (complete) config pools reg where "admin_authorized headers (st_admin_token st)" "swapped fuel w st config pools" "r = Inr (reload_summary config)"
      "schema_registry_new (rw_schemas w) config (st_config_path st) = Inr reg"
      "st' = swap_state config pools st \<lparr> st_schema_registry := reg \<rparr>"
proof -
  have "(\<exists>e. r = Inl e) \<and> st' = st \<or> (\<exists>config pools db2 db3. admin_authorized headers (st_admin_token st)
      \<and> swapped fuel w st config pools \<and> reload_commit w config pools st db2 = (r, st', db3))"
    using assms unfolding handle_reload_def reload_databases_def swapped_def
    by (force split: if_splits option.splits sum.splits prod.splits dest: create_pools_dom)
  with that show thesis by (elim disjE conjE exE) (force dest!: reload_commit_cases)+
qed

text \<open>A reload without the admin token is refused and changes nothing. With it, it either fails and leaves the shared state as it
  was; or swaps in a valid configuration that was loaded, with pools for exactly its databases, and succeeds; or swaps these in and
  fails all the same, keeping the schema registry of the old configuration, because the new registry cannot be built.\<close>

lemma reload_swaps_or_keeps:
  assumes "handle_reload fuel w headers st db = Some (r, st', db')"
  shows "(\<not> admin_authorized headers (st_admin_token st) \<longrightarrow> st' = st \<and> db' = db \<and> (\<exists>e. r = Inl e \<and> resp_status e = 401))
    \<and> (\<not> is_ok r \<and> st' = st
       \<or> (\<exists>config pools. load_config fuel (rw_loader w) (st_config_path st) = Some (Inr config) \<and> validate_config config = Some (Inr ())
            \<and> dom (map_of pools) = dom (map_of (ac_databases config))
            \<and> (case schema_registry_new (rw_schemas w) config (st_config_path st) of
                 Inl _ \<Rightarrow> \<not> is_ok r \<and> st' = swap_state config pools st
               | Inr reg \<Rightarrow> r = Inr (reload_summary config) \<and> st' = swap_state config pools st \<lparr> st_schema_registry := reg \<rparr>)))"
proof -
  have "\<not> admin_authorized headers (st_admin_token st) \<longrightarrow> st' = st \<and> db' = db \<and> (\<exists>e. r = Inl e \<and> resp_status e = 401)"
    using assms by (auto simp: handle_reload_def system_error_def json_response_def)
  moreover from assms have "\<not> is_ok r \<and> st' = st
       \<or> (\<exists>config pools. load_config fuel (rw_loader w) (st_config_path st) = Some (Inr config) \<and> validate_config config = Some (Inr ())
            \<and> dom (map_of pools) = dom (map_of (ac_databases config))
            \<and> (case schema_registry_new (rw_schemas w) config (st_config_path st) of
                 Inl _ \<Rightarrow> \<not> is_ok r \<and> st' = swap_state config pools st
               | Inr reg \<Rightarrow> r = Inr (reload_summary config) \<and> st' = swap_state config pools st \<lparr> st_schema_registry := reg \<rparr>))"
  proof (cases rule: reload_cases)
    case (partial config pools e m)
    then show ?thesis using loaded_valid unfolding swapped_def by (intro disjI2 exI [of _ config] exI [of _ pools]) auto
  next
    case (complete config pools reg)
    then show ?thesis using loaded_valid unfolding swapped_def by (intro disjI2 exI [of _ config] exI [of _ pools]) auto
  qed simp
  ultimately show ?thesis by blast
qed

lemma admin_authorized_iff: "admin_authorized headers token \<longleftrightarrow> header_str ''authorization'' headers = Some (''Bearer '' @ token)"
  by (auto simp: admin_authorized_def strip_prefix_Some [of "''Bearer ''" _ token, simplified] split: option.splits)

text \<open>C18: of a reload that returns. If its Authorization header is not the bearer of the admin token and the request carries no
  credential that an authentication provider of the configuration in effect accepts either, it is answered
  401, and neither the shared state nor any database changes. With the admin token, if the new configuration cannot be read,
  parsed or validated, it is answered 400 with the error, and again neither state nor databases change. If it
  answers with success, the configuration in effect is the one loaded from the configured path, it is valid, there
  is a pool for each of its databases and for no other, the schema registry is the one built from it, and the
  answer counts its endpoints, databases and tables.\<close>

theorem reload_applies_valid_configuration:
  assumes "handle_reload fuel w headers st db = Some (r, st', db')"
  shows "(header_str ''authorization'' headers \<noteq> Some (''Bearer '' @ st_admin_token st)
        \<and> (\<forall>ty info. ty \<noteq> ''none'' \<longrightarrow> authenticate aw ty (ac_auth (st_config st)) headers params revoked \<noteq> Inr info) \<longrightarrow>
      st' = st \<and> db' = db \<and> (\<exists>e. r = Inl e \<and> resp_status e = 401))
    \<and> (\<forall>m. header_str ''authorization'' headers = Some (''Bearer '' @ st_admin_token st)
          \<and> load_config fuel (rw_loader w) (st_config_path st) = Some (Inl m) \<longrightarrow>
        st' = st \<and> db' = db \<and> r = Inl (system_error 400 ''reload_failed'' (''Config reload failed: '' @ app_error_display m)))
    \<and> (\<forall>a. r = Inr a \<longrightarrow> a = reload_summary (st_config st')
        \<and> load_config fuel (rw_loader w) (st_config_path st) = Some (Inr (st_config st')) \<and> validate_config (st_config st') = Some (Inr ())
        \<and> dom (map_of (st_pools st')) = dom (map_of (ac_databases (st_config st')))
        \<and> schema_registry_new (rw_schemas w) (st_config st') (st_config_path st) = Inr (st_schema_registry st'))"
proof (intro conjI allI impI)
  assume "header_str ''authorization'' headers \<noteq> Some (''Bearer '' @ st_admin_token st)
      \<and> (\<forall>ty info. ty \<noteq> ''none'' \<longrightarrow> authenticate aw ty (ac_auth (st_config st)) headers params revoked \<noteq> Inr info)"
  then show "st' = st" "db' = db" "\<exists>e. r = Inl e \<and> resp_status e = 401"
    using assms by (auto simp: handle_reload_def admin_authorized_iff system_error_def json_response_def)
next
  fix m
  assume "header_str ''authorization'' headers = Some (''Bearer '' @ st_admin_token st)
      \<and> load_config fuel (rw_loader w) (st_config_path st) = Some (Inl m)"
  then show "st' = st" "db' = db" "r = Inl (system_error 400 ''reload_failed'' (''Config reload failed: '' @ app_error_display m))"
    using assms by (auto simp: handle_reload_def admin_authorized_iff)
next
  fix a assume "r = Inr a"
  with assms obtain config pools reg where c: "swapped fuel w st config pools" "r = Inr (reload_summary config)"
      "schema_registry_new (rw_schemas w) config (st_config_path st) = Inr reg"
      "st' = swap_state config pools st \<lparr> st_schema_registry := reg \<rparr>"
    by (cases rule: reload_cases) auto
  with \<open>r = Inr a\<close> loaded_valid show "a = reload_summary (st_config st')"
    "load_config fuel (rw_loader w) (st_config_path st) = Some (Inr (st_config st'))" "validate_config (st_config st') = Some (Inr ())"
    "dom (map_of (st_pools st')) = dom (map_of (ac_databases (st_config st')))"
    "schema_registry_new (rw_schemas w) (st_config st') (st_config_path st) = Inr (st_schema_registry st')"
    by (auto simp: swapped_def swap_state_def)
qed

text \<open>Without an admin token the empty bearer token is the right one.\<close>

lemma empty_admin_token: "admin_authorized headers [] \<longleftrightarrow> header_str ''authorization'' headers = Some ''Bearer ''"
  by (auto simp: admin_authorized_def strip_prefix_Some [of "''Bearer ''" _ "[]", simplified] split: option.splits)

section \<open>From the start on\<close>

definition started :: "('db, 's, 'v) app_state \<Rightarrow> bool" where
  "started st \<longleftrightarrow> (\<exists>fuel w config_path admin_token db store db'. startup fuel w config_path admin_token db = Some (Inr (st, store), db'))"

definition reload_step :: "('db, 's, 'v) app_state \<Rightarrow> ('db, 's, 'v) app_state \<Rightarrow> bool" where
  "reload_step st st' \<longleftrightarrow> (\<exists>fuel w headers db r db'. handle_reload fuel w headers st db = Some (r, st', db'))"

definition consistent :: "('db, 's, 'v) app_state \<Rightarrow> bool" where
  "consistent st \<longleftrightarrow> validate_config (st_config st) = Some (Inr ()) \<and> dom (map_of (st_pools st)) = dom (map_of (ac_databases (st_config st)))"

lemma started_consistent:
  fixes st :: "('db, 's, 'v) app_state"
  assumes "started st"
  shows "consistent st" "st_endpoint_configs st = register_endpoints (ac_endpoints (st_config st))"
proof -
  from assms obtain fuel w path token db store db' where start: "startup fuel w path token db = Some (Inr (st, store), db')"
    by (auto simp: started_def)
  then obtain config and st0 :: "('db, 's, 'v) app_state" where config: "load_config fuel (rw_loader w) path = Some (Inr config)"
    and new: "app_state_new (rw_backends w) (rw_schemas w) config path token = Inr st0"
    by (cases "load_config fuel (rw_loader w) path") (auto simp: startup_def split: sum.splits)
  have st0: "st_config st0 = config" "st_pools st0 = []" using new by (auto simp: app_state_new_def split: sum.splits)
  have pools: "dom (map_of pools) = dom (map_of (ac_databases config))" if "start_databases w config db = Some (Inr (pools, s), db1)" for pools s db1
  proof -
    from that obtain db2 where "create_pools (rw_connector w) (ac_databases config) [] db = (Inr pools, db2)"
      unfolding start_databases_def by (auto split: sum.splits option.splits prod.splits)
    from create_pools_dom [OF this] show ?thesis by simp
  qed
  from start obtain pools where "st = st0 \<lparr> st_pools := pools, st_endpoint_configs := register_endpoints (ac_endpoints config) \<rparr>"
    "ac_databases config = [] \<and> pools = [] \<or> start_databases w config db = Some (Inr (pools, store), db')"
    by (auto simp: startup_def config new split: if_splits option.splits sum.splits prod.splits)
  with pools st0 have "st_config st = config \<and> dom (map_of (st_pools st)) = dom (map_of (ac_databases config))
      \<and> st_endpoint_configs st = register_endpoints (ac_endpoints config)"
    by (elim disjE) simp_all
  then show "consistent st" "st_endpoint_configs st = register_endpoints (ac_endpoints (st_config st))"
    using loaded_valid [OF config] by (simp_all add: consistent_def)
qed

lemma reload_step_consistent:
  assumes "reload_step st st'" "consistent st"
  shows "consistent st'"
proof -
  from assms(1) obtain fuel w headers db r db' where "handle_reload fuel w headers st db = Some (r, st', db')" by (auto simp: reload_step_def)
  then show ?thesis
    by (cases rule: reload_cases) (use assms(2) loaded_valid in \<open>auto simp: consistent_def swap_state_def swapped_def\<close>)
qed

lemma reload_step_keeps:
  assumes "reload_step st st'"
  shows "st_endpoint_configs st' = st_endpoint_configs st" "st_stores st' = st_stores st" "st_role_inheritance st' = st_role_inheritance st"
    "st_admin_token st' = st_admin_token st"
proof -
  from assms obtain fuel w headers db r db' where "handle_reload fuel w headers st db = Some (r, st', db')" by (auto simp: reload_step_def)
  then have "st_endpoint_configs st' = st_endpoint_configs st \<and> st_stores st' = st_stores st \<and> st_role_inheritance st' = st_role_inheritance st
      \<and> st_admin_token st' = st_admin_token st"
    by (cases rule: reload_cases) (simp_all add: swap_state_def)
  then show "st_endpoint_configs st' = st_endpoint_configs st" "st_stores st' = st_stores st" "st_role_inheritance st' = st_role_inheritance st"
    "st_admin_token st' = st_admin_token st" by simp_all
qed

text \<open>C17: from the start of the server on, through any reloads, successful or not, the configuration in effect is valid, there is a pool for
  each of its databases and for no other, and each of its CRUD endpoints finds its table if that is defined in its database.\<close>

theorem serving_state_consistent:
  assumes "reachable started reload_step st"
  shows "validate_config (st_config st) = Some (Inr ()) \<and> dom (map_of (st_pools st)) = dom (map_of (ac_databases (st_config st)))
    \<and> (\<forall>e \<in> set (ac_endpoints (st_config st)). \<forall>crud. ep_action e = ActCrud \<and> ep_crud e = Some crud \<longrightarrow>
         is_ok (get_db_context (st_pools st) (ac_tables (st_config st)) (crud_database crud) (crud_table crud))
           = (\<exists>t \<in> set (ac_tables (st_config st)). tbl_name t = crud_table crud \<and> tbl_database t = crud_database crud))"
proof -
  from assms have inv: "consistent st"
    by (induction rule: reachable_invariant) (use started_consistent(1) reload_step_consistent in blast)+
  have "is_ok (get_db_context (st_pools st) (ac_tables (st_config st)) (crud_database crud) (crud_table crud))
      = (\<exists>t \<in> set (ac_tables (st_config st)). tbl_name t = crud_table crud \<and> tbl_database t = crud_database crud)"
    if "e \<in> set (ac_endpoints (st_config st))" "ep_action e = ActCrud" "ep_crud e = Some crud" for e crud
  proof -
    from inv that(1) obtain i where "validate_endpoint (st_config st) (i, e) = []" using validated_endpoint unfolding consistent_def by blast
    from validated_section [OF this] that(2,3) have "crud_database crud \<in> dom (map_of (ac_databases (st_config st)))"
      by (simp add: section_resolves_def)
    with inv obtain p where "map_of (st_pools st) (crud_database crud) = Some p" by (auto simp: consistent_def)
    then show ?thesis by (rule get_db_context_ok)
  qed
  with inv show ?thesis unfolding consistent_def by blast
qed

text \<open>What the authentication middleware sees of the state.\<close>

definition auth_view :: "('db, 's, 'v) app_state \<Rightarrow> (string \<Rightarrow> bool) option \<Rightarrow> auth_state" where
  "auth_view st revoked =
     \<lparr> as_endpoints = st_endpoint_configs st, as_auth = ac_auth (st_config st), as_revoked = revoked,
       as_inheritance = st_role_inheritance st \<rparr>"

text \<open>Reloads never touch the endpoint table, the stores or the inherited roles. A request that the endpoints of the start serve
  without authentication passes the middleware after any reloads, whatever the configuration in effect says of its path.\<close>

lemma reload_keeps_routes:
  assumes "reachable started reload_step st0" "reachable (\<lambda>s. s = st0) reload_step st"
  shows "st_endpoint_configs st = st_endpoint_configs st0 \<and> st_role_inheritance st = st_role_inheritance st0
    \<and> (\<forall>name. get_store st name = get_store st0 name)
    \<and> (\<forall>w revoked req.
         (case get_endpoint_config_for_method (st_endpoint_configs st0) (rq_path req) (rq_method req) of
            None \<Rightarrow> True | Some e \<Rightarrow> ep_auth e = ''none'') \<longrightarrow>
         auth_middleware w (auth_view st revoked) req = Inr None)"
proof -
  from assms(2) have "st_endpoint_configs st = st_endpoint_configs st0 \<and> st_stores st = st_stores st0 \<and> st_role_inheritance st = st_role_inheritance st0"
  proof (induction rule: reachable_invariant)
    case (step s s')
    then show ?case by (simp add: reload_step_keeps [OF step(1)])
  qed simp
  then show ?thesis by (auto simp: get_store_def auth_view_def auth_middleware_def Let_def split: option.splits)
qed

section \<open>A server that is told to protect its endpoint\<close>

definition server_world :: "app_config \<Rightarrow> (unit, unit, json list) reload_world" where
  "server_world c = \<lparr>
     rw_loader = sample_files \<lparr> le_decode := \<lambda>_. Inr c \<rparr>,
     rw_connector = \<lparr> cn_parse_sqlite = \<lambda>_. None, cn_connect = \<lambda>_ db. (Inl ''refused'', db), cn_close = \<lambda>_ db. db \<rparr>,
     rw_backends = \<lparr> be_memory = (), be_native = \<lambda>_. (), be_s3 = None, be_azure = None, be_gcs = None \<rparr>,
     rw_schemas = sample_schemas, rw_iteration = \<lambda>m. m \<rparr>"

definition sample_page :: "string \<Rightarrow> endpoint_config" where
  "sample_page auth = (sample_endpoint ''/x'' [Get] auth) \<lparr> ep_action := ActCustomResponse, ep_custom_response := Some custom_response_config_default \<rparr>"

definition sample_open :: app_config where
  "sample_open = app_config_default \<lparr> ac_endpoints := [sample_page ''none''] \<rparr>"

definition sample_protected :: app_config where
  "sample_protected = app_config_default \<lparr> ac_endpoints := [sample_page ''api_key''],
     ac_auth := auth_config_default \<lparr> au_api_key := Some (api_key_config_default \<lparr> ak_keys := [\<lparr> ake_key = ''k'', ake_role = None \<rparr>] \<rparr>) \<rparr> \<rparr>"

lemma sample_configs_valid: "validate_config sample_open = Some (Inr ())" "validate_config sample_protected = Some (Inr ())"
  by (simp_all add: validate_config_def sample_open_def sample_protected_def app_config_default_def server_config_default_def validate_server_def
    validate_databases_def validate_stores_def validate_tables_def validate_endpoints_def validate_endpoint_def validate_custom_response_endpoint_def
    sample_page_def sample_endpoint_def custom_response_config_default_def validate_auth_def validate_provider_def valid_providers_def
    auth_config_default_def validate_role_hierarchy_def validate_cors_def cors_config_default_def validate_endpoint_cors_def Let_def)

definition sample_state :: "(unit, unit, json list) app_state" where
  "sample_state = \<lparr> st_config = sample_open, st_config_path = components ''/c.yaml'', st_admin_token = ''secret'', st_pools = [],
     st_endpoint_configs = register_endpoints [sample_page ''none''], st_stores = [(''default'', ())], st_store_configs = [],
     st_role_inheritance = compute_role_inheritance None, st_schema_registry = [] \<rparr>"

lemma sample_registry: "ac_tables c = [] \<Longrightarrow> ac_global_schemas c = None \<Longrightarrow> schema_registry_new se c p = Inr []"
  by (simp add: schema_registry_new_def table_columns_def)

lemma sample_fields [simp]:
  "ac_tables sample_open = []" "ac_global_schemas sample_open = None" "ac_stores sample_open = []" "ac_databases sample_open = []"
  "ac_endpoints sample_open = [sample_page ''none'']" "ac_role_hierarchy sample_open = None"
  "ac_tables sample_protected = []" "ac_global_schemas sample_protected = None" "ac_stores sample_protected = []"
  "ac_databases sample_protected = []" "ac_endpoints sample_protected = [sample_page ''api_key'']"
  "rw_loader (server_world c) = sample_files \<lparr> le_decode := \<lambda>_. Inr c \<rparr>" "rw_iteration (server_world c) = (\<lambda>m. m)"
  "create_store (rw_backends (server_world c)) (store_config_default \<lparr> sto_root := Some r \<rparr>) = Inr ()"
  "ep_media (sample_page auth) = None" "ep_auth (sample_page auth) = auth"
  by (simp_all add: sample_open_def sample_protected_def app_config_default_def server_world_def create_store_def store_config_default_def
    sample_page_def sample_endpoint_def)

lemma sample_startup: "startup 5 (server_world sample_open) (components ''/c.yaml'') ''secret'' () = Some (Inr (sample_state, None), ())"
  by (simp add: startup_def sample_loads sample_configs_valid app_state_new_def build_stores_from_config_def sample_registry sample_state_def)

lemma sample_started: "started sample_state"
  unfolding started_def using sample_startup by blast

lemma sample_reload:
  "handle_reload 5 (server_world sample_protected) [(''authorization'', ''Bearer secret'')] sample_state ()
     = Some (Inr (reload_summary sample_protected), swap_state sample_protected [] sample_state \<lparr> st_schema_registry := [] \<rparr>, ())"
proof -
  have "admin_authorized [(''authorization'', ''Bearer secret'')] ''secret''" by code_simp
  then have "admin_authorized [(''authorization'', ''Bearer secret'')] (st_admin_token sample_state)" by (simp add: sample_state_def)
  moreover have "run_migrations (\<lambda>m. m) [] pools dbs db = Some (Inr (), db)" for pools dbs and db :: unit
    by (simp add: run_migrations_def sort_tables_topologically_def)
  moreover have "ensure_media_columns [sample_page ''api_key''] pools db = (Inr (), db)" for pools and db :: unit
    by (simp add: ensure_media_columns_def)
  moreover have "st_pools sample_state = []" "st_config_path sample_state = components ''/c.yaml''" "st_store_configs sample_state = []"
    by (simp_all add: sample_state_def)
  ultimately show ?thesis
    by (simp add: handle_reload_def sample_loads sample_configs_valid reload_databases_def reload_commit_def new_stores_def
      compute_store_changes_def sample_registry)
qed

abbreviation reloaded_state :: "(unit, unit, json list) app_state" where
  "reloaded_state \<equiv> swap_state sample_protected [] sample_state \<lparr> st_schema_registry := [] \<rparr>"

lemma sample_reload_reachable: "reachable (\<lambda>s. s = sample_state) reload_step reloaded_state" "reachable started reload_step reloaded_state"
proof -
  have "reload_step sample_state reloaded_state" unfolding reload_step_def using sample_reload by blast
  then show "reachable (\<lambda>s. s = sample_state) reload_step reloaded_state" "reachable started reload_step reloaded_state"
    by (blast intro: reachable_initial reachable_step sample_started)+
qed

theorem reload_applies_valid_configuration_witness:
  "validate_config sample_protected = Some (Inr ()) \<and> st_config reloaded_state = sample_protected
     \<and> load_config 5 (rw_loader (server_world sample_protected)) (st_config_path sample_state) = Some (Inr sample_protected)
     \<and> st_schema_registry reloaded_state = []"
proof -
  have "st_config reloaded_state = sample_protected" "st_schema_registry reloaded_state = []" by (simp_all add: swap_state_def)
  with reload_applies_valid_configuration [OF sample_reload] show ?thesis by simp
qed

theorem serving_state_consistent_witness:
  "validate_config (st_config reloaded_state) = Some (Inr ()) \<and> dom (map_of (st_pools reloaded_state)) = dom (map_of (ac_databases (st_config reloaded_state)))"
  using serving_state_consistent [OF sample_reload_reachable(2)] by blast

text \<open>The configuration in effect demands an API key for the path; the request carries none and passes.\<close>

lemma protected_after_reload_open:
  "ep_auth (hd (ac_endpoints (st_config reloaded_state))) = ''api_key''
   \<and> auth_middleware sample_world (auth_view reloaded_state None)
       \<lparr> rq_method = ''GET'', rq_path = ''/x'', rq_query = None, rq_headers = [] \<rparr> = Inr None"
proof -
  have "map to_upper_ascii ''GET'' = ''GET''" by code_simp
  moreover have "register_endpoints [sample_page ''none''] = [(method_key ''/x'' ''GET'', sample_page ''none'')]"
    by (simp add: register_endpoints_def register_endpoint_def sample_page_def sample_endpoint_def route_path_def replace_char_def method_key_def)
  ultimately have "get_endpoint_config_for_method (st_endpoint_configs sample_state) ''/x'' ''GET'' = Some (sample_page ''none'')"
    by (simp add: sample_state_def get_endpoint_config_for_method_def del: list.map)
  then show ?thesis
    using reload_keeps_routes [OF reachable_initial [of started, OF sample_started] sample_reload_reachable(1)] by (simp add: swap_state_def)
qed

end
