(* ===== verification/Proxy.thy ===== *)
theory Proxy
  imports Static_Serving Routing
begin

text \<open>
  Endpoints that need no store and no database: the reverse proxy (src/handlers/proxy.rs) and the fixed
  responses (src/handlers/custom_response.rs). The HTTP client is that of the crate reqwest: a function of the
  request and the state of the outside world, \<open>None\<close> when it cannot be built. A body is what reading it gives. The
  conversion of methods, status codes and header names between two crates that share their types cannot fail.
\<close>

section \<open>Fixed responses\<close>

definition is_redirection :: "nat \<Rightarrow> bool" where
  "is_redirection n \<longleftrightarrow> 300 \<le> n \<and> n < 400"

definition redirect_location :: "(string \<Rightarrow> bool) \<Rightarrow> custom_response_config \<Rightarrow> nat \<Rightarrow> file_response \<Rightarrow> file_response" where
  "redirect_location header_ok cr status r =
     (case or_else (map_of (cust_headers cr) ''Location'') (map_of (cust_headers cr) ''location'') of
        Some location \<Rightarrow> if is_redirection status \<and> header_ok location then set_header ''location'' location r else r
      | None \<Rightarrow> r)"

text \<open>\<open>parse_name\<close>: a header name in its normal form (lower case), or nothing where it is invalid.\<close>

definition add_custom_header :: "(string \<Rightarrow> bool) \<Rightarrow> (string \<Rightarrow> string option) \<Rightarrow> string \<times> string \<Rightarrow> file_response \<Rightarrow> file_response" where
  "add_custom_header header_ok parse_name kv r =
     (case parse_name (fst kv) of
        Some name \<Rightarrow> if header_ok (snd kv) then set_header name (snd kv) r else r
      | None \<Rightarrow> r)"

definition handle_custom_response :: "(string \<Rightarrow> bool) \<Rightarrow> (string \<Rightarrow> string option) \<Rightarrow> endpoint_config \<Rightarrow> (app_error, file_response) result" where
  "handle_custom_response header_ok parse_name endpoint =
     (case ep_custom_response endpoint of
        None \<Rightarrow> Inl (Internal ''custom_response config missing'')
      | Some cr \<Rightarrow>
          (let status = unwrap_or (status_code (cust_status cr)) 200;
               r = \<lparr> fr_status = status, fr_headers = [(''content-type'', ''text/plain; charset=utf-8'')], fr_body = cust_body cr \<rparr>;
               r1 = apply_content_type header_ok (cust_content_type cr) (redirect_location header_ok cr status r)
           in Inr (fold (add_custom_header header_ok parse_name) (cust_headers cr) r1)))"

section \<open>The proxy\<close>

record upstream_request =
  ur_method :: string
  ur_url :: string
  ur_timeout :: nat
  ur_headers :: header_map
  ur_body :: string

record upstream_response =
  us_status :: nat
  us_headers :: header_map
  us_content_length :: "nat option"
  us_body :: "(string, string) result"

type_synonym 'n client = "upstream_request \<Rightarrow> 'n \<Rightarrow> (string, upstream_response) result \<times> 'n"

definition hop_by_hop_headers :: "string list" where
  "hop_by_hop_headers =
     [''host'', ''connection'', ''transfer-encoding'', ''keep-alive'', ''upgrade'', ''proxy-authorization'',
      ''proxy-authenticate'', ''te'', ''trailers'']"

definition rewrite_path :: "path_rewrite_config option \<Rightarrow> string \<Rightarrow> string" where
  "rewrite_path rewrite incoming =
     (case rewrite of
        None \<Rightarrow> incoming
      | Some rw \<Rightarrow>
          (let stripped = (if prw_strip_prefix rw \<noteq> [] then unwrap_or (strip_prefix (prw_strip_prefix rw) incoming) incoming else incoming)
           in if prw_add_prefix rw \<noteq> [] then prw_add_prefix rw @ stripped else stripped))"

definition upstream_url :: "proxy_config \<Rightarrow> string \<Rightarrow> string option \<Rightarrow> string" where
  "upstream_url proxy incoming query =
     (let base = trim_end_char (CHR ''/'') (prx_upstream proxy) @ rewrite_path (prx_path_rewrite proxy) incoming in
      case query of None \<Rightarrow> base | Some q \<Rightarrow> base @ ''?'' @ q)"

definition forwarded_headers :: "header_map \<Rightarrow> header_map" where
  "forwarded_headers headers =
     List.map_filter (\<lambda>(name, v). if name \<in> set hop_by_hop_headers then None else map_option (\<lambda>t. (name, t)) (header_to_str v)) headers"

definition upstream_request_of :: "proxy_config \<Rightarrow> string \<Rightarrow> string \<Rightarrow> string option \<Rightarrow> header_map \<Rightarrow> string \<Rightarrow> upstream_request" where
  "upstream_request_of proxy request_method incoming query headers body =
     \<lparr> ur_method = request_method, ur_url = upstream_url proxy incoming query, ur_timeout = ptm_total (prx_timeouts proxy),
       ur_headers = forwarded_headers headers @ prx_headers proxy, ur_body = body \<rparr>"

definition returned_headers :: "header_map \<Rightarrow> header_map" where
  "returned_headers = filter (\<lambda>(name, _). name \<notin> set hop_by_hop_headers)"

definition relay_response :: "nat \<Rightarrow> upstream_response \<Rightarrow> (app_error, file_response) result" where
  "relay_response max_response us =
     (let too_large = (case us_content_length us of None \<Rightarrow> False | Some cl \<Rightarrow> 0 < max_response \<and> max_response < cl) in
      if too_large
      then Inl (Internal (''Upstream response too large ('' @ show_nat (the (us_content_length us)) @ '' bytes, limit ''
             @ show_nat max_response @ '')''))
      else
        (case us_body us of
           Inl e \<Rightarrow> Inl (Internal (''Failed to read upstream body: '' @ e))
         | Inr body \<Rightarrow>
             if 0 < max_response \<and> max_response < length body then Inl (Internal ''Upstream response body exceeded size limit'')
             else Inr \<lparr> fr_status = us_status us, fr_headers = returned_headers (us_headers us), fr_body = body \<rparr>))"

definition handle_proxy :: "'n client option \<Rightarrow> string \<Rightarrow> string \<Rightarrow> string option \<Rightarrow> header_map \<Rightarrow> (string, string) result \<Rightarrow> endpoint_config
    \<Rightarrow> 'n \<Rightarrow> (app_error, file_response) result \<times> 'n" where
  "handle_proxy client request_method incoming query headers body endpoint n =
     (case ep_proxy endpoint of
        None \<Rightarrow> (Inl (Internal ''Proxy config missing on proxy endpoint''), n)
      | Some proxy \<Rightarrow>
          (case body of
             Inl e \<Rightarrow> (Inl (Internal (''Failed to read request body: '' @ e)), n)
           | Inr bytes \<Rightarrow>
               (case client of
                  None \<Rightarrow> (Inl (Internal ''Failed to build proxy HTTP client''), n)
                | Some send \<Rightarrow>
                    (case send (upstream_request_of proxy request_method incoming query headers bytes) n of
                       (Inl e, n') \<Rightarrow> (Inl (Internal (''Proxy upstream error: '' @ e)), n')
                     | (Inr us, n') \<Rightarrow> (relay_response (prx_max_response_size proxy) us, n')))))"

section \<open>What the proxy sends and returns\<close>

lemma forwarded_headers_set:
  "(name, v) \<in> set (forwarded_headers headers) \<longleftrightarrow> (name, v) \<in> set headers \<and> name \<notin> set hop_by_hop_headers \<and> header_to_str v = Some v"
  by (force simp: forwarded_headers_def List.map_filter_def header_to_str_def split: if_splits)

lemma relay_response_Inr:
  "relay_response limit us = Inr r \<Longrightarrow>
     us_body us = Inr (fr_body r) \<and> fr_status r = us_status us \<and> fr_headers r = returned_headers (us_headers us)
     \<and> (limit = 0 \<or> length (fr_body r) \<le> limit)"
  by (auto simp: relay_response_def Let_def split: if_splits sum.splits option.splits)

lemma handle_proxy_Inr:
  assumes "handle_proxy client m p q hs body e n = (Inr r, n')"
  obtains proxy bytes send us where "ep_proxy e = Some proxy" "body = Inr bytes" "client = Some send"
    "send (upstream_request_of proxy m p q hs bytes) n = (Inr us, n')" "relay_response (prx_max_response_size proxy) us = Inr r"
  using assms by (auto simp: handle_proxy_def split: option.splits sum.splits prod.splits)

text \<open>What rewriting a path means: the configured prefix is taken off a path that starts with it, and the other
  configured prefix is put in front.\<close>

definition rewritten :: "path_rewrite_config option \<Rightarrow> string \<Rightarrow> string \<Rightarrow> bool" where
  "rewritten rewrite incoming outgoing \<longleftrightarrow>
     (case rewrite of
        None \<Rightarrow> outgoing = incoming
      | Some rw \<Rightarrow> \<exists>rest. outgoing = prw_add_prefix rw @ rest \<and>
          (if prefix (prw_strip_prefix rw) incoming then incoming = prw_strip_prefix rw @ rest else rest = incoming))"

lemma rewrite_path_rewritten: "rewritten rewrite incoming (rewrite_path rewrite incoming)"
  by (cases rewrite) (auto simp: rewritten_def rewrite_path_def Let_def strip_prefix_None [symmetric] split: option.split,
      auto simp: prefix_def)

lemma forwarded_headers_filter:
  "forwarded_headers headers = filter (\<lambda>(name, v). name \<notin> set hop_by_hop_headers \<and> header_to_str v \<noteq> None) headers"
  by (induction headers) (auto simp: forwarded_headers_def List.map_filter_simps header_to_str_def split: if_splits)

text \<open>C23: an answer of a proxy endpoint other than an error is the answer to exactly one request to the upstream. That
  request has the client's method and body and the configured total timeout; its address is the configured one
  without trailing slashes, then the client's path with the configured prefix stripped and the other one added, then
  the client's query; its headers are the client's in their order, without the hop-by-hop ones and those that are
  not visible ASCII, followed by the configured ones. The answer has the status and the body of the upstream's and
  its headers in their order without the hop-by-hop ones, and the body is not longer than the configured maximum,
  unless that is 0.\<close>

theorem proxy_relays_upstream:
  assumes "handle_proxy client m p q hs body e n = (Inr r, n')"
  shows "\<exists>proxy send bytes path us. ep_proxy e = Some proxy \<and> client = Some send \<and> body = Inr bytes
    \<and> rewritten (prx_path_rewrite proxy) p path
    \<and> send \<lparr> ur_method = m,
         ur_url = trim_end_char (CHR ''/'') (prx_upstream proxy) @ path @ (case q of None \<Rightarrow> [] | Some query \<Rightarrow> ''?'' @ query),
         ur_timeout = ptm_total (prx_timeouts proxy),
         ur_headers = filter (\<lambda>(name, v). name \<notin> set hop_by_hop_headers \<and> header_to_str v \<noteq> None) hs @ prx_headers proxy,
         ur_body = bytes \<rparr> n = (Inr us, n')
    \<and> us_body us = Inr (fr_body r) \<and> fr_status r = us_status us
    \<and> fr_headers r = filter (\<lambda>(name, _). name \<notin> set hop_by_hop_headers) (us_headers us)
    \<and> (prx_max_response_size proxy = 0 \<or> length (fr_body r) \<le> prx_max_response_size proxy)"
proof -
  from assms obtain proxy bytes send us where *: "ep_proxy e = Some proxy" "body = Inr bytes" "client = Some send"
    "send (upstream_request_of proxy m p q hs bytes) n = (Inr us, n')" "relay_response (prx_max_response_size proxy) us = Inr r"
    by (rule handle_proxy_Inr)
  have req: "upstream_request_of proxy m p q hs bytes = \<lparr> ur_method = m,
         ur_url = trim_end_char (CHR ''/'') (prx_upstream proxy) @ rewrite_path (prx_path_rewrite proxy) p
           @ (case q of None \<Rightarrow> [] | Some query \<Rightarrow> ''?'' @ query),
         ur_timeout = ptm_total (prx_timeouts proxy),
         ur_headers = filter (\<lambda>(name, v). name \<notin> set hop_by_hop_headers \<and> header_to_str v \<noteq> None) hs @ prx_headers proxy,
         ur_body = bytes \<rparr>"
    by (simp add: upstream_request_of_def upstream_url_def forwarded_headers_filter Let_def split: option.split)
  show ?thesis
    using *(1-3) *(4) [unfolded req] relay_response_Inr [OF *(5)] rewrite_path_rewritten [of "prx_path_rewrite proxy" p]
    by (intro exI [of _ proxy] exI [of _ send] exI [of _ bytes] exI [of _ "rewrite_path (prx_path_rewrite proxy) p"] exI [of _ us])
      (simp add: returned_headers_def)
qed

definition sample_proxy :: proxy_config where
  "sample_proxy =
     \<lparr> prx_upstream = ''http://backend:9000/'', prx_path_rewrite = Some \<lparr> prw_strip_prefix = ''/api'', prw_add_prefix = ''/v1'' \<rparr>,
       prx_headers = [(''x-gateway'', ''main'')], prx_timeouts = proxy_timeouts_default, prx_max_response_size = 10 \<rparr>"

text \<open>An upstream that answers with the address it was asked for.\<close>

definition echo_client :: "nat client" where
  "echo_client req n =
     (Inr \<lparr> us_status = 200, us_headers = [(''connection'', ''close''), (''etag'', ''x'')], us_content_length = None,
            us_body = Inr (drop 19 (ur_url req)) \<rparr>, Suc n)"

definition sample_proxy_endpoint :: endpoint_config where
  "sample_proxy_endpoint = (sample_endpoint ''/api/*'' [Get] ''none'') \<lparr> ep_action := ActProxy, ep_proxy := Some sample_proxy \<rparr>"

lemma sample_proxied:
  "handle_proxy (Some echo_client) ''GET'' ''/api/users'' None [(''host'', ''a''), (''accept'', ''b'')] (Inr []) sample_proxy_endpoint 0
    = (Inr \<lparr> fr_status = 200, fr_headers = [(''etag'', ''x'')], fr_body = ''/v1/users'' \<rparr>, Suc 0)"
  by code_simp

theorem proxy_relays_upstream_witness:
  "\<exists>path us. rewritten (Some \<lparr> prw_strip_prefix = ''/api'', prw_add_prefix = ''/v1'' \<rparr>) ''/api/users'' path
    \<and> echo_client \<lparr> ur_method = ''GET'', ur_url = ''http://backend:9000'' @ path, ur_timeout = ptm_total proxy_timeouts_default,
         ur_headers = [(''accept'', ''b''), (''x-gateway'', ''main'')], ur_body = [] \<rparr> 0 = (Inr us, Suc 0)
    \<and> us_body us = Inr ''/v1/users''"
proof -
  have c: "ep_proxy sample_proxy_endpoint = Some sample_proxy"
    "prx_path_rewrite sample_proxy = Some \<lparr> prw_strip_prefix = ''/api'', prw_add_prefix = ''/v1'' \<rparr>"
    "prx_timeouts sample_proxy = proxy_timeouts_default" "prx_headers sample_proxy = [(''x-gateway'', ''main'')]"
    by (simp_all add: sample_proxy_endpoint_def sample_proxy_def)
  have d: "trim_end_char (CHR ''/'') (prx_upstream sample_proxy) = ''http://backend:9000''"
    "filter (\<lambda>(name, v). name \<notin> set hop_by_hop_headers \<and> header_to_str v \<noteq> None) [(''host'', ''a''), (''accept'', ''b'')] = [(''accept'', ''b'')]"
    by code_simp+
  from proxy_relays_upstream [OF sample_proxied] obtain path us where
    "rewritten (prx_path_rewrite sample_proxy) ''/api/users'' path"
    "echo_client \<lparr> ur_method = ''GET'', ur_url = trim_end_char (CHR ''/'') (prx_upstream sample_proxy) @ path @ [],
       ur_timeout = ptm_total (prx_timeouts sample_proxy),
       ur_headers = filter (\<lambda>(name, v). name \<notin> set hop_by_hop_headers \<and> header_to_str v \<noteq> None) [(''host'', ''a''), (''accept'', ''b'')]
         @ prx_headers sample_proxy, ur_body = [] \<rparr> 0 = (Inr us, Suc 0)"
    "us_body us = Inr ''/v1/users''"
    by (auto simp: c(1))
  then show ?thesis unfolding c(2-4) d by (simp only: append_Nil2 append_Cons append_Nil) blast
qed

text \<open>A configured header does not replace the client's of the same name: both are sent.\<close>

lemma configured_header_appended:
  "(name, v) \<in> set headers \<Longrightarrow> name \<notin> set hop_by_hop_headers \<Longrightarrow> header_to_str v = Some v \<Longrightarrow> (name, w) \<in> set (prx_headers proxy) \<Longrightarrow>
    {(name, v), (name, w)} \<subseteq> set (ur_headers (upstream_request_of proxy m p q headers body))"
  by (auto simp: upstream_request_of_def forwarded_headers_set)

end
