(* ===== verification/Spa_Host.thy ===== *)
theory Spa_Host
  imports Static_Files Routing
begin

text \<open>
  Hosting of single-page applications (src/handlers/spa_host.rs): files from a store, the index file for a
  directory and for every path that has no file, entity tags, HEAD, and the answer to other methods. Bodies and
  headers as in the theory Static_Serving. A GET resolves the decoded rest of the path below the endpoint, HEAD the
  whole path as it came.
\<close>

section \<open>Responses\<close>

definition etag_of :: "path \<Rightarrow> nat \<Rightarrow> string" where
  "etag_of p n = [dquote_char] @ path_text p @ ''-'' @ show_nat n @ [dquote_char]"

definition set_etag :: "(string \<Rightarrow> bool) \<Rightarrow> string \<Rightarrow> file_response \<Rightarrow> file_response" where
  "set_etag header_ok etag = set_header ''etag'' (if header_ok etag then etag else [dquote_char] @ ''none'' @ [dquote_char])"

definition etag_matches :: "header_map \<Rightarrow> string \<Rightarrow> bool" where
  "etag_matches headers etag = (case header_str ''if-none-match'' headers of None \<Rightarrow> False | Some v \<Rightarrow> trim v = trim etag)"

text \<open>Content type, cache control and length, in this order.\<close>

definition spa_headers :: "(string \<Rightarrow> bool) \<Rightarrow> spa_host_config \<Rightarrow> path \<Rightarrow> nat \<Rightarrow> file_response \<Rightarrow> file_response" where
  "spa_headers header_ok config p n =
     apply_content_length header_ok (show_nat n)
       \<circ> apply_cache_control header_ok (spa_cache_max_age config) (Some p) (spa_cache_rules config)
       \<circ> apply_content_type header_ok (mime_from_path p)"

definition answer_etag :: "(string \<Rightarrow> bool) \<Rightarrow> spa_host_config \<Rightarrow> header_map \<Rightarrow> path \<Rightarrow> nat \<Rightarrow> file_response \<Rightarrow> file_response" where
  "answer_etag header_ok config headers p n r =
     (if spa_etag config then
        (let etag = etag_of p n; r1 = set_etag header_ok etag r in
         if etag_matches headers etag then set_etag header_ok etag (r1 \<lparr> fr_status := 304 \<rparr>) else r1)
      else r)"

section \<open>GET\<close>

definition serve_spa_file :: "(string \<Rightarrow> bool) \<Rightarrow> 's storage \<Rightarrow> 's \<Rightarrow> path \<Rightarrow> spa_host_config \<Rightarrow> header_map \<Rightarrow> (app_error, file_response) result" where
  "serve_spa_file header_ok st s p config headers =
     (case st_metadata st s p of
        Inl _ \<Rightarrow> Inl (NotFound (''File not found: '' @ path_text p))
      | Inr meta \<Rightarrow>
          (case st_read st s p of
             Inl _ \<Rightarrow> Inl (NotFound (''File not found: '' @ path_text p))
           | Inr contents \<Rightarrow>
               Inr (answer_etag header_ok config headers p (fm_size meta)
                 (spa_headers header_ok config p (fm_size meta) (ok_bytes 200 contents)))))"

definition index_missing :: "spa_host_config \<Rightarrow> string \<Rightarrow> app_error" where
  "index_missing config what = NotFound (''Index file '' @ [CHR 0x27] @ spa_index config @ [CHR 0x27] @ '' not found for '' @ what)"

definition serve_spa_fallback :: "(string \<Rightarrow> bool) \<Rightarrow> 's storage \<Rightarrow> 's \<Rightarrow> path \<Rightarrow> spa_host_config \<Rightarrow> (app_error, file_response) result" where
  "serve_spa_fallback header_ok st s root config =
     (let index_path = path_join root (components (spa_index config)) in
      case st_metadata st s index_path of
        Inl _ \<Rightarrow> Inl (index_missing config ''SPA fallback'')
      | Inr meta \<Rightarrow>
          (case st_read st s index_path of
             Inl _ \<Rightarrow> Inl (NotFound (''Index file not found: '' @ path_text index_path))
           | Inr contents \<Rightarrow>
               (let r = spa_headers header_ok config index_path (fm_size meta) (ok_bytes (unwrap_or (status_code (spa_fallback_status config)) 200) contents)
                in Inr (if spa_etag config then set_etag header_ok (etag_of index_path (fm_size meta)) r else r))))"

definition found_kind :: "'s storage \<Rightarrow> 's \<Rightarrow> path \<Rightarrow> bool option" where
  "found_kind st s p = (case st_metadata st s p of Inl _ \<Rightarrow> None | Inr m \<Rightarrow> Some (fm_is_file m))"

definition serve_or_fall_back :: "(string \<Rightarrow> bool) \<Rightarrow> 's storage \<Rightarrow> 's \<Rightarrow> path \<Rightarrow> path \<Rightarrow> spa_host_config \<Rightarrow> header_map
    \<Rightarrow> (app_error, file_response) result" where
  "serve_or_fall_back header_ok st s root resolved config headers =
     (case serve_spa_file header_ok st s resolved config headers of
        Inl (NotFound _) \<Rightarrow> serve_spa_fallback header_ok st s root config
      | r \<Rightarrow> r)"

definition serve_spa_path :: "(string \<Rightarrow> bool) \<Rightarrow> 's storage \<Rightarrow> 's \<Rightarrow> path \<Rightarrow> path \<Rightarrow> spa_host_config \<Rightarrow> header_map
    \<Rightarrow> (app_error, file_response) result" where
  "serve_spa_path header_ok st s root resolved config headers =
     (let index_path = path_join resolved (components (spa_index config)) in
      if found_kind st s resolved = Some False \<and> found_kind st s index_path = Some True
      then serve_spa_file header_ok st s index_path config headers
      else serve_or_fall_back header_ok st s root resolved config headers)"

text \<open>The path below the root; \<open>decode\<close> is percent-decoding, which fails where the bytes are no UTF-8.\<close>

definition spa_target :: "(string \<Rightarrow> string option) \<Rightarrow> path \<Rightarrow> string \<Rightarrow> string \<Rightarrow> (app_error, path) result" where
  "spa_target decode root request_path endpoint_path =
     (case extract_relative_path decode request_path endpoint_path of
        Inl e \<Rightarrow> Inl e
      | Inr relative \<Rightarrow>
          if relative = [] then Inr root
          else
            (case decode relative of
               None \<Rightarrow> Inl (BadRequest ''Invalid UTF-8 in path'')
             | Some decoded \<Rightarrow> Inr (path_join root (components decoded))))"

section \<open>HEAD\<close>

definition head_target :: "path \<Rightarrow> string \<Rightarrow> path" where
  "head_target root request_path =
     (let relative = trim_start_char (CHR ''/'') request_path in
      if relative = [] then root else path_join root (components relative))"

definition handle_spa_head :: "(string \<Rightarrow> bool) \<Rightarrow> (string, 's storage) entries \<Rightarrow> 's \<Rightarrow> string \<Rightarrow> spa_host_config \<Rightarrow> header_map
    \<Rightarrow> (app_error, file_response) result" where
  "handle_spa_head header_ok stores s request_path config headers =
     (case resolve_store stores (spa_storage config) of
        Inl e \<Rightarrow> Inl e
      | Inr (st, root) \<Rightarrow>
          (let resolved = head_target root request_path in
           case st_metadata st s resolved of
             Inr meta \<Rightarrow>
               Inr (answer_etag header_ok config headers resolved (fm_size meta)
                 (spa_headers header_ok config resolved (fm_size meta) (ok_bytes 200 [])))
           | Inl _ \<Rightarrow>
               (let index_path = path_join root (components (spa_index config)) in
                case st_metadata st s index_path of
                  Inr meta \<Rightarrow>
                    Inr (spa_headers header_ok config index_path (fm_size meta)
                      (ok_bytes (unwrap_or (status_code (spa_fallback_status config)) 200) []))
                | Inl _ \<Rightarrow> Inl (index_missing config ''SPA HEAD fallback''))))"

section \<open>The handlers\<close>

definition handle_spa_host :: "(string \<Rightarrow> bool) \<Rightarrow> (string \<Rightarrow> string option) \<Rightarrow> (string, 's storage) entries \<Rightarrow> 's \<Rightarrow> string \<Rightarrow> string
    \<Rightarrow> endpoint_config \<Rightarrow> header_map \<Rightarrow> (app_error, file_response) result" where
  "handle_spa_host header_ok decode stores s request_method request_path endpoint headers =
     (case ep_spa_host endpoint of
        None \<Rightarrow> Inl (NotFound ''SPA host config not found'')
      | Some config \<Rightarrow>
          if request_method = ''HEAD'' then
            (if \<not> spa_head_support config
             then Inl (MethodNotAllowed ''HEAD requests are not supported for this endpoint'' (filter (\<lambda>m. m \<noteq> Head) (ep_methods endpoint)))
             else handle_spa_head header_ok stores s request_path config headers)
          else
            (case resolve_store stores (spa_storage config) of
               Inl e \<Rightarrow> Inl e
             | Inr (st, root) \<Rightarrow>
                 (case spa_target decode root request_path (ep_path endpoint) of
                    Inl e \<Rightarrow> Inl e
                  | Inr resolved \<Rightarrow> serve_spa_path header_ok st s root resolved config headers)))"

definition handle_spa_host_route :: "(string \<Rightarrow> bool) \<Rightarrow> (string \<Rightarrow> string option) \<Rightarrow> endpoint_table \<Rightarrow> (string, 's storage) entries \<Rightarrow> 's
    \<Rightarrow> string \<Rightarrow> string \<Rightarrow> string \<Rightarrow> header_map \<Rightarrow> (app_error, file_response) result" where
  "handle_spa_host_route header_ok decode endpoints stores s matched_path request_method request_path headers =
     (case get_endpoint_config_for_method endpoints matched_path request_method of
        None \<Rightarrow> Inl (NotFound ''Endpoint not found'')
      | Some endpoint \<Rightarrow> handle_spa_host header_ok decode stores s request_method request_path endpoint headers)"

definition handle_spa_host_method_not_allowed :: "endpoint_table \<Rightarrow> string \<Rightarrow> app_error" where
  "handle_spa_host_method_not_allowed endpoints matched_path =
     MethodNotAllowed ''Method Not Allowed for SPA host endpoint''
       (case find (\<lambda>e. ep_path e = matched_path) (map snd endpoints) of
          Some e \<Rightarrow> filter (\<lambda>m. m \<notin> {Post, Put, Patch, Delete}) (ep_methods e)
        | None \<Rightarrow> [Get, Head, Options])"

section \<open>Which files are answered\<close>

lemma set_header_body [simp]: "fr_body (set_header name v r) = fr_body r" "fr_status (set_header name v r) = fr_status r"
  by (simp_all add: set_header_def)

lemma spa_headers_body [simp]: "fr_body (spa_headers header_ok config p n r) = fr_body r" "fr_status (spa_headers header_ok config p n r) = fr_status r"
  by (simp_all add: spa_headers_def apply_content_type_def apply_cache_control_def apply_content_length_def Let_def)

lemma answer_etag_body [simp]: "fr_body (answer_etag header_ok config headers p n r) = fr_body r"
  by (simp add: answer_etag_def set_etag_def Let_def)

lemma serve_spa_file_Inr: "serve_spa_file header_ok st s p config headers = Inr r \<Longrightarrow> st_read st s p = Inr (fr_body r)"
  by (auto simp: serve_spa_file_def split: sum.splits)

lemma serve_spa_fallback_Inr:
  "serve_spa_fallback header_ok st s root config = Inr r \<Longrightarrow> st_read st s (path_join root (components (spa_index config))) = Inr (fr_body r)"
  by (auto simp: serve_spa_fallback_def Let_def set_etag_def split: sum.splits if_splits)

lemma serve_spa_path_Inr:
  assumes "serve_spa_path header_ok st s root resolved config headers = Inr r"
  shows "\<exists>p \<in> {resolved, path_join resolved (components (spa_index config)), path_join root (components (spa_index config))}.
    st_read st s p = Inr (fr_body r)"
  using assms
  by (auto simp: serve_spa_path_def serve_or_fall_back_def Let_def split: if_splits sum.splits app_error.splits
      dest: serve_spa_file_Inr serve_spa_fallback_Inr)

text \<open>Below a root, without a parent component on the way.\<close>

definition below :: "path \<Rightarrow> path \<Rightarrow> bool" where
  "below root p \<longleftrightarrow> (\<exists>q. p = root @ q \<and> ParentDir \<notin> set q \<and> RootDir \<notin> set q)"

lemma below_refl: "below root root"
  by (simp add: below_def)

lemma below_join:
  assumes "below root a" "a \<noteq> []" "RootDir \<notin> set b" "ParentDir \<notin> set b"
  shows "below root (path_join a b)"
proof -
  have "path_join a b = a @ filter (\<lambda>c. c \<noteq> CurDir) b"
    using assms(2,3) by (auto simp: path_join_def split: list.splits component.splits)
  then show ?thesis using assms by (auto simp: below_def)
qed

definition index_relative :: "spa_host_config \<Rightarrow> bool" where
  "index_relative config \<longleftrightarrow> \<not> starts_with (spa_index config) ''/'' \<and> ''..'' \<notin> set (split_on (CHR ''/'') (spa_index config))"

lemma extract_relative_path_segments:
  "extract_relative_path decode request_path endpoint_path = Inr x \<Longrightarrow> decode x = Some y \<Longrightarrow> x \<noteq> [] \<Longrightarrow> ''..'' \<notin> set (split_on (CHR ''/'') y)"
  by (auto simp: extract_relative_path_def Let_def list_ex_iff split: if_splits option.splits)

definition rest_relative :: "(string \<Rightarrow> string option) \<Rightarrow> string \<Rightarrow> string \<Rightarrow> bool" where
  "rest_relative decode request_path endpoint_path =
     (case extract_relative_path decode request_path endpoint_path of
        Inl _ \<Rightarrow> True
      | Inr x \<Rightarrow> (case decode x of None \<Rightarrow> True | Some y \<Rightarrow> \<not> starts_with y ''/''))"

lemma spa_target_below:
  assumes "spa_target decode root request_path endpoint_path = Inr p" "root \<noteq> []" "rest_relative decode request_path endpoint_path"
  shows "below root p \<and> p \<noteq> []"
proof (cases "extract_relative_path decode request_path endpoint_path")
  case (Inl e)
  with assms(1) show ?thesis by (simp add: spa_target_def)
next
  case (Inr x)
  show ?thesis
  proof (cases "x = []")
    case True
    with assms(1,2) Inr show ?thesis by (simp add: spa_target_def below_refl)
  next
    case False
    with assms(1) Inr obtain y where y: "decode x = Some y" "p = path_join root (components y)"
      by (auto simp: spa_target_def split: option.splits)
    have rel: "RootDir \<notin> set (components y)" using assms(3) Inr y(1) by (simp add: rest_relative_def components_relative)
    moreover have "ParentDir \<notin> set (components y)"
      using extract_relative_path_segments [OF Inr y(1) False] by (simp add: parent_dir_in_components)
    ultimately have "below root p" using y(2) below_join [OF below_refl assms(2)] by simp
    moreover have "p \<noteq> []" using path_join_relative [OF rel, of root] y(2) assms(2) by auto
    ultimately show ?thesis ..
  qed
qed

text \<open>C24: A GET on a single-page application is answered with the bytes of a file below the root of its store,
  unless the rest of the path decodes to an absolute one.\<close>

theorem spa_files_below_root:
  assumes "handle_spa_host header_ok decode stores s ''GET'' request_path endpoint headers = Inr r"
    and "ep_spa_host endpoint = Some config" "resolve_store stores (spa_storage config) = Inr (st, root)"
    and "root \<noteq> []" "index_relative config" "rest_relative decode request_path (ep_path endpoint)"
  shows "\<exists>p. below root p \<and> st_read st s p = Inr (fr_body r)"
proof -
  from assms(1-3) obtain resolved where t: "spa_target decode root request_path (ep_path endpoint) = Inr resolved"
    and r: "serve_spa_path header_ok st s root resolved config headers = Inr r"
    by (auto simp: handle_spa_host_def split: sum.splits)
  note b = conjunct1 [OF spa_target_below [OF t assms(4) assms(6)]] conjunct2 [OF spa_target_below [OF t assms(4) assms(6)]]
  have i: "RootDir \<notin> set (components (spa_index config))" "ParentDir \<notin> set (components (spa_index config))"
    using assms(5) by (simp_all add: index_relative_def components_relative parent_dir_in_components)
  note paths = below_join [OF b i] below_join [OF below_refl assms(4) i] b(1)
  from serve_spa_path_Inr [OF r] show ?thesis using paths by blast
qed

text \<open>A rest of the path that decodes to an absolute path is answered with the file of that name, wherever
  the store's root is; a HEAD resolves parent components.\<close>

theorem spa_serves_absolute_path:
  assumes "ep_spa_host endpoint = Some config" "resolve_store stores (spa_storage config) = Inr (st, root)"
    and "extract_relative_path decode request_path (ep_path endpoint) = Inr x" "x \<noteq> []" "decode x = Some (CHR ''/'' # y)"
    and "st_metadata st s (components (CHR ''/'' # y)) = Inr m" "fm_is_file m" "st_read st s (components (CHR ''/'' # y)) = Inr c"
  shows "(\<exists>r. handle_spa_host header_ok decode stores s ''GET'' request_path endpoint headers = Inr r \<and> fr_body r = c)
    \<and> head_target root ''/../secret'' = (if root = [] then components ''../secret'' else root @ [ParentDir, Normal ''secret''])"
proof
  have "path_join root (components (CHR ''/'' # y)) = components (CHR ''/'' # y)"
    by (simp add: components_def starts_with_def path_join_absolute)
  with assms have t: "spa_target decode root request_path (ep_path endpoint) = Inr (components (CHR ''/'' # y))"
    by (simp add: spa_target_def)
  show "\<exists>r. handle_spa_host header_ok decode stores s ''GET'' request_path endpoint headers = Inr r \<and> fr_body r = c"
    using assms by (simp add: handle_spa_host_def t serve_spa_path_def serve_or_fall_back_def found_kind_def serve_spa_file_def Let_def)
next
  have "trim_start_char (CHR ''/'') ''/../secret'' = ''../secret''" "components ''../secret'' = [ParentDir, Normal ''secret'']"
    by code_simp+
  then show "head_target root ''/../secret'' = (if root = [] then components ''../secret'' else root @ [ParentDir, Normal ''secret''])"
    by (simp add: head_target_def path_join_def)
qed

lemma serve_spa_fallback_answers:
  assumes "st_metadata st s (path_join root (components (spa_index config))) = Inr m"
    and "st_read st s (path_join root (components (spa_index config))) = Inr c"
  shows "\<exists>f. serve_spa_fallback header_ok st s root config = Inr f \<and> fr_body f = c
    \<and> fr_status f = unwrap_or (status_code (spa_fallback_status config)) 200"
  using assms by (simp add: serve_spa_fallback_def set_etag_def Let_def)

text \<open>C25: Where the index of the store can be read, every GET whose path is accepted is answered; a path without a file
  gets the index with the configured status.\<close>

theorem spa_always_answers:
  assumes "ep_spa_host endpoint = Some config" "resolve_store stores (spa_storage config) = Inr (st, root)"
    and "spa_target decode root request_path (ep_path endpoint) = Inr resolved"
    and "st_metadata st s (path_join root (components (spa_index config))) = Inr m"
    and "st_read st s (path_join root (components (spa_index config))) = Inr c"
    and "case st_read st s (path_join resolved (components (spa_index config))) of
           Inl _ \<Rightarrow> found_kind st s (path_join resolved (components (spa_index config))) \<noteq> Some True | Inr _ \<Rightarrow> True"
  shows "\<exists>r. handle_spa_host header_ok decode stores s ''GET'' request_path endpoint headers = Inr r
    \<and> (found_kind st s resolved = None \<longrightarrow> fr_body r = c \<and> fr_status r = unwrap_or (status_code (spa_fallback_status config)) 200)"
proof -
  from serve_spa_fallback_answers [OF assms(4,5)] obtain f where
    f: "serve_spa_fallback header_ok st s root config = Inr f" "fr_body f = c" "fr_status f = unwrap_or (status_code (spa_fallback_status config)) 200"
    by blast
  have i: "\<exists>r. serve_spa_file header_ok st s (path_join resolved (components (spa_index config))) config headers = Inr r"
    if "found_kind st s (path_join resolved (components (spa_index config))) = Some True"
    using that assms(6) by (auto simp: found_kind_def serve_spa_file_def split: sum.splits)
  have n: "\<exists>what. serve_spa_file header_ok st s p config headers = Inl (NotFound what) \<or> (\<exists>r. serve_spa_file header_ok st s p config headers = Inr r)" for p
    by (auto simp: serve_spa_file_def split: sum.splits)
  have a: "\<exists>r. serve_or_fall_back header_ok st s root resolved config headers = Inr r"
    using n [of resolved] f(1) by (auto simp: serve_or_fall_back_def)
  show ?thesis
  proof (cases "found_kind st s resolved = None")
    case True
    then have "serve_spa_file header_ok st s resolved config headers = Inl (NotFound (''File not found: '' @ path_text resolved))"
      by (auto simp: found_kind_def serve_spa_file_def split: sum.splits)
    with True f show ?thesis
      using assms(1-3) by (simp add: handle_spa_host_def serve_spa_path_def serve_or_fall_back_def)
  next
    case False
    then show ?thesis using assms(1-3) i a by (cases "found_kind st s (path_join resolved (components (spa_index config))) = Some True")
      (auto simp: handle_spa_host_def serve_spa_path_def Let_def)
  qed
qed

section \<open>Samples\<close>

definition sample_spa :: endpoint_config where
  "sample_spa = (sample_endpoint ''/app/*'' [Get] ''none'')
     \<lparr> ep_action := ActSpaHost, ep_spa_host := Some (spa_host_config_default \<lparr> spa_storage := ''web'' \<rparr>) \<rparr>"

definition sample_web :: "(string, mem_store storage) entries" where
  "sample_web = [(''web'', memory_storage)]"

definition sample_web_files :: mem_store where
  "sample_web_files =
     \<lparr> ms_data = [(components ''web/index.html'', ''app''), (components ''/etc/passwd'', ''root'')], ms_dirs = [components ''web''] \<rparr>"

text \<open>Percent-decoding of an encoded slash.\<close>

definition slash_decoder :: "string \<Rightarrow> string option" where
  "slash_decoder x = Some (replace_str ''%2F'' ''/'' x)"

theorem spa_files_below_root_witness:
  "\<exists>p. below (components ''web'') p \<and> mem_read sample_web_files p = Inr ''app''"
proof -
  have "handle_spa_host (\<lambda>_. True) slash_decoder sample_web sample_web_files ''GET'' ''/app/users/7'' sample_spa []
      = Inr \<lparr> fr_status = 200,
          fr_headers = [(''content-type'', ''text/html; charset=utf-8''), (''cache-control'', ''public, max-age=3600''), (''content-length'', ''3''),
            (''etag'', [dquote_char] @ ''web/index.html-3'' @ [dquote_char])], fr_body = ''app'' \<rparr>"
    by code_simp
  moreover have "ep_spa_host sample_spa = Some (spa_host_config_default \<lparr> spa_storage := ''web'' \<rparr>)"
    "resolve_store sample_web ''web'' = Inr (memory_storage, components ''web'')"
    by (simp_all add: sample_spa_def resolve_store_def sample_web_def memory_storage_def)
  moreover have "components ''web'' \<noteq> []" "index_relative (spa_host_config_default \<lparr> spa_storage := ''web'' \<rparr>)"
    "rest_relative slash_decoder ''/app/users/7'' (ep_path sample_spa)"
    by code_simp+
  ultimately have "\<exists>p. below (components ''web'') p \<and> st_read memory_storage sample_web_files p = Inr ''app''"
    using spa_files_below_root [of "\<lambda>_. True" slash_decoder sample_web sample_web_files "''/app/users/7''" sample_spa "[]"] by fastforce
  then show ?thesis by (simp add: memory_storage_def)
qed

theorem spa_serves_absolute_path_witness:
  "\<exists>r. handle_spa_host (\<lambda>_. True) slash_decoder sample_web sample_web_files ''GET'' ''/app/%2Fetc/passwd'' sample_spa [] = Inr r \<and> fr_body r = ''root''"
proof -
  have "ep_spa_host sample_spa = Some (spa_host_config_default \<lparr> spa_storage := ''web'' \<rparr>)"
    "resolve_store sample_web (spa_storage (spa_host_config_default \<lparr> spa_storage := ''web'' \<rparr>)) = Inr (memory_storage, components ''web'')"
    by (simp_all add: sample_spa_def resolve_store_def sample_web_def memory_storage_def)
  moreover have "extract_relative_path slash_decoder ''/app/%2Fetc/passwd'' (ep_path sample_spa) = Inr ''%2Fetc/passwd''" by code_simp
  moreover have "slash_decoder ''%2Fetc/passwd'' = Some (CHR ''/'' # ''etc/passwd'')" by code_simp
  moreover have "st_metadata memory_storage sample_web_files (components (CHR ''/'' # ''etc/passwd'')) = Inr (file_metadata_new ''passwd'' True 4)"
    "fm_is_file (file_metadata_new ''passwd'' True 4)" "st_read memory_storage sample_web_files (components (CHR ''/'' # ''etc/passwd'')) = Inr ''root''"
    by code_simp+
  ultimately show ?thesis using spa_serves_absolute_path by fastforce
qed

theorem spa_always_answers_witness:
  "\<exists>r. handle_spa_host (\<lambda>_. True) slash_decoder sample_web sample_web_files ''GET'' ''/app/users/7'' sample_spa [] = Inr r
    \<and> fr_body r = ''app'' \<and> fr_status r = 200"
proof -
  let ?c = "spa_host_config_default \<lparr> spa_storage := ''web'' \<rparr>"
  have c: "ep_spa_host sample_spa = Some ?c" "resolve_store sample_web (spa_storage ?c) = Inr (memory_storage, components ''web'')"
    by (simp_all add: sample_spa_def resolve_store_def sample_web_def memory_storage_def)
  have t: "spa_target slash_decoder (components ''web'') ''/app/users/7'' (ep_path sample_spa) = Inr (components ''web/users/7'')"
    "st_metadata memory_storage sample_web_files (path_join (components ''web'') (components (spa_index ?c))) = Inr (file_metadata_new ''index.html'' True 3)"
    "st_read memory_storage sample_web_files (path_join (components ''web'') (components (spa_index ?c))) = Inr ''app''"
    "case st_read memory_storage sample_web_files (path_join (components ''web/users/7'') (components (spa_index ?c))) of
       Inl _ \<Rightarrow> found_kind memory_storage sample_web_files (path_join (components ''web/users/7'') (components (spa_index ?c))) \<noteq> Some True | Inr _ \<Rightarrow> True"
    by code_simp+
  have "found_kind memory_storage sample_web_files (components ''web/users/7'') = None"
    "unwrap_or (status_code (spa_fallback_status ?c)) 200 = 200"
    by code_simp+
  with spa_always_answers [OF c t] show ?thesis by simp
qed

end
