(* ===== verification/Handler_Context.thy ===== *)
theory Handler_Context
  imports Authenticate Crud_Handlers Static_Files Uploads
begin

text \<open>
  What the file store and media handlers share: actions on the database and the stores that stop at the first
  error, the context of a request (src/handlers/common/utils.rs), the identifiers of rows as text, and
  JSON objects as serde_json keeps them, sorted by key.
\<close>

section \<open>Actions\<close>

text \<open>The first component of the state is the database, the second the stores' contents.\<close>

type_synonym ('db, 's, 'a) action = "'db \<times> 's \<Rightarrow> (app_error, 'a) result \<times> ('db \<times> 's)"

definition give :: "'a \<Rightarrow> ('db, 's, 'a) action" where
  "give x w = (Inr x, w)"

definition stop :: "app_error \<Rightarrow> ('db, 's, 'a) action" where
  "stop e w = (Inl e, w)"

definition from_result :: "(app_error, 'a) result \<Rightarrow> ('db, 's, 'a) action" where
  "from_result r w = (r, w)"

definition try_then :: "('db, 's, 'a) action \<Rightarrow> ('a \<Rightarrow> ('db, 's, 'b) action) \<Rightarrow> ('db, 's, 'b) action" where
  "try_then m f w = (case m w of (Inl e, w') \<Rightarrow> (Inl e, w') | (Inr x, w') \<Rightarrow> f x w')"

definition on_db :: "('db \<Rightarrow> (app_error, 'a) result \<times> 'db) \<Rightarrow> ('db, 's, 'a) action" where
  "on_db m w = (case w of (db, s) \<Rightarrow> (case m db of (r, db') \<Rightarrow> (r, (db', s))))"

text \<open>A failing storage operation becomes an error with this text before the cause.\<close>

definition on_store :: "string \<Rightarrow> ('s \<Rightarrow> (storage_error, 'a) result \<times> 's) \<Rightarrow> ('db, 's, 'a) action" where
  "on_store what m w =
     (case w of (db, s) \<Rightarrow>
        (case m s of
           (Inl e, s') \<Rightarrow> (Inl (FileOperation (what @ '': '' @ storage_error_display e)), (db, s'))
         | (Inr x, s') \<Rightarrow> (Inr x, (db, s'))))"

definition look :: "('s \<Rightarrow> 'a) \<Rightarrow> ('db, 's, 'a) action" where
  "look f w = (case w of (db, s) \<Rightarrow> (Inr (f s), (db, s)))"

text \<open>\<open>let _ = ...\<close>: the effect stays, the result is dropped.\<close>

definition ignoring :: "('db, 's, 'a) action \<Rightarrow> ('db, 's, unit) action" where
  "ignoring m w = (Inr (), snd (m w))"

definition when_true :: "bool \<Rightarrow> ('db, 's, unit) action \<Rightarrow> ('db, 's, unit) action" where
  "when_true b m = (if b then m else give ())"

named_theorems action_simps

lemma give_run [action_simps]: "give x w = (Inr x, w)" by (simp add: give_def)
lemma stop_run [action_simps]: "stop e w = (Inl e, w)" by (simp add: stop_def)
lemma from_result_run [action_simps]: "from_result r w = (r, w)" by (simp add: from_result_def)
lemma on_db_run [action_simps]: "on_db m (db, s) = (fst (m db), (snd (m db), s))" by (simp add: on_db_def split: prod.split)
lemma look_run [action_simps]: "look f (db, s) = (Inr (f s), (db, s))" by (simp add: look_def)
lemma ignoring_run [action_simps]: "ignoring m w = (Inr (), snd (m w))" by (simp add: ignoring_def)
lemma when_true_run [action_simps]: "when_true True m = m" "when_true False m = give ()" by (simp_all add: when_true_def)

lemma try_then_run [action_simps]:
  "m w = (Inr x, w') \<Longrightarrow> try_then m f w = f x w'" "m w = (Inl e, w') \<Longrightarrow> try_then m f w = (Inl e, w')"
  by (simp_all add: try_then_def)

lemma try_then_give [action_simps]: "try_then (give x) f = f x" by (simp add: fun_eq_iff try_then_def give_def)
lemma try_then_stop [action_simps]: "try_then (stop e) f = stop e" by (simp add: fun_eq_iff try_then_def stop_def)
lemma try_then_Inr [action_simps]: "try_then (from_result (Inr x)) f = f x" by (simp add: fun_eq_iff try_then_def from_result_def)
lemma try_then_Inl [action_simps]: "try_then (from_result (Inl e)) f = stop e" by (simp add: fun_eq_iff try_then_def from_result_def stop_def)

lemma try_then_InrE:
  assumes "try_then m f w = (Inr y, w2)"
  obtains x w1 where "m w = (Inr x, w1)" "f x w1 = (Inr y, w2)"
  using assms by (auto simp: try_then_def split: prod.splits sum.splits)

lemma from_result_InrE: "from_result r w = (Inr x, w') \<Longrightarrow> r = Inr x \<and> w' = w"
  by (simp add: from_result_def)

lemma on_db_InrE:
  assumes "on_db m (db, s) = (Inr x, w')"
  obtains db' where "m db = (Inr x, db')" "w' = (db', s)"
  using assms by (auto simp: on_db_def split: prod.splits)

lemma on_store_InrE:
  assumes "on_store what m (db, s) = (Inr x, w')"
  obtains s' where "m s = (Inr x, s')" "w' = (db, s')"
  using assms by (auto simp: on_store_def split: prod.splits sum.splits)

section \<open>The context of a request\<close>

text \<open>What the handlers take from the shared state, the clock (its readings in order) and fresh identifiers.\<close>

record ('db, 's) handler_env =
  he_json_path_ok :: "string \<Rightarrow> bool"
  he_world :: auth_world
  he_auth :: auth_config
  he_pools :: "(string, 'db pool) entries"
  he_tables :: "table_config list"
  he_schemas :: "string \<Rightarrow> table_schemas option"
  he_stores :: "(string, 's storage) entries"
  he_now :: "nat \<Rightarrow> string"
  he_uuid :: string
  he_values :: path_values

record handler_context =
  hc_endpoint :: endpoint_config
  hc_headers :: header_map
  hc_query :: "(string, string) entries"

record 'db database_context =
  dc_pool :: "'db pool"
  dc_table :: table_config

definition extract_auth_info :: "('db, 's) handler_env \<Rightarrow> handler_context \<Rightarrow> (app_error, auth_info) result" where
  "extract_auth_info env ctx =
     (if ep_auth (hc_endpoint ctx) = ''none'' then Inr auth_info_anonymous
      else authenticate (he_world env) (ep_auth (hc_endpoint ctx)) (he_auth env) (hc_headers ctx) (hc_query ctx) None)"

definition extract_user_id :: "('db, 's) handler_env \<Rightarrow> handler_context \<Rightarrow> (app_error, string) result" where
  "extract_user_id env ctx = (case extract_auth_info env ctx of Inl e \<Rightarrow> Inl e | Inr info \<Rightarrow> Inr (ai_subject info))"

definition database_context_of :: "('db, 's) handler_env \<Rightarrow> string \<Rightarrow> string \<Rightarrow> (app_error, 'db database_context) result" where
  "database_context_of env db table =
     (case get_db_context (he_pools env) (he_tables env) db table of
        Inl e \<Rightarrow> Inl e
      | Inr (p, t) \<Rightarrow> Inr \<lparr> dc_pool = p, dc_table = t \<rparr>)"

definition mutation_context_default :: mutation_context where
  "mutation_context_default =
     \<lparr> mc_writable_fields = [], mc_insert_owner = None, mc_update_where_clause = None, mc_delete_where_clause = None \<rparr>"

section \<open>Objects and rows\<close>

definition column_names :: "table_config \<Rightarrow> string list" where
  "column_names t = map col_name (tbl_columns t)"

definition filter_writable_body :: "json \<Rightarrow> string list \<Rightarrow> (string \<times> json) list" where
  "filter_writable_body body writable_columns =
     (case as_object body of None \<Rightarrow> [] | Some kvs \<Rightarrow> filter (\<lambda>(k, _). k \<in> set writable_columns) kvs)"

text \<open>An identifier that is not an integer is printed as JSON, a text with its quotes.\<close>

definition id_text :: "json \<Rightarrow> string" where
  "id_text v = (case as_i64 v of Some i \<Rightarrow> show_int i | None \<Rightarrow> json_text v)"

definition stringify_id :: "json \<Rightarrow> json" where
  "stringify_id row =
     (case row of
        JObj kvs \<Rightarrow> (case map_of kvs ''id'' of Some v \<Rightarrow> JObj (obj_insert ''id'' (JStr (id_text v)) kvs) | None \<Rightarrow> row)
      | _ \<Rightarrow> row)"

lemma text_id_quoted: "stringify_id (JObj [(''id'', JStr ''abc'')]) = JObj [(''id'', JStr ([dquote_char] @ ''abc'' @ [dquote_char]))]"
  by code_simp

definition text_field :: "string \<Rightarrow> json \<Rightarrow> string option" where
  "text_field k row = (case json_get k row of None \<Rightarrow> None | Some v \<Rightarrow> as_str v)"

text \<open>A body that is empty or no JSON counts as the empty object; \<open>parse\<close> is serde_json's parser.\<close>

definition body_or_empty :: "(string \<Rightarrow> json option) \<Rightarrow> string \<Rightarrow> json" where
  "body_or_empty parse body = (if body = [] then JObj [] else unwrap_or (parse body) (JObj []))"

text \<open>A quotient of floating-point numbers, rounded up and converted to 64 bits; exact for totals below 2^53.\<close>

definition page_count :: "nat \<Rightarrow> nat \<Rightarrow> nat" where
  "page_count n page_size =
     (if page_size = 0 then (if n = 0 then 0 else nat u64_max) else (n + page_size - 1) div page_size)"

text \<open>A statement whose parameters the handler supplies.\<close>

definition optional_row :: "'db pool \<Rightarrow> built_query \<Rightarrow> json list \<Rightarrow> ('db, 's, json option) action" where
  "optional_row p q params = on_db (fetch_optional_json p (bq_sql q) params)"

definition all_rows :: "'db pool \<Rightarrow> built_query \<Rightarrow> json list \<Rightarrow> ('db, 's, json list) action" where
  "all_rows p q params = on_db (fetch_all_json p (bq_sql q) params)"

definition run_query :: "'db pool \<Rightarrow> built_query \<Rightarrow> json list \<Rightarrow> ('db, 's, nat) action" where
  "run_query p q params = on_db (execute_with_params p (bq_sql q) params)"

text \<open>\<open>.map_err(|e| AppError::Internal(format!("Failed to build query: {e}")))\<close>\<close>

definition built :: "(app_error, built_query) result \<Rightarrow> ('db, 's, built_query) action" where
  "built r = from_result (case r of Inl e \<Rightarrow> Inl (Internal (''Failed to build query: '' @ app_error_display e)) | Inr q \<Rightarrow> Inr q)"

definition no_content :: static_reply where
  "no_content = FileReply (ok_bytes 204 [])"

definition json_reply :: "nat \<Rightarrow> json \<Rightarrow> static_reply" where
  "json_reply status v = JsonReply (json_response status v)"

section \<open>Entries and their files\<close>

definition file_path_of :: "string \<Rightarrow> 'db database_context \<Rightarrow> string \<Rightarrow> ('db, 's, string option) action" where
  "file_path_of table dc i =
     try_then (optional_row (dc_pool dc) (build_select_file_path table (pl_driver (dc_pool dc))) [JStr i]) (\<lambda>row.
       give (case row of None \<Rightarrow> None | Some r \<Rightarrow> text_field ''file_path'' r))"

definition delete_entry :: "'db database_context \<Rightarrow> string \<Rightarrow> ('db, 's, nat) action" where
  "delete_entry dc i =
     try_then (from_result (build_delete i (pl_driver (dc_pool dc)) (dc_table dc) request_context_new None)) (\<lambda>q.
       run_query (dc_pool dc) q (bq_params q))"

definition delete_if_present :: "'s storage \<Rightarrow> path \<Rightarrow> ('db, 's, unit) action" where
  "delete_if_present st p =
     try_then (look (\<lambda>s. st_exists st s p)) (\<lambda>found. when_true found (on_store ''Failed to delete file'' (st_delete st p)))"

definition restore_file :: "'s storage \<Rightarrow> path \<Rightarrow> path \<Rightarrow> ('db, 's, unit) action" where
  "restore_file st trash_path restore_path =
     try_then (look (\<lambda>s. st_exists st s trash_path)) (\<lambda>found.
       if \<not> found then give ()
       else
         try_then (case path_parent restore_path of
                     None \<Rightarrow> give ()
                   | Some parent \<Rightarrow> on_store ''Failed to create directory'' (st_create_dir_all st parent)) (\<lambda>_.
           on_store ''Failed to restore file'' (st_rename st trash_path restore_path)))"

text \<open>The largest order so far plus one, as an i64 that wraps.\<close>

definition next_order :: "json option \<Rightarrow> int" where
  "next_order max_row =
     (let m = unwrap_or (case max_row of
                           None \<Rightarrow> None
                         | Some r \<Rightarrow> (case json_get ''max_order'' r of None \<Rightarrow> None | Some v \<Rightarrow> as_i64 v)) 0
      in (m + 1 + 2 ^ 63) mod 2 ^ 64 - 2 ^ 63)"

end
