(* ===== verification/File_Store.thy ===== *)
theory File_Store
  imports Handler_Context
begin

text \<open>
  The file store (src/handlers/file_store/): entries in a table whose files lie in a store. Creating, reading,
  changing and deleting entries, the trash, references from contents, and the dispatch on method and path. The body
  of a request is its JSON; reading it is the axum extractor's work.
\<close>

section \<open>Permissions\<close>

definition owner_column :: "file_store_config \<Rightarrow> string" where
  "owner_column config = (case fs_ownership config of None \<Rightarrow> ''owner_id'' | Some o' \<Rightarrow> fso_owner_column o')"

definition permitted :: "(string, file_store_field_permissions) entries \<Rightarrow> (file_store_field_permissions \<Rightarrow> string list) \<Rightarrow> string
    \<Rightarrow> string list \<Rightarrow> bool" where
  "permitted permissions allowed fld roles =
     (case map_of permissions fld of
        Some p \<Rightarrow> if ''*'' \<in> set (allowed p) then True else list_ex (\<lambda>r. r \<in> set (allowed p)) roles
      | None \<Rightarrow> True)"

definition is_field_writable :: "string \<Rightarrow> string list \<Rightarrow> (string, file_store_field_permissions) entries \<Rightarrow> bool" where
  "is_field_writable fld roles permissions = permitted permissions fsp_write fld roles"

definition is_field_readable_by_role :: "string \<Rightarrow> string list \<Rightarrow> (string, file_store_field_permissions) entries \<Rightarrow> bool" where
  "is_field_readable_by_role fld roles permissions = permitted permissions fsp_read fld roles"

definition user_roles :: "string option \<Rightarrow> string list" where
  "user_roles role = (case role of None \<Rightarrow> [] | Some r \<Rightarrow> [r])"

definition is_field_readable :: "string \<Rightarrow> file_store_config \<Rightarrow> bool" where
  "is_field_readable fld config =
     (if fld \<in> set [''id'', ''created_at'', ''updated_at'', owner_column config] then True
      else if (case fs_field_permissions config of
                 None \<Rightarrow> False
               | Some ps \<Rightarrow> (case map_of ps fld of None \<Rightarrow> False | Some p \<Rightarrow> ''*'' \<in> set (fsp_read p)))
      then True
      else True)"

definition apply_row_permissions :: "json list \<Rightarrow> file_store_config \<Rightarrow> json list" where
  "apply_row_permissions rows config =
     map (\<lambda>row. case as_object row of Some kvs \<Rightarrow> JObj (filter (\<lambda>(k, _). is_field_readable k config) kvs) | None \<Rightarrow> row) rows"

definition check_file_store_ownership :: "('db, 's) handler_env \<Rightarrow> handler_context \<Rightarrow> file_store_config \<Rightarrow> string \<Rightarrow> database_driver
    \<Rightarrow> ('db, 's, unit) action" where
  "check_file_store_ownership env ctx config i driver =
     try_then (from_result (extract_user_id env ctx)) (\<lambda>user_id.
     try_then (from_result (db_pool (he_pools env) (fs_database config))) (\<lambda>p.
     try_then (built (build_select_by_id (fs_table config) [owner_column config] driver)) (\<lambda>q.
     try_then (optional_row p q [JStr i]) (\<lambda>row.
       case (case row of None \<Rightarrow> None | Some r \<Rightarrow> text_field (owner_column config) r) of
         Some owner \<Rightarrow> if owner \<noteq> user_id then stop (Forbidden ''Access denied: file entry owned by another user'') else give ()
       | None \<Rightarrow> give ()))))"

section \<open>Creating\<close>

definition unwritable_field :: "table_config \<Rightarrow> (string, file_store_field_permissions) entries \<Rightarrow> string list \<Rightarrow> (string \<Rightarrow> bool) \<Rightarrow> json
    \<Rightarrow> string option" where
  "unwritable_field t permissions roles exempt body =
     (case as_object body of
        None \<Rightarrow> None
      | Some kvs \<Rightarrow>
          map_option fst (find (\<lambda>(k, _). k \<in> set (column_names t) \<and> \<not> exempt k \<and> \<not> is_field_writable k roles permissions) kvs))"

definition check_writable :: "table_config \<Rightarrow> file_store_config \<Rightarrow> string option \<Rightarrow> (string \<Rightarrow> bool) \<Rightarrow> json \<Rightarrow> (app_error, unit) result" where
  "check_writable t config role exempt body =
     (case fs_field_permissions config of
        None \<Rightarrow> Inr ()
      | Some permissions \<Rightarrow>
          (case unwritable_field t permissions (user_roles role) exempt body of
             None \<Rightarrow> Inr ()
           | Some k \<Rightarrow> Inl (Forbidden (''Field '' @ [CHR 0x27] @ k @ [CHR 0x27] @ '' is not writable by the current user'' @ [CHR 0x27] @ ''s roles''))))"

definition entry_body :: "('db, 's) handler_env \<Rightarrow> file_store_config \<Rightarrow> table_config \<Rightarrow> string \<Rightarrow> json \<Rightarrow> json" where
  "entry_body env config t user_id body =
     (let cols = column_names t;
          m0 = filter_writable_body body cols;
          m1 = (case fs_ownership config of None \<Rightarrow> m0 | Some _ \<Rightarrow> obj_insert (owner_column config) (JStr user_id) m0);
          m2 = (if ''created_at'' \<in> set cols then obj_insert ''created_at'' (JStr (he_now env 0)) m1 else m1);
          m3 = (if ''updated_at'' \<in> set cols then obj_insert ''updated_at'' (JStr (he_now env 1)) m2 else m2)
      in JObj m3)"

definition writable_all :: mutation_context where
  "writable_all = mutation_context_default \<lparr> mc_writable_fields := [''*''] \<rparr>"

definition created_row :: "file_store_config \<Rightarrow> string \<Rightarrow> json \<Rightarrow> json" where
  "created_row config user_id row =
     (case row of
        JObj kvs \<Rightarrow>
          stringify_id (JObj (case fs_ownership config of None \<Rightarrow> kvs | Some _ \<Rightarrow> obj_insert (owner_column config) (JStr user_id) kvs))
      | _ \<Rightarrow> row)"

definition handle_file_store_create :: "('db, 's) handler_env \<Rightarrow> handler_context \<Rightarrow> file_store_config \<Rightarrow> 'db database_context \<Rightarrow> json
    \<Rightarrow> ('db, 's, static_reply) action" where
  "handle_file_store_create env ctx config dc body =
     try_then (from_result (extract_user_id env ctx)) (\<lambda>user_id.
     try_then (case fs_field_permissions config of
                 None \<Rightarrow> give ()
               | Some _ \<Rightarrow> try_then (from_result (extract_auth_info env ctx)) (\<lambda>info.
                   from_result (check_writable (dc_table dc) config (ai_role info) (\<lambda>_. False) body))) (\<lambda>_.
     try_then (from_result (validate_jsonb_body body (he_schemas env (tbl_name (dc_table dc))))) (\<lambda>_.
     try_then (from_result (build_insert (pl_driver (dc_pool dc)) (dc_table dc) writable_all
                              (entry_body env config (dc_table dc) user_id body) request_context_new)) (\<lambda>q.
       if contains_str (bq_sql q) ''RETURNING''
       then try_then (optional_row (dc_pool dc) q (bq_params q)) (\<lambda>row.
         give (json_reply 201 (JObj [(''data'', row_json (map_option (created_row config user_id) row))])))
       else try_then (run_query (dc_pool dc) q (bq_params q)) (\<lambda>n.
         give (json_reply 201 (JObj [(''rows_affected'', JInt (int n))])))))))"

section \<open>Reading\<close>

definition entry_not_found :: "string \<Rightarrow> app_error" where
  "entry_not_found i = NotFound (''File entry with id '' @ [CHR 0x27] @ i @ [CHR 0x27] @ '' not found'')"

definition readable_row :: "(string, file_store_field_permissions) entries \<Rightarrow> string option \<Rightarrow> json \<Rightarrow> json" where
  "readable_row permissions role row =
     JObj (case as_object row of
             None \<Rightarrow> []
           | Some kvs \<Rightarrow> filter (\<lambda>(k, _). is_field_readable_by_role k (user_roles role) permissions) kvs)"

definition handle_file_store_get_one :: "('db, 's) handler_env \<Rightarrow> handler_context \<Rightarrow> file_store_config \<Rightarrow> 'db database_context \<Rightarrow> string
    \<Rightarrow> ('db, 's, static_reply) action" where
  "handle_file_store_get_one env ctx config dc i =
     try_then (case fs_ownership config of
                 None \<Rightarrow> give ()
               | Some ownership \<Rightarrow> try_then (from_result (extract_auth_info env ctx)) (\<lambda>info.
                   when_true (fso_admin_override ownership \<and> \<not> is_admin (ep_roles (hc_endpoint ctx)) (ai_role info))
                     (check_file_store_ownership env ctx config i (pl_driver (dc_pool dc))))) (\<lambda>_.
     try_then (from_result (build_select_one (pl_driver (dc_pool dc)) (dc_table dc) select_context_permissive i request_context_new)) (\<lambda>q.
     try_then (optional_row (dc_pool dc) q (bq_params q)) (\<lambda>found.
       case found of
         None \<Rightarrow> stop (entry_not_found i)
       | Some row \<Rightarrow>
           try_then (case fs_field_permissions config of
                       None \<Rightarrow> give row
                     | Some permissions \<Rightarrow> try_then (from_result (extract_auth_info env ctx)) (\<lambda>info.
                         give (readable_row permissions (ai_role info) row))) (\<lambda>visible.
             give (json_reply 200 (stringify_id visible))))))"

definition list_params :: "('db, 's) handler_env \<Rightarrow> handler_context \<Rightarrow> file_store_config \<Rightarrow> (app_error, query_params) result" where
  "list_params env ctx config =
     (let qp0 = extract_query_params (hc_query ctx);
          qp = qp0 \<lparr> qp_page := Some (unwrap_or (qp_page qp0) 1),
                 qp_page_size := Some (unwrap_or (qp_page_size qp0) (pgn_default_page_size (fs_pagination config))),
                 qp_sort := (if qp_sort qp0 = None \<and> srt_default_field (fs_sorting config) \<noteq> [] then Some (srt_default_field (fs_sorting config))
                             else qp_sort qp0),
                 qp_order := Some (unwrap_or (qp_order qp0) (srt_default_order (fs_sorting config))) \<rparr>
      in case fs_ownership config of
           None \<Rightarrow> Inr qp
         | Some ownership \<Rightarrow>
             (case extract_auth_info env ctx of
                Inl e \<Rightarrow> Inl e
              | Inr info \<Rightarrow>
                  if is_admin (ep_roles (hc_endpoint ctx)) (ai_role info) then Inr qp
                  else Inr (qp \<lparr> qp_filters := entries_insert (fso_owner_column ownership) (ai_subject info) (qp_filters qp) \<rparr>)))"

definition list_reply :: "file_store_config \<Rightarrow> query_params \<Rightarrow> json list \<Rightarrow> static_reply" where
  "list_reply config qp found =
     (let kept = filter (\<lambda>row. text_field ''trashed_at'' row = None) found;
          rows = apply_row_permissions (map stringify_id kept) config;
          page = unwrap_or (qp_page qp) (pgn_default_page_size (fs_pagination config));
          page_size = unwrap_or (qp_page_size qp) (pgn_default_page_size (fs_pagination config))
      in json_reply 200 (JObj [(''data'', JArr rows),
           (''pagination'', JObj [(''page'', JInt (int page)), (''page_size'', JInt (int page_size)), (''total'', JInt (int (length kept))),
              (''total_pages'', JInt (int (page_count (length kept) page_size)))])]))"

definition handle_file_store_list :: "('db, 's) handler_env \<Rightarrow> handler_context \<Rightarrow> file_store_config \<Rightarrow> 'db database_context
    \<Rightarrow> ('db, 's, static_reply) action" where
  "handle_file_store_list env ctx config dc =
     try_then (from_result (list_params env ctx config)) (\<lambda>qp.
     try_then (from_result (build_select_list (he_json_path_ok env) (pl_driver (dc_pool dc)) (dc_table dc) select_context_permissive qp request_context_new)) (\<lambda>q.
     try_then (all_rows (dc_pool dc) q (bq_params q)) (\<lambda>rows. give (list_reply config qp rows))))"

section \<open>Changing\<close>

definition handle_file_store_update :: "('db, 's) handler_env \<Rightarrow> handler_context \<Rightarrow> file_store_config \<Rightarrow> 'db database_context \<Rightarrow> string \<Rightarrow> json
    \<Rightarrow> ('db, 's, static_reply) action" where
  "handle_file_store_update env ctx config dc i body =
     try_then (from_result (extract_auth_info env ctx)) (\<lambda>info.
     try_then (when_true (fs_ownership config \<noteq> None \<and> \<not> is_admin (ep_roles (hc_endpoint ctx)) (ai_role info))
                 (check_file_store_ownership env ctx config i (pl_driver (dc_pool dc)))) (\<lambda>_.
     try_then (from_result (check_writable (dc_table dc) config (ai_role info) (\<lambda>k. k = ''updated_at'') body)) (\<lambda>_.
     try_then (from_result (validate_jsonb_body body (he_schemas env (tbl_name (dc_table dc))))) (\<lambda>_.
     try_then (from_result (build_update (pl_driver (dc_pool dc)) (dc_table dc) writable_all i
                 (JObj (obj_insert ''updated_at'' (JStr (he_now env 0)) (filter_writable_body body (column_names (dc_table dc)))))
                 request_context_new None)) (\<lambda>q.
     try_then (run_query (dc_pool dc) q (bq_params q)) (\<lambda>n.
       if n = 0 then stop (entry_not_found i)
       else
         try_then (from_result (build_select_one (pl_driver (dc_pool dc)) (dc_table dc) select_context_permissive i request_context_new)) (\<lambda>q2.
         try_then (optional_row (dc_pool dc) q2 (bq_params q2)) (\<lambda>row.
           give (json_reply 200 (case row of None \<Rightarrow> JObj [(''rows_affected'', JInt (int n))] | Some r \<Rightarrow> r))))))))))"

section \<open>Deleting\<close>

definition store_root :: "'s storage \<Rightarrow> string \<Rightarrow> path" where
  "store_root st name = unwrap_or (st_root_path st) (components name)"

text \<open>The trash of a deletion is always \<open>.trash\<close>.\<close>

definition trash_file :: "'s storage \<Rightarrow> path \<Rightarrow> string \<Rightarrow> ('db, 's, unit) action" where
  "trash_file st root file_path =
     (let dest = path_join (path_join root (components ''.trash'')) (components file_path);
          source = path_join root (components file_path)
      in try_then (look (\<lambda>s. st_exists st s source)) (\<lambda>found.
           if \<not> found then give ()
           else
             try_then (case path_parent dest of
                         None \<Rightarrow> give ()
                       | Some parent \<Rightarrow> on_store ''Failed to create trash directory'' (st_create_dir_all st parent)) (\<lambda>_.
               ignoring (on_store [] (st_rename st source dest)))))"

definition owner_check :: "('db, 's) handler_env \<Rightarrow> handler_context \<Rightarrow> file_store_config \<Rightarrow> 'db database_context \<Rightarrow> string
    \<Rightarrow> ('db, 's, unit) action" where
  "owner_check env ctx config dc i =
     (if fs_ownership config = None then give ()
      else try_then (from_result (extract_auth_info env ctx)) (\<lambda>info.
        when_true (\<not> is_admin (ep_roles (hc_endpoint ctx)) (ai_role info))
          (check_file_store_ownership env ctx config i (pl_driver (dc_pool dc)))))"

definition move_to_trash :: "file_store_config \<Rightarrow> 'db database_context \<Rightarrow> 's storage \<Rightarrow> string \<Rightarrow> ('db, 's, static_reply) action" where
  "move_to_trash config dc st i =
     try_then (file_path_of (fs_table config) dc i) (\<lambda>file_path.
     try_then (case file_path of None \<Rightarrow> give () | Some f \<Rightarrow> trash_file st (store_root st (fs_storage config)) f) (\<lambda>_.
     try_then (built (build_set_trashed (fs_table config) (pl_driver (dc_pool dc)))) (\<lambda>q.
     try_then (run_query (dc_pool dc) q [JStr i]) (\<lambda>n.
       if n = 0 then stop (entry_not_found i) else give no_content))))"

definition handle_file_store_delete :: "('db, 's) handler_env \<Rightarrow> handler_context \<Rightarrow> file_store_config \<Rightarrow> 'db database_context \<Rightarrow> 's storage
    \<Rightarrow> string \<Rightarrow> ('db, 's, static_reply) action" where
  "handle_file_store_delete env ctx config dc st i =
     try_then (owner_check env ctx config dc i) (\<lambda>_.
       if (case fs_trash config of None \<Rightarrow> False | Some t \<Rightarrow> fst_enabled t) then move_to_trash config dc st i
       else
         try_then (owner_check env ctx config dc i) (\<lambda>_.
         try_then (file_path_of (fs_table config) dc i) (\<lambda>file_path.
         try_then (case file_path of
                     None \<Rightarrow> give ()
                   | Some f \<Rightarrow> delete_if_present st (path_join (store_root st (fs_storage config)) (components f))) (\<lambda>_.
         try_then (delete_entry dc i) (\<lambda>n. if n = 0 then stop (entry_not_found i) else give no_content)))))"

section \<open>Trash\<close>

definition trash_list :: "'db database_context \<Rightarrow> ('db, 's, static_reply) action" where
  "trash_list dc =
     try_then (all_rows (dc_pool dc) (build_select_trashed (tbl_name (dc_table dc)) (pl_driver (dc_pool dc))) []) (\<lambda>rows.
       give (json_reply 200 (JObj [(''data'', JArr rows),
         (''pagination'', JObj [(''page'', JInt 1), (''page_size'', JInt (int (length rows))), (''total'', JInt (int (length rows))),
           (''total_pages'', JInt 1)])])))"

text \<open>\<open>extract_file_path(row, id).unwrap_or_default()\<close>: without a row the empty path.\<close>

definition trashed_path :: "file_store_config \<Rightarrow> 'db database_context \<Rightarrow> string \<Rightarrow> ('db, 's, string) action" where
  "trashed_path config dc i =
     try_then (optional_row (dc_pool dc) (build_select_trashed_item (fs_table config) (pl_driver (dc_pool dc))) [JStr i]) (\<lambda>row.
       give (case extract_file_path row i of Inl _ \<Rightarrow> [] | Inr f \<Rightarrow> f))"

definition trash_restore :: "file_store_config \<Rightarrow> file_store_trash_config \<Rightarrow> 'db database_context \<Rightarrow> 's storage \<Rightarrow> path \<Rightarrow> string
    \<Rightarrow> ('db, 's, static_reply) action" where
  "trash_restore config tc dc st root i =
     try_then (trashed_path config dc i) (\<lambda>f.
     try_then (restore_file st (path_join (path_join root (components (fst_prefix tc))) (components f)) (path_join root (components f))) (\<lambda>_.
     try_then (built (build_set_restored (fs_table config) (pl_driver (dc_pool dc)))) (\<lambda>q.
     try_then (run_query (dc_pool dc) q [JStr i]) (\<lambda>_.
       give (json_reply 200 (JObj [(''message'', JStr ''File store entry restored from trash''), (''success'', JBool True)]))))))"

definition purge_file :: "file_store_trash_config \<Rightarrow> 's storage \<Rightarrow> path \<Rightarrow> string \<Rightarrow> ('db, 's, unit) action" where
  "purge_file tc st root f =
     (let p = path_join (path_join root (components (fst_prefix tc))) (components f) in
      try_then (look (\<lambda>s. st_exists st s p)) (\<lambda>found. when_true found (ignoring (on_store [] (st_delete st p)))))"

fun empty_rows :: "file_store_config \<Rightarrow> file_store_trash_config \<Rightarrow> 'db database_context \<Rightarrow> 's storage \<Rightarrow> path \<Rightarrow> json list \<Rightarrow> nat
    \<Rightarrow> ('db, 's, nat) action" where
  "empty_rows config tc dc st root [] n = give n"
| "empty_rows config tc dc st root (row # rows) n =
     (case text_field ''id'' row of
        None \<Rightarrow> empty_rows config tc dc st root rows n
      | Some i \<Rightarrow>
          try_then (file_path_of (fs_table config) dc i) (\<lambda>file_path.
          try_then (case file_path of None \<Rightarrow> give () | Some f \<Rightarrow> purge_file tc st root f) (\<lambda>_.
          try_then (from_result (build_delete i (pl_driver (dc_pool dc)) (dc_table dc) request_context_new None)) (\<lambda>q.
          try_then (ignoring (run_query (dc_pool dc) q (bq_params q))) (\<lambda>_.
            empty_rows config tc dc st root rows (n + 1))))))"

definition trash_empty :: "file_store_config \<Rightarrow> file_store_trash_config \<Rightarrow> 'db database_context \<Rightarrow> 's storage \<Rightarrow> path
    \<Rightarrow> ('db, 's, static_reply) action" where
  "trash_empty config tc dc st root =
     try_then (all_rows (dc_pool dc) (build_select_trashed_ids (fs_table config) (pl_driver (dc_pool dc))) []) (\<lambda>rows.
     try_then (empty_rows config tc dc st root (map stringify_id rows) 0) (\<lambda>n.
       give (json_reply 200 (JObj [(''deleted_count'', JInt (int n)),
         (''message'', JStr (''Emptied trash, deleted '' @ show_nat n @ '' items'')), (''success'', JBool True)]))))"

definition trash_permanent_delete :: "file_store_config \<Rightarrow> file_store_trash_config \<Rightarrow> 'db database_context \<Rightarrow> 's storage \<Rightarrow> path \<Rightarrow> string
    \<Rightarrow> ('db, 's, static_reply) action" where
  "trash_permanent_delete config tc dc st root i =
     try_then (trashed_path config dc i) (\<lambda>f.
     try_then (when_true (f \<noteq> []) (purge_file tc st root f)) (\<lambda>_.
     try_then (delete_entry dc i) (\<lambda>n.
       if n = 0 then stop (NotFound ''Trashed file store entry not found'')
       else give (json_reply 200 (JObj [(''message'', JStr ''File store entry permanently deleted from trash''),
              (''rows_affected'', JInt (int n)), (''success'', JBool True)])))))"

definition trash_prefix :: string where
  "trash_prefix = ''/_main-serve/file-store/trash''"

definition handle_file_store_trash :: "string \<Rightarrow> string \<Rightarrow> endpoint_config \<Rightarrow> file_store_config \<Rightarrow> 's storage \<Rightarrow> path \<Rightarrow> 'db database_context
    \<Rightarrow> ('db, 's, static_reply) action" where
  "handle_file_store_trash meth p endpoint config st root dc =
     (case fs_trash config of
        None \<Rightarrow> stop (MethodNotAllowed ''Trash is not enabled'' (ep_methods endpoint))
      | Some tc \<Rightarrow>
          if \<not> fst_enabled tc then stop (MethodNotAllowed ''Trash is not enabled'' (ep_methods endpoint))
          else if meth = ''GET'' then trash_list dc
          else if meth = ''DELETE'' \<and> (p = trash_prefix \<or> p = trash_prefix @ ''/'') then trash_empty config tc dc st root
          else if meth = ''POST'' then
            (case strip_prefix (trash_prefix @ ''/'') p of
               None \<Rightarrow> stop (BadRequest ''Invalid trash restore path'')
             | Some r \<Rightarrow>
                 (case strip_suffix ''/restore'' r of
                    None \<Rightarrow> stop (BadRequest ''Invalid trash restore path'')
                  | Some i \<Rightarrow> trash_restore config tc dc st root i))
          else if meth = ''DELETE'' then
            (case strip_prefix (trash_prefix @ ''/'') p of
               None \<Rightarrow> stop (BadRequest ''Invalid trash delete path'')
             | Some i \<Rightarrow> trash_permanent_delete config tc dc st root i)
          else stop (MethodNotAllowed ''Method not allowed for trash endpoint'' (ep_methods endpoint)))"

section \<open>References from contents\<close>

definition refs_enabled :: "endpoint_config \<Rightarrow> file_store_config \<Rightarrow> (app_error, file_store_refs_config) result" where
  "refs_enabled endpoint config =
     (case fs_content_references config of
        None \<Rightarrow> Inl (MethodNotAllowed ''Content references not enabled'' (ep_methods endpoint))
      | Some refs \<Rightarrow>
          if fsr_enabled refs then Inr refs
          else Inl (MethodNotAllowed ''Content references are disabled'' (ep_methods endpoint)))"

definition entity_id_of :: "json \<Rightarrow> (app_error, string) result" where
  "entity_id_of body =
     ok_or (case json_get ''entity_id'' body of
              None \<Rightarrow> None
            | Some v \<Rightarrow> or_else (as_str v) (or_else (map_option show_int (as_i64 v)) (map_option show_nat (as_u64 v))))
       (BadRequest ''entity_id is required'')"

definition handle_file_store_attach :: "string \<Rightarrow> endpoint_config \<Rightarrow> file_store_config \<Rightarrow> 'db pool \<Rightarrow> json \<Rightarrow> ('db, 's, static_reply) action" where
  "handle_file_store_attach i endpoint config p body =
     try_then (from_result (refs_enabled endpoint config)) (\<lambda>refs.
     try_then (from_result (entity_id_of body)) (\<lambda>entity_id.
     try_then (from_result (ok_or (text_field ''content_type'' body) (BadRequest ''content_type is required''))) (\<lambda>content_type.
     try_then (optional_row p (build_file_ref_max_order (fsr_table refs) (fsr_order_column refs) (pl_driver p)) []) (\<lambda>max_row.
     try_then (run_query p (build_file_ref_insert (fsr_table refs)
                  [fsr_media_id_column refs, fsr_entity_id_column refs, fsr_content_type_column refs, fsr_order_column refs] (pl_driver p))
                 [JStr i, JStr entity_id, JStr content_type, JInt (next_order max_row)]) (\<lambda>_.
     try_then (optional_row p (build_file_ref_select (fsr_table refs) (fsr_media_id_column refs) (fsr_entity_id_column refs)
                  (fsr_content_type_column refs) (pl_driver p)) [JStr i, JStr entity_id, JStr content_type]) (\<lambda>row.
       give (json_reply 201 (JObj [(''data'', row_json row)]))))))))"

text \<open>The statement has three placeholders and the handler binds two values.\<close>

definition handle_file_store_detach :: "string \<Rightarrow> string \<Rightarrow> endpoint_config \<Rightarrow> file_store_config \<Rightarrow> 'db pool \<Rightarrow> ('db, 's, static_reply) action" where
  "handle_file_store_detach i entity_id endpoint config p =
     try_then (from_result (refs_enabled endpoint config)) (\<lambda>refs.
     try_then (run_query p (build_file_ref_delete (fsr_table refs) (fsr_media_id_column refs) (fsr_entity_id_column refs)
                  (fsr_content_type_column refs) (pl_driver p)) [JStr i, JStr entity_id]) (\<lambda>n.
       if n = 0
       then stop (NotFound (''No content reference found for file id '' @ [CHR 0x27] @ i @ [CHR 0x27] @ '', entity ''
              @ [CHR 0x27] @ entity_id @ [CHR 0x27]))
       else give (json_reply 200 (JObj [(''message'', JStr (''Detached file '' @ [CHR 0x27] @ i @ [CHR 0x27] @ '' from entity ''
              @ [CHR 0x27] @ entity_id @ [CHR 0x27])), (''rows_affected'', JInt (int n)), (''success'', JBool True)]))))"

section \<open>Dispatch\<close>

definition get_base_path :: "endpoint_config \<Rightarrow> string" where
  "get_base_path endpoint =
     (let e = trim_end_char (CHR ''/'') (ep_path endpoint) in
      trim_end_char (CHR ''/'') (unwrap_or (or_else (strip_suffix ''/{id}'' e) (strip_suffix ''/*'' e)) e))"

definition post_base_path :: "endpoint_config \<Rightarrow> string" where
  "post_base_path endpoint =
     (let e = trim_end_char (CHR ''/'') (ep_path endpoint) in
      trim_end_char (CHR ''/'') (unwrap_or (or_else (strip_suffix ''/*'' e) (strip_suffix ''/{*rest}'' e)) e))"

definition dispatch_file_store_get :: "('db, 's) handler_env \<Rightarrow> handler_context \<Rightarrow> file_store_config \<Rightarrow> 'db database_context \<Rightarrow> string
    \<Rightarrow> ('db, 's, static_reply) action" where
  "dispatch_file_store_get env ctx config dc p =
     (let normalized = trim_end_char (CHR ''/'') p in
      if normalized = [] \<or> normalized = ''/'' \<or> normalized = get_base_path (hc_endpoint ctx) then handle_file_store_list env ctx config dc
      else
        (case extract_id p of
           Some i \<Rightarrow> handle_file_store_get_one env ctx config dc i
         | None \<Rightarrow> stop (BadRequest ''File ID required'')))"

definition attach_target :: "string \<Rightarrow> string option" where
  "attach_target p =
     (if ends_with p ''/refs'' \<or> ends_with p ''/refs/''
      then extract_id (unwrap_or (or_else (strip_suffix ''/refs'' p) (strip_suffix ''/refs/'' p)) []) else None)"

definition dispatch_file_store_post :: "('db, 's) handler_env \<Rightarrow> handler_context \<Rightarrow> file_store_config \<Rightarrow> 'db database_context \<Rightarrow> string \<Rightarrow> json
    \<Rightarrow> ('db, 's, static_reply) action" where
  "dispatch_file_store_post env ctx config dc p body =
     (case attach_target p of
        Some i \<Rightarrow> handle_file_store_attach i (hc_endpoint ctx) config (dc_pool dc) body
      | None \<Rightarrow>
          if p = [] \<or> p = ''/'' \<or> p = post_base_path (hc_endpoint ctx) then handle_file_store_create env ctx config dc body
          else stop (MethodNotAllowed ''POST not allowed on this path'' (ep_methods (hc_endpoint ctx))))"

text \<open>\<open>/{...}/{id}/refs/{entity_id}\<close>: the identifier and the entity of a detachment.\<close>

definition detach_target :: "string \<Rightarrow> (string \<times> string) option" where
  "detach_target p =
     (case strip_prefix ''/'' p of
        None \<Rightarrow> None
      | Some q \<Rightarrow>
          (case split_once_str ''/refs/'' q of
             None \<Rightarrow> None
           | Some (before, after) \<Rightarrow>
               (case extract_id before of
                  None \<Rightarrow> None
                | Some i \<Rightarrow> (let entity = hd (split_on (CHR ''/'') after) in if entity = [] then None else Some (i, entity)))))"

definition dispatch_file_store_delete :: "('db, 's) handler_env \<Rightarrow> handler_context \<Rightarrow> file_store_config \<Rightarrow> 'db database_context \<Rightarrow> 's storage
    \<Rightarrow> string \<Rightarrow> ('db, 's, static_reply) action" where
  "dispatch_file_store_delete env ctx config dc st p =
     (case detach_target p of
        Some (i, entity) \<Rightarrow> handle_file_store_detach i entity (hc_endpoint ctx) config (dc_pool dc)
      | None \<Rightarrow>
          (case extract_id p of
             Some i \<Rightarrow> handle_file_store_delete env ctx config dc st i
           | None \<Rightarrow> stop (BadRequest ''File ID required'')))"

definition dispatch_file_store :: "('db, 's) handler_env \<Rightarrow> handler_context \<Rightarrow> string \<Rightarrow> string \<Rightarrow> json \<Rightarrow> ('db, 's, static_reply) action" where
  "dispatch_file_store env ctx meth p body =
     (case ep_file_store (hc_endpoint ctx) of
        None \<Rightarrow> stop (NotFound ''File store config not found'')
      | Some config \<Rightarrow>
          try_then (from_result (resolve_store (he_stores env) (fs_storage config))) (\<lambda>(st, root).
          try_then (from_result (database_context_of env (fs_database config) (fs_table config))) (\<lambda>dc.
            if starts_with p trash_prefix then handle_file_store_trash meth p (hc_endpoint ctx) config st root dc
            else if meth = ''GET'' then dispatch_file_store_get env ctx config dc p
            else if meth = ''POST'' then dispatch_file_store_post env ctx config dc p body
            else if meth = ''PATCH'' then
              (case extract_id p of
                 Some i \<Rightarrow> handle_file_store_update env ctx config dc i body
               | None \<Rightarrow> stop (BadRequest (''File ID required for path: '' @ p)))
            else if meth = ''DELETE'' then dispatch_file_store_delete env ctx config dc st p
            else stop (MethodNotAllowed ''Method not allowed for file store endpoint'' (ep_methods (hc_endpoint ctx))))))"

definition handle_file_store_route :: "('db, 's) handler_env \<Rightarrow> endpoint_table \<Rightarrow> (string \<Rightarrow> json option) \<Rightarrow> string \<Rightarrow> string \<Rightarrow> string \<Rightarrow> header_map
    \<Rightarrow> (string, string) entries \<Rightarrow> string \<Rightarrow> ('db, 's, static_reply) action" where
  "handle_file_store_route env endpoints parse matched_path meth p headers query body =
     (case get_endpoint_config_for_method endpoints matched_path meth of
        None \<Rightarrow> stop (NotFound ''Endpoint not found'')
      | Some e \<Rightarrow>
          dispatch_file_store env \<lparr> hc_endpoint = e, hc_headers = headers, hc_query = query \<rparr> meth p (body_or_empty parse body))"

end
