(* ===== verification/Media.thy ===== *)
theory Media
  imports Handler_Context
begin

text \<open>
  The media library (src/handlers/media/): records of files in a table. Upload, creation, reading, change,
  deletion, trash, moving and renaming, references from contents, shared files, resizing, and the dispatch on
  the path. Image processing, the multipart parser and the JSON parser are parameters.
\<close>

abbreviation quoted :: "string \<Rightarrow> string" where
  "quoted s \<equiv> [CHR 0x27] @ s @ [CHR 0x27]"

section \<open>Listing and reading\<close>

definition media_not_found :: "string \<Rightarrow> app_error" where
  "media_not_found i = NotFound (''Media item with id '' @ quoted i @ '' not found'')"

definition media_list_params :: "media_config \<Rightarrow> (string, string) entries \<Rightarrow> query_params" where
  "media_list_params config query =
     (let number = (\<lambda>v. case v of None \<Rightarrow> None | Some x \<Rightarrow> parse_u64 x) in
      \<lparr> qp_page = Some (unwrap_or (number (map_of query ''page'')) 1),
        qp_page_size = Some (unwrap_or (number (or_else (map_of query ''page_size'') (map_of query ''per_page'')))
                               (pgn_default_page_size (media_pagination config))),
        qp_sort = or_else (map_of query ''sort'')
                    (if srt_default_field (media_sorting config) = [] then None else Some (srt_default_field (media_sorting config))),
        qp_order = Some (srt_default_order (media_sorting config)),
        qp_filters = filter (\<lambda>(k, _). k \<notin> set reserved_params) query \<rparr>)"

definition count_of :: "json option \<Rightarrow> int" where
  "count_of row =
     unwrap_or (case row of None \<Rightarrow> None | Some r \<Rightarrow> (case json_get ''count'' r of None \<Rightarrow> None | Some v \<Rightarrow> as_i64 v)) 0"

definition handle_media_list :: "('db, 's) handler_env \<Rightarrow> media_config \<Rightarrow> 'db database_context \<Rightarrow> (string, string) entries
    \<Rightarrow> ('db, 's, static_reply) action" where
  "handle_media_list env config dc query =
     (let qp = media_list_params config query; p = dc_pool dc in
      try_then (from_result (build_select_list (he_json_path_ok env) (pl_driver p) (dc_table dc) select_context_permissive qp request_context_new)) (\<lambda>q.
      try_then (all_rows p q (bq_params q)) (\<lambda>rows.
      try_then (from_result (build_select_list_count (media_table config) (pl_driver p) select_context_permissive qp request_context_new (dc_table dc))) (\<lambda>c.
      try_then (optional_row p c (bq_params c)) (\<lambda>row.
        give (json_reply 200 (JObj [(''data'', JArr rows),
          (''pagination'', JObj [(''page'', JInt (int (the (qp_page qp)))), (''page_size'', JInt (int (the (qp_page_size qp)))),
             (''total'', JInt (count_of row)),
             (''total_pages'', JInt (int (page_count (nat (count_of row)) (the (qp_page_size qp)))))])])))))))"

definition handle_media_get :: "'db database_context \<Rightarrow> string \<Rightarrow> ('db, 's, static_reply) action" where
  "handle_media_get dc i =
     try_then (from_result (build_select_one (pl_driver (dc_pool dc)) (dc_table dc) select_context_permissive i request_context_new)) (\<lambda>q.
     try_then (optional_row (dc_pool dc) q (bq_params q)) (\<lambda>row.
       case row of None \<Rightarrow> stop (media_not_found i) | Some r \<Rightarrow> give (json_reply 200 r)))"

section \<open>Creating and changing records\<close>

definition handle_media_create :: "('db, 's) handler_env \<Rightarrow> handler_context \<Rightarrow> 'db database_context \<Rightarrow> json \<Rightarrow> ('db, 's, static_reply) action" where
  "handle_media_create env ctx dc body =
     try_then (from_result (extract_user_id env ctx)) (\<lambda>user_id.
       (let cols = column_names (dc_table dc);
            m0 = filter_writable_body body cols;
            m1 = (if ''uploader_id'' \<in> set cols then obj_insert ''uploader_id'' (JStr user_id) m0 else m0);
            m2 = (if ''created_at'' \<in> set cols then obj_insert ''created_at'' (JStr (he_now env 0)) m1 else m1)
        in try_then (from_result (build_insert (pl_driver (dc_pool dc)) (dc_table dc) mutation_context_default (JObj m2) request_context_new)) (\<lambda>q.
             if contains_str (bq_sql q) ''RETURNING''
             then try_then (optional_row (dc_pool dc) q (bq_params q)) (\<lambda>row. give (json_reply 201 (JObj [(''data'', row_json row)])))
             else try_then (run_query (dc_pool dc) q (bq_params q)) (\<lambda>n. give (json_reply 201 (JObj [(''rows_affected'', JInt (int n))]))))))"

definition scope_check :: "media_config \<Rightarrow> 'db database_context \<Rightarrow> auth_info \<Rightarrow> string \<Rightarrow> ('db, 's, unit) action" where
  "scope_check config dc info i =
     (if (case media_user_scope config of None \<Rightarrow> False | Some u \<Rightarrow> mus_enabled u \<and> \<not> mus_allow_cross_user_browse u) then
        try_then (built (build_select_by_id (media_table config) [''uploader_id''] (pl_driver (dc_pool dc)))) (\<lambda>q.
        try_then (optional_row (dc_pool dc) q [JStr i]) (\<lambda>row.
          case (case row of None \<Rightarrow> None | Some r \<Rightarrow> text_field ''uploader_id'' r) of
            Some uploader \<Rightarrow> if uploader \<noteq> ai_subject info then stop (Forbidden ''Cannot update media owned by another user'') else give ()
          | None \<Rightarrow> give ()))
      else give ())"

definition handle_media_update :: "('db, 's) handler_env \<Rightarrow> handler_context \<Rightarrow> media_config \<Rightarrow> 'db database_context \<Rightarrow> string \<Rightarrow> json
    \<Rightarrow> ('db, 's, static_reply) action" where
  "handle_media_update env ctx config dc i body =
     try_then (from_result (extract_auth_info env ctx)) (\<lambda>info.
     try_then (scope_check config dc info i) (\<lambda>_.
       (let cols = column_names (dc_table dc);
            m0 = filter_writable_body body cols;
            m1 = (if ''updated_at'' \<in> set cols then obj_insert ''updated_at'' (JStr (he_now env 0)) m0 else m0);
            m2 = obj_insert ''last_modified_by'' (JStr (ai_subject info)) m1
        in try_then (from_result (build_update (pl_driver (dc_pool dc)) (dc_table dc) mutation_context_default i (JObj m2) request_context_new None)) (\<lambda>q.
           try_then (run_query (dc_pool dc) q (bq_params q)) (\<lambda>n.
             if n = 0 then stop (media_not_found i) else give (json_reply 200 (JObj [(''rows_affected'', JInt (int n))])))))))"

section \<open>Upload\<close>

definition upload_row :: "('db, 's) handler_env \<Rightarrow> string \<Rightarrow> string \<Rightarrow> nat \<Rightarrow> string \<Rightarrow> string \<Rightarrow> json" where
  "upload_row env name mime n user_id file_path =
     JObj [(''created_at'', JStr (he_now env 0)), (''file_path'', JStr file_path), (''mime_type'', JStr mime), (''original_name'', JStr name),
       (''size'', JInt (int n)), (''updated_at'', JStr (he_now env 0)), (''uploader_id'', JStr user_id)]"

definition record_upload :: "'db database_context \<Rightarrow> json \<Rightarrow> ('db, 's, string option) action" where
  "record_upload dc row =
     try_then (from_result (build_insert (pl_driver (dc_pool dc)) (dc_table dc)
                 (mutation_context_default \<lparr> mc_writable_fields := column_names (dc_table dc) \<rparr>) row request_context_new)) (\<lambda>q.
       if contains_str (bq_sql q) ''RETURNING''
       then try_then (optional_row (dc_pool dc) q (bq_params q)) (\<lambda>r. give (case r of None \<Rightarrow> None | Some v \<Rightarrow> text_field ''id'' v))
       else try_then (run_query (dc_pool dc) q (bq_params q)) (\<lambda>_. give None))"

definition write_upload :: "'s storage \<Rightarrow> path \<Rightarrow> string \<Rightarrow> ('db, 's, unit) action" where
  "write_upload st p content =
     try_then (case path_parent p of
                 None \<Rightarrow> give ()
               | Some parent \<Rightarrow> on_store ''Failed to create directory'' (st_create_dir_all st parent)) (\<lambda>_.
     try_then (on_store ''Failed to write file'' (st_write st p content)) (\<lambda>_.
       on_store ''Failed to read file metadata'' (\<lambda>s. (case st_metadata st s p of Inl e \<Rightarrow> Inl e | Inr _ \<Rightarrow> Inr (), s))))"

definition upload_reply :: "('db, 's) handler_env \<Rightarrow> string \<Rightarrow> string \<Rightarrow> nat \<Rightarrow> string \<Rightarrow> string option \<Rightarrow> static_reply" where
  "upload_reply env name mime n file_path i =
     json_reply 201 (JObj [(''created'', JStr (he_now env 0)), (''id'', case i of None \<Rightarrow> JNull | Some x \<Rightarrow> JStr x),
       (''message'', JStr ''Media uploaded successfully''), (''name'', JStr name), (''path'', JStr (''/'' @ file_path)), (''size'', JInt (int n)),
       (''success'', JBool True), (''type'', JStr mime)])"

definition handle_media_upload :: "('db, 's) handler_env \<Rightarrow> handler_context \<Rightarrow> (string, form_field) result list \<Rightarrow> ('db, 's, static_reply) action" where
  "handle_media_upload env ctx form =
     (case ep_media (hc_endpoint ctx) of
        None \<Rightarrow> stop (NotFound ''Media config not found'')
      | Some config \<Rightarrow>
          (case media_upload config of
             None \<Rightarrow> stop (MethodNotAllowed ''Media upload is not enabled'' (ep_methods (hc_endpoint ctx)))
           | Some up \<Rightarrow>
               if mup_max_size up = 0 then stop (MethodNotAllowed ''Media upload is not enabled'' (ep_methods (hc_endpoint ctx)))
               else
                 try_then (from_result (resolve_store (he_stores env) (media_storage config))) (\<lambda>(st, root).
                 try_then (from_result (extract_user_id env ctx)) (\<lambda>user_id.
                 try_then (from_result (parse_multipart_file form (mup_max_size up) False)) (\<lambda>(content, original).
                 if mup_max_size up < length content
                 then stop (PayloadTooLarge (''File size '' @ show_nat (length content) @ '' exceeds maximum allowed size '' @ show_nat (mup_max_size up)))
                 else
                   try_then (from_result (sanitize_filename [] original False)) (\<lambda>sanitized.
                     (let name = he_uuid env @ ''-'' @ sanitized in
                      try_then (from_result (build_storage_path (he_values env) root name user_id (mup_create_subdirectory up))) (\<lambda>p.
                      try_then (write_upload st p content) (\<lambda>_.
                      try_then (from_result (database_context_of env (media_database config) (media_table config))) (\<lambda>dc.
                        (let file_path = (case path_strip_prefix root p of None \<Rightarrow> name | Some r \<Rightarrow> path_text r) in
                         try_then (record_upload dc (upload_row env name (mime_from_path p) (length content) user_id file_path)) (\<lambda>i.
                           give (upload_reply env name (mime_from_path p) (length content) file_path i)))))))))))))"

section \<open>Deleting\<close>

definition attached_error :: "media_refs_config \<Rightarrow> string \<Rightarrow> json list \<Rightarrow> app_error" where
  "attached_error refs i rows =
     Conflict (''Media item '' @ quoted i @ '' is attached to '' @ show_nat (length rows)
         @ '' content entity(ies). Use on_delete: detach or delete the references first.'')
       (map (\<lambda>row. unwrap_or (text_field (mrf_content_type_column refs) row) ''?'' @ '':'' @ unwrap_or (text_field (mrf_entity_id_column refs) row) ''?'') rows)"

definition delete_media_permanently :: "media_config \<Rightarrow> 'db database_context \<Rightarrow> 's storage \<Rightarrow> path \<Rightarrow> string \<Rightarrow> ('db, 's, static_reply) action" where
  "delete_media_permanently config dc st root i =
     try_then (file_path_of (media_table config) dc i) (\<lambda>file_path.
     try_then (case file_path of None \<Rightarrow> give () | Some f \<Rightarrow> delete_if_present st (path_join root (components f))) (\<lambda>_.
     try_then (delete_entry dc i) (\<lambda>n.
       if n = 0 then stop (media_not_found i) else give (json_reply 200 (JObj [(''rows_affected'', JInt (int n))])))))"

definition stored_file_path :: "media_config \<Rightarrow> 'db database_context \<Rightarrow> built_query \<Rightarrow> string \<Rightarrow> ('db, 's, string) action" where
  "stored_file_path config dc q i =
     try_then (optional_row (dc_pool dc) q [JStr i]) (\<lambda>row. from_result (extract_file_path row i))"

text \<open>The place of a file in the trash of the user who asks.\<close>

definition media_trash_path :: "path \<Rightarrow> media_trash_config \<Rightarrow> string \<Rightarrow> string \<Rightarrow> path" where
  "media_trash_path root tc user f = path_join (path_join (path_join root (components (mtr_prefix tc))) (components user)) (components f)"

definition handle_media_trash_delete :: "('db, 's) handler_env \<Rightarrow> handler_context \<Rightarrow> media_config \<Rightarrow> 'db database_context \<Rightarrow> 's storage
    \<Rightarrow> path \<Rightarrow> string \<Rightarrow> ('db, 's, static_reply) action" where
  "handle_media_trash_delete env ctx config dc st root i =
     (case media_trash config of
        None \<Rightarrow> stop (Internal ''Trash not enabled but delete was called'')
      | Some tc \<Rightarrow>
          try_then (from_result (extract_auth_info env ctx)) (\<lambda>info.
          try_then (stored_file_path config dc (build_select_file_path (media_table config) (pl_driver (dc_pool dc))) i) (\<lambda>f.
            (let dest = media_trash_path root tc (ai_subject info) f; source = path_join root (components f) in
             try_then (case path_parent dest of
                         None \<Rightarrow> give ()
                       | Some parent \<Rightarrow> on_store ''Failed to create trash directory'' (st_create_dir_all st parent)) (\<lambda>_.
             try_then (look (\<lambda>s. st_exists st s source)) (\<lambda>found.
             try_then (when_true found (on_store ''Failed to move file to trash'' (st_rename st source dest))) (\<lambda>_.
             try_then (built (build_set_trashed (media_table config) (pl_driver (dc_pool dc)))) (\<lambda>q.
             try_then (run_query (dc_pool dc) q [JStr i]) (\<lambda>n.
               if n = 0 then stop (media_not_found i)
               else give (json_reply 200 (JObj [(''message'', JStr ''Media moved to trash''), (''rows_affected'', JInt (int n)),
                      (''success'', JBool True)])))))))))))"

definition handle_media_delete :: "('db, 's) handler_env \<Rightarrow> handler_context \<Rightarrow> media_config \<Rightarrow> 'db database_context \<Rightarrow> 's storage \<Rightarrow> path
    \<Rightarrow> string \<Rightarrow> ('db, 's, static_reply) action" where
  "handle_media_delete env ctx config dc st root i =
     try_then (case media_content_references config of
                 None \<Rightarrow> give ()
               | Some refs \<Rightarrow>
                   if mrf_on_delete refs = OnDeleteError then
                     try_then (all_rows (dc_pool dc) (build_file_ref_select_by_file_id (mrf_table refs) (mrf_media_id_column refs)
                          (mrf_entity_id_column refs) (mrf_content_type_column refs) (pl_driver (dc_pool dc))) [JStr i]) (\<lambda>rows.
                       if rows \<noteq> [] then stop (attached_error refs i rows) else give ())
                   else give ()) (\<lambda>_.
       if (case media_trash config of None \<Rightarrow> False | Some t \<Rightarrow> mtr_enabled t) then handle_media_trash_delete env ctx config dc st root i
       else delete_media_permanently config dc st root i)"

section \<open>Trash\<close>

definition media_trash_list :: "'db database_context \<Rightarrow> ('db, 's, static_reply) action" where
  "media_trash_list dc =
     try_then (all_rows (dc_pool dc) (build_select_trashed (tbl_name (dc_table dc)) (pl_driver (dc_pool dc))) []) (\<lambda>rows.
       give (json_reply 200 (JArr rows)))"

definition media_trash_restore :: "('db, 's) handler_env \<Rightarrow> handler_context \<Rightarrow> media_config \<Rightarrow> media_trash_config \<Rightarrow> 'db database_context
    \<Rightarrow> 's storage \<Rightarrow> path \<Rightarrow> string \<Rightarrow> ('db, 's, static_reply) action" where
  "media_trash_restore env ctx config tc dc st root i =
     try_then (stored_file_path config dc (build_select_trashed_item (media_table config) (pl_driver (dc_pool dc))) i) (\<lambda>f.
     try_then (from_result (extract_auth_info env ctx)) (\<lambda>info.
     try_then (restore_file st (media_trash_path root tc (ai_subject info) f) (path_join root (components f))) (\<lambda>_.
     try_then (built (build_set_restored (media_table config) (pl_driver (dc_pool dc)))) (\<lambda>q.
     try_then (run_query (dc_pool dc) q [JStr i]) (\<lambda>_.
       give (json_reply 200 (JObj [(''message'', JStr ''Media item restored from trash''), (''success'', JBool True)])))))))"

text \<open>Only records with a text identifier are removed; the files stay.\<close>

fun empty_media_rows :: "'db database_context \<Rightarrow> json list \<Rightarrow> nat \<Rightarrow> ('db, 's, nat) action" where
  "empty_media_rows dc [] n = give n"
| "empty_media_rows dc (row # rows) n =
     (case text_field ''id'' row of
        None \<Rightarrow> empty_media_rows dc rows n
      | Some i \<Rightarrow>
          try_then (from_result (build_delete i (pl_driver (dc_pool dc)) (dc_table dc) request_context_new None)) (\<lambda>q.
          try_then (ignoring (run_query (dc_pool dc) q (bq_params q))) (\<lambda>_. empty_media_rows dc rows (n + 1))))"

definition media_trash_empty :: "media_config \<Rightarrow> 'db database_context \<Rightarrow> ('db, 's, static_reply) action" where
  "media_trash_empty config dc =
     try_then (all_rows (dc_pool dc) (build_select_trashed_ids (media_table config) (pl_driver (dc_pool dc))) []) (\<lambda>rows.
     try_then (empty_media_rows dc rows 0) (\<lambda>n.
       give (json_reply 200 (JObj [(''deleted_count'', JInt (int n)),
         (''message'', JStr (''Emptied trash, deleted '' @ show_nat n @ '' items'')), (''success'', JBool True)]))))"

definition media_trash_permanent_delete :: "('db, 's) handler_env \<Rightarrow> handler_context \<Rightarrow> media_config \<Rightarrow> media_trash_config
    \<Rightarrow> 'db database_context \<Rightarrow> 's storage \<Rightarrow> path \<Rightarrow> string \<Rightarrow> ('db, 's, static_reply) action" where
  "media_trash_permanent_delete env ctx config tc dc st root i =
     try_then (stored_file_path config dc (build_select_trashed_item (media_table config) (pl_driver (dc_pool dc))) i) (\<lambda>f.
     try_then (if f = [] then give ()
               else try_then (from_result (extract_auth_info env ctx)) (\<lambda>info.
                 (let p = media_trash_path root tc (ai_subject info) f in
                  try_then (look (\<lambda>s. st_exists st s p)) (\<lambda>found. when_true found (ignoring (on_store [] (st_delete st p))))))) (\<lambda>_.
     try_then (delete_entry dc i) (\<lambda>n.
       if n = 0 then stop (NotFound ''Trashed media item not found'')
       else give (json_reply 200 (JObj [(''message'', JStr ''Media item permanently deleted from trash''),
              (''rows_affected'', JInt (int n)), (''success'', JBool True)])))))"

definition media_trash_prefix :: string where
  "media_trash_prefix = ''/_main-serve/media/trash''"

definition handle_media_trash :: "('db, 's) handler_env \<Rightarrow> handler_context \<Rightarrow> string \<Rightarrow> string \<Rightarrow> media_config \<Rightarrow> 's storage \<Rightarrow> path
    \<Rightarrow> 'db database_context \<Rightarrow> ('db, 's, static_reply) action" where
  "handle_media_trash env ctx meth p config st root dc =
     (case media_trash config of
        None \<Rightarrow> stop (MethodNotAllowed ''Trash is not enabled'' (ep_methods (hc_endpoint ctx)))
      | Some tc \<Rightarrow>
          if \<not> mtr_enabled tc then stop (MethodNotAllowed ''Trash is not enabled'' (ep_methods (hc_endpoint ctx)))
          else if meth = ''GET'' then media_trash_list dc
          else if meth = ''DELETE'' \<and> (p = media_trash_prefix \<or> p = media_trash_prefix @ ''/'') then media_trash_empty config dc
          else if meth = ''POST'' then
            (case strip_prefix (media_trash_prefix @ ''/'') p of
               None \<Rightarrow> stop (BadRequest ''Invalid trash restore path'')
             | Some r \<Rightarrow>
                 (case strip_suffix ''/restore'' r of
                    None \<Rightarrow> stop (BadRequest ''Invalid trash restore path'')
                  | Some i \<Rightarrow> media_trash_restore env ctx config tc dc st root i))
          else if meth = ''DELETE'' then
            (case strip_prefix (media_trash_prefix @ ''/'') p of
               None \<Rightarrow> stop (BadRequest ''Invalid trash delete path'')
             | Some i \<Rightarrow> media_trash_permanent_delete env ctx config tc dc st root i)
          else stop (MethodNotAllowed ''Method not allowed for trash endpoint'' (ep_methods (hc_endpoint ctx))))"

section \<open>Moving and renaming\<close>

definition set_file_path :: "media_config \<Rightarrow> 'db pool \<Rightarrow> path \<Rightarrow> path \<Rightarrow> string \<Rightarrow> string \<Rightarrow> ('db, 's, static_reply) action" where
  "set_file_path config p root new_path i message =
     (let new_relative = ''/'' @ (case path_strip_prefix root new_path of None \<Rightarrow> path_text new_path | Some r \<Rightarrow> path_text r);
          trimmed = trim_start_char (CHR ''/'') new_relative
      in try_then (built (build_set_file_path (media_table config) trimmed (pl_driver p))) (\<lambda>q.
         try_then (run_query p q [JStr trimmed, JStr i]) (\<lambda>_.
           give (json_reply 200 (JObj [(''message'', JStr message), (''new_path'', JStr new_relative), (''success'', JBool True)])))))"

definition current_file_path :: "media_config \<Rightarrow> 'db pool \<Rightarrow> string \<Rightarrow> ('db, 's, string) action" where
  "current_file_path config p i =
     try_then (optional_row p (build_select_file_path (media_table config) (pl_driver p)) [JStr i]) (\<lambda>row. from_result (extract_file_path row i))"

definition handle_media_move :: "string \<Rightarrow> endpoint_config \<Rightarrow> media_config \<Rightarrow> 'db pool \<Rightarrow> 's storage \<Rightarrow> path \<Rightarrow> json
    \<Rightarrow> ('db, 's, static_reply) action" where
  "handle_media_move i endpoint config p st root body =
     (case media_move config of
        None \<Rightarrow> stop (MethodNotAllowed ''Media move is not configured'' (ep_methods endpoint))
      | Some mc \<Rightarrow>
          if \<not> mmv_enabled mc then stop (MethodNotAllowed ''Media move is disabled'' (ep_methods endpoint))
          else
            try_then (from_result (ok_or (text_field ''destination_path'' body) (BadRequest ''destination_path is required''))) (\<lambda>destination.
            try_then (current_file_path config p i) (\<lambda>current.
              (let new_path = path_join root (components (if starts_with destination ''/'' then trim_start_char (CHR ''/'') destination else destination)) in
               try_then (from_result (validate_path_within new_path root)) (\<lambda>_.
               try_then (case (if mmv_auto_create_destination mc then path_parent new_path else None) of
                           None \<Rightarrow> give ()
                         | Some parent \<Rightarrow> on_store ''Failed to create directory'' (st_create_dir_all st parent)) (\<lambda>_.
               try_then (on_store ''Failed to move file'' (st_rename st (path_join root (components current)) new_path)) (\<lambda>_.
                 set_file_path config p root new_path i ''Media file moved successfully'')))))))"

definition handle_media_rename :: "string \<Rightarrow> endpoint_config \<Rightarrow> media_config \<Rightarrow> 'db pool \<Rightarrow> 's storage \<Rightarrow> path \<Rightarrow> json
    \<Rightarrow> ('db, 's, static_reply) action" where
  "handle_media_rename i endpoint config p st root body =
     (case media_rename config of
        None \<Rightarrow> stop (MethodNotAllowed ''Media rename is not configured'' (ep_methods endpoint))
      | Some rc \<Rightarrow>
          if \<not> mrn_enabled rc then stop (MethodNotAllowed ''Media rename is disabled'' (ep_methods endpoint))
          else
            try_then (from_result (ok_or (text_field ''name'' body) (BadRequest ''name is required''))) (\<lambda>new_name.
            try_then (current_file_path config p i) (\<lambda>current.
              (let current_path = path_join root (components current) in
               case path_parent current_path of
                 None \<Rightarrow> stop (BadRequest ''Cannot determine parent directory'')
               | Some parent \<Rightarrow>
                   (let new_path = path_join parent (components new_name) in
                    try_then (from_result (validate_path_within new_path root)) (\<lambda>_.
                    try_then (on_store ''Failed to rename file'' (st_rename st current_path new_path)) (\<lambda>_.
                      set_file_path config p root new_path i ''Media file renamed successfully'')))))))"

section \<open>References from contents\<close>

definition media_refs_enabled :: "endpoint_config \<Rightarrow> media_config \<Rightarrow> (app_error, media_refs_config) result" where
  "media_refs_enabled endpoint config =
     (case media_content_references config of
        None \<Rightarrow> Inl (MethodNotAllowed ''Content references not enabled'' (ep_methods endpoint))
      | Some refs \<Rightarrow>
          if mrf_enabled refs then Inr refs
          else Inl (MethodNotAllowed ''Content references are disabled'' (ep_methods endpoint)))"

definition required_text :: "string \<Rightarrow> json \<Rightarrow> (app_error, string) result" where
  "required_text k body = ok_or (text_field k body) (BadRequest (k @ '' is required''))"

text \<open>The list is printed as Rust's \<open>Debug\<close> does.\<close>

definition content_type_allowed :: "media_refs_config \<Rightarrow> string \<Rightarrow> (app_error, unit) result" where
  "content_type_allowed refs content_type =
     (case mrf_allowed_content_types refs of
        None \<Rightarrow> Inr ()
      | Some allowed \<Rightarrow>
          if allowed \<noteq> [] \<and> content_type \<notin> set allowed
          then Inl (BadRequest (''content_type '' @ quoted content_type @ '' is not allowed. Allowed: [''
                 @ join '', '' (map debug_text allowed) @ '']''))
          else Inr ())"

definition handle_media_attach :: "string \<Rightarrow> endpoint_config \<Rightarrow> media_config \<Rightarrow> 'db pool \<Rightarrow> json \<Rightarrow> ('db, 's, static_reply) action" where
  "handle_media_attach i endpoint config p body =
     try_then (from_result (media_refs_enabled endpoint config)) (\<lambda>refs.
     try_then (from_result (required_text ''entity_id'' body)) (\<lambda>entity_id.
     try_then (from_result (required_text ''content_type'' body)) (\<lambda>content_type.
     try_then (from_result (content_type_allowed refs content_type)) (\<lambda>_.
     try_then (optional_row p (build_file_ref_max_order (mrf_table refs) (mrf_order_column refs) (pl_driver p)) []) (\<lambda>max_row.
     try_then (run_query p (build_file_ref_insert (mrf_table refs)
                  [mrf_media_id_column refs, mrf_entity_id_column refs, mrf_content_type_column refs, mrf_order_column refs] (pl_driver p))
                 [JStr i, JStr entity_id, JStr content_type, JInt (next_order max_row)]) (\<lambda>_.
     try_then (optional_row p (build_file_ref_select (mrf_table refs) (mrf_media_id_column refs) (mrf_entity_id_column refs)
                  (mrf_content_type_column refs) (pl_driver p)) [JStr i, JStr entity_id, JStr content_type]) (\<lambda>row.
       give (json_reply 201 (JObj [(''data'', row_json row)])))))))))"

definition handle_media_detach :: "string \<Rightarrow> endpoint_config \<Rightarrow> media_config \<Rightarrow> 'db pool \<Rightarrow> json \<Rightarrow> ('db, 's, static_reply) action" where
  "handle_media_detach i endpoint config p body =
     try_then (from_result (media_refs_enabled endpoint config)) (\<lambda>refs.
     try_then (from_result (required_text ''entity_id'' body)) (\<lambda>entity_id.
     try_then (from_result (required_text ''content_type'' body)) (\<lambda>content_type.
     try_then (run_query p (build_file_ref_delete (mrf_table refs) (mrf_media_id_column refs) (mrf_entity_id_column refs)
                  (mrf_content_type_column refs) (pl_driver p)) [JStr i, JStr entity_id, JStr content_type]) (\<lambda>n.
       if n = 0
       then stop (NotFound (''No content reference found for media id '' @ quoted i @ '', entity '' @ quoted entity_id @ '', type '' @ quoted content_type))
       else give (json_reply 200 (JObj [(''message'', JStr (''Detached media '' @ quoted i @ '' from entity '' @ quoted (entity_id @ '':'' @ content_type))),
              (''rows_affected'', JInt (int n)), (''success'', JBool True)]))))))"

section \<open>Shared files and resized images\<close>

definition handle_media_share_get :: "(string \<Rightarrow> bool) \<Rightarrow> string \<Rightarrow> endpoint_config \<Rightarrow> media_config \<Rightarrow> 's storage \<Rightarrow> path
    \<Rightarrow> ('db, 's, static_reply) action" where
  "handle_media_share_get header_ok token endpoint config st root =
     (case media_sharing config of
        None \<Rightarrow> stop (MethodNotAllowed ''Sharing is not enabled'' (ep_methods endpoint))
      | Some sharing \<Rightarrow>
          (let p = path_join (path_join root (components (msh_prefix sharing))) (components token) in
           try_then (look (\<lambda>s. (st_metadata st s p, st_read st s p))) (\<lambda>(meta, contents).
             case (meta, contents) of
               (Inl _, _) \<Rightarrow> stop (NotFound ''Shared file not found or share link expired'')
             | (Inr _, Inl _) \<Rightarrow> stop (NotFound ''Shared file not found'')
             | (Inr m, Inr c) \<Rightarrow>
                 give (FileReply (apply_content_length header_ok (show_nat (fm_size m))
                   (apply_content_type header_ok (mime_from_path p) (ok_bytes 200 c)))))))"

definition resize_stored :: "image_lib \<Rightarrow> (string \<Rightarrow> bool) \<Rightarrow> media_image_resize_config \<Rightarrow> (string, string) entries \<Rightarrow> string
    \<Rightarrow> (app_error, static_reply) result" where
  "resize_stored im header_ok cfg query bytes =
     (case im_resize im bytes (parse_resize_params im query) (unwrap_or (im_guess_format im bytes) ''png'') (min (mir_max_dimension cfg) 4294967295) of
        Inl e \<Rightarrow> Inl e
      | Inr (resized, content_type) \<Rightarrow> Inr (FileReply (build_resize_response header_ok resized content_type (Some 86400))))"

definition handle_media_resize :: "image_lib \<Rightarrow> (string \<Rightarrow> bool) \<Rightarrow> 's storage \<Rightarrow> path \<Rightarrow> string \<Rightarrow> endpoint_config \<Rightarrow> media_config
    \<Rightarrow> (string, string) entries \<Rightarrow> 'db pool \<Rightarrow> ('db, 's, static_reply) action" where
  "handle_media_resize im header_ok st root i endpoint config query p =
     (case media_image_resize config of
        None \<Rightarrow> stop (MethodNotAllowed ''Image resize is not enabled'' (ep_methods endpoint))
      | Some cfg \<Rightarrow>
          if \<not> mir_enabled cfg then stop (MethodNotAllowed ''Image resize is not enabled'' (ep_methods endpoint))
          else
            try_then (current_file_path config p i) (\<lambda>f.
            try_then (look (\<lambda>s. st_read st s (path_join root (components f)))) (\<lambda>found.
              case found of
                Inl _ \<Rightarrow> stop (NotFound (''Media file not found: '' @ f))
              | Inr bytes \<Rightarrow> from_result (resize_stored im header_ok cfg query bytes))))"

definition handle_media_thumbnail :: "image_lib \<Rightarrow> (string \<Rightarrow> bool) \<Rightarrow> 's storage \<Rightarrow> path \<Rightarrow> string \<Rightarrow> endpoint_config \<Rightarrow> media_config
    \<Rightarrow> 'db pool \<Rightarrow> ('db, 's, static_reply) action" where
  "handle_media_thumbnail im header_ok st root i endpoint config p =
     (case media_image_resize config of
        None \<Rightarrow> stop (MethodNotAllowed ''Image resize is not enabled'' (ep_methods endpoint))
      | Some cfg \<Rightarrow>
          (let n = (case find (\<lambda>s. mst_name s = ''thumbnail'') (mir_styles cfg) of
                      None \<Rightarrow> 150 | Some s \<Rightarrow> min (mst_max_width s) (mst_max_height s))
           in handle_media_resize im header_ok st root i endpoint config [(''w'', show_nat n), (''h'', show_nat n)] p))"

section \<open>Dispatch\<close>

text \<open>The special routes in the order they are tried; the identifier is the last segment of the path.\<close>

datatype media_route =
    TrashRoute
  | SharedRoute string
  | ResizeRoute string
  | ThumbnailRoute string
  | AttachRoute string
  | DetachRoute string
  | MoveRoute string
  | RenameRoute string
  | PlainRoute

fun named_route :: "(string \<times> (string \<Rightarrow> media_route)) list \<Rightarrow> string \<Rightarrow> media_route" where
  "named_route [] p = PlainRoute"
| "named_route ((name, route) # routes) p =
     (if contains_str p name then (case extract_id p of Some i \<Rightarrow> route i | None \<Rightarrow> named_route routes p) else named_route routes p)"

definition media_route_of :: "string \<Rightarrow> media_route" where
  "media_route_of p =
     (if starts_with p media_trash_prefix then TrashRoute
      else if starts_with p ''/shared/'' then SharedRoute (unwrap_or (strip_prefix ''/shared/'' p) [])
      else named_route [(''/resize'', ResizeRoute), (''/thumbnail'', ThumbnailRoute), (''/attach'', AttachRoute), (''/detach'', DetachRoute),
             (''/move'', MoveRoute), (''/rename'', RenameRoute)] p)"

definition is_list_request :: "endpoint_config \<Rightarrow> string \<Rightarrow> bool" where
  "is_list_request endpoint p =
     (let base_path = unwrap_or (strip_suffix ''/*'' (unwrap_or (strip_suffix ''/{id}'' (ep_path endpoint)) (ep_path endpoint))) (ep_path endpoint);
          normalized = trim_end_char (CHR ''/'') p;
          base = trim_end_char (CHR ''/'') base_path
      in normalized = [] \<or> normalized = ''/'' \<or> normalized = base \<or> p = base @ ''/'')"

definition handle_plain_media :: "('db, 's) handler_env \<Rightarrow> handler_context \<Rightarrow> media_config \<Rightarrow> 's storage \<Rightarrow> path \<Rightarrow> 'db database_context
    \<Rightarrow> string \<Rightarrow> string \<Rightarrow> json \<Rightarrow> ('db, 's, static_reply) action" where
  "handle_plain_media env ctx config st root dc meth p body =
     (let with_id = (\<lambda>f. case extract_id p of Some i \<Rightarrow> f i | None \<Rightarrow> stop (BadRequest ''Media ID required'')) in
      if meth = ''GET'' then
        (if is_list_request (hc_endpoint ctx) p then handle_media_list env config dc (hc_query ctx) else with_id (handle_media_get dc))
      else if meth = ''POST'' then
        (if p = [] \<or> p = ''/'' then handle_media_create env ctx dc body
         else stop (MethodNotAllowed ''POST not allowed on this path'' (ep_methods (hc_endpoint ctx))))
      else if meth = ''PATCH'' then with_id (\<lambda>i. handle_media_update env ctx config dc i body)
      else if meth = ''DELETE'' then with_id (handle_media_delete env ctx config dc st root)
      else stop (MethodNotAllowed ''Method not allowed for media endpoint'' (ep_methods (hc_endpoint ctx))))"

definition handle_media :: "image_lib \<Rightarrow> (string \<Rightarrow> bool) \<Rightarrow> ('db, 's) handler_env \<Rightarrow> handler_context \<Rightarrow> string \<Rightarrow> string \<Rightarrow> json
    \<Rightarrow> ('db, 's, static_reply) action" where
  "handle_media im header_ok env ctx meth p body =
     (let endpoint = hc_endpoint ctx in
      case ep_media endpoint of
        None \<Rightarrow> stop (NotFound ''Media config not found'')
      | Some config \<Rightarrow>
          try_then (from_result (resolve_store (he_stores env) (media_storage config))) (\<lambda>(st, root).
          try_then (from_result (database_context_of env (media_database config) (media_table config))) (\<lambda>dc.
            case media_route_of p of
              TrashRoute \<Rightarrow> handle_media_trash env ctx meth p config st root dc
            | SharedRoute token \<Rightarrow> handle_media_share_get header_ok token endpoint config st root
            | ResizeRoute i \<Rightarrow> handle_media_resize im header_ok st root i endpoint config (hc_query ctx) (dc_pool dc)
            | ThumbnailRoute i \<Rightarrow> handle_media_thumbnail im header_ok st root i endpoint config (dc_pool dc)
            | AttachRoute i \<Rightarrow> handle_media_attach i endpoint config (dc_pool dc) body
            | DetachRoute i \<Rightarrow> handle_media_detach i endpoint config (dc_pool dc) body
            | MoveRoute i \<Rightarrow> handle_media_move i endpoint config (dc_pool dc) st root body
            | RenameRoute i \<Rightarrow> handle_media_rename i endpoint config (dc_pool dc) st root body
            | PlainRoute \<Rightarrow> handle_plain_media env ctx config st root dc meth p body)))"

definition handle_media_route :: "image_lib \<Rightarrow> (string \<Rightarrow> bool) \<Rightarrow> ('db, 's) handler_env \<Rightarrow> endpoint_table \<Rightarrow> (string \<Rightarrow> json option)
    \<Rightarrow> string \<Rightarrow> string \<Rightarrow> string \<Rightarrow> header_map \<Rightarrow> (string, string) entries \<Rightarrow> string \<Rightarrow> ('db, 's, static_reply) action" where
  "handle_media_route im header_ok env endpoints parse matched_path meth p headers query body =
     (case get_endpoint_config_for_method endpoints matched_path meth of
        None \<Rightarrow> stop (NotFound ''Endpoint not found'')
      | Some e \<Rightarrow>
          handle_media im header_ok env \<lparr> hc_endpoint = e, hc_headers = headers, hc_query = query \<rparr> meth p (body_or_empty parse body))"

definition handle_media_upload_route :: "('db, 's) handler_env \<Rightarrow> endpoint_table \<Rightarrow> string \<Rightarrow> string \<Rightarrow> header_map \<Rightarrow> (string, string) entries
    \<Rightarrow> (string, form_field) result list \<Rightarrow> ('db, 's, static_reply) action" where
  "handle_media_upload_route env endpoints matched_path meth headers query form =
     (case get_endpoint_config_for_method endpoints matched_path meth of
        None \<Rightarrow> stop (NotFound ''Endpoint not found'')
      | Some e \<Rightarrow>
          if meth \<notin> {''POST'', ''PUT'', ''PATCH''} then stop (MethodNotAllowed ''Method not allowed for media upload'' (ep_methods e))
          else
            (case ep_media e of
               None \<Rightarrow> stop (NotFound ''Media config not found'')
             | Some config \<Rightarrow>
                 if (case media_upload config of None \<Rightarrow> False | Some u \<Rightarrow> mup_max_size u = 0)
                 then stop (MethodNotAllowed ''Media upload is not enabled'' (ep_methods e))
                 else handle_media_upload env \<lparr> hc_endpoint = e, hc_headers = headers, hc_query = query \<rparr> form))"

end
