(* ===== verification/Files_Props.thy ===== *)
theory Files_Props
  imports File_Store Media
begin

text \<open>
  Properties of the file store and the media library: entries of another user, what a move does to the files, the
  way into the trash and back, and the places where stored or requested paths are not confined.
\<close>

section \<open>Entries of another user\<close>

definition access_denied :: app_error where
  "access_denied = Forbidden ''Access denied: file entry owned by another user''"

lemma foreign_owner_denied:
  fixes db :: 'db and s :: 's and env :: "('db, 's) handler_env"
  assumes "extract_auth_info env ctx = Inr info" "db_pool (he_pools env) (fs_database config) = Inr p"
    and "build_select_by_id (fs_table config) [owner_column config] d = Inr q"
    and "fetch_optional_json p (bq_sql q) [JStr i] db = (Inr (Some row), db1)"
    and "text_field (owner_column config) row = Some owner" "owner \<noteq> ai_subject info"
  shows "check_file_store_ownership env ctx config i d (db, s) = (Inl access_denied, (db1, s))"
  using assms
  by (simp add: check_file_store_ownership_def extract_user_id_def built_def optional_row_def access_denied_def
      try_then_def from_result_def on_db_def stop_def)

text \<open>C20: With ownership configured, an entry whose owner column holds another user's identifier is neither
  changed nor deleted by a user who is not an admin, and it is not shown if admins may override: the request fails after
  the owner has been read, before any other statement and before any file is touched.\<close>

theorem foreign_entry_protected:
  fixes db :: 'db and s :: 's and env :: "('db, 's) handler_env"
  assumes "fs_ownership config = Some ownership" "extract_auth_info env ctx = Inr info"
    and "\<not> is_admin (ep_roles (hc_endpoint ctx)) (ai_role info)"
    and "db_pool (he_pools env) (fs_database config) = Inr p"
    and "build_select_by_id (fs_table config) [owner_column config] (pl_driver (dc_pool dc)) = Inr q"
    and "fetch_optional_json p (bq_sql q) [JStr i] db = (Inr (Some row), db1)"
    and "text_field (owner_column config) row = Some owner" "owner \<noteq> ai_subject info"
  shows "handle_file_store_update env ctx config dc i body (db, s) = (Inl access_denied, (db1, s))
    \<and> handle_file_store_delete env ctx config dc st i (db, s) = (Inl access_denied, (db1, s))
    \<and> (if fso_admin_override ownership then handle_file_store_get_one env ctx config dc i (db, s) = (Inl access_denied, (db1, s)) else True)"
proof -
  note d = foreign_owner_denied [OF assms(2,4-8), of s]
  have u: "handle_file_store_update env ctx config dc i body (db, s) = (Inl access_denied, (db1, s))"
    using assms(1-3) d by (simp add: handle_file_store_update_def try_then_def from_result_def when_true_def)
  have r: "handle_file_store_delete env ctx config dc st i (db, s) = (Inl access_denied, (db1, s))"
    using assms(1-3) d by (simp add: handle_file_store_delete_def owner_check_def try_then_def from_result_def when_true_def)
  have g: "fso_admin_override ownership \<Longrightarrow> handle_file_store_get_one env ctx config dc i (db, s) = (Inl access_denied, (db1, s))"
    using assms(1-3) d by (simp add: handle_file_store_get_one_def try_then_def from_result_def when_true_def)
  show ?thesis using u r g by simp
qed

text \<open>An owner that is not a text is nobody's: every user passes.\<close>

lemma numeric_owner_unprotected:
  fixes db :: 'db and s :: 's and env :: "('db, 's) handler_env"
  assumes "extract_auth_info env ctx = Inr info" "db_pool (he_pools env) (fs_database config) = Inr p"
    and "build_select_by_id (fs_table config) [owner_column config] d = Inr q"
    and "fetch_optional_json p (bq_sql q) [JStr i] db = (Inr (Some (JObj [(owner_column config, JInt n)])), db1)"
  shows "check_file_store_ownership env ctx config i d (db, s) = (Inr (), (db1, s))"
  using assms
  by (simp add: check_file_store_ownership_def extract_user_id_def built_def optional_row_def text_field_def json_get_def
      try_then_def from_result_def on_db_def give_def)

text \<open>Without the override of admins nobody's ownership is checked when one entry is read.\<close>

lemma reading_unchecked_without_override:
  assumes "fs_ownership config = Some ownership" "\<not> fso_admin_override ownership" "extract_auth_info env ctx = Inr info"
  shows "handle_file_store_get_one env ctx config dc i = handle_file_store_get_one env ctx (config \<lparr> fs_ownership := None \<rparr>) dc i"
  using assms by (simp add: handle_file_store_get_one_def fun_eq_iff try_then_def from_result_def when_true_def give_def)

text \<open>Deleting media does not look at the user scope.\<close>

lemma deleting_ignores_user_scope:
  "handle_media_delete env ctx (config \<lparr> media_user_scope := scope \<rparr>) dc st root i = handle_media_delete env ctx config dc st root i"
  by (simp add: handle_media_delete_def handle_media_trash_delete_def delete_media_permanently_def stored_file_path_def
      cong: option.case_cong if_cong)

section \<open>Paths that are not confined\<close>

text \<open>The client's value of the column \<open>file_path\<close> is stored, and a deletion removes the file of that name, which an absolute
  path puts anywhere.\<close>

lemma client_file_path_stored:
  assumes "as_object body = Some kvs" "map_of kvs ''file_path'' = Some (JStr f)" "''file_path'' \<in> set (column_names t)"
    and "owner_column config \<noteq> ''file_path''"
  shows "json_get ''file_path'' (entry_body env config t user_id body) = Some (JStr f)"
proof -
  have "map_of (filter_writable_body body (column_names t)) ''file_path'' = Some (JStr f)"
    using assms(1-3) by (induction kvs arbitrary: body) (auto simp: filter_writable_body_def map_of_filter_in split: if_splits)
  then show ?thesis
    using assms(4) by (simp add: entry_body_def Let_def json_get_def split: option.split)
qed

lemma absolute_path_anywhere: "path_join root (components (CHR ''/'' # x)) = components (CHR ''/'' # x)"
  by (simp add: components_def starts_with_def path_join_absolute)

lemma shared_token_anywhere:
  fixes db :: 'db and s :: 's
  assumes "media_sharing config = Some sharing" "st_metadata st s (components (CHR ''/'' # x)) = Inr m"
    "st_read st s (components (CHR ''/'' # x)) = Inr c"
  shows "\<exists>r. handle_media_share_get header_ok (CHR ''/'' # x) endpoint config st root (db, s) = (Inr (FileReply r), (db, s)) \<and> fr_body r = c"
  using assms
  by (simp add: handle_media_share_get_def absolute_path_anywhere Let_def try_then_def look_def give_def apply_content_length_def
      apply_content_type_def set_header_def)

section \<open>Moving and renaming\<close>

lemma optional_row_files: "optional_row p q params (db, s) = (r, (db', s')) \<Longrightarrow> s' = s"
  by (simp add: optional_row_def on_db_def split: prod.splits)

lemma run_query_files: "run_query p q params (db, s) = (r, (db', s')) \<Longrightarrow> s' = s"
  by (simp add: run_query_def on_db_def split: prod.splits)

lemma current_file_path_files: "current_file_path config p i (db, s) = (r, (db', s')) \<Longrightarrow> s' = s"
  by (auto simp: current_file_path_def try_then_def from_result_def split: prod.splits sum.splits dest!: optional_row_files)

lemma set_file_path_files: "set_file_path config p root new_path i message (db, s) = (r, (db', s')) \<Longrightarrow> s' = s"
  by (auto simp: set_file_path_def Let_def try_then_def built_def from_result_def give_def split: prod.splits sum.splits dest!: run_query_files)

lemma validate_path_within_Inr: "validate_path_within p root = Inr () \<longleftrightarrow> prefix root p \<and> ParentDir \<notin> set p"
  by (auto simp: validate_path_within_def prefix_def path_strip_prefix_Some [symmetric] simp del: path_strip_prefix_Some)

text \<open>Where a request asks a media file to go: a move names a path below the root, a renaming a name beside the stored path.\<close>

definition move_target :: "path \<Rightarrow> json \<Rightarrow> string \<Rightarrow> path \<Rightarrow> bool" where
  "move_target root body f dest \<longleftrightarrow>
     (\<exists>d. text_field ''destination_path'' body = Some d
        \<and> dest = path_join root (components (if starts_with d ''/'' then trim_start_char (CHR ''/'') d else d)))"

definition rename_target :: "path \<Rightarrow> json \<Rightarrow> string \<Rightarrow> path \<Rightarrow> bool" where
  "rename_target root body f dest \<longleftrightarrow>
     (\<exists>name parent. text_field ''name'' body = Some name \<and> path_parent (path_join root (components f)) = Some parent
        \<and> dest = path_join parent (components name))"

definition within :: "path \<Rightarrow> path \<Rightarrow> bool" where
  "within root dest \<longleftrightarrow> prefix root dest \<and> ParentDir \<notin> set dest"

text \<open>What a finished move or renaming has done: one rename of the stored path to the requested one, which lies within the
  root, after at most creating directories.\<close>

definition relocated :: "media_config \<Rightarrow> 'db pool \<Rightarrow> 's storage \<Rightarrow> path \<Rightarrow> (string \<Rightarrow> path \<Rightarrow> bool) \<Rightarrow> string \<Rightarrow> 'db \<Rightarrow> 's \<Rightarrow> 's \<Rightarrow> bool" where
  "relocated config p st root target i db s s' \<longleftrightarrow>
     (\<exists>f dest db1 s1. current_file_path config p i (db, s) = (Inr f, (db1, s)) \<and> target f dest \<and> within root dest
        \<and> (s1 = s \<or> (\<exists>parent. st_create_dir_all st parent s = (Inr (), s1)))
        \<and> st_rename st (path_join root (components f)) dest s1 = (Inr (), s'))"

lemma move_relocates:
  fixes db :: 'db and s :: 's
  assumes "handle_media_move i endpoint config p st root body (db, s) = (Inr r, (db', s'))"
  shows "relocated config p st root (move_target root body) i db s s'"
proof -
  from assms obtain mc destination where mc: "media_move config = Some mc" "mmv_enabled mc" "text_field ''destination_path'' body = Some destination"
    by (auto simp: handle_media_move_def stop_def try_then_def from_result_def ok_or_def split: option.splits if_splits)
  let ?new = "path_join root (components (if starts_with destination ''/'' then trim_start_char (CHR ''/'') destination else destination))"
  let ?mk = "case (if mmv_auto_create_destination mc then path_parent ?new else None) of
      None \<Rightarrow> give () | Some parent \<Rightarrow> on_store ''Failed to create directory'' (st_create_dir_all st parent)"
  from assms mc obtain f w1 w2 w3 where
    f: "current_file_path config p i (db, s) = (Inr f, w1)" and v: "validate_path_within ?new root = Inr ()"
    and m: "?mk w1 = (Inr (), w2)" and n: "on_store ''Failed to move file'' (st_rename st (path_join root (components f)) ?new) w2 = (Inr (), w3)"
    and g: "set_file_path config p root ?new i ''Media file moved successfully'' w3 = (Inr r, (db', s'))"
    by (auto simp: handle_media_move_def Let_def ok_or_def action_simps elim!: try_then_InrE dest!: from_result_InrE)
  obtain db1 where w1: "w1 = (db1, s)" using current_file_path_files f by (metis prod.exhaust)
  obtain db2 s1 where w2: "w2 = (db2, s1)" by (metis prod.exhaust)
  have c: "s1 = s \<or> (\<exists>parent. st_create_dir_all st parent s = (Inr (), s1))"
    using m w1 w2 by (auto simp: give_def split: option.splits if_splits elim!: on_store_InrE)
  obtain s2 where w3: "w3 = (db2, s2)" "st_rename st (path_join root (components f)) ?new s1 = (Inr (), s2)"
    using n w2 by (auto elim!: on_store_InrE)
  have "s' = s2" using set_file_path_files [OF g [unfolded w3(1)]] .
  with f v c w1 w3 show ?thesis
    unfolding relocated_def move_target_def mc(3) by (auto simp: validate_path_within_Inr within_def)
qed

lemma rename_relocates:
  fixes db :: 'db and s :: 's
  assumes "handle_media_rename i endpoint config p st root body (db, s) = (Inr r, (db', s'))"
  shows "relocated config p st root (rename_target root body) i db s s'"
proof -
  from assms obtain rc new_name where rc: "media_rename config = Some rc" "mrn_enabled rc" "text_field ''name'' body = Some new_name"
    by (auto simp: handle_media_rename_def stop_def try_then_def from_result_def ok_or_def split: option.splits if_splits)
  from assms rc obtain f w1 parent w2 where
    f: "current_file_path config p i (db, s) = (Inr f, w1)" and par: "path_parent (path_join root (components f)) = Some parent"
    and v: "validate_path_within (path_join parent (components new_name)) root = Inr ()"
    and n: "on_store ''Failed to rename file'' (st_rename st (path_join root (components f)) (path_join parent (components new_name))) w1 = (Inr (), w2)"
    and g: "set_file_path config p root (path_join parent (components new_name)) i ''Media file renamed successfully'' w2 = (Inr r, (db', s'))"
    by (auto simp: handle_media_rename_def Let_def ok_or_def action_simps split: option.splits elim!: try_then_InrE dest!: from_result_InrE)
  obtain db1 where w1: "w1 = (db1, s)" using current_file_path_files f by (metis prod.exhaust)
  obtain s2 where w2: "w2 = (db1, s2)" "st_rename st (path_join root (components f)) (path_join parent (components new_name)) s = (Inr (), s2)"
    using n w1 by (auto elim!: on_store_InrE)
  have "s' = s2" using set_file_path_files [OF g [unfolded w2(1)]] .
  with f v w1 w2 par show ?thesis
    unfolding relocated_def rename_target_def rc(3) by (auto simp: validate_path_within_Inr within_def)
qed

lemma move_outside_refused:
  assumes "handle_media_move i endpoint config p st root body (db, s) = (res, (db', s'))"
    and "current_file_path config p i (db, s) = (Inr f, (db1, s))" "move_target root body f dest" "\<not> within root dest"
  shows "\<not> is_ok res \<and> s' = s"
proof -
  obtain e where "validate_path_within dest root = Inl e"
    using assms(4) validate_path_within_Inr [of dest root] by (cases "validate_path_within dest root") (auto simp: within_def)
  with assms(1-3) show ?thesis
    by (auto simp: handle_media_move_def move_target_def Let_def ok_or_def try_then_def from_result_def stop_def
        split: option.splits if_splits)
qed

lemma rename_outside_refused:
  assumes "handle_media_rename i endpoint config p st root body (db, s) = (res, (db', s'))"
    and "current_file_path config p i (db, s) = (Inr f, (db1, s))" "rename_target root body f dest" "\<not> within root dest"
  shows "\<not> is_ok res \<and> s' = s"
proof -
  obtain e where "validate_path_within dest root = Inl e"
    using assms(4) validate_path_within_Inr [of dest root] by (cases "validate_path_within dest root") (auto simp: within_def)
  with assms(1-3) show ?thesis
    by (auto simp: handle_media_rename_def rename_target_def Let_def ok_or_def try_then_def from_result_def stop_def
        split: option.splits if_splits)
qed

text \<open>C21: take a move or a renaming of a media entry whose stored path names a file, in any store that keeps the
  contract of files (locale file_store; the in-memory store does). If it succeeds, the file is at the place the
  request asked for (the destination below the root, or the new name beside the stored path), that place is
  below the root of the store and has no parent component, nothing is left at the old place unless it is the same,
  and every other file is as it was. If the place asked for is not such a place, the request fails and the store
  is exactly as it was.\<close>

theorem relocation_confined:
  fixes db :: 'db and p :: "'db pool" and st :: "'s storage"
  assumes "file_store st file_at"
    and "handler = handle_media_move i endpoint config p st root body \<and> target = move_target root body
       \<or> handler = handle_media_rename i endpoint config p st root body \<and> target = rename_target root body"
    and "handler (db, s) = (res, (db', s'))"
    and "current_file_path config p i (db, s) = (Inr f, (db1, s))" "file_at s (path_join root (components f)) = Some c"
  shows "(is_ok res \<longrightarrow> (\<exists>dest. target f dest \<and> prefix root dest \<and> ParentDir \<notin> set dest
        \<and> file_at s' = ((file_at s)(path_join root (components f) := None))(dest \<mapsto> c)))
    \<and> (\<forall>dest. target f dest \<and> \<not> (prefix root dest \<and> ParentDir \<notin> set dest) \<longrightarrow> \<not> is_ok res \<and> s' = s)"
proof (intro conjI impI allI)
  assume "is_ok res"
  then obtain r where "res = Inr r" by (auto simp: is_ok_iff)
  with assms(2,3) have "relocated config p st root target i db s s'"
    by (elim disjE conjE) (auto intro: move_relocates rename_relocates)
  with assms(4) obtain dest s1 where t: "target f dest" "within root dest"
    and m: "s1 = s \<or> (\<exists>parent. st_create_dir_all st parent s = (Inr (), s1))"
    and n: "st_rename st (path_join root (components f)) dest s1 = (Inr (), s')"
    unfolding relocated_def by auto
  have "file_at s1 = file_at s" using m file_store.create_dirs_files [OF assms(1)] by blast
  then show "\<exists>dest. target f dest \<and> prefix root dest \<and> ParentDir \<notin> set dest
        \<and> file_at s' = ((file_at s)(path_join root (components f) := None))(dest \<mapsto> c)"
    using file_store.rename_file [OF assms(1) _ n, of c] t assms(5) by (auto simp: within_def)
next
  fix dest assume o: "target f dest \<and> \<not> (prefix root dest \<and> ParentDir \<notin> set dest)"
  then have w: "\<not> within root dest" by (simp add: within_def)
  have "\<not> is_ok res \<and> s' = s"
  proof (rule disjE [OF assms(2)])
    assume "handler = handle_media_move i endpoint config p st root body \<and> target = move_target root body"
    with o assms(3) show ?thesis using move_outside_refused [OF _ assms(4) _ w] by blast
  next
    assume "handler = handle_media_rename i endpoint config p st root body \<and> target = rename_target root body"
    with o assms(3) show ?thesis using rename_outside_refused [OF _ assms(4) _ w] by blast
  qed
  then show "\<not> is_ok res" "s' = s" by simp_all
qed

section \<open>Into the trash and back\<close>

lemma file_path_of_files: "file_path_of table dc i (db, s) = (r, (db', s')) \<Longrightarrow> s' = s"
  by (auto simp: file_path_of_def try_then_def give_def split: prod.splits sum.splits dest!: optional_row_files)

lemma mem_file_at_dirs [simp]: "mem_file_at (s \<lparr> ms_dirs := ds \<rparr>) = mem_file_at s"
  by (simp add: fun_eq_iff mem_file_at_def)

lemma memory_move:
  fixes db :: 'db
  assumes "mem_file_at s a = Some c" "a \<noteq> b" "trash_file memory_storage root f (db, s) = (x, (db', s'))"
    and "a = path_join root (components f)" "b = path_join (path_join root (components ''.trash'')) (components f)"
  shows "mem_file_at s' = ((mem_file_at s)(a := None))(b \<mapsto> c)"
proof -
  have "mem_exists s a" using assms(1) by (simp add: mem_exists_def mem_file_at_def)
  moreover define s1 where "s1 = (case path_parent b of None \<Rightarrow> s | Some q \<Rightarrow> snd (mem_create_dir_all q s))"
  ultimately have "s' = snd (mem_rename a b s1)"
    using assms(3) unfolding assms(4,5)
    by (auto simp: trash_file_def Let_def memory_storage_def try_then_def look_def give_def on_store_def ignoring_def
        mem_create_dir_all_def split: option.splits prod.splits sum.splits)
  moreover have "mem_file_at s1 = mem_file_at s"
    by (auto simp: s1_def mem_create_dir_all_def mem_file_at_def split: option.split)
  ultimately have s1: "mem_file_at s1 = mem_file_at s" "s' = snd (mem_rename a b s1)" by simp_all
  have "mem_file_at s1 a = Some c" using assms(1) s1(1) by simp
  then have "map_of (ms_data s1) a = Some c" by (simp add: mem_file_at_def)
  then have "mem_file_at s' = ((mem_file_at s1)(a := None))(b \<mapsto> c)"
    using s1(2) by (auto simp: mem_rename_def mem_file_at_def)
  then show ?thesis by (simp only: s1(1))
qed

text \<open>C22: in the in-memory store, with the prefix .trash configured (the default; deletions use it whatever is
  configured), take an entry whose row names a stored file, with nothing at the place of that file in the trash. When
  the entry is deleted into the trash and then restored, both with success and with the row still naming the
  same file, every file of the store is exactly as it was before the deletion, and in between the file is in the trash
  and not at its place.\<close>

theorem trashed_file_restored:
  fixes db :: 'db and dc :: "'db database_context"
  assumes "move_to_trash config dc memory_storage i (db, s) = (Inr r1, (db1, s1))"
    and "file_path_of (fs_table config) dc i (db, s) = (Inr (Some f), (db0, s))"
    and "trash_restore config tc dc memory_storage root i (db1, s1) = (Inr r2, (db2, s2))"
    and "trashed_path config dc i (db1, s1) = (Inr f, (db3, s1))" "fst_prefix tc = ''.trash''" "root = store_root memory_storage (fs_storage config)"
    and "mem_file_at s (path_join root (components f)) = Some c"
    and "mem_file_at s (path_join (path_join root (components ''.trash'')) (components f)) = None"
  shows "mem_file_at s2 = mem_file_at s
    \<and> mem_file_at s1 (path_join (path_join root (components ''.trash'')) (components f)) = Some c
    \<and> mem_file_at s1 (path_join root (components f)) = None"
proof -
  let ?a = "path_join root (components f)" and ?b = "path_join (path_join root (components ''.trash'')) (components f)"
  have ne: "?a \<noteq> ?b" using assms(7,8) by auto
  from assms(1,2,6) obtain x w where t: "trash_file memory_storage root f (db0, s) = (x, w)" "snd w = s1"
    by (auto simp: move_to_trash_def built_def action_simps elim!: try_then_InrE dest!: from_result_InrE run_query_files split: if_splits)
  obtain db4 where w: "w = (db4, s1)" using t(2) by (cases w) auto
  have m1: "mem_file_at s1 = ((mem_file_at s)(?a := None))(?b \<mapsto> c)"
    using memory_move [OF assms(7) ne t(1) [unfolded w] refl refl] .
  from assms(3-5) obtain w2 where "restore_file memory_storage ?b ?a (db3, s1) = (Inr (), w2)" "snd w2 = s2"
    by (auto simp: trash_restore_def built_def action_simps elim!: try_then_InrE dest!: from_result_InrE run_query_files)
  moreover have b: "mem_file_at s1 ?b = Some c" using m1 by simp
  moreover have "mem_exists s1 ?b" using b by (simp add: mem_exists_def mem_file_at_def)
  moreover define s3 where "s3 = (case path_parent ?a of None \<Rightarrow> s1 | Some q \<Rightarrow> snd (mem_create_dir_all q s1))"
  ultimately have r: "mem_rename ?b ?a s3 = (Inr (), s2)"
    by (auto simp: restore_file_def memory_storage_def try_then_def look_def give_def on_store_def
        mem_create_dir_all_def split: option.splits prod.splits sum.splits)
  have s3: "mem_file_at s3 = mem_file_at s1" by (simp add: s3_def mem_create_dir_all_def split: option.split)
  have "mem_file_at s2 = ((mem_file_at s1)(?b := None))(?a \<mapsto> c)"
    using memory.rename_file [of s3 ?b c ?a s2] s3 r b by (simp add: memory_storage_def)
  then show ?thesis using m1 ne b assms(7,8) by (auto simp: fun_eq_iff)
qed

section \<open>Samples\<close>

text \<open>A database whose every query returns one row and whose every statement affects one.\<close>

definition row_pool :: "json \<Rightarrow> nat pool" where
  "row_pool row = \<lparr> pl_driver = Sqlite, pl_query = (\<lambda>_ _ db. (Inr [row], Suc db)), pl_execute = (\<lambda>_ _ db. (Inr (1, 1), db)) \<rparr>"

definition sample_entry :: json where
  "sample_entry = JObj [(''file_path'', JStr ''a.txt''), (''owner_id'', JStr ''alice'')]"

definition sample_entry_table :: table_config where
  "sample_entry_table =
     \<lparr> tbl_name = ''files'', tbl_database = ''main'', tbl_columns = [column_config_default \<lparr> col_name := ''id'', col_primary_key := True \<rparr>],
       tbl_foreign_keys = [] \<rparr>"

definition sample_files :: file_store_config where
  "sample_files =
     \<lparr> fs_storage = ''files'', fs_table = ''files'', fs_database = ''main'', fs_metadata_columns = [], fs_field_permissions = None,
       fs_ownership = Some \<lparr> fso_owner_column = ''owner_id'', fso_admin_override = True \<rparr>,
       fs_trash = Some \<lparr> fst_enabled = True, fst_retention_days = 30, fst_prefix = ''.trash'' \<rparr>, fs_content_references = None,
       fs_pagination = pagination_config_default, fs_sorting = sorting_config_default, fs_filtering = filtering_config_default \<rparr>"

definition sample_env :: "(nat, mem_store) handler_env" where
  "sample_env =
     \<lparr> he_json_path_ok = (\<lambda>_. True), he_world = sample_world, he_auth = as_auth sample_auth_state, he_pools = [(''main'', row_pool sample_entry)],
       he_tables = [sample_entry_table], he_schemas = (\<lambda>_. None), he_stores = [(''files'', memory_storage)], he_now = (\<lambda>_. ''now''),
       he_uuid = ''u'', he_values = sample_values \<rparr>"

definition sample_files_ctx :: handler_context where
  "sample_files_ctx =
     \<lparr> hc_endpoint = (sample_endpoint ''/files/*'' [Get, Patch, Delete] ''none'') \<lparr> ep_roles := FlatRoles [''admin''] \<rparr>, hc_headers = [], hc_query = [] \<rparr>"

definition sample_dc :: "nat database_context" where
  "sample_dc = \<lparr> dc_pool = row_pool sample_entry, dc_table = sample_entry_table \<rparr>"

theorem foreign_entry_protected_witness:
  "handle_file_store_delete sample_env sample_files_ctx sample_files sample_dc memory_storage ''1'' (0, mem_new) = (Inl access_denied, (1, mem_new))"
proof -
  have a: "extract_auth_info sample_env sample_files_ctx = Inr auth_info_anonymous"
    by (simp add: extract_auth_info_def sample_files_ctx_def sample_endpoint_def)
  have b: "\<not> is_admin (ep_roles (hc_endpoint sample_files_ctx)) (ai_role auth_info_anonymous)" by code_simp
  have c: "db_pool (he_pools sample_env) (fs_database sample_files) = Inr (row_pool sample_entry)"
    by (simp add: db_pool_def sample_env_def sample_files_def ok_or_def)
  obtain q where q: "build_select_by_id (fs_table sample_files) [owner_column sample_files] (pl_driver (dc_pool sample_dc)) = Inr q"
    by (simp add: build_select_by_id_def)
  have f: "fetch_optional_json (row_pool sample_entry) (bq_sql q) [JStr ''1''] 0 = (Inr (Some sample_entry), 1)"
    by (simp add: fetch_optional_json_def row_pool_def)
  have t: "text_field (owner_column sample_files) sample_entry = Some ''alice''" by code_simp
  have "''alice'' \<noteq> ai_subject auth_info_anonymous" by (simp add: auth_info_anonymous_def)
  from foreign_entry_protected [OF _ a b c q f t this] show ?thesis by (simp add: sample_files_def)
qed

definition sample_media :: media_config where
  "sample_media =
     \<lparr> media_storage = ''files'', media_table = ''files'', media_database = ''main'', media_columns = [], media_metadata_columns = [],
       media_upload = None, media_move = Some \<lparr> mmv_enabled = True, mmv_admin_override = True, mmv_auto_create_destination = True \<rparr>,
       media_rename = None, media_delete = None, media_user_scope = None, media_content_references = None, media_trash = None,
       media_sharing = None, media_pagination = pagination_config_default, media_sorting = sorting_config_default,
       media_filtering = filtering_config_default, media_facets = [], media_image_resize = None \<rparr>"

definition sample_tree :: mem_store where
  "sample_tree = \<lparr> ms_data = [(components ''files/a.txt'', ''x'')], ms_dirs = [components ''files''] \<rparr>"

lemma sample_moved:
  "handle_media_move ''1'' (sample_endpoint ''/m/*'' [Post] ''none'') sample_media (row_pool sample_entry) memory_storage (components ''files'')
     (JObj [(''destination_path'', JStr ''/sub/b.txt'')]) (0, sample_tree)
   = (Inr (json_reply 200 (JObj [(''message'', JStr ''Media file moved successfully''), (''new_path'', JStr ''/sub/b.txt''), (''success'', JBool True)])),
      (1, \<lparr> ms_data = [(components ''files/sub/b.txt'', ''x'')], ms_dirs = [components ''files'', components ''files/sub''] \<rparr>))"
  by code_simp

theorem relocation_confined_witness:
  "\<exists>dest. move_target (components ''files'') (JObj [(''destination_path'', JStr ''/sub/b.txt'')]) ''a.txt'' dest
    \<and> prefix (components ''files'') dest \<and> ParentDir \<notin> set dest"
proof -
  have c: "current_file_path sample_media (row_pool sample_entry) ''1'' (0, sample_tree) = (Inr ''a.txt'', (1, sample_tree))"
    "mem_file_at sample_tree (path_join (components ''files'') (components ''a.txt'')) = Some ''x''"
    by code_simp+
  from relocation_confined [OF memory.file_store_axioms disjI1, OF conjI, OF refl refl sample_moved c] show ?thesis
    by (simp only: is_ok_simps) blast
qed

lemma sample_trashed:
  "move_to_trash sample_files sample_dc memory_storage ''1'' (0, sample_tree) =
     (Inr no_content, (1, \<lparr> ms_data = [(components ''files/.trash/a.txt'', ''x'')], ms_dirs = [components ''files'', components ''files/.trash''] \<rparr>))"
  "file_path_of ''files'' sample_dc ''1'' (0, sample_tree) = (Inr (Some ''a.txt''), (1, sample_tree))"
  by code_simp+

theorem trashed_file_restored_witness:
  "mem_file_at (snd (snd (trash_restore sample_files (the (fs_trash sample_files)) sample_dc memory_storage (components ''files'') ''1''
      (1, \<lparr> ms_data = [(components ''files/.trash/a.txt'', ''x'')], ms_dirs = [components ''files'', components ''files/.trash''] \<rparr>))))
   = mem_file_at sample_tree"
proof -
  let ?s1 = "\<lparr> ms_data = [(components ''files/.trash/a.txt'', ''x'')], ms_dirs = [components ''files'', components ''files/.trash''] \<rparr>"
  have r: "trash_restore sample_files (the (fs_trash sample_files)) sample_dc memory_storage (components ''files'') ''1'' (1, ?s1)
      = (Inr (json_reply 200 (JObj [(''message'', JStr ''File store entry restored from trash''), (''success'', JBool True)])),
         (2, \<lparr> ms_data = [(components ''files/a.txt'', ''x'')], ms_dirs = [components ''files'', components ''files/.trash''] \<rparr>))"
    by code_simp
  have p: "trashed_path sample_files sample_dc ''1'' (1, ?s1) = (Inr ''a.txt'', (2, ?s1))" by code_simp
  have q: "file_path_of (fs_table sample_files) sample_dc ''1'' (0, sample_tree) = (Inr (Some ''a.txt''), (1, sample_tree))"
    using sample_trashed(2) by (simp add: sample_files_def)
  have x: "fst_prefix (the (fs_trash sample_files)) = ''.trash''" "components ''files'' = store_root memory_storage (fs_storage sample_files)"
    by (simp_all add: sample_files_def store_root_def memory_storage_def)
  have y: "mem_file_at sample_tree (path_join (components ''files'') (components ''a.txt'')) = Some ''x''"
    "mem_file_at sample_tree (path_join (path_join (components ''files'') (components ''.trash'')) (components ''a.txt'')) = None"
    by code_simp+
  from trashed_file_restored [OF sample_trashed(1) q r p x y] show ?thesis by (simp only: r snd_conv)
qed

end
