(* ===== verification/Middleware.thy ===== *)
theory Middleware
  imports App_State Rate_Limit Authenticate Static_Serving Routing Validation
begin

text \<open>
  The middleware around the handlers (src/middleware/): the limit on request bodies, the logging of bodies, the
  choice of a rate limit, and the CORS layer. A body is what reading it to the end gives, the bytes or an error;
  UTF-8 decoding, the logger and the CORS implementation of tower-http are parameters or results.
\<close>

section \<open>Responses on the wire\<close>

definition render :: "http_response \<Rightarrow> file_response" where
  "render r = \<lparr> fr_status = resp_status r, fr_headers = resp_headers r, fr_body = json_text (resp_body r) \<rparr>"

definition error_reply :: "(string \<Rightarrow> bool) \<Rightarrow> app_error \<Rightarrow> file_response" where
  "error_reply header_ok e =
     (let r = render (into_response header_ok e) in r \<lparr> fr_headers := (''content-type'', ''application/json'') # fr_headers r \<rparr>)"

section \<open>Bodies\<close>

type_synonym body = "(string, string) result"

text \<open>\<open>axum::body::to_bytes\<close>.\<close>

definition to_bytes :: "nat \<Rightarrow> body \<Rightarrow> body" where
  "to_bytes limit b = (case b of Inl e \<Rightarrow> Inl e | Inr bytes \<Rightarrow> if limit < length bytes then Inl ''length limit exceeded'' else Inr bytes)"

definition declared_length :: "header_map \<Rightarrow> nat option" where
  "declared_length headers = (case header_str ''content-length'' headers of None \<Rightarrow> None | Some v \<Rightarrow> parse_u64 v)"

text \<open>\<open>body_limit_middleware\<close>: the body handed to the next service.\<close>

definition body_limit :: "nat \<Rightarrow> header_map \<Rightarrow> body \<Rightarrow> (app_error, body) result" where
  "body_limit max_size headers b =
     (case declared_length headers of
        Some n \<Rightarrow>
          if max_size < n
          then Inl (BodyError (''Request body size '' @ show_nat n @ '' exceeds maximum allowed size '' @ show_nat max_size))
          else Inr b
      | None \<Rightarrow>
          (case to_bytes max_size b of
             Inl e \<Rightarrow> Inl (BodyError e)
           | Inr bytes \<Rightarrow>
               if max_size < length bytes
               then Inl (BodyError (''Request body size '' @ show_nat (length bytes) @ '' exceeds maximum allowed size '' @ show_nat max_size))
               else Inr (Inr bytes)))"

record log_entry =
  le_direction :: string
  le_size :: nat
  le_truncated :: bool
  le_message :: string

definition log_body :: "(string \<Rightarrow> string) \<Rightarrow> string \<Rightarrow> string \<Rightarrow> string \<Rightarrow> string \<Rightarrow> nat \<Rightarrow> log_entry list" where
  "log_body lossy direction uri method_or_status bytes max_size =
     (if bytes = [] then []
      else if max_size < length bytes then
        [\<lparr> le_direction = direction, le_size = length bytes, le_truncated = True,
           le_message = method_or_status @ '' '' @ uri @ '' body ('' @ show_nat (length bytes) @ '' bytes, truncated): '' @ lossy (take max_size bytes) \<rparr>]
      else
        [\<lparr> le_direction = direction, le_size = length bytes, le_truncated = False,
           le_message = method_or_status @ '' '' @ uri @ '' body: '' @ lossy bytes \<rparr>])"

text \<open>\<open>collect().await ... unwrap_or_default()\<close>: a body that cannot be read becomes the empty one.\<close>

definition collected :: "body \<Rightarrow> string" where
  "collected b = (case b of Inl _ \<Rightarrow> [] | Inr bytes \<Rightarrow> bytes)"

definition log_request :: "(string \<Rightarrow> string) \<Rightarrow> logging_config \<Rightarrow> string \<Rightarrow> string \<Rightarrow> body \<Rightarrow> body \<times> log_entry list" where
  "log_request lossy lg uri meth b =
     (if lg_log_request_body lg
      then (Inr (collected b), log_body lossy ''request'' uri meth (collected b) (lg_max_body_log_size lg))
      else (b, []))"

text \<open>\<open>show_status\<close>: a status code with its reason.\<close>

definition log_response :: "(string \<Rightarrow> string) \<Rightarrow> (nat \<Rightarrow> string) \<Rightarrow> logging_config \<Rightarrow> file_response \<Rightarrow> log_entry list" where
  "log_response lossy show_status lg r =
     (if lg_log_response_body lg then log_body lossy ''response'' [] (show_status (fr_status r)) (fr_body r) (lg_max_body_log_size lg) else [])"

section \<open>Rate limits\<close>

definition rate_limit_of :: "('db, 's, 'v) app_state \<Rightarrow> string \<Rightarrow> rate_limit_config" where
  "rate_limit_of st p =
     unwrap_or (case get_endpoint_config (st_endpoint_configs st) p of None \<Rightarrow> None | Some e \<Rightarrow> ep_rate_limit e) (ac_rate_limit (st_config st))"

definition rate_limit_middleware :: "('db, 's, 'v) app_state \<Rightarrow> http_request \<Rightarrow> string option \<Rightarrow> int \<Rightarrow> rate_table
    \<Rightarrow> ((app_error, unit) result \<times> rate_table) option" where
  "rate_limit_middleware st req remote now rt = check_rate_limit (rate_limit_of st (rq_path req)) (rq_headers req) remote now rt"

section \<open>CORS\<close>

text \<open>What the layer of tower-http is told: nothing, anything, or a list.\<close>

datatype cors_rule = CorsDefault | CorsAny | CorsList "string list"

record cors_layer =
  cl_origins :: cors_rule
  cl_methods :: cors_rule
  cl_headers :: cors_rule
  cl_credentials :: bool
  cl_max_age :: nat

definition list_rule :: "(string \<Rightarrow> string option) \<Rightarrow> string list \<Rightarrow> cors_rule" where
  "list_rule parse xs = (case List.map_filter parse xs of [] \<Rightarrow> CorsDefault | ys \<Rightarrow> CorsList ys)"

definition build_cors_layer :: "(string \<Rightarrow> string option) \<Rightarrow> (string \<Rightarrow> string option) \<Rightarrow> (string \<Rightarrow> string option) \<Rightarrow> cors_config \<Rightarrow> cors_layer" where
  "build_cors_layer parse_value parse_method parse_name config =
     \<lparr> cl_origins = (if cors_allowed_origins config = [''*''] then CorsAny else list_rule parse_value (cors_allowed_origins config)),
       cl_methods = list_rule parse_method (cors_allowed_methods config),
       cl_headers = (if cors_allowed_headers config = [''*''] then CorsAny else list_rule parse_name (cors_allowed_headers config)),
       cl_credentials = cors_allow_credentials config,
       cl_max_age = cors_max_age config \<rparr>"

section \<open>What the middleware guarantees\<close>

text \<open>C26: A body that passes the limit reaches the next service as it came, and is within the limit
  if it is not longer than its declared length, which hyper enforces.\<close>

theorem body_limit_enforced:
  assumes "body_limit max_size headers b = Inr b'"
    and "case declared_length headers of None \<Rightarrow> True | Some n \<Rightarrow> length (collected b) \<le> n"
  shows "b' = b \<and> length (collected b') \<le> max_size"
  using assms
  by (auto simp: body_limit_def to_bytes_def collected_def split: option.splits if_splits sum.splits)

theorem body_limit_enforced_witness:
  "body_limit 5 [(''content-length'', ''3'')] (Inr ''abc'') = Inr (Inr ''abc'') \<and> length (collected (Inr ''abc'')) \<le> 5"
proof -
  have r: "body_limit 5 [(''content-length'', ''3'')] (Inr ''abc'') = Inr (Inr ''abc'')" by code_simp
  have "declared_length [(''content-length'', ''3'')] = Some 3" by code_simp
  then have "length (collected (Inr ''abc'')) \<le> 5"
    using body_limit_enforced [OF r] by (simp add: collected_def)
  with r show ?thesis ..
qed

text \<open>With logging of request bodies a body that breaks off reaches the handler as an empty one.\<close>

lemma broken_body_emptied: "lg_log_request_body lg \<Longrightarrow> fst (log_request lossy lg uri meth (Inl e)) = Inr []"
  by (simp add: log_request_def collected_def)

text \<open>Truncation never shows more than the configured number of bytes.\<close>

lemma log_body_bounded:
  "l \<in> set (log_body lossy direction uri m bytes max_size) \<Longrightarrow> \<exists>shown pre. le_message l = pre @ lossy shown \<and> length shown \<le> max_size \<and> prefix shown bytes"
proof (cases "max_size < length bytes")
  case True
  moreover assume "l \<in> set (log_body lossy direction uri m bytes max_size)"
  ultimately have "le_message l = (m @ '' '' @ uri @ '' body ('' @ show_nat (length bytes) @ '' bytes, truncated): '') @ lossy (take max_size bytes)"
    by (auto simp: log_body_def split: if_splits)
  with True show ?thesis by (metis length_take min.cobounded2 take_is_prefix)
next
  case False
  moreover assume "l \<in> set (log_body lossy direction uri m bytes max_size)"
  ultimately have "le_message l = (m @ '' '' @ uri @ '' body: '') @ lossy bytes"
    by (auto simp: log_body_def split: if_splits)
  with False show ?thesis by (metis leI prefix_order.order_refl)
qed

end
