(* ===== verification/Router.thy ===== *)
theory Router
  imports Middleware Proxy Spa_Host File_Store Media Serving_Props
begin

text \<open>
  The routes and the way of a request through the layers (src/server/router.rs): which handler answers a method on
  a pattern, the system routes, the layers in the order a request meets them, and the route handlers that have
  no file of their own. The matching of a path against the patterns is axum's: a route handler is given
  the pattern that matched, the parameters and the decoded query. Compression, tracing and request identifiers
  change nothing that is modelled.
\<close>

section \<open>Routes\<close>

datatype handler_kind =
    CustomResponseHandler
  | CrudHandler
  | ProxyHandler
  | UploadHandler
  | StaticFilesHandler
  | SpaHostHandler
  | SpaMethodNotAllowed
  | MediaHandler
  | MediaUploadHandler
  | FileStoreHandler
  | HealthHandler
  | ReloadHandler
  | OAuth2AuthorizeHandler
  | OAuth2CallbackHandler
  | RevokeHandler
  | RegisterHandler
  | LoginHandler

record route =
  rt_path :: string
  rt_method :: http_method
  rt_handler :: handler_kind
  rt_cors :: "cors_config option"

definition static_uploads :: "endpoint_config \<Rightarrow> bool" where
  "static_uploads e =
     (case ep_static_files e of
        None \<Rightarrow> False
      | Some sf \<Rightarrow> (case stat_upload sf of None \<Rightarrow> False | Some u \<Rightarrow> upl_enabled u))"

definition media_uploads :: "endpoint_config \<Rightarrow> bool" where
  "media_uploads e =
     (case ep_media e of
        None \<Rightarrow> False
      | Some m \<Rightarrow> (case media_upload m of None \<Rightarrow> False | Some u \<Rightarrow> 0 < mup_max_size u))"

text \<open>\<open>add_endpoint_route\<close>: the handler of one method.\<close>

definition handler_for :: "endpoint_config \<Rightarrow> http_method \<Rightarrow> handler_kind" where
  "handler_for e m =
     (case ep_action e of
        ActCustomResponse \<Rightarrow> CustomResponseHandler
      | ActCrud \<Rightarrow> CrudHandler
      | ActProxy \<Rightarrow> ProxyHandler
      | ActStaticFiles \<Rightarrow> if static_uploads e \<and> m \<in> {Post, Put, Patch} then UploadHandler else StaticFilesHandler
      | ActSpaHost \<Rightarrow> if m \<in> {Post, Put, Patch, Delete} then SpaMethodNotAllowed else SpaHostHandler
      | ActMedia \<Rightarrow> if media_uploads e \<and> m \<in> {Post, Put, Patch} then MediaUploadHandler else MediaHandler
      | ActFileStore \<Rightarrow> FileStoreHandler)"

definition endpoint_route :: "string \<Rightarrow> endpoint_config \<Rightarrow> cors_config \<Rightarrow> http_method \<Rightarrow> route" where
  "endpoint_route p e cors m = \<lparr> rt_path = p, rt_method = m, rt_handler = handler_for e m, rt_cors = Some cors \<rparr>"

definition bare_routes :: "string \<Rightarrow> endpoint_config \<Rightarrow> cors_config \<Rightarrow> route list" where
  "bare_routes p e cors =
     map (endpoint_route p e cors) (ep_methods e) @ (if Options \<notin> set (ep_methods e) then [endpoint_route p e cors Options] else [])"

definition register_static_bare_routes :: "string \<Rightarrow> endpoint_config \<Rightarrow> cors_config \<Rightarrow> route list" where
  "register_static_bare_routes = bare_routes"

definition register_spa_bare_routes :: "string \<Rightarrow> endpoint_config \<Rightarrow> cors_config \<Rightarrow> route list" where
  "register_spa_bare_routes = bare_routes"

definition at_bare_paths :: "(string \<Rightarrow> route list) \<Rightarrow> string \<Rightarrow> route list" where
  "at_bare_paths f p =
     (let bare = trim_end_char (CHR ''/'') (trim_end_str rest_pattern p) in if bare = [] then f ''/'' else f bare @ f (bare @ ''/''))"

definition register_all_routes :: "cors_config \<Rightarrow> endpoint_config \<Rightarrow> route list" where
  "register_all_routes global_cors e =
     (let p = route_path e; cors = unwrap_or (ep_cors e) global_cors in
      map (endpoint_route p e cors) (ep_methods e)
    @ (if ep_action e = ActStaticFiles \<and> ends_with p rest_pattern
       then at_bare_paths (\<lambda>q. register_static_bare_routes q e cors) p else [])
    @ (if ep_action e = ActSpaHost \<and> ends_with p rest_pattern
       then at_bare_paths (\<lambda>q. register_spa_bare_routes q e cors) p else []))"

definition system_route :: "string \<Rightarrow> http_method \<Rightarrow> handler_kind \<Rightarrow> route" where
  "system_route p m h = \<lparr> rt_path = ''/_main-serve/'' @ p, rt_method = m, rt_handler = h, rt_cors = None \<rparr>"

definition system_routes :: "auth_config \<Rightarrow> route list" where
  "system_routes auth =
     [system_route ''health'' Get HealthHandler, system_route ''reload'' Post ReloadHandler]
   @ (if (case au_oauth2 auth of None \<Rightarrow> False | Some o' \<Rightarrow> oa_authorization_url o' \<noteq> [])
      then [system_route ''oauth2/authorize'' Get OAuth2AuthorizeHandler, system_route ''oauth2/callback'' Get OAuth2CallbackHandler] else [])
   @ (if (case au_jwt auth of None \<Rightarrow> False | Some j \<Rightarrow> jwt_revocation j \<noteq> None) then [system_route ''auth/revoke'' Post RevokeHandler] else [])
   @ (if (case au_register auth of None \<Rightarrow> False | Some r \<Rightarrow> reg_enabled r)
      then [system_route ''register'' Post RegisterHandler, system_route ''login'' Post LoginHandler] else [])"

definition all_routes :: "app_config \<Rightarrow> route list" where
  "all_routes config = system_routes (ac_auth config) @ concat (map (register_all_routes (ac_cors config)) (ac_endpoints config))"

text \<open>axum documents that a second handler for a method and pattern panics.\<close>

definition routes_overlap :: "route list \<Rightarrow> bool" where
  "routes_overlap rs \<longleftrightarrow> \<not> distinct (map (\<lambda>r. (rt_path r, rt_method r)) rs)"

section \<open>The layers\<close>

text \<open>From the outside: the rate limit, authentication, the logging of bodies if the configuration of the start asked for it,
  and the limit on bodies. \<open>None\<close> is the panic of the limiter; the log, the counters and what reaches the route follow.\<close>

definition bodies_logged :: "app_config \<Rightarrow> bool" where
  "bodies_logged config \<longleftrightarrow> lg_log_request_body (ac_logging config) \<or> lg_log_response_body (ac_logging config)"

definition request_uri :: "http_request \<Rightarrow> string" where
  "request_uri req = rq_path req @ (case rq_query req of None \<Rightarrow> [] | Some q \<Rightarrow> ''?'' @ q)"

definition logged_body :: "(string \<Rightarrow> string) \<Rightarrow> bool \<Rightarrow> ('db, 's, 'v) app_state \<Rightarrow> http_request \<Rightarrow> body \<Rightarrow> body \<times> log_entry list" where
  "logged_body lossy layer st req b =
     (if layer then log_request lossy (ac_logging (st_config st)) (request_uri req) (rq_method req) b else (b, []))"

definition through_layers :: "(string \<Rightarrow> string) \<Rightarrow> bool \<Rightarrow> auth_world \<Rightarrow> (string \<Rightarrow> bool) option \<Rightarrow> ('db, 's, 'v) app_state \<Rightarrow> http_request \<Rightarrow> body
    \<Rightarrow> string option \<Rightarrow> int \<Rightarrow> rate_table \<Rightarrow> ((app_error, auth_info option \<times> body) result \<times> log_entry list \<times> rate_table) option" where
  "through_layers lossy layer w revoked st req b remote now rt =
     (case rate_limit_middleware st req remote now rt of
        None \<Rightarrow> None
      | Some (Inl e, rt') \<Rightarrow> Some (Inl e, [], rt')
      | Some (Inr _, rt') \<Rightarrow>
          (case auth_middleware w (auth_view st revoked) req of
             Inl e \<Rightarrow> Some (Inl e, [], rt')
           | Inr info \<Rightarrow>
               (case logged_body lossy layer st req b of
                  (b1, log) \<Rightarrow>
                    (case body_limit (srv_max_body_size (ac_server (st_config st))) (rq_headers req) b1 of
                       Inl e \<Rightarrow> Some (Inl e, log, rt')
                     | Inr b2 \<Rightarrow> Some (Inr (info, b2), log, rt')))))"

section \<open>Route handlers\<close>

record route_request =
  rr_request :: http_request
  rr_matched :: string
  rr_params :: "(string, string) entries option"
  rr_query :: "(string, string) entries"
  rr_body :: body
  rr_info :: "auth_info option"

definition endpoint_of :: "endpoint_table \<Rightarrow> route_request \<Rightarrow> (app_error, endpoint_config) result" where
  "endpoint_of endpoints r = ok_or (get_endpoint_config_for_method endpoints (rr_matched r) (rq_method (rr_request r))) (NotFound ''Endpoint not found'')"

definition handle_custom_response_route :: "(string \<Rightarrow> bool) \<Rightarrow> (string \<Rightarrow> string option) \<Rightarrow> endpoint_table \<Rightarrow> route_request
    \<Rightarrow> (app_error, file_response) result" where
  "handle_custom_response_route header_ok parse_name endpoints r =
     (case endpoint_of endpoints r of Inl e \<Rightarrow> Inl e | Inr e \<Rightarrow> handle_custom_response header_ok parse_name e)"

definition is_json_request :: "header_map \<Rightarrow> bool" where
  "is_json_request headers = (case header_str ''content-type'' headers of None \<Rightarrow> False | Some t \<Rightarrow> contains_str t ''application/json'')"

text \<open>The JSON of a body: \<open>parse\<close> is serde_json's parser, whose failure is dropped.\<close>

definition json_body :: "(string \<Rightarrow> json option) \<Rightarrow> nat \<Rightarrow> header_map \<Rightarrow> body \<Rightarrow> (app_error, json option) result" where
  "json_body parse max_size headers b =
     (if is_json_request headers
      then (case to_bytes max_size b of Inl e \<Rightarrow> Inl (BodyError e) | Inr bytes \<Rightarrow> Inr (parse bytes))
      else Inr None)"

definition request_context_of :: "route_request \<Rightarrow> request_context" where
  "request_context_of r =
     (let info = unwrap_or (rr_info r) auth_info_anonymous in
      \<lparr> rc_user_id = Some (ai_subject info), rc_user_email = ai_email info, rc_user_role = ai_role info,
        rc_headers = fold (\<lambda>(k, v). entries_insert k (unwrap_or (header_to_str v) [])) (rq_headers (rr_request r)) [],
        rc_method = rq_method (rr_request r), rc_path = rr_matched r, rc_raw_query_params = rr_query r \<rparr>)"

definition handle_crud_route :: "(string \<Rightarrow> bool) \<Rightarrow> (string \<Rightarrow> json option) \<Rightarrow> (string \<Rightarrow> table_schemas option) \<Rightarrow> ('db, 's, 'v) app_state
    \<Rightarrow> route_request \<Rightarrow> 'db \<Rightarrow> (app_error, http_response) result \<times> 'db" where
  "handle_crud_route json_path_ok parse registry st r db =
     (case endpoint_of (st_endpoint_configs st) r of
        Inl e \<Rightarrow> (Inl e, db)
      | Inr endpoint \<Rightarrow>
          (case json_body parse (srv_max_body_size (ac_server (st_config st))) (rq_headers (rr_request r)) (rr_body r) of
             Inl e \<Rightarrow> (Inl e, db)
           | Inr body \<Rightarrow>
               handle_crud json_path_ok (st_pools st) (ac_tables (st_config st)) registry (rq_method (rr_request r)) (rr_params r)
                 (rr_query r) body endpoint (request_context_of r) db))"

definition handle_proxy_route :: "'n client option \<Rightarrow> endpoint_table \<Rightarrow> route_request \<Rightarrow> 'n \<Rightarrow> (app_error, file_response) result \<times> 'n" where
  "handle_proxy_route client endpoints r n =
     (case endpoint_of endpoints r of
        Inl e \<Rightarrow> (Inl e, n)
      | Inr e \<Rightarrow> handle_proxy client (rq_method (rr_request r)) (rq_path (rr_request r)) (rq_query (rr_request r)) (rq_headers (rr_request r)) (rr_body r) e n)"

text \<open>\<open>form\<close>: what the multipart parser makes of the body.\<close>

definition handle_upload_route :: "auth_world \<Rightarrow> auth_config \<Rightarrow> upload_env \<Rightarrow> (string, 's storage) entries \<Rightarrow> (header_map \<Rightarrow> body \<Rightarrow> (string, form_field) result list)
    \<Rightarrow> endpoint_table \<Rightarrow> route_request \<Rightarrow> 's \<Rightarrow> (app_error, http_response) result \<times> 's" where
  "handle_upload_route w auth ue stores form endpoints r s =
     (case endpoint_of endpoints r of
        Inl e \<Rightarrow> (Inl e, s)
      | Inr e \<Rightarrow> handle_file_upload_route w auth ue stores (form (rq_headers (rr_request r)) (rr_body r)) (rq_method (rr_request r)) e
                (rq_headers (rr_request r)) s)"

definition handle_static_files_route :: "bool \<Rightarrow> image_lib \<Rightarrow> listing_env \<Rightarrow> (string \<Rightarrow> bool) \<Rightarrow> (string, 's storage) entries \<Rightarrow> endpoint_table
    \<Rightarrow> route_request \<Rightarrow> 's \<Rightarrow> (app_error, static_reply) result option \<times> 's" where
  "handle_static_files_route checked im env header_ok stores endpoints r s =
     (case endpoint_of endpoints r of
        Inl e \<Rightarrow> (Some (Inl e), s)
      | Inr e \<Rightarrow> handle_static_files checked im env header_ok stores (rq_method (rr_request r)) (rq_path (rr_request r)) e (rq_headers (rr_request r))
                (Some (rr_query r)) s)"

section \<open>What reaches a handler\<close>

text \<open>A request for a CRUD endpoint on its whole way.\<close>

definition serve_crud :: "(string \<Rightarrow> string) \<Rightarrow> bool \<Rightarrow> auth_world \<Rightarrow> (string \<Rightarrow> bool) option \<Rightarrow> (string \<Rightarrow> bool) \<Rightarrow> (string \<Rightarrow> json option)
    \<Rightarrow> (string \<Rightarrow> table_schemas option) \<Rightarrow> ('db, 's, 'v) app_state \<Rightarrow> route_request \<Rightarrow> string option \<Rightarrow> int \<Rightarrow> rate_table \<Rightarrow> 'db
    \<Rightarrow> ((app_error, http_response) result \<times> rate_table \<times> 'db) option" where
  "serve_crud lossy layer w revoked json_path_ok parse registry st r remote now rt db =
     (case through_layers lossy layer w revoked st (rr_request r) (rr_body r) remote now rt of
        None \<Rightarrow> None
      | Some (Inl e, _, rt') \<Rightarrow> Some (Inl e, rt', db)
      | Some (Inr (info, b), _, rt') \<Rightarrow>
          (case handle_crud_route json_path_ok parse registry st (r \<lparr> rr_body := b, rr_info := info \<rparr>) db of
             (res, db') \<Rightarrow> Some (res, rt', db')))"

lemma logged_body_collected: "logged_body lossy layer st req b = (b1, log) \<Longrightarrow> collected b1 = collected b"
  by (auto simp: logged_body_def log_request_def collected_def split: if_splits)

lemma body_limit_Inr:
  "body_limit n headers b = Inr b' \<Longrightarrow> b' = b"
  by (auto simp: body_limit_def to_bytes_def split: option.splits if_splits sum.splits)

lemma body_limit_length:
  "body_limit n headers b = Inr b' \<Longrightarrow> case declared_length headers of None \<Rightarrow> True | Some k \<Rightarrow> length (collected b) \<le> k \<Longrightarrow>
     length (collected b') \<le> n"
  by (auto simp: body_limit_def to_bytes_def collected_def split: option.splits if_splits sum.splits)

lemma through_layers_admits:
  assumes "through_layers lossy layer w revoked st req b remote now rt = Some (Inr (info, b'), log, rt')"
  obtains b1 where "rate_limit_middleware st req remote now rt = Some (Inr (), rt')" "auth_middleware w (auth_view st revoked) req = Inr info"
    "logged_body lossy layer st req b = (b1, log)" "body_limit (srv_max_body_size (ac_server (st_config st))) (rq_headers req) b1 = Inr b'"
  using assms by (auto simp: through_layers_def split: option.splits sum.splits prod.splits)

lemma handle_crud_route_runs:
  assumes "handle_crud_route json_path_ok parse registry st r db = (res, db')" "db' \<noteq> db"
  obtains e body where "endpoint_of (st_endpoint_configs st) r = Inr e" "ep_crud e \<noteq> None"
    "body = (if is_json_request (rq_headers (rr_request r)) then parse (collected (rr_body r)) else None)"
    "handle_crud json_path_ok (st_pools st) (ac_tables (st_config st)) registry (rq_method (rr_request r)) (rr_params r) (rr_query r) body e
      (request_context_of r) db = (res, db')"
proof -
  from assms obtain e body where e: "endpoint_of (st_endpoint_configs st) r = Inr e" "ep_crud e \<noteq> None"
    "json_body parse (srv_max_body_size (ac_server (st_config st))) (rq_headers (rr_request r)) (rr_body r) = Inr body"
    "handle_crud json_path_ok (st_pools st) (ac_tables (st_config st)) registry (rq_method (rr_request r)) (rr_params r) (rr_query r) body e
      (request_context_of r) db = (res, db')"
    by (auto simp: handle_crud_route_def handle_crud_def split: sum.splits option.splits)
  have "body = (if is_json_request (rq_headers (rr_request r)) then parse (collected (rr_body r)) else None)"
    using e(3) by (auto simp: json_body_def to_bytes_def collected_def split: if_splits sum.splits)
  with e show thesis by (intro that)
qed

text \<open>C3: a request on a route of the CRUD handler (registration, revocation, media and file stores have handlers
  of their own) changes the database only when the rate limit and the authentication have let it pass
  and its body is within the configured maximum, and when the pattern it matched has a CRUD endpoint for its method.
  Then answer and database are those of the CRUD handler for this endpoint, run with the method, the path parameters,
  the query, the parsed JSON of exactly the body sent (none unless the content type says JSON) and the identity
  the authentication established. Hypothesis on the HTTP library: a body with a Content-Length is not longer than it
  declares.\<close>

theorem database_change_admitted:
  assumes "serve_crud lossy layer w revoked json_path_ok parse registry st r remote now rt db = Some (res, rt', db')" "db' \<noteq> db"
    and "case declared_length (rq_headers (rr_request r)) of None \<Rightarrow> True | Some n \<Rightarrow> length (collected (rr_body r)) \<le> n"
  shows "\<exists>info e. rate_limit_middleware st (rr_request r) remote now rt = Some (Inr (), rt')
    \<and> auth_middleware w (auth_view st revoked) (rr_request r) = Inr info
    \<and> length (collected (rr_body r)) \<le> srv_max_body_size (ac_server (st_config st))
    \<and> get_endpoint_config_for_method (st_endpoint_configs st) (rr_matched r) (rq_method (rr_request r)) = Some e \<and> ep_crud e \<noteq> None
    \<and> handle_crud json_path_ok (st_pools st) (ac_tables (st_config st)) registry (rq_method (rr_request r)) (rr_params r) (rr_query r)
        (if is_json_request (rq_headers (rr_request r)) then parse (collected (rr_body r)) else None) e
        (request_context_of (r \<lparr> rr_info := info \<rparr>)) db = (res, db')"
proof -
  from assms(1,2) obtain info b log where
    t: "through_layers lossy layer w revoked st (rr_request r) (rr_body r) remote now rt = Some (Inr (info, b), log, rt')"
    and h: "handle_crud_route json_path_ok parse registry st (r \<lparr> rr_body := b, rr_info := info \<rparr>) db = (res, db')"
    by (auto simp: serve_crud_def split: option.splits sum.splits prod.splits)
  from t obtain b1 where l: "rate_limit_middleware st (rr_request r) remote now rt = Some (Inr (), rt')"
      "auth_middleware w (auth_view st revoked) (rr_request r) = Inr info" "logged_body lossy layer st (rr_request r) (rr_body r) = (b1, log)"
      "body_limit (srv_max_body_size (ac_server (st_config st))) (rq_headers (rr_request r)) b1 = Inr b"
    by (rule through_layers_admits)
  have c: "collected b1 = collected (rr_body r)" "b = b1" using logged_body_collected [OF l(3)] body_limit_Inr [OF l(4)] by auto
  have n: "length (collected (rr_body r)) \<le> srv_max_body_size (ac_server (st_config st))"
    using body_limit_length [OF l(4), unfolded c(1), OF assms(3)] c by simp
  from h assms(2) obtain e body where e: "endpoint_of (st_endpoint_configs st) (r \<lparr> rr_body := b, rr_info := info \<rparr>) = Inr e" "ep_crud e \<noteq> None"
    "body = (if is_json_request (rq_headers (rr_request r)) then parse (collected b) else None)"
    "handle_crud json_path_ok (st_pools st) (ac_tables (st_config st)) registry (rq_method (rr_request r)) (rr_params r) (rr_query r) body e
      (request_context_of (r \<lparr> rr_body := b, rr_info := info \<rparr>)) db = (res, db')"
    by (rule handle_crud_route_runs [of json_path_ok parse registry st "r \<lparr> rr_body := b, rr_info := info \<rparr>" db res db']) (auto cong: if_cong)
  from e(1) have "get_endpoint_config_for_method (st_endpoint_configs st) (rr_matched r) (rq_method (rr_request r)) = Some e"
    by (auto simp: endpoint_of_def ok_or_def split: option.splits)
  moreover have "request_context_of (r \<lparr> rr_body := b, rr_info := info \<rparr>) = request_context_of (r \<lparr> rr_info := info \<rparr>)"
    by (simp add: request_context_of_def)
  ultimately show ?thesis using l(1,2) c n e(2,4) [unfolded e(3)] by auto
qed

definition sample_posts :: "(nat, unit, json list) app_state" where
  "sample_posts = \<lparr> st_config = app_config_default \<lparr> ac_endpoints := [sample_crud_endpoint], ac_tables := [sample_table],
       ac_server := server_config_default \<lparr> srv_max_body_size := 16 \<rparr> \<rparr>,
     st_config_path = components ''/c.yaml'', st_admin_token = ''secret'', st_pools = [(''main'', sample_pool)],
     st_endpoint_configs = register_endpoints [sample_crud_endpoint], st_stores = [], st_store_configs = [],
     st_role_inheritance = compute_role_inheritance None, st_schema_registry = [] \<rparr>"

definition sample_post :: route_request where
  "sample_post = \<lparr> rr_request = \<lparr> rq_method = ''POST'', rq_path = ''/posts'', rq_query = None, rq_headers = [(''content-type'', ''application/json'')] \<rparr>,
     rr_matched = ''/posts'', rr_params = None, rr_query = [], rr_body = Inr ''{}'', rr_info = None \<rparr>"

theorem database_change_admitted_witness:
  "\<exists>info e res. auth_middleware sample_world (auth_view sample_posts None) (rr_request sample_post) = Inr info
     \<and> handle_crud (\<lambda>_. False) (st_pools sample_posts) (ac_tables (st_config sample_posts)) (\<lambda>_. None) ''POST'' None []
         (Some (JObj sample_body)) e (request_context_of (sample_post \<lparr> rr_info := info \<rparr>)) 0 = (res, 1)"
proof -
  let ?req = "rr_request sample_post"
  have a: "auth_middleware sample_world (auth_view sample_posts None) ?req = Inr None"
  proof -
    have "get_endpoint_config_for_method (register_endpoints [sample_crud_endpoint]) ''/posts'' ''POST'' = Some sample_crud_endpoint" by code_simp
    moreover have "ep_auth sample_crud_endpoint = ''none''" by (simp add: sample_crud_endpoint_def sample_endpoint_def)
    ultimately show ?thesis by (simp add: auth_middleware_def auth_view_def sample_posts_def sample_post_def)
  qed
  have l: "rate_limit_middleware sample_posts ?req None 0 [] = Some (Inr (), [])"
  proof -
    have "get_endpoint_config (register_endpoints [sample_crud_endpoint]) ''/posts'' = None" by code_simp
    then show ?thesis
      by (simp add: rate_limit_middleware_def rate_limit_of_def sample_posts_def sample_post_def check_rate_limit_def app_config_default_def rate_limit_config_default_def)
  qed
  have b: "body_limit 16 (rq_headers ?req) (Inr ''{}'') = Inr (Inr ''{}'')" by code_simp
  have h: "endpoint_of (register_endpoints [sample_crud_endpoint]) sample_post = Inr sample_crud_endpoint"
    "json_body (\<lambda>_. Some (JObj sample_body)) 16 (rq_headers ?req) (Inr ''{}'') = Inr (Some (JObj sample_body))"
    by code_simp+
  have "\<exists>res. handle_crud (\<lambda>_. False) [(''main'', sample_pool)] [sample_table] (\<lambda>_. None) ''POST'' None [] (Some (JObj sample_body))
      sample_crud_endpoint (request_context_of sample_post) 0 = (res, 1)"
  proof -
    have "snd (handle_crud (\<lambda>_. False) [(''main'', sample_pool)] [sample_table] (\<lambda>_. None) ''POST'' None [] (Some (JObj sample_body))
      sample_crud_endpoint (request_context_of sample_post) 0) = 1" by code_simp
    then show ?thesis by (metis prod.collapse)
  qed
  with a l b h have "\<exists>res. serve_crud (\<lambda>x. x) False sample_world None (\<lambda>_. False) (\<lambda>_. Some (JObj sample_body)) (\<lambda>_. None) sample_posts sample_post
      None 0 [] 0 = Some (res, [], 1)"
    by (auto simp: serve_crud_def through_layers_def logged_body_def handle_crud_route_def sample_posts_def sample_post_def endpoint_of_def
        request_context_of_def)
  then obtain res where r: "serve_crud (\<lambda>x. x) False sample_world None (\<lambda>_. False) (\<lambda>_. Some (JObj sample_body)) (\<lambda>_. None) sample_posts
    sample_post None 0 [] 0 = Some (res, [], 1)" by blast
  have "(1::nat) \<noteq> 0" "case declared_length (rq_headers (rr_request sample_post)) of None \<Rightarrow> True | Some n \<Rightarrow> length (collected (rr_body sample_post)) \<le> n"
    by code_simp+
  note u = database_change_admitted [OF r this]
  have "is_json_request (rq_headers ?req)" by code_simp
  with u show ?thesis by (auto simp: sample_post_def)
qed

text \<open>The limit counts before the credentials are looked at: a request that fails to authenticate uses up its quota.\<close>

lemma rejected_request_counted:
  assumes "rate_limit_middleware st req remote now rt = Some (Inr (), rt')" "auth_middleware w (auth_view st revoked) req = Inl e"
  shows "through_layers lossy layer w revoked st req b remote now rt = Some (Inl e, [], rt')"
  using assms by (simp add: through_layers_def)

text \<open>Without authentication the context names the empty user, not none.\<close>

lemma anonymous_user_empty: "rr_info r = None \<Longrightarrow> rc_user_id (request_context_of r) = Some []"
  by (simp add: request_context_of_def auth_info_anonymous_def)

text \<open>A body that is no JSON is the same as no body.\<close>

lemma malformed_json_missing:
  "is_json_request headers \<Longrightarrow> length bytes \<le> n \<Longrightarrow> parse bytes = None \<Longrightarrow> json_body parse n headers (Inr bytes) = Inr None"
  by (simp add: json_body_def to_bytes_def)

text \<open>With uploads no POST, PUT or PATCH of a media endpoint reaches the handler of its other actions.\<close>

lemma uploads_shadow_media:
  "ep_action e = ActMedia \<Longrightarrow> media_uploads e \<Longrightarrow> r \<in> set (map (endpoint_route p e cors) (ep_methods e)) \<Longrightarrow>
     rt_method r \<in> {Post, Put, Patch} \<Longrightarrow> rt_handler r = MediaUploadHandler"
  by (auto simp: endpoint_route_def handler_for_def)

text \<open>Two endpoints for one method and path, which the validation accepts, give overlapping routes.\<close>

lemma distinct_twice: "x \<in> set b \<Longrightarrow> x \<in> set d \<Longrightarrow> \<not> distinct (a @ b @ c @ d @ e)"
  by auto

lemma same_endpoint_twice:
  assumes "ac_endpoints config = xs @ e1 # ys @ e2 # zs" "route_path e1 = route_path e2" "m \<in> set (ep_methods e1)" "m \<in> set (ep_methods e2)"
  shows "routes_overlap (all_routes config)"
proof -
  have "(route_path e, m) \<in> (\<lambda>r. (rt_path r, rt_method r)) ` set (register_all_routes cors e)" if "m \<in> set (ep_methods e)" for e cors
    using that by (force simp: register_all_routes_def endpoint_route_def Let_def)
  note k = this [OF assms(3), of "ac_cors config", unfolded assms(2)] this [OF assms(4), of "ac_cors config"]
  let ?f = "\<lambda>r. (rt_path r, rt_method r)"
  let ?R = "\<lambda>es. concat (map (register_all_routes (ac_cors config)) es)"
  have "all_routes config = (system_routes (ac_auth config) @ ?R xs) @ register_all_routes (ac_cors config) e1 @ ?R ys
      @ register_all_routes (ac_cors config) e2 @ ?R zs"
    by (simp add: all_routes_def assms(1))
  then have "map ?f (all_routes config) = map ?f (system_routes (ac_auth config) @ ?R xs) @ map ?f (register_all_routes (ac_cors config) e1)
      @ map ?f (?R ys) @ map ?f (register_all_routes (ac_cors config) e2) @ map ?f (?R zs)"
    by simp
  moreover have "\<not> distinct (map ?f (system_routes (ac_auth config) @ ?R xs) @ map ?f (register_all_routes (ac_cors config) e1)
      @ map ?f (?R ys) @ map ?f (register_all_routes (ac_cors config) e2) @ map ?f (?R zs))"
    by (rule distinct_twice [of "(route_path e2, m)"]) (use k in \<open>simp_all only: list.set_map\<close>)
  ultimately show ?thesis by (simp only: routes_overlap_def not_True_eq_False not_False_eq_True)
qed

end
