(* ===== verification/Native_Store.thy ===== *)
theory Native_Store
  imports Storage Path_Helpers
begin

text \<open>
  The native backend (src/storage/backend/native.rs): every operation of the storage trait as the calls of
  \<open>tokio::fs\<close> it makes, on the path resolved against the root. What the operating system does is a record of functions;
  an I/O error is its text, a directory is read as the sequence of what \<open>next_entry\<close> gives.
\<close>

section \<open>The operating system\<close>

record os_meta =
  om_is_file :: bool
  om_is_dir :: bool
  om_len :: nat
  om_created :: "int option"
  om_modified :: "int option"
  om_mode :: nat
  om_uid :: nat
  om_gid :: nat

type_synonym dir_item = "string \<times> path \<times> (string, os_meta) result"
type_synonym 's os_effect = "'s \<Rightarrow> (string, unit) result \<times> 's"

record 's os_calls =
  os_try_exists :: "path \<Rightarrow> 's \<Rightarrow> (string, bool) result"
  os_metadata :: "path \<Rightarrow> 's \<Rightarrow> (string, os_meta) result"
  os_read :: "path \<Rightarrow> 's \<Rightarrow> (string, string) result"
  os_open :: "path \<Rightarrow> 's \<Rightarrow> (string, string) result"
  os_seek :: "path \<Rightarrow> nat \<Rightarrow> 's \<Rightarrow> (string, unit) result"
  os_read_dir :: "path \<Rightarrow> 's \<Rightarrow> (string, (string, dir_item) result list) result"
  os_canonicalize :: "path \<Rightarrow> 's \<Rightarrow> (string, path) result"
  os_write :: "path \<Rightarrow> string \<Rightarrow> 's os_effect"
  os_open_append :: "path \<Rightarrow> 's os_effect"
  os_write_all :: "path \<Rightarrow> string \<Rightarrow> 's os_effect"
  os_sync_all :: "path \<Rightarrow> 's os_effect"
  os_remove_file :: "path \<Rightarrow> 's os_effect"
  os_create_dir :: "path \<Rightarrow> 's os_effect"
  os_create_dir_all :: "path \<Rightarrow> 's os_effect"
  os_remove_dir :: "path \<Rightarrow> 's os_effect"
  os_remove_dir_all :: "path \<Rightarrow> 's os_effect"
  os_rename :: "path \<Rightarrow> path \<Rightarrow> 's os_effect"
  os_copy :: "path \<Rightarrow> path \<Rightarrow> 's os_effect"

definition path_absolute :: "path \<Rightarrow> bool" where
  "path_absolute p \<longleftrightarrow> (case p of RootDir # _ \<Rightarrow> True | _ \<Rightarrow> False)"

definition native_resolve :: "path \<Rightarrow> path \<Rightarrow> path" where
  "native_resolve root p = (if path_absolute p then p else path_join root p)"

definition io_error :: "path \<Rightarrow> string \<Rightarrow> storage_error" where
  "io_error resolved e = StIo (path_text resolved) e"

definition io_result :: "path \<Rightarrow> (string, 'a) result \<Rightarrow> (storage_error, 'a) result" where
  "io_result resolved r = (case r of Inl e \<Rightarrow> Inl (io_error resolved e) | Inr x \<Rightarrow> Inr x)"

definition io_effect :: "path \<Rightarrow> 's os_effect \<Rightarrow> 's \<Rightarrow> (storage_error, unit) result \<times> 's" where
  "io_effect resolved f s = (case f s of (r, s') \<Rightarrow> (io_result resolved r, s'))"

section \<open>Operations\<close>

definition native_exists :: "'s os_calls \<Rightarrow> path \<Rightarrow> 's \<Rightarrow> path \<Rightarrow> bool" where
  "native_exists os root s p = (case os_try_exists os (native_resolve root p) s of Inl _ \<Rightarrow> False | Inr b \<Rightarrow> b)"

definition native_is_file :: "'s os_calls \<Rightarrow> path \<Rightarrow> 's \<Rightarrow> path \<Rightarrow> bool" where
  "native_is_file os root s p = (case os_metadata os (native_resolve root p) s of Inl _ \<Rightarrow> False | Inr m \<Rightarrow> om_is_file m)"

definition native_is_dir :: "'s os_calls \<Rightarrow> path \<Rightarrow> 's \<Rightarrow> path \<Rightarrow> bool" where
  "native_is_dir os root s p = (case os_metadata os (native_resolve root p) s of Inl _ \<Rightarrow> False | Inr m \<Rightarrow> om_is_dir m)"

definition native_read :: "'s os_calls \<Rightarrow> path \<Rightarrow> 's \<Rightarrow> path \<Rightarrow> (storage_error, string) result" where
  "native_read os root s p = (let resolved = native_resolve root p in io_result resolved (os_read os resolved s))"

definition native_open :: "'s os_calls \<Rightarrow> path \<Rightarrow> 's \<Rightarrow> path \<Rightarrow> (storage_error, string) result" where
  "native_open os root s p = (let resolved = native_resolve root p in io_result resolved (os_open os resolved s))"

definition native_seek_read :: "'s os_calls \<Rightarrow> path \<Rightarrow> 's \<Rightarrow> path \<Rightarrow> nat \<Rightarrow> (storage_error, string) result" where
  "native_seek_read os root s p offset =
     (let resolved = native_resolve root p in
      case os_open os resolved s of
        Inl e \<Rightarrow> Inl (io_error resolved e)
      | Inr contents \<Rightarrow> (case os_seek os resolved offset s of Inl e \<Rightarrow> Inl (io_error resolved e) | Inr _ \<Rightarrow> Inr (drop offset contents)))"

definition native_write :: "'s os_calls \<Rightarrow> path \<Rightarrow> path \<Rightarrow> string \<Rightarrow> 's \<Rightarrow> (storage_error, unit) result \<times> 's" where
  "native_write os root p contents = (let resolved = native_resolve root p in io_effect resolved (os_write os resolved contents))"

definition native_append :: "'s os_calls \<Rightarrow> path \<Rightarrow> path \<Rightarrow> string \<Rightarrow> 's \<Rightarrow> (storage_error, unit) result \<times> 's" where
  "native_append os root p contents s =
     (let resolved = native_resolve root p in
      case os_open_append os resolved s of
        (Inl e, s1) \<Rightarrow> (Inl (io_error resolved e), s1)
      | (Inr _, s1) \<Rightarrow>
          (case os_write_all os resolved contents s1 of
             (Inl e, s2) \<Rightarrow> (Inl (io_error resolved e), s2)
           | (Inr _, s2) \<Rightarrow> io_effect resolved (os_sync_all os resolved) s2))"

definition native_delete :: "'s os_calls \<Rightarrow> path \<Rightarrow> path \<Rightarrow> 's \<Rightarrow> (storage_error, unit) result \<times> 's" where
  "native_delete os root p = (let resolved = native_resolve root p in io_effect resolved (os_remove_file os resolved))"

definition native_metadata :: "'s os_calls \<Rightarrow> path \<Rightarrow> 's \<Rightarrow> path \<Rightarrow> (storage_error, file_metadata) result" where
  "native_metadata os root s p =
     (let resolved = native_resolve root p in
      case os_metadata os resolved s of
        Inl e \<Rightarrow> Inl (io_error resolved e)
      | Inr m \<Rightarrow> Inr (file_metadata_new (unwrap_or (file_name p) []) (om_is_file m) (om_len m)
                       \<lparr> fm_created := om_created m, fm_modified := om_modified m \<rparr>))"

text \<open>The loop ends at the first entry that cannot be read; an entry whose metadata cannot be read fails the listing.\<close>

fun native_entries :: "path \<Rightarrow> (string, dir_item) result list \<Rightarrow> (storage_error, dir_entry list) result" where
  "native_entries resolved [] = Inr []"
| "native_entries resolved (Inl e # _) = Inr []"
| "native_entries resolved (Inr (name, p, Inl e) # _) = Inl (io_error resolved e)"
| "native_entries resolved (Inr (name, p, Inr m) # rest) =
     (case native_entries resolved rest of
        Inl e \<Rightarrow> Inl e
      | Inr es \<Rightarrow> Inr ((dir_entry_new name (om_is_dir m) (om_len m))
                          \<lparr> de_path := p, de_mode := om_mode m, de_uid := om_uid m, de_gid := om_gid m, de_modified := om_modified m \<rparr> # es))"

definition native_list :: "'s os_calls \<Rightarrow> path \<Rightarrow> 's \<Rightarrow> path \<Rightarrow> (storage_error, dir_entry list) result" where
  "native_list os root s p =
     (let resolved = native_resolve root p in
      case os_read_dir os resolved s of Inl e \<Rightarrow> Inl (io_error resolved e) | Inr items \<Rightarrow> native_entries resolved items)"

definition native_create_dir :: "'s os_calls \<Rightarrow> path \<Rightarrow> path \<Rightarrow> 's \<Rightarrow> (storage_error, unit) result \<times> 's" where
  "native_create_dir os root p = (let resolved = native_resolve root p in io_effect resolved (os_create_dir os resolved))"

definition native_create_dir_all :: "'s os_calls \<Rightarrow> path \<Rightarrow> path \<Rightarrow> 's \<Rightarrow> (storage_error, unit) result \<times> 's" where
  "native_create_dir_all os root p = (let resolved = native_resolve root p in io_effect resolved (os_create_dir_all os resolved))"

definition native_remove_dir :: "'s os_calls \<Rightarrow> path \<Rightarrow> path \<Rightarrow> 's \<Rightarrow> (storage_error, unit) result \<times> 's" where
  "native_remove_dir os root p = (let resolved = native_resolve root p in io_effect resolved (os_remove_dir os resolved))"

definition native_remove_dir_all :: "'s os_calls \<Rightarrow> path \<Rightarrow> path \<Rightarrow> 's \<Rightarrow> (storage_error, unit) result \<times> 's" where
  "native_remove_dir_all os root p = (let resolved = native_resolve root p in io_effect resolved (os_remove_dir_all os resolved))"

definition native_rename :: "'s os_calls \<Rightarrow> path \<Rightarrow> path \<Rightarrow> path \<Rightarrow> 's \<Rightarrow> (storage_error, unit) result \<times> 's" where
  "native_rename os root p q =
     (let resolved = native_resolve root p in io_effect resolved (os_rename os resolved (native_resolve root q)))"

definition native_copy :: "'s os_calls \<Rightarrow> path \<Rightarrow> path \<Rightarrow> path \<Rightarrow> 's \<Rightarrow> (storage_error, unit) result \<times> 's" where
  "native_copy os root p q =
     (let resolved = native_resolve root p in io_effect resolved (os_copy os resolved (native_resolve root q)))"

definition native_canonicalize :: "'s os_calls \<Rightarrow> path \<Rightarrow> 's \<Rightarrow> path \<Rightarrow> (storage_error, path) result" where
  "native_canonicalize os root s p =
     (let resolved = native_resolve root p in io_result resolved (os_canonicalize os resolved s))"

definition native_size :: "'s os_calls \<Rightarrow> path \<Rightarrow> 's \<Rightarrow> path \<Rightarrow> (storage_error, nat) result" where
  "native_size os root s p =
     (let resolved = native_resolve root p in
      case os_metadata os resolved s of Inl e \<Rightarrow> Inl (io_error resolved e) | Inr m \<Rightarrow> Inr (om_len m))"

definition native_storage :: "'s os_calls \<Rightarrow> path \<Rightarrow> 's storage" where
  "native_storage os root = \<lparr> st_exists = native_exists os root, st_is_file = native_is_file os root, st_is_dir = native_is_dir os root,
     st_read = native_read os root, st_seek_read = native_seek_read os root, st_metadata = native_metadata os root,
     st_list = native_list os root, st_size = native_size os root, st_canonicalize = native_canonicalize os root,
     st_write = native_write os root, st_append = native_append os root, st_delete = native_delete os root,
     st_create_dir = native_create_dir os root, st_create_dir_all = native_create_dir_all os root,
     st_remove_dir = native_remove_dir os root, st_remove_dir_all = native_remove_dir_all os root,
     st_rename = native_rename os root, st_copy = native_copy os root, st_root_path = Some root \<rparr>"

section \<open>Where the operating system is called\<close>

lemma join_relative: "\<not> path_absolute p \<Longrightarrow> path_join root p = (if root = [] then p else root @ filter (\<lambda>c. c \<noteq> CurDir) p)"
  by (simp add: path_join_def path_absolute_def split: list.splits component.splits)

text \<open>A path that the check of the handlers accepts reaches the operating system below the root and without a parent
  component, whether the root is absolute or not.\<close>

theorem native_paths_confined:
  assumes "validate_path_within p root = Inr ()"
  shows "prefix root (native_resolve root p) \<and> ParentDir \<notin> set (native_resolve root p)"
proof -
  from assms obtain r where "p = root @ r" "ParentDir \<notin> set p" by (auto simp: validate_path_within_def split: if_splits)
  then show ?thesis by (auto simp: native_resolve_def join_relative)
qed

theorem native_paths_confined_witness:
  "prefix [RootDir, Normal ''srv''] (native_resolve [RootDir, Normal ''srv''] [RootDir, Normal ''srv'', Normal ''a.txt''])"
  using native_paths_confined[of "[RootDir, Normal ''srv'', Normal ''a.txt'']" "[RootDir, Normal ''srv'']"]
  by (simp add: validate_path_within_def)

text \<open>The handlers join the root to what is asked for, and the backend joins it once more.\<close>

lemma native_relative_root_twice:
  assumes "\<not> path_absolute root" "root \<noteq> []" "CurDir \<notin> set root" "\<not> path_absolute r" "CurDir \<notin> set r"
  shows "st_read (native_storage os root) s (path_join (unwrap_or (st_root_path (native_storage os root)) []) r)
    = io_result (root @ root @ r) (os_read os (root @ root @ r) s)"
proof -
  have keep: "filter (\<lambda>c. c \<noteq> CurDir) p = p" if "CurDir \<notin> set p" for p
    using that by (induction p) auto
  have relative: "\<not> path_absolute (root @ r)" using assms(1,2) by (cases root) (auto simp: path_absolute_def split: component.splits)
  have "path_join root r = root @ r" using assms(2,4,5) keep[of r] by (simp add: join_relative)
  moreover have "path_join root (root @ r) = root @ root @ r"
    using assms(2,3,5) relative keep[of "root @ r"] by (simp add: join_relative del: filter_append)
  ultimately show ?thesis using relative by (simp add: native_storage_def native_read_def native_resolve_def Let_def)
qed

text \<open>A file that is missing is a 404 with the in-memory backend and a 500 with this one.\<close>

lemma missing_file_status:
  "native_read os root s p = Inl e \<Longrightarrow> fst (error_status_code (storage_to_app e)) = 500"
  "mem_read m p = Inl e \<Longrightarrow> fst (error_status_code (storage_to_app e)) = 404"
  by (auto simp: native_read_def io_result_def io_error_def Let_def mem_read_def ok_or_def not_found_path_def split: sum.splits option.splits)

lemma native_listing_cut: "native_entries resolved (Inl e # items) = Inr []"
  by simp

end
