(* ===== verification/Cloud_Http.thy ===== *)
theory Cloud_Http
  imports Storage Auth_Types
begin

text \<open>
  What the backends for cloud services share: HTTP requests and responses of the crate reqwest, actions on the
  outside world that stop at the first storage error, and the entries of a listing. A path is its text, since the object
  names keep slashes that a list of components has not. \<open>None\<close> is a panic, or no return.
\<close>

section \<open>Requests\<close>

record web_request =
  wq_method :: string
  wq_url :: string
  wq_headers :: header_map
  wq_body :: "string option"

record web_response =
  wr_status :: nat
  wr_headers :: header_map
  wr_body :: "(string, string) result"

type_synonym 'n web = "web_request \<Rightarrow> 'n \<Rightarrow> (string, web_response) result \<times> 'n"

definition is_success :: "nat \<Rightarrow> bool" where
  "is_success n \<longleftrightarrow> 200 \<le> n \<and> n < 300"

definition is_server_error :: "nat \<Rightarrow> bool" where
  "is_server_error n \<longleftrightarrow> 500 \<le> n \<and> n < 600"

section \<open>Actions\<close>

type_synonym ('n, 'a) cloud = "'n \<Rightarrow> ((storage_error, 'a) result \<times> 'n) option"

definition yielding :: "(storage_error, 'a) result \<Rightarrow> ('n, 'a) cloud" where
  "yielding r n = Some (r, n)"

definition and_then :: "('n, 'a) cloud \<Rightarrow> ('a \<Rightarrow> ('n, 'b) cloud) \<Rightarrow> ('n, 'b) cloud" where
  "and_then m f n =
     (case m n of
        None \<Rightarrow> None
      | Some (Inl e, n') \<Rightarrow> Some (Inl e, n')
      | Some (Inr x, n') \<Rightarrow> f x n')"

text \<open>The result of an action as a value, for \<open>let Ok(...) = ... else\<close> and \<open>.is_ok()\<close>.\<close>

definition attempt :: "('n, 'a) cloud \<Rightarrow> ('n, (storage_error, 'a) result) cloud" where
  "attempt m n = (case m n of None \<Rightarrow> None | Some (r, n') \<Rightarrow> Some (Inr r, n'))"

text \<open>Sending, whose failure becomes an error with this text before the cause.\<close>

definition sending :: "'n web \<Rightarrow> (string \<Rightarrow> storage_error) \<Rightarrow> web_request \<Rightarrow> ('n, web_response) cloud" where
  "sending send failure q n =
     (case send q n of
        (Inl e, n') \<Rightarrow> Some (Inl (failure e), n')
      | (Inr r, n') \<Rightarrow> Some (Inr r, n'))"

definition body_of :: "string \<Rightarrow> web_response \<Rightarrow> (storage_error, string) result" where
  "body_of what r = (case wr_body r of Inl e \<Rightarrow> Inl (StInternal (what @ '': '' @ e)) | Inr b \<Rightarrow> Inr b)"

fun each :: "('x \<Rightarrow> ('n, unit) cloud) \<Rightarrow> 'x list \<Rightarrow> ('n, unit) cloud" where
  "each f [] = yielding (Inr ())"
| "each f (x # xs) = and_then (f x) (\<lambda>_. each f xs)"

text \<open>\<open>let _ = ...\<close>\<close>

definition dropping :: "('n, 'a) cloud \<Rightarrow> ('n, unit) cloud" where
  "dropping m = and_then (attempt m) (\<lambda>_. yielding (Inr ()))"

named_theorems cloud_simps

lemma yielding_run [cloud_simps]: "yielding r n = Some (r, n)" by (simp add: yielding_def)
lemma and_then_Some [cloud_simps]: "m n = Some (Inr x, n') \<Longrightarrow> and_then m f n = f x n'" by (simp add: and_then_def)
lemma and_then_Inl [cloud_simps]: "m n = Some (Inl e, n') \<Longrightarrow> and_then m f n = Some (Inl e, n')" by (simp add: and_then_def)
lemma attempt_Some [cloud_simps]: "m n = Some (r, n') \<Longrightarrow> attempt m n = Some (Inr r, n')" by (simp add: attempt_def)

lemma and_then_InrE:
  assumes "and_then m f n = Some (Inr y, n')"
  obtains x n1 where "m n = Some (Inr x, n1)" "f x n1 = Some (Inr y, n')"
  using assms by (auto simp: and_then_def split: option.splits prod.splits sum.splits)

lemma and_then_assoc: "and_then (and_then m f) g = and_then m (\<lambda>x. and_then (f x) g)"
  by (rule ext) (auto simp: and_then_def split: option.splits prod.splits sum.splits)

lemma and_then_yielding: "and_then (yielding (Inr x)) f = f x" "and_then m (\<lambda>x. yielding (Inr x)) = m"
  by (auto simp: and_then_def yielding_def fun_eq_iff split: option.splits prod.splits sum.splits)

section \<open>Texts of paths\<close>

text \<open>\<open>Path::join\<close> on Unix, on the texts.\<close>

definition text_join :: "string \<Rightarrow> string \<Rightarrow> string" where
  "text_join a b =
     (if starts_with b ''/'' then b
      else if a = [] \<or> ends_with a ''/'' then a @ b
      else a @ ''/'' @ b)"

text \<open>\<open>Path::file_name\<close>, on the text.\<close>

definition text_file_name :: "string \<Rightarrow> string option" where
  "text_file_name p =
     (case filter (\<lambda>s. s \<noteq> [] \<and> s \<noteq> ''.'') (split_on (CHR ''/'') p) of
        [] \<Rightarrow> None
      | s # ss \<Rightarrow> (let f = last (s # ss) in if f = ''..'' then None else Some f))"

definition object_name :: "string \<Rightarrow> string" where
  "object_name p = unwrap_or (strip_prefix ''/'' p) p"

definition with_slash :: "string \<Rightarrow> string" where
  "with_slash name = (if ends_with name ''/'' then name else name @ ''/'')"

definition last_segment :: "string \<Rightarrow> string" where
  "last_segment s = last (split_on (CHR ''/'') s)"

lemma last_segment_no_slash: "CHR ''/'' \<notin> set (last_segment s)"
  unfolding last_segment_def
  by (metis split_on_no_sep last_in_set split_on_not_Nil)

lemma join_snoc: "xs \<noteq> [] \<Longrightarrow> join sep (xs @ [x]) = join sep xs @ sep @ x"
  by (induction sep xs rule: join.induct) (auto simp: join_Cons)

lemma last_segment_nonempty:
  assumes "s \<noteq> []" "last s \<noteq> CHR ''/''"
  shows "last_segment s \<noteq> []"
proof
  let ?ps = "split_on (CHR ''/'') s"
  assume "last_segment s = []"
  then have ps: "?ps = butlast ?ps @ [[]]"
    unfolding last_segment_def by (metis append_butlast_last_id split_on_not_Nil)
  show False
  proof (cases "butlast ?ps = []")
    case True
    with ps have "s = join ''/'' [[]]" by (metis append_Nil join_split_on)
    with assms(1) show False by simp
  next
    case False
    have "s = join ''/'' (butlast ?ps @ [[]])" using ps by (metis join_split_on)
    then have "s = join ''/'' (butlast ?ps) @ ''/''" by (simp add: join_snoc[OF False])
    then have "last s = CHR ''/''" by (metis last_snoc)
    with assms(2) show False by simp
  qed
qed

lemma in_map_filter: "y \<in> set (List.map_filter f xs) \<longleftrightarrow> (\<exists>x \<in> set xs. f x = Some y)"
  by (force simp: List.map_filter_def)

record cloud_entry =
  ce_name :: string
  ce_is_dir :: bool
  ce_size :: nat
  ce_path :: string
  ce_modified :: "int option"

definition cloud_entry_of :: "string \<Rightarrow> bool \<Rightarrow> nat \<Rightarrow> string \<Rightarrow> cloud_entry" where
  "cloud_entry_of name is_dir n p = \<lparr> ce_name = name, ce_is_dir = is_dir, ce_size = n, ce_path = p, ce_modified = None \<rparr>"

end
