(* ===== verification/Azure_Store.thy ===== *)
theory Azure_Store
  imports Cloud_Http App_Config
begin

text \<open>
  The Azure backend (src/storage/backend/azure.rs) on the REST interface of the service: signing with the account
  key, every operation of the storage trait as the requests it sends, and the listing of a directory. The service is
  a function of the request and its state; SHA-256, base64, percent-encoding, XML and dates belong to their crates.
\<close>

unbundle bit_operations_syntax

section \<open>The store\<close>

record azure_store =
  azs_account_name :: string
  azs_account_key :: string
  azs_container :: string

record azure_list =
  al_blobs :: "(string \<times> string option) list option"
  al_prefixes :: "string list"

text \<open>\<open>ae_stamp\<close>: the request identifier and the time that a request drawn in this state of the world gets;
  \<open>ae_sleep\<close>: half a second passes.\<close>

record 'n azure_env =
  ae_send :: "'n web"
  ae_stamp :: "'n \<Rightarrow> string \<times> string"
  ae_sha256 :: "string \<Rightarrow> string"
  ae_b64_decode :: "string \<Rightarrow> string option"
  ae_b64_encode :: "string \<Rightarrow> string"
  ae_percent :: "string \<Rightarrow> string"
  ae_parse_xml :: "string \<Rightarrow> (string, azure_list) result"
  ae_parse_date :: "string \<Rightarrow> int option"
  ae_parse_int_error :: "string \<Rightarrow> string"
  ae_show_status :: "nat \<Rightarrow> string"
  ae_sleep :: "'n \<Rightarrow> 'n"

definition azure_new :: "store_config \<Rightarrow> (storage_error, azure_store) result" where
  "azure_new config =
     (case sto_azure config of
        None \<Rightarrow> Inl (StInvalidBackend ''azure config section must be present for azure backend'')
      | Some az \<Rightarrow> Inr \<lparr> azs_account_name = az_account_name az, azs_account_key = az_account_key az, azs_container = az_container az \<rparr>)"

definition azure_base_url :: "azure_store \<Rightarrow> string" where
  "azure_base_url st = ''https://'' @ azs_account_name st @ ''.blob.core.windows.net/'' @ azs_container st"

definition azure_blob_url :: "'n azure_env \<Rightarrow> azure_store \<Rightarrow> string \<Rightarrow> string \<Rightarrow> string" where
  "azure_blob_url env st blob query =
     (if query = [] then azure_base_url st @ ''/'' @ ae_percent env blob
      else azure_base_url st @ ''/'' @ ae_percent env blob @ ''?'' @ query)"

section \<open>Signing\<close>

abbreviation newline :: char where
  "newline \<equiv> CHR 0x0A"

definition canonicalized_headers :: "string \<Rightarrow> string \<Rightarrow> string" where
  "canonicalized_headers request_id timestamp =
     concat (sort (map (\<lambda>(k, v). lowercase k @ '':'' @ v @ [newline])
       [(''x-ms-client-request-id'', request_id), (''x-ms-date'', timestamp), (''x-ms-version'', ''2023-11-03'')]))"

definition canonicalized_resource :: "azure_store \<Rightarrow> string \<Rightarrow> string \<Rightarrow> string" where
  "canonicalized_resource st blob query =
     ''/'' @ azs_account_name st @ ''/'' @ azs_container st @ ''/'' @ blob @ (if query = [] then [] else newline # query)"

definition xor_byte :: "char \<Rightarrow> char \<Rightarrow> char" where
  "xor_byte c d = char_of (unat ((of_char c :: 8 word) XOR of_char d))"

text \<open>A pad of 64 bytes, each changed as long as the key goes; an index past the end of the padded key panics.\<close>

definition keyed_pad :: "string \<Rightarrow> string \<Rightarrow> char \<Rightarrow> string option" where
  "keyed_pad key k b =
     those (map (\<lambda>i. if i < length key then (if i < length k then Some (xor_byte b (k ! i)) else None) else Some b) [0..<64])"

definition compute_hmac_sha256 :: "(string \<Rightarrow> string) \<Rightarrow> string \<Rightarrow> string \<Rightarrow> string option" where
  "compute_hmac_sha256 sha256 key message =
     (let k = (if 64 < length key then sha256 key else key @ replicate (64 - length key) (CHR 0x00)) in
      case (keyed_pad key k (CHR 0x36), keyed_pad key k (CHR 0x5C)) of
        (Some ipad, Some opad) \<Rightarrow> Some (sha256 (opad @ sha256 (ipad @ message)))
      | _ \<Rightarrow> None)"

definition sign_request :: "'n azure_env \<Rightarrow> azure_store \<Rightarrow> string \<Rightarrow> nat \<Rightarrow> string \<Rightarrow> string \<Rightarrow> (storage_error, string) result option" where
  "sign_request env st verb n headers resource =
     (let text = verb @ replicate 3 newline @ show_nat n @ replicate 10 newline @ headers @ [newline] @ resource @ [newline] in
      case ae_b64_decode env (azs_account_key st) of
        None \<Rightarrow> Some (Inl (StAuthentication ''Invalid base64 in account key''))
      | Some key \<Rightarrow>
          (case compute_hmac_sha256 (ae_sha256 env) key text of
             None \<Rightarrow> None
           | Some signature \<Rightarrow> Some (Inr (''SharedKey '' @ azs_account_name st @ '':'' @ ae_b64_encode env signature))))"

definition parse_canonicalized_headers :: "string \<Rightarrow> header_map" where
  "parse_canonicalized_headers s = List.map_filter (split_once (CHR '':'')) (filter (\<lambda>l. l \<noteq> [])
       (map (\<lambda>l. unwrap_or (strip_suffix [CHR 0x0D] l) l) (split_on newline s)))"

section \<open>Requests and responses\<close>

text \<open>\<open>extra\<close>: the headers between the type of the blob and the signed ones.\<close>

definition azure_send :: "'n azure_env \<Rightarrow> azure_store \<Rightarrow> string \<Rightarrow> string \<Rightarrow> string \<Rightarrow> header_map \<Rightarrow> string option \<Rightarrow> ('n, web_response) cloud" where
  "azure_send env st meth blob query extra body n =
     (case ae_stamp env n of (request_id, timestamp) \<Rightarrow>
        (let headers = canonicalized_headers request_id timestamp in
         case sign_request env st meth (case body of None \<Rightarrow> 0 | Some b \<Rightarrow> length b) headers (canonicalized_resource st blob query) of
           None \<Rightarrow> None
         | Some (Inl e) \<Rightarrow> Some (Inl e, n)
         | Some (Inr auth) \<Rightarrow>
             sending (ae_send env) (\<lambda>e. StServiceUnavailable (''Azure request failed: '' @ e))
               \<lparr> wq_method = meth, wq_url = azure_blob_url env st blob query,
                 wq_headers = [(''authorization'', auth), (''x-ms-blob-type'', ''BlockBlob'')] @ extra @ parse_canonicalized_headers headers,
                 wq_body = body \<rparr> n))"

definition azure_request :: "'n azure_env \<Rightarrow> azure_store \<Rightarrow> string \<Rightarrow> string \<Rightarrow> string \<Rightarrow> string option \<Rightarrow> ('n, web_response) cloud" where
  "azure_request env st meth blob query body = azure_send env st meth blob query [] body"

definition handle_response :: "'n azure_env \<Rightarrow> string \<Rightarrow> web_response \<Rightarrow> (storage_error, web_response) result" where
  "handle_response env blob r =
     (let status = wr_status r in
      if status \<in> {200, 201, 204, 202, 409} then Inr r
      else if status = 404 then Inl (StNotFound blob)
      else if status \<in> {403, 401} then Inl (StAuthentication ''Azure authentication failed'')
      else if status = 429 then Inl (StServiceUnavailable ''Azure rate limited'')
      else if is_server_error status then Inl (StServiceUnavailable (''Azure service error: '' @ ae_show_status env status))
      else Inr r)"

definition azure_call :: "'n azure_env \<Rightarrow> azure_store \<Rightarrow> string \<Rightarrow> string \<Rightarrow> string \<Rightarrow> string option \<Rightarrow> ('n, web_response) cloud" where
  "azure_call env st meth blob query body =
     and_then (azure_request env st meth blob query body) (\<lambda>r. yielding (handle_response env blob r))"

text \<open>One blob of a listing: a file directly in the directory, or the first segment of a deeper one.\<close>

definition list_blob :: "string \<Rightarrow> string \<times> string option \<Rightarrow> (string \<times> nat) list \<times> string list \<Rightarrow> (string \<times> nat) list \<times> string list" where
  "list_blob pre blob acc =
     (case (blob, acc) of ((name, content_length), (files, dirs)) \<Rightarrow>
        if name = pre then acc
        else
          (case strip_prefix pre name of
             None \<Rightarrow> acc
           | Some rest \<Rightarrow>
               (let sfx = unwrap_or (strip_prefix ''/'' rest) rest in
                case split_once (CHR ''/'') sfx of
                  Some (dir, _) \<Rightarrow> (files, if dir \<in> set dirs then dirs else dirs @ [dir])
                | None \<Rightarrow>
                    if sfx = [] then acc
                    else (files @ [(sfx, unwrap_or (case content_length of None \<Rightarrow> None | Some s \<Rightarrow> parse_u64 s) 0)], dirs))))"

definition list_prefix :: "string \<Rightarrow> string \<Rightarrow> string list \<Rightarrow> string list" where
  "list_prefix pre name dirs =
     (case strip_prefix pre name of
        None \<Rightarrow> dirs
      | Some sfx \<Rightarrow>
          (let dir = trim_end_char (CHR ''/'') sfx in if dir \<noteq> [] \<and> dir \<notin> set dirs then dirs @ [dir] else dirs))"

definition parse_list_xml :: "'n azure_env \<Rightarrow> string \<Rightarrow> string \<Rightarrow> (storage_error, (string \<times> nat) list \<times> string list) result" where
  "parse_list_xml env xml pre =
     (case ae_parse_xml env xml of
        Inl e \<Rightarrow> Inl (StInternal (''Failed to parse Azure list response: '' @ e))
      | Inr doc \<Rightarrow>
          (let p = trim_end_char (CHR ''/'') pre in
           case fold (list_blob p) (unwrap_or (al_blobs doc) []) ([], []) of
             (files, dirs) \<Rightarrow> Inr (files, fold (list_prefix p) (al_prefixes doc) dirs)))"

definition list_query :: "string \<Rightarrow> string" where
  "list_query pre = ''restype=container&comp=list&delimiter=/&prefix='' @ pre"

definition dir_prefix :: "string \<Rightarrow> string" where
  "dir_prefix blob = (if blob = [] then [] else blob @ ''/'')"

definition listing :: "'n azure_env \<Rightarrow> string \<Rightarrow> string \<Rightarrow> web_response \<Rightarrow> (storage_error, (string \<times> nat) list \<times> string list) result" where
  "listing env what pre r = (case body_of what r of Inl e \<Rightarrow> Inl e | Inr xml \<Rightarrow> parse_list_xml env xml pre)"

section \<open>Operations\<close>

definition azure_exists :: "'n azure_env \<Rightarrow> azure_store \<Rightarrow> string \<Rightarrow> ('n, bool) cloud" where
  "azure_exists env st p =
     and_then (attempt (azure_request env st ''HEAD'' (object_name p) ''comp=properties'' None)) (\<lambda>r.
       yielding (Inr (case r of Inl _ \<Rightarrow> False | Inr resp \<Rightarrow> is_ok (handle_response env (object_name p) resp))))"

definition azure_is_file :: "'n azure_env \<Rightarrow> azure_store \<Rightarrow> string \<Rightarrow> ('n, bool) cloud" where
  "azure_is_file = azure_exists"

definition azure_is_dir :: "'n azure_env \<Rightarrow> azure_store \<Rightarrow> string \<Rightarrow> ('n, bool) cloud" where
  "azure_is_dir env st p =
     (let pre = dir_prefix (object_name p) in
      and_then (attempt (azure_request env st ''GET'' [] (list_query pre) None)) (\<lambda>r.
        yielding (Inr (case r of
            Inl _ \<Rightarrow> False
          | Inr resp \<Rightarrow>
              (case handle_response env (object_name p) resp of
                 Inl _ \<Rightarrow> False
               | Inr ok \<Rightarrow> (case listing env [] pre ok of Inl _ \<Rightarrow> False | Inr (files, dirs) \<Rightarrow> files \<noteq> [] \<or> dirs \<noteq> []))))))"

definition azure_read :: "'n azure_env \<Rightarrow> azure_store \<Rightarrow> string \<Rightarrow> ('n, string) cloud" where
  "azure_read env st p =
     and_then (azure_call env st ''GET'' (object_name p) ''comp=properties'' None) (\<lambda>r.
       yielding (body_of ''Failed to read response body'' r))"

definition azure_open :: "'n azure_env \<Rightarrow> azure_store \<Rightarrow> string \<Rightarrow> ('n, string) cloud" where
  "azure_open = azure_read"

text \<open>Not through \<open>handle_response\<close>: what the service answers is what is read.\<close>

definition azure_seek_read :: "'n azure_env \<Rightarrow> azure_store \<Rightarrow> string \<Rightarrow> nat \<Rightarrow> ('n, string) cloud" where
  "azure_seek_read env st p offset =
     and_then (azure_send env st ''GET'' (object_name p) ''comp=properties'' [(''range'', ''bytes='' @ show_nat offset @ ''-'')] None) (\<lambda>r.
       yielding (body_of ''Failed to read response body'' r))"

definition azure_write :: "'n azure_env \<Rightarrow> azure_store \<Rightarrow> string \<Rightarrow> string \<Rightarrow> ('n, unit) cloud" where
  "azure_write env st p contents =
     and_then (azure_call env st ''PUT'' (object_name p) ''comp=blockblob'' (Some contents)) (\<lambda>_. yielding (Inr ()))"

definition azure_append :: "'n azure_env \<Rightarrow> azure_store \<Rightarrow> string \<Rightarrow> string \<Rightarrow> ('n, unit) cloud" where
  "azure_append env st p contents =
     and_then (attempt (azure_request env st ''HEAD'' (object_name p) ''comp=properties'' None)) (\<lambda>h.
       case h of
         Inl _ \<Rightarrow> azure_write env st p contents
       | Inr head \<Rightarrow>
           and_then
             (if is_success (wr_status head)
              then and_then (azure_call env st ''GET'' (object_name p) ''comp=properties'' None) (\<lambda>r.
                     yielding (body_of ''Failed to read existing blob'' r))
              else yielding (Inr []))
             (\<lambda>existing. azure_write env st p (existing @ contents)))"

definition azure_delete :: "'n azure_env \<Rightarrow> azure_store \<Rightarrow> string \<Rightarrow> ('n, unit) cloud" where
  "azure_delete env st p = and_then (azure_call env st ''DELETE'' (object_name p) [] None) (\<lambda>_. yielding (Inr ()))"

definition blob_length :: "web_response \<Rightarrow> string" where
  "blob_length r = unwrap_or (header_str ''x-ms-blob-content-length'' (wr_headers r)) ''0''"

definition azure_metadata :: "'n azure_env \<Rightarrow> azure_store \<Rightarrow> string \<Rightarrow> ('n, file_metadata) cloud" where
  "azure_metadata env st p =
     and_then (azure_call env st ''HEAD'' (object_name p) ''comp=properties'' None) (\<lambda>r.
       yielding (Inr \<lparr> fm_name = unwrap_or (text_file_name p) p, fm_is_file = True,
                       fm_size = unwrap_or (parse_u64 (blob_length r)) 0, fm_created = None,
                       fm_modified = Option.bind (header_str ''x-ms-last-modified'' (wr_headers r)) (ae_parse_date env) \<rparr>))"

definition entries_of :: "string \<Rightarrow> (string \<times> nat) list \<times> string list \<Rightarrow> cloud_entry list" where
  "entries_of pre found =
     (case found of (files, dirs) \<Rightarrow>
        map (\<lambda>(f, n). cloud_entry_of f False n (pre @ f)) files @ map (\<lambda>d. cloud_entry_of d True 0 (pre @ d)) dirs)"

definition azure_list_dir :: "'n azure_env \<Rightarrow> azure_store \<Rightarrow> string \<Rightarrow> ('n, cloud_entry list) cloud" where
  "azure_list_dir env st p =
     (let blob = object_name p; pre = (if blob = [] \<or> blob = ''/'' then [] else blob @ ''/'') in
      and_then (azure_request env st ''GET'' [] (list_query pre) None) (\<lambda>r.
      and_then (yielding (handle_response env [] r)) (\<lambda>ok.
      and_then (yielding (listing env ''Failed to read list response body'' pre ok)) (\<lambda>found.
        yielding (Inr (entries_of pre found))))))"

definition azure_create_dir :: "'n azure_env \<Rightarrow> azure_store \<Rightarrow> string \<Rightarrow> ('n, unit) cloud" where
  "azure_create_dir env st p =
     (let blob = object_name p in azure_write env st (if blob \<noteq> [] \<and> \<not> ends_with blob ''/'' then blob @ ''/'' else blob) [])"

definition azure_create_dir_all :: "'n azure_env \<Rightarrow> azure_store \<Rightarrow> string \<Rightarrow> ('n, unit) cloud" where
  "azure_create_dir_all env st p =
     (let pre = dir_prefix (object_name p) in
      and_then (attempt (azure_request env st ''GET'' [] (list_query pre) None)) (\<lambda>r.
        case r of
          Inl _ \<Rightarrow> azure_create_dir env st p
        | Inr resp \<Rightarrow>
            if is_success (wr_status resp)
            then and_then (yielding (listing env ''Failed to read list response'' pre resp)) (\<lambda>(files, dirs).
                   if files \<noteq> [] \<or> dirs \<noteq> [] then yielding (Inr ()) else azure_create_dir env st p)
            else azure_create_dir env st p))"

definition delete_files :: "'n azure_env \<Rightarrow> azure_store \<Rightarrow> string \<Rightarrow> (string \<times> nat) list \<Rightarrow> ('n, unit) cloud" where
  "delete_files env st pre files = each (\<lambda>(f, _). azure_delete env st (pre @ f)) files"

definition azure_remove_dir :: "'n azure_env \<Rightarrow> azure_store \<Rightarrow> string \<Rightarrow> ('n, unit) cloud" where
  "azure_remove_dir env st p =
     (let blob = object_name p; pre = dir_prefix blob in
      and_then (azure_request env st ''GET'' [] (list_query pre) None) (\<lambda>r.
      and_then (yielding (handle_response env [] r)) (\<lambda>ok.
      and_then
        (if is_success (wr_status ok)
         then and_then (yielding (listing env ''Failed to read list response'' pre ok)) (\<lambda>(files, _). delete_files env st pre files)
         else yielding (Inr ()))
        (\<lambda>_. azure_delete env st (blob @ ''/'')))))"

text \<open>One round of \<open>remove_dir_all\<close>: whether to go round again.\<close>

definition remove_below :: "'n azure_env \<Rightarrow> azure_store \<Rightarrow> string \<Rightarrow> ('n, unit) cloud" where
  "remove_below env st pre =
     and_then (attempt (azure_request env st ''GET'' [] (list_query pre) None)) (\<lambda>r.
       case r of
         Inl _ \<Rightarrow> yielding (Inr ())
       | Inr resp \<Rightarrow>
           if is_success (wr_status resp)
           then and_then (yielding (listing env ''Failed to read list'' pre resp)) (\<lambda>(files, _). delete_files env st pre files)
           else yielding (Inr ()))"

definition remove_round :: "'n azure_env \<Rightarrow> azure_store \<Rightarrow> string \<Rightarrow> ('n, bool) cloud" where
  "remove_round env st pre =
     and_then (attempt (azure_request env st ''GET'' [] (list_query pre) None)) (\<lambda>r.
       case r of
         Inl _ \<Rightarrow> yielding (Inr False)
       | Inr resp \<Rightarrow>
           if \<not> is_success (wr_status resp) then yielding (Inr False)
           else
             and_then (yielding (listing env ''Failed to read list response'' pre resp)) (\<lambda>(files, sub_dirs).
             and_then (delete_files env st pre files) (\<lambda>_.
               if sub_dirs = [] then yielding (Inr False)
               else and_then (each (remove_below env st) (map (\<lambda>d. pre @ d @ ''/'') sub_dirs)) (\<lambda>_. yielding (Inr True)))))"

partial_function (option) remove_rounds :: "'n azure_env \<Rightarrow> azure_store \<Rightarrow> string \<Rightarrow> 'n \<Rightarrow> ((storage_error, unit) result \<times> 'n) option" where
  "remove_rounds env st pre n =
     Option.bind (remove_round env st pre n)
       (\<lambda>(r, n'). case r of Inl e \<Rightarrow> Some (Inl e, n') | Inr again \<Rightarrow> if again then remove_rounds env st pre n' else Some (Inr (), n'))"

definition azure_remove_dir_all :: "'n azure_env \<Rightarrow> azure_store \<Rightarrow> string \<Rightarrow> ('n, unit) cloud" where
  "azure_remove_dir_all env st p = remove_rounds env st (dir_prefix (object_name p))"

text \<open>Waiting for a copy, in the 60 rounds of both operations: \<open>enough\<close> ends the wait, \<open>failure\<close> fails it.\<close>

definition copy_status :: "web_response \<Rightarrow> string" where
  "copy_status r = unwrap_or (header_str ''x-ms-copy-status'' (wr_headers r)) []"

fun await_copy :: "nat \<Rightarrow> 'n azure_env \<Rightarrow> azure_store \<Rightarrow> string \<Rightarrow> string list \<Rightarrow> string \<Rightarrow> ('n, unit) cloud" where
  "await_copy 0 env st blob enough failure n = Some (Inr (), n)"
| "await_copy (Suc k) env st blob enough failure n =
     (case ae_send env \<lparr> wq_method = ''HEAD'', wq_url = azure_blob_url env st blob ''comp=properties'', wq_headers = [], wq_body = None \<rparr> n of
        (Inl _, n') \<Rightarrow> await_copy k env st blob enough failure (ae_sleep env n')
      | (Inr r, n') \<Rightarrow>
          if copy_status r \<in> set enough then Some (Inr (), n')
          else if copy_status r = ''failure'' then Some (Inl (StInternal failure), n')
          else await_copy k env st blob enough failure (ae_sleep env n'))"

definition copy_to :: "'n azure_env \<Rightarrow> azure_store \<Rightarrow> string \<Rightarrow> string list \<Rightarrow> string \<Rightarrow> ('n, unit) cloud" where
  "copy_to env st blob enough failure =
     and_then (azure_request env st ''PUT'' blob ''comp=copy'' None) (\<lambda>r.
     and_then (yielding (handle_response env blob r)) (\<lambda>_.
       if copy_status r \<in> {''pending'', ''success''} then await_copy 60 env st blob enough failure else yielding (Inr ())))"

definition azure_rename :: "'n azure_env \<Rightarrow> azure_store \<Rightarrow> string \<Rightarrow> string \<Rightarrow> ('n, unit) cloud" where
  "azure_rename env st p q =
     and_then (copy_to env st (object_name q) [''success''] ''Copy failed during rename'') (\<lambda>_. azure_delete env st p)"

definition azure_copy :: "'n azure_env \<Rightarrow> azure_store \<Rightarrow> string \<Rightarrow> string \<Rightarrow> ('n, unit) cloud" where
  "azure_copy env st p q = copy_to env st (object_name q) [''success'', ''invalid''] ''Copy failed''"

definition azure_canonicalize :: "'n azure_env \<Rightarrow> azure_store \<Rightarrow> string \<Rightarrow> ('n, string) cloud" where
  "azure_canonicalize env st p = yielding (Inr (azure_base_url st @ ''/'' @ ae_percent env (object_name p)))"

definition azure_size :: "'n azure_env \<Rightarrow> azure_store \<Rightarrow> string \<Rightarrow> ('n, nat) cloud" where
  "azure_size env st p =
     and_then (azure_call env st ''HEAD'' (object_name p) ''comp=properties'' None) (\<lambda>r.
       yielding (case parse_u64 (blob_length r) of
                   None \<Rightarrow> Inl (StInternal (''Failed to parse blob size: '' @ ae_parse_int_error env (blob_length r)))
                 | Some n \<Rightarrow> Inr n))"

section \<open>The signature\<close>

text \<open>HMAC as FIPS 198-1 has it: the hashed or given key, filled up to a block, on both pads.\<close>

definition hmac_key :: "(string \<Rightarrow> string) \<Rightarrow> string \<Rightarrow> string" where
  "hmac_key h key = (let k = (if 64 < length key then h key else key) in k @ replicate (64 - length k) (CHR 0x00))"

definition hmac :: "(string \<Rightarrow> string) \<Rightarrow> string \<Rightarrow> string \<Rightarrow> string" where
  "hmac h key m = (let k = hmac_key h key in h (map (xor_byte (CHR 0x5C)) k @ h (map (xor_byte (CHR 0x36)) k @ m)))"

lemma those_Some: "those (map (\<lambda>i. Some (f i)) xs) = Some (map f xs)"
  by (induction xs) simp_all

lemma those_None: "None \<in> set xs \<Longrightarrow> those xs = None"
  by (induction xs) (auto split: option.splits)

lemma unat_of_char: "unat (of_char c :: 8 word) = of_char c"
proof -
  have "unat (of_nat (of_char c) :: 8 word) = of_char c mod 256" by (simp add: unat_of_nat)
  then show ?thesis by (simp add: of_nat_of_char)
qed

lemma xor_byte_zero: "xor_byte b (CHR 0x00) = b"
  by (simp add: xor_byte_def unat_of_char)

lemma keyed_pad_short:
  assumes "length key \<le> 64"
  shows "keyed_pad key (key @ replicate (64 - length key) (CHR 0x00)) b
           = Some (map (xor_byte b) (key @ replicate (64 - length key) (CHR 0x00)))" (is "keyed_pad key ?k b = _")
proof -
  have len: "length ?k = 64" using assms by simp
  have "keyed_pad key ?k b = those (map (\<lambda>i. Some (xor_byte b (?k ! i))) [0..<64])"
    unfolding keyed_pad_def using assms by (intro arg_cong[where f = those] map_cong) (auto simp: nth_append xor_byte_zero)
  also have "\<dots> = Some (map (xor_byte b) (map ((!) ?k) [0..<64]))"
    by (simp only: those_Some map_map comp_def)
  also have "map ((!) ?k) [0..<64] = ?k" using map_nth[of ?k] unfolding len .
  finally show ?thesis .
qed

lemma keyed_pad_long:
  assumes "64 < length key" "length k = 32"
  shows "keyed_pad key k b = None"
  unfolding keyed_pad_def
  by (rule those_None) (use assms in \<open>auto intro!: image_eqI[where x = 32]\<close>)

text \<open>C35: the signature of an Azure request, which the code computes by hand, is for every account key of at most 64
  bytes, every message and every hash function in the place of SHA-256 the HMAC of FIPS 198-1: the hash of the
  key padded with zeros and combined with the outer pad, followed by the hash of the key combined with the
  inner pad followed by the message.\<close>

theorem azure_signature_is_hmac:
  assumes "length key \<le> 64"
  shows "compute_hmac_sha256 sha256 key m = Some (hmac sha256 key m)"
  using assms keyed_pad_short
  by (auto simp: compute_hmac_sha256_def hmac_def hmac_key_def Let_def)

theorem azure_signature_is_hmac_witness:
  "compute_hmac_sha256 (\<lambda>x. replicate 32 (CHR ''h'')) ''key'' ''GET'' = Some (hmac (\<lambda>x. replicate 32 (CHR ''h'')) ''key'' ''GET'')"
  by (rule azure_signature_is_hmac) simp

text \<open>A longer key panics where the hash has 32 bytes: the loop over the pads goes on past the hash that replaces the key.\<close>

lemma azure_long_key_panics:
  assumes "\<And>x. length (sha256 x) = 32" "64 < length key"
  shows "compute_hmac_sha256 sha256 key m = None"
  using assms keyed_pad_long by (auto simp: compute_hmac_sha256_def Let_def)

section \<open>A service\<close>

text \<open>One that gives every request the same answer; a listing of it holds the blob \<open>dir/a/b/c.txt\<close>.\<close>

definition azure_answering :: "web_response \<Rightarrow> unit azure_env" where
  "azure_answering r = \<lparr> ae_send = (\<lambda>q n. (Inr r, n)),
     ae_stamp = (\<lambda>_. (''id'', ''now'')), ae_sha256 = (\<lambda>_. replicate 32 (CHR ''h'')), ae_b64_decode = Some, ae_b64_encode = id,
     ae_percent = id, ae_parse_xml = (\<lambda>_. Inr \<lparr> al_blobs = Some [(''dir/a/b/c.txt'', Some ''7'')], al_prefixes = [] \<rparr>),
     ae_parse_date = (\<lambda>_. None), ae_parse_int_error = id, ae_show_status = show_nat, ae_sleep = id \<rparr>"

definition sample_response :: "nat \<Rightarrow> web_response" where
  "sample_response status = \<lparr> wr_status = status, wr_headers = [], wr_body = Inr ''listing'' \<rparr>"

definition sample_azure_store :: azure_store where
  "sample_azure_store = \<lparr> azs_account_name = ''acct'', azs_account_key = ''key'', azs_container = ''box'' \<rparr>"

lemma sample_signed:
  "\<exists>s. sign_request (azure_answering r) sample_azure_store verb k hs res = Some (Inr s)"
proof -
  have "compute_hmac_sha256 (ae_sha256 (azure_answering r)) ''key'' m \<noteq> None" for m
    using keyed_pad_short[of "''key''"] by (simp add: compute_hmac_sha256_def Let_def)
  then show ?thesis by (auto simp: sign_request_def Let_def azure_answering_def sample_azure_store_def split: option.splits)
qed

lemma sample_answers: "azure_request (azure_answering r) sample_azure_store m b q body n = Some (Inr r, n)"
proof -
  obtain s where "sign_request (azure_answering r) sample_azure_store m (case body of None \<Rightarrow> 0 | Some b \<Rightarrow> length b)
      (canonicalized_headers ''id'' ''now'') (canonicalized_resource sample_azure_store b q) = Some (Inr s)"
    using sample_signed by blast
  then show ?thesis
    by (simp add: azure_request_def azure_send_def Let_def sending_def azure_answering_def)
qed

section \<open>What is lost\<close>

text \<open>The answers that \<open>handle_response\<close> lets pass.\<close>

lemma handle_response_passes:
  assumes "wr_status r \<notin> {404, 403, 401, 429}" "\<not> is_server_error (wr_status r)"
  shows "handle_response env blob r = Inr r"
  using assms by (auto simp: handle_response_def Let_def)

text \<open>An answer to the copy that \<open>handle_response\<close> lets pass and that names no copy, such as 400, 412 or a redirect, makes
  renaming delete the source, and copying succeed, though nothing was copied.\<close>

theorem azure_rename_after_refused_copy:
  assumes "azure_request env st ''PUT'' (object_name q) ''comp=copy'' None n = Some (Inr r, n1)"
    and "wr_status r \<notin> {404, 403, 401, 429}" "\<not> is_server_error (wr_status r)"
    and "copy_status r \<notin> {''pending'', ''success''}"
  shows "azure_rename env st p q n = azure_delete env st p n1 \<and> azure_copy env st p q n = Some (Inr (), n1)"
  using assms by (simp_all add: azure_rename_def azure_copy_def copy_to_def and_then_def yielding_def handle_response_passes)

theorem azure_rename_after_refused_copy_witness:
  "azure_rename (azure_answering (sample_response 400)) sample_azure_store ''a'' ''b'' ()
     = azure_delete (azure_answering (sample_response 400)) sample_azure_store ''a'' ()"
  using azure_rename_after_refused_copy[of "azure_answering (sample_response 400)" sample_azure_store "''b''" "()" "sample_response 400" "()" "''a''"]
  by (simp add: sample_answers sample_response_def is_server_error_def copy_status_def header_str_def header_get_def)

text \<open>Appending to a blob whose first request fails in any way, by the network, 403, 429 or 500, replaces the blob with the
  appended bytes alone.\<close>

theorem azure_append_replaces:
  assumes "azure_request env st ''HEAD'' (object_name p) ''comp=properties'' None n = Some (a, n1)"
    and "case a of Inl e \<Rightarrow> True | Inr r \<Rightarrow> \<not> is_success (wr_status r)"
  shows "azure_append env st p c n = azure_write env st p c n1"
  using assms by (auto simp: azure_append_def and_then_def attempt_def yielding_def split: sum.splits)

theorem azure_append_replaces_witness:
  "azure_append (azure_answering (sample_response 500)) sample_azure_store ''log'' ''line'' ()
     = azure_write (azure_answering (sample_response 500)) sample_azure_store ''log'' ''line'' ()"
  using azure_append_replaces[of "azure_answering (sample_response 500)" sample_azure_store "''log''" "()" "Inr (sample_response 500)" "()" "''line''"]
  by (simp add: sample_answers sample_response_def is_success_def)

section \<open>Removing a tree\<close>

lemma remove_rounds_diverges:
  assumes "\<And>n. I n \<Longrightarrow> \<exists>n'. remove_round env st pre n = Some (Inr True, n') \<and> I n'"
  shows "I n \<Longrightarrow> remove_rounds env st pre n = None"
proof -
  have "e = env \<and> s = st \<and> p = pre \<longrightarrow> \<not> I n" if "remove_rounds e s p n = Some y" for e s p n y
  proof (rule remove_rounds.raw_induct[where P = "\<lambda>e s p n y. e = env \<and> s = st \<and> p = pre \<longrightarrow> \<not> I n", OF _ that], intro impI notI)
    fix loop :: "'a azure_env \<Rightarrow> azure_store \<Rightarrow> string \<Rightarrow> 'a \<Rightarrow> ((storage_error, unit) result \<times> 'a) option" and e s p n y
    assume later: "\<And>e s p n y. loop e s p n = Some y \<Longrightarrow> e = env \<and> s = st \<and> p = pre \<longrightarrow> \<not> I n"
      and now: "Option.bind (remove_round e s p n)
        (\<lambda>(r, n'). case r of Inl x \<Rightarrow> Some (Inl x, n') | Inr again \<Rightarrow> if again then loop e s p n' else Some (Inr (), n')) = Some y"
      and same: "e = env \<and> s = st \<and> p = pre" and "I n"
    then obtain n' where n': "remove_round e s p n = Some (Inr True, n')" "I n'" using assms by blast
    then have "loop e s p n' = Some y" using now by simp
    from later[OF this] same n'(2) show False by simp
  qed
  then show "I n \<Longrightarrow> remove_rounds env st pre n = None" by (metis option.exhaust)
qed

lemma sample_listing: "parse_list_xml (azure_answering r) xml ''dir/'' = Inr ([], [''a''])"
  by (simp add: parse_list_xml_def azure_answering_def, code_simp)

text \<open>Removing a directory never returns while its listings keep naming a sub-directory: a round deletes the files of the
  directory and of its sub-directories, so a file two levels down is never reached.\<close>

theorem azure_remove_dir_all_endless:
  assumes deleting: "\<And>f n. I n \<Longrightarrow> \<exists>n'. azure_delete env st f n = Some (Inr (), n') \<and> I n'"
    and listed: "\<And>q n. I n \<Longrightarrow> \<exists>r n'. azure_request env st ''GET'' [] q None n = Some (Inr r, n') \<and> I n' \<and> wr_status r = 200 \<and> r \<in> answers q"
    and parsed: "\<And>d what r. r \<in> answers (list_query d) \<Longrightarrow> \<exists>files dirs. listing env what d r = Inr (files, dirs) \<and> (d = pre \<longrightarrow> dirs \<noteq> [])"
    and start: "I n" and dir: "pre = dir_prefix (object_name p)"
  shows "azure_remove_dir_all env st p n = None"
proof -
  have ok: "is_success 200" by (simp add: is_success_def)
  have files: "\<exists>n'. delete_files env st d fs n = Some (Inr (), n') \<and> I n'" if "I n" for d fs n
    using that unfolding delete_files_def
  proof (induction fs arbitrary: n)
    case (Cons f fs)
    from deleting[OF Cons.prems] obtain n1 where n1: "azure_delete env st (d @ fst f) n = Some (Inr (), n1)" "I n1" by blast
    from Cons.IH[OF n1(2)] n1(1) show ?case by (cases f) (simp add: and_then_Some)
  qed (simp add: yielding_def)
  have below: "\<exists>n'. remove_below env st d n = Some (Inr (), n') \<and> I n'" if "I n" for d n
  proof -
    from listed[OF that] obtain r n1 where r: "azure_request env st ''GET'' [] (list_query d) None n = Some (Inr r, n1)"
      "I n1" "wr_status r = 200" "r \<in> answers (list_query d)" by blast
    from parsed[OF r(4)] obtain fs ds where "listing env ''Failed to read list'' d r = Inr (fs, ds)" by blast
    with r files[OF r(2)] ok show ?thesis by (simp add: remove_below_def and_then_def attempt_def yielding_def)
  qed
  have all_below: "\<exists>n'. each (remove_below env st) ds n = Some (Inr (), n') \<and> I n'" if "I n" for ds n
    using that
  proof (induction ds arbitrary: n)
    case (Cons d ds)
    from below[OF Cons.prems] obtain n1 where "remove_below env st d n = Some (Inr (), n1)" "I n1" by blast
    with Cons.IH[of n1] show ?case by (simp add: and_then_Some)
  qed (simp add: yielding_def)
  have "\<exists>n'. remove_round env st pre n = Some (Inr True, n') \<and> I n'" if "I n" for n
  proof -
    from listed[OF that] obtain r n1 where r: "azure_request env st ''GET'' [] (list_query pre) None n = Some (Inr r, n1)"
      "I n1" "wr_status r = 200" "r \<in> answers (list_query pre)" by blast
    from parsed[OF r(4)] obtain fs ds where l: "listing env ''Failed to read list response'' pre r = Inr (fs, ds)" "ds \<noteq> []" by blast
    from files[OF r(2)] obtain n2 where n2: "delete_files env st pre fs n1 = Some (Inr (), n2)" "I n2" by blast
    from all_below[OF n2(2)] obtain n3 where "each (remove_below env st) (map (\<lambda>d. pre @ d @ ''/'') ds) n2 = Some (Inr (), n3)" "I n3" by blast
    with r l n2 ok show ?thesis by (simp add: remove_round_def and_then_def attempt_def yielding_def)
  qed
  from remove_rounds_diverges[of I, OF this start] show ?thesis by (simp add: azure_remove_dir_all_def dir)
qed

theorem azure_remove_dir_all_endless_witness:
  "azure_remove_dir_all (azure_answering (sample_response 200)) sample_azure_store ''/dir'' () = None"
proof (rule azure_remove_dir_all_endless[where I = "\<lambda>_. True" and pre = "''dir/''" and answers = "\<lambda>_. {sample_response 200}"])
  show "\<exists>n'. azure_delete (azure_answering (sample_response 200)) sample_azure_store f n = Some (Inr (), n') \<and> True" for f n
    by (simp add: azure_delete_def azure_call_def and_then_def yielding_def sample_answers handle_response_def sample_response_def)
  show "\<exists>files dirs. listing (azure_answering (sample_response 200)) what d r = Inr (files, dirs) \<and> (d = ''dir/'' \<longrightarrow> dirs \<noteq> [])"
    if "r \<in> {sample_response 200}" for d what r
  proof (cases "d = ''dir/''")
    case True
    with that show ?thesis
      by (simp add: listing_def body_of_def sample_response_def sample_listing[unfolded sample_response_def])
  next
    case False
    with that show ?thesis
      by (simp add: listing_def body_of_def sample_response_def parse_list_xml_def azure_answering_def Let_def split: prod.splits)
  qed
qed (simp_all add: sample_answers sample_response_def, code_simp)

section \<open>Listings\<close>

text \<open>A virtual directory in the directory \<open>d\<close> is listed under a name with a slash in front: the prefix loses its own
  slash at the end before it is taken off.\<close>

lemma azure_lists_subdirectory_with_slash:
  assumes "s \<noteq> []" "last s \<noteq> CHR ''/''" "d \<noteq> []" "last d \<noteq> CHR ''/''"
    and "ae_parse_xml env xml = Inr \<lparr> al_blobs = None, al_prefixes = [d @ ''/'' @ s @ ''/''] \<rparr>"
  shows "parse_list_xml env xml (dir_prefix d) = Inr ([], [''/'' @ s])"
proof -
  have trim: "trim_end_char (CHR ''/'') (x @ ''/'') = x" if "x \<noteq> []" "last x \<noteq> CHR ''/''" for x
    using that by (cases x rule: rev_cases) (simp_all add: trim_end_char_def)
  have "trim_end_char (CHR ''/'') (''/'' @ s @ ''/'') = ''/'' @ s" using trim[of "''/'' @ s"] assms(1,2) by simp
  then show ?thesis using trim[OF assms(3,4)] assms(3,5) by (simp add: parse_list_xml_def dir_prefix_def list_prefix_def Let_def)
qed

end
