(* ===== verification/S3_Store.thy ===== *)
theory S3_Store
  imports Cloud_Http App_Config
begin

text \<open>
  The S3 backend (src/storage/backend/s3.rs): every operation of the storage trait as the calls of the service it
  makes. The client of the AWS SDK is a record of functions on the state of the service; an error of it is the text that
  \<open>Display\<close> prints. The listings of the service are what it answers: one page of them is all that is ever asked for.
\<close>

section \<open>The client\<close>

record s3_head =
  sh_length :: "64 word option"
  sh_type :: "string option"
  sh_modified :: "string option"

record s3_listing =
  sl_contents :: "(string option \<times> 64 word option) list"
  sl_prefixes :: "string option list"

text \<open>A body is the sequence of its chunks. Arguments are the bucket, then what the builder is given.\<close>

type_synonym ('n, 'a) s3_call = "'n \<Rightarrow> (string, 'a) result \<times> 'n"

record 'n s3_client =
  s3c_head :: "string \<Rightarrow> string \<Rightarrow> ('n, s3_head) s3_call"
  s3c_get :: "string \<Rightarrow> string \<Rightarrow> string option \<Rightarrow> ('n, (string, string) result list) s3_call"
  s3c_put :: "string \<Rightarrow> string \<Rightarrow> string option \<Rightarrow> string \<Rightarrow> ('n, unit) s3_call"
  s3c_delete :: "string \<Rightarrow> string \<Rightarrow> ('n, unit) s3_call"
  s3c_copy :: "string \<Rightarrow> string \<Rightarrow> string \<Rightarrow> string \<Rightarrow> ('n, unit) s3_call"
  s3c_list :: "string \<Rightarrow> string option \<Rightarrow> string option \<Rightarrow> ('n, s3_listing) s3_call"
  s3c_date :: "string \<Rightarrow> int option"

text \<open>\<open>S3Storage::new\<close>: the bucket; the client is made by the SDK from the other values.\<close>

definition s3_new :: "store_config \<Rightarrow> (storage_error, string) result" where
  "s3_new config =
     (case sto_s3 config of
        None \<Rightarrow> Inl (StInvalidBackend ''s3 config section must be present for s3 backend'')
      | Some s3 \<Rightarrow> Inr (s3_bucket s3))"

definition s3_map_error :: "string \<Rightarrow> string \<Rightarrow> storage_error" where
  "s3_map_error key err =
     (let msg = lowercase err in
      if contains_str msg ''no such bucket'' \<or> contains_str msg ''no such key'' \<or> contains_str msg ''notfound'' \<or> contains_str msg ''404''
      then StNotFound key
      else if contains_str msg ''accessdenied'' \<or> contains_str msg ''access denied'' \<or> contains_str msg ''forbidden'' \<or> contains_str msg ''403''
      then StAuthentication (''S3 access denied: '' @ err)
      else if contains_str msg ''503'' \<or> contains_str msg ''service unavailable''
      then StServiceUnavailable (''S3 service unavailable: '' @ err)
      else StInternal (''S3 error: '' @ err))"

definition s3_run :: "string \<Rightarrow> ('n, 'a) s3_call \<Rightarrow> ('n, 'a) cloud" where
  "s3_run key c n =
     (case c n of
        (Inl e, n') \<Rightarrow> Some (Inl (s3_map_error key e), n')
      | (Inr x, n') \<Rightarrow> Some (Inr x, n'))"

fun collect_body :: "(string, string) result list \<Rightarrow> (storage_error, string) result" where
  "collect_body [] = Inr []"
| "collect_body (Inl e # _) = Inl (StInternal (''Failed to read S3 body: '' @ e))"
| "collect_body (Inr c # cs) = (case collect_body cs of Inl e \<Rightarrow> Inl e | Inr b \<Rightarrow> Inr (c @ b))"

section \<open>Operations\<close>

definition key_exists :: "'n s3_client \<Rightarrow> string \<Rightarrow> string \<Rightarrow> ('n, bool) cloud" where
  "key_exists cl bucket key = and_then (attempt (s3_run key (s3c_head cl bucket key))) (\<lambda>r. yielding (Inr (is_ok r)))"

definition s3_exists :: "'n s3_client \<Rightarrow> string \<Rightarrow> string \<Rightarrow> ('n, bool) cloud" where
  "s3_exists cl bucket p = key_exists cl bucket (object_name p)"

definition s3_is_file :: "'n s3_client \<Rightarrow> string \<Rightarrow> string \<Rightarrow> ('n, bool) cloud" where
  "s3_is_file cl bucket p =
     (let key = object_name p in
      and_then (attempt (s3_run key (s3c_head cl bucket key))) (\<lambda>r.
        yielding (Inr (case r of Inl _ \<Rightarrow> False | Inr h \<Rightarrow> \<not> (unwrap_or (sh_length h) 0 = 0 \<and> ends_with key ''/'')))))"

definition marker_key :: "string \<Rightarrow> string" where
  "marker_key key = (if key = [] then [] else with_slash key)"

definition s3_is_dir :: "'n s3_client \<Rightarrow> string \<Rightarrow> string \<Rightarrow> ('n, bool) cloud" where
  "s3_is_dir cl bucket p =
     (let key = object_name p; marker = marker_key key in
      and_then (key_exists cl bucket marker) (\<lambda>found.
        if found then yielding (Inr True)
        else if key = []
        then and_then (attempt (s3_run key (s3c_list cl bucket None (Some ''/'')))) (\<lambda>r.
               yielding (Inr (case r of Inl _ \<Rightarrow> False | Inr l \<Rightarrow> sl_prefixes l \<noteq> [])))
        else and_then (attempt (s3_run key (s3c_list cl bucket (Some marker) (Some ''/'')))) (\<lambda>r.
               yielding (Inr (case r of Inl _ \<Rightarrow> False | Inr l \<Rightarrow> sl_prefixes l \<noteq> [] \<or> sl_contents l \<noteq> [])))))"

definition s3_get_body :: "'n s3_client \<Rightarrow> string \<Rightarrow> string \<Rightarrow> string option \<Rightarrow> ('n, string) cloud" where
  "s3_get_body cl bucket p bytes =
     (let key = object_name p in
      and_then (s3_run key (s3c_get cl bucket key bytes)) (\<lambda>chunks. yielding (collect_body chunks)))"

definition s3_read :: "'n s3_client \<Rightarrow> string \<Rightarrow> string \<Rightarrow> ('n, string) cloud" where
  "s3_read cl bucket p = s3_get_body cl bucket p None"

definition s3_open :: "'n s3_client \<Rightarrow> string \<Rightarrow> string \<Rightarrow> ('n, string) cloud" where
  "s3_open cl bucket p = s3_get_body cl bucket p None"

definition s3_seek_read :: "'n s3_client \<Rightarrow> string \<Rightarrow> string \<Rightarrow> nat \<Rightarrow> ('n, string) cloud" where
  "s3_seek_read cl bucket p offset = s3_get_body cl bucket p (Some (''bytes='' @ show_nat offset @ ''-''))"

definition s3_write :: "'n s3_client \<Rightarrow> string \<Rightarrow> string \<Rightarrow> string \<Rightarrow> ('n, unit) cloud" where
  "s3_write cl bucket p contents = (let key = object_name p in s3_run key (s3c_put cl bucket key None contents))"

definition s3_append :: "'n s3_client \<Rightarrow> string \<Rightarrow> string \<Rightarrow> string \<Rightarrow> ('n, unit) cloud" where
  "s3_append cl bucket p contents =
     and_then (s3_read cl bucket p) (\<lambda>existing. s3_write cl bucket p (existing @ contents))"

definition s3_delete :: "'n s3_client \<Rightarrow> string \<Rightarrow> string \<Rightarrow> ('n, unit) cloud" where
  "s3_delete cl bucket p = (let key = object_name p in s3_run key (s3c_delete cl bucket key))"

definition s3_metadata :: "'n s3_client \<Rightarrow> string \<Rightarrow> string \<Rightarrow> ('n, file_metadata) cloud" where
  "s3_metadata cl bucket p =
     (let key = object_name p in
      and_then (s3_run key (s3c_head cl bucket key)) (\<lambda>h.
        yielding (Inr \<lparr> fm_name = unwrap_or (text_file_name p) p, fm_is_file = True, fm_size = unat (unwrap_or (sh_length h) 0),
                        fm_created = None, fm_modified = Option.bind (sh_modified h) (s3c_date cl) \<rparr>)))"

definition s3_file_entry :: "string \<Rightarrow> string \<Rightarrow> string option \<times> 64 word option \<Rightarrow> cloud_entry option" where
  "s3_file_entry dir marker obj =
     (case obj of
        (None, _) \<Rightarrow> None
      | (Some key, n) \<Rightarrow>
          if key = marker then None
          else
            (case strip_prefix marker key of
               None \<Rightarrow> None
             | Some relative \<Rightarrow>
                 if relative = [] \<or> ends_with relative ''/'' then None
                 else Some (cloud_entry_of (last_segment relative) False (unat (unwrap_or n 0)) (text_join dir relative))))"

definition s3_dir_entry :: "string \<Rightarrow> string \<Rightarrow> string option \<Rightarrow> cloud_entry option" where
  "s3_dir_entry dir marker item =
     (case item of
        None \<Rightarrow> None
      | Some full \<Rightarrow>
          (let stripped = unwrap_or (strip_suffix ''/'' (unwrap_or (strip_prefix marker full) full)) full in
           Some (cloud_entry_of (last_segment stripped) True 0 (text_join dir stripped))))"

definition s3_list_dir :: "'n s3_client \<Rightarrow> string \<Rightarrow> string \<Rightarrow> ('n, cloud_entry list) cloud" where
  "s3_list_dir cl bucket dir =
     (let key = object_name dir; marker = marker_key key in
      and_then (s3_run key (s3c_list cl bucket (Some marker) (Some ''/''))) (\<lambda>l.
        yielding (Inr (List.map_filter (s3_file_entry dir marker) (sl_contents l)
                       @ List.map_filter (s3_dir_entry dir marker) (sl_prefixes l)))))"

definition put_directory :: "'n s3_client \<Rightarrow> string \<Rightarrow> string \<Rightarrow> ('n, unit) cloud" where
  "put_directory cl bucket key = s3_run key (s3c_put cl bucket key (Some ''application/x-directory'') [])"

definition s3_create_dir :: "'n s3_client \<Rightarrow> string \<Rightarrow> string \<Rightarrow> ('n, unit) cloud" where
  "s3_create_dir cl bucket p = put_directory cl bucket (with_slash (object_name p))"

text \<open>The names among the components of a path.\<close>

definition normal_parts :: "string \<Rightarrow> string list" where
  "normal_parts s = filter (\<lambda>c. c \<noteq> [] \<and> c \<noteq> ''.'' \<and> c \<noteq> ''..'') (split_on (CHR ''/'') s)"

definition s3_create_dir_all :: "'n s3_client \<Rightarrow> string \<Rightarrow> string \<Rightarrow> ('n, unit) cloud" where
  "s3_create_dir_all cl bucket p =
     (let parts = normal_parts (with_slash (object_name p)) in
      each (\<lambda>i. let partial = join ''/'' (take i parts) in
             if partial \<noteq> [] then dropping (put_directory cl bucket (partial @ ''/'')) else yielding (Inr ()))
        [0..<Suc (length parts)])"

definition s3_remove_dir :: "'n s3_client \<Rightarrow> string \<Rightarrow> string \<Rightarrow> ('n, unit) cloud" where
  "s3_remove_dir cl bucket p =
     (let key = with_slash (object_name p) in
      and_then (s3_run key (s3c_list cl bucket (Some key) None)) (\<lambda>l.
        if sl_contents l \<noteq> [] then yielding (Inl (StDirectoryNotEmpty p))
        else dropping (s3_run key (s3c_delete cl bucket key))))"

definition s3_remove_dir_all :: "'n s3_client \<Rightarrow> string \<Rightarrow> string \<Rightarrow> ('n, unit) cloud" where
  "s3_remove_dir_all cl bucket p =
     (let key = with_slash (object_name p) in
      and_then (s3_run key (s3c_list cl bucket (Some key) None)) (\<lambda>l.
        each (\<lambda>(k, _). case k of None \<Rightarrow> yielding (Inr ()) | Some k \<Rightarrow> dropping (s3_run k (s3c_delete cl bucket k))) (sl_contents l)))"

definition s3_copy :: "'n s3_client \<Rightarrow> string \<Rightarrow> string \<Rightarrow> string \<Rightarrow> ('n, unit) cloud" where
  "s3_copy cl bucket p q =
     (let from_key = object_name p; to_key = object_name q in
      and_then (s3_run from_key (s3c_head cl bucket from_key)) (\<lambda>h.
        s3_run to_key (s3c_copy cl bucket (bucket @ ''/'' @ from_key) to_key (unwrap_or (sh_type h) ''application/octet-stream''))))"

definition s3_rename :: "'n s3_client \<Rightarrow> string \<Rightarrow> string \<Rightarrow> string \<Rightarrow> ('n, unit) cloud" where
  "s3_rename cl bucket p q = and_then (s3_copy cl bucket p q) (\<lambda>_. s3_delete cl bucket p)"

definition s3_canonicalize :: "string \<Rightarrow> string \<Rightarrow> ('n, string) cloud" where
  "s3_canonicalize bucket p = yielding (Inr (''s3://'' @ bucket @ ''/'' @ object_name p))"

definition s3_size :: "'n s3_client \<Rightarrow> string \<Rightarrow> string \<Rightarrow> ('n, nat) cloud" where
  "s3_size cl bucket p =
     (let key = object_name p in
      and_then (s3_run key (s3c_head cl bucket key)) (\<lambda>h. yielding (Inr (unat (unwrap_or (sh_length h) 0)))))"

section \<open>Directories\<close>

lemma s3_run_total: "\<exists>r n'. s3_run key c n = Some (r, n')"
  by (simp add: s3_run_def split: prod.splits sum.splits)

lemma dropping_s3_run: "\<exists>n'. dropping (s3_run key c) n = Some (Inr (), n')"
  using s3_run_total[of key c n] by (auto simp: dropping_def and_then_def attempt_def yielding_def)

lemma each_succeeds:
  assumes "\<And>x n. \<exists>n'. f x n = Some (Inr (), n')"
  shows "\<exists>n'. each f xs n = Some (Inr (), n')"
proof (induction xs arbitrary: n)
  case (Cons x xs)
  from assms obtain n1 where "f x n = Some (Inr (), n1)" by blast
  with Cons.IH show ?case by (simp add: and_then_Some)
qed (simp add: yielding_def)

text \<open>Removing a directory with all it holds succeeds as soon as it could be listed, whatever the service answers to the
  deletions.\<close>

theorem s3_remove_dir_all_succeeds:
  assumes "s3c_list cl bucket (Some (with_slash (object_name p))) None n = (Inr l, n1)"
  shows "\<exists>n'. s3_remove_dir_all cl bucket p n = Some (Inr (), n')"
proof -
  have "\<exists>n'. (\<lambda>(k, _). case k of None \<Rightarrow> yielding (Inr ()) | Some k \<Rightarrow> dropping (s3_run k (s3c_delete cl bucket k))) x n
      = Some (Inr (), n')" for x :: "string option \<times> 64 word option" and n
    by (cases x; cases "fst x") (simp_all add: yielding_def dropping_s3_run)
  from each_succeeds[OF this] show ?thesis
    by (simp add: s3_remove_dir_all_def Let_def s3_run_def assms and_then_def)
qed

text \<open>The directory that \<open>create_dir\<close> has made lists its own marker.\<close>

lemma s3_remove_dir_marker:
  assumes "s3c_list cl bucket (Some (with_slash (object_name p))) None n = (Inr l, n1)"
    and "(Some (with_slash (object_name p)), k) \<in> set (sl_contents l)"
  shows "s3_remove_dir cl bucket p n = Some (Inl (StDirectoryNotEmpty p), n1)"
  using assms by (auto simp: s3_remove_dir_def Let_def s3_run_def and_then_def yielding_def)

lemma s3_append_missing:
  assumes "s3c_get cl bucket (object_name p) None n = (Inl e, n1)"
  shows "s3_append cl bucket p c n = Some (Inl (s3_map_error (object_name p) e), n1)"
  using assms by (simp add: s3_append_def s3_read_def s3_get_body_def Let_def s3_run_def and_then_def)

section \<open>Listings\<close>

text \<open>A listed file is an object below the directory, under its path relative to it and the last segment as its name.\<close>

theorem s3_listed_files:
  assumes "s3_file_entry dir marker (Some key, n) = Some e"
  shows "\<exists>r. key = marker @ r \<and> r \<noteq> [] \<and> ce_path e = text_join dir r \<and> \<not> ce_is_dir e
    \<and> ce_name e \<noteq> [] \<and> CHR ''/'' \<notin> set (ce_name e)"
proof -
  from assms obtain r where "key = marker @ r" "r \<noteq> []" "\<not> ends_with r ''/''"
    "e = cloud_entry_of (last_segment r) False (unat (unwrap_or n 0)) (text_join dir r)"
    by (auto simp: s3_file_entry_def split: option.splits if_splits)
  moreover from this have "last r \<noteq> CHR ''/''"
    by (cases r rule: rev_cases) (auto simp: ends_with_suffix suffix_def)
  ultimately show ?thesis
    using last_segment_nonempty[of r] last_segment_no_slash[of r] by (auto simp: cloud_entry_of_def)
qed

end
