(* ===== verification/Gcs_Store.thy ===== *)
theory Gcs_Store
  imports Cloud_Http App_Config
begin

text \<open>
  The backend for Google Cloud Storage (src/storage/backend/gcs.rs): the account of the service, the cached access token
  and its refresh, and every operation of the storage trait as the requests it sends. The service, RSA signing, the
  JSON parser, percent-encoding and dates are parameters. Instants are seconds in an unsigned 64-bit word, whose
  arithmetic wraps as in a release build. The state is the cached token beside the world.
\<close>

section \<open>Credentials and tokens\<close>

record service_account =
  sa_client_email :: string
  sa_private_key :: string

record auth_token =
  at_token :: string
  at_expires_at :: "64 word"

record gcs_claims =
  gc_iss :: string
  gc_sub :: string
  gc_scope :: string
  gc_aud :: string
  gc_exp :: int
  gc_iat :: int

record gcs_object =
  go_name :: string
  go_size :: string
  go_created :: "string option"
  go_updated :: "string option"

record gcs_listing =
  gl_items :: "gcs_object list option"
  gl_prefixes :: "string list option"

type_synonym 'n gcs_world = "auth_token option \<times> 'n"

record 'n gcs_env =
  ge_send :: "'n web"
  ge_now :: "'n \<Rightarrow> 64 word"
  ge_rsa_key :: "string \<Rightarrow> (string, string) result"
  ge_encode_jwt :: "gcs_claims \<Rightarrow> string \<Rightarrow> (string, string) result"
  ge_form :: "(string \<times> string) list \<Rightarrow> string"
  ge_percent :: "string \<Rightarrow> string"
  ge_parse_account :: "string \<Rightarrow> (string, service_account) result"
  ge_parse_token :: "string \<Rightarrow> (string, string \<times> 64 word) result"
  ge_parse_object :: "string \<Rightarrow> (string, gcs_object) result"
  ge_parse_list :: "string \<Rightarrow> (string, gcs_listing) result"
  ge_parse_date :: "string \<Rightarrow> int option"
  ge_read_file :: "string \<Rightarrow> (string, string) result"
  ge_show_status :: "nat \<Rightarrow> string"

record gcs_store =
  gst_bucket :: string
  gst_account :: service_account

definition load_credentials :: "'n gcs_env \<Rightarrow> string \<Rightarrow> (storage_error, service_account) result" where
  "load_credentials env raw =
     (let parsed = (\<lambda>text. case ge_parse_account env text of
                      Inl e \<Rightarrow> Inl (StAuthentication (''Invalid GCS credentials JSON: '' @ e))
                    | Inr a \<Rightarrow> Inr a) in
      if raw = [] then Inl (StInvalidBackend ''gcs credentials must not be empty'')
      else if starts_with raw ''{'' \<or> starts_with raw ''['' then parsed raw
      else (case ge_read_file env raw of
              Inl e \<Rightarrow> Inl (StAuthentication (''Failed to read credentials file: '' @ e))
            | Inr contents \<Rightarrow> parsed contents))"

definition gcs_new :: "'n gcs_env \<Rightarrow> (string, unit) result \<Rightarrow> store_config \<Rightarrow> (storage_error, gcs_store) result" where
  "gcs_new env client config =
     (case sto_gcs config of
        None \<Rightarrow> Inl (StInvalidBackend ''gcs config section must be present for gcs backend'')
      | Some g \<Rightarrow>
          (case load_credentials env (gcs_credentials g) of
             Inl e \<Rightarrow> Inl e
           | Inr account \<Rightarrow>
               (case client of
                  Inl e \<Rightarrow> Inl (StInternal (''Failed to build HTTP client: '' @ e))
                | Inr _ \<Rightarrow> Inr \<lparr> gst_bucket = gcs_bucket g, gst_account = account \<rparr>)))"

definition token_valid :: "64 word \<Rightarrow> auth_token \<Rightarrow> bool" where
  "token_valid now t \<longleftrightarrow> now < at_expires_at t - 60"

definition oauth2_token_url :: string where
  "oauth2_token_url = ''https://oauth2.googleapis.com/token''"

definition gcs_jwt :: "'n gcs_env \<Rightarrow> service_account \<Rightarrow> 64 word \<Rightarrow> (storage_error, string) result" where
  "gcs_jwt env account clock =
     (let now = sint clock;
          claims = \<lparr> gc_iss = sa_client_email account, gc_sub = sa_client_email account,
                     gc_scope = ''https://www.googleapis.com/auth/cloud-platform'', gc_aud = oauth2_token_url,
                     gc_exp = sint (clock + 3600), gc_iat = now \<rparr> in
      case ge_rsa_key env (sa_private_key account) of
        Inl e \<Rightarrow> Inl (StAuthentication (''Failed to load RSA key: '' @ e))
      | Inr key \<Rightarrow>
          (case ge_encode_jwt env claims key of
             Inl e \<Rightarrow> Inl (StAuthentication (''Failed to create JWT: '' @ e))
           | Inr jwt \<Rightarrow> Inr jwt))"

text \<open>Requests leave the cached token alone.\<close>

definition gcs_sending :: "'n gcs_env \<Rightarrow> (string \<Rightarrow> storage_error) \<Rightarrow> web_request \<Rightarrow> ('n gcs_world, web_response) cloud" where
  "gcs_sending env failure q w =
     (case ge_send env q (snd w) of
        (Inl e, n) \<Rightarrow> Some (Inl (failure e), (fst w, n))
      | (Inr r, n) \<Rightarrow> Some (Inr r, (fst w, n)))"

definition token_request :: "'n gcs_env \<Rightarrow> string \<Rightarrow> web_request" where
  "token_request env jwt =
     \<lparr> wq_method = ''POST'', wq_url = oauth2_token_url, wq_headers = [(''content-type'', ''application/x-www-form-urlencoded'')],
       wq_body = Some (ge_form env [(''grant_type'', ''urn:ietf:params:oauth:grant-type:jwt-bearer''), (''assertion'', jwt)]) \<rparr>"

definition token_of_response :: "'n gcs_env \<Rightarrow> web_response \<Rightarrow> 64 word \<Rightarrow> (storage_error, auth_token) result" where
  "token_of_response env r now =
     (case wr_body r of
        Inl e \<Rightarrow> Inl (StAuthentication (''Failed to read token response: '' @ e))
      | Inr body \<Rightarrow>
          if \<not> is_success (wr_status r)
          then Inl (StAuthentication (''OAuth2 token exchange failed ('' @ ge_show_status env (wr_status r) @ ''): '' @ body))
          else
            (case ge_parse_token env body of
               Inl e \<Rightarrow> Inl (StAuthentication (''Failed to parse token response: '' @ e))
             | Inr (token, expires_in) \<Rightarrow> Inr \<lparr> at_token = token, at_expires_at = now + expires_in - 60 \<rparr>))"

definition fetch_token :: "'n gcs_env \<Rightarrow> gcs_store \<Rightarrow> ('n gcs_world, auth_token) cloud" where
  "fetch_token env st w =
     (case gcs_jwt env (gst_account st) (ge_now env (snd w)) of
        Inl e \<Rightarrow> Some (Inl e, w)
      | Inr jwt \<Rightarrow>
          and_then (gcs_sending env (\<lambda>e. StAuthentication (''Failed to exchange JWT: '' @ e)) (token_request env jwt)) (\<lambda>r w'.
            Some (token_of_response env r (ge_now env (snd w')), w')) w)"

definition cached_token :: "'n gcs_env \<Rightarrow> 'n gcs_world \<Rightarrow> string option" where
  "cached_token env w =
     (case fst w of None \<Rightarrow> None | Some t \<Rightarrow> if token_valid (ge_now env (snd w)) t then Some (at_token t) else None)"

text \<open>The cache is looked at twice, under a lock each time, and the lock is given back before the request is sent.\<close>

definition get_token :: "'n gcs_env \<Rightarrow> gcs_store \<Rightarrow> ('n gcs_world, string) cloud" where
  "get_token env st w =
     (case cached_token env w of
        Some t \<Rightarrow> Some (Inr t, w)
      | None \<Rightarrow>
          (case cached_token env w of
             Some t \<Rightarrow> Some (Inr t, w)
           | None \<Rightarrow> and_then (fetch_token env st) (\<lambda>t w'. Some (Inr (at_token t), (Some t, snd w'))) w))"

section \<open>Requests\<close>

definition gcs_request :: "'n gcs_env \<Rightarrow> gcs_store \<Rightarrow> string \<Rightarrow> string \<Rightarrow> header_map \<Rightarrow> string option \<Rightarrow> ('n gcs_world, web_response) cloud" where
  "gcs_request env st meth tail extra body =
     and_then (get_token env st) (\<lambda>token.
       gcs_sending env (\<lambda>e. StInternal (''GCS request failed: '' @ e))
         \<lparr> wq_method = meth, wq_url = ''https://storage.googleapis.com/storage/v1/b/'' @ gst_bucket st @ tail,
           wq_headers = (''authorization'', ''Bearer '' @ token) # extra, wq_body = body \<rparr>)"

definition map_http_error :: "'n gcs_env \<Rightarrow> nat \<Rightarrow> string \<Rightarrow> string \<Rightarrow> storage_error" where
  "map_http_error env status object body =
     (let told = ge_show_status env status @ '': '' @ body in
      if status = 404 then StNotFound object
      else if status \<in> {401, 403} then StAuthentication (''GCS returned '' @ told)
      else if status = 429 \<or> 500 \<le> status then StServiceUnavailable (''GCS returned '' @ told)
      else StInternal (''GCS error '' @ told))"

definition gcs_ok :: "'n gcs_env \<Rightarrow> string \<Rightarrow> string \<Rightarrow> web_response \<Rightarrow> (storage_error, web_response) result" where
  "gcs_ok env what object r =
     (if is_success (wr_status r) then Inr r
      else (case body_of what r of Inl e \<Rightarrow> Inl e | Inr body \<Rightarrow> Inl (map_http_error env (wr_status r) object body)))"

definition gcs_call :: "'n gcs_env \<Rightarrow> gcs_store \<Rightarrow> string \<Rightarrow> string \<Rightarrow> string \<Rightarrow> header_map \<Rightarrow> string option \<Rightarrow> ('n gcs_world, web_response) cloud" where
  "gcs_call env st meth tail object extra body =
     and_then (gcs_request env st meth tail extra body) (\<lambda>r. yielding (gcs_ok env ''Failed to read error response'' object r))"

text \<open>What is read streams: an error of the body comes to the reader.\<close>

definition download_to_file :: "'n gcs_env \<Rightarrow> gcs_store \<Rightarrow> string \<Rightarrow> ('n gcs_world, (string, string) result) cloud" where
  "download_to_file env st object =
     and_then (gcs_call env st ''GET'' (''/o/'' @ object @ ''?alt=media'') object [] None) (\<lambda>r. yielding (Inr (wr_body r)))"

definition download_with_range :: "'n gcs_env \<Rightarrow> gcs_store \<Rightarrow> string \<Rightarrow> nat \<Rightarrow> ('n gcs_world, (string, string) result) cloud" where
  "download_with_range env st object offset =
     and_then (gcs_call env st ''GET'' (''/o/'' @ object @ ''?alt=media'') object [(''range'', ''bytes='' @ show_nat offset @ ''-'')] None)
       (\<lambda>r. yielding (Inr (wr_body r)))"

section \<open>Operations\<close>

definition gcs_metadata :: "'n gcs_env \<Rightarrow> gcs_store \<Rightarrow> string \<Rightarrow> ('n gcs_world, file_metadata) cloud" where
  "gcs_metadata env st p =
     (let object = object_name p in
      and_then (gcs_call env st ''GET'' (''/o/'' @ ge_percent env object) object [] None) (\<lambda>r.
      and_then (yielding (body_of ''Failed to read GCS response'' r)) (\<lambda>text.
        yielding (case ge_parse_object env text of
                    Inl e \<Rightarrow> Inl (StInternal (''Failed to parse GCS metadata: '' @ e))
                  | Inr m \<Rightarrow> Inr \<lparr> fm_name = go_name m, fm_is_file = (\<not> ends_with (go_name m) ''/''),
                                   fm_size = unwrap_or (parse_u64 (go_size m)) 0,
                                   fm_created = Option.bind (go_created m) (ge_parse_date env),
                                   fm_modified = Option.bind (go_updated m) (ge_parse_date env) \<rparr>))))"

definition gcs_exists :: "'n gcs_env \<Rightarrow> gcs_store \<Rightarrow> string \<Rightarrow> ('n gcs_world, bool) cloud" where
  "gcs_exists env st p = and_then (attempt (gcs_metadata env st p)) (\<lambda>r. yielding (Inr (is_ok r)))"

definition gcs_is_file :: "'n gcs_env \<Rightarrow> gcs_store \<Rightarrow> string \<Rightarrow> ('n gcs_world, bool) cloud" where
  "gcs_is_file env st p =
     and_then (attempt (gcs_metadata env st p)) (\<lambda>r. yielding (Inr (case r of Inl _ \<Rightarrow> False | Inr m \<Rightarrow> fm_is_file m)))"

definition gcs_dir_entry :: "string \<Rightarrow> string \<Rightarrow> cloud_entry option" where
  "gcs_dir_entry dir pre =
     (let name = last_segment (trim_end_char (CHR ''/'') pre) in
      if ends_with name ''/.dir'' \<or> name = ''.dir'' then None
      else Some (cloud_entry_of name True 0 (text_join (text_join ''/'' dir) name)))"

definition gcs_file_entry :: "'n gcs_env \<Rightarrow> string \<Rightarrow> string \<Rightarrow> gcs_object \<Rightarrow> cloud_entry option" where
  "gcs_file_entry env dir pre item =
     (if ends_with (go_name item) ''/.dir/'' \<or> ends_with (go_name item) ''/.dir'' then None
      else
        (let name = (case strip_prefix pre (go_name item) of
                       Some stripped \<Rightarrow> trim_start_char (CHR ''/'') stripped
                     | None \<Rightarrow> go_name item) in
         Some (cloud_entry_of name False (unwrap_or (parse_u64 (go_size item)) 0) (text_join (text_join ''/'' dir) name)
                 \<lparr> ce_modified := Option.bind (go_updated item) (ge_parse_date env) \<rparr>)))"

definition gcs_entries :: "'n gcs_env \<Rightarrow> string \<Rightarrow> string \<Rightarrow> gcs_listing \<Rightarrow> cloud_entry list" where
  "gcs_entries env dir pre l =
     List.map_filter (gcs_dir_entry dir) (unwrap_or (gl_prefixes l) [])
     @ List.map_filter (gcs_file_entry env dir pre) (unwrap_or (gl_items l) [])"

definition gcs_prefix :: "string \<Rightarrow> string" where
  "gcs_prefix dir = unwrap_or (strip_suffix ''/'' (object_name dir)) (object_name dir)"

definition gcs_list_dir :: "'n gcs_env \<Rightarrow> gcs_store \<Rightarrow> string \<Rightarrow> ('n gcs_world, cloud_entry list) cloud" where
  "gcs_list_dir env st dir =
     and_then (gcs_request env st ''GET'' (''/o?prefix='' @ ge_percent env (gcs_prefix dir) @ ''&delimiter=/&maxResults=1000'') [] None) (\<lambda>r.
       if wr_status r = 404 then yielding (Inr [])
       else
         and_then (yielding (gcs_ok env ''Failed to read list response'' dir r)) (\<lambda>ok.
         and_then (yielding (body_of ''Failed to read GCS response'' ok)) (\<lambda>text.
           yielding (case ge_parse_list env text of
                       Inl e \<Rightarrow> Inl (StInternal (''Failed to parse GCS list response: '' @ e))
                     | Inr l \<Rightarrow> Inr (gcs_entries env dir (gcs_prefix dir) l)))))"

text \<open>Any answer to the request for the marker will do.\<close>

definition gcs_is_dir :: "'n gcs_env \<Rightarrow> gcs_store \<Rightarrow> string \<Rightarrow> ('n gcs_world, bool) cloud" where
  "gcs_is_dir env st p =
     and_then (attempt (get_token env st)) (\<lambda>t.
       case t of
         Inl _ \<Rightarrow> yielding (Inr False)
       | Inr token \<Rightarrow>
           and_then
             (attempt (gcs_sending env StInternal
                \<lparr> wq_method = ''GET'', wq_url = ''https://storage.googleapis.com/storage/v1/b/'' @ gst_bucket st @ ''/o/'' @ with_slash (object_name p),
                  wq_headers = [(''authorization'', ''Bearer '' @ token)], wq_body = None \<rparr>))
             (\<lambda>marker.
                if is_ok marker then yielding (Inr True)
                else and_then (attempt (gcs_list_dir env st p)) (\<lambda>l.
                       yielding (Inr (case l of Inl _ \<Rightarrow> False | Inr entries \<Rightarrow> entries \<noteq> [])))))"

definition gcs_read :: "'n gcs_env \<Rightarrow> gcs_store \<Rightarrow> string \<Rightarrow> ('n gcs_world, string) cloud" where
  "gcs_read env st p =
     (let object = object_name p in
      and_then (gcs_call env st ''GET'' (''/o/'' @ object @ ''?alt=media'') object [] None) (\<lambda>r.
        yielding (body_of ''Failed to read response body'' r)))"

definition gcs_open :: "'n gcs_env \<Rightarrow> gcs_store \<Rightarrow> string \<Rightarrow> ('n gcs_world, (string, string) result) cloud" where
  "gcs_open env st p = download_to_file env st (object_name p)"

definition gcs_seek_read :: "'n gcs_env \<Rightarrow> gcs_store \<Rightarrow> string \<Rightarrow> nat \<Rightarrow> ('n gcs_world, (string, string) result) cloud" where
  "gcs_seek_read env st p offset = download_with_range env st (object_name p) offset"

definition gcs_write :: "'n gcs_env \<Rightarrow> gcs_store \<Rightarrow> string \<Rightarrow> string \<Rightarrow> ('n gcs_world, unit) cloud" where
  "gcs_write env st p contents =
     (let object = object_name p in
      and_then (gcs_call env st ''POST'' (''/o?uploadType=media&name='' @ ge_percent env object) object
                  [(''content-type'', ''application/octet-stream'')] (Some contents)) (\<lambda>_. yielding (Inr ())))"

definition gcs_append :: "'n gcs_env \<Rightarrow> gcs_store \<Rightarrow> string \<Rightarrow> string \<Rightarrow> ('n gcs_world, unit) cloud" where
  "gcs_append env st p contents = and_then (gcs_read env st p) (\<lambda>existing. gcs_write env st p (existing @ contents))"

definition gcs_delete :: "'n gcs_env \<Rightarrow> gcs_store \<Rightarrow> string \<Rightarrow> ('n gcs_world, unit) cloud" where
  "gcs_delete env st p =
     (let object = object_name p in
      and_then (gcs_call env st ''DELETE'' (''/o/'' @ ge_percent env object) object [] None) (\<lambda>_. yielding (Inr ())))"

definition gcs_create_dir :: "'n gcs_env \<Rightarrow> gcs_store \<Rightarrow> string \<Rightarrow> ('n gcs_world, unit) cloud" where
  "gcs_create_dir env st p =
     (let object = object_name p in
      gcs_write env st (if ends_with object ''/'' then object @ ''.dir/'' else object @ ''/.dir/'') [])"

fun create_markers :: "'n gcs_env \<Rightarrow> gcs_store \<Rightarrow> string \<Rightarrow> string list \<Rightarrow> ('n gcs_world, unit) cloud" where
  "create_markers env st current [] = yielding (Inr ())"
| "create_markers env st current (c # cs) =
     (if c = [] then create_markers env st current cs
      else
        (let current' = (if current = [] then c else current @ ''/'' @ c) in
         and_then (gcs_write env st (current' @ ''/.dir/'') []) (\<lambda>_. create_markers env st current' cs)))"

definition gcs_create_dir_all :: "'n gcs_env \<Rightarrow> gcs_store \<Rightarrow> string \<Rightarrow> ('n gcs_world, unit) cloud" where
  "gcs_create_dir_all env st p = create_markers env st [] (split_on (CHR ''/'') (gcs_prefix p))"

definition has_content :: "cloud_entry \<Rightarrow> bool" where
  "has_content e \<longleftrightarrow> \<not> ce_is_dir e \<or> \<not> ends_with (ce_name e) ''/.dir''"

definition gcs_remove_dir :: "'n gcs_env \<Rightarrow> gcs_store \<Rightarrow> string \<Rightarrow> ('n gcs_world, unit) cloud" where
  "gcs_remove_dir env st p =
     and_then (gcs_list_dir env st p) (\<lambda>entries.
       if list_ex has_content entries then yielding (Inl (StDirectoryNotEmpty p))
       else each (\<lambda>e. gcs_delete env st (ce_path e)) entries)"

definition gcs_remove_dir_all :: "'n gcs_env \<Rightarrow> gcs_store \<Rightarrow> string \<Rightarrow> ('n gcs_world, unit) cloud" where
  "gcs_remove_dir_all env st p =
     and_then (gcs_list_dir env st p) (\<lambda>entries. each (\<lambda>e. gcs_delete env st (ce_path e)) entries)"

definition gcs_copy :: "'n gcs_env \<Rightarrow> gcs_store \<Rightarrow> string \<Rightarrow> string \<Rightarrow> ('n gcs_world, unit) cloud" where
  "gcs_copy env st p q =
     (let source = ge_percent env (object_name p); target = ge_percent env (object_name q) in
      and_then (gcs_call env st ''POST'' (''/o/'' @ source @ ''?destination='' @ target) (object_name q)
                  [(''content-type'', ''application/json'')] None) (\<lambda>_. yielding (Inr ())))"

definition gcs_rename :: "'n gcs_env \<Rightarrow> gcs_store \<Rightarrow> string \<Rightarrow> string \<Rightarrow> ('n gcs_world, unit) cloud" where
  "gcs_rename env st p q = and_then (gcs_copy env st p q) (\<lambda>_. gcs_delete env st p)"

definition gcs_canonicalize :: "gcs_store \<Rightarrow> string \<Rightarrow> ('n gcs_world, string) cloud" where
  "gcs_canonicalize st p = yielding (Inr (''gs://'' @ gst_bucket st @ ''/'' @ object_name p))"

definition gcs_size :: "'n gcs_env \<Rightarrow> gcs_store \<Rightarrow> string \<Rightarrow> ('n gcs_world, nat) cloud" where
  "gcs_size env st p = and_then (gcs_metadata env st p) (\<lambda>m. yielding (Inr (fm_size m)))"

section \<open>The cached token\<close>

lemma valid_token_is_kept:
  "token_valid (ge_now env n) t \<Longrightarrow> get_token env st (Some t, n) = Some (Inr (at_token t), (Some t, n))"
  by (simp add: get_token_def cached_token_def)

text \<open>A token is used until 120 seconds before it expires: the safety margin is taken off when it is stored and again when
  it is looked up. A token that lives for two minutes or less is never used again.\<close>

theorem gcs_token_lifetime:
  assumes "token_of_response env r fetched = Inr t" "wr_body r = Inr body" "ge_parse_token env body = Inr (token, expires_in)"
    and "unat fetched + unat expires_in < 2 ^ 64" "120 \<le> unat fetched + unat expires_in"
  shows "token_valid now t \<longleftrightarrow> unat now + 120 < unat fetched + unat expires_in"
proof -
  have t: "at_expires_at t = fetched + expires_in - 60" using assms(1-3) by (auto simp: token_of_response_def split: if_splits)
  have sum: "unat (fetched + expires_in) = unat fetched + unat expires_in" using assms(4) by (simp add: unat_word_ariths)
  have "unat (fetched + expires_in - 60 - 60) = unat fetched + unat expires_in - 120"
  proof -
    have "(120 :: 64 word) \<le> fetched + expires_in" using assms(5) sum by (simp add: word_le_nat_alt)
    then have "unat (fetched + expires_in - 120) = unat (fetched + expires_in) - 120" by (simp add: unat_sub)
    then show ?thesis by (simp add: sum diff_diff_eq)
  qed
  then show ?thesis using assms(5) by (simp add: token_valid_def t word_less_nat_alt) linarith
qed

section \<open>Directories\<close>

lemma gcs_entries_have_content: "list_all has_content (gcs_entries env dir pre l)"
proof -
  have "has_content e" if "gcs_dir_entry dir x = Some e" for x e
  proof -
    from that have e: "ce_name e = last_segment (trim_end_char (CHR ''/'') x)"
      by (auto simp: gcs_dir_entry_def Let_def cloud_entry_of_def split: if_splits)
    then have "\<not> ends_with (ce_name e) ''/.dir''"
      using last_segment_no_slash[of "trim_end_char (CHR ''/'') x"] by (auto simp: ends_with_suffix suffix_def)
    then show ?thesis by (simp add: has_content_def)
  qed
  moreover have "has_content e" if "gcs_file_entry env dir pre x = Some e" for x e
    using that by (auto simp: gcs_file_entry_def Let_def cloud_entry_of_def has_content_def split: if_splits)
  ultimately show ?thesis by (auto simp: gcs_entries_def list_all_iff in_map_filter)
qed

lemma gcs_list_dir_content:
  assumes "gcs_list_dir env st p w = Some (Inr es, w')"
  shows "list_all has_content es"
  using assms gcs_entries_have_content
  by (auto simp: gcs_list_dir_def and_then_def yielding_def split: option.splits prod.splits sum.splits if_splits)

text \<open>Removing a directory never deletes anything: it reports a directory that lists anything at all as not empty,
  and one that lists nothing as removed, with no request but the listing.\<close>

lemma gcs_remove_dir_removes_nothing:
  "gcs_remove_dir env st p w =
     (case gcs_list_dir env st p w of
        None \<Rightarrow> None
      | Some (Inl e, w') \<Rightarrow> Some (Inl e, w')
      | Some (Inr [], w') \<Rightarrow> Some (Inr (), w')
      | Some (Inr (_ # _), w') \<Rightarrow> Some (Inl (StDirectoryNotEmpty p), w'))"
proof -
  have "list_ex has_content es \<longleftrightarrow> es \<noteq> []" if "gcs_list_dir env st p w = Some (Inr es, w')" for es w'
    using gcs_list_dir_content[OF that] by (cases es) simp_all
  then show ?thesis
    by (auto simp: gcs_remove_dir_def and_then_def yielding_def split: option.splits prod.splits sum.splits list.splits)
qed

text \<open>The prefix asked for lacks its slash: what the service then groups is the directory itself.\<close>

lemma gcs_lists_itself:
  "gcs_entries env ''/photos'' (gcs_prefix ''/photos'') \<lparr> gl_items = None, gl_prefixes = Some [''photos/''] \<rparr>
     = [cloud_entry_of ''photos'' True 0 ''/photos/photos'']"
  by (simp add: gcs_entries_def gcs_prefix_def, code_simp)

lemma gcs_is_dir_any_answer:
  assumes "get_token env st w = Some (Inr token, w1)"
    and "ge_send env \<lparr> wq_method = ''GET'', wq_url = ''https://storage.googleapis.com/storage/v1/b/'' @ gst_bucket st @ ''/o/'' @ with_slash (object_name p),
           wq_headers = [(''authorization'', ''Bearer '' @ token)], wq_body = None \<rparr> (snd w1) = (Inr r, n)"
  shows "gcs_is_dir env st p w = Some (Inr True, (fst w1, n))"
  using assms by (simp add: gcs_is_dir_def and_then_def attempt_def yielding_def gcs_sending_def)

end
