(* ===== verification/Row_Json.thy ===== *)
theory Row_Json
  imports Database Tokens
begin

text \<open>
  The rows of a query as JSON (the macro \<open>impl_db_helpers\<close> of src/db/pool.rs): a column is read as the first of five types
  that sqlx can decode it as, and the pools of Database are made of the raw queries. A column is its name and what
  \<open>try_get\<close> gives for each type; a floating-point number is its text.
\<close>

record sql_column =
  sc_name :: string
  sc_i64 :: "(string, int option) result"
  sc_i32 :: "(string, int option) result"
  sc_f64 :: "(string, string option) result"
  sc_bool :: "(string, bool option) result"
  sc_text :: "(string, string option) result"

text \<open>\<open>json!\<close> of a number that is not finite is null.\<close>

definition json_of_f64 :: "string \<Rightarrow> json" where
  "json_of_f64 f = (if f \<in> {''NaN'', ''inf'', ''-inf''} then JNull else JFloat f)"

definition decoded :: "('a \<Rightarrow> json) \<Rightarrow> (string, 'a option) result \<Rightarrow> (string, json) result" where
  "decoded f r = (case r of Inl e \<Rightarrow> Inl e | Inr None \<Rightarrow> Inr JNull | Inr (Some v) \<Rightarrow> Inr (f v))"

definition or_try :: "(string, json) result \<Rightarrow> (string, json) result \<Rightarrow> (string, json) result" where
  "or_try a b = (case a of Inl _ \<Rightarrow> b | Inr v \<Rightarrow> Inr v)"

definition column_json :: "sql_column \<Rightarrow> json" where
  "column_json c =
     (case or_try (or_try (or_try (or_try (decoded JInt (sc_i64 c)) (decoded JInt (sc_i32 c)))
             (decoded json_of_f64 (sc_f64 c))) (decoded JBool (sc_bool c))) (decoded JStr (sc_text c)) of
        Inl _ \<Rightarrow> JNull
      | Inr v \<Rightarrow> v)"

definition row_to_json :: "sql_column list \<Rightarrow> json" where
  "row_to_json cols = JObj (fold (\<lambda>c. obj_insert (sc_name c) (column_json c)) cols [])"

text \<open>What sqlx runs on one connection, and the pool that the program makes of it.\<close>

record 'db raw_pool =
  rp_driver :: database_driver
  rp_fetch :: "string \<Rightarrow> bind list \<Rightarrow> 'db \<Rightarrow> (string, sql_column list list) result \<times> 'db"
  rp_execute :: "string \<Rightarrow> bind list \<Rightarrow> 'db \<Rightarrow> (string, nat \<times> int) result \<times> 'db"

definition json_pool :: "'db raw_pool \<Rightarrow> 'db pool" where
  "json_pool rp = \<lparr> pl_driver = rp_driver rp,
     pl_query = (\<lambda>sql ps db. case rp_fetch rp sql ps db of
                   (Inl e, db') \<Rightarrow> (Inl e, db')
                 | (Inr rows, db') \<Rightarrow> (Inr (map row_to_json rows), db')),
     pl_execute = rp_execute rp \<rparr>"

text \<open>A column that none of the types decodes, such as a timestamp, a UUID or a blob with some drivers, is null.\<close>

lemma undecodable_column_null:
  "\<lbrakk>sc_i64 c = Inl e1; sc_i32 c = Inl e2; sc_f64 c = Inl e3; sc_bool c = Inl e4; sc_text c = Inl e5\<rbrakk> \<Longrightarrow> column_json c = JNull"
  by (simp add: column_json_def or_try_def decoded_def)

lemma find_append: "find P (xs @ ys) = (case find P xs of Some x \<Rightarrow> Some x | None \<Rightarrow> find P ys)"
  by (induction xs) auto

lemma map_of_fold_obj_insert:
  "map_of (fold (\<lambda>c. obj_insert (f c) (g c)) cs kvs) k
     = (case find (\<lambda>c. f c = k) (rev cs) of Some c \<Rightarrow> Some (g c) | None \<Rightarrow> map_of kvs k)"
  by (induction cs arbitrary: kvs) (auto simp: find_append split: option.splits)

text \<open>Each column of a row is found under its name; of columns with one name, as joins give them, the last.\<close>

lemma row_column:
  "json_get k (row_to_json cols) = map_option column_json (find (\<lambda>c. sc_name c = k) (rev cols))"
  by (simp add: row_to_json_def json_get_def map_of_fold_obj_insert split: option.splits)

lemma row_column_distinct:
  assumes "distinct (map sc_name cols)" "c \<in> set cols"
  shows "json_get (sc_name c) (row_to_json cols) = Some (column_json c)"
proof -
  have "find (\<lambda>d. sc_name d = sc_name c) (rev cols) = Some c"
  proof (cases "find (\<lambda>d. sc_name d = sc_name c) (rev cols)")
    case None
    with assms(2) show ?thesis by (auto simp: find_None_iff)
  next
    case (Some d)
    then have "d \<in> set cols" "sc_name d = sc_name c" by (auto simp: find_Some_iff) (metis nth_mem set_rev length_rev)
    with assms have "d = c" by (simp add: distinct_map inj_on_def)
    with Some show ?thesis by simp
  qed
  then show ?thesis by (simp add: row_column)
qed

end
