(* ===== verification/Server_Main.thy ===== *)
theory Server_Main
  imports Startup
begin

text \<open>
  The command line (src/main.rs): what \<open>main\<close> does with its options until it listens or exits, the TLS configuration
  (src/server/tls.rs), keep-alive of connections, and the wait for open connections at the shutdown. Files, certificates, sockets
  and the address parser are parameters; of an exit its status and the line it logs are given.
\<close>

section \<open>TLS\<close>

record ('cert, 'key) tls_env =
  te_open :: "string \<Rightarrow> (string, string) result"
  te_certs :: "string \<Rightarrow> (string, 'cert list) result"
  te_private_key :: "string \<Rightarrow> (string, 'key option) result"
  te_protocols :: "(string, unit) result"
  te_single_cert :: "'cert list \<Rightarrow> 'key \<Rightarrow> (string, unit) result"

definition build_rustls_config :: "('cert, 'key) tls_env \<Rightarrow> tls_config \<Rightarrow> (app_error, 'cert list \<times> 'key) result" where
  "build_rustls_config env tls =
     (case te_open env (tls_cert tls) of
        Inl e \<Rightarrow> Inl (ConfigurationError (''Failed to open TLS cert file '' @ apos (tls_cert tls) @ '': '' @ e))
      | Inr pem \<Rightarrow>
     (case te_certs env pem of
        Inl e \<Rightarrow> Inl (ConfigurationError (''Failed to parse TLS certificates: '' @ e))
      | Inr certs \<Rightarrow>
          if certs = [] then Inl (ConfigurationError ''TLS cert file contains no valid certificates'')
          else
     (case te_open env (tls_key tls) of
        Inl e \<Rightarrow> Inl (ConfigurationError (''Failed to open TLS key file '' @ apos (tls_key tls) @ '': '' @ e))
      | Inr key_pem \<Rightarrow>
     (case te_private_key env key_pem of
        Inl e \<Rightarrow> Inl (ConfigurationError (''Failed to parse TLS private key: '' @ e))
      | Inr None \<Rightarrow> Inl (ConfigurationError ''TLS key file contains no valid private key'')
      | Inr (Some key) \<Rightarrow>
     (case te_protocols env of
        Inl e \<Rightarrow> Inl (ConfigurationError (''Failed to set TLS protocol versions: '' @ e))
      | Inr _ \<Rightarrow>
     (case te_single_cert env certs key of
        Inl e \<Rightarrow> Inl (ConfigurationError (''Failed to build TLS config: '' @ e))
      | Inr _ \<Rightarrow> Inr (certs, key)))))))"

definition build_tls_acceptor :: "('cert, 'key) tls_env \<Rightarrow> tls_config \<Rightarrow> (app_error, 'cert list \<times> 'key) result" where
  "build_tls_acceptor env tls = build_rustls_config env tls"

section \<open>The command line\<close>

record cli =
  cli_config :: "string option"
  cli_admin_token :: string
  cli_validate :: bool
  cli_dry_run :: bool

text \<open>The derived \<open>Debug\<close> names.\<close>

fun method_debug :: "http_method \<Rightarrow> string" where
  "method_debug Get = ''Get''"
| "method_debug Post = ''Post''"
| "method_debug Put = ''Put''"
| "method_debug Patch = ''Patch''"
| "method_debug Delete = ''Delete''"
| "method_debug Options = ''Options''"
| "method_debug Head = ''Head''"

fun action_debug :: "endpoint_action \<Rightarrow> string" where
  "action_debug ActCrud = ''Crud''"
| "action_debug ActProxy = ''Proxy''"
| "action_debug ActStaticFiles = ''StaticFiles''"
| "action_debug ActSpaHost = ''SpaHost''"
| "action_debug ActMedia = ''Media''"
| "action_debug ActFileStore = ''FileStore''"
| "action_debug ActCustomResponse = ''CustomResponse''"

definition dry_run_report :: "app_config \<Rightarrow> string list" where
  "dry_run_report c =
     [''Resolved configuration:'', ''  Server: '' @ srv_host (ac_server c) @ '':'' @ show_nat (srv_port (ac_server c)),
      ''  Databases: '' @ show_nat (length (ac_databases c)), ''  Tables: '' @ show_nat (length (ac_tables c)),
      ''  Stores: '' @ show_nat (length (ac_stores c)), ''  Endpoints:'']
     @ map (\<lambda>ep. ''    '' @ ep_path ep @ '' ['' @ join '', '' (map method_debug (ep_methods ep)) @ ''] -> '' @ action_debug (ep_action ep))
         (ac_endpoints c)"

text \<open>HTTP/1 keep-alive: the time a connection may idle, \<open>None\<close> for none.\<close>

definition build_http_builder :: "nat \<Rightarrow> nat option" where
  "build_http_builder keep_alive = (if keep_alive = 0 then None else Some keep_alive)"

record ('addr, 'cert, 'key) listen_env =
  li_parse :: "string \<Rightarrow> (string, 'addr) result"
  li_bind :: "'addr \<Rightarrow> (string, string) result"
  li_show :: "'addr \<Rightarrow> string"
  li_tls :: "('cert, 'key) tls_env"

datatype 'st outcome =
    Exited nat "string list"
  | Listening string "nat option" 'st

definition listen :: "('addr, 'cert, 'key) listen_env \<Rightarrow> server_config \<Rightarrow> 'st \<Rightarrow> 'st outcome" where
  "listen env srv st =
     (let bind = srv_host srv @ '':'' @ show_nat (srv_port srv) in
      case li_parse env bind of
        Inl e \<Rightarrow> Exited 1 [''Invalid bind address '' @ apos bind @ '': '' @ e]
      | Inr addr \<Rightarrow>
          (case li_bind env addr of
             Inl e \<Rightarrow> Exited 1 [''Failed to bind to '' @ li_show env addr @ '': '' @ e]
           | Inr local_addr \<Rightarrow>
               (case srv_tls srv of
                  None \<Rightarrow> Listening (''http://'' @ local_addr) (build_http_builder (srv_keep_alive srv)) st
                | Some tls \<Rightarrow>
                    (case build_tls_acceptor (li_tls env) tls of
                       Inl e \<Rightarrow> Exited 1 [''Failed to configure TLS: '' @ app_error_display e]
                     | Inr _ \<Rightarrow> Listening (''https://'' @ local_addr) (build_http_builder (srv_keep_alive srv)) st))))"

text \<open>\<open>startup\<close> loads the configuration as \<open>main\<close> has done before: the files are the same.\<close>

definition async_main :: "nat \<Rightarrow> ('db, 's, 'v) reload_world \<Rightarrow> ('addr, 'cert, 'key) listen_env \<Rightarrow> cli \<Rightarrow> app_config \<Rightarrow> path \<Rightarrow> 'db
    \<Rightarrow> ((('db, 's, 'v) app_state \<times> 'db revocation_impl option) outcome \<times> 'db) option" where
  "async_main fuel w env cli config config_path db =
     (if cli_validate cli then
        (case schema_registry_new (rw_schemas w) config config_path of
           Inl e \<Rightarrow> Some (Exited 1 [''Configuration validation failed: '' @ app_error_display e], db)
         | Inr _ \<Rightarrow> Some (Exited 0 [''Configuration is valid.''], db))
      else if cli_dry_run cli then Some (Exited 0 (dry_run_report config), db)
      else
        (case startup fuel w config_path (cli_admin_token cli) db of
           None \<Rightarrow> None
         | Some (Inl m, db') \<Rightarrow> Some (Exited 1 [m], db')
         | Some (Inr (st, store), db') \<Rightarrow> Some (listen env (ac_server config) (st, store), db')))"

definition main_run :: "nat \<Rightarrow> ('db, 's, 'v) reload_world \<Rightarrow> ('addr, 'cert, 'key) listen_env \<Rightarrow> string option \<Rightarrow> (string \<Rightarrow> bool) \<Rightarrow> cli \<Rightarrow> 'db
    \<Rightarrow> ((('db, 's, 'v) app_state \<times> 'db revocation_impl option) outcome \<times> 'db) option" where
  "main_run fuel w env home exists cli db =
     (let config_path = components (resolve_config_path (cli_config cli) home exists) in
      case load_config fuel (rw_loader w) config_path of
        None \<Rightarrow> None
      | Some (Inl e) \<Rightarrow> Some (Exited 1 [''Failed to load config: '' @ app_error_display e], db)
      | Some (Inr config) \<Rightarrow> async_main fuel w env cli config config_path db)"

text \<open>Validating and the dry run never touch a database, and never listen.\<close>

theorem checking_is_offline:
  assumes "main_run fuel w env home exists cli db = Some (r, db')" "cli_validate cli \<or> cli_dry_run cli"
  shows "db' = db \<and> (\<exists>status lines. r = Exited status lines \<and> (status = 0 \<longleftrightarrow>
    (\<exists>config. load_config fuel (rw_loader w) (components (resolve_config_path (cli_config cli) home exists)) = Some (Inr config)
      \<and> (cli_validate cli \<longrightarrow>
          is_ok (schema_registry_new (rw_schemas w) config (components (resolve_config_path (cli_config cli) home exists)))))))"
  using assms
  by (auto simp: main_run_def async_main_def Let_def split: option.splits sum.splits if_splits)

section \<open>The shutdown\<close>

text \<open>
  The instants, in milliseconds after the listener has stopped, at which the open connections end, in that order; five seconds
  are waited. The result is the number of connections that are closed by force. The configured timeout is no input.
\<close>

definition conn_timeout :: nat where
  "conn_timeout = 5000"

fun drain :: "nat \<Rightarrow> nat list \<Rightarrow> nat" where
  "drain waited [] = 0"
| "drain waited (t # ts) =
     (if conn_timeout \<le> waited then length (t # ts)
      else if t \<le> conn_timeout then drain (max waited t) ts
      else length (t # ts))"

lemma drain_late:
  assumes "sorted ts" "conn_timeout \<notin> set ts" "waited < conn_timeout"
  shows "drain waited ts = length (filter (\<lambda>t. conn_timeout < t) ts)"
  using assms
proof (induction ts arbitrary: waited)
  case (Cons t ts)
  show ?case
  proof (cases "t \<le> conn_timeout")
    case True
    with Cons.prems have "t < conn_timeout" by auto
    with Cons show ?thesis by simp
  next
    case False
    with Cons.prems(1) have "filter (\<lambda>t. conn_timeout < t) ts = ts" by (auto simp: filter_id_conv)
    with False Cons.prems(3) show ?thesis by simp
  qed
qed simp

end
