(* ===== verification/Spec2Isabelle.thy ===== *)
theory Spec2Isabelle
  imports Select_Security Mutation_Builders Stmt_Builders Roles Rate_Limit Topo_Sort Routing
    Tokens OAuth2 Authenticate Database Crud_Handlers Auth_Handlers
    Paths Storage Path_Helpers Static_Serving Static_Files Uploads Migration Migration_Props
    App_Config Validation Validation_Props Loader Loader_Props
    Schema_Registry App_State Reload Startup Serving_Props Proxy Spa_Host Handler_Context File_Store Media Files_Props Middleware Router
    Native_Store Azure_Store S3_Store Gcs_Store Row_Json Server_Main
begin

text \<open>
  Verification of main-serve, a server configured by one YAML file that answers requests from databases, stores of
  files, upstream servers and fixed texts. The development models the program as written: what the sources under
  src/src compute is defined, what other crates do is an argument of the definitions or a hypothesis, and each
  theory opens with what it takes as given. Properties of the program carry the marks C1 to C40; a theorem
  <name>_witness applies one of them at a concrete input.

  The program and its parts. At the start (main.rs) the configuration is loaded (config/loader.rs) and validated
  (config/validation/), the shared state is made (server/state.rs, storage/mod.rs), pools are opened (db/pool.rs), tables
  are migrated (db/migration.rs) and the routes are built (server/router.rs). A request then passes the rate limiter
  (middleware/rate_limit.rs), authentication (middleware/auth/), the logging of bodies and the limit on their size, and
  reaches the handler of the pattern it matched (handlers/). CRUD, file store and media handlers build SQL
  (db/query/) and run it on a pool; file handlers act on a store (storage/). A reload (server/reload.rs) swaps
  configuration, pools and schemas while requests are served.

  Theories and sources.
  Prelude, Rust_Std, Json, Yaml, Paths: lists of entries as hash maps, strings, numbers and their printing and parsing,
  serde_json and serde_yaml values, std::path.
  App_Error (error.rs, storage/error.rs); Config_Types, Auth_Types, App_Config (config/types/): data as the code has it.
  Loader, Loader_Props (config/loader.rs); Validation, Validation_Props (config/validation/); Schema_Registry
  (config/schema_registry.rs, config/types/schema.rs).
  Sql_Helpers, Filters, Filter_Behavior, Interpolation (db/query/helpers/, types.rs, traits.rs); Select_Builder,
  Mutation_Builders, Stmt_Builders (select.rs, builders/, select_one.rs, update.rs, revocation.rs); Sql_Text is
  the specification of parameter markers; Select_Props and Select_Security hold the proofs on SELECT.
  Database, Row_Json (db/pool.rs); Topo_Sort, Migration, Migration_Props (db/migration.rs).
  Roles, Rate_Limit, Tokens, OAuth2, Authenticate (middleware/, server/state.rs); Routing (server/prefix_match.rs, the
  table of endpoints of server/router.rs and its lookup in server/state.rs).
  Crud_Handlers, Auth_Handlers (handlers/crud.rs, auth.rs); Storage (storage/); Path_Helpers (handlers/common/);
  Static_Serving, Static_Files, Uploads (handlers/static_files/); Proxy (handlers/proxy.rs, custom_response.rs); Spa_Host
  (handlers/spa_host.rs); Handler_Context, File_Store, Media, Files_Props (handlers/common/utils.rs, file_store/, media/).
  Native_Store, Azure_Store, S3_Store, Gcs_Store (storage/backend/), the last three on the requests and actions of Cloud_Http.
  App_State (server/state.rs, storage/mod.rs, db/pool.rs); Reload (server/reload.rs); Startup, Server_Main (main.rs, server/tls.rs); Serving_Props
  (the state from the start through reloads); Middleware (middleware/body_limit.rs, logging.rs, cors.rs); Router
  (server/router.rs, with a request's whole way to a CRUD handler).

  State and operations. A struct is a record, an enum a datatype, a Result a sum whose left side is the error, a hash map
  the list of its entries in iteration order. A handler is a function from its inputs and the state it changes to
  its result and the new state; the file store and media handlers are actions on the pair of database and
  stores (Handler_Context), stopping at the first error as the operator ? does. A panic is None where one can occur. Integers
  are kept at their width where the code can leave it: page offsets, windows of the rate limiter, orders of references.
  What sits behind a lock is changed in steps, one request after another: the limiter, the pending logins
  (an inductive step relation), the revocation store, reloads of the state.

  Interfaces. file_store (Storage) is what handlers rely on of a store, interpreted on the in-memory backend, which also
  refines an abstract file system; filter_dialect (Filter_Behavior) is the contract of the three SQL dialects, interpreted
  on all of them; revocation_store (Tokens) is that of the set of revoked tokens.

  What is shown. Each claim's text states the conditions it holds under. Queries: the values of a request stay out of the
  text of a statement (C1, C28), markers and parameters agree (C5), filter keys are parsed as documented (C38), pages tile
  a result (C33), an INSERT writes the columns a client may write and the owner (C6); CRUD runs exactly its statements (C4),
  after all layers (C3). Access: an endpoint that asks for a credential and a role gets those of the request (C2, C10, C34),
  tokens carry what they were made with (C36) and fail when revoked (C8), login needs the password (C7), states of a login
  are used once (C9), the session of a login authenticates (C32), the limiter treats clients apart and refuses only
  those over their limit (C11, C12, C31), bodies are bounded (C26). Configuration: loading ends (C16) with a resolved and
  valid configuration (C15), validity gives each handler what it looks up (C14, C27), JSON columns are checked (C19).
  Databases: tables are created in dependency order (C29) by planned statements (C13, C39). Files: a listing is what lies
  directly below (C37), uploads are served back (C30), paths stay below the root (C21, C24), entries of others
  are protected (C20), the trash gives files back (C22), applications always answer (C25), ranges agree (C40), the
  proxy relays (C23), requests to Azure are signed by HMAC (C35). Serving: configuration and pools stay consistent (C17),
  and a reload applies a valid configuration or, refused, changes nothing (C18).

  Bounds and fuel. Loading a file costs one unit of fuel, since files include files: more fuel than there are files is
  enough, and the outcome then no longer depends on it (C16). Everything else ends by construction, the searches of Roles and
  Topo_Sort by measures, but for the loop of the Azure backend over a directory, a partial function with None where it
  does not end (azure_remove_dir_all_endless). Totals of pages are exact below 2^53. Strings are lists of characters up to U+00FF,
  one for each scalar value; request bodies and file contents are lists of bytes.

  Not modelled, and why. What the operating system, S3, Azure and GCS answer is not in the sources: the backends are
  functions of it, and handlers are stated over any store. Sockets, signals, the tokio
  runtime, the clean-up task, compression, tracing and log lines do not decide an answer; of the shutdown the wait for open
  connections is modelled. What a column of a row decodes as is sqlx's. Matching a path against the patterns, decoding
  queries and reading multipart bodies belong to axum. Concurrency within one operation is not modelled: a handler's
  steps on a database or a store are taken to run without interference, and two reloads never overlap.
\<close>

end
